(* ===== verification/Prelude.thy ===== *)
theory Prelude
  imports Main "HOL-Library.AList" "HOL-Library.Char_ord" "HOL-Library.List_Lexorder"
begin

text \<open>
  Shared vocabulary of the development: the result type of fallible Rust code, the keyed-map
  contract that the two map types of the source (an insertion ordered map and a key ordered
  map) provide, the lease contract that the reviewer locks and the submission leases provide,
  and the list lemmas that the stores of the services share.
\<close>

named_theorems result_simps \<open>unfolding of the result combinators\<close>
named_theorems store_simps \<open>what the stores return after an update\<close>

type_synonym time = int

section \<open>Results\<close>

text \<open>A Rust \<open>Result<T, E>\<close> is \<open>'e + 'a\<close>; the question mark operator is \<open>bind_result\<close>.\<close>

definition bind_result :: "'e + 'a \<Rightarrow> ('a \<Rightarrow> 'e + 'b) \<Rightarrow> 'e + 'b" where
  "bind_result r f = (case r of Inl e \<Rightarrow> Inl e | Inr x \<Rightarrow> f x)"

definition map_err :: "('e \<Rightarrow> 'f) \<Rightarrow> 'e + 'a \<Rightarrow> 'f + 'a" where
  "map_err f r = (case r of Inl e \<Rightarrow> Inl (f e) | Inr x \<Rightarrow> Inr x)"

definition ok_or :: "'e \<Rightarrow> 'a option \<Rightarrow> 'e + 'a" where
  "ok_or e x = (case x of None \<Rightarrow> Inl e | Some y \<Rightarrow> Inr y)"

definition is_ok :: "'e + 'a \<Rightarrow> bool" where
  "is_ok r = (case r of Inl _ \<Rightarrow> False | Inr _ \<Rightarrow> True)"

lemma bind_result_simps [simp, result_simps]:
  "bind_result (Inl e) f = Inl e" "bind_result (Inr x) f = f x"
  by (simp_all add: bind_result_def)

lemma map_err_simps [simp, result_simps]:
  "map_err f (Inl e) = Inl (f e)" "map_err f (Inr x) = Inr x"
  by (simp_all add: map_err_def)

lemma ok_or_simps [simp, result_simps]:
  "ok_or e None = Inl e" "ok_or e (Some x) = Inr x"
  by (simp_all add: ok_or_def)

lemma is_ok_simps [simp, result_simps]:
  "\<not> is_ok (Inl e)" "is_ok (Inr x)"
  by (simp_all add: is_ok_def)

lemma bind_result_Inr: "bind_result r f = Inr y \<longleftrightarrow> (\<exists>x. r = Inr x \<and> f x = Inr y)"
  by (cases r) auto

lemma map_err_Inr [simp]: "map_err f r = Inr x \<longleftrightarrow> r = Inr x"
  by (cases r) auto

lemma ok_or_Inr [simp]: "ok_or e r = Inr x \<longleftrightarrow> r = Some x"
  by (cases r) auto

section \<open>Keyed maps\<close>

text \<open>
  \<open>serde_json::Map\<close> is built with \<open>preserve_order\<close>: an insertion ordered map whose
  \<open>insert\<close> replaces in place or appends and whose \<open>remove\<close> moves the last entry into
  the hole. A \<open>BTreeMap\<close> keeps its entries in key order. Both are association lists here
  and both satisfy the same lookup laws.
\<close>

locale keyed_map =
  fixes lookup :: "'m \<Rightarrow> 'k \<Rightarrow> 'v option"
    and insert :: "'k \<Rightarrow> 'v \<Rightarrow> 'm \<Rightarrow> 'm"
    and remove :: "'k \<Rightarrow> 'm \<Rightarrow> 'm"
    and inv :: "'m \<Rightarrow> bool"
  assumes lookup_insert: "inv m \<Longrightarrow> lookup (insert k v m) = (lookup m)(k \<mapsto> v)"
    and lookup_remove: "inv m \<Longrightarrow> lookup (remove k m) = (lookup m)(k := None)"
    and inv_insert: "inv m \<Longrightarrow> inv (insert k v m)"
    and inv_remove: "inv m \<Longrightarrow> inv (remove k m)"
begin

lemma lookup_insert_other: "inv m \<Longrightarrow> k' \<noteq> k \<Longrightarrow> lookup (insert k v m) k' = lookup m k'"
  by (simp add: lookup_insert)

lemma lookup_remove_other: "inv m \<Longrightarrow> k' \<noteq> k \<Longrightarrow> lookup (remove k m) k' = lookup m k'"
  by (simp add: lookup_remove)

lemma lookup_remove_insert:
  "inv m \<Longrightarrow> lookup (remove k (insert k v m)) = (lookup m)(k := None)"
  by (simp add: lookup_remove lookup_insert inv_insert)

lemma inv_fold_insert: "inv m \<Longrightarrow> inv (fold (\<lambda>(k, v). insert k v) kvs m)"
  by (induction kvs arbitrary: m) (auto simp: inv_insert)

lemma lookup_fold_insert:
  "inv m \<Longrightarrow> lookup (fold (\<lambda>(k, v). insert k v) kvs m) = lookup m ++ map_of (rev kvs)"
proof (induction kvs arbitrary: m)
  case Nil
  then show ?case by simp
next
  case (Cons kv kvs)
  obtain k v where kv: "kv = (k, v)" by (cases kv)
  have "lookup (fold (\<lambda>(k, v). insert k v) kvs (insert k v m))
      = lookup (insert k v m) ++ map_of (rev kvs)"
    using Cons.IH [of "insert k v m"] Cons.prems by (simp add: inv_insert)
  then show ?case
    by (simp add: kv lookup_insert [OF Cons.prems] map_add_upd_left map_of_append)
qed

lemma lookup_fold_insert_other:
  assumes "inv m" and "k \<notin> fst ` set kvs"
  shows "lookup (fold (\<lambda>(k, v). insert k v) kvs m) k = lookup m k"
proof -
  have "map_of (rev kvs) k = None"
    using assms(2) by (simp add: map_of_eq_None_iff)
  then show ?thesis
    by (simp add: lookup_fold_insert [OF assms(1)] map_add_def)
qed

end

section \<open>Vectors searched by a key\<close>

text \<open>\<open>iter().position(p)\<close>, and \<open>iter_mut().find(p)\<close> followed by an update in place.\<close>

fun position :: "('a \<Rightarrow> bool) \<Rightarrow> 'a list \<Rightarrow> nat option" where
  "position p [] = None"
| "position p (x # xs) = (if p x then Some 0 else map_option Suc (position p xs))"

definition update_first :: "('a \<Rightarrow> bool) \<Rightarrow> ('a \<Rightarrow> 'a) \<Rightarrow> 'a list \<Rightarrow> 'a list" where
  "update_first p f xs = (case position p xs of None \<Rightarrow> xs | Some i \<Rightarrow> xs[i := f (xs ! i)])"

definition replace_or_insert :: "('a \<Rightarrow> 'k) \<Rightarrow> 'a \<Rightarrow> 'a list \<Rightarrow> 'a list" where
  "replace_or_insert key v xs =
     (case position (\<lambda>x. key x = key v) xs of Some i \<Rightarrow> xs[i := v] | None \<Rightarrow> xs @ [v])"

definition remove_at :: "nat \<Rightarrow> 'a list \<Rightarrow> 'a list" where
  "remove_at i xs = take i xs @ drop (Suc i) xs"

lemma position_Some:
  "position p xs = Some i \<Longrightarrow> i < length xs \<and> p (xs ! i) \<and> (\<forall>j<i. \<not> p (xs ! j))"
proof (induction xs arbitrary: i)
  case (Cons x xs)
  then show ?case by (auto split: if_splits simp: nth_Cons')
qed simp

lemma position_None: "position p xs = None \<longleftrightarrow> (\<forall>x \<in> set xs. \<not> p x)"
  by (induction xs) auto

lemma find_position: "find p xs = map_option (\<lambda>i. xs ! i) (position p xs)"
  by (induction xs) (auto simp: option.map_comp comp_def)

lemma find_position_Some: "position p xs = Some i \<Longrightarrow> find p xs = Some (xs ! i)"
  by (simp add: find_position)

lemma find_Some_position: "find p xs = Some x \<Longrightarrow> \<exists>i. position p xs = Some i \<and> xs ! i = x"
  by (auto simp: find_position)

lemma find_Some_in_set: "find p xs = Some x \<Longrightarrow> x \<in> set xs \<and> p x"
  by (auto simp: find_Some_iff)

lemma find_append:
  "find p (xs @ ys) = (case find p xs of None \<Rightarrow> find p ys | Some x \<Rightarrow> Some x)"
  by (induction xs) auto

lemma find_list_update:
  assumes "position (\<lambda>x. key x = k) xs = Some i" and "key a = k"
  shows "find (\<lambda>x. key x = k') (xs[i := a]) = (if k' = k then Some a else find (\<lambda>x. key x = k') xs)"
  using assms
proof (induction xs arbitrary: i)
  case (Cons x xs)
  show ?case
  proof (cases "key x = k")
    case True
    then show ?thesis using Cons.prems by auto
  next
    case False
    then obtain j where "position (\<lambda>x. key x = k) xs = Some j" "i = Suc j"
      using Cons.prems by (auto split: if_splits)
    then show ?thesis using Cons.IH [of j] Cons.prems(2) False by auto
  qed
qed simp

lemma map_key_list_update:
  assumes "position (\<lambda>x. key x = k) xs = Some i" and "key a = k"
  shows "map key (xs[i := a]) = map key xs"
proof -
  have "i < length xs" and "key (xs ! i) = k"
    using position_Some [OF assms(1)] by auto
  then show ?thesis using assms(2) by (simp add: map_update list_update_same_conv)
qed

lemma find_replace_or_insert [store_simps]:
  "find (\<lambda>x. key x = k) (replace_or_insert key v xs) =
     (if k = key v then Some v else find (\<lambda>x. key x = k) xs)"
proof (cases "position (\<lambda>x. key x = key v) xs")
  case None
  then have "\<forall>x \<in> set xs. key x \<noteq> key v" by (simp add: position_None)
  then have "find (\<lambda>x. key x = key v) xs = None" by (simp add: find_None_iff)
  with None show ?thesis
    by (auto simp: replace_or_insert_def find_append split: option.splits)
next
  case (Some i)
  then show ?thesis by (simp add: replace_or_insert_def find_list_update)
qed

lemma distinct_replace_or_insert:
  "distinct (map key xs) \<Longrightarrow> distinct (map key (replace_or_insert key v xs))"
  by (auto simp: replace_or_insert_def map_key_list_update position_None split: option.splits)

lemma set_replace_or_insert: "set (replace_or_insert key v xs) \<subseteq> insert v (set xs)"
  by (auto simp: replace_or_insert_def split: option.splits dest: set_update_subset_insert [THEN subsetD])

lemma find_update_first [store_simps]:
  assumes "\<And>x. key (f x) = key x"
  shows "find (\<lambda>x. key x = k') (update_first (\<lambda>x. key x = k) f xs) =
    (if k' = k then map_option f (find (\<lambda>x. key x = k) xs) else find (\<lambda>x. key x = k') xs)"
proof (cases "position (\<lambda>x. key x = k) xs")
  case None
  then show ?thesis by (simp add: update_first_def find_position)
next
  case (Some i)
  then have "key (xs ! i) = k" using position_Some by blast
  with Some show ?thesis
    by (simp add: update_first_def find_list_update assms find_position_Some)
qed

lemma map_key_update_first:
  assumes "\<And>x. key (f x) = key x"
  shows "map key (update_first p f xs) = map key xs"
proof (cases "position p xs")
  case (Some i)
  then have "i < length xs" using position_Some by blast
  then show ?thesis
    using Some assms by (simp add: update_first_def map_update list_update_same_conv)
qed (simp add: update_first_def)

lemma length_update_first [simp]: "length (update_first p f xs) = length xs"
  by (simp add: update_first_def split: option.splits)

lemma split_at: "i < length xs \<Longrightarrow> xs = take i xs @ [xs ! i] @ drop (Suc i) xs"
  by (simp add: id_take_nth_drop [symmetric])

lemma set_remove_at: "set (remove_at i xs) \<subseteq> set xs"
  by (auto simp: remove_at_def dest: in_set_takeD in_set_dropD)

section \<open>Ordered sets of strings\<close>

text \<open>A \<open>BTreeSet\<close> of strings, iterated in order.\<close>

definition sorted_unique :: "string list \<Rightarrow> string list" where
  "sorted_unique xs = remdups_adj (sort xs)"

lemma set_sorted_unique [simp]: "set (sorted_unique xs) = set xs"
  by (simp add: sorted_unique_def)

lemma strict_remdups_adj: "sorted xs \<Longrightarrow> sorted_wrt (<) (remdups_adj xs)"
proof (induction xs rule: remdups_adj.induct)
  case (3 x y xs)
  have "set (remdups_adj (y # xs)) = set (y # xs)" by simp
  then show ?case using 3 by (auto simp: less_le simp del: remdups_adj_set)
qed simp_all

lemma sorted_unique_strict: "sorted_wrt (<) (sorted_unique xs)"
  by (simp add: sorted_unique_def strict_remdups_adj)

lemma sorted_unique_cong: "set xs = set ys \<Longrightarrow> sorted_unique xs = sorted_unique ys"
  using strict_sorted_equal [OF sorted_unique_strict [of xs] sorted_unique_strict [of ys]] by simp

end
