(* ===== verification/Rust_Text.thy ===== *)
theory Rust_Text
  imports Prelude
begin

text \<open>
  The \<open>str\<close> operations of the Rust standard library that the services call. A
  \<open>String\<close> is its UTF-8 bytes, one \<open>char\<close> per byte, so that \<open>length\<close> is
  Rust's \<open>len()\<close>. \<open>trim\<close> removes the code points of the Unicode property
  White\_Space and \<open>has_control\<close> looks for the code points of category Cc, both read off
  the bytes.
\<close>

definition byte :: "char \<Rightarrow> nat" where
  "byte c = of_char c"

definition ascii_lower :: "char \<Rightarrow> char" where
  "ascii_lower c = (if 65 \<le> byte c \<and> byte c \<le> 90 then char_of (byte c + 32) else c)"

definition ascii_upper :: "char \<Rightarrow> char" where
  "ascii_upper c = (if 97 \<le> byte c \<and> byte c \<le> 122 then char_of (byte c - 32) else c)"

definition to_ascii_lowercase :: "string \<Rightarrow> string" where
  "to_ascii_lowercase s = map ascii_lower s"

definition to_ascii_uppercase :: "string \<Rightarrow> string" where
  "to_ascii_uppercase s = map ascii_upper s"

definition eq_ignore_ascii_case :: "string \<Rightarrow> string \<Rightarrow> bool" where
  "eq_ignore_ascii_case a b = (to_ascii_lowercase a = to_ascii_lowercase b)"

text \<open>Number of bytes of the white space code point a string starts with, 0 if none.\<close>

definition space_prefix :: "nat list \<Rightarrow> nat" where
  "space_prefix bs =
     (if bs = [] then 0
      else let b = bs ! 0; c = (if 1 < length bs then bs ! 1 else 0);
               d = (if 2 < length bs then bs ! 2 else 0)
      in if (9 \<le> b \<and> b \<le> 13) \<or> b = 32 then 1
         else if b = 194 \<and> (c = 133 \<or> c = 160) then 2
         else if (b = 225 \<and> c = 154 \<and> d = 128)
               \<or> (b = 226 \<and> c = 128 \<and> (128 \<le> d \<and> d \<le> 138 \<or> d = 168 \<or> d = 169 \<or> d = 175))
               \<or> (b = 226 \<and> c = 129 \<and> d = 159)
               \<or> (b = 227 \<and> c = 128 \<and> d = 128)
         then 3 else 0)"

text \<open>The same at the end of the string, read from the last byte backwards.\<close>

definition space_suffix :: "nat list \<Rightarrow> nat" where
  "space_suffix bs =
     (if bs = [] then 0
      else let d = bs ! 0; c = (if 1 < length bs then bs ! 1 else 0);
               b = (if 2 < length bs then bs ! 2 else 0)
      in if (9 \<le> d \<and> d \<le> 13) \<or> d = 32 then 1
         else if c = 194 \<and> (d = 133 \<or> d = 160) then 2
         else if b = 225 \<or> b = 226 \<or> b = 227 then space_prefix [b, c, d]
         else 0)"

function trim_front :: "(nat list \<Rightarrow> nat) \<Rightarrow> string \<Rightarrow> string" where
  "trim_front p s =
     (let n = p (map byte s) in if 0 < n \<and> s \<noteq> [] then trim_front p (drop n s) else s)"
  by pat_completeness auto
termination by (relation "measure (\<lambda>(p, s). length s)") auto

declare trim_front.simps [simp del]

definition trim :: "string \<Rightarrow> string" where
  "trim s = rev (trim_front space_suffix (rev (trim_front space_prefix s)))"

abbreviation blank :: "string \<Rightarrow> bool" where
  "blank s \<equiv> trim s = []"

fun has_control :: "string \<Rightarrow> bool" where
  "has_control [] = False"
| "has_control (c # cs) =
     (byte c < 32 \<or> byte c = 127
      \<or> (byte c = 194 \<and> (case cs of [] \<Rightarrow> False | d # _ \<Rightarrow> 128 \<le> byte d \<and> byte d \<le> 159))
      \<or> has_control cs)"

text \<open>\<open>value.rsplit(['/', '\\']).next()\<close>: what follows the last separator.\<close>

definition after_last_separator :: "string \<Rightarrow> string" where
  "after_last_separator s = rev (takeWhile (\<lambda>c. c \<noteq> CHR ''/'' \<and> c \<noteq> CHR 0x5C) (rev s))"

definition starts_with :: "string \<Rightarrow> string \<Rightarrow> bool" where
  "starts_with p s = (take (length p) s = p)"

definition ends_with :: "string \<Rightarrow> string \<Rightarrow> bool" where
  "ends_with p s = starts_with (rev p) (rev s)"

text \<open>\<open>s.split(c)\<close>: at least one piece.\<close>

fun split_on :: "char \<Rightarrow> string \<Rightarrow> string list" where
  "split_on c [] = [[]]"
| "split_on c (d # ds) =
     (if d = c then [] # split_on c ds
      else case split_on c ds of [] \<Rightarrow> [[d]] | p # ps \<Rightarrow> (d # p) # ps)"

section \<open>Facts\<close>

lemma byte_less_256 [simp]: "byte c < 256"
  unfolding byte_def by (metis of_char_mod_256 mod_less_divisor zero_less_numeral)

lemma byte_char_of: "n < 256 \<Longrightarrow> byte (char_of n) = n"
  by (simp add: byte_def)

lemma ascii_lower_idem [simp]: "ascii_lower (ascii_lower c) = ascii_lower c"
  by (auto simp: ascii_lower_def byte_char_of)

lemma to_ascii_lowercase_idem [simp]:
  "to_ascii_lowercase (to_ascii_lowercase s) = to_ascii_lowercase s"
  by (simp add: to_ascii_lowercase_def)

lemma eq_ignore_ascii_case_refl [simp]: "eq_ignore_ascii_case s s"
  by (simp add: eq_ignore_ascii_case_def)

lemma set_trim_front: "set (trim_front p s) \<subseteq> set s"
proof (induction p s rule: trim_front.induct)
  case (1 p s)
  show ?case
  proof (cases "0 < p (map byte s) \<and> s \<noteq> []")
    case True
    with "1.IH" have "set (trim_front p (drop (p (map byte s)) s)) \<subseteq> set (drop (p (map byte s)) s)"
      by (simp add: Let_def)
    also have "\<dots> \<subseteq> set s" by (rule set_drop_subset)
    finally show ?thesis using True by (simp add: trim_front.simps [of p s] Let_def)
  next
    case False
    then show ?thesis by (subst trim_front.simps) auto
  qed
qed

lemma set_trim: "set (trim s) \<subseteq> set s"
  unfolding trim_def using set_trim_front [of space_prefix s]
    set_trim_front [of space_suffix "rev (trim_front space_prefix s)"]
  by auto

lemma after_last_separator_clean:
  "c \<in> set (after_last_separator s) \<Longrightarrow> c \<noteq> CHR ''/'' \<and> c \<noteq> CHR 0x5C"
  unfolding after_last_separator_def by (auto dest: set_takeWhileD)

lemma split_on_not_Nil [simp]: "split_on c s \<noteq> []"
  by (induction s) (auto split: list.splits)

lemma trim_Nil [simp]: "trim [] = []"
  by (simp add: trim_def trim_front.simps)

text \<open>A text that begins and ends with a visible ASCII character is not trimmed.\<close>

definition visible :: "char \<Rightarrow> bool" where
  "visible c = (33 \<le> byte c \<and> byte c \<le> 126)"

lemma trim_front_stop: "p (map byte s) = 0 \<Longrightarrow> trim_front p s = s"
  by (subst trim_front.simps) simp

lemma trim_visible:
  assumes "s \<noteq> []" and "visible (hd s)" and "visible (last s)"
  shows "trim s = s"
proof -
  obtain c cs where s: "s = c # cs" using assms(1) by (cases s) auto
  have front: "trim_front space_prefix s = s"
    using assms(2) by (intro trim_front_stop) (simp add: s visible_def space_prefix_def)
  obtain d ds where r: "rev s = d # ds" using assms(1) by (cases "rev s") auto
  then have "visible d" using assms(3) hd_rev [of s] by simp
  then have "space_suffix (map byte (rev s)) = 0"
    by (auto simp: r visible_def space_suffix_def space_prefix_def Let_def)
  then have "trim_front space_suffix (rev s) = rev s" by (rule trim_front_stop)
  then show ?thesis by (simp add: trim_def front)
qed

end
