(* ===== verification/Json_Value.thy ===== *)
theory Json_Value
  imports Rust_Text "HOL-Library.Word" "HOL-Library.Log_Nat"
begin

text \<open>
  \<open>serde_json::Value\<close> and its \<open>Map\<close> as the services use them. The workspace builds
  \<open>serde_json\<close> with \<open>preserve_order\<close> (\<open>rust/Cargo.toml\<close>), so a map keeps insertion
  order, \<open>insert\<close> replaces in place or appends, \<open>remove\<close> is a swap removal, and two maps
  are equal when they hold the same entries in any order. A number is an unsigned or a
  negative 64 bit integer or a finite double; a double is the rational it denotes.
\<close>

type_synonym u64 = "64 word"

datatype number = PosInt u64 | NegInt u64 | Float rat

datatype json =
    JNull
  | JBool bool
  | JNum number
  | JStr string
  | JArr "json list"
  | JObj "(string \<times> json) list"

type_synonym jmap = "(string \<times> json) list"

section \<open>Insertion ordered maps\<close>

abbreviation jlookup :: "('k \<times> 'v) list \<Rightarrow> 'k \<Rightarrow> 'v option" where
  "jlookup m k \<equiv> map_of m k"

definition map_insert :: "'k \<Rightarrow> 'v \<Rightarrow> ('k \<times> 'v) list \<Rightarrow> ('k \<times> 'v) list" where
  "map_insert k v m = AList.update k v m"

fun map_remove :: "'k \<Rightarrow> ('k \<times> 'v) list \<Rightarrow> ('k \<times> 'v) list" where
  "map_remove k [] = []"
| "map_remove k ((a, b) # r) =
     (if a = k then (if r = [] then [] else last r # butlast r)
      else (a, b) # map_remove k r)"

definition map_extend :: "('k \<times> 'v) list \<Rightarrow> ('k \<times> 'v) list \<Rightarrow> ('k \<times> 'v) list" where
  "map_extend m kvs = fold (\<lambda>(k, v). map_insert k v) kvs m"

definition contains_key :: "'k \<Rightarrow> ('k \<times> 'v) list \<Rightarrow> bool" where
  "contains_key k m = (map_of m k \<noteq> None)"

definition wf_map :: "('k \<times> 'v) list \<Rightarrow> bool" where
  "wf_map m = distinct (map fst m)"

lemma set_last_butlast: "r \<noteq> [] \<Longrightarrow> set (last r # butlast r) = set r"
  by (metis append_butlast_last_id list.simps(15) set_append Un_insert_right sup_bot.right_neutral
      set_simps(1))

lemma distinct_last_butlast:
  assumes "r \<noteq> []"
  shows "distinct (map f (last r # butlast r)) = distinct (map f r)"
proof -
  have "map f r = map f (butlast r) @ [f (last r)]"
    by (metis append_butlast_last_id assms list.simps(8,9) map_append)
  then show ?thesis by auto
qed

lemma set_map_remove: "set (map_remove k m) \<subseteq> set m"
proof (induction m)
  case (Cons kv r)
  show ?case
  proof (cases "fst kv = k \<and> r \<noteq> []")
    case True
    then have "map_remove k (kv # r) = last r # butlast r" by (cases kv) auto
    then show ?thesis using set_last_butlast [of r] True by auto
  next
    case False
    then show ?thesis using Cons by (cases kv) auto
  qed
qed simp

lemma wf_map_remove: "wf_map m \<Longrightarrow> wf_map (map_remove k m)"
proof (induction m)
  case (Cons kv r)
  show ?case
  proof (cases "fst kv = k \<and> r \<noteq> []")
    case True
    then have "map_remove k (kv # r) = last r # butlast r" by (cases kv) auto
    then show ?thesis
      using Cons.prems distinct_last_butlast [of r fst] True by (simp only: wf_map_def) simp
  next
    case False
    have "fst ` set (map_remove k r) \<subseteq> fst ` set r"
      by (intro image_mono set_map_remove)
    then show ?thesis using Cons False by (cases kv) (auto simp: wf_map_def)
  qed
qed simp

lemma wf_map_insert: "wf_map m \<Longrightarrow> wf_map (map_insert k v m)"
  by (simp add: wf_map_def map_insert_def AList.distinct_update)

lemma map_of_map_insert: "map_of (map_insert k v m) = (map_of m)(k \<mapsto> v)"
  by (simp add: map_insert_def AList.update_conv')

lemma map_of_map_remove: "wf_map m \<Longrightarrow> map_of (map_remove k m) = (map_of m)(k := None)"
proof (induction m)
  case (Cons kv r)
  obtain a b where kv: "kv = (a, b)" by (cases kv)
  have d: "distinct (map fst r)" and a: "a \<notin> fst ` set r"
    using Cons.prems by (auto simp: wf_map_def kv)
  have "map_of r a = None" using a by (simp add: map_of_eq_None_iff)
  then have upd: "(map_of (kv # r))(a := None) = map_of r"
    by (simp add: kv fun_eq_iff)
  consider (hit) "a = k" "r \<noteq> []" | (single) "a = k" "r = []" | (miss) "a \<noteq> k" by blast
  then show ?case
  proof cases
    case hit
    have "map_of (last r # butlast r) = map_of r"
      using d by (simp only: map_of_inject_set distinct_last_butlast [OF hit(2)]
          set_last_butlast [OF hit(2)])
    then have "map_of (map_remove k (kv # r)) = map_of r" using hit by (simp add: kv)
    then show ?thesis using upd hit(1) by (simp only:)
  next
    case single
    then have "map_of (map_remove k (kv # r)) = map_of r" by (simp add: kv)
    then show ?thesis using upd single(1) by (simp only:)
  next
    case miss
    have "map_of (map_remove k r) = (map_of r)(k := None)"
      using Cons.IH d by (simp add: wf_map_def fun_eq_iff)
    then show ?thesis using miss by (auto simp: kv)
  qed
qed simp

interpretation jm: keyed_map map_of map_insert map_remove wf_map
  by unfold_locales
    (simp_all add: map_of_map_insert map_of_map_remove wf_map_insert wf_map_remove)

lemma map_of_map_extend:
  "wf_map m \<Longrightarrow> map_of (map_extend m kvs) = map_of m ++ map_of (rev kvs)"
  unfolding map_extend_def by (rule jm.lookup_fold_insert)

lemma wf_map_extend: "wf_map m \<Longrightarrow> wf_map (map_extend m kvs)"
  unfolding map_extend_def by (rule jm.inv_fold_insert)

lemma contains_key_insert [store_simps]:
  "contains_key k (map_insert k' v m) = (k = k' \<or> contains_key k m)"
  by (auto simp: contains_key_def map_of_map_insert)

lemma contains_key_remove [store_simps]:
  "wf_map m \<Longrightarrow> contains_key k (map_remove k' m) = (k \<noteq> k' \<and> contains_key k m)"
  by (auto simp: contains_key_def map_of_map_remove)

lemmas map_lookup_simps [store_simps] = map_of_map_insert map_of_map_remove map_of_map_extend

section \<open>Key ordered maps\<close>

text \<open>\<open>BTreeMap\<close>: iteration in key order.\<close>

fun bt_insert :: "'k::linorder \<Rightarrow> 'v \<Rightarrow> ('k \<times> 'v) list \<Rightarrow> ('k \<times> 'v) list" where
  "bt_insert k v [] = [(k, v)]"
| "bt_insert k v ((a, b) # r) =
     (if k < a then (k, v) # (a, b) # r
      else if k = a then (k, v) # r
      else (a, b) # bt_insert k v r)"

definition bt_remove :: "'k::linorder \<Rightarrow> ('k \<times> 'v) list \<Rightarrow> ('k \<times> 'v) list" where
  "bt_remove k m = filter (\<lambda>kv. fst kv \<noteq> k) m"

definition bt_wf :: "('k::linorder \<times> 'v) list \<Rightarrow> bool" where
  "bt_wf m = sorted_wrt (<) (map fst m)"

lemma set_bt_insert: "fst ` set (bt_insert k v m) = insert k (fst ` set m)"
  by (induction k v m rule: bt_insert.induct) auto

lemma bt_wf_insert: "bt_wf m \<Longrightarrow> bt_wf (bt_insert k v m)"
proof (induction k v m rule: bt_insert.induct)
  case (1 k v)
  show ?case by (simp add: bt_wf_def)
next
  case (2 k v a b r)
  show ?case using 2 by (auto simp: bt_wf_def set_bt_insert)
qed

lemma map_of_bt_insert: "map_of (bt_insert k v m) = (map_of m)(k \<mapsto> v)"
  by (induction k v m rule: bt_insert.induct) auto

lemma bt_wf_remove: "bt_wf m \<Longrightarrow> bt_wf (bt_remove k m)"
  unfolding bt_wf_def bt_remove_def by (induction m) auto

lemma map_of_bt_remove: "map_of (bt_remove k m) = (map_of m)(k := None)"
  unfolding bt_remove_def by (induction m) auto

interpretation bt: keyed_map map_of bt_insert bt_remove bt_wf
  by unfold_locales
    (simp_all add: map_of_bt_insert map_of_bt_remove bt_wf_insert bt_wf_remove)

lemmas bt_lookup_simps [store_simps] = map_of_bt_insert map_of_bt_remove

section \<open>Values\<close>

text \<open>Equality of values: two objects are compared as maps, in any order.\<close>

lemma size_json_elem [termination_simp]:
  "kv \<in> set m \<Longrightarrow> size (snd kv) < Suc (size_list (size_prod (\<lambda>_. 0) size) m)"
  by (induction m) auto

function (sequential) json_eq :: "json \<Rightarrow> json \<Rightarrow> bool" where
  "json_eq JNull JNull = True"
| "json_eq (JBool a) (JBool b) = (a = b)"
| "json_eq (JNum a) (JNum b) = (a = b)"
| "json_eq (JStr a) (JStr b) = (a = b)"
| "json_eq (JArr a) (JArr b) =
     (length a = length b \<and> (\<forall>xy \<in> set (zip a b). json_eq (fst xy) (snd xy)))"
| "json_eq (JObj a) (JObj b) =
     (length a = length b
      \<and> (\<forall>kv \<in> set a. case map_of b (fst kv) of None \<Rightarrow> False | Some w \<Rightarrow> json_eq (snd kv) w))"
| "json_eq _ _ = False"
  by pat_completeness auto
termination
  by (relation "measure (\<lambda>(a, b). size a)")
    (auto simp: size_json_elem less_Suc_eq_le dest!: set_zip_leftD intro: size_list_estimation')

fun wf_json :: "json \<Rightarrow> bool" where
  "wf_json (JArr a) = (\<forall>x \<in> set a. wf_json x)"
| "wf_json (JObj m) = (wf_map m \<and> (\<forall>kv \<in> set m. wf_json (snd kv)))"
| "wf_json _ = True"

lemma json_eq_refl: "wf_json j \<Longrightarrow> json_eq j j"
proof (induction j rule: wf_json.induct)
  case (1 a)
  then show ?case by (auto simp: zip_same_conv_map)
next
  case (2 m)
  then show ?case by (auto simp: wf_map_def)
qed auto

lemma json_eq_JStr [simp]: "json_eq (JStr s) j \<longleftrightarrow> j = JStr s" "json_eq j (JStr s) \<longleftrightarrow> j = JStr s"
  by (cases j; auto)+

lemma json_eq_JNull [simp]: "json_eq JNull j \<longleftrightarrow> j = JNull" "json_eq j JNull \<longleftrightarrow> j = JNull"
  by (cases j; auto)+

definition jget :: "json \<Rightarrow> string \<Rightarrow> json option" where
  "jget j k = (case j of JObj m \<Rightarrow> map_of m k | _ \<Rightarrow> None)"

definition as_str :: "json \<Rightarrow> string option" where
  "as_str j = (case j of JStr s \<Rightarrow> Some s | _ \<Rightarrow> None)"

definition as_bool :: "json \<Rightarrow> bool option" where
  "as_bool j = (case j of JBool b \<Rightarrow> Some b | _ \<Rightarrow> None)"

definition as_array :: "json \<Rightarrow> json list option" where
  "as_array j = (case j of JArr a \<Rightarrow> Some a | _ \<Rightarrow> None)"

definition as_object :: "json \<Rightarrow> jmap option" where
  "as_object j = (case j of JObj m \<Rightarrow> Some m | _ \<Rightarrow> None)"

definition as_i64 :: "json \<Rightarrow> int option" where
  "as_i64 j = (case j of
     JNum (PosInt n) \<Rightarrow> (if unat n < 2 ^ 63 then Some (uint n) else None)
   | JNum (NegInt n) \<Rightarrow> Some (sint n)
   | _ \<Rightarrow> None)"

definition as_u64 :: "json \<Rightarrow> u64 option" where
  "as_u64 j = (case j of JNum (PosInt n) \<Rightarrow> Some n | _ \<Rightarrow> None)"

text \<open>Conversion of an integer to the nearest double, ties to even.\<close>

definition f64_of_nat :: "nat \<Rightarrow> rat" where
  "f64_of_nat n =
     (if n < 2 ^ 53 then of_nat n
      else let e = floorlog 2 n - 53; q = n div 2 ^ e; r = n mod 2 ^ e; h = 2 ^ (e - 1);
               q' = (if r > h \<or> (r = h \<and> odd q) then q + 1 else q)
           in of_nat (q' * 2 ^ e))"

definition as_f64 :: "json \<Rightarrow> rat option" where
  "as_f64 j = (case j of
     JNum (PosInt n) \<Rightarrow> Some (f64_of_nat (unat n))
   | JNum (NegInt n) \<Rightarrow> Some (- f64_of_nat (nat (- sint n)))
   | JNum (Float f) \<Rightarrow> Some f
   | _ \<Rightarrow> None)"

definition is_number :: "json \<Rightarrow> bool" where
  "is_number j = (case j of JNum _ \<Rightarrow> True | _ \<Rightarrow> False)"

definition json_of_int :: "int \<Rightarrow> json" where
  "json_of_int i = JNum (if 0 \<le> i then PosInt (word_of_int i) else NegInt (word_of_int i))"

definition json_opt_str :: "string option \<Rightarrow> json" where
  "json_opt_str s = (case s of None \<Rightarrow> JNull | Some x \<Rightarrow> JStr x)"

lemmas json_access = jget_def as_str_def as_bool_def as_array_def as_object_def as_i64_def as_u64_def

lemma json_access_simps [simp]:
  "as_str (JStr s) = Some s" "as_bool (JBool b) = Some b" "as_array (JArr xs) = Some xs"
  "as_object (JObj m) = Some m" "as_u64 (JNum (PosInt n)) = Some n" "jget (JObj m) k = map_of m k"
  "as_str JNull = None" "as_u64 JNull = None"
  by (simp_all add: json_access)

lemma as_bool_Some [simp]: "as_bool v = Some b \<longleftrightarrow> v = JBool b"
  by (cases v) (auto simp: as_bool_def)

lemma as_str_None: "as_str v = None \<longleftrightarrow> (\<nexists>s. v = JStr s)"
  by (cases v) (auto simp: as_str_def)

lemma as_bool_None: "as_bool v = None \<longleftrightarrow> (\<nexists>b. v = JBool b)"
  by (cases v) (auto simp: as_bool_def)

lemma bind_as_str_None: "Option.bind (as_str v) f = None \<longleftrightarrow> \<not> (\<exists>s. v = JStr s \<and> f s \<noteq> None)"
  by (cases v) (auto simp: as_str_def)

lemma as_str_Some [simp]: "as_str j = Some s \<longleftrightarrow> j = JStr s"
  by (cases j) (auto simp: as_str_def)

lemma as_object_Some [simp]: "as_object j = Some m \<longleftrightarrow> j = JObj m"
  by (cases j) (auto simp: as_object_def)

lemma as_array_Some [simp]: "as_array j = Some a \<longleftrightarrow> j = JArr a"
  by (cases j) (auto simp: as_array_def)

lemma as_u64_Some [simp]: "as_u64 j = Some n \<longleftrightarrow> j = JNum (PosInt n)"
  by (cases j) (auto simp: as_u64_def split: number.splits)

subsection \<open>JSON pointers\<close>

fun replace_tilde :: "char \<Rightarrow> char \<Rightarrow> string \<Rightarrow> string" where
  "replace_tilde d r (c # e # s) =
     (if c = CHR 0x7E \<and> e = d then r # replace_tilde d r s
      else c # replace_tilde d r (e # s))"
| "replace_tilde d r s = s"

definition is_digit :: "char \<Rightarrow> bool" where
  "is_digit c = (48 \<le> byte c \<and> byte c \<le> 57)"

definition parse_usize :: "string \<Rightarrow> nat option" where
  "parse_usize s =
     (let n = fold (\<lambda>c n. 10 * n + (byte c - 48)) s 0
      in if s \<noteq> [] \<and> list_all is_digit s \<and> n < 2 ^ 64 then Some n else None)"

definition parse_index :: "string \<Rightarrow> nat option" where
  "parse_index s = (if starts_with ''0'' s \<and> length s \<noteq> 1 then None else parse_usize s)"

definition pointer_step :: "string \<Rightarrow> json \<Rightarrow> json option" where
  "pointer_step token j =
     (let t = replace_tilde (CHR ''0'') (CHR 0x7E) (replace_tilde (CHR ''1'') (CHR ''/'') token)
      in case j of
        JObj m \<Rightarrow> map_of m t
      | JArr xs \<Rightarrow> (case parse_index t of None \<Rightarrow> None
                    | Some i \<Rightarrow> if i < length xs then Some (xs ! i) else None)
      | _ \<Rightarrow> None)"

fun pointer_walk :: "string list \<Rightarrow> json \<Rightarrow> json option" where
  "pointer_walk [] j = Some j"
| "pointer_walk (t # ts) j =
     (case pointer_step t j of None \<Rightarrow> None | Some j' \<Rightarrow> pointer_walk ts j')"

definition json_pointer :: "json \<Rightarrow> string \<Rightarrow> json option" where
  "json_pointer j p =
     (if p = [] then Some j
      else if hd p \<noteq> CHR ''/'' then None
      else pointer_walk (tl (split_on (CHR ''/'') p)) j)"

end
