(* ===== verification/Third_Party.thy ===== *)
theory Third_Party
  imports Json_Value
begin

text \<open>
  The functions of crates outside the repository that the modelled code calls: date and
  time parsing and formatting (chrono), regular expressions (regex), SHA-256 (sha2), Base64
  (base64), UUID text (uuid) and JSON text (serde\_json). They are fields of a record that the
  definitions take as an argument. What a property relies on is one of the predicates below,
  a documented law of the crate.

  A time is the number of nanoseconds since the Unix epoch. A UUID is its 128 bits; a fresh
  one, like every random token, is an argument of the operation that draws it.
\<close>

type_synonym uuid = "128 word"

record third_party =
  tp_regex_new :: "string \<Rightarrow> (string \<Rightarrow> bool) option"   \<comment> \<open>\<open>Regex::new\<close>, \<open>is_match\<close>\<close>
  tp_parse_date :: "string \<Rightarrow> int option"               \<comment> \<open>\<open>NaiveDate::parse_from_str\<close>\<close>
  tp_parse_rfc3339 :: "string \<Rightarrow> time option"           \<comment> \<open>\<open>DateTime::parse_from_rfc3339\<close>\<close>
  tp_rfc3339 :: "time \<Rightarrow> string"                        \<comment> \<open>\<open>to_rfc3339\<close>\<close>
  tp_date :: "time \<Rightarrow> string"                           \<comment> \<open>\<open>date_naive().to_string()\<close>\<close>
  tp_ymd :: "time \<Rightarrow> string"                            \<comment> \<open>\<open>format("%Y%m%d")\<close>\<close>
  tp_try_days :: "int \<Rightarrow> int option"                    \<comment> \<open>\<open>Duration::try_days\<close>\<close>
  tp_checked_add :: "time \<Rightarrow> int \<Rightarrow> time option"        \<comment> \<open>\<open>checked_add_signed\<close>\<close>
  tp_sha256_hex :: "string \<Rightarrow> string"                   \<comment> \<open>lower case hex digest of bytes\<close>
  tp_b64_decode :: "string \<Rightarrow> string option"            \<comment> \<open>\<open>STANDARD.decode\<close>\<close>
  tp_uuid_parse :: "string \<Rightarrow> uuid option"              \<comment> \<open>\<open>Uuid::parse_str\<close>\<close>
  tp_uuid_show :: "uuid \<Rightarrow> string"                      \<comment> \<open>\<open>to_string\<close>, hyphenated\<close>
  tp_uuid_simple :: "uuid \<Rightarrow> string"                    \<comment> \<open>\<open>simple()\<close>, 32 hex digits\<close>
  tp_json_show :: "json \<Rightarrow> string"                      \<comment> \<open>\<open>Value::to_string\<close>\<close>
  tp_json_parse :: "string \<Rightarrow> json option"              \<comment> \<open>\<open>serde_json::from_str\<close>\<close>

text \<open>The hyphenated text of a UUID parses back to it.\<close>

definition uuid_text_ok :: "third_party \<Rightarrow> bool" where
  "uuid_text_ok tp = (\<forall>u. tp_uuid_parse tp (tp_uuid_show tp u) = Some u)"

text \<open>RFC 3339 text of an instant parses back to it.\<close>

definition rfc3339_text_ok :: "third_party \<Rightarrow> bool" where
  "rfc3339_text_ok tp = (\<forall>t. tp_parse_rfc3339 tp (tp_rfc3339 tp t) = Some t)"

lemma uuid_show_inj: "uuid_text_ok tp \<Longrightarrow> tp_uuid_show tp u = tp_uuid_show tp v \<longleftrightarrow> u = v"
  unfolding uuid_text_ok_def by (metis option.inject)

text \<open>A second, of \<open>Duration::seconds\<close>, in nanoseconds.\<close>

definition seconds :: "int \<Rightarrow> int" where
  "seconds n = n * 1000000000"

section \<open>A concrete instance\<close>

text \<open>
  One instance for the witnesses: unary text for UUIDs and times, the identity for encodings.
\<close>

definition demo_uuid_show :: "uuid \<Rightarrow> string" where
  "demo_uuid_show u = replicate (unat u) (CHR ''u'')"

definition demo_uuid_parse :: "string \<Rightarrow> uuid option" where
  "demo_uuid_parse s = Some (of_nat (length s))"

definition demo_time_show :: "time \<Rightarrow> string" where
  "demo_time_show t = (if t < 0 then CHR ''-'' # replicate (nat (- t)) (CHR ''1'') else replicate (nat t) (CHR ''1''))"

definition demo_time_parse :: "string \<Rightarrow> time option" where
  "demo_time_parse s =
     (if s \<noteq> [] \<and> hd s = CHR ''-'' then Some (- int (length (tl s))) else Some (int (length s)))"

definition demo :: third_party where
  "demo = \<lparr> tp_regex_new = (\<lambda>p. if p = ''('' then None else Some (\<lambda>s. s = p)),
    tp_parse_date = (\<lambda>s. if length s = 10 then Some 0 else None),
    tp_parse_rfc3339 = demo_time_parse, tp_rfc3339 = demo_time_show,
    tp_date = demo_time_show, tp_ymd = demo_time_show,
    tp_try_days = (\<lambda>d. Some (seconds (d * 86400))), tp_checked_add = (\<lambda>t d. Some (t + d)),
    tp_sha256_hex = (\<lambda>s. ''sha-'' @ s), tp_b64_decode = (\<lambda>s. Some s),
    tp_uuid_parse = demo_uuid_parse, tp_uuid_show = demo_uuid_show,
    tp_uuid_simple = demo_uuid_show,
    tp_json_show = (\<lambda>_. ''json''), tp_json_parse = (\<lambda>_. None) \<rparr>"

lemma demo_uuid_text_ok: "uuid_text_ok demo"
  by (simp add: uuid_text_ok_def demo_def demo_uuid_show_def demo_uuid_parse_def)

lemma demo_rfc3339_text_ok: "rfc3339_text_ok demo"
  by (auto simp: rfc3339_text_ok_def demo_def demo_time_show_def demo_time_parse_def hd_replicate
      split: if_splits)

end
