(* ===== verification/Applicant_Domain.thy ===== *)
theory Applicant_Domain
  imports Third_Party
begin

text \<open>
  \<open>rust/services/applicant/src/lib.rs\<close>: the entities of the applicant service and their
  own operations. Field names carry a prefix for their struct (\<open>ap_\<close> Applicant, \<open>an_\<close>
  Application, \<open>bi_\<close> Biometric, \<open>ck_\<close> VettingCheck, \<open>ev_\<close> Evidence, \<open>up_\<close>
  EvidenceUpload, \<open>lk_\<close> ReviewerLock), since Isabelle selectors are global.
\<close>

definition MAX_EVIDENCE_BYTES :: nat where
  "MAX_EVIDENCE_BYTES = 10 * 1024 * 1024"

definition LOCK_TTL_SECONDS :: int where
  "LOCK_TTL_SECONDS = 300"

section \<open>Lifecycle\<close>

datatype LifecycleStatus =
    Draft | Submitted | UnderReview | PendingInformation | Approved | Offered | Rejected
  | Withdrawn | Credentialed | Suspended

lemma UNIV_LifecycleStatus:
  "UNIV = {Draft, Submitted, UnderReview, PendingInformation, Approved, Offered, Rejected,
     Withdrawn, Credentialed, Suspended}"
  by (auto intro: LifecycleStatus.exhaust)

instantiation LifecycleStatus :: enum
begin

definition enum_LifecycleStatus :: "LifecycleStatus list" where
  "enum_LifecycleStatus = [Draft, Submitted, UnderReview, PendingInformation, Approved, Offered,
     Rejected, Withdrawn, Credentialed, Suspended]"

definition enum_all_LifecycleStatus :: "(LifecycleStatus \<Rightarrow> bool) \<Rightarrow> bool" where
  "enum_all_LifecycleStatus P = list_all P enum_class.enum"

definition enum_ex_LifecycleStatus :: "(LifecycleStatus \<Rightarrow> bool) \<Rightarrow> bool" where
  "enum_ex_LifecycleStatus P = list_ex P enum_class.enum"

instance
  by standard
    (simp_all add: UNIV_LifecycleStatus enum_LifecycleStatus_def enum_all_LifecycleStatus_def
      enum_ex_LifecycleStatus_def)

end

datatype ClaimState = NotReady | Blocked | OfferReady | Claimed | ClaimExpired

datatype EvidenceStatus = EvActive | EvRevoked | EvExpired | EvDeleted

datatype CheckStatus =
    CkNotStarted | CkPending | CkInProgress | CkPassed | CkFailed | CkRequiresManualReview
  | CkCompletedPassed | CkCompletedFailed | CkCompletedConditional | CkExpired | CkWaived
  | CkSkipped

datatype CheckType =
    CriminalHistory | EmploymentVerification | IdentityVerification | SecurityClearance
  | AviationExperience | SanctionsScreening | WatchlistCheck | ReferenceCheck
  | EducationVerification | AddressVerification | BiometricEnrollment | DocumentVerification
  | FinancialCheck | CustomCheck

record FieldError =
  fe_field :: string
  fe_code :: string
  fe_message :: string

record ReviewerLock =
  lk_id :: string
  lk_application_id :: string
  lk_reviewer_id :: string
  lk_reviewer_name :: string
  lk_acquired_at :: time
  lk_expires_at :: time

datatype ApplicantError =
    InvalidStatus string
  | InvalidTransition LifecycleStatus LifecycleStatus
  | FieldValidation "FieldError list"
  | MalformedEvidence
  | EvidenceSize nat
  | UnsafeFilename
  | Locked ReviewerLock

text \<open>The serialized name of a status (\<open>SCREAMING_SNAKE_CASE\<close>).\<close>

fun status_text :: "LifecycleStatus \<Rightarrow> string" where
  "status_text Draft = ''DRAFT''"
| "status_text Submitted = ''SUBMITTED''"
| "status_text UnderReview = ''UNDER_REVIEW''"
| "status_text PendingInformation = ''PENDING_INFORMATION''"
| "status_text Approved = ''APPROVED''"
| "status_text Offered = ''OFFERED''"
| "status_text Rejected = ''REJECTED''"
| "status_text Withdrawn = ''WITHDRAWN''"
| "status_text Credentialed = ''CREDENTIALED''"
| "status_text Suspended = ''SUSPENDED''"

definition from_released :: "string \<Rightarrow> ApplicantError + LifecycleStatus" where
  "from_released value =
     (let v = to_ascii_lowercase (trim value) in
      if v = ''draft'' then Inr Draft
      else if v \<in> set [''pending'', ''submitted''] then Inr Submitted
      else if v \<in> set [''in_review'', ''under_review''] then Inr UnderReview
      else if v \<in> set [''needs_info'', ''pending_information''] then Inr PendingInformation
      else if v = ''approved'' then Inr Approved
      else if v = ''offered'' then Inr Offered
      else if v = ''rejected'' then Inr Rejected
      else if v = ''withdrawn'' then Inr Withdrawn
      else if v \<in> set [''issued'', ''credentialed''] then Inr Credentialed
      else if v \<in> set [''revoked'', ''suspended''] then Inr Suspended
      else Inl (InvalidStatus value))"

fun allowed_targets :: "LifecycleStatus \<Rightarrow> LifecycleStatus list" where
  "allowed_targets Draft = [Submitted, Withdrawn]"
| "allowed_targets Submitted =
     [UnderReview, Approved, Rejected, PendingInformation, Withdrawn, Suspended]"
| "allowed_targets UnderReview = [Approved, Rejected, PendingInformation, Suspended]"
| "allowed_targets PendingInformation =
     [Submitted, UnderReview, Approved, Rejected, Withdrawn, Suspended]"
| "allowed_targets Approved = [Offered, Credentialed, Suspended]"
| "allowed_targets Offered = [Credentialed, Suspended]"
| "allowed_targets Rejected = []"
| "allowed_targets Withdrawn = []"
| "allowed_targets Credentialed = []"
| "allowed_targets Suspended = []"

definition transition :: "LifecycleStatus \<Rightarrow> LifecycleStatus \<Rightarrow> ApplicantError + LifecycleStatus" where
  "transition self target =
     (if self = target then Inr target
      else if target \<in> set (allowed_targets self) then Inr target
      else Inl (InvalidTransition self target))"

section \<open>Applicants\<close>

record Applicant =
  ap_id :: string
  ap_organization_id :: string
  ap_flow_id :: string
  ap_email :: string
  ap_given_name :: "string option"
  ap_family_name :: "string option"
  ap_phone :: "string option"
  ap_oidc_subject :: "string option"
  ap_user_id :: "string option"
  ap_external_id :: "string option"
  ap_credential_template_id :: "string option"
  ap_status :: LifecycleStatus
  ap_vetting_data :: json
  ap_verification_results :: "json list"
  ap_reviewer_notes :: "string option"
  ap_rejection_reason :: "string option"
  ap_created_at :: time
  ap_updated_at :: time

definition applicant_new :: "string \<Rightarrow> string \<Rightarrow> string \<Rightarrow> time \<Rightarrow> Applicant" where
  "applicant_new fresh_id organization_id email now =
     \<lparr> ap_id = fresh_id, ap_organization_id = organization_id, ap_flow_id = [], ap_email = email,
       ap_given_name = None, ap_family_name = None, ap_phone = None, ap_oidc_subject = None,
       ap_user_id = None, ap_external_id = None, ap_credential_template_id = None,
       ap_status = Draft, ap_vetting_data = JObj [], ap_verification_results = [],
       ap_reviewer_notes = None, ap_rejection_reason = None, ap_created_at = now,
       ap_updated_at = now \<rparr>"

definition set_status :: "LifecycleStatus \<Rightarrow> time \<Rightarrow> Applicant \<Rightarrow> ApplicantError + Applicant" where
  "set_status target now a =
     bind_result (transition (ap_status a) target)
       (\<lambda>status. Inr (a\<lparr>ap_status := status, ap_updated_at := now\<rparr>))"

section \<open>Applications, biometrics, checks\<close>

record Application =
  an_id :: string
  an_applicant_id :: string
  an_organization_id :: string
  an_reference_number :: "string option"
  an_application_template_id :: string
  an_credential_template_id :: string
  an_status :: LifecycleStatus
  an_form_data :: jmap
  an_integration_context :: jmap
  an_system_data :: jmap
  an_required_checks :: "json list"
  an_evidence_requirements :: "json list"
  an_claim_state :: ClaimState
  an_claim_blocker :: "json option"
  an_created_at :: time
  an_updated_at :: time
  an_submitted_at :: "time option"
  an_reviewed_at :: "time option"
  an_issued_at :: "time option"

record Biometric =
  bi_id :: string
  bi_applicant_id :: string
  bi_biometric_type :: string
  bi_template_data_base64 :: string
  bi_image_data_base64 :: "string option"
  bi_capture_device_id :: "string option"
  bi_created_at :: time

record VettingCheck =
  ck_id :: string
  ck_application_id :: string
  ck_check_type :: CheckType
  ck_custom_name :: "string option"
  ck_is_required :: bool
  ck_order :: int
  ck_status :: CheckStatus
  ck_config :: jmap
  ck_result :: jmap
  ck_notes :: "string option"
  ck_performed_by :: "string option"
  ck_external_provider :: "string option"
  ck_webhook_url :: "string option"
  ck_created_at :: time
  ck_updated_at :: time
  ck_started_at :: "time option"
  ck_completed_at :: "time option"

definition check_start :: "time \<Rightarrow> VettingCheck \<Rightarrow> VettingCheck" where
  "check_start now c = c\<lparr>ck_status := CkInProgress, ck_started_at := Some now, ck_updated_at := now\<rparr>"

definition check_complete ::
  "bool \<Rightarrow> string option \<Rightarrow> string option \<Rightarrow> jmap \<Rightarrow> string list \<Rightarrow> time \<Rightarrow> VettingCheck \<Rightarrow> VettingCheck"
where
  "check_complete passed notes performed_by result evidence_submission_ids now c =
     (let unique = sorted_unique evidence_submission_ids;
          result = map_insert ''evidence_submission_ids'' (JArr (map JStr unique)) result
      in c\<lparr>ck_status := (if passed then CkCompletedPassed else CkCompletedFailed),
           ck_notes := notes, ck_performed_by := performed_by, ck_result := result,
           ck_completed_at := Some now, ck_updated_at := now\<rparr>)"

section \<open>Evidence\<close>

record Evidence =
  ev_id :: string
  ev_application_id :: string
  ev_applicant_id :: string
  ev_organization_id :: string
  ev_evidence_requirement_id :: string
  ev_evidence_type :: string
  ev_source :: string
  ev_media_type :: string
  ev_filename :: string
  ev_content :: string
  ev_size_bytes :: nat
  ev_sha256 :: string
  ev_status :: EvidenceStatus
  ev_submitted_by :: string
  ev_created_at :: time
  ev_updated_at :: time
  ev_captured_at :: "time option"
  ev_expires_at :: "time option"
  ev_revoked_at :: "time option"
  ev_revocation_reason :: "string option"

record EvidenceUpload =
  up_application_id :: string
  up_applicant_id :: string
  up_organization_id :: string
  up_evidence_requirement_id :: string
  up_evidence_type :: string
  up_media_type :: string
  up_filename :: string
  up_content_base64 :: string
  up_submitted_by :: string
  up_captured_at :: "time option"
  up_expires_at :: "time option"

definition safe_filename :: "string \<Rightarrow> ApplicantError + string" where
  "safe_filename value =
     (let name = trim (after_last_separator value) in
      if name = [] \<or> name = ''.'' \<or> name = ''..'' \<or> has_control name
      then Inl UnsafeFilename else Inr name)"

definition from_upload ::
  "third_party \<Rightarrow> string \<Rightarrow> EvidenceUpload \<Rightarrow> nat \<Rightarrow> time \<Rightarrow> ApplicantError + Evidence" where
  "from_upload tp fresh_id input maximum now =
     (let maximum = min maximum MAX_EVIDENCE_BYTES in
      bind_result (ok_or MalformedEvidence (tp_b64_decode tp (up_content_base64 input))) (\<lambda>content.
      if content = [] \<or> maximum < length content then Inl (EvidenceSize maximum)
      else bind_result (safe_filename (up_filename input)) (\<lambda>filename.
        Inr \<lparr> ev_id = fresh_id,
          ev_application_id = up_application_id input,
          ev_applicant_id = up_applicant_id input,
          ev_organization_id = up_organization_id input,
          ev_evidence_requirement_id = up_evidence_requirement_id input,
          ev_evidence_type = up_evidence_type input,
          ev_source = ''APPLICANT_UPLOAD'',
          ev_media_type = up_media_type input,
          ev_filename = filename,
          ev_content = content,
          ev_size_bytes = length content,
          ev_sha256 = tp_sha256_hex tp content,
          ev_status = EvActive,
          ev_submitted_by = up_submitted_by input,
          ev_created_at = now,
          ev_updated_at = now,
          ev_captured_at = up_captured_at input,
          ev_expires_at = up_expires_at input,
          ev_revoked_at = None,
          ev_revocation_reason = None \<rparr>)))"

definition refresh_expiry :: "time \<Rightarrow> Evidence \<Rightarrow> Evidence" where
  "refresh_expiry now e =
     (if ev_status e = EvActive
       \<and> (case ev_expires_at e of None \<Rightarrow> False | Some expiry \<Rightarrow> expiry \<le> now)
      then e\<lparr>ev_status := EvExpired, ev_updated_at := now\<rparr> else e)"

end
