(* ===== verification/Applicant_Store.thy ===== *)
theory Applicant_Store
  imports Applicant_Domain
begin

text \<open>
  \<open>rust/services/applicant/src/store.rs\<close>: the document the service keeps, its queries and
  its insertions.
\<close>

record ApplicationEvent =
  ae_event_id :: string
  ae_event_type :: string
  ae_aggregate_id :: string
  ae_aggregate_type :: string
  ae_organization_id :: string
  ae_correlation_id :: string
  ae_timestamp :: time
  ae_data :: json

record StoreDocument =
  sd_schema_version :: "string option"
  sd_applicants :: "Applicant list"
  sd_applications :: "Application list"
  sd_biometrics :: "(string \<times> Biometric list) list"
  sd_checks :: "VettingCheck list"
  sd_evidence :: "Evidence list"
  sd_pending_application_events :: "ApplicationEvent list"

definition empty_store :: StoreDocument where
  "empty_store = \<lparr> sd_schema_version = None, sd_applicants = [], sd_applications = [],
     sd_biometrics = [], sd_checks = [], sd_evidence = [], sd_pending_application_events = [] \<rparr>"

section \<open>Queries\<close>

definition applicant :: "StoreDocument \<Rightarrow> string \<Rightarrow> Applicant option" where
  "applicant s i = find (\<lambda>a. ap_id a = i) (sd_applicants s)"

definition is_applicant_of :: "string \<Rightarrow> string \<Rightarrow> Applicant \<Rightarrow> bool" where
  "is_applicant_of user_id organization_id item =
     (ap_organization_id item = organization_id
      \<and> (ap_user_id item = Some user_id \<or> ap_oidc_subject item = Some user_id))"

definition applicant_for_user :: "StoreDocument \<Rightarrow> string \<Rightarrow> string \<Rightarrow> Applicant option" where
  "applicant_for_user s user_id organization_id =
     find (is_applicant_of user_id organization_id) (sd_applicants s)"

definition applicants_for_organization :: "StoreDocument \<Rightarrow> string \<Rightarrow> Applicant list" where
  "applicants_for_organization s organization_id =
     filter (\<lambda>item. ap_organization_id item = organization_id) (sd_applicants s)"

definition application :: "StoreDocument \<Rightarrow> string \<Rightarrow> Application option" where
  "application s i = find (\<lambda>a. an_id a = i) (sd_applications s)"

definition applications_for_applicant :: "StoreDocument \<Rightarrow> string \<Rightarrow> Application list" where
  "applications_for_applicant s applicant_id =
     filter (\<lambda>item. an_applicant_id item = applicant_id) (sd_applications s)"

definition applications_for_organization :: "StoreDocument \<Rightarrow> string \<Rightarrow> Application list" where
  "applications_for_organization s organization_id =
     filter (\<lambda>item. an_organization_id item = organization_id) (sd_applications s)"

definition evidence_for_application :: "StoreDocument \<Rightarrow> string \<Rightarrow> bool \<Rightarrow> Evidence list" where
  "evidence_for_application s application_id include_deleted =
     sort_key ev_created_at
       (filter (\<lambda>item. ev_application_id item = application_id
                  \<and> (include_deleted \<or> ev_status item \<noteq> EvDeleted)) (sd_evidence s))"

definition checks_for_application :: "StoreDocument \<Rightarrow> string \<Rightarrow> VettingCheck list" where
  "checks_for_application s application_id =
     sort_key ck_order (filter (\<lambda>item. ck_application_id item = application_id) (sd_checks s))"

definition pending_checks :: "StoreDocument \<Rightarrow> CheckType option \<Rightarrow> VettingCheck list" where
  "pending_checks s check_type =
     filter (\<lambda>item.
       ck_status item \<in> set [CkNotStarted, CkPending, CkInProgress, CkRequiresManualReview]
       \<and> (case check_type of None \<Rightarrow> True | Some expected \<Rightarrow> ck_check_type item = expected))
       (sd_checks s)"

section \<open>Insertions\<close>

definition save_applicant :: "Applicant \<Rightarrow> StoreDocument \<Rightarrow> StoreDocument" where
  "save_applicant a s = s\<lparr>sd_applicants := replace_or_insert ap_id a (sd_applicants s)\<rparr>"

definition save_application :: "Application \<Rightarrow> StoreDocument \<Rightarrow> StoreDocument" where
  "save_application a s = s\<lparr>sd_applications := replace_or_insert an_id a (sd_applications s)\<rparr>"

definition save_evidence :: "Evidence \<Rightarrow> StoreDocument \<Rightarrow> StoreDocument" where
  "save_evidence e s = s\<lparr>sd_evidence := replace_or_insert ev_id e (sd_evidence s)\<rparr>"

definition save_biometric :: "Biometric \<Rightarrow> StoreDocument \<Rightarrow> StoreDocument" where
  "save_biometric b s =
     (let items = (case map_of (sd_biometrics s) (bi_applicant_id b) of None \<Rightarrow> [] | Some bs \<Rightarrow> bs)
      in s\<lparr>sd_biometrics :=
             bt_insert (bi_applicant_id b) (replace_or_insert bi_id b items) (sd_biometrics s)\<rparr>)"

definition save_check :: "VettingCheck \<Rightarrow> StoreDocument \<Rightarrow> StoreDocument" where
  "save_check c s = s\<lparr>sd_checks := replace_or_insert ck_id c (sd_checks s)\<rparr>"

section \<open>Facts\<close>

lemma application_save_application [store_simps]:
  "application (save_application a s) i = (if i = an_id a then Some a else application s i)"
  by (simp add: application_def save_application_def find_replace_or_insert)

lemma applicant_save_applicant [store_simps]:
  "applicant (save_applicant a s) i = (if i = ap_id a then Some a else applicant s i)"
  by (simp add: applicant_def save_applicant_def find_replace_or_insert)

lemma save_simps [simp]:
  "sd_applicants (save_application a s) = sd_applicants s"
  "sd_applications (save_applicant p s) = sd_applications s"
  "sd_evidence (save_application a s) = sd_evidence s"
  "sd_checks (save_application a s) = sd_checks s"
  "sd_pending_application_events (save_application a s) = sd_pending_application_events s"
  "sd_applications (save_check c s) = sd_applications s"
  "sd_applicants (save_check c s) = sd_applicants s"
  "sd_evidence (save_check c s) = sd_evidence s"
  "sd_pending_application_events (save_check c s) = sd_pending_application_events s"
  "sd_applications (save_evidence e s) = sd_applications s"
  "sd_applicants (save_evidence e s) = sd_applicants s"
  "sd_checks (save_evidence e s) = sd_checks s"
  "sd_biometrics (save_evidence e s) = sd_biometrics s"
  "sd_applications (save_biometric b s) = sd_applications s"
  "sd_evidence (save_biometric b s) = sd_evidence s"
  "sd_applicants (save_biometric b s) = sd_applicants s"
  "sd_checks (save_biometric b s) = sd_checks s"
  "sd_checks (save_applicant p s) = sd_checks s"
  "sd_evidence (save_applicant p s) = sd_evidence s"
  "sd_biometrics (save_application a s) = sd_biometrics s"
  "sd_biometrics (save_applicant p s) = sd_biometrics s"
  "sd_biometrics (save_check c s) = sd_biometrics s"
  by (simp_all add: save_application_def save_applicant_def save_check_def save_evidence_def
      save_biometric_def Let_def)

text \<open>
  A well formed document: identifiers are unique and the system data of an application is a
  map.
\<close>

definition wf_application :: "Application \<Rightarrow> bool" where
  "wf_application a \<longleftrightarrow> wf_map (an_system_data a)"

definition wf_store :: "StoreDocument \<Rightarrow> bool" where
  "wf_store s \<longleftrightarrow>
     distinct (map ap_id (sd_applicants s))
   \<and> distinct (map an_id (sd_applications s))
   \<and> distinct (map ck_id (sd_checks s))
   \<and> distinct (map ev_id (sd_evidence s))
   \<and> bt_wf (sd_biometrics s)
   \<and> (\<forall>a \<in> set (sd_applications s). wf_application a)"

lemma wf_empty_store: "wf_store empty_store"
  by (simp add: wf_store_def empty_store_def bt_wf_def)

lemma wf_save_application: "wf_store s \<Longrightarrow> wf_application a \<Longrightarrow> wf_store (save_application a s)"
  using set_replace_or_insert [of an_id a "sd_applications s"]
  by (auto simp: wf_store_def save_application_def distinct_replace_or_insert)

lemma wf_save_applicant: "wf_store s \<Longrightarrow> wf_store (save_applicant a s)"
  by (auto simp: wf_store_def save_applicant_def distinct_replace_or_insert)

lemma wf_save_check: "wf_store s \<Longrightarrow> wf_store (save_check c s)"
  by (auto simp: wf_store_def save_check_def distinct_replace_or_insert)

lemma wf_save_evidence: "wf_store s \<Longrightarrow> wf_store (save_evidence e s)"
  by (auto simp: wf_store_def save_evidence_def distinct_replace_or_insert)

lemma wf_save_biometric: "wf_store s \<Longrightarrow> wf_store (save_biometric b s)"
  by (auto simp: wf_store_def save_biometric_def Let_def bt_wf_insert)

lemmas wf_saves = wf_save_application wf_save_applicant wf_save_check wf_save_evidence
  wf_save_biometric

lemma wf_application_of: "wf_store s \<Longrightarrow> application s i = Some a \<Longrightarrow> wf_application a"
  by (auto simp: wf_store_def application_def dest: find_Some_in_set)

lemma application_id: "application s i = Some a \<Longrightarrow> an_id a = i"
  by (auto simp: application_def dest: find_Some_in_set)

lemma applicant_id: "applicant s i = Some a \<Longrightarrow> ap_id a = i"
  by (auto simp: applicant_def dest: find_Some_in_set)

end
