(* ===== verification/Applicant_Issuance.thy ===== *)
theory Applicant_Issuance
  imports Applicant_Domain
begin

text \<open>
  \<open>rust/services/applicant/src/issuance.rs\<close>: the issuance attempt an application reserves,
  the offer that completes it and the reconciliation of an application with the status of its
  issuance transaction. The operations that take \<open>&mut\<close> arguments return them; on an error
  the arguments are dropped, as their callers in \<open>service.rs\<close> do (they work on clones).
\<close>

abbreviation ACTIVE_ATTEMPT :: string where
  "ACTIVE_ATTEMPT \<equiv> ''active_issuance_attempt''"

abbreviation LAST_ATTEMPT :: string where
  "LAST_ATTEMPT \<equiv> ''last_issuance_attempt_id''"

datatype IssuanceError =
    InvalidAttemptState
  | AttemptChanged
  | MissingOffer
  | InvalidApplicationStatus LifecycleStatus
  | IssuanceApplicant ApplicantError

record IssuanceOffer =
  of_id :: "string option"
  of_credential_offer_uri :: "string option"
  of_credential_offer_uris :: jmap
  of_credential_offer_labels :: jmap
  of_expires_at :: "string option"
  of_status :: string
  of_flow_instance_id :: "string option"
  of_flow_definition_id :: "string option"
  of_source :: "string option"

definition has_offer :: "IssuanceOffer \<Rightarrow> bool" where
  "has_offer offer =
     ((case of_credential_offer_uri offer of None \<Rightarrow> False | Some value \<Rightarrow> value \<noteq> [])
      \<or> of_credential_offer_uris offer \<noteq> [])"

section \<open>Attempts\<close>

definition has_matching_reserved_lifetime ::
  "Application \<Rightarrow> u64 option \<Rightarrow> IssuanceError + bool" where
  "has_matching_reserved_lifetime app requested =
     (case map_of (an_system_data app) ACTIVE_ATTEMPT of
        None \<Rightarrow> Inr False
      | Some active_value \<Rightarrow>
          bind_result (ok_or InvalidAttemptState (as_object active_value)) (\<lambda>active.
          bind_result
            (case map_of active ''offer_ttl_seconds'' of
               None \<Rightarrow> Inr None
             | Some value \<Rightarrow>
                 if value = JNull then Inr None
                 else bind_result (ok_or InvalidAttemptState (as_u64 value)) (\<lambda>n. Inr (Some n)))
            (\<lambda>reserved. if reserved \<noteq> requested then Inl AttemptChanged else Inr True)))"

definition json_of_u64_opt :: "u64 option \<Rightarrow> json" where
  "json_of_u64_opt n = (case n of None \<Rightarrow> JNull | Some w \<Rightarrow> JNum (PosInt w))"

definition reserve_attempt_with_lifetime ::
  "third_party \<Rightarrow> uuid \<Rightarrow> jmap \<Rightarrow> time \<Rightarrow> u64 option \<Rightarrow> Application
   \<Rightarrow> IssuanceError + (uuid \<times> jmap) \<times> Application" where
  "reserve_attempt_with_lifetime tp fresh claims now offer_ttl_seconds app =
     bind_result (has_matching_reserved_lifetime app offer_ttl_seconds) (\<lambda>_.
     case map_of (an_system_data app) ACTIVE_ATTEMPT of
       Some active_value \<Rightarrow>
         bind_result (ok_or InvalidAttemptState (as_object active_value)) (\<lambda>active.
         bind_result (ok_or InvalidAttemptState (Option.bind (map_of active ''id'') as_str)) (\<lambda>i.
         bind_result (ok_or InvalidAttemptState (tp_uuid_parse tp i)) (\<lambda>canonical.
         if tp_uuid_show tp canonical \<noteq> i then Inl InvalidAttemptState
         else
           bind_result (ok_or InvalidAttemptState (Option.bind (map_of active ''claims'') as_object))
             (\<lambda>claims. Inr ((canonical, claims), app)))))
     | None \<Rightarrow>
         Inr ((fresh, claims),
           app\<lparr>an_system_data := map_insert ACTIVE_ATTEMPT
                  (JObj [(''id'', JStr (tp_uuid_show tp fresh)), (''claims'', JObj claims),
                         (''created_at'', JStr (tp_rfc3339 tp now)),
                         (''offer_ttl_seconds'', json_of_u64_opt offer_ttl_seconds)])
                  (an_system_data app),
               an_updated_at := now\<rparr>))"

definition matches_active_attempt :: "third_party \<Rightarrow> Application \<Rightarrow> uuid \<Rightarrow> bool" where
  "matches_active_attempt tp app i =
     (Option.bind (Option.bind (Option.bind (map_of (an_system_data app) ACTIVE_ATTEMPT) as_object)
        (\<lambda>active. map_of active ''id'')) as_str = Some (tp_uuid_show tp i))"

definition complete_attempt :: "third_party \<Rightarrow> uuid \<Rightarrow> Application \<Rightarrow> IssuanceError + Application" where
  "complete_attempt tp i app =
     (if \<not> matches_active_attempt tp app i then Inl AttemptChanged
      else Inr (app\<lparr>an_system_data :=
             map_insert LAST_ATTEMPT (JStr (tp_uuid_show tp i))
               (map_remove ACTIVE_ATTEMPT (an_system_data app))\<rparr>))"

definition offer_identity :: "IssuanceOffer \<Rightarrow> jmap" where
  "offer_identity offer =
     [(''issuance_transaction_id'', json_opt_str (of_id offer)),
      (''credential_offer_uri'', json_opt_str (of_credential_offer_uri offer)),
      (''credential_offer_uris'', JObj (of_credential_offer_uris offer)),
      (''credential_offer_labels'', JObj (of_credential_offer_labels offer)),
      (''offer_expires_at'', json_opt_str (of_expires_at offer)),
      (''flow_instance_id'', json_opt_str (of_flow_instance_id offer)),
      (''flow_definition_id'', json_opt_str (of_flow_definition_id offer)),
      (''issuance_source'', json_opt_str (of_source offer))]"

definition matches_completed_offer ::
  "third_party \<Rightarrow> Application \<Rightarrow> uuid \<Rightarrow> IssuanceOffer \<Rightarrow> bool" where
  "matches_completed_offer tp app i offer =
     (\<not> contains_key ACTIVE_ATTEMPT (an_system_data app)
      \<and> (case map_of (an_system_data app) LAST_ATTEMPT of
           None \<Rightarrow> False | Some v \<Rightarrow> json_eq v (JStr (tp_uuid_show tp i)))
      \<and> an_status app \<in> set [Offered, Credentialed]
      \<and> (case of_id offer of None \<Rightarrow> False | Some value \<Rightarrow> value \<noteq> [])
      \<and> has_offer offer
      \<and> list_all (\<lambda>kv. case map_of (an_system_data app) (fst kv) of
           None \<Rightarrow> False | Some v \<Rightarrow> json_eq v (snd kv)) (offer_identity offer))"

section \<open>Completion\<close>

definition offered_step :: "time \<Rightarrow> LifecycleStatus \<Rightarrow> Applicant \<Rightarrow> ApplicantError + Applicant" where
  "offered_step now target a =
     (if is_ok (transition (ap_status a) target) then set_status target now a else Inr a)"

fun advance_through :: "time \<Rightarrow> LifecycleStatus list \<Rightarrow> Applicant \<Rightarrow> ApplicantError + Applicant" where
  "advance_through now [] a = Inr a"
| "advance_through now (target # targets) a =
     (if ap_status a = Credentialed \<or> ap_status a = Offered then Inr a
      else bind_result (offered_step now target a) (advance_through now targets))"

definition advance_to_offered :: "time \<Rightarrow> Applicant \<Rightarrow> ApplicantError + Applicant" where
  "advance_to_offered now a = advance_through now [Submitted, UnderReview, Approved, Offered] a"

definition advance_to_credentialed :: "time \<Rightarrow> Applicant \<Rightarrow> ApplicantError + Applicant" where
  "advance_to_credentialed now a =
     bind_result (advance_to_offered now a)
       (\<lambda>a. if ap_status a = Offered then set_status Credentialed now a else Inr a)"

definition apply_offer ::
  "third_party \<Rightarrow> uuid \<Rightarrow> IssuanceOffer \<Rightarrow> time \<Rightarrow> Application \<Rightarrow> Applicant
   \<Rightarrow> IssuanceError + Application \<times> Applicant" where
  "apply_offer tp attempt_id offer now app a =
     (if \<not> has_offer offer then Inl MissingOffer
      else bind_result
        (if an_status app = Approved
         then bind_result (map_err IssuanceApplicant (transition (an_status app) Offered))
                (\<lambda>st. Inr (app\<lparr>an_status := st\<rparr>))
         else if an_status app \<noteq> Offered then Inl (InvalidApplicationStatus (an_status app))
         else Inr app)
        (\<lambda>app. bind_result (complete_attempt tp attempt_id app) (\<lambda>app.
         let data = map_extend (an_system_data app) (offer_identity offer);
             data = map_insert ''offer_generated_at'' (JStr (tp_rfc3339 tp now)) data;
             data = map_insert ''issuance_status'' (JStr (of_status offer)) data;
             app = app\<lparr>an_system_data := data, an_claim_state := OfferReady,
                       an_claim_blocker := None, an_issued_at := None, an_updated_at := now\<rparr>
         in bind_result (map_err IssuanceApplicant (advance_to_offered now a))
              (\<lambda>a. Inr (app, a)))))"

definition mark_no_active_flow :: "time \<Rightarrow> Application \<Rightarrow> Application" where
  "mark_no_active_flow now app =
     app\<lparr>an_claim_state := Blocked,
         an_claim_blocker := Some (JObj
           [(''code'', JStr ''NO_ACTIVE_ISSUANCE_FLOW''), (''owner'', JStr ''ISSUER''),
            (''message'', JStr ''The issuer is still preparing this credential.'')]),
         an_updated_at := now\<rparr>"

section \<open>Reconciliation\<close>

definition unclaimable_blocker :: "string \<Rightarrow> string \<Rightarrow> json" where
  "unclaimable_blocker code message =
     JObj [(''code'', JStr code), (''owner'', JStr ''APPLICANT''), (''message'', JStr message)]"

definition mark_offer_unclaimable ::
  "string \<Rightarrow> string \<Rightarrow> Application \<Rightarrow> bool \<times> Application" where
  "mark_offer_unclaimable code message app =
     (let blocker = unclaimable_blocker code message;
          changed = (an_claim_state app \<noteq> ClaimExpired
            \<or> (case an_claim_blocker app of None \<Rightarrow> True | Some b \<Rightarrow> \<not> json_eq b blocker))
      in (changed, app\<lparr>an_claim_state := ClaimExpired, an_claim_blocker := Some blocker\<rparr>))"

definition reconcile_issued ::
  "time option \<Rightarrow> time \<Rightarrow> Application \<Rightarrow> Applicant
   \<Rightarrow> IssuanceError + bool \<times> Application \<times> Applicant" where
  "reconcile_issued issued_at now app a =
     (let reconciled = (case issued_at of Some t \<Rightarrow> t
            | None \<Rightarrow> (case an_issued_at app of Some t \<Rightarrow> t | None \<Rightarrow> now));
          changed = (an_status app \<noteq> Credentialed \<or> an_issued_at app \<noteq> Some reconciled
            \<or> an_claim_state app \<noteq> Claimed \<or> an_claim_blocker app \<noteq> None);
          app = app\<lparr>an_status := Credentialed, an_issued_at := Some reconciled,
                    an_claim_state := Claimed, an_claim_blocker := None\<rparr>
      in if ap_status a \<noteq> Credentialed
         then bind_result (map_err IssuanceApplicant (advance_to_credentialed now a))
                (\<lambda>a. Inr (True, app, a))
         else Inr (changed, app, a))"

definition back_to_offered :: "Application \<Rightarrow> bool \<times> Application" where
  "back_to_offered app =
     (if an_status app = Credentialed
      then (True, app\<lparr>an_status := Offered, an_issued_at := None\<rparr>)
      else (False, app))"

definition reconcile_effect ::
  "string \<Rightarrow> time option \<Rightarrow> time \<Rightarrow> Application \<Rightarrow> Applicant
   \<Rightarrow> IssuanceError + bool \<times> Application \<times> Applicant" where
  "reconcile_effect normalized issued_at now app a =
     (if normalized = ''issued'' then reconcile_issued issued_at now app a
      else if normalized = ''pending'' \<and> an_status app = Credentialed then
        (let (changed, app) = back_to_offered app in Inr (changed, app, a))
      else if normalized \<in> set [''authorized'', ''signing''] then
        (let (changed1, app) = back_to_offered app;
             (changed2, app) = mark_offer_unclaimable ''OFFER_CONSUMED''
               ''This credential offer has already been accepted. Request a new offer to use another wallet.''
               app
         in Inr (changed1 \<or> changed2, app, a))
      else if normalized = ''failed'' then
        (let (changed, app) = mark_offer_unclaimable ''ISSUANCE_FAILED''
               ''Credential issuance did not complete. Request a new offer.'' app
         in Inr (changed, app, a))
      else if normalized = ''expired'' then
        (let (changed, app) = mark_offer_unclaimable ''OFFER_EXPIRED''
               ''This credential offer has expired. Request a new offer.'' app
         in Inr (changed, app, a))
      else if normalized = ''revoked'' then
        (let (changed, app) = mark_offer_unclaimable ''ISSUANCE_REVOKED''
               ''This credential offer is no longer valid. Request a new offer if permitted.'' app
         in Inr (changed, app, a))
      else Inr (False, app, a))"

definition reconcile_transaction ::
  "string \<Rightarrow> time option \<Rightarrow> time \<Rightarrow> Application \<Rightarrow> Applicant
   \<Rightarrow> IssuanceError + bool \<times> Application \<times> Applicant" where
  "reconcile_transaction status issued_at now app a =
     (if an_status app \<in> set [Rejected, Withdrawn, Suspended] then Inr (False, app, a)
      else let normalized = to_ascii_lowercase status in
        bind_result (reconcile_effect normalized issued_at now app a) (\<lambda>(changed, app, a).
        let (changed, app) =
          (if Option.bind (map_of (an_system_data app) ''issuance_status'') as_str \<noteq> Some normalized
           then (True, app\<lparr>an_system_data :=
                   map_insert ''issuance_status'' (JStr normalized) (an_system_data app)\<rparr>)
           else (changed, app));
          app = (if changed then app\<lparr>an_updated_at := now\<rparr> else app)
        in Inr (changed, app, a)))"

end
