(* ===== verification/Applicant_Forms.thy ===== *)
theory Applicant_Forms
  imports Applicant_Domain
begin

text \<open>
  Form validation of the applicant service (\<open>validate_form_data\<close> of
  \<open>rust/services/applicant/src/lib.rs\<close>). The loop over the fields appends the errors of
  one field after those of the fields before it, then reports the names no field defines, in
  the order of the form.
\<close>

record FieldDefinition =
  fd_field_id :: string
  fd_field_type :: "string option"
  fd_required :: bool
  fd_options :: "json list"
  fd_validation_pattern :: "string option"
  fd_minimum :: "rat option"
  fd_maximum :: "rat option"

definition empty_value :: "json \<Rightarrow> bool" where
  "empty_value v = (v = JNull \<or> as_str v = Some '''' \<or> as_array v = Some [])"

definition field_error :: "string \<Rightarrow> string \<Rightarrow> string \<Rightarrow> FieldError" where
  "field_error field_id code message = \<lparr>fe_field = field_id, fe_code = code, fe_message = message\<rparr>"

definition type_errors :: "third_party \<Rightarrow> FieldDefinition \<Rightarrow> json \<Rightarrow> FieldError list" where
  "type_errors tp fd value =
     (let kind = to_ascii_lowercase (case fd_field_type fd of None \<Rightarrow> ''text'' | Some t \<Rightarrow> t) in
      if kind = ''date'' \<and> Option.bind (as_str value) (tp_parse_date tp) = None then
        [field_error (fd_field_id fd) ''INVALID_DATE'' ''Use an ISO date in YYYY-MM-DD format.'']
      else if kind \<in> set [''datetime'', ''datetime-local'']
          \<and> Option.bind (as_str value) (tp_parse_rfc3339 tp) = None then
        [field_error (fd_field_id fd) ''INVALID_DATETIME'' ''Use a valid ISO 8601 date-time.'']
      else if kind \<in> set [''integer'', ''int''] \<and> as_i64 value = None \<and> as_u64 value = None then
        [field_error (fd_field_id fd) ''INVALID_INTEGER'' ''Enter a whole number.'']
      else if kind \<in> set [''number'', ''float'', ''decimal''] \<and> \<not> is_number value then
        [field_error (fd_field_id fd) ''INVALID_NUMBER'' ''Enter a number.'']
      else if kind \<in> set [''boolean'', ''bool''] \<and> as_bool value = None then
        [field_error (fd_field_id fd) ''INVALID_BOOLEAN'' ''Choose true or false.'']
      else [])"

definition option_value :: "json \<Rightarrow> json" where
  "option_value opt = (case jget opt ''value'' of None \<Rightarrow> opt | Some v \<Rightarrow> v)"

definition choice_errors :: "FieldDefinition \<Rightarrow> json \<Rightarrow> FieldError list" where
  "choice_errors fd value =
     (if fd_options fd \<noteq> [] \<and> \<not> list_ex (\<lambda>opt. json_eq (option_value opt) value) (fd_options fd)
      then [field_error (fd_field_id fd) ''INVALID_CHOICE'' ''Choose one of the allowed values.'']
      else [])"

definition pattern_errors :: "third_party \<Rightarrow> FieldDefinition \<Rightarrow> json \<Rightarrow> FieldError list" where
  "pattern_errors tp fd value =
     (case (fd_validation_pattern fd, as_str value) of
        (Some pattern, Some text) \<Rightarrow>
          (case tp_regex_new tp pattern of
             Some is_match \<Rightarrow>
               if \<not> is_match text then
                 [field_error (fd_field_id fd) ''PATTERN_MISMATCH''
                    ''Value does not match the required format.'']
               else []
           | None \<Rightarrow>
               [field_error (fd_field_id fd) ''INVALID_FIELD_CONFIGURATION''
                  ''Field validation pattern is invalid.''])
      | _ \<Rightarrow> [])"

definition range_errors :: "FieldDefinition \<Rightarrow> json \<Rightarrow> FieldError list" where
  "range_errors fd value =
     (case as_f64 value of
        None \<Rightarrow> []
      | Some number \<Rightarrow>
          (case fd_minimum fd of
             Some minimum \<Rightarrow>
               if number < minimum then
                 [field_error (fd_field_id fd) ''BELOW_MINIMUM''
                    ''Value is below the configured minimum.'']
               else []
           | None \<Rightarrow> [])
          @ (case fd_maximum fd of
               Some maximum \<Rightarrow>
                 if maximum < number then
                   [field_error (fd_field_id fd) ''ABOVE_MAXIMUM''
                      ''Value is above the configured maximum.'']
                 else []
             | None \<Rightarrow> []))"

definition field_errors :: "third_party \<Rightarrow> jmap \<Rightarrow> FieldDefinition \<Rightarrow> FieldError list" where
  "field_errors tp form fd =
     (let value = map_of form (fd_field_id fd) in
      if fd_required fd \<and> (case value of None \<Rightarrow> True | Some v \<Rightarrow> empty_value v) then
        [field_error (fd_field_id fd) ''REQUIRED'' ''This field is required.'']
      else case value of
        None \<Rightarrow> []
      | Some v \<Rightarrow>
          if empty_value v then []
          else type_errors tp fd v @ choice_errors fd v @ pattern_errors tp fd v @ range_errors fd v)"

definition unknown_field_errors :: "jmap \<Rightarrow> FieldDefinition list \<Rightarrow> FieldError list" where
  "unknown_field_errors form fds =
     map (\<lambda>name. field_error name ''UNKNOWN_FIELD''
            ''This field is not defined by the Application Template.'')
       (filter (\<lambda>name. name \<notin> fd_field_id ` set fds) (map fst form))"

definition validate_form_data ::
  "third_party \<Rightarrow> jmap \<Rightarrow> FieldDefinition list \<Rightarrow> ApplicantError + unit" where
  "validate_form_data tp form fds =
     (let errors = concat (map (field_errors tp form) fds) @ unknown_field_errors form fds
      in if errors = [] then Inr () else Inl (FieldValidation errors))"

section \<open>Specification\<close>

text \<open>
  What a form must satisfy, said without the error list: every entry of the form is a defined
  field, a required field has a value, and a value that is there has the declared kind, is one
  of the declared options, matches the pattern and lies in the range.
\<close>

definition kind_ok :: "third_party \<Rightarrow> string \<Rightarrow> json \<Rightarrow> bool" where
  "kind_ok tp kind v \<longleftrightarrow>
     (kind = ''date'' \<longrightarrow> (\<exists>s. v = JStr s \<and> tp_parse_date tp s \<noteq> None))
   \<and> (kind = ''datetime'' \<or> kind = ''datetime-local'' \<longrightarrow>
        (\<exists>s. v = JStr s \<and> tp_parse_rfc3339 tp s \<noteq> None))
   \<and> (kind = ''integer'' \<or> kind = ''int'' \<longrightarrow> as_i64 v \<noteq> None \<or> as_u64 v \<noteq> None)
   \<and> (kind = ''number'' \<or> kind = ''float'' \<or> kind = ''decimal'' \<longrightarrow> (\<exists>n. v = JNum n))
   \<and> (kind = ''boolean'' \<or> kind = ''bool'' \<longrightarrow> (\<exists>b. v = JBool b))"

definition value_ok :: "third_party \<Rightarrow> FieldDefinition \<Rightarrow> json \<Rightarrow> bool" where
  "value_ok tp fd v \<longleftrightarrow>
     kind_ok tp (to_ascii_lowercase (case fd_field_type fd of None \<Rightarrow> ''text'' | Some t \<Rightarrow> t)) v
   \<and> (fd_options fd = [] \<or> (\<exists>opt \<in> set (fd_options fd). json_eq (option_value opt) v))
   \<and> (\<forall>p s. fd_validation_pattern fd = Some p \<longrightarrow> v = JStr s \<longrightarrow>
        (\<exists>m. tp_regex_new tp p = Some m \<and> m s))
   \<and> (\<forall>x. as_f64 v = Some x \<longrightarrow>
        (\<forall>lo. fd_minimum fd = Some lo \<longrightarrow> lo \<le> x) \<and> (\<forall>hi. fd_maximum fd = Some hi \<longrightarrow> x \<le> hi))"

definition form_ok :: "third_party \<Rightarrow> jmap \<Rightarrow> FieldDefinition list \<Rightarrow> bool" where
  "form_ok tp form fds \<longleftrightarrow>
     fst ` set form \<subseteq> fd_field_id ` set fds
   \<and> (\<forall>fd \<in> set fds. case map_of form (fd_field_id fd) of
        None \<Rightarrow> \<not> fd_required fd
      | Some v \<Rightarrow> if empty_value v then \<not> fd_required fd else value_ok tp fd v)"

lemma is_number_iff: "is_number v \<longleftrightarrow> (\<exists>n. v = JNum n)"
  by (cases v) (auto simp: is_number_def)

lemma kind_chain_Nil:
  "((if k = ''date'' \<and> \<not> D then [a]
     else if k \<in> set [''datetime'', ''datetime-local''] \<and> \<not> T then [b]
     else if k \<in> set [''integer'', ''int''] \<and> I1 \<and> I2 then [c]
     else if k \<in> set [''number'', ''float'', ''decimal''] \<and> \<not> N then [d]
     else if k \<in> set [''boolean'', ''bool''] \<and> \<not> B then [e]
     else []) = [])
   \<longleftrightarrow> (k = ''date'' \<longrightarrow> D) \<and> (k = ''datetime'' \<or> k = ''datetime-local'' \<longrightarrow> T)
     \<and> (k = ''integer'' \<or> k = ''int'' \<longrightarrow> \<not> I1 \<or> \<not> I2)
     \<and> (k = ''number'' \<or> k = ''float'' \<or> k = ''decimal'' \<longrightarrow> N)
     \<and> (k = ''boolean'' \<or> k = ''bool'' \<longrightarrow> B)"
  by (cases D; cases T; cases I1; cases I2; cases N; cases B) simp_all

lemma type_errors_Nil:
  "type_errors tp fd v = [] \<longleftrightarrow>
     kind_ok tp (to_ascii_lowercase (case fd_field_type fd of None \<Rightarrow> ''text'' | Some t \<Rightarrow> t)) v"
  unfolding type_errors_def Let_def kind_ok_def is_number_iff bind_as_str_None as_bool_None
  by (rule kind_chain_Nil)

lemma choice_errors_Nil:
  "choice_errors fd v = [] \<longleftrightarrow>
     fd_options fd = [] \<or> (\<exists>opt \<in> set (fd_options fd). json_eq (option_value opt) v)"
  by (auto simp: choice_errors_def list_ex_iff)

lemma pattern_errors_Nil:
  "pattern_errors tp fd v = [] \<longleftrightarrow>
     (\<forall>p s. fd_validation_pattern fd = Some p \<longrightarrow> v = JStr s \<longrightarrow>
        (\<exists>m. tp_regex_new tp p = Some m \<and> m s))"
  by (auto simp: pattern_errors_def as_str_None split: option.splits)

lemma range_errors_Nil:
  "range_errors fd v = [] \<longleftrightarrow>
     (\<forall>x. as_f64 v = Some x \<longrightarrow>
        (\<forall>lo. fd_minimum fd = Some lo \<longrightarrow> lo \<le> x) \<and> (\<forall>hi. fd_maximum fd = Some hi \<longrightarrow> x \<le> hi))"
  by (auto simp: range_errors_def not_less split: option.splits)

lemma field_errors_Nil:
  "field_errors tp form fd = [] \<longleftrightarrow>
     (case map_of form (fd_field_id fd) of
        None \<Rightarrow> \<not> fd_required fd
      | Some v \<Rightarrow> if empty_value v then \<not> fd_required fd else value_ok tp fd v)"
  by (auto simp: field_errors_def Let_def value_ok_def type_errors_Nil choice_errors_Nil
      pattern_errors_Nil range_errors_Nil split: option.splits)

lemma unknown_field_errors_Nil:
  "unknown_field_errors form fds = [] \<longleftrightarrow> fst ` set form \<subseteq> fd_field_id ` set fds"
  by (auto simp: unknown_field_errors_def filter_empty_conv)

lemma validate_form_data_ok:
  "validate_form_data tp form fds = Inr () \<longleftrightarrow> form_ok tp form fds"
  by (auto simp: validate_form_data_def Let_def form_ok_def field_errors_Nil unknown_field_errors_Nil)

text \<open>C28. Form validation is exact: a form is accepted if and only if every entry is a defined
  field, every required field has a value that is not empty, and every value that is present has
  the declared kind, is one of the declared options, matches the declared pattern and lies within
  the declared range; otherwise the error carries at least one field error.\<close>

theorem form_validation_is_exact:
  "(validate_form_data tp form fds = Inr () \<longleftrightarrow> form_ok tp form fds)
   \<and> (\<forall>e. validate_form_data tp form fds = Inl e \<longrightarrow> (\<exists>errors. e = FieldValidation errors \<and> errors \<noteq> []))"
  using validate_form_data_ok [of tp form fds] by (auto simp: validate_form_data_def Let_def split: if_splits)

theorem form_validation_is_exact_witness:
  "\<exists>errors. validate_form_data demo [(''age'', JStr ''x'')] [] = Inl (FieldValidation errors) \<and> errors \<noteq> []"
proof -
  have "\<not> form_ok demo [(''age'', JStr ''x'')] []" by (simp add: form_ok_def)
  then show ?thesis
    using form_validation_is_exact [of demo "[(''age'', JStr ''x'')]" "[]"]
    by (cases "validate_form_data demo [(''age'', JStr ''x'')] []") auto
qed

end
