(* ===== verification/Lease.thy ===== *)
theory Lease
  imports Prelude
begin

text \<open>
  The lease contract: a key is held by one owner until an expiry time. The reviewer locks of
  the applicant service and the submission leases of the verification sessions provide it.
  The last argument but one of an acquisition is data the provider stores with the lease.
\<close>

datatype ('k, 'o, 'x) lease_op = LeaseAcquire 'k 'o 'x time | LeaseRelease 'k 'o time

definition lease_attempt ::
  "('s \<Rightarrow> 'k \<Rightarrow> 'o \<Rightarrow> 'x \<Rightarrow> time \<Rightarrow> 's option) \<Rightarrow> 's \<Rightarrow> 'k \<times> 'o \<times> 'x \<times> time \<Rightarrow> 's" where
  "lease_attempt acquire s a =
     (case a of (k, w, x, t) \<Rightarrow> (case acquire s k w x t of None \<Rightarrow> s | Some s' \<Rightarrow> s'))"

definition lease_attempts ::
  "('s \<Rightarrow> 'k \<Rightarrow> 'o \<Rightarrow> 'x \<Rightarrow> time \<Rightarrow> 's option) \<Rightarrow> ('k \<times> 'o \<times> 'x \<times> time) list \<Rightarrow> 's \<Rightarrow> 's" where
  "lease_attempts acquire as s = fold (\<lambda>a s. lease_attempt acquire s a) as s"

locale lease =
  fixes holder :: "'s \<Rightarrow> 'k \<Rightarrow> ('o \<times> time) option"
    and acquire :: "'s \<Rightarrow> 'k \<Rightarrow> 'o \<Rightarrow> 'x \<Rightarrow> time \<Rightarrow> 's option"
    and ttl :: time
  assumes acquire_grant: "acquire s k w x t = Some s' \<Longrightarrow> holder s' k = Some (w, t + ttl)"
    and acquire_frame: "acquire s k w x t = Some s' \<Longrightarrow> k' \<noteq> k \<Longrightarrow> holder s' k' = holder s k'"
    and acquire_excl: "holder s k = Some (w', e) \<Longrightarrow> t < e \<Longrightarrow> w \<noteq> w' \<Longrightarrow> acquire s k w x t = None"
begin

lemma attempt_keeps:
  assumes "holder s k = Some (w, e)"
    and "\<And>w' x t. a = (k, w', x, t) \<Longrightarrow> w' \<noteq> w \<and> t < e"
  shows "holder (lease_attempt acquire s a) k = Some (w, e)"
proof -
  obtain k' w' x t where a: "a = (k', w', x, t)" by (cases a) auto
  show ?thesis
  proof (cases "k' = k")
    case True
    with assms a have "acquire s k' w' x t = None" by (auto intro: acquire_excl)
    then show ?thesis using assms(1) by (simp add: lease_attempt_def a)
  next
    case False
    then show ?thesis
      using assms(1) by (auto simp: lease_attempt_def a acquire_frame split: option.splits)
  qed
qed

text \<open>While a lease lasts, no sequence of attempts by others takes it.\<close>

lemma attempts_keep:
  assumes "holder s k = Some (w, e)"
    and "\<And>w' x t. (k, w', x, t) \<in> set as \<Longrightarrow> w' \<noteq> w \<and> t < e"
  shows "holder (lease_attempts acquire as s) k = Some (w, e)"
  using assms
proof (induction as arbitrary: s)
  case Nil
  then show ?case by (simp add: lease_attempts_def)
next
  case (Cons a as)
  have "holder (lease_attempt acquire s a) k = Some (w, e)"
    using Cons.prems by (intro attempt_keeps) auto
  then have "holder (lease_attempts acquire as (lease_attempt acquire s a)) k = Some (w, e)"
    by (rule Cons.IH) (use Cons.prems(2) in auto)
  then show ?case by (simp add: lease_attempts_def)
qed

end

text \<open>A lease its holder can renew and give back, and that anyone can take once it is free.\<close>

definition lease_step ::
  "('s \<Rightarrow> 'k \<Rightarrow> 'o \<Rightarrow> 'x \<Rightarrow> time \<Rightarrow> 's option) \<Rightarrow> ('s \<Rightarrow> 'k \<Rightarrow> 'o \<Rightarrow> time \<Rightarrow> 's)
   \<Rightarrow> ('k, 'o, 'x) lease_op \<Rightarrow> 's \<Rightarrow> 's" where
  "lease_step acquire release p s =
     (case p of
        LeaseAcquire k w x t \<Rightarrow> lease_attempt acquire s (k, w, x, t)
      | LeaseRelease k w t \<Rightarrow> release s k w t)"

definition lease_run ::
  "('s \<Rightarrow> 'k \<Rightarrow> 'o \<Rightarrow> 'x \<Rightarrow> time \<Rightarrow> 's option) \<Rightarrow> ('s \<Rightarrow> 'k \<Rightarrow> 'o \<Rightarrow> time \<Rightarrow> 's)
   \<Rightarrow> ('k, 'o, 'x) lease_op list \<Rightarrow> 's \<Rightarrow> 's" where
  "lease_run acquire release ps s = fold (lease_step acquire release) ps s"

fun op_by_other :: "'k \<Rightarrow> 'o \<Rightarrow> time \<Rightarrow> ('k, 'o, 'x) lease_op \<Rightarrow> bool" where
  "op_by_other k w e (LeaseAcquire k' w' x t) = (k' = k \<longrightarrow> w' \<noteq> w \<and> t < e)"
| "op_by_other k w e (LeaseRelease k' w' t) = (k' = k \<longrightarrow> w' \<noteq> w \<and> t < e)"

locale renewable_lease = lease +
  fixes release :: "'s \<Rightarrow> 'k \<Rightarrow> 'o \<Rightarrow> time \<Rightarrow> 's"
  assumes acquire_free:
    "(\<And>w' e. holder s k = Some (w', e) \<Longrightarrow> w' = w \<or> e \<le> t) \<Longrightarrow> acquire s k w x t \<noteq> None"
    and release_own: "holder s k = Some (w, e) \<Longrightarrow> holder (release s k w t) k = None"
    and release_other: "holder s k = Some (w', e) \<Longrightarrow> t < e \<Longrightarrow> w \<noteq> w' \<Longrightarrow> release s k w t = s"
    and release_frame: "k' \<noteq> k \<Longrightarrow> holder (release s k w t) k' = holder s k'"
begin

lemma run_keeps:
  assumes "holder s k = Some (w, e)" and "\<And>p. p \<in> set ps \<Longrightarrow> op_by_other k w e p"
  shows "holder (lease_run acquire release ps s) k = Some (w, e)"
  using assms
proof (induction ps arbitrary: s)
  case Nil
  then show ?case by (simp add: lease_run_def)
next
  case (Cons p ps)
  have by_other: "op_by_other k w e p" using Cons.prems(2) by simp
  have "holder (lease_step acquire release p s) k = Some (w, e)"
  proof (cases p)
    case (LeaseAcquire k' w' x t)
    then show ?thesis
      using by_other Cons.prems(1) by (auto simp: lease_step_def intro!: attempt_keeps)
  next
    case (LeaseRelease k' w' t)
    then show ?thesis
      using by_other Cons.prems(1)
      by (cases "k' = k") (auto simp: lease_step_def release_other release_frame)
  qed
  then show ?case
    using Cons.IH [of "lease_step acquire release p s"] Cons.prems(2) by (simp add: lease_run_def)
qed

text \<open>After a release by the holder another owner gets the key.\<close>

lemma handover:
  assumes "holder s k = Some (w, e)"
  shows "\<exists>s'. acquire (release s k w t) k w' x t' = Some s' \<and> holder s' k = Some (w', t' + ttl)"
proof -
  have "holder (release s k w t) k = None" using assms by (rule release_own)
  then have "acquire (release s k w t) k w' x t' \<noteq> None" by (intro acquire_free) auto
  then show ?thesis using acquire_grant by blast
qed

end

end
