(* ===== verification/Reviewer_Locks.thy ===== *)
theory Reviewer_Locks
  imports Applicant_Domain Lease
begin

text \<open>
  \<open>ReviewerLocks\<close> of \<open>rust/services/applicant/src/lib.rs\<close>: a \<open>BTreeMap\<close> from
  application to the lock of its reviewer. A lock lasts \<open>LOCK_TTL_SECONDS\<close>, is renewed by its
  owner and can be taken by anyone once it has expired.
\<close>

type_synonym ReviewerLocks = "(string \<times> ReviewerLock) list"

definition locks_acquire ::
  "string \<Rightarrow> string \<Rightarrow> string \<Rightarrow> string \<Rightarrow> time \<Rightarrow> ReviewerLocks
   \<Rightarrow> (ApplicantError + ReviewerLock) \<times> ReviewerLocks" where
  "locks_acquire fresh_id application_id reviewer_id reviewer_name now locks =
     (let grant =
        (let lock = \<lparr> lk_id = fresh_id, lk_application_id = application_id,
               lk_reviewer_id = reviewer_id, lk_reviewer_name = reviewer_name,
               lk_acquired_at = now, lk_expires_at = now + seconds LOCK_TTL_SECONDS \<rparr>
         in (Inr lock, bt_insert application_id lock locks))
      in case map_of locks application_id of
           Some current \<Rightarrow>
             if now < lk_expires_at current \<and> lk_reviewer_id current \<noteq> reviewer_id
             then (Inl (Locked current), locks) else grant
         | None \<Rightarrow> grant)"

definition locks_release ::
  "string \<Rightarrow> string \<Rightarrow> time \<Rightarrow> ReviewerLocks \<Rightarrow> bool \<times> ReviewerLocks" where
  "locks_release application_id reviewer_id now locks =
     (let removable = (case map_of locks application_id of
            None \<Rightarrow> False
          | Some lock \<Rightarrow> lk_reviewer_id lock = reviewer_id \<or> lk_expires_at lock \<le> now)
      in (removable, if removable then bt_remove application_id locks else locks))"

definition locks_held_by :: "string \<Rightarrow> string \<Rightarrow> time \<Rightarrow> ReviewerLocks \<Rightarrow> bool" where
  "locks_held_by application_id reviewer_id now locks =
     (case map_of locks application_id of
        None \<Rightarrow> False
      | Some lock \<Rightarrow> now < lk_expires_at lock \<and> lk_reviewer_id lock = reviewer_id)"

definition locks_active :: "string \<Rightarrow> time \<Rightarrow> ReviewerLocks \<Rightarrow> ReviewerLock option" where
  "locks_active application_id now locks =
     (case map_of locks application_id of
        None \<Rightarrow> None
      | Some lock \<Rightarrow> if now < lk_expires_at lock then Some lock else None)"

section \<open>The locks are leases\<close>

definition lock_holder :: "ReviewerLocks \<Rightarrow> string \<Rightarrow> (string \<times> time) option" where
  "lock_holder locks application_id =
     map_option (\<lambda>l. (lk_reviewer_id l, lk_expires_at l)) (map_of locks application_id)"

text \<open>An acquisition as a partial step; its extra data are the fresh identifier and the name.\<close>

definition lock_acquire_step ::
  "ReviewerLocks \<Rightarrow> string \<Rightarrow> string \<Rightarrow> string \<times> string \<Rightarrow> time \<Rightarrow> ReviewerLocks option" where
  "lock_acquire_step locks application_id reviewer_id x now =
     (case locks_acquire (fst x) application_id reviewer_id (snd x) now locks of
        (Inl _, _) \<Rightarrow> None
      | (Inr _, locks') \<Rightarrow> Some locks')"

definition lock_release_step :: "ReviewerLocks \<Rightarrow> string \<Rightarrow> string \<Rightarrow> time \<Rightarrow> ReviewerLocks" where
  "lock_release_step locks application_id reviewer_id now =
     snd (locks_release application_id reviewer_id now locks)"

interpretation rl: renewable_lease lock_holder lock_acquire_step "seconds LOCK_TTL_SECONDS"
  lock_release_step
  by unfold_locales
    (auto simp: lock_holder_def lock_acquire_step_def lock_release_step_def locks_acquire_def
      locks_release_def Let_def store_simps split: option.splits if_splits)

lemma held_by_holder:
  "locks_held_by a r t locks \<longleftrightarrow> (\<exists>e. lock_holder locks a = Some (r, e) \<and> t < e)"
  by (auto simp: locks_held_by_def lock_holder_def split: option.splits)

lemma held_by_unique:
  "locks_held_by a r t locks \<Longrightarrow> locks_held_by a r' t locks \<Longrightarrow> r = r'"
  by (auto simp: held_by_holder)

lemma acquire_result:
  "fst (locks_acquire i a r n t locks) = Inr l \<longleftrightarrow>
     l = \<lparr>lk_id = i, lk_application_id = a, lk_reviewer_id = r, lk_reviewer_name = n,
          lk_acquired_at = t, lk_expires_at = t + seconds LOCK_TTL_SECONDS\<rparr>
     \<and> (\<forall>r' e. lock_holder locks a = Some (r', e) \<longrightarrow> r' = r \<or> e \<le> t)"
  by (auto simp: locks_acquire_def Let_def lock_holder_def not_less split: option.splits if_splits)

lemma bt_wf_locks_acquire: "bt_wf locks \<Longrightarrow> bt_wf (snd (locks_acquire i a r n t locks))"
  by (auto simp: locks_acquire_def Let_def bt_wf_insert split: option.splits)

lemma bt_wf_locks_release: "bt_wf locks \<Longrightarrow> bt_wf (snd (locks_release a r t locks))"
  by (auto simp: locks_release_def Let_def bt_wf_remove)

text \<open>C27. A reviewer lock is exclusive while it lasts. Once a reviewer has acquired the lock of an
  application, then for its 300 seconds, whatever sequence of acquisitions and releases the other
  reviewers attempt on any application, this reviewer holds it and no other does.\<close>

theorem reviewer_lock_is_exclusive:
  assumes "fst (locks_acquire lid i r n t locks) = Inr l"
    and "\<And>p. p \<in> set ps \<Longrightarrow> op_by_other i r (t + seconds LOCK_TTL_SECONDS) p"
    and "t' < t + seconds LOCK_TTL_SECONDS"
    and "after = lease_run lock_acquire_step lock_release_step ps (snd (locks_acquire lid i r n t locks))"
  shows "locks_held_by i r t' after \<and> (\<forall>r'. r' \<noteq> r \<longrightarrow> \<not> locks_held_by i r' t' after)"
proof -
  have "lock_acquire_step locks i r (lid, n) t = Some (snd (locks_acquire lid i r n t locks))"
    using assms(1) by (auto simp: lock_acquire_step_def split: prod.splits)
  then have "lock_holder (snd (locks_acquire lid i r n t locks)) i = Some (r, t + seconds LOCK_TTL_SECONDS)"
    by (rule rl.acquire_grant)
  then have "lock_holder after i = Some (r, t + seconds LOCK_TTL_SECONDS)"
    unfolding assms(4) by (rule rl.run_keeps) (rule assms(2))
  then have held: "locks_held_by i r t' after" using assms(3) by (auto simp: held_by_holder)
  then show ?thesis using held_by_unique by blast
qed

theorem reviewer_lock_is_exclusive_witness:
  "locks_held_by ''app'' ''ann'' 200 (lease_run lock_acquire_step lock_release_step
     [LeaseAcquire ''app'' ''bob'' (''l2'', ''Bob'') 7, LeaseRelease ''app'' ''bob'' 8]
     (snd (locks_acquire ''l1'' ''app'' ''ann'' ''Ann'' 5 [])))"
proof -
  have got: "fst (locks_acquire ''l1'' ''app'' ''ann'' ''Ann'' 5 []) = Inr
      \<lparr>lk_id = ''l1'', lk_application_id = ''app'', lk_reviewer_id = ''ann'', lk_reviewer_name = ''Ann'',
       lk_acquired_at = 5, lk_expires_at = 5 + seconds LOCK_TTL_SECONDS\<rparr>"
    by (simp add: locks_acquire_def Let_def)
  show ?thesis
    by (rule reviewer_lock_is_exclusive [OF got _ _ refl, THEN conjunct1])
      (auto simp: LOCK_TTL_SECONDS_def seconds_def)
qed

text \<open>A lock is granted exactly when no other reviewer holds an unexpired one, the grant lasts
  300 seconds, and a release by the holder or after expiry frees the application for everyone: a
  reviewer is never locked out by a lock that has ended.\<close>

lemma reviewer_lock_is_granted_when_free:
  "(is_ok (fst (locks_acquire lid i r n t locks)) \<longleftrightarrow>
      (\<forall>l. map_of locks i = Some l \<longrightarrow> lk_reviewer_id l = r \<or> lk_expires_at l \<le> t))
   \<and> (\<forall>l. fst (locks_acquire lid i r n t locks) = Inr l \<longrightarrow>
        lk_expires_at l = t + seconds 300 \<and> lk_reviewer_id l = r
        \<and> map_of (snd (locks_acquire lid i r n t locks)) i = Some l)
   \<and> (fst (locks_release i r t locks) \<longrightarrow>
        is_ok (fst (locks_acquire lid i r' n t (snd (locks_release i r t locks)))))"
  by (auto simp: locks_acquire_def locks_release_def Let_def store_simps LOCK_TTL_SECONDS_def
      split: option.splits)

lemma reviewer_lock_is_granted_when_free_example:
  "is_ok (fst (locks_acquire ''l2'' ''app'' ''bob'' ''Bob'' 400000000000
     (snd (locks_acquire ''l1'' ''app'' ''ann'' ''Ann'' 5 []))))"
proof -
  let ?locks = "snd (locks_acquire ''l1'' ''app'' ''ann'' ''Ann'' 5 [])"
  have "map_of ?locks ''app'' = Some l \<Longrightarrow> lk_expires_at l \<le> 400000000000" for l
    by (auto simp: locks_acquire_def LOCK_TTL_SECONDS_def seconds_def Let_def)
  then show ?thesis
    by (intro reviewer_lock_is_granted_when_free [THEN conjunct1, THEN iffD2]) blast
qed

end
