(* ===== verification/Claim_Collection.thy ===== *)
theory Claim_Collection
  imports Third_Party
begin

text \<open>
  \<open>rust/crates/claim-collection\<close>: how the claims of a credential are collected from a
  form, from system values and from verified evidence, under the rules of an application
  template.
\<close>

section \<open>System values\<close>

definition insert_fields :: "string \<Rightarrow> json \<Rightarrow> string list \<Rightarrow> jmap \<Rightarrow> jmap" where
  "insert_fields namespace value names values =
     fold (\<lambda>field_name m.
       case jget value field_name of
         None \<Rightarrow> m
       | Some v \<Rightarrow> if v = JNull then m else map_insert (namespace @ ''.'' @ field_name) v m)
     names values"

definition system_values ::
  "third_party \<Rightarrow> json \<Rightarrow> json \<Rightarrow> json \<Rightarrow> time \<Rightarrow> int \<Rightarrow> jmap" where
  "system_values tp applicant application template now validity_days =
     (let values = insert_fields ''applicant'' applicant
            [''user_id'', ''email'', ''given_name'', ''family_name''] [];
          values = insert_fields ''application'' application
            [''id'', ''reference_number'', ''organization_id''] values;
          values = insert_fields ''template'' template [''name'', ''description''] values;
          values = map_insert ''current.date'' (JStr (tp_date tp now)) values;
          values = map_insert ''current.datetime'' (JStr (tp_rfc3339 tp now)) values
      in case Option.bind (tp_try_days tp validity_days) (tp_checked_add tp now) of
           None \<Rightarrow> values
         | Some expiry \<Rightarrow> map_insert ''validity.expiry_date'' (JStr (tp_date tp expiry)) values)"

section \<open>Evidence\<close>

definition nonblank_string :: "json \<Rightarrow> bool" where
  "nonblank_string j = (case as_str j of None \<Rightarrow> False | Some s \<Rightarrow> \<not> blank s)"

definition valid_evidence_config :: "jmap \<Rightarrow> bool" where
  "valid_evidence_config config =
     (let selector = (\<exists>key \<in> set [''requirement_id'', ''fact_type''].
            case map_of config key of None \<Rightarrow> False | Some v \<Rightarrow> nonblank_string v);
          pointer = (case Option.bind (map_of config ''json_pointer'') as_str of
            None \<Rightarrow> '''' | Some p \<Rightarrow> p);
          parts = split_on (CHR ''/'') pointer;
          root = (if 1 < length parts then parts ! 1 else '''')
      in selector
       \<and> starts_with ''/'' pointer
       \<and> length pointer \<le> 1024
       \<and> root \<in> set [''assertion'', ''scope'', ''effective_at'', ''observed_at'']
       \<and> (case map_of config ''format'' of None \<Rightarrow> True | Some f \<Rightarrow> f = JStr ''date'')
       \<and> list_all (\<lambda>kv. fst kv \<in> set [''requirement_id'', ''fact_type'', ''json_pointer'', ''format''])
           config
       \<and> (\<forall>key \<in> set [''requirement_id'', ''fact_type''].
            case map_of config key of None \<Rightarrow> True | Some v \<Rightarrow> nonblank_string v))"

definition matches_evidence_selector :: "jmap \<Rightarrow> json \<Rightarrow> bool" where
  "matches_evidence_selector config evidence =
     (\<forall>key \<in> set [''requirement_id'', ''fact_type''].
        case map_of config key of
          None \<Rightarrow> True
        | Some expected \<Rightarrow>
            (case jget evidence key of None \<Rightarrow> False | Some actual \<Rightarrow> json_eq actual expected))"

definition extract_evidence :: "third_party \<Rightarrow> jmap \<Rightarrow> json list \<Rightarrow> json option" where
  "extract_evidence tp config evidence =
     (if \<not> valid_evidence_config config then None
      else let matches = filter (matches_evidence_selector config) evidence
           in if length matches \<noteq> 1 then None
              else case Option.bind (map_of config ''json_pointer'') as_str of
                None \<Rightarrow> None
              | Some pointer \<Rightarrow>
                  (case json_pointer (matches ! 0) pointer of
                     None \<Rightarrow> None
                   | Some value \<Rightarrow>
                       if map_of config ''format'' \<noteq> None
                       then map_option (\<lambda>t. JStr (tp_date tp t))
                              (Option.bind (as_str value) (tp_parse_rfc3339 tp))
                       else Some value))"

section \<open>Rules\<close>

definition rule_claim_name :: "json \<Rightarrow> string option" where
  "rule_claim_name rule =
     (case Option.bind (jget rule ''claim_name'') as_str of
        None \<Rightarrow> None
      | Some name \<Rightarrow> if name = [] then None else Some name)"

text \<open>The value a rule's source yields, before the filter on null.\<close>

definition rule_value ::
  "third_party \<Rightarrow> jmap \<Rightarrow> jmap \<Rightarrow> json list \<Rightarrow> json \<Rightarrow> jmap \<Rightarrow> json option" where
  "rule_value tp form system verified_evidence rule config =
     (case Option.bind (jget rule ''source'') as_str of
        None \<Rightarrow> None
      | Some source \<Rightarrow>
          if source = ''FORM_FIELD'' then
            Option.bind (Option.bind (map_of config ''field_id'') as_str) (map_of form)
          else if source = ''SYSTEM'' then
            Option.bind (Option.bind (map_of config ''system_field'') as_str)
              (\<lambda>field. if field = ''constant'' then map_of config ''value'' else map_of system field)
          else if source = ''EVIDENCE_EXTRACTION'' then
            extract_evidence tp config verified_evidence
          else None)"

definition apply_rule ::
  "third_party \<Rightarrow> jmap \<Rightarrow> jmap \<Rightarrow> json list \<Rightarrow> json \<Rightarrow> jmap \<Rightarrow> jmap" where
  "apply_rule tp form system verified_evidence rule claims =
     (case rule_claim_name rule of
        None \<Rightarrow> claims
      | Some name \<Rightarrow>
          (let claims = map_remove name claims
           in case Option.bind (jget rule ''source_config'') as_object of
                None \<Rightarrow> claims
              | Some config \<Rightarrow>
                  (case rule_value tp form system verified_evidence rule config of
                     None \<Rightarrow> claims
                   | Some value \<Rightarrow>
                       if value = JNull then claims else map_insert name value claims)))"

definition apply_rules ::
  "third_party \<Rightarrow> jmap \<Rightarrow> jmap \<Rightarrow> json list \<Rightarrow> jmap \<Rightarrow> json list \<Rightarrow> jmap" where
  "apply_rules tp claims form rules system verified_evidence =
     fold (apply_rule tp form system verified_evidence) rules claims"

definition evidence_pointer_requested :: "json list \<Rightarrow> json \<Rightarrow> string \<Rightarrow> bool" where
  "evidence_pointer_requested rules evidence pointer =
     list_ex (\<lambda>rule.
       rule_claim_name rule \<noteq> None
       \<and> Option.bind (jget rule ''source'') as_str = Some ''EVIDENCE_EXTRACTION''
       \<and> (case Option.bind (jget rule ''source_config'') as_object of
            None \<Rightarrow> False
          | Some config \<Rightarrow>
              valid_evidence_config config
              \<and> Option.bind (map_of config ''json_pointer'') as_str = Some pointer
              \<and> matches_evidence_selector config evidence)) rules"

section \<open>Facts\<close>

text \<open>The claim a rule produces: its value, when it has one that is not null.\<close>

definition rule_result ::
  "third_party \<Rightarrow> jmap \<Rightarrow> jmap \<Rightarrow> json list \<Rightarrow> json \<Rightarrow> json option" where
  "rule_result tp form system verified_evidence rule =
     (case Option.bind (jget rule ''source_config'') as_object of
        None \<Rightarrow> None
      | Some config \<Rightarrow>
          (case rule_value tp form system verified_evidence rule config of
             None \<Rightarrow> None | Some v \<Rightarrow> if v = JNull then None else Some v))"

lemma wf_apply_rule: "wf_map claims \<Longrightarrow> wf_map (apply_rule tp form system ev rule claims)"
  unfolding apply_rule_def Let_def
  by (auto split: option.splits intro: wf_map_insert wf_map_remove)

lemma map_of_apply_rule:
  assumes "wf_map claims"
  shows "map_of (apply_rule tp form system ev rule claims) =
    (case rule_claim_name rule of
       None \<Rightarrow> map_of claims
     | Some name \<Rightarrow> (map_of claims)(name := rule_result tp form system ev rule))"
  using assms
  by (auto simp: apply_rule_def Let_def rule_result_def store_simps wf_map_remove fun_eq_iff
      split: option.splits)

text \<open>
  The last rule of a list that names a claim decides it, and a claim that no rule names keeps
  the value it had.
\<close>

fun deciding_rule :: "string \<Rightarrow> json list \<Rightarrow> json option" where
  "deciding_rule name [] = None"
| "deciding_rule name (r # rs) =
     (case deciding_rule name rs of
        Some r' \<Rightarrow> Some r'
      | None \<Rightarrow> if rule_claim_name r = Some name then Some r else None)"

lemma wf_apply_rules: "wf_map claims \<Longrightarrow> wf_map (apply_rules tp claims form rules system ev)"
  unfolding apply_rules_def
  by (induction rules arbitrary: claims) (auto intro: wf_apply_rule)

lemma map_of_apply_rules:
  assumes "wf_map claims"
  shows "map_of (apply_rules tp claims form rules system ev) name =
    (case deciding_rule name rules of
       None \<Rightarrow> map_of claims name
     | Some r \<Rightarrow> rule_result tp form system ev r)"
  using assms unfolding apply_rules_def
proof (induction rules arbitrary: claims)
  case Nil
  then show ?case by simp
next
  case (Cons r rs)
  have "wf_map (apply_rule tp form system ev r claims)"
    by (rule wf_apply_rule) (rule Cons.prems)
  from Cons.IH [OF this] show ?case
    by (auto simp: map_of_apply_rule [OF Cons.prems] split: option.splits)
qed

section \<open>The guarantee\<close>

text \<open>Evidence reaches a claim only through a valid selector that exactly one piece matches.\<close>

lemma extract_evidence_Some:
  assumes "extract_evidence tp config evidence = Some v"
  obtains e pointer w where "filter (matches_evidence_selector config) evidence = [e]"
    and "valid_evidence_config config"
    and "Option.bind (map_of config ''json_pointer'') as_str = Some pointer"
    and "json_pointer e pointer = Some w"
    and "map_of config ''format'' = None \<Longrightarrow> v = w"
proof -
  have one: "length (filter (matches_evidence_selector config) evidence) = 1"
    using assms by (auto simp: extract_evidence_def Let_def split: if_splits)
  then obtain e where e: "filter (matches_evidence_selector config) evidence = [e]"
    by (auto simp: length_Suc_conv)
  show thesis
    using assms by (auto simp: extract_evidence_def e split: if_splits option.splits intro: that [OF e])
qed

lemma rule_result_evidence:
  assumes "Option.bind (jget rule ''source'') as_str = Some ''EVIDENCE_EXTRACTION''"
    and "Option.bind (jget rule ''source_config'') as_object = Some config"
  shows "rule_result tp form system ev rule =
    (case extract_evidence tp config ev of None \<Rightarrow> None | Some v \<Rightarrow> if v = JNull then None else Some v)"
  using assms by (simp add: rule_result_def rule_value_def)

text \<open>After the rules of a template have been applied to the claims collected so far, each
  claim holds what the last rule that names it yields (its value, or no claim at all when the rule
  yields nothing), and a claim that no rule names keeps its value. A claim taken from verified
  evidence is present only when the rule's selector is valid and exactly one piece of evidence
  matches it: ambiguous evidence gives no claim, whatever the earlier rules put there.\<close>

theorem claims_follow_the_last_rule:
  assumes "wf_map claims"
  shows "map_of (apply_rules tp claims form rules system ev) name =
      (case deciding_rule name rules of
         None \<Rightarrow> map_of claims name
       | Some r \<Rightarrow> rule_result tp form system ev r)
    \<and> (\<forall>r config v.
         deciding_rule name rules = Some r
         \<and> Option.bind (jget r ''source'') as_str = Some ''EVIDENCE_EXTRACTION''
         \<and> Option.bind (jget r ''source_config'') as_object = Some config
         \<and> map_of (apply_rules tp claims form rules system ev) name = Some v
         \<longrightarrow> valid_evidence_config config \<and> v \<noteq> JNull
           \<and> (\<exists>e. filter (matches_evidence_selector config) ev = [e]))"
proof -
  have one: "valid_evidence_config config
      \<and> (\<exists>e. filter (matches_evidence_selector config) ev = [e])"
    if "extract_evidence tp config ev = Some v" for config v
    using that by (rule extract_evidence_Some) blast
  show ?thesis
    by (auto simp: map_of_apply_rules [OF assms] rule_result_evidence dest: one
        split: option.splits if_splits)
qed

definition sample_rule :: json where
  "sample_rule = JObj [(''claim_name'', JStr ''age''), (''source'', JStr ''EVIDENCE_EXTRACTION''),
     (''source_config'', JObj [(''fact_type'', JStr ''age''), (''json_pointer'', JStr ''/assertion/age'')])]"

theorem claims_follow_the_last_rule_witness:
  "map_of (apply_rules demo [(''age'', JStr ''old'')] [] [sample_rule] []
      [JObj [(''fact_type'', JStr ''age''), (''assertion'', JObj [(''age'', JStr ''over 18'')])]]) ''age''
    = Some (JStr ''over 18'')
   \<and> map_of (apply_rules demo [(''age'', JStr ''old'')] [] [sample_rule] []
      [JObj [(''fact_type'', JStr ''age'')], JObj [(''fact_type'', JStr ''age'')]]) ''age'' = None"
proof -
  have wf: "wf_map [(''age'', JStr ''old'')]" by (simp add: wf_map_def)
  show ?thesis
    using claims_follow_the_last_rule [OF wf, of demo "[]" "[sample_rule]" "[]" _ "''age''", THEN conjunct1]
    by simp code_simp
qed

end
