(* ===== verification/Applicant_Service.thy ===== *)
theory Applicant_Service
  imports Applicant_Store Applicant_Issuance Applicant_Forms Reviewer_Locks Claim_Collection
begin

text \<open>
  \<open>rust/services/applicant/src/service.rs\<close>, first part: the service state, its providers and
  errors, the shared helpers, and the operations on profiles, biometrics, evidence, checks and
  locks. The state is the store in memory, the reviewer locks and the document on the durable
  medium, as the last \<open>persist\<close> that replaced it has left it. An operation returns its result and
  the state it leaves, also when it fails: what the code has already changed in memory stays
  changed.
\<close>

section \<open>Templates, facts, errors, providers\<close>

record CheckSpec =
  cs_check_type :: CheckType
  cs_custom_name :: "string option"
  cs_is_required :: bool
  cs_order :: int
  cs_config :: jmap
  cs_external_provider :: "string option"
  cs_webhook_url :: "string option"

record ApplicationTemplate =
  at_id :: string
  at_organization_id :: string
  at_status :: string
  at_credential_template_id :: string
  at_name :: "string option"
  at_description :: "string option"
  at_form_fields :: "FieldDefinition list"
  at_required_checks :: "CheckSpec list"
  at_evidence_requirements :: "json list"
  at_approval_strategy :: "string option"
  at_application_validity_days :: int
  at_claim_collection_rules :: "json list"

record ApprovalFacts =
  af_reviewer_id :: string
  af_organization_id :: string
  af_application_id :: string
  af_status :: LifecycleStatus
  af_risk_score :: int
  af_document_verification_passed :: bool
  af_biometric_match_score :: int
  af_evidence_count :: nat
  af_applicant_country :: string

datatype ProviderError =
    InvalidOfferLifetime
  | Unavailable string
  | ProviderNoActiveFlow
  | Denied string
  | Persistence string

datatype ServiceError =
    AuthenticationRequired
  | OrganizationRequired
  | TemplateTenant
  | InactiveTemplate
  | MissingCredentialTemplate
  | ProfileRequired
  | DuplicateApplication "string option"
  | ApplicantNotFound
  | ApplicantIdentityConflict
  | ApplicationNotFound
  | CheckNotFound
  | EvidenceNotFound
  | EvidenceRequirementNotFound
  | EvidenceTypeMismatch
  | InactiveEvidence
  | TenantMismatch
  | NotAuthorized
  | RequiredEvidence string
  | InvalidEvidenceReference
  | ReviewerLockRequired
  | RejectionReasonRequired
  | ConcurrentModification
  | MalformedSystemState
  | InvalidApplicationState LifecycleStatus
  | WithdrawalRequiresIssuanceReconciliation
  | NoActiveFlow
  | Domain ApplicantError
  | Issuance IssuanceError
  | Provider ProviderError

text \<open>
  The traits the service is built on: template registry, flow service, approval policy, event
  publisher and persistence. A persistence may report an error although the document has been
  replaced: \<open>FilePersistence\<close> renames the new file into place and then opens and syncs the
  directory, which can still fail. \<open>pv_replaced\<close> says of a document whose persisting fails
  whether it is in place all the same.
\<close>

record providers =
  pv_template :: "string \<Rightarrow> string \<Rightarrow> ProviderError + ApplicationTemplate"
  pv_validate_offer_lifetime :: "string \<Rightarrow> u64 \<Rightarrow> ProviderError + unit"
  pv_flow_issue :: "Application \<Rightarrow> Applicant \<Rightarrow> jmap \<Rightarrow> uuid \<Rightarrow> ProviderError + IssuanceOffer"
  pv_authorize :: "ApprovalFacts \<Rightarrow> ProviderError + unit"
  pv_publish :: "ApplicationEvent \<Rightarrow> ProviderError + unit"
  pv_persist :: "StoreDocument \<Rightarrow> ProviderError + unit"
  pv_replaced :: "StoreDocument \<Rightarrow> bool"

record ServiceState =
  sv_store :: StoreDocument
  sv_locks :: ReviewerLocks
  sv_durable :: StoreDocument

record Identity =
  idn_user_id :: string
  idn_organization_id :: string

type_synonym 'a op_result = "(ServiceError + 'a) \<times> ServiceState"

text \<open>The question mark operator inside an operation, and the closing \<open>persist\<close>.\<close>

definition try_op :: "ServiceError + 'a \<Rightarrow> ServiceState \<Rightarrow> ('a \<Rightarrow> 'b op_result) \<Rightarrow> 'b op_result" where
  "try_op r s k = (case r of Inl e \<Rightarrow> (Inl e, s) | Inr x \<Rightarrow> k x)"

definition persist_failed :: "providers \<Rightarrow> StoreDocument \<Rightarrow> ServiceState \<Rightarrow> ServiceState" where
  "persist_failed pv doc s = (if pv_replaced pv doc then s\<lparr>sv_durable := doc\<rparr> else s)"

definition commit :: "providers \<Rightarrow> 'a \<Rightarrow> ServiceState \<Rightarrow> 'a op_result" where
  "commit pv v s =
     (case pv_persist pv (sv_store s) of
        Inl e \<Rightarrow> (Inl (Provider e), persist_failed pv (sv_store s) s)
      | Inr _ \<Rightarrow> (Inr v, s\<lparr>sv_durable := sv_store s\<rparr>))"

definition with_store :: "(StoreDocument \<Rightarrow> StoreDocument) \<Rightarrow> ServiceState \<Rightarrow> ServiceState" where
  "with_store f s = s\<lparr>sv_store := f (sv_store s)\<rparr>"

lemma try_op_simps [simp, result_simps]:
  "try_op (Inl e) s k = (Inl e, s)" "try_op (Inr x) s k = k x"
  by (simp_all add: try_op_def)

lemma persist_failed_simps [simp]:
  "sv_store (persist_failed pv doc s) = sv_store s" "sv_locks (persist_failed pv doc s) = sv_locks s"
  "sv_durable (persist_failed pv doc s) = (if pv_replaced pv doc then doc else sv_durable s)"
  by (simp_all add: persist_failed_def)

lemma with_store_simps [simp]:
  "sv_store (with_store f s) = f (sv_store s)" "sv_locks (with_store f s) = sv_locks s"
  "sv_durable (with_store f s) = sv_durable s"
  by (simp_all add: with_store_def)

section \<open>Helpers\<close>

definition identity_validate :: "Identity \<Rightarrow> ServiceError + unit" where
  "identity_validate identity =
     (if blank (idn_user_id identity) then Inl AuthenticationRequired
      else if blank (idn_organization_id identity) then Inl OrganizationRequired
      else Inr ())"

definition application_index :: "StoreDocument \<Rightarrow> string \<Rightarrow> ServiceError + nat" where
  "application_index store i =
     ok_or ApplicationNotFound (position (\<lambda>item. an_id item = i) (sd_applications store))"

definition put_application :: "nat \<Rightarrow> Application \<Rightarrow> StoreDocument \<Rightarrow> StoreDocument" where
  "put_application index app store =
     store\<lparr>sd_applications := (sd_applications store)[index := app]\<rparr>"

definition put_applicant :: "nat \<Rightarrow> Applicant \<Rightarrow> StoreDocument \<Rightarrow> StoreDocument" where
  "put_applicant index a store = store\<lparr>sd_applicants := (sd_applicants store)[index := a]\<rparr>"

definition set_system_data :: "string \<Rightarrow> json \<Rightarrow> Application \<Rightarrow> Application" where
  "set_system_data key value app =
     app\<lparr>an_system_data := map_insert key value (an_system_data app)\<rparr>"

text \<open>The binding of an application to an issuance, as \<open>require_unissued_withdrawal\<close> sees it.\<close>

definition issuance_state :: "Application \<Rightarrow> bool" where
  "issuance_state app =
     (an_status app \<in> set [Approved, Offered, Credentialed, Suspended]
      \<or> an_claim_state app \<in> set [OfferReady, Claimed, ClaimExpired]
      \<or> an_issued_at app \<noteq> None)"

definition binding_present :: "jmap \<Rightarrow> string \<Rightarrow> bool" where
  "binding_present data key =
     (case map_of data key of
        None \<Rightarrow> False
      | Some value \<Rightarrow>
          (case value of
             JNull \<Rightarrow> False
           | JStr v \<Rightarrow> v \<noteq> []
           | JObj m \<Rightarrow> if key = ''credential_offer_uris'' then m \<noteq> [] else True
           | _ \<Rightarrow> True))"

definition issuance_binding :: "Application \<Rightarrow> bool" where
  "issuance_binding app =
     (contains_key ACTIVE_ATTEMPT (an_system_data app)
      \<or> list_ex (binding_present (an_system_data app))
          [''issuance_transaction_id'', ''last_issuance_attempt_id'', ''flow_instance_id'',
           ''issuance_status'', ''offer_generated_at'', ''offer_expires_at'',
           ''credential_offer_uri'', ''credential_offer_uris''])"

definition require_unissued_withdrawal :: "Application \<Rightarrow> ServiceError + unit" where
  "require_unissued_withdrawal app =
     (if issuance_state app \<or> issuance_binding app
      then Inl WithdrawalRequiresIssuanceReconciliation else Inr ())"

definition advance_applicant_projection ::
  "LifecycleStatus \<Rightarrow> time \<Rightarrow> Applicant \<Rightarrow> ApplicantError + Applicant" where
  "advance_applicant_projection target now a =
     (if ap_status a = target \<or> is_ok (transition (ap_status a) target)
      then set_status target now a else Inr a)"

text \<open>Update of the applicant of an application, when the store has it.\<close>

definition project_applicant ::
  "(Applicant \<Rightarrow> ApplicantError + Applicant) \<Rightarrow> string \<Rightarrow> StoreDocument
   \<Rightarrow> ServiceError + StoreDocument" where
  "project_applicant f applicant_id store =
     (case position (\<lambda>item. ap_id item = applicant_id) (sd_applicants store) of
        None \<Rightarrow> Inr store
      | Some i \<Rightarrow>
          bind_result (map_err Domain (f (sd_applicants store ! i)))
            (\<lambda>a. Inr (put_applicant i a store)))"

definition reference_number :: "third_party \<Rightarrow> uuid \<Rightarrow> time \<Rightarrow> string" where
  "reference_number tp fresh now =
     ''APP-'' @ tp_ymd tp now @ ''-'' @ to_ascii_uppercase (take 6 (tp_uuid_simple tp fresh))"

definition check_from_spec ::
  "third_party \<Rightarrow> uuid \<Rightarrow> string \<Rightarrow> CheckSpec \<Rightarrow> time \<Rightarrow> VettingCheck" where
  "check_from_spec tp fresh application_id spec now =
     \<lparr> ck_id = tp_uuid_show tp fresh, ck_application_id = application_id,
       ck_check_type = cs_check_type spec, ck_custom_name = cs_custom_name spec,
       ck_is_required = cs_is_required spec, ck_order = cs_order spec,
       ck_status = CkNotStarted, ck_config = cs_config spec, ck_result = [], ck_notes = None,
       ck_performed_by = None, ck_external_provider = cs_external_provider spec,
       ck_webhook_url = cs_webhook_url spec, ck_created_at = now, ck_updated_at = now,
       ck_started_at = None, ck_completed_at = None \<rparr>"

definition str_field :: "json \<Rightarrow> string \<Rightarrow> string" where
  "str_field j key = (case Option.bind (jget j key) as_str of None \<Rightarrow> '''' | Some v \<Rightarrow> v)"

definition evidence_matches :: "string \<Rightarrow> string \<Rightarrow> Evidence \<Rightarrow> bool" where
  "evidence_matches application_id requirement_id item =
     (ev_application_id item = application_id \<and> ev_evidence_requirement_id item = requirement_id)"

definition evidence_sound :: "third_party \<Rightarrow> Application \<Rightarrow> Evidence \<Rightarrow> bool" where
  "evidence_sound tp app e =
     (ev_status e = EvActive
      \<and> ev_organization_id e = an_organization_id app
      \<and> ev_applicant_id e = an_applicant_id app
      \<and> ev_size_bytes e = length (ev_content e)
      \<and> ev_sha256 e = tp_sha256_hex tp (ev_content e))"

definition refresh_matching :: "string \<Rightarrow> string \<Rightarrow> time \<Rightarrow> Evidence list \<Rightarrow> Evidence list" where
  "refresh_matching application_id requirement_id now es =
     map (\<lambda>e. if evidence_matches application_id requirement_id e then refresh_expiry now e else e) es"

definition requirement_checked :: "json \<Rightarrow> bool" where
  "requirement_checked requirement =
     (Option.bind (jget requirement ''required'') as_bool = Some True
      \<and> to_ascii_uppercase (str_field requirement ''evidence_type'')
          \<in> set [''DOCUMENT_SCAN'', ''BIOMETRIC'', ''SELFIE'', ''THIRD_PARTY_VERIFICATION''])"

fun validate_required_evidence ::
  "third_party \<Rightarrow> Application \<Rightarrow> time \<Rightarrow> json list \<Rightarrow> Evidence list
   \<Rightarrow> (ServiceError + unit) \<times> Evidence list" where
  "validate_required_evidence tp app now [] es = (Inr (), es)"
| "validate_required_evidence tp app now (requirement # rest) es =
     (if \<not> requirement_checked requirement then validate_required_evidence tp app now rest es
      else let i = str_field requirement ''evidence_id'';
               es = refresh_matching (an_id app) i now es
           in if list_ex (\<lambda>e. evidence_matches (an_id app) i e \<and> evidence_sound tp app e) es
              then validate_required_evidence tp app now rest es
              else (Inl (RequiredEvidence i), es))"

definition check_required_evidence ::
  "third_party \<Rightarrow> Application \<Rightarrow> time \<Rightarrow> ServiceState \<Rightarrow> unit op_result" where
  "check_required_evidence tp app now s =
     (case validate_required_evidence tp app now (an_evidence_requirements app)
             (sd_evidence (sv_store s)) of
        (r, es) \<Rightarrow> (r, with_store (sd_evidence_update (\<lambda>_. es)) s))"

definition fact_value :: "Application \<Rightarrow> string \<Rightarrow> json option" where
  "fact_value app key =
     (case map_of (an_form_data app) key of
        Some v \<Rightarrow> Some v
      | None \<Rightarrow> map_of (an_integration_context app) key)"

definition unwrap_or :: "'a \<Rightarrow> 'a option \<Rightarrow> 'a" where
  "unwrap_or d x = (case x of None \<Rightarrow> d | Some v \<Rightarrow> v)"

definition approval_facts :: "StoreDocument \<Rightarrow> Application \<Rightarrow> string \<Rightarrow> ApprovalFacts" where
  "approval_facts store app reviewer_id =
     \<lparr> af_reviewer_id = reviewer_id,
       af_organization_id = an_organization_id app,
       af_application_id = an_id app,
       af_status = an_status app,
       af_risk_score = unwrap_or 0 (Option.bind (fact_value app ''risk_score'') as_i64),
       af_document_verification_passed =
         unwrap_or True (Option.bind (fact_value app ''document_verification_passed'') as_bool),
       af_biometric_match_score =
         unwrap_or 100 (Option.bind (fact_value app ''biometric_match_score'') as_i64),
       af_evidence_count = length (evidence_for_application store (an_id app) False),
       af_applicant_country =
         unwrap_or ''US'' (Option.bind (fact_value app ''applicant_country'') as_str) \<rparr>"

definition build_claims ::
  "third_party \<Rightarrow> Application \<Rightarrow> Applicant \<Rightarrow> ApplicationTemplate \<Rightarrow> time \<Rightarrow> jmap" where
  "build_claims tp app a template now =
     (let claims = fold (\<lambda>fd claims.
            case map_of (an_form_data app) (fd_field_id fd) of
              None \<Rightarrow> claims
            | Some value \<Rightarrow> map_insert (fd_field_id fd) value claims)
            (at_form_fields template) [];
          system = system_values tp
            (JObj [(''user_id'', json_opt_str (ap_user_id a)), (''email'', JStr (ap_email a)),
                   (''given_name'', json_opt_str (ap_given_name a)),
                   (''family_name'', json_opt_str (ap_family_name a))])
            (JObj [(''id'', JStr (an_id app)),
                   (''reference_number'', json_opt_str (an_reference_number app)),
                   (''organization_id'', JStr (an_organization_id app))])
            (JObj [(''name'', json_opt_str (at_name template)),
                   (''description'', json_opt_str (at_description template))])
            now (at_application_validity_days template)
      in apply_rules tp claims (an_form_data app) (at_claim_collection_rules template) system [])"

definition active_template ::
  "providers \<Rightarrow> string \<Rightarrow> string \<Rightarrow> ServiceError + ApplicationTemplate" where
  "active_template pv organization_id template_id =
     bind_result (map_err Provider (pv_template pv organization_id template_id)) (\<lambda>template.
       if at_organization_id template \<noteq> organization_id then Inl TemplateTenant
       else if \<not> eq_ignore_ascii_case (at_status template) ''ACTIVE'' then Inl InactiveTemplate
       else Inr template)"

end
