(* ===== verification/Applicant_Evidence.thy ===== *)
theory Applicant_Evidence
  imports Applicant_Service
begin

text \<open>
  \<open>rust/services/applicant/src/service.rs\<close>, the operations on evidence and vetting checks.
  An applicant holds at most one active piece of evidence for a requirement of an application:
  an upload revokes what it supersedes.
\<close>

definition evidence_items :: "string \<Rightarrow> ServiceState \<Rightarrow> Evidence list" where
  "evidence_items application_id s = evidence_for_application (sv_store s) application_id False"

definition put_evidence :: "nat \<Rightarrow> Evidence \<Rightarrow> StoreDocument \<Rightarrow> StoreDocument" where
  "put_evidence i e store = store\<lparr>sd_evidence := (sd_evidence store)[i := e]\<rparr>"

definition put_check :: "nat \<Rightarrow> VettingCheck \<Rightarrow> StoreDocument \<Rightarrow> StoreDocument" where
  "put_check i c store = store\<lparr>sd_checks := (sd_checks store)[i := c]\<rparr>"

definition editable :: "LifecycleStatus \<Rightarrow> bool" where
  "editable st = (st \<in> set [Draft, PendingInformation])"

text \<open>Reading one piece of evidence expires it when its time has passed.\<close>

definition read_evidence ::
  "providers \<Rightarrow> string \<Rightarrow> string \<Rightarrow> time \<Rightarrow> ServiceState \<Rightarrow> Evidence op_result" where
  "read_evidence pv application_id evidence_id now s =
     (case position (\<lambda>item. ev_id item = evidence_id \<and> ev_application_id item = application_id
                \<and> ev_status item \<noteq> EvDeleted) (sd_evidence (sv_store s)) of
        None \<Rightarrow> (Inl EvidenceNotFound, s)
      | Some i \<Rightarrow>
          let before = ev_status (sd_evidence (sv_store s) ! i);
              e = refresh_expiry now (sd_evidence (sv_store s) ! i);
              s = with_store (put_evidence i e) s
          in if ev_status e \<noteq> before then commit pv e s else (Inr e, s))"

definition supersede :: "time \<Rightarrow> Evidence \<Rightarrow> Evidence" where
  "supersede now e =
     e\<lparr>ev_status := EvRevoked, ev_revoked_at := Some now,
       ev_revocation_reason := Some ''Superseded by a newer applicant submission'',
       ev_updated_at := now\<rparr>"

definition supersede_matching :: "string \<Rightarrow> string \<Rightarrow> time \<Rightarrow> StoreDocument \<Rightarrow> StoreDocument" where
  "supersede_matching application_id requirement_id now store =
     store\<lparr>sd_evidence :=
       map (\<lambda>item. if evidence_matches application_id requirement_id item \<and> ev_status item = EvActive
                   then supersede now item else item) (sd_evidence store)\<rparr>"

definition requirement_named :: "string \<Rightarrow> Application \<Rightarrow> json option" where
  "requirement_named requirement_id app =
     find (\<lambda>item. Option.bind (jget item ''evidence_id'') as_str = Some requirement_id)
       (an_evidence_requirements app)"

text \<open>What an upload is checked for before anything changes.\<close>

definition upload_guard :: "StoreDocument \<Rightarrow> EvidenceUpload \<Rightarrow> ServiceError + unit" where
  "upload_guard store input =
     bind_result (ok_or ApplicationNotFound (application store (up_application_id input))) (\<lambda>app.
     if an_organization_id app \<noteq> up_organization_id input
        \<or> an_applicant_id app \<noteq> up_applicant_id input
     then Inl TenantMismatch
     else if \<not> editable (an_status app) then Inl (InvalidApplicationState (an_status app))
     else bind_result
       (ok_or EvidenceRequirementNotFound (requirement_named (up_evidence_requirement_id input) app))
       (\<lambda>requirement.
        if \<not> eq_ignore_ascii_case (str_field requirement ''evidence_type'')
                (up_evidence_type input)
        then Inl EvidenceTypeMismatch else Inr ()))"

definition upload_evidence ::
  "third_party \<Rightarrow> providers \<Rightarrow> uuid \<Rightarrow> EvidenceUpload \<Rightarrow> nat \<Rightarrow> time \<Rightarrow> ServiceState
   \<Rightarrow> Evidence op_result" where
  "upload_evidence tp pv fresh input maximum now s =
     try_op (upload_guard (sv_store s) input) s (\<lambda>_.
       let s = with_store (supersede_matching (up_application_id input)
                 (up_evidence_requirement_id input) now) s
       in try_op (map_err Domain (from_upload tp (tp_uuid_show tp fresh) input maximum now)) s
            (\<lambda>e. commit pv e (with_store (save_evidence e) s)))"

definition evidence_at :: "string \<Rightarrow> string \<Rightarrow> StoreDocument \<Rightarrow> nat option" where
  "evidence_at application_id evidence_id store =
     position (\<lambda>item. ev_id item = evidence_id \<and> ev_application_id item = application_id)
       (sd_evidence store)"

definition delete_evidence ::
  "providers \<Rightarrow> string \<Rightarrow> string \<Rightarrow> time \<Rightarrow> ServiceState \<Rightarrow> unit op_result" where
  "delete_evidence pv application_id evidence_id now s =
     try_op (ok_or ApplicationNotFound (application (sv_store s) application_id)) s (\<lambda>app.
     if \<not> editable (an_status app) then (Inl (InvalidApplicationState (an_status app)), s)
     else (case evidence_at application_id evidence_id (sv_store s) of
        None \<Rightarrow> (Inl EvidenceNotFound, s)
      | Some i \<Rightarrow>
          let e = (sd_evidence (sv_store s) ! i)
                    \<lparr>ev_status := EvDeleted, ev_content := [], ev_updated_at := now\<rparr>
          in commit pv () (with_store (put_evidence i e) s)))"

definition revoke_evidence ::
  "providers \<Rightarrow> string \<Rightarrow> string \<Rightarrow> string \<Rightarrow> time \<Rightarrow> ServiceState \<Rightarrow> Evidence op_result" where
  "revoke_evidence pv application_id evidence_id reason now s =
     (case evidence_at application_id evidence_id (sv_store s) of
        None \<Rightarrow> (Inl EvidenceNotFound, s)
      | Some i \<Rightarrow>
          let e = sd_evidence (sv_store s) ! i in
          if ev_status e \<noteq> EvActive then (Inl InactiveEvidence, s)
          else let e = e\<lparr>ev_status := EvRevoked, ev_revoked_at := Some now,
                         ev_revocation_reason := Some reason, ev_updated_at := now\<rparr>
            in commit pv e (with_store (put_evidence i e) s))"

definition start_check ::
  "providers \<Rightarrow> string \<Rightarrow> string \<Rightarrow> time \<Rightarrow> ServiceState \<Rightarrow> VettingCheck op_result" where
  "start_check pv application_id check_id now s =
     (case position (\<lambda>c. ck_id c = check_id \<and> ck_application_id c = application_id)
             (sd_checks (sv_store s)) of
        None \<Rightarrow> (Inl CheckNotFound, s)
      | Some i \<Rightarrow>
          let c = check_start now (sd_checks (sv_store s) ! i)
          in commit pv c (with_store (put_check i c) s))"

text \<open>The evidence a completed check refers to.\<close>

fun evidence_references ::
  "StoreDocument \<Rightarrow> Application \<Rightarrow> string list \<Rightarrow> ServiceError + unit" where
  "evidence_references store app [] = Inr ()"
| "evidence_references store app (evidence_id # rest) =
     bind_result (ok_or EvidenceNotFound (find (\<lambda>item. ev_id item = evidence_id) (sd_evidence store)))
       (\<lambda>e. if ev_application_id e \<noteq> an_id app \<or> ev_organization_id e \<noteq> an_organization_id app
               \<or> ev_applicant_id e \<noteq> an_applicant_id app \<or> ev_status e \<noteq> EvActive
            then Inl InvalidEvidenceReference
            else evidence_references store app rest)"

definition complete_check ::
  "providers \<Rightarrow> string \<Rightarrow> bool \<Rightarrow> string option \<Rightarrow> jmap \<Rightarrow> string list \<Rightarrow> time \<Rightarrow> ServiceState
   \<Rightarrow> VettingCheck op_result" where
  "complete_check pv check_id passed performed_by result evidence_ids now s =
     (case position (\<lambda>item. ck_id item = check_id) (sd_checks (sv_store s)) of
        None \<Rightarrow> (Inl CheckNotFound, s)
      | Some index \<Rightarrow>
          let c = sd_checks (sv_store s) ! index in
          try_op (ok_or ApplicationNotFound (application (sv_store s) (ck_application_id c))) s (\<lambda>app.
          try_op (evidence_references (sv_store s) app evidence_ids) s (\<lambda>_.
            let c = check_complete passed None performed_by result evidence_ids now c
            in commit pv c (with_store (put_check index c) s))))"

end
