(* ===== verification/Applicant_Workflow.thy ===== *)
theory Applicant_Workflow
  imports Applicant_Evidence
begin

text \<open>
  \<open>rust/services/applicant/src/service.rs\<close>, the operations that move an application through
  its lifecycle: submission, withdrawal, reconciliation, reviewer locks, review with its event
  outbox, and requests for information. \<open>review\<close> and \<open>publish_pending_events\<close> release the
  store lock between their critical sections; each section is a definition of its own, so that
  the step relation of \<open>Applicant_Reachable\<close> can interleave them.
\<close>

section \<open>Submission\<close>

definition default_check :: CheckSpec where
  "default_check = \<lparr> cs_check_type = IdentityVerification, cs_custom_name = None,
     cs_is_required = True, cs_order = 1, cs_config = [], cs_external_provider = None,
     cs_webhook_url = None \<rparr>"

definition automatic_strategy :: "ApplicationTemplate \<Rightarrow> bool" where
  "automatic_strategy template =
     (case at_approval_strategy template of
        None \<Rightarrow> False
      | Some value \<Rightarrow> to_ascii_uppercase value \<in> set [''AUTO'', ''AUTO_APPROVE''])"

text \<open>The applicant projection of a submission, an update in place.\<close>

definition submit_applicant :: "time \<Rightarrow> Applicant \<Rightarrow> ApplicantError + Applicant" where
  "submit_applicant now a =
     (if editable (ap_status a) then set_status Submitted now a else Inr a)"

fun save_checks ::
  "third_party \<Rightarrow> (nat \<Rightarrow> uuid) \<Rightarrow> string \<Rightarrow> time \<Rightarrow> nat \<Rightarrow> CheckSpec list \<Rightarrow> StoreDocument
   \<Rightarrow> StoreDocument" where
  "save_checks tp fresh application_id now n [] store = store"
| "save_checks tp fresh application_id now n (spec # specs) store =
     save_checks tp fresh application_id now (Suc n) specs
       (save_check (check_from_spec tp (fresh n) application_id spec now) store)"

definition submitted_application ::
  "third_party \<Rightarrow> uuid \<Rightarrow> time \<Rightarrow> Application \<Rightarrow> ApplicantError + Application" where
  "submitted_application tp fresh_ref now app =
     bind_result (transition (an_status app) Submitted) (\<lambda>st.
       Inr (app\<lparr>an_status := st, an_submitted_at := Some now, an_updated_at := now,
                an_reference_number := (case an_reference_number app of
                   None \<Rightarrow> Some (reference_number tp fresh_ref now) | Some r \<Rightarrow> Some r)\<rparr>))"

text \<open>What follows once the application and its applicant are Submitted.\<close>

definition submit_decide ::
  "third_party \<Rightarrow> providers \<Rightarrow> (nat \<Rightarrow> uuid) \<Rightarrow> string \<Rightarrow> ApplicationTemplate \<Rightarrow> bool \<Rightarrow> nat
   \<Rightarrow> Application \<Rightarrow> time \<Rightarrow> ServiceState \<Rightarrow> Application op_result" where
  "submit_decide tp pv fresh application_id template first_submission index app now s =
     (if automatic_strategy template then
        try_op (map_err Domain (transition (an_status app) Approved)) s (\<lambda>st.
          let app = app\<lparr>an_status := st, an_reviewed_at := Some now\<rparr>
          in commit pv app (with_store (put_application index app) s))
      else
        let specs = (if at_required_checks template = [] then [default_check]
                     else at_required_checks template);
            s = (if first_submission \<and> checks_for_application (sv_store s) application_id = []
                 then with_store (save_checks tp fresh application_id now 0 specs) s else s)
        in commit pv app (with_store (put_application index app) s))"

definition submit ::
  "third_party \<Rightarrow> providers \<Rightarrow> uuid \<Rightarrow> (nat \<Rightarrow> uuid) \<Rightarrow> string \<Rightarrow> time \<Rightarrow> ServiceState
   \<Rightarrow> Application op_result" where
  "submit tp pv fresh_ref fresh application_id now s =
     try_op (ok_or ApplicationNotFound (application (sv_store s) application_id)) s (\<lambda>snapshot.
     try_op (map_err Provider
        (pv_template pv (an_organization_id snapshot) (an_application_template_id snapshot))) s (\<lambda>template.
     try_op (application_index (sv_store s) application_id) s (\<lambda>index.
     let app = sd_applications (sv_store s) ! index in
     if an_status app = Submitted then (Inr app, s)
     else if \<not> editable (an_status app) then (Inl (InvalidApplicationState (an_status app)), s)
     else try_op (map_err Domain
            (validate_form_data tp (an_form_data app) (at_form_fields template))) s (\<lambda>_.
     let (checked, s) = check_required_evidence tp app now s;
         first_submission = (an_status app = Draft)
     in try_op checked s (\<lambda>_.
     try_op (map_err Domain (submitted_application tp fresh_ref now app)) s (\<lambda>app.
     try_op (project_applicant (submit_applicant now) (an_applicant_id app) (sv_store s)) s (\<lambda>store.
     submit_decide tp pv fresh application_id template first_submission index app now
       (s\<lparr>sv_store := store\<rparr>))))))))"

section \<open>Withdrawal\<close>

datatype WithdrawalAuthority = ByApplicant | ByOrganization

definition withdrawal_status ::
  "WithdrawalAuthority \<Rightarrow> LifecycleStatus \<Rightarrow> ApplicantError + LifecycleStatus" where
  "withdrawal_status authority st =
     (case authority of
        ByOrganization \<Rightarrow> Inr Withdrawn
      | ByApplicant \<Rightarrow> transition st Withdrawn)"

definition withdraw_projection :: "time \<Rightarrow> Applicant \<Rightarrow> ApplicantError + Applicant" where
  "withdraw_projection now a =
     (if is_ok (transition (ap_status a) Withdrawn)
      then Inr (a\<lparr>ap_status := Withdrawn, ap_updated_at := now\<rparr>) else Inr a)"

definition withdraw_application ::
  "providers \<Rightarrow> string \<Rightarrow> string option \<Rightarrow> time \<Rightarrow> WithdrawalAuthority \<Rightarrow> ServiceState
   \<Rightarrow> Application op_result" where
  "withdraw_application pv application_id reason now authority s =
     try_op (application_index (sv_store s) application_id) s (\<lambda>index.
     let app = sd_applications (sv_store s) ! index in
     try_op (require_unissued_withdrawal app) s (\<lambda>_.
     try_op (map_err Domain (withdrawal_status authority (an_status app))) s (\<lambda>st.
     let app = set_system_data ''withdrawal_reason'' (json_opt_str reason)
                 (app\<lparr>an_status := st, an_updated_at := now\<rparr>)
     in try_op
          (if authority = ByApplicant
           then project_applicant (withdraw_projection now) (an_applicant_id app) (sv_store s)
           else Inr (sv_store s)) s
          (\<lambda>store. commit pv app (with_store (put_application index app) (s\<lparr>sv_store := store\<rparr>))))))"

definition withdraw where
  "withdraw pv application_id reason now s =
     withdraw_application pv application_id reason now ByApplicant s"

definition withdraw_by_organization where
  "withdraw_by_organization pv application_id reason now s =
     withdraw_application pv application_id reason now ByOrganization s"

definition offer_withdrawable :: "string \<Rightarrow> Application \<Rightarrow> bool" where
  "offer_withdrawable expected_transaction_id app =
     (an_status app = Offered
      \<and> an_claim_state app \<in> set [OfferReady, ClaimExpired]
      \<and> an_issued_at app = None
      \<and> \<not> contains_key ACTIVE_ATTEMPT (an_system_data app)
      \<and> Option.bind (map_of (an_system_data app) ''issuance_transaction_id'') as_str
          = Some expected_transaction_id)"

definition withdraw_revoked_offer ::
  "providers \<Rightarrow> string \<Rightarrow> string \<Rightarrow> string option \<Rightarrow> time \<Rightarrow> ServiceState
   \<Rightarrow> Application op_result" where
  "withdraw_revoked_offer pv application_id expected_transaction_id reason now s =
     try_op (application_index (sv_store s) application_id) s (\<lambda>index.
     let app = sd_applications (sv_store s) ! index in
     if \<not> offer_withdrawable expected_transaction_id app
     then (Inl WithdrawalRequiresIssuanceReconciliation, s)
     else try_op (ok_or ApplicantNotFound
            (position (\<lambda>a. ap_id a = an_applicant_id app) (sd_applicants (sv_store s)))) s
       (\<lambda>applicant_index.
     try_op (map_err Issuance (reconcile_transaction ''revoked'' None now app
               (sd_applicants (sv_store s) ! applicant_index))) s (\<lambda>(changed, app, a).
     let app = set_system_data ''retired_issuance_transaction_id'' (JStr expected_transaction_id)
                 (set_system_data ''withdrawal_reason'' (json_opt_str reason)
                   (app\<lparr>an_status := Withdrawn, an_updated_at := now\<rparr>))
     in commit pv app
          (with_store (\<lambda>store. put_application index app (put_applicant applicant_index a store)) s))))"

section \<open>Reconciliation with the issuance service\<close>

definition offer_expired :: "third_party \<Rightarrow> time \<Rightarrow> Application \<Rightarrow> bool" where
  "offer_expired tp now app =
     (an_claim_state app = OfferReady
      \<and> (case Option.bind (Option.bind (map_of (an_system_data app) ''offer_expires_at'') as_str)
               (tp_parse_rfc3339 tp) of
           None \<Rightarrow> False | Some expiry \<Rightarrow> expiry \<le> now))"

definition expired_blocker :: json where
  "expired_blocker = JObj
     [(''code'', JStr ''OFFER_EXPIRED''), (''owner'', JStr ''APPLICANT''),
      (''message'', JStr ''This credential offer has expired. Request a new offer.'')]"

definition expire_offer :: "third_party \<Rightarrow> time \<Rightarrow> Application \<Rightarrow> bool \<times> Application" where
  "expire_offer tp now app =
     (if offer_expired tp now app
      then (True, app\<lparr>an_claim_state := ClaimExpired, an_claim_blocker := Some expired_blocker\<rparr>)
      else (False, app))"

definition reconcile_status ::
  "string option \<Rightarrow> time option \<Rightarrow> time \<Rightarrow> Application \<Rightarrow> StoreDocument
   \<Rightarrow> ServiceError + bool \<times> Application \<times> StoreDocument" where
  "reconcile_status transaction_status issued_at now app store =
     (case transaction_status of
        None \<Rightarrow> Inr (False, app, store)
      | Some status \<Rightarrow>
          bind_result (ok_or ApplicantNotFound
             (position (\<lambda>a. ap_id a = an_applicant_id app) (sd_applicants store))) (\<lambda>i.
          bind_result (map_err Issuance
             (reconcile_transaction status issued_at now app (sd_applicants store ! i)))
             (\<lambda>(changed, app, a).
               Inr (if changed then (True, app, put_applicant i a store) else (False, app, store)))))"

definition reconcile_issuance ::
  "third_party \<Rightarrow> providers \<Rightarrow> string \<Rightarrow> string option \<Rightarrow> string option \<Rightarrow> time option \<Rightarrow> time
   \<Rightarrow> ServiceState \<Rightarrow> Application op_result" where
  "reconcile_issuance tp pv application_id expected_transaction_id transaction_status issued_at now s =
     try_op (application_index (sv_store s) application_id) s (\<lambda>index.
     let app = sd_applications (sv_store s) ! index in
     if Option.bind (map_of (an_system_data app) ''issuance_transaction_id'') as_str
          \<noteq> expected_transaction_id
     then (Inr app, s)
     else let (expired, app) = expire_offer tp now app in
       try_op (reconcile_status transaction_status issued_at now app (sv_store s)) s
         (\<lambda>(changed, app, store).
           if \<not> (expired \<or> changed) then (Inr app, s\<lparr>sv_store := store\<rparr>)
           else let app = app\<lparr>an_updated_at := now\<rparr>
             in commit pv app (with_store (put_application index app) (s\<lparr>sv_store := store\<rparr>))))"

section \<open>Reviewer locks\<close>

definition acquire_lock ::
  "third_party \<Rightarrow> uuid \<Rightarrow> string \<Rightarrow> string \<Rightarrow> string \<Rightarrow> time \<Rightarrow> ServiceState
   \<Rightarrow> ReviewerLock op_result" where
  "acquire_lock tp fresh application_id reviewer_id reviewer_name now s =
     (if application (sv_store s) application_id = None then (Inl ApplicationNotFound, s)
      else (case locks_acquire (tp_uuid_show tp fresh) application_id reviewer_id reviewer_name now
               (sv_locks s) of
              (r, locks) \<Rightarrow> (map_err Domain r, s\<lparr>sv_locks := locks\<rparr>)))"

definition release_lock :: "string \<Rightarrow> string \<Rightarrow> time \<Rightarrow> ServiceState \<Rightarrow> bool \<times> ServiceState" where
  "release_lock application_id reviewer_id now s =
     (case locks_release application_id reviewer_id now (sv_locks s) of
        (removed, locks) \<Rightarrow> (removed, s\<lparr>sv_locks := locks\<rparr>))"

definition lock_status :: "string \<Rightarrow> time \<Rightarrow> ServiceState \<Rightarrow> ReviewerLock option" where
  "lock_status application_id now s = locks_active application_id now (sv_locks s)"

section \<open>Review\<close>

record ReviewRequest =
  rq_application_id :: string
  rq_reviewer_id :: string
  rq_correlation_id :: string
  rq_approve :: bool
  rq_notes :: "string option"
  rq_rejection_reason :: "string option"

definition reviewable :: "LifecycleStatus \<Rightarrow> bool" where
  "reviewable st = (st \<in> set [Submitted, UnderReview, PendingInformation])"

text \<open>First section, under the store lock: the application and the facts for the policy.\<close>

definition review_facts ::
  "third_party \<Rightarrow> ReviewRequest \<Rightarrow> time \<Rightarrow> ServiceState \<Rightarrow> (ApprovalFacts \<times> string) op_result" where
  "review_facts tp rq now s =
     try_op (ok_or ApplicationNotFound (application (sv_store s) (rq_application_id rq))) s (\<lambda>app.
     if \<not> reviewable (an_status app) then (Inl (InvalidApplicationState (an_status app)), s)
     else let (checked, s) =
            (if rq_approve rq then check_required_evidence tp app now s else (Inr (), s))
       in try_op checked s (\<lambda>_.
            (Inr (approval_facts (sv_store s) app (rq_reviewer_id rq), an_applicant_id app), s)))"

text \<open>Between the sections, without the store lock: the approval policy.\<close>

definition review_decision :: "providers \<Rightarrow> ReviewRequest \<Rightarrow> ApprovalFacts \<Rightarrow> ServiceError + unit" where
  "review_decision pv rq facts =
     (if rq_approve rq then map_err Provider (pv_authorize pv facts)
      else if unwrap_or [] (rq_rejection_reason rq) = [] then Inl RejectionReasonRequired
      else Inr ())"

definition insert_note :: "string \<Rightarrow> string option \<Rightarrow> Application \<Rightarrow> Application" where
  "insert_note key note app =
     (case note of None \<Rightarrow> app | Some text \<Rightarrow> set_system_data key (JStr text) app)"

definition reviewed_application ::
  "ReviewRequest \<Rightarrow> time \<Rightarrow> Application \<Rightarrow> ServiceError + Application" where
  "reviewed_application rq now app =
     bind_result (map_err Domain
        (transition (an_status app) (if rq_approve rq then Approved else Rejected))) (\<lambda>st.
     Inr (insert_note ''rejection_reason'' (rq_rejection_reason rq)
           (insert_note ''review_notes'' (rq_notes rq)
             (app\<lparr>an_status := st, an_reviewed_at := Some now, an_updated_at := now\<rparr>))))"

definition review_event :: "string \<Rightarrow> ReviewRequest \<Rightarrow> time \<Rightarrow> Application \<Rightarrow> ApplicationEvent" where
  "review_event event_id rq now app =
     \<lparr> ae_event_id = event_id,
       ae_event_type = (if rq_approve rq then ''application.approved'' else ''application.rejected''),
       ae_aggregate_id = an_id app, ae_aggregate_type = ''application'',
       ae_organization_id = an_organization_id app, ae_correlation_id = rq_correlation_id rq,
       ae_timestamp = now,
       ae_data = JObj
         [(''applicant_id'', JStr (an_applicant_id app)), (''application_id'', JStr (an_id app)),
          (''credential_template_id'', JStr (an_credential_template_id app)),
          (''status'', JStr (status_text (an_status app)))] \<rparr>"

definition push_event :: "ApplicationEvent \<Rightarrow> StoreDocument \<Rightarrow> StoreDocument" where
  "push_event event store =
     store\<lparr>sd_pending_application_events := sd_pending_application_events store @ [event]\<rparr>"

text \<open>Second section, under the store lock again: the decision and its event.\<close>

definition review_commit ::
  "third_party \<Rightarrow> providers \<Rightarrow> uuid \<Rightarrow> ReviewRequest \<Rightarrow> ApprovalFacts \<Rightarrow> string \<Rightarrow> time
   \<Rightarrow> ServiceState \<Rightarrow> Application op_result" where
  "review_commit tp pv fresh rq facts applicant_id now s =
     try_op (application_index (sv_store s) (rq_application_id rq)) s (\<lambda>index.
     let app = sd_applications (sv_store s) ! index in
     if an_status app \<noteq> af_status facts then (Inl ConcurrentModification, s)
     else try_op (reviewed_application rq now app) s (\<lambda>app.
     try_op (project_applicant
        (advance_applicant_projection (if rq_approve rq then Approved else Rejected) now)
        applicant_id (sv_store s)) s (\<lambda>store.
     let event = review_event (tp_uuid_show tp fresh) rq now app
     in commit pv app
          (with_store (\<lambda>store. push_event event (put_application index app store))
             (s\<lparr>sv_store := store\<rparr>)))))"

section \<open>Event outbox\<close>

text \<open>One event of the snapshot: publish it, then remove it from the queue and persist.\<close>

datatype delivery = Delivered | Skipped | PublishFailed ProviderError | PersistFailed ProviderError

definition deliver_event ::
  "providers \<Rightarrow> ApplicationEvent \<Rightarrow> ServiceState \<Rightarrow> delivery \<times> ServiceState" where
  "deliver_event pv event s =
     (case pv_publish pv event of
        Inl e \<Rightarrow> (PublishFailed e, s)
      | Inr _ \<Rightarrow>
          (case position (\<lambda>c. ae_event_id c = ae_event_id event)
                  (sd_pending_application_events (sv_store s)) of
             None \<Rightarrow> (Skipped, s)
           | Some i \<Rightarrow>
               let s' = with_store (sd_pending_application_events_update (remove_at i)) s in
               (case pv_persist pv (sv_store s') of
                  Inl e \<Rightarrow> (PersistFailed e, persist_failed pv (sv_store s') s)
                | Inr _ \<Rightarrow> (Delivered, s'\<lparr>sv_durable := sv_store s'\<rparr>))))"

fun deliver_all ::
  "providers \<Rightarrow> ApplicationEvent list \<Rightarrow> nat \<Rightarrow> ProviderError option \<Rightarrow> ServiceState
   \<Rightarrow> (ProviderError + nat) \<times> ServiceState" where
  "deliver_all pv [] delivered first_error s =
     ((case first_error of None \<Rightarrow> Inr delivered | Some e \<Rightarrow> Inl e), s)"
| "deliver_all pv (event # rest) delivered first_error s =
     (case deliver_event pv event s of
        (Delivered, s) \<Rightarrow> deliver_all pv rest (Suc delivered) first_error s
      | (Skipped, s) \<Rightarrow> deliver_all pv rest delivered first_error s
      | (PublishFailed e, s) \<Rightarrow>
          deliver_all pv rest delivered (Some (unwrap_or e first_error)) s
      | (PersistFailed e, s) \<Rightarrow> (Inl e, s))"

definition publish_pending_events ::
  "providers \<Rightarrow> ServiceState \<Rightarrow> (ProviderError + nat) \<times> ServiceState" where
  "publish_pending_events pv s =
     deliver_all pv (sd_pending_application_events (sv_store s)) 0 None s"

text \<open>A review that no other request interrupts.\<close>

definition review ::
  "third_party \<Rightarrow> providers \<Rightarrow> uuid \<Rightarrow> ReviewRequest \<Rightarrow> time \<Rightarrow> ServiceState
   \<Rightarrow> Application op_result" where
  "review tp pv fresh rq now s =
     (if \<not> locks_held_by (rq_application_id rq) (rq_reviewer_id rq) now (sv_locks s)
      then (Inl ReviewerLockRequired, s)
      else (case review_facts tp rq now s of
        (Inl e, s) \<Rightarrow> (Inl e, s)
      | (Inr (facts, applicant_id), s) \<Rightarrow>
          try_op (review_decision pv rq facts) s (\<lambda>_.
          case review_commit tp pv fresh rq facts applicant_id now s of
            (Inl e, s) \<Rightarrow> (Inl e, s)
          | (Inr app, s) \<Rightarrow> (Inr app, snd (publish_pending_events pv s)))))"

section \<open>Requests for information\<close>

definition info_request ::
  "third_party \<Rightarrow> string list \<Rightarrow> string \<Rightarrow> string option \<Rightarrow> time \<Rightarrow> json" where
  "info_request tp missing_items message deadline now = JObj
     [(''requested_at'', JStr (tp_rfc3339 tp now)),
      (''missing_items'', JArr (map JStr missing_items)),
      (''message'', JStr message), (''deadline'', json_opt_str deadline)]"

definition push_info_request :: "json \<Rightarrow> Application \<Rightarrow> ServiceError + Application" where
  "push_info_request r app =
     bind_result (ok_or MalformedSystemState
        (as_array (unwrap_or (JArr []) (map_of (an_system_data app) ''info_requests''))))
       (\<lambda>items. Inr (set_system_data ''info_requests'' (JArr (items @ [r])) app))"

definition request_information ::
  "third_party \<Rightarrow> providers \<Rightarrow> string \<Rightarrow> string list \<Rightarrow> string \<Rightarrow> string option \<Rightarrow> time
   \<Rightarrow> ServiceState \<Rightarrow> Application op_result" where
  "request_information tp pv application_id missing_items message deadline now s =
     try_op (application_index (sv_store s) application_id) s (\<lambda>index.
     let app = sd_applications (sv_store s) ! index in
     if \<not> reviewable (an_status app) then (Inl (InvalidApplicationState (an_status app)), s)
     else try_op (map_err Domain (transition (an_status app) PendingInformation)) s (\<lambda>st.
     try_op (push_info_request (info_request tp missing_items message deadline now)
               (app\<lparr>an_status := st\<rparr>)) s (\<lambda>app.
     let app = app\<lparr>an_updated_at := now\<rparr> in
     try_op (project_applicant (advance_applicant_projection PendingInformation now)
               (an_applicant_id app) (sv_store s)) s (\<lambda>store.
     commit pv app (with_store (put_application index app) (s\<lparr>sv_store := store\<rparr>))))))"

end
