(* ===== verification/Applicant_Issue.thy ===== *)
theory Applicant_Issue
  imports Applicant_Workflow
begin

text \<open>
  \<open>rust/services/applicant/src/service.rs\<close>, \<open>claim\<close> and \<open>issue_with_lifetime\<close>. Issuing
  takes four critical sections with calls to the template registry and the flow service between
  them: the snapshot, the reservation of an attempt, and, after the flow service has answered,
  either the completion of the attempt or its blocking. Each is a definition of its own.
\<close>

section \<open>The sections of an issuance\<close>

definition issue_snapshot ::
  "string \<Rightarrow> ServiceState \<Rightarrow> ServiceError + Application \<times> Applicant" where
  "issue_snapshot application_id s =
     bind_result (ok_or ApplicationNotFound (application (sv_store s) application_id)) (\<lambda>app.
     bind_result (ok_or ApplicantNotFound (applicant (sv_store s) (an_applicant_id app))) (\<lambda>a.
     Inr (app, a)))"

text \<open>Between the snapshot and the reservation: the template, the lifetime, the claims.\<close>

definition issue_claims ::
  "third_party \<Rightarrow> providers \<Rightarrow> Application \<Rightarrow> Applicant \<Rightarrow> u64 option \<Rightarrow> time
   \<Rightarrow> ServiceError + jmap" where
  "issue_claims tp pv snapshot a offer_ttl_seconds now =
     bind_result (active_template pv (an_organization_id snapshot)
        (an_application_template_id snapshot)) (\<lambda>template.
     bind_result (map_err Issuance (has_matching_reserved_lifetime snapshot offer_ttl_seconds)) (\<lambda>matching.
     bind_result
       (if matching then Inr ()
        else (case offer_ttl_seconds of
           None \<Rightarrow> Inr ()
         | Some n \<Rightarrow> map_err Provider (pv_validate_offer_lifetime pv (an_organization_id snapshot) n)))
       (\<lambda>_. Inr (build_claims tp snapshot a template now))))"

definition reopen_credentialed :: "Application \<Rightarrow> Application" where
  "reopen_credentialed app =
     (if an_status app = Credentialed
      then app\<lparr>an_status := Offered, an_issued_at := None\<rparr> else app)"

definition issue_reserve ::
  "third_party \<Rightarrow> providers \<Rightarrow> uuid \<Rightarrow> string \<Rightarrow> time \<Rightarrow> jmap \<Rightarrow> u64 option \<Rightarrow> time \<Rightarrow> ServiceState
   \<Rightarrow> (Application \<times> Applicant \<times> uuid \<times> jmap) op_result" where
  "issue_reserve tp pv fresh application_id snapshot_updated_at claims offer_ttl_seconds now s =
     try_op (application_index (sv_store s) application_id) s (\<lambda>index.
     let app = sd_applications (sv_store s) ! index in
     if an_updated_at app \<noteq> snapshot_updated_at then (Inl ConcurrentModification, s)
     else let app = reopen_credentialed app in
     if an_status app \<notin> set [Approved, Offered]
     then (Inl (InvalidApplicationState (an_status app)), s)
     else try_op (ok_or ApplicantNotFound (applicant (sv_store s) (an_applicant_id app))) s (\<lambda>a.
     try_op (map_err Issuance
        (reserve_attempt_with_lifetime tp fresh claims now offer_ttl_seconds app)) s
       (\<lambda>((attempt_id, reserved_claims), app).
     commit pv (app, a, attempt_id, reserved_claims) (with_store (put_application index app) s))))"

definition issue_blocked ::
  "third_party \<Rightarrow> providers \<Rightarrow> string \<Rightarrow> uuid \<Rightarrow> time \<Rightarrow> ServiceState \<Rightarrow> Application op_result" where
  "issue_blocked tp pv application_id attempt_id now s =
     try_op (application_index (sv_store s) application_id) s (\<lambda>index.
     let app = sd_applications (sv_store s) ! index in
     if \<not> matches_active_attempt tp app attempt_id then (Inl ConcurrentModification, s)
     else (case commit pv () (with_store (put_application index (mark_no_active_flow now app)) s) of
        (Inl e, s) \<Rightarrow> (Inl e, s)
      | (Inr _, s) \<Rightarrow> (Inl NoActiveFlow, s)))"

definition issue_complete ::
  "third_party \<Rightarrow> providers \<Rightarrow> string \<Rightarrow> uuid \<Rightarrow> IssuanceOffer \<Rightarrow> time \<Rightarrow> ServiceState
   \<Rightarrow> Application op_result" where
  "issue_complete tp pv application_id attempt_id offer now s =
     try_op (application_index (sv_store s) application_id) s (\<lambda>index.
     let app = sd_applications (sv_store s) ! index in
     if matches_completed_offer tp app attempt_id offer then (Inr app, s)
     else try_op (ok_or ApplicantNotFound
            (position (\<lambda>a. ap_id a = an_applicant_id app) (sd_applicants (sv_store s)))) s
       (\<lambda>applicant_index.
     try_op (map_err Issuance
        (apply_offer tp attempt_id offer now app (sd_applicants (sv_store s) ! applicant_index))) s
       (\<lambda>(app, a).
     commit pv app
       (with_store (\<lambda>store. put_applicant applicant_index a (put_application index app store)) s))))"

section \<open>An issuance that no other request interrupts\<close>

definition issue_with_lifetime ::
  "third_party \<Rightarrow> providers \<Rightarrow> uuid \<Rightarrow> string \<Rightarrow> time \<Rightarrow> u64 option \<Rightarrow> ServiceState
   \<Rightarrow> Application op_result" where
  "issue_with_lifetime tp pv fresh application_id now offer_ttl_seconds s =
     try_op (issue_snapshot application_id s) s (\<lambda>(snapshot, a).
     try_op (issue_claims tp pv snapshot a offer_ttl_seconds now) s (\<lambda>claims.
     case issue_reserve tp pv fresh application_id (an_updated_at snapshot) claims
            offer_ttl_seconds now s of
       (Inl e, s) \<Rightarrow> (Inl e, s)
     | (Inr (app, a, attempt_id, reserved_claims), s) \<Rightarrow>
         (case pv_flow_issue pv app a reserved_claims attempt_id of
            Inr offer \<Rightarrow> issue_complete tp pv application_id attempt_id offer now s
          | Inl e \<Rightarrow>
              (case e of
                 ProviderNoActiveFlow \<Rightarrow> issue_blocked tp pv application_id attempt_id now s
               | _ \<Rightarrow> (Inl (Provider e), s)))))"

definition issue ::
  "third_party \<Rightarrow> providers \<Rightarrow> uuid \<Rightarrow> string \<Rightarrow> time \<Rightarrow> ServiceState \<Rightarrow> Application op_result" where
  "issue tp pv fresh application_id now s =
     issue_with_lifetime tp pv fresh application_id now None s"

section \<open>Claiming\<close>

definition stored_offer :: "Application \<Rightarrow> bool" where
  "stored_offer app =
     ((case Option.bind (map_of (an_system_data app) ''credential_offer_uri'') as_str of
         None \<Rightarrow> False | Some value \<Rightarrow> value \<noteq> [])
      \<or> (case Option.bind (map_of (an_system_data app) ''credential_offer_uris'') as_object of
           None \<Rightarrow> False | Some value \<Rightarrow> value \<noteq> []))"

definition offer_still_valid :: "third_party \<Rightarrow> time \<Rightarrow> Application \<Rightarrow> bool" where
  "offer_still_valid tp now app =
     (case Option.bind (Option.bind (map_of (an_system_data app) ''offer_expires_at'') as_str)
             (tp_parse_rfc3339 tp) of
        None \<Rightarrow> False | Some expiry \<Rightarrow> now < expiry)"

definition claim ::
  "third_party \<Rightarrow> providers \<Rightarrow> uuid \<Rightarrow> string \<Rightarrow> time \<Rightarrow> ServiceState \<Rightarrow> Application op_result" where
  "claim tp pv fresh application_id now s =
     try_op (ok_or ApplicationNotFound (application (sv_store s) application_id)) s (\<lambda>app.
     try_op (active_template pv (an_organization_id app) (an_application_template_id app)) s (\<lambda>_.
     if an_claim_state app = OfferReady \<and> stored_offer app \<and> offer_still_valid tp now app
     then (Inr app, s)
     else issue tp pv fresh application_id now s))"

end
