(* ===== verification/Applicant_Lifecycle.thy ===== *)
theory Applicant_Lifecycle
  imports Applicant_Domain
begin

text \<open>
  What the entities of \<open>rust/services/applicant/src/lib.rs\<close> guarantee: the shape of every
  accepted path through the lifecycle, the names of the statuses, safe file names, sound
  evidence and completed checks.
\<close>

section \<open>The lifecycle\<close>

text \<open>A sequence of targets that \<open>transition\<close> accepts one after the other.\<close>

fun accepted_run :: "LifecycleStatus \<Rightarrow> LifecycleStatus list \<Rightarrow> bool" where
  "accepted_run s [] = True"
| "accepted_run s (t # ts) = (is_ok (transition s t) \<and> accepted_run t ts)"

lemma is_ok_transition: "is_ok (transition s t) \<longleftrightarrow> s = t \<or> t \<in> set (allowed_targets s)"
  by (auto simp: transition_def)

lemma transition_Inr: "transition s t = Inr u \<longleftrightarrow> u = t \<and> (s = t \<or> t \<in> set (allowed_targets s))"
  by (auto simp: transition_def)

lemma set_status_Inr:
  "set_status t now a = Inr a' \<longleftrightarrow>
     (ap_status a = t \<or> t \<in> set (allowed_targets (ap_status a)))
     \<and> a' = a\<lparr>ap_status := t, ap_updated_at := now\<rparr>"
  by (auto simp: set_status_def transition_def)

lemma set_status_ap_id: "set_status t now a = Inr a' \<Longrightarrow> ap_id a' = ap_id a"
  by (auto simp: set_status_Inr)

definition terminal_status :: "LifecycleStatus \<Rightarrow> bool" where
  "terminal_status s = (allowed_targets s = [])"

lemma terminal_status_simps [simp]:
  "terminal_status s \<longleftrightarrow> s \<in> {Rejected, Withdrawn, Credentialed, Suspended}"
  by (cases s) (auto simp: terminal_status_def)

lemma terminal_run: "terminal_status s \<Longrightarrow> accepted_run s ts \<Longrightarrow> set ts \<subseteq> {s}"
proof (induction ts arbitrary: s)
  case (Cons t ts)
  have "t = s" using Cons.prems by (auto simp: is_ok_transition)
  then show ?case using Cons.IH [of t] Cons.prems by auto
qed simp

lemma run_needs_approval:
  "\<lbrakk>accepted_run s ts; s \<notin> {Approved, Offered, Credentialed}; \<exists>t \<in> set ts. t \<in> {Offered, Credentialed}\<rbrakk>
   \<Longrightarrow> \<exists>vs ws. ts = vs @ Approved # ws \<and> set vs \<inter> {Offered, Credentialed} = {}"
proof (induction ts arbitrary: s)
  case (Cons t ts)
  show ?case
  proof (cases "t = Approved")
    case True
    then show ?thesis by (intro exI [of _ "[]"] exI [of _ ts]) auto
  next
    case False
    have t: "t \<notin> {Approved, Offered, Credentialed}"
      using Cons.prems False by (cases s) (auto simp: is_ok_transition)
    then obtain vs ws where "ts = vs @ Approved # ws" "set vs \<inter> {Offered, Credentialed} = {}"
      using Cons.IH [of t] Cons.prems by auto
    with t show ?thesis by (intro exI [of _ "t # vs"] exI [of _ ws]) auto
  qed
qed simp

lemma run_from_draft:
  "\<lbrakk>accepted_run Draft ts; \<exists>t \<in> set ts. t \<notin> {Draft, Withdrawn}\<rbrakk>
   \<Longrightarrow> \<exists>us rest. ts = us @ Submitted # rest \<and> set us \<subseteq> {Draft} \<and> accepted_run Submitted rest"
proof (induction ts)
  case (Cons t ts)
  consider "t = Draft" | "t = Submitted" | "t = Withdrawn"
    using Cons.prems by (auto simp: is_ok_transition)
  then show ?case
  proof cases
    case 1
    then obtain us rest where
      "ts = us @ Submitted # rest" "set us \<subseteq> {Draft}" "accepted_run Submitted rest"
      using Cons by auto
    with 1 show ?thesis by (intro exI [of _ "Draft # us"] exI [of _ rest]) auto
  next
    case 2
    then show ?thesis using Cons.prems by (intro exI [of _ "[]"] exI [of _ ts]) auto
  next
    case 3
    then show ?thesis using Cons.prems terminal_run [of Withdrawn ts] by auto
  qed
qed simp

text \<open>However an application moves through the lifecycle, an offer or a credential comes
  only after it was submitted and then approved, in this order: every accepted sequence of
  statuses from Draft that contains Offered or Credentialed contains Submitted before Approved
  before the first of them.\<close>

lemma issued_only_after_approval:
  assumes "accepted_run Draft ts" and "Offered \<in> set ts \<or> Credentialed \<in> set ts"
  shows "\<exists>us vs ws. ts = us @ Submitted # vs @ Approved # ws
           \<and> set (us @ vs) \<inter> {Offered, Credentialed} = {}"
proof -
  have some: "\<exists>t \<in> set ts. t \<in> {Offered, Credentialed}" using assms(2) by blast
  then obtain us rest where ts: "ts = us @ Submitted # rest" and us: "set us \<subseteq> {Draft}"
    and run: "accepted_run Submitted rest"
    using run_from_draft [OF assms(1)] by auto
  have "\<exists>t \<in> set rest. t \<in> {Offered, Credentialed}" using some us ts by auto
  then obtain vs ws where "rest = vs @ Approved # ws" "set vs \<inter> {Offered, Credentialed} = {}"
    using run_needs_approval [OF run] by auto
  then show ?thesis using ts us by (intro exI [of _ us] exI [of _ vs] exI [of _ ws]) auto
qed

lemma issued_only_after_approval_example:
  "accepted_run Draft [Submitted, PendingInformation, Approved, Credentialed]
   \<and> (\<exists>us vs ws. [Submitted, PendingInformation, Approved, Credentialed]
         = us @ Submitted # vs @ Approved # ws
       \<and> set (us @ vs) \<inter> {Offered, Credentialed} = {})"
  using issued_only_after_approval [of "[Submitted, PendingInformation, Approved, Credentialed]"]
  by (simp add: is_ok_transition)

text \<open>The four end statuses are absorbing and the other six are not dead ends: from an end
  status every accepted sequence repeats it, and from every other status an accepted sequence
  leads to Credentialed.\<close>

lemma lifecycle_ends:
  "(terminal_status s \<and> accepted_run s ts \<longrightarrow> set ts \<subseteq> {s})
   \<and> (\<not> terminal_status s \<longrightarrow> (\<exists>us. accepted_run s us \<and> us \<noteq> [] \<and> last us = Credentialed))"
proof (intro conjI impI)
  show "set ts \<subseteq> {s}" if "terminal_status s \<and> accepted_run s ts" using that terminal_run by blast
  have "accepted_run s us \<and> us \<noteq> [] \<and> last us = Credentialed"
    if "us = drop (if s \<in> {Draft} then 0 else if s \<in> {Approved, Offered} then 2 else 1)
                [Submitted, Approved, Credentialed]" "\<not> terminal_status s" for us
    using that by (cases s) (auto simp: is_ok_transition)
  then show "\<exists>us. accepted_run s us \<and> us \<noteq> [] \<and> last us = Credentialed" if "\<not> terminal_status s"
    using that by blast
qed

lemma lifecycle_ends_example:
  "set [Rejected, Rejected] \<subseteq> {Rejected}
   \<and> (\<exists>us. accepted_run PendingInformation us \<and> us \<noteq> [] \<and> last us = Credentialed)"
  using lifecycle_ends [of Rejected "[Rejected, Rejected]"] lifecycle_ends [of PendingInformation "[]"]
  by (simp add: is_ok_transition)

lemma lower_status_text:
  "to_ascii_lowercase (status_text st) = (case st of
      Draft \<Rightarrow> ''draft'' | Submitted \<Rightarrow> ''submitted'' | UnderReview \<Rightarrow> ''under_review''
    | PendingInformation \<Rightarrow> ''pending_information'' | Approved \<Rightarrow> ''approved''
    | Offered \<Rightarrow> ''offered'' | Rejected \<Rightarrow> ''rejected'' | Withdrawn \<Rightarrow> ''withdrawn''
    | Credentialed \<Rightarrow> ''credentialed'' | Suspended \<Rightarrow> ''suspended'')"
  by (induct st) code_simp+

lemma trim_status_text [simp]: "trim (status_text st) = status_text st"
  by (rule trim_visible; cases st) (simp_all add: visible_def byte_def)

lemma trim_lower_status_text [simp]:
  "trim (to_ascii_lowercase (status_text st)) = to_ascii_lowercase (status_text st)"
  unfolding lower_status_text by (rule trim_visible; cases st) (simp_all add: visible_def byte_def)

lemma from_released_Inr:
  "from_released v = Inr st \<longleftrightarrow>
     to_ascii_lowercase (trim v) \<in> set (to_ascii_lowercase (status_text st) #
       (case st of Submitted \<Rightarrow> [''pending''] | UnderReview \<Rightarrow> [''in_review'']
        | PendingInformation \<Rightarrow> [''needs_info''] | Credentialed \<Rightarrow> [''issued'']
        | Suspended \<Rightarrow> [''revoked''] | _ \<Rightarrow> []))"
  unfolding from_released_def Let_def lower_status_text by (cases st) auto

text \<open>Every status is read back from the name it is serialized with, in any letter case,
  and no text is read as a status whose names it is not.\<close>

theorem released_status_roundtrip:
  "from_released (status_text st) = Inr st
   \<and> from_released (to_ascii_lowercase (status_text st)) = Inr st
   \<and> (from_released v = Inr st \<longleftrightarrow>
        to_ascii_lowercase (trim v) \<in> set (to_ascii_lowercase (status_text st) #
          (case st of Submitted \<Rightarrow> [''pending''] | UnderReview \<Rightarrow> [''in_review'']
           | PendingInformation \<Rightarrow> [''needs_info''] | Credentialed \<Rightarrow> [''issued'']
           | Suspended \<Rightarrow> [''revoked''] | _ \<Rightarrow> [])))"
  by (simp_all add: from_released_Inr)

section \<open>Files and evidence\<close>

lemma has_control_mono:
  "\<not> has_control s \<Longrightarrow> c \<in> set s \<Longrightarrow> \<not> (byte c < 32 \<or> byte c = 127)"
  by (induction s) auto

text \<open>A file name that is accepted is one path component of the name that was sent: it is
  not empty, not a dot or a double dot, has no separator and no ASCII control character.\<close>

lemma safe_filename_is_component:
  assumes "safe_filename value = Inr name"
  shows "name \<noteq> [] \<and> name \<noteq> ''.'' \<and> name \<noteq> ''..''
    \<and> (\<forall>c \<in> set name. c \<in> set value \<and> c \<noteq> CHR ''/'' \<and> c \<noteq> CHR 0x5C \<and> \<not> byte c < 32 \<and> byte c \<noteq> 127)"
proof -
  have name: "name = trim (after_last_separator value)"
    and ok: "name \<noteq> []" "name \<noteq> ''.''" "name \<noteq> ''..''" "\<not> has_control name"
    using assms by (auto simp: safe_filename_def Let_def split: if_splits)
  have "c \<in> set (after_last_separator value)" if "c \<in> set name" for c
    using that set_trim name by blast
  moreover have "set (after_last_separator value) \<subseteq> set value"
    unfolding after_last_separator_def using set_takeWhileD by fastforce
  ultimately show ?thesis
    using ok has_control_mono [OF ok(4)] after_last_separator_clean by blast
qed

lemma safe_filename_is_component_example:
  "safe_filename ''../etc/passwd'' = Inr ''passwd'' \<and> CHR ''/'' \<notin> set ''passwd''"
proof -
  have ok: "safe_filename ''../etc/passwd'' = Inr ''passwd''" by code_simp
  show ?thesis using safe_filename_is_component [OF ok] ok by blast
qed

lemma from_upload_Inr:
  "from_upload tp i input maximum now = Inr e \<longleftrightarrow>
     (\<exists>content filename. tp_b64_decode tp (up_content_base64 input) = Some content
        \<and> content \<noteq> [] \<and> length content \<le> min maximum MAX_EVIDENCE_BYTES
        \<and> safe_filename (up_filename input) = Inr filename
        \<and> e = \<lparr> ev_id = i, ev_application_id = up_application_id input,
          ev_applicant_id = up_applicant_id input, ev_organization_id = up_organization_id input,
          ev_evidence_requirement_id = up_evidence_requirement_id input,
          ev_evidence_type = up_evidence_type input, ev_source = ''APPLICANT_UPLOAD'',
          ev_media_type = up_media_type input, ev_filename = filename, ev_content = content,
          ev_size_bytes = length content, ev_sha256 = tp_sha256_hex tp content,
          ev_status = EvActive, ev_submitted_by = up_submitted_by input, ev_created_at = now,
          ev_updated_at = now, ev_captured_at = up_captured_at input,
          ev_expires_at = up_expires_at input, ev_revoked_at = None,
          ev_revocation_reason = None \<rparr>)"
  unfolding from_upload_def Let_def
  by (cases "tp_b64_decode tp (up_content_base64 input)";
      cases "safe_filename (up_filename input)") auto

text \<open>Evidence that an upload creates is bound to the applicant, application and requirement
  of the upload, is active, carries the digest and the size of its own content, and stays within
  the service's limit whatever larger limit the caller asks for.\<close>

lemma upload_is_sound:
  assumes "from_upload tp i input maximum now = Inr e"
  shows "ev_status e = EvActive
    \<and> ev_size_bytes e = length (ev_content e) \<and> ev_sha256 e = tp_sha256_hex tp (ev_content e)
    \<and> 0 < ev_size_bytes e \<and> ev_size_bytes e \<le> maximum \<and> ev_size_bytes e \<le> 10485760
    \<and> ev_application_id e = up_application_id input \<and> ev_applicant_id e = up_applicant_id input
    \<and> ev_organization_id e = up_organization_id input
    \<and> ev_evidence_requirement_id e = up_evidence_requirement_id input
    \<and> tp_b64_decode tp (up_content_base64 input) = Some (ev_content e)"
  using assms by (auto simp: from_upload_Inr MAX_EVIDENCE_BYTES_def)

definition sample_upload :: EvidenceUpload where
  "sample_upload = \<lparr> up_application_id = ''app'', up_applicant_id = ''ann'',
     up_organization_id = ''org'', up_evidence_requirement_id = ''passport'',
     up_evidence_type = ''DOCUMENT_SCAN'', up_media_type = ''image/png'',
     up_filename = ''scan.png'', up_content_base64 = ''abc'', up_submitted_by = ''ann'',
     up_captured_at = None, up_expires_at = Some 50 \<rparr>"

lemma sample_filename: "safe_filename ''scan.png'' = Inr ''scan.png''"
  by code_simp

lemma sample_upload_ok: "\<exists>e. from_upload demo i sample_upload 3 7 = Inr e"
  by (simp add: from_upload_Inr sample_upload_def demo_def MAX_EVIDENCE_BYTES_def sample_filename)

lemma upload_is_sound_example:
  "\<exists>e. from_upload demo ''e1'' sample_upload 3 7 = Inr e \<and> ev_status e = EvActive
       \<and> ev_size_bytes e \<le> 3"
  using upload_is_sound [of demo "''e1''" sample_upload 3 7] sample_upload_ok by blast

lemma refresh_expiry_ids [simp]:
  "ev_id (refresh_expiry now e) = ev_id e"
  "ev_application_id (refresh_expiry now e) = ev_application_id e"
  "ev_applicant_id (refresh_expiry now e) = ev_applicant_id e"
  "ev_organization_id (refresh_expiry now e) = ev_organization_id e"
  "ev_evidence_requirement_id (refresh_expiry now e) = ev_evidence_requirement_id e"
  "ev_content (refresh_expiry now e) = ev_content e"
  "ev_size_bytes (refresh_expiry now e) = ev_size_bytes e"
  "ev_sha256 (refresh_expiry now e) = ev_sha256 e"
  by (simp_all add: refresh_expiry_def)

lemma refresh_expiry_active:
  "ev_status (refresh_expiry now e) = EvActive \<longleftrightarrow>
     ev_status e = EvActive \<and> (\<forall>x. ev_expires_at e = Some x \<longrightarrow> now < x)"
  by (auto simp: refresh_expiry_def not_less split: option.splits)

section \<open>Completed checks\<close>

text \<open>A completed check records its outcome, its time and the evidence it was based on: the
  stored identifiers are those submitted, each once and in order, and the other keys of the
  result are the caller's. Two submissions of the same evidence in another order give the same
  record.\<close>

lemma check_complete_records:
  assumes "c' = check_complete passed notes by_whom result ids now c"
  shows "ck_status c' = (if passed then CkCompletedPassed else CkCompletedFailed)
    \<and> ck_completed_at c' = Some now \<and> ck_id c' = ck_id c
    \<and> ck_application_id c' = ck_application_id c
    \<and> (\<exists>stored. map_of (ck_result c') ''evidence_submission_ids'' = Some (JArr (map JStr stored))
         \<and> set stored = set ids \<and> sorted_wrt (<) stored)
    \<and> (\<forall>k. k \<noteq> ''evidence_submission_ids'' \<longrightarrow> map_of (ck_result c') k = map_of result k)
    \<and> (\<forall>ids'. set ids' = set ids
         \<longrightarrow> check_complete passed notes by_whom result ids' now c = c')"
proof -
  have same: "check_complete passed notes by_whom result ids' now c = c'"
    if "set ids' = set ids" for ids'
    using sorted_unique_cong [OF that] by (simp add: assms check_complete_def)
  have fields: "ck_status c' = (if passed then CkCompletedPassed else CkCompletedFailed)
      \<and> ck_completed_at c' = Some now \<and> ck_id c' = ck_id c \<and> ck_application_id c' = ck_application_id c"
    unfolding assms by (simp add: check_complete_def)
  have stored: "map_of (ck_result c') ''evidence_submission_ids''
      = Some (JArr (map JStr (sorted_unique ids)))"
    and rest: "\<forall>k. k \<noteq> ''evidence_submission_ids'' \<longrightarrow> map_of (ck_result c') k = map_of result k"
    unfolding assms by (simp_all add: check_complete_def Let_def map_of_map_insert)
  show ?thesis
    using fields stored rest same sorted_unique_strict [of ids] set_sorted_unique [of ids] by blast
qed

definition sample_check :: VettingCheck where
  "sample_check = \<lparr> ck_id = ''c1'', ck_application_id = ''app'',
     ck_check_type = DocumentVerification, ck_custom_name = None, ck_is_required = True,
     ck_order = 1, ck_status = CkInProgress, ck_config = [], ck_result = [], ck_notes = None,
     ck_performed_by = None, ck_external_provider = None, ck_webhook_url = None,
     ck_created_at = 1, ck_updated_at = 2, ck_started_at = Some 2, ck_completed_at = None \<rparr>"

lemma check_complete_records_example:
  "\<exists>c'. c' = check_complete True None None [] [''e2'', ''e1'', ''e2''] 9 sample_check
      \<and> ck_status c' = CkCompletedPassed
      \<and> check_complete True None None [] [''e1'', ''e2''] 9 sample_check = c'"
proof -
  let ?c = "check_complete True None None [] [''e2'', ''e1'', ''e2''] 9 sample_check"
  note facts = check_complete_records [OF refl, of True None None "[]" "[''e2'', ''e1'', ''e2'']" 9
      sample_check]
  have "ck_status ?c = CkCompletedPassed" by (rule facts [THEN conjunct1, unfolded if_True])
  moreover have same: "set [''e1'', ''e2''] = set [''e2'', ''e1'', ''e2'']" by auto
  have "check_complete True None None [] [''e1'', ''e2''] 9 sample_check = ?c"
    by (rule facts [THEN conjunct2, THEN conjunct2, THEN conjunct2, THEN conjunct2,
          THEN conjunct2, THEN conjunct2, rule_format, OF same])
  ultimately show ?thesis by blast
qed

end
