(* ===== verification/Applicant_Attempts.thy ===== *)
theory Applicant_Attempts
  imports Applicant_Issuance Applicant_Lifecycle
begin

text \<open>
  What \<open>rust/services/applicant/src/issuance.rs\<close> guarantees: a reserved attempt is handed out
  again unchanged until it is completed, it is completed once, and reconciliation never fails
  and settles.
\<close>

section \<open>Reservation\<close>

definition active_attempt :: "Application \<Rightarrow> json option" where
  "active_attempt app = map_of (an_system_data app) ACTIVE_ATTEMPT"

text \<open>The record that a reservation stores.\<close>

definition attempt_record :: "third_party \<Rightarrow> uuid \<Rightarrow> jmap \<Rightarrow> time \<Rightarrow> u64 option \<Rightarrow> json" where
  "attempt_record tp i claims now ttl = JObj
     [(''id'', JStr (tp_uuid_show tp i)), (''claims'', JObj claims),
      (''created_at'', JStr (tp_rfc3339 tp now)), (''offer_ttl_seconds'', json_of_u64_opt ttl)]"

lemma matching_lifetime_record:
  "active_attempt app = Some (attempt_record tp i claims now ttl) \<Longrightarrow>
     has_matching_reserved_lifetime app ttl' = (if ttl' = ttl then Inr True else Inl AttemptChanged)"
  by (auto simp: has_matching_reserved_lifetime_def active_attempt_def attempt_record_def
      json_of_u64_opt_def split: option.splits)

lemma reserve_none:
  assumes "active_attempt app = None"
  shows "reserve_attempt_with_lifetime tp fresh claims now ttl app =
    Inr ((fresh, claims), app\<lparr>an_system_data :=
        map_insert ACTIVE_ATTEMPT (attempt_record tp fresh claims now ttl) (an_system_data app),
        an_updated_at := now\<rparr>)"
  using assms
  by (simp add: reserve_attempt_with_lifetime_def has_matching_reserved_lifetime_def
      active_attempt_def attempt_record_def)

lemma reserve_some:
  assumes "active_attempt app = Some v"
    and "reserve_attempt_with_lifetime tp fresh claims now ttl app = Inr ((i, claims'), app')"
  shows "app' = app" and "matches_active_attempt tp app i"
  using assms
  by (auto simp: reserve_attempt_with_lifetime_def active_attempt_def matches_active_attempt_def
      bind_result_Inr split: if_splits)

lemma reserve_record:
  assumes "uuid_text_ok tp"
    and "active_attempt app = Some (attempt_record tp i claims now ttl)"
  shows "reserve_attempt_with_lifetime tp fresh claims' now' ttl app = Inr ((i, claims), app)"
  using assms matching_lifetime_record [OF assms(2), of ttl]
  by (simp add: reserve_attempt_with_lifetime_def active_attempt_def attempt_record_def
      uuid_text_ok_def)

text \<open>A reservation is idempotent: once it has succeeded, reserving again on the application
  it returned, at any later time, with any claims and with any fresh identifier, returns the
  same attempt and the same claims and leaves the application as it is, and asking for another
  offer lifetime is refused.\<close>

theorem reservation_idempotent:
  assumes "uuid_text_ok tp" and "active_attempt app = None"
    and "reserve_attempt_with_lifetime tp fresh claims now ttl app = Inr ((i, reserved), app')"
  shows "reserve_attempt_with_lifetime tp fresh' claims' now' ttl app' = Inr ((i, reserved), app')
    \<and> (ttl' \<noteq> ttl \<longrightarrow>
        reserve_attempt_with_lifetime tp fresh' claims' now' ttl' app' = Inl AttemptChanged)
    \<and> matches_active_attempt tp app' i"
proof -
  have res: "i = fresh" "reserved = claims"
    and app': "app' = app\<lparr>an_system_data := map_insert ACTIVE_ATTEMPT
        (attempt_record tp fresh claims now ttl) (an_system_data app), an_updated_at := now\<rparr>"
    using assms(3) by (auto simp: reserve_none [OF assms(2)])
  have active: "active_attempt app' = Some (attempt_record tp i claims now ttl)"
    by (simp add: app' res active_attempt_def map_of_map_insert)
  show ?thesis
    using reserve_record [OF assms(1) active, of fresh' claims' now'] res(2)
      matching_lifetime_record [OF active, of ttl'] active
    by (simp add: reserve_attempt_with_lifetime_def matches_active_attempt_def active_attempt_def
        attempt_record_def)
qed

definition sample_application :: Application where
  "sample_application = \<lparr> an_id = ''app'', an_applicant_id = ''ann'', an_organization_id = ''org'',
     an_reference_number = Some ''APP-1'', an_application_template_id = ''tpl'',
     an_credential_template_id = ''cred'', an_status = Approved, an_form_data = [],
     an_integration_context = [], an_system_data = [], an_required_checks = [],
     an_evidence_requirements = [], an_claim_state = NotReady, an_claim_blocker = None,
     an_created_at = 1, an_updated_at = 2, an_submitted_at = Some 2, an_reviewed_at = Some 2,
     an_issued_at = None \<rparr>"

theorem reservation_idempotent_witness:
  "\<exists>app'. reserve_attempt_with_lifetime demo 7 [] 5 (Some 60) sample_application = Inr ((7, []), app')
      \<and> reserve_attempt_with_lifetime demo 8 [] 9 (Some 60) app' = Inr ((7, []), app')"
proof -
  have none: "active_attempt sample_application = None"
    by (simp add: active_attempt_def sample_application_def)
  show ?thesis
    using reservation_idempotent [OF demo_uuid_text_ok none reserve_none [OF none, of demo 7 "[]" 5 "Some 60"],
        of 8 "[]" 9] reserve_none [OF none, of demo 7 "[]" 5 "Some 60"] by blast
qed

section \<open>Completion\<close>

lemma offered_step_total: "\<exists>a'. offered_step now t a = Inr a' \<and> ap_id a' = ap_id a"
  by (auto simp: offered_step_def is_ok_transition set_status_def transition_def)

lemma advance_through_total: "\<exists>a'. advance_through now ts a = Inr a' \<and> ap_id a' = ap_id a"
proof (induction ts arbitrary: a)
  case (Cons t ts)
  obtain b where "offered_step now t a = Inr b" "ap_id b = ap_id a"
    using offered_step_total by blast
  then show ?case using Cons [of b] by auto
qed simp

lemma advance_to_offered_status:
  "advance_to_offered now a = Inr a' \<Longrightarrow>
     ap_status a' = (if ap_status a \<in> {Rejected, Withdrawn, Suspended, Credentialed}
                     then ap_status a else Offered)"
  by (cases "ap_status a")
    (auto simp: advance_to_offered_def offered_step_def is_ok_transition set_status_def
      transition_def split: if_splits)

lemma advance_to_credentialed_total:
  "\<exists>a'. advance_to_credentialed now a = Inr a' \<and> ap_id a' = ap_id a
    \<and> ap_status a' = (if ap_status a \<in> {Rejected, Withdrawn, Suspended} then ap_status a
                      else Credentialed)"
proof -
  obtain b where b: "advance_to_offered now a = Inr b" "ap_id b = ap_id a"
    using advance_through_total advance_to_offered_def by metis
  have st: "ap_status b = (if ap_status a \<in> {Rejected, Withdrawn, Suspended, Credentialed}
                     then ap_status a else Offered)"
    by (rule advance_to_offered_status [OF b(1)])
  show ?thesis
    using b st by (auto simp: advance_to_credentialed_def set_status_def transition_def)
qed

lemma advance_to_offered_keeps: "ap_status a \<in> {Rejected, Withdrawn, Suspended} \<Longrightarrow>
  advance_to_credentialed now a = Inr a"
  by (auto simp: advance_to_credentialed_def advance_to_offered_def offered_step_def
      is_ok_transition)

text \<open>The entries of an offer's identity as JSON values that equal themselves.\<close>

definition wf_offer :: "IssuanceOffer \<Rightarrow> bool" where
  "wf_offer offer = (wf_json (JObj (of_credential_offer_uris offer))
     \<and> wf_json (JObj (of_credential_offer_labels offer)))"

lemma distinct_offer_identity: "distinct (map fst (offer_identity offer))"
  by (simp add: offer_identity_def)

lemma map_of_rev_offer: "map_of (rev (offer_identity offer)) = map_of (offer_identity offer)"
  by (rule ext) (simp add: offer_identity_def)

lemma wf_json_opt_str: "wf_json (json_opt_str s)"
  by (simp add: json_opt_str_def split: option.splits)

lemma offer_identity_wf: "wf_offer offer \<Longrightarrow> (k, v) \<in> set (offer_identity offer) \<Longrightarrow> json_eq v v"
  by (rule json_eq_refl) (auto simp: offer_identity_def wf_offer_def wf_json_opt_str)

lemma offer_identity_keys:
  "fst ` set (offer_identity offer) = {''issuance_transaction_id'', ''credential_offer_uri'',
     ''credential_offer_uris'', ''credential_offer_labels'', ''offer_expires_at'',
     ''flow_instance_id'', ''flow_definition_id'', ''issuance_source''}"
  by (simp add: offer_identity_def)

lemma apply_offer_Inr:
  "apply_offer tp i offer now app a = Inr (app', a') \<longleftrightarrow>
     has_offer offer \<and> an_status app \<in> {Approved, Offered} \<and> matches_active_attempt tp app i
     \<and> advance_to_offered now a = Inr a'
     \<and> app' = app\<lparr>an_status := Offered,
         an_system_data := map_insert ''issuance_status'' (JStr (of_status offer))
           (map_insert ''offer_generated_at'' (JStr (tp_rfc3339 tp now))
             (map_extend (map_insert LAST_ATTEMPT (JStr (tp_uuid_show tp i))
                 (map_remove ACTIVE_ATTEMPT (an_system_data app))) (offer_identity offer))),
         an_claim_state := OfferReady, an_claim_blocker := None, an_issued_at := None,
         an_updated_at := now\<rparr>"
  by (cases "an_status app"; cases "advance_to_offered now a")
    (auto simp: apply_offer_def complete_attempt_def matches_active_attempt_def transition_def
      Let_def)

lemma apply_offer_data:
  assumes "apply_offer tp i offer now app a = Inr (app', a')" and "wf_map (an_system_data app)"
  shows "map_of (an_system_data app') =
     (map_of (an_system_data app))(ACTIVE_ATTEMPT := None, LAST_ATTEMPT \<mapsto> JStr (tp_uuid_show tp i))
       ++ map_of (offer_identity offer)
       ++ [''offer_generated_at'' \<mapsto> JStr (tp_rfc3339 tp now), ''issuance_status'' \<mapsto> JStr (of_status offer)]"
proof -
  have wf: "wf_map (map_insert LAST_ATTEMPT (JStr (tp_uuid_show tp i))
      (map_remove ACTIVE_ATTEMPT (an_system_data app)))"
    by (intro wf_map_insert wf_map_remove assms(2))
  show ?thesis
    using assms(1)
    by (simp add: apply_offer_Inr map_of_map_insert map_of_map_extend [OF wf] map_of_rev_offer
        map_of_map_remove [OF assms(2)])
qed

lemma offer_identity_lookup:
  "k \<notin> fst ` set (offer_identity offer) \<Longrightarrow> map_of (offer_identity offer) k = None"
  by (simp add: map_of_eq_None_iff)

lemma apply_offer_lookups:
  assumes "apply_offer tp i offer now app a = Inr (app', a')" and "wf_map (an_system_data app)"
  shows "map_of (an_system_data app') ACTIVE_ATTEMPT = None"
    and "map_of (an_system_data app') LAST_ATTEMPT = Some (JStr (tp_uuid_show tp i))"
    and "(k, v) \<in> set (offer_identity offer) \<Longrightarrow> map_of (an_system_data app') k = Some v"
proof -
  note data = apply_offer_data [OF assms]
  have "map_of (offer_identity offer) ACTIVE_ATTEMPT = None"
    "map_of (offer_identity offer) LAST_ATTEMPT = None"
    by (rule offer_identity_lookup; simp add: offer_identity_keys)+
  then show "map_of (an_system_data app') ACTIVE_ATTEMPT = None"
    and "map_of (an_system_data app') LAST_ATTEMPT = Some (JStr (tp_uuid_show tp i))"
    by (simp_all add: data map_add_def)
  assume kv: "(k, v) \<in> set (offer_identity offer)"
  then have "map_of (offer_identity offer) k = Some v"
    by (intro map_of_is_SomeI distinct_offer_identity)
  moreover have "k \<in> fst ` set (offer_identity offer)" using kv by force
  then have "k \<noteq> ''offer_generated_at''" "k \<noteq> ''issuance_status''"
    by (auto simp: offer_identity_keys)
  ultimately show "map_of (an_system_data app') k = Some v"
    by (simp add: data map_add_def)
qed

text \<open>An attempt is completed at most once, and its completion is recognised. After an offer
  was applied no attempt is active, so applying any offer for any attempt fails; and when the
  offer carries a transaction identifier, a repeated answer of the flow service with the same
  offer for the same attempt is recognised as already completed.\<close>

theorem attempt_completes_once:
  assumes "apply_offer tp i offer now app a = Inr (app', a')" and "wf_map (an_system_data app)"
  shows "(\<forall>j offer' t b. \<not> is_ok (apply_offer tp j offer' t app' b))
    \<and> (wf_offer offer \<and> (\<exists>x. of_id offer = Some x \<and> x \<noteq> [])
         \<longrightarrow> matches_completed_offer tp app' i offer)
    \<and> an_status app' = Offered \<and> an_claim_state app' = OfferReady"
proof (intro conjI allI impI)
  note look = apply_offer_lookups [OF assms]
  have no_match: "\<not> matches_active_attempt tp app' j" for j
    by (simp add: matches_active_attempt_def look(1))
  show "\<not> is_ok (apply_offer tp j offer' t app' b)" for j offer' t b
    using no_match by (cases "apply_offer tp j offer' t app' b") (auto simp: apply_offer_Inr)
  show st: "an_status app' = Offered" and "an_claim_state app' = OfferReady"
    using assms(1) by (auto simp: apply_offer_Inr)
  show "matches_completed_offer tp app' i offer"
    if w: "wf_offer offer \<and> (\<exists>x. of_id offer = Some x \<and> x \<noteq> [])"
  proof -
    have "case map_of (an_system_data app') (fst kv) of None \<Rightarrow> False | Some v \<Rightarrow> json_eq v (snd kv)"
      if kv: "kv \<in> set (offer_identity offer)" for kv
      using look(3) [of "fst kv" "snd kv"] offer_identity_wf [of offer "fst kv" "snd kv"] kv w by simp
    moreover have "has_offer offer" using assms(1) by (simp add: apply_offer_Inr)
    ultimately show ?thesis
      using st w by (auto simp: matches_completed_offer_def contains_key_def look(1,2) list_all_iff)
  qed
qed

definition sample_offer :: IssuanceOffer where
  "sample_offer = \<lparr> of_id = Some ''tx1'', of_credential_offer_uri = Some ''openid://o'',
     of_credential_offer_uris = [], of_credential_offer_labels = [], of_expires_at = Some ''111'',
     of_status = ''pending'', of_flow_instance_id = Some ''f1'', of_flow_definition_id = None,
     of_source = None \<rparr>"

definition sample_applicant :: Applicant where
  "sample_applicant = (applicant_new ''ann'' ''org'' ''a@b'' 1)\<lparr>ap_status := Submitted\<rparr>"

definition reserved_application :: Application where
  "reserved_application = sample_application\<lparr>an_system_data :=
     [(ACTIVE_ATTEMPT, attempt_record demo 7 [] 5 None)]\<rparr>"

lemma reserved_application_applies:
  "\<exists>app' a'. apply_offer demo 7 sample_offer 6 reserved_application sample_applicant = Inr (app', a')"
proof -
  have "advance_to_offered 6 sample_applicant = Inr (sample_applicant\<lparr>ap_status := Offered, ap_updated_at := 6\<rparr>)"
    by (simp add: advance_to_offered_def offered_step_def is_ok_transition set_status_def
        transition_def sample_applicant_def applicant_new_def)
  then show ?thesis
    by (simp add: apply_offer_Inr reserved_application_def sample_application_def sample_offer_def
        has_offer_def matches_active_attempt_def attempt_record_def)
qed

theorem attempt_completes_once_witness:
  "\<exists>app' a'. apply_offer demo 7 sample_offer 6 reserved_application sample_applicant = Inr (app', a')
     \<and> matches_completed_offer demo app' 7 sample_offer
     \<and> \<not> is_ok (apply_offer demo 7 sample_offer 8 app' a')"
proof -
  obtain app' a' where ok:
    "apply_offer demo 7 sample_offer 6 reserved_application sample_applicant = Inr (app', a')"
    using reserved_application_applies by blast
  have "wf_map (an_system_data reserved_application)"
    by (simp add: reserved_application_def wf_map_def)
  moreover have "wf_offer sample_offer" "\<exists>x. of_id sample_offer = Some x \<and> x \<noteq> []"
    by (simp_all add: wf_offer_def sample_offer_def wf_map_def)
  ultimately show ?thesis using attempt_completes_once [OF ok] ok by blast
qed

section \<open>Reconciliation\<close>

lemma reconcile_issued_total: "\<exists>r. reconcile_issued issued_at now app a = Inr r"
proof -
  obtain a' where "advance_to_credentialed now a = Inr a'"
    using advance_to_credentialed_total by blast
  then show ?thesis unfolding reconcile_issued_def Let_def by auto
qed

lemma reconcile_effect_total: "\<exists>r. reconcile_effect st issued_at now app a = Inr r"
  using reconcile_issued_total [of issued_at now app a]
  unfolding reconcile_effect_def by (auto split: prod.splits)

lemma reconcile_transaction_total: "\<exists>r. reconcile_transaction st issued_at now app a = Inr r"
proof -
  obtain c app' a' where
    "reconcile_effect (to_ascii_lowercase st) issued_at now app a = Inr (c, app', a')"
    using reconcile_effect_total by (metis prod.collapse)
  then show ?thesis
    unfolding reconcile_transaction_def Let_def by (auto split: prod.splits)
qed

lemma reconcile_issued_status:
  assumes "reconcile_issued issued_at now app a = Inr (c, app', a')"
  shows "app' = app\<lparr>an_status := Credentialed, an_claim_state := Claimed, an_claim_blocker := None,
      an_issued_at := Some (case issued_at of Some t \<Rightarrow> t
        | None \<Rightarrow> (case an_issued_at app of Some t \<Rightarrow> t | None \<Rightarrow> now))\<rparr>"
    and "ap_status a' = (if ap_status a \<in> {Rejected, Withdrawn, Suspended} then ap_status a
                         else Credentialed)"
    and "ap_id a' = ap_id a"
    and "c \<or> ap_status a = Credentialed"
proof -
  obtain b where b: "advance_to_credentialed now a = Inr b" "ap_id b = ap_id a"
    "ap_status b = (if ap_status a \<in> {Rejected, Withdrawn, Suspended} then ap_status a
                    else Credentialed)"
    using advance_to_credentialed_total by blast
  show "app' = app\<lparr>an_status := Credentialed, an_claim_state := Claimed, an_claim_blocker := None,
      an_issued_at := Some (case issued_at of Some t \<Rightarrow> t
        | None \<Rightarrow> (case an_issued_at app of Some t \<Rightarrow> t | None \<Rightarrow> now))\<rparr>"
    using assms b(1) unfolding reconcile_issued_def Let_def by (auto split: if_splits)
  show "ap_status a' = (if ap_status a \<in> {Rejected, Withdrawn, Suspended} then ap_status a
                         else Credentialed)" "ap_id a' = ap_id a" "c \<or> ap_status a = Credentialed"
    using assms b unfolding reconcile_issued_def Let_def by (auto split: if_splits)
qed

lemma reconcile_issued_again:
  assumes "an_status app = Credentialed" and "an_claim_state app = Claimed"
    and "an_claim_blocker app = None" and "an_issued_at app = Some t"
    and "issued_at = None \<or> issued_at = Some t" and "ap_status a = Credentialed"
  shows "reconcile_issued issued_at now app a = Inr (False, app, a)"
  using assms by (auto simp: reconcile_issued_def)

lemma json_eq_unclaimable [simp]: "json_eq (unclaimable_blocker c m) (unclaimable_blocker c m)"
  by (rule json_eq_refl) (simp add: unclaimable_blocker_def wf_map_def)

text \<open>What reconciliation does to an application, status by status.\<close>

lemma reconcile_effect_issued:
  "reconcile_effect ''issued'' issued_at now app a = reconcile_issued issued_at now app a"
  by (simp add: reconcile_effect_def)

lemma reconcile_effect_pending:
  "reconcile_effect ''pending'' issued_at now app a =
     (if an_status app = Credentialed
      then Inr (True, app\<lparr>an_status := Offered, an_issued_at := None\<rparr>, a) else Inr (False, app, a))"
  by (simp add: reconcile_effect_def back_to_offered_def)

definition unclaimable_text :: "string \<Rightarrow> (string \<times> string) option" where
  "unclaimable_text n =
     (if n \<in> set [''authorized'', ''signing''] then Some (''OFFER_CONSUMED'',
        ''This credential offer has already been accepted. Request a new offer to use another wallet.'')
      else if n = ''failed'' then Some (''ISSUANCE_FAILED'',
        ''Credential issuance did not complete. Request a new offer.'')
      else if n = ''expired'' then Some (''OFFER_EXPIRED'',
        ''This credential offer has expired. Request a new offer.'')
      else if n = ''revoked'' then Some (''ISSUANCE_REVOKED'',
        ''This credential offer is no longer valid. Request a new offer if permitted.'')
      else None)"

definition consumed_status :: "string \<Rightarrow> bool" where
  "consumed_status n = (n \<in> set [''authorized'', ''signing''])"

lemma reconcile_effect_unclaimable:
  assumes "n \<noteq> ''issued''" and "n \<noteq> ''pending''" and "unclaimable_text n = Some (code, message)"
  shows "reconcile_effect n issued_at now app a =
     (let (c1, p) = (if consumed_status n then back_to_offered app else (False, app));
          (c2, q) = mark_offer_unclaimable code message p
      in Inr (c1 \<or> c2, q, a))"
  using assms
  by (auto simp: reconcile_effect_def unclaimable_text_def consumed_status_def split: if_splits)

lemma reconcile_effect_none:
  assumes "n \<noteq> ''issued''" and "n \<noteq> ''pending''" and "unclaimable_text n = None"
  shows "reconcile_effect n issued_at now app a = Inr (False, app, a)"
  using assms by (simp add: reconcile_effect_def unclaimable_text_def split: if_splits)

lemma reconcile_effect_elim:
  assumes "reconcile_effect n issued_at now app a = Inr (c, app', a')"
  obtains (issued) "n = ''issued''" "reconcile_issued issued_at now app a = Inr (c, app', a')"
  | (pending) "n = ''pending''" "a' = a" "c = (an_status app = Credentialed)"
      "app' = (if an_status app = Credentialed
               then app\<lparr>an_status := Offered, an_issued_at := None\<rparr> else app)"
  | (unclaimable) code message where "n \<noteq> ''issued''" "n \<noteq> ''pending''" "a' = a"
      "unclaimable_text n = Some (code, message)"
      "app' = (if consumed_status n then snd (back_to_offered app) else app)
         \<lparr>an_claim_state := ClaimExpired, an_claim_blocker := Some (unclaimable_blocker code message)\<rparr>"
  | (none) "n \<noteq> ''issued''" "n \<noteq> ''pending''" "unclaimable_text n = None" "a' = a" "app' = app"
proof -
  consider "n = ''issued''" | "n = ''pending''"
    | code message where "n \<noteq> ''issued''" "n \<noteq> ''pending''" "unclaimable_text n = Some (code, message)"
    | "n \<noteq> ''issued''" "n \<noteq> ''pending''" "unclaimable_text n = None"
    by (cases "unclaimable_text n") auto
  then show ?thesis
  proof cases
    case 1
    then show ?thesis using assms issued by (simp only: reconcile_effect_issued)
  next
    case 2
    then show ?thesis
      using assms pending by (simp only: reconcile_effect_pending split: if_splits) auto
  next
    case 3
    then show ?thesis
      using assms unclaimable [of code message] reconcile_effect_unclaimable [OF 3]
      by (auto simp: mark_offer_unclaimable_def Let_def split: prod.splits if_splits)
  next
    case 4
    then show ?thesis using assms none reconcile_effect_none [OF 4] by simp
  qed
qed

lemma back_to_offered_snd [simp]:
  "an_status (snd (back_to_offered app)) = (if an_status app = Credentialed then Offered else an_status app)"
  "an_system_data (snd (back_to_offered app)) = an_system_data app"
  "an_id (snd (back_to_offered app)) = an_id app"
  "an_applicant_id (snd (back_to_offered app)) = an_applicant_id app"
  "an_credential_template_id (snd (back_to_offered app)) = an_credential_template_id app"
  "an_updated_at (snd (back_to_offered app)) = an_updated_at app"
  by (simp_all add: back_to_offered_def)

lemma reconcile_effect_facts:
  assumes "reconcile_effect n issued_at now app a = Inr (c, app', a')"
  shows "(an_status app' = an_status app \<or> an_status app' = Credentialed
           \<or> an_status app = Credentialed \<and> an_status app' = Offered)
    \<and> an_system_data app' = an_system_data app \<and> an_id app' = an_id app
    \<and> an_applicant_id app' = an_applicant_id app \<and> ap_id a' = ap_id a
    \<and> an_credential_template_id app' = an_credential_template_id app
    \<and> an_updated_at app' = an_updated_at app"
  using assms
proof (cases rule: reconcile_effect_elim)
  case issued
  note facts = reconcile_issued_status [OF issued(2)]
  show ?thesis by (simp add: facts(1,3))
qed simp_all

lemma reconcile_effect_settles:
  assumes "reconcile_effect n issued_at now app a = Inr (c, app', a')"
    and "ap_status a \<notin> {Rejected, Withdrawn, Suspended}"
  shows "reconcile_effect n issued_at now' (app'\<lparr>an_system_data := d, an_updated_at := t\<rparr>) a'
      = Inr (False, app'\<lparr>an_system_data := d, an_updated_at := t\<rparr>, a')"
  using assms(1)
proof (cases rule: reconcile_effect_elim)
  case issued
  have "reconcile_issued issued_at now' (app'\<lparr>an_system_data := d, an_updated_at := t\<rparr>) a'
      = Inr (False, app'\<lparr>an_system_data := d, an_updated_at := t\<rparr>, a')"
    by (rule reconcile_issued_again)
      (use reconcile_issued_status [OF issued(2)] assms(2) in \<open>auto split: option.splits\<close>)
  with issued(1) show ?thesis by (simp only: reconcile_effect_issued)
next
  case pending
  then show ?thesis by (simp only: reconcile_effect_pending) simp
next
  case (unclaimable code message)
  have "back_to_offered (app'\<lparr>an_system_data := d, an_updated_at := t\<rparr>)
      = (False, app'\<lparr>an_system_data := d, an_updated_at := t\<rparr>)" if "consumed_status n"
    using that unclaimable(5) by (simp add: back_to_offered_def)
  then show ?thesis
    by (simp add: reconcile_effect_unclaimable [OF unclaimable(1,2,4)] mark_offer_unclaimable_def)
      (simp add: unclaimable(5))
next
  case none
  then show ?thesis by (simp add: reconcile_effect_none)
qed

lemma reconcile_transaction_Inr:
  assumes "an_status app \<notin> {Rejected, Withdrawn, Suspended}"
    and "reconcile_transaction st issued_at now app a = Inr (c, app', a')"
  obtains c0 app0 where
    "reconcile_effect (to_ascii_lowercase st) issued_at now app a = Inr (c0, app0, a')"
    "c \<longleftrightarrow> c0 \<or> Option.bind (map_of (an_system_data app0) ''issuance_status'') as_str
               \<noteq> Some (to_ascii_lowercase st)"
    "app' = app0\<lparr>an_system_data := an_system_data app', an_updated_at := an_updated_at app'\<rparr>"
    "an_system_data app' =
       (if Option.bind (map_of (an_system_data app0) ''issuance_status'') as_str
             = Some (to_ascii_lowercase st) then an_system_data app0
        else map_insert ''issuance_status'' (JStr (to_ascii_lowercase st)) (an_system_data app0))"
proof -
  obtain c0 app0 a0 where
    e: "reconcile_effect (to_ascii_lowercase st) issued_at now app a = Inr (c0, app0, a0)"
    using reconcile_effect_total by (metis prod.collapse)
  show ?thesis
    using assms e that [of c0 app0]
    by (auto simp: reconcile_transaction_def Let_def split: if_splits)
qed

text \<open>Reconciliation with the issuance service never fails, and it settles: for an applicant
  whose own status is not Rejected, Withdrawn or Suspended, reporting the same transaction status
  again, at any later time, changes nothing and reports no change.\<close>

lemma reconciliation_settles:
  "\<exists>c app' a'. reconcile_transaction st issued_at now app a = Inr (c, app', a')
     \<and> (ap_status a \<notin> {Rejected, Withdrawn, Suspended}
         \<longrightarrow> reconcile_transaction st issued_at now' app' a' = Inr (False, app', a'))"
proof -
  obtain c app' a' where r: "reconcile_transaction st issued_at now app a = Inr (c, app', a')"
    using reconcile_transaction_total by (metis prod.collapse)
  have "reconcile_transaction st issued_at now' app' a' = Inr (False, app', a')"
    if ok: "ap_status a \<notin> {Rejected, Withdrawn, Suspended}"
  proof (cases "an_status app \<in> {Rejected, Withdrawn, Suspended}")
    case True
    then show ?thesis using r by (auto simp: reconcile_transaction_def)
  next
    case False
    obtain c0 app0 where e:
      "reconcile_effect (to_ascii_lowercase st) issued_at now app a = Inr (c0, app0, a')"
      and app': "app' = app0\<lparr>an_system_data := an_system_data app', an_updated_at := an_updated_at app'\<rparr>"
      and data: "an_system_data app' =
       (if Option.bind (map_of (an_system_data app0) ''issuance_status'') as_str
             = Some (to_ascii_lowercase st) then an_system_data app0
        else map_insert ''issuance_status'' (JStr (to_ascii_lowercase st)) (an_system_data app0))"
      by (rule reconcile_transaction_Inr [OF False r])
    have again: "reconcile_effect (to_ascii_lowercase st) issued_at now' app' a' = Inr (False, app', a')"
      using reconcile_effect_settles [OF e ok, where now' = now' and d = "an_system_data app'"
          and t = "an_updated_at app'"] app' by simp
    have "an_status app0 \<notin> {Rejected, Withdrawn, Suspended}"
      using reconcile_effect_facts [OF e] False by auto
    then have "an_status app' \<notin> {Rejected, Withdrawn, Suspended}" by (subst app') simp
    moreover have "Option.bind (map_of (an_system_data app') ''issuance_status'') as_str
        = Some (to_ascii_lowercase st)"
      by (simp add: data map_of_map_insert)
    ultimately show ?thesis using again by (simp add: reconcile_transaction_def)
  qed
  with r show ?thesis by blast
qed

lemma reconciliation_settles_example:
  "\<exists>app' a'. reconcile_transaction ''ISSUED'' None 9
       (sample_application\<lparr>an_status := Offered\<rparr>) sample_applicant = Inr (True, app', a')
     \<and> reconcile_transaction ''ISSUED'' None 11 app' a' = Inr (False, app', a')"
proof -
  have lower: "to_ascii_lowercase ''ISSUED'' = ''issued''" by code_simp
  have st: "ap_status sample_applicant = Submitted" by (simp add: sample_applicant_def)
  obtain c app' a' where r: "reconcile_transaction ''ISSUED'' None 9
       (sample_application\<lparr>an_status := Offered\<rparr>) sample_applicant = Inr (c, app', a')"
    and again: "reconcile_transaction ''ISSUED'' None 11 app' a' = Inr (False, app', a')"
    using reconciliation_settles [of "''ISSUED''" None 9 "sample_application\<lparr>an_status := Offered\<rparr>"
        sample_applicant 11] by (auto simp: st)
  have "c"
  proof (rule reconcile_transaction_Inr [OF _ r])
    fix c0 app0
    assume e: "reconcile_effect (to_ascii_lowercase ''ISSUED'') None 9
        (sample_application\<lparr>an_status := Offered\<rparr>) sample_applicant = Inr (c0, app0, a')"
      and c: "c = (c0 \<or> Option.bind (map_of (an_system_data app0) ''issuance_status'') as_str
          \<noteq> Some (to_ascii_lowercase ''ISSUED''))"
    have "c0 \<or> ap_status sample_applicant = Credentialed"
      using e unfolding lower reconcile_effect_issued by (rule reconcile_issued_status(4))
    with c st show ?thesis by simp
  qed (simp add: sample_application_def)
  with r again show ?thesis by auto
qed

text \<open>A transaction that is reported as issued is recorded on the application also when the
  applicant's own status is Rejected, Withdrawn or Suspended; that status is kept, and every
  further report counts as a change again, so that the service keeps writing the store.\<close>

lemma reconciliation_of_ended_applicant:
  assumes "ap_status a \<in> {Rejected, Withdrawn, Suspended}"
    and "an_status app \<notin> {Rejected, Withdrawn, Suspended}"
    and "to_ascii_lowercase st = ''issued''"
  shows "\<exists>app'. reconcile_transaction st issued_at now app a = Inr (True, app', a)
    \<and> an_status app' = Credentialed \<and> an_claim_state app' = Claimed
    \<and> (\<exists>app''. reconcile_transaction st issued_at now' app' a = Inr (True, app'', a))"
proof -
  have once: "\<exists>app'. reconcile_transaction st issued_at t p a = Inr (True, app', a)
      \<and> an_status app' = Credentialed \<and> an_claim_state app' = Claimed"
    if "an_status p \<notin> {Rejected, Withdrawn, Suspended}" for p t
  proof -
    have "advance_to_credentialed t a = Inr a" by (rule advance_to_offered_keeps [OF assms(1)])
    moreover have "ap_status a \<noteq> Credentialed" using assms(1) by auto
    ultimately show ?thesis
      using that assms(3)
      by (auto simp: reconcile_transaction_def reconcile_effect_def reconcile_issued_def Let_def)
  qed
  obtain app' where app': "reconcile_transaction st issued_at now app a = Inr (True, app', a)"
    "an_status app' = Credentialed" "an_claim_state app' = Claimed"
    using once [OF assms(2)] by blast
  moreover have "an_status app' \<notin> {Rejected, Withdrawn, Suspended}" using app'(2) by simp
  ultimately show ?thesis using once [of app' now'] by blast
qed

lemma reconciliation_of_ended_applicant_example:
  "\<exists>app'. reconcile_transaction ''issued'' None 9 sample_application
       (sample_applicant\<lparr>ap_status := Suspended\<rparr>)
     = Inr (True, app', sample_applicant\<lparr>ap_status := Suspended\<rparr>) \<and> an_status app' = Credentialed"
proof -
  have lower: "to_ascii_lowercase ''issued'' = ''issued''" by code_simp
  show ?thesis
    using reconciliation_of_ended_applicant [OF _ _ lower, of "sample_applicant\<lparr>ap_status := Suspended\<rparr>"
        sample_application None 9 10] by (auto simp: sample_application_def)
qed

end
