(* ===== verification/Applicant_Profiles.thy ===== *)
theory Applicant_Profiles
  imports Applicant_Service
begin

text \<open>
  \<open>rust/services/applicant/src/service.rs\<close>, the operations on profiles: reads, biometric
  enrolment, profile upsert, vetting data and the creation of an application.
\<close>

section \<open>Reads\<close>

definition profile :: "Identity \<Rightarrow> ServiceState \<Rightarrow> ServiceError + Applicant" where
  "profile identity s =
     bind_result (identity_validate identity) (\<lambda>_.
       ok_or ApplicantNotFound
         (applicant_for_user (sv_store s) (idn_user_id identity) (idn_organization_id identity)))"

definition owns_profile :: "string \<Rightarrow> Applicant \<Rightarrow> bool" where
  "owns_profile user_id item = (ap_user_id item = Some user_id \<or> ap_oidc_subject item = Some user_id)"

definition profiles_for_user :: "string \<Rightarrow> ServiceState \<Rightarrow> ServiceError + Applicant list" where
  "profiles_for_user user_id s =
     (if blank user_id then Inl AuthenticationRequired
      else Inr (filter (owns_profile user_id) (sd_applicants (sv_store s))))"

text \<open>A stable sort with the latest update first.\<close>

definition latest_first :: "Application list \<Rightarrow> Application list" where
  "latest_first = sort_key (\<lambda>a. - an_updated_at a)"

definition applications_for_user :: "string \<Rightarrow> ServiceState \<Rightarrow> ServiceError + Application list" where
  "applications_for_user user_id s =
     bind_result (profiles_for_user user_id s) (\<lambda>profiles.
       Inr (latest_first
         (filter (\<lambda>a. an_applicant_id a \<in> set (map ap_id profiles)) (sd_applications (sv_store s)))))"

definition self_application ::
  "string \<Rightarrow> string \<Rightarrow> ServiceState \<Rightarrow> ServiceError + Application \<times> Applicant" where
  "self_application user_id application_id s =
     (if blank user_id then Inl AuthenticationRequired
      else bind_result (ok_or ApplicationNotFound (application (sv_store s) application_id)) (\<lambda>app.
      bind_result (ok_or ApplicantNotFound (applicant (sv_store s) (an_applicant_id app))) (\<lambda>a.
      if ap_user_id a \<noteq> Some user_id \<and> ap_oidc_subject a \<noteq> Some user_id
      then Inl NotAuthorized else Inr (app, a))))"

definition organization_application ::
  "string \<Rightarrow> string \<Rightarrow> ServiceState \<Rightarrow> ServiceError + Application \<times> Applicant" where
  "organization_application organization_id application_id s =
     bind_result
       (ok_or ApplicationNotFound
          (Option.bind (application (sv_store s) application_id)
             (\<lambda>app. if an_organization_id app = organization_id then Some app else None))) (\<lambda>app.
     bind_result (ok_or ApplicantNotFound (applicant (sv_store s) (an_applicant_id app))) (\<lambda>a.
     Inr (app, a)))"

definition organization_applications :: "string \<Rightarrow> ServiceState \<Rightarrow> Application list" where
  "organization_applications organization_id s =
     latest_first (applications_for_organization (sv_store s) organization_id)"

definition biometrics_of :: "string \<Rightarrow> ServiceState \<Rightarrow> Biometric list" where
  "biometrics_of applicant_id s = unwrap_or [] (map_of (sd_biometrics (sv_store s)) applicant_id)"

section \<open>Profile updates\<close>

definition enroll_biometric ::
  "third_party \<Rightarrow> providers \<Rightarrow> uuid \<Rightarrow> Identity \<Rightarrow> Biometric \<Rightarrow> ServiceState
   \<Rightarrow> Biometric op_result" where
  "enroll_biometric tp pv fresh identity biometric s =
     try_op (profile identity s) s (\<lambda>p.
       if bi_applicant_id biometric \<noteq> ap_id p then (Inl TenantMismatch, s)
       else let biometric = biometric\<lparr>bi_id := tp_uuid_show tp fresh\<rparr>
         in commit pv biometric (with_store (save_biometric biometric) s))"

definition or_else :: "'a option \<Rightarrow> 'a option \<Rightarrow> 'a option" where
  "or_else x y = (case x of None \<Rightarrow> y | Some _ \<Rightarrow> x)"

definition upsert_existing ::
  "Identity \<Rightarrow> string \<Rightarrow> string option \<Rightarrow> string option \<Rightarrow> string option \<Rightarrow> time \<Rightarrow> Applicant
   \<Rightarrow> Applicant" where
  "upsert_existing identity email given_name family_name phone now a =
     a\<lparr>ap_user_id := Some (idn_user_id identity), ap_oidc_subject := Some (idn_user_id identity),
       ap_email := email,
       ap_given_name := or_else given_name (ap_given_name a),
       ap_family_name := or_else family_name (ap_family_name a),
       ap_phone := or_else phone (ap_phone a),
       ap_updated_at := now\<rparr>"

definition upsert_new ::
  "third_party \<Rightarrow> uuid \<Rightarrow> Identity \<Rightarrow> string \<Rightarrow> string option \<Rightarrow> string option \<Rightarrow> string option
   \<Rightarrow> time \<Rightarrow> Applicant" where
  "upsert_new tp fresh identity email given_name family_name phone now =
     (applicant_new (tp_uuid_show tp fresh) (idn_organization_id identity) email now)
       \<lparr>ap_user_id := Some (idn_user_id identity), ap_oidc_subject := Some (idn_user_id identity),
        ap_given_name := given_name, ap_family_name := family_name, ap_phone := phone\<rparr>"

definition upsert_profile ::
  "third_party \<Rightarrow> providers \<Rightarrow> uuid \<Rightarrow> Identity \<Rightarrow> string \<Rightarrow> string option \<Rightarrow> string option
   \<Rightarrow> string option \<Rightarrow> time \<Rightarrow> ServiceState \<Rightarrow> Applicant op_result" where
  "upsert_profile tp pv fresh identity email given_name family_name phone now s =
     try_op (identity_validate identity) s (\<lambda>_.
       let items = sd_applicants (sv_store s);
           subject_index =
             position (is_applicant_of (idn_user_id identity) (idn_organization_id identity)) items;
           email_index =
             position (\<lambda>item. ap_organization_id item = idn_organization_id identity
                          \<and> ap_email item = email) items
       in if subject_index \<noteq> None \<and> email_index \<noteq> None \<and> subject_index \<noteq> email_index
          then (Inl ApplicantIdentityConflict, s)
          else (case or_else subject_index email_index of
            Some index \<Rightarrow>
              let updated = upsert_existing identity email given_name family_name phone now
                              (items ! index)
              in commit pv updated (with_store (put_applicant index updated) s)
          | None \<Rightarrow>
              let a = upsert_new tp fresh identity email given_name family_name phone now
              in commit pv a (with_store (save_applicant a) s)))"

definition merge_vetting :: "json \<Rightarrow> json \<Rightarrow> json" where
  "merge_vetting current patch =
     (case (current, patch) of
        (JObj c, JObj p) \<Rightarrow> JObj (map_extend c p)
      | _ \<Rightarrow> current)"

definition update_applicant ::
  "providers \<Rightarrow> (Applicant \<Rightarrow> Applicant) \<Rightarrow> string \<Rightarrow> ServiceState \<Rightarrow> Applicant op_result" where
  "update_applicant pv f applicant_id s =
     (case position (\<lambda>a. ap_id a = applicant_id) (sd_applicants (sv_store s)) of
        None \<Rightarrow> (Inl ApplicantNotFound, s)
      | Some i \<Rightarrow>
          let a = f (sd_applicants (sv_store s) ! i)
          in commit pv a (with_store (put_applicant i a) s))"

definition patch_profile_vetting_data ::
  "providers \<Rightarrow> string \<Rightarrow> json \<Rightarrow> time \<Rightarrow> ServiceState \<Rightarrow> Applicant op_result" where
  "patch_profile_vetting_data pv applicant_id patch now s =
     update_applicant pv
       (\<lambda>a. a\<lparr>ap_vetting_data := merge_vetting (ap_vetting_data a) patch, ap_updated_at := now\<rparr>)
       applicant_id s"

definition set_profile_vetting_data ::
  "providers \<Rightarrow> string \<Rightarrow> json \<Rightarrow> time \<Rightarrow> ServiceState \<Rightarrow> Applicant op_result" where
  "set_profile_vetting_data pv applicant_id vetting_data now s =
     update_applicant pv (\<lambda>a. a\<lparr>ap_vetting_data := vetting_data, ap_updated_at := now\<rparr>)
       applicant_id s"

section \<open>Creation of an application\<close>

fun check_type_text :: "CheckType \<Rightarrow> string" where
  "check_type_text CriminalHistory = ''criminal_history''"
| "check_type_text EmploymentVerification = ''employment_verification''"
| "check_type_text IdentityVerification = ''identity_verification''"
| "check_type_text SecurityClearance = ''security_clearance''"
| "check_type_text AviationExperience = ''aviation_experience''"
| "check_type_text SanctionsScreening = ''sanctions_screening''"
| "check_type_text WatchlistCheck = ''watchlist_check''"
| "check_type_text ReferenceCheck = ''reference_check''"
| "check_type_text EducationVerification = ''education_verification''"
| "check_type_text AddressVerification = ''address_verification''"
| "check_type_text BiometricEnrollment = ''biometric_enrollment''"
| "check_type_text DocumentVerification = ''document_verification''"
| "check_type_text FinancialCheck = ''financial_check''"
| "check_type_text CustomCheck = ''custom''"

text \<open>The derived \<open>Serialize\<close> of a check specification, in field order.\<close>

definition check_spec_json :: "CheckSpec \<Rightarrow> json" where
  "check_spec_json spec = JObj
     [(''check_type'', JStr (check_type_text (cs_check_type spec))),
      (''custom_name'', json_opt_str (cs_custom_name spec)),
      (''is_required'', JBool (cs_is_required spec)),
      (''order'', json_of_int (cs_order spec)),
      (''config'', JObj (cs_config spec)),
      (''external_provider'', json_opt_str (cs_external_provider spec)),
      (''webhook_url'', json_opt_str (cs_webhook_url spec))]"

definition blocks_duplicate :: "string \<Rightarrow> string \<Rightarrow> Application \<Rightarrow> bool" where
  "blocks_duplicate applicant_id credential_template_id item =
     (an_applicant_id item = applicant_id
      \<and> an_credential_template_id item = credential_template_id
      \<and> an_status item \<notin> set [Rejected, Withdrawn, Suspended])"

definition initial_system_data :: "ApplicationTemplate \<Rightarrow> jmap" where
  "initial_system_data template =
     map_insert ''application_validity_days'' (json_of_int (at_application_validity_days template))
       (map_insert ''approval_strategy'' (json_opt_str (at_approval_strategy template))
         (map_insert ''credential_display_name'' (json_opt_str (at_name template)) []))"

definition new_application ::
  "third_party \<Rightarrow> uuid \<Rightarrow> uuid \<Rightarrow> Applicant \<Rightarrow> string \<Rightarrow> ApplicationTemplate \<Rightarrow> jmap \<Rightarrow> jmap
   \<Rightarrow> time \<Rightarrow> Application" where
  "new_application tp fresh fresh_ref a issuer_organization_id template form_data context now =
     \<lparr> an_id = tp_uuid_show tp fresh, an_applicant_id = ap_id a,
       an_organization_id = issuer_organization_id,
       an_reference_number = Some (reference_number tp fresh_ref now),
       an_application_template_id = at_id template,
       an_credential_template_id = at_credential_template_id template,
       an_status = Draft, an_form_data = form_data, an_integration_context = context,
       an_system_data = initial_system_data template,
       an_required_checks = map check_spec_json (at_required_checks template),
       an_evidence_requirements = at_evidence_requirements template,
       an_claim_state = NotReady, an_claim_blocker = None, an_created_at = now,
       an_updated_at = now, an_submitted_at = None, an_reviewed_at = None, an_issued_at = None \<rparr>"

definition create_application ::
  "third_party \<Rightarrow> providers \<Rightarrow> uuid \<Rightarrow> uuid \<Rightarrow> Identity \<Rightarrow> string \<Rightarrow> string \<Rightarrow> jmap \<Rightarrow> jmap
   \<Rightarrow> time \<Rightarrow> ServiceState \<Rightarrow> Application op_result" where
  "create_application tp pv fresh fresh_ref identity issuer_organization_id
       application_template_id form_data context now s =
     try_op (identity_validate identity) s (\<lambda>_.
     try_op (active_template pv issuer_organization_id application_template_id) s (\<lambda>template.
     if blank (at_credential_template_id template) then (Inl MissingCredentialTemplate, s)
     else try_op (map_err Domain (validate_form_data tp form_data (at_form_fields template))) s (\<lambda>_.
     try_op (ok_or ProfileRequired
        (applicant_for_user (sv_store s) (idn_user_id identity) (idn_organization_id identity)))
       s (\<lambda>a.
     case find (blocks_duplicate (ap_id a) (at_credential_template_id template))
            (sd_applications (sv_store s)) of
       Some duplicate \<Rightarrow> (Inl (DuplicateApplication (an_reference_number duplicate)), s)
     | None \<Rightarrow>
         let app = new_application tp fresh fresh_ref a issuer_organization_id template form_data
                     context now
         in commit pv app (with_store (save_application app) s)))))"

end
