(* ===== verification/Applicant_Invariant.thy ===== *)
theory Applicant_Invariant
  imports Applicant_Issue Applicant_Attempts Applicant_Profiles
begin

text \<open>
  The invariant of the applicant service and the abstract specification of what one critical
  section may do to the applications. \<open>leaves\<close> is a small program logic for the operations:
  its rules follow the question mark operator and the closing \<open>persist\<close>, so that each
  operation reduces to conditions on its pure parts.
\<close>

section \<open>A logic for operations\<close>

named_theorems op_rules \<open>rules of the logic, one per construct of an operation\<close>

definition leaves :: "(StoreDocument \<Rightarrow> ReviewerLocks \<Rightarrow> bool) \<Rightarrow> 'a \<times> ServiceState \<Rightarrow> bool" where
  "leaves Q p = Q (sv_store (snd p)) (sv_locks (snd p))"

lemma leaves_result [op_rules]: "Q (sv_store s) (sv_locks s) \<Longrightarrow> leaves Q (r, s)"
  by (simp add: leaves_def)

lemma leaves_try [op_rules]:
  "Q (sv_store s) (sv_locks s) \<Longrightarrow> (\<And>x. r = Inr x \<Longrightarrow> leaves Q (k x)) \<Longrightarrow> leaves Q (try_op r s k)"
  by (cases r) (auto simp: leaves_def)

lemma leaves_commit [op_rules]: "Q (sv_store s) (sv_locks s) \<Longrightarrow> leaves Q (commit pv v s)"
  by (auto simp: leaves_def commit_def split: sum.splits)

lemma leaves_if [op_rules]:
  "(b \<Longrightarrow> leaves Q p) \<Longrightarrow> (\<not> b \<Longrightarrow> leaves Q q) \<Longrightarrow> leaves Q (if b then p else q)"
  by simp

lemma leaves_option [op_rules]:
  "(x = None \<Longrightarrow> leaves Q p) \<Longrightarrow> (\<And>y. x = Some y \<Longrightarrow> leaves Q (f y))
   \<Longrightarrow> leaves Q (case x of None \<Rightarrow> p | Some y \<Rightarrow> f y)"
  by (cases x) auto

lemma leaves_Let [op_rules]: "(\<And>x. x = v \<Longrightarrow> leaves Q (f x)) \<Longrightarrow> leaves Q (let x = v in f x)"
  by (simp add: Let_def)

lemma leaves_prod [op_rules]:
  "(\<And>a b. p = (a, b) \<Longrightarrow> leaves Q (f a b)) \<Longrightarrow> leaves Q (case p of (a, b) \<Rightarrow> f a b)"
  by (cases p) auto

section \<open>The invariant\<close>

definition dead_status :: "LifecycleStatus \<Rightarrow> bool" where
  "dead_status st = (st \<in> {Rejected, Withdrawn, Suspended})"

text \<open>
  What every stored application satisfies: nothing is offered or issued that was not submitted
  and reviewed, an issuance transaction and a reserved attempt only belong to applications that
  were approved.
\<close>

definition bound_transaction :: "Application \<Rightarrow> string option" where
  "bound_transaction app =
     Option.bind (map_of (an_system_data app) ''issuance_transaction_id'') as_str"

definition app_safe :: "Application \<Rightarrow> bool" where
  "app_safe app \<longleftrightarrow>
     wf_application app
   \<and> (an_status app \<notin> {Draft, Withdrawn} \<longrightarrow> an_submitted_at app \<noteq> None)
   \<and> (an_status app \<in> {Approved, Offered, Credentialed, Rejected} \<longrightarrow> an_reviewed_at app \<noteq> None)
   \<and> (bound_transaction app \<noteq> None \<longrightarrow> an_status app \<in> {Offered, Credentialed, Withdrawn})
   \<and> (active_attempt app \<noteq> None \<longrightarrow> an_status app \<in> {Approved, Offered, Credentialed})"

definition live_key :: "Application \<Rightarrow> string \<times> string" where
  "live_key app = (an_applicant_id app, an_credential_template_id app)"

definition live :: "Application \<Rightarrow> bool" where
  "live app = (\<not> dead_status (an_status app))"

definition evidence_key :: "Evidence \<Rightarrow> string \<times> string" where
  "evidence_key e = (ev_application_id e, ev_evidence_requirement_id e)"

definition one_active :: "Evidence list \<Rightarrow> bool" where
  "one_active es = distinct (map evidence_key (filter (\<lambda>e. ev_status e = EvActive) es))"

definition store_inv :: "StoreDocument \<Rightarrow> bool" where
  "store_inv st \<longleftrightarrow> wf_store st
   \<and> (\<forall>app \<in> set (sd_applications st). app_safe app)
   \<and> distinct (map live_key (filter live (sd_applications st)))
   \<and> one_active (sd_evidence st)"

section \<open>The abstract steps of an application\<close>

fun status_move :: "LifecycleStatus \<Rightarrow> LifecycleStatus \<Rightarrow> bool" where
  "status_move st st' \<longleftrightarrow> st' = st \<or> st' \<in> set (allowed_targets st)
     \<or> (st' = Withdrawn \<and> st \<in> {UnderReview, Rejected, Offered})
     \<or> (st = Draft \<and> st' = Approved) \<or> (st = Credentialed \<and> st' = Offered)"

text \<open>A reserved attempt stays as it is, or is completed under its own identifier.\<close>

definition attempt_move :: "third_party \<Rightarrow> Application \<Rightarrow> Application \<Rightarrow> bool" where
  "attempt_move tp app app' \<longleftrightarrow>
     active_attempt app = None \<or> active_attempt app' = active_attempt app
   \<or> (active_attempt app' = None \<and> an_status app' = Offered \<and> an_claim_state app' = OfferReady
      \<and> (\<exists>i. matches_active_attempt tp app i
            \<and> map_of (an_system_data app') LAST_ATTEMPT = Some (JStr (tp_uuid_show tp i))))"

definition same_case :: "Application \<Rightarrow> Application \<Rightarrow> bool" where
  "same_case app app' \<longleftrightarrow>
     an_id app' = an_id app \<and> an_applicant_id app' = an_applicant_id app
   \<and> an_organization_id app' = an_organization_id app
   \<and> an_application_template_id app' = an_application_template_id app
   \<and> an_credential_template_id app' = an_credential_template_id app
   \<and> an_form_data app' = an_form_data app \<and> an_created_at app' = an_created_at app"

definition app_move :: "third_party \<Rightarrow> Application \<Rightarrow> Application \<Rightarrow> bool" where
  "app_move tp app app' \<longleftrightarrow> same_case app app' \<and> app_safe app'
     \<and> status_move (an_status app) (an_status app') \<and> attempt_move tp app app'"

definition app_born :: "Application list \<Rightarrow> Application \<Rightarrow> bool" where
  "app_born apps app \<longleftrightarrow> an_status app = Draft \<and> app_safe app \<and> active_attempt app = None
     \<and> an_id app \<notin> an_id ` set apps \<and> live_key app \<notin> live_key ` set (filter live apps)"

text \<open>What one critical section does to the list of applications.\<close>

definition apps_step :: "third_party \<Rightarrow> Application list \<Rightarrow> Application list \<Rightarrow> bool" where
  "apps_step tp xs ys \<longleftrightarrow>
     ys = xs \<or> (\<exists>i a. i < length xs \<and> ys = xs[i := a] \<and> app_move tp (xs ! i) a)
   \<or> (\<exists>a. ys = xs @ [a] \<and> app_born xs a)"

definition step_ok :: "third_party \<Rightarrow> StoreDocument \<Rightarrow> StoreDocument \<Rightarrow> ReviewerLocks \<Rightarrow> bool" where
  "step_ok tp st st' locks \<longleftrightarrow> store_inv st'
     \<and> apps_step tp (sd_applications st) (sd_applications st') \<and> bt_wf locks"

lemma status_move_dead: "status_move st st' \<Longrightarrow> dead_status st \<Longrightarrow> dead_status st'"
  by (cases st) (auto simp: dead_status_def)

lemma step_ok_same:
  "store_inv st' \<Longrightarrow> sd_applications st' = sd_applications st \<Longrightarrow> bt_wf locks \<Longrightarrow> step_ok tp st st' locks"
  by (simp add: step_ok_def apps_step_def)

section \<open>Updates that keep the invariant\<close>

lemma position_index:
  "application_index st i = Inr k \<longleftrightarrow> position (\<lambda>a. an_id a = i) (sd_applications st) = Some k"
  by (simp add: application_index_def)

lemma application_index_Inr:
  assumes "application_index st i = Inr k"
  shows "k < length (sd_applications st)" and "an_id (sd_applications st ! k) = i"
    and "sd_applications st ! k \<in> set (sd_applications st)"
    and "application st i = Some (sd_applications st ! k)"
  using position_Some [of _ "sd_applications st"] assms find_position_Some
  by (auto simp: position_index application_def)

lemma safe_at:
  "store_inv st \<Longrightarrow> application_index st i = Inr k \<Longrightarrow> app_safe (sd_applications st ! k)"
  by (auto simp: store_inv_def dest: application_index_Inr(3))

lemma map_list_update_same:
  "i < length xs \<Longrightarrow> f a = f (xs ! i) \<Longrightarrow> map f (xs[i := a]) = map f xs"
  by (simp add: map_update list_update_same_conv)

text \<open>Replacing one element by one that is not newly selected keeps the selected keys distinct.\<close>

lemma distinct_filter_update:
  assumes "distinct (map key (filter P xs))" and "i < length xs"
    and "P a \<Longrightarrow> P (xs ! i) \<and> key a = key (xs ! i)"
  shows "distinct (map key (filter P (xs[i := a])))"
proof -
  have xs: "xs = take i xs @ xs ! i # drop (Suc i) xs"
    using assms(2) by (simp add: id_take_nth_drop)
  have upd: "xs[i := a] = take i xs @ a # drop (Suc i) xs"
    using assms(2) by (simp add: upd_conv_take_nth_drop)
  have d: "distinct (map key (filter P (take i xs @ xs ! i # drop (Suc i) xs)))"
    using assms(1) xs by simp
  show ?thesis
  proof (cases "P a")
    case True
    then show ?thesis using d assms(3) unfolding upd by simp
  next
    case False
    then show ?thesis using d unfolding upd by (cases "P (xs ! i)") auto
  qed
qed

lemma inv_put_application:
  assumes "store_inv st" and "i < length (sd_applications st)"
    and "app_move tp (sd_applications st ! i) a"
  shows "store_inv (put_application i a st)"
proof -
  let ?xs = "sd_applications st"
  have same: "same_case (?xs ! i) a" and safe: "app_safe a"
    and st: "status_move (an_status (?xs ! i)) (an_status a)"
    using assms(3) by (auto simp: app_move_def)
  have "map an_id (?xs[i := a]) = map an_id ?xs"
    using same assms(2) by (intro map_list_update_same) (auto simp: same_case_def)
  moreover have "\<forall>b \<in> set (?xs[i := a]). app_safe b"
    using assms(1) safe by (auto simp: store_inv_def dest: set_update_subset_insert [THEN subsetD])
  moreover have "distinct (map live_key (filter live (?xs[i := a])))"
    using assms(1,2) same status_move_dead [OF st]
    by (intro distinct_filter_update)
      (auto simp: store_inv_def live_key_def same_case_def live_def)
  ultimately show ?thesis
    using assms(1) by (auto simp: store_inv_def wf_store_def put_application_def app_safe_def)
qed

lemma step_put_application:
  assumes "store_inv st'" and "sd_applications st' = sd_applications st"
    and "i < length (sd_applications st)" and "app_move tp (sd_applications st ! i) a"
    and "bt_wf locks"
  shows "step_ok tp st (put_application i a st') locks"
  using assms inv_put_application [of st' i tp a]
  by (auto simp: step_ok_def apps_step_def put_application_def)

lemma put_applicant_simps [simp]:
  "sd_applications (put_applicant i a st) = sd_applications st"
  "sd_evidence (put_applicant i a st) = sd_evidence st"
  "sd_pending_application_events (put_applicant i a st) = sd_pending_application_events st"
  "sd_checks (put_applicant i a st) = sd_checks st"
  by (simp_all add: put_applicant_def)

lemma put_frames [simp]:
  "sd_applications (put_evidence i e st) = sd_applications st"
  "sd_applications (put_check i c st) = sd_applications st"
  "sd_applications (supersede_matching a r now st) = sd_applications st"
  "sd_applications (push_event ev st) = sd_applications st"
  by (simp_all add: put_evidence_def put_check_def supersede_matching_def push_event_def)

lemma inv_put_applicant:
  assumes "store_inv st" and "i < length (sd_applicants st)"
    and "ap_id a = ap_id (sd_applicants st ! i)"
  shows "store_inv (put_applicant i a st)"
proof -
  have "map ap_id ((sd_applicants st)[i := a]) = map ap_id (sd_applicants st)"
    using assms(2,3) by (intro map_list_update_same) auto
  then show ?thesis
    using assms(1) by (auto simp: store_inv_def wf_store_def put_applicant_def)
qed

lemma inv_saves:
  "store_inv st \<Longrightarrow> store_inv (save_applicant a st)"
  "store_inv st \<Longrightarrow> store_inv (save_biometric b st)"
  "store_inv st \<Longrightarrow> store_inv (save_check c st)"
  by (auto simp: store_inv_def intro: wf_saves)

lemma inv_save_checks:
  "store_inv st \<Longrightarrow> store_inv (save_checks tp fresh i now n specs st)"
  "sd_applications (save_checks tp fresh i now n specs st) = sd_applications st"
  "sd_applicants (save_checks tp fresh i now n specs st) = sd_applicants st"
  "sd_evidence (save_checks tp fresh i now n specs st) = sd_evidence st"
  by (induction specs arbitrary: n st) (auto intro: inv_saves)

lemma inv_put_check:
  assumes "store_inv st" and "i < length (sd_checks st)" and "ck_id c = ck_id (sd_checks st ! i)"
  shows "store_inv (put_check i c st)"
proof -
  have "map ck_id ((sd_checks st)[i := c]) = map ck_id (sd_checks st)"
    using assms(2,3) by (intro map_list_update_same) auto
  then show ?thesis using assms(1) by (auto simp: store_inv_def wf_store_def put_check_def)
qed

lemma inv_events: "store_inv st \<Longrightarrow> store_inv (sd_pending_application_events_update f st)"
  by (simp add: store_inv_def wf_store_def)

lemma inv_put_evidence:
  assumes "store_inv st" and "i < length (sd_evidence st)" and "ev_id e = ev_id (sd_evidence st ! i)"
    and "ev_status e = EvActive \<Longrightarrow> ev_status (sd_evidence st ! i) = EvActive
           \<and> evidence_key e = evidence_key (sd_evidence st ! i)"
  shows "store_inv (put_evidence i e st)"
proof -
  have "map ev_id ((sd_evidence st)[i := e]) = map ev_id (sd_evidence st)"
    using assms(2,3) by (intro map_list_update_same) auto
  moreover have "one_active ((sd_evidence st)[i := e])"
    unfolding one_active_def
    by (rule distinct_filter_update)
      (use assms in \<open>auto simp: store_inv_def one_active_def\<close>)
  ultimately show ?thesis using assms(1) by (auto simp: store_inv_def wf_store_def put_evidence_def)
qed

text \<open>Mapping a function over the evidence that keeps keys and activates nothing.\<close>

lemma one_active_map:
  assumes "one_active es" and "\<And>e. ev_status (f e) = EvActive \<Longrightarrow> ev_status e = EvActive"
    and "\<And>e. evidence_key (f e) = evidence_key e"
  shows "one_active (map f es)"
  using assms(1) unfolding one_active_def
proof (induction es)
  case (Cons e es)
  have sub: "evidence_key ` set (filter (\<lambda>e. ev_status e = EvActive) (map f es))
      \<subseteq> evidence_key ` set (filter (\<lambda>e. ev_status e = EvActive) es)"
    using assms(2,3) by auto
  show ?case using Cons sub assms(2,3) by (auto split: if_splits)
qed simp

lemma inv_map_evidence:
  assumes "store_inv st" and "\<And>e. ev_status (f e) = EvActive \<Longrightarrow> ev_status e = EvActive"
    and "\<And>e. evidence_key (f e) = evidence_key e" and "\<And>e. ev_id (f e) = ev_id e"
  shows "store_inv (st\<lparr>sd_evidence := map f (sd_evidence st)\<rparr>)"
  using assms(1) one_active_map [of "sd_evidence st" f, OF _ assms(2,3)] assms(4)
  by (simp add: store_inv_def wf_store_def comp_def)

lemma refresh_matching_map:
  "refresh_matching i r now es =
     map (\<lambda>e. if evidence_matches i r e then refresh_expiry now e else e) es"
  by (simp add: refresh_matching_def)

lemma refresh_matching_inv:
  "store_inv st \<Longrightarrow> store_inv (st\<lparr>sd_evidence := refresh_matching i r now (sd_evidence st)\<rparr>)"
  unfolding refresh_matching_map
  by (rule inv_map_evidence) (auto simp: evidence_key_def refresh_expiry_active split: if_splits)

lemma validate_required_evidence_inv:
  assumes "validate_required_evidence tp app now rs (sd_evidence st) = (r, es)" and "store_inv st"
  shows "store_inv (st\<lparr>sd_evidence := es\<rparr>)"
  using assms
proof (induction rs arbitrary: st)
  case Nil
  then have "es = sd_evidence st" by simp
  then show ?case using Nil by simp
next
  case (Cons q rs)
  show ?case
  proof (cases "requirement_checked q")
    case True
    let ?st = "st\<lparr>sd_evidence := refresh_matching (an_id app) (str_field q ''evidence_id'') now (sd_evidence st)\<rparr>"
    have inv: "store_inv ?st" by (rule refresh_matching_inv [OF Cons.prems(2)])
    then show ?thesis
      using Cons.prems True Cons.IH [of ?st] by (auto simp: Let_def split: if_splits)
  next
    case False
    then show ?thesis using Cons by simp
  qed
qed

lemma check_required_evidence_inv:
  assumes "check_required_evidence tp app now s = (r, s')" and "store_inv (sv_store s)"
  shows "store_inv (sv_store s')" and "sd_applications (sv_store s') = sd_applications (sv_store s)"
    and "sd_applicants (sv_store s') = sd_applicants (sv_store s)" and "sv_locks s' = sv_locks s"
    and "sv_durable s' = sv_durable s"
    and "sd_pending_application_events (sv_store s') = sd_pending_application_events (sv_store s)"
  using assms
  by (auto simp: check_required_evidence_def dest: validate_required_evidence_inv split: prod.splits)

lemma project_applicant_inv:
  assumes "project_applicant f i st = Inr st'" and "store_inv st"
    and "\<And>a a'. f a = Inr a' \<Longrightarrow> ap_id a' = ap_id a"
  shows "store_inv st'" and "sd_applications st' = sd_applications st"
    and "sd_evidence st' = sd_evidence st"
    and "sd_pending_application_events st' = sd_pending_application_events st"
  using assms position_Some [of "\<lambda>item. ap_id item = i" "sd_applicants st"]
  by (auto simp: project_applicant_def bind_result_Inr split: option.splits
      intro!: inv_put_applicant)

lemma projections_keep_id:
  "submit_applicant now a = Inr a' \<Longrightarrow> ap_id a' = ap_id a"
  "withdraw_projection now a = Inr a' \<Longrightarrow> ap_id a' = ap_id a"
  "advance_applicant_projection t now a = Inr a' \<Longrightarrow> ap_id a' = ap_id a"
  by (auto simp: submit_applicant_def withdraw_projection_def advance_applicant_projection_def
      set_status_Inr split: if_splits)

end
