(* ===== verification/Applicant_Steps.thy ===== *)
theory Applicant_Steps
  imports Applicant_Invariant
begin

text \<open>
  Every critical section of the applicant service keeps the invariant and refines the abstract
  steps of \<open>Applicant_Invariant\<close>.
\<close>

section \<open>Profiles, evidence and checks\<close>

lemma enroll_biometric_step:
  assumes "store_inv (sv_store s)" and "bt_wf (sv_locks s)"
  shows "leaves (step_ok tp (sv_store s)) (enroll_biometric tp pv u idn b s)"
  unfolding enroll_biometric_def
  by (intro op_rules step_ok_same) (use assms in \<open>auto intro!: inv_saves\<close>)

lemma update_applicant_step:
  assumes "store_inv (sv_store s)" and "bt_wf (sv_locks s)" and "\<And>a. ap_id (f a) = ap_id a"
  shows "leaves (step_ok tp (sv_store s)) (update_applicant pv f i s)"
  unfolding update_applicant_def
  by (intro op_rules step_ok_same)
    (use assms in \<open>auto intro!: inv_put_applicant dest: position_Some\<close>)

lemma or_else_position:
  "or_else (position p xs) (position q xs) = Some i \<Longrightarrow> i < length xs"
  by (auto simp: or_else_def split: option.splits dest: position_Some)

lemma upsert_profile_step:
  assumes "store_inv (sv_store s)" and "bt_wf (sv_locks s)"
  shows "leaves (step_ok tp (sv_store s)) (upsert_profile tp pv u idn em g f p now s)"
  unfolding upsert_profile_def Let_def
  by (intro op_rules step_ok_same)
    (use assms in \<open>auto intro!: inv_saves inv_put_applicant dest: or_else_position
       simp: upsert_existing_def\<close>)

lemma read_evidence_step:
  assumes "store_inv (sv_store s)" and "bt_wf (sv_locks s)"
  shows "leaves (step_ok tp (sv_store s)) (read_evidence pv a e now s)"
  unfolding read_evidence_def Let_def
  by (intro op_rules step_ok_same)
    (use assms in \<open>auto intro!: inv_put_evidence dest: position_Some
       simp: refresh_expiry_active evidence_key_def\<close>)

lemma put_evidence_step:
  assumes "store_inv (sv_store s)" and "bt_wf (sv_locks s)"
    and "position p (sd_evidence (sv_store s)) = Some i"
    and "ev_id e = ev_id (sd_evidence (sv_store s) ! i)" and "ev_status e \<noteq> EvActive"
  shows "step_ok tp (sv_store s) (put_evidence i e (sv_store s)) (sv_locks s)"
  using assms by (intro step_ok_same) (auto intro!: inv_put_evidence dest: position_Some)

lemma delete_evidence_step:
  assumes "store_inv (sv_store s)" and "bt_wf (sv_locks s)"
  shows "leaves (step_ok tp (sv_store s)) (delete_evidence pv a e now s)"
  unfolding delete_evidence_def evidence_at_def Let_def
  using assms
  by (intro op_rules) (auto intro: step_ok_same put_evidence_step)

lemma revoke_evidence_step:
  assumes "store_inv (sv_store s)" and "bt_wf (sv_locks s)"
  shows "leaves (step_ok tp (sv_store s)) (revoke_evidence pv a e r now s)"
  unfolding revoke_evidence_def evidence_at_def Let_def
  using assms
  by (intro op_rules) (auto intro: step_ok_same put_evidence_step)

lemma put_check_step:
  assumes "store_inv (sv_store s)" and "bt_wf (sv_locks s)"
    and "position p (sd_checks (sv_store s)) = Some i"
    and "ck_id c = ck_id (sd_checks (sv_store s) ! i)"
  shows "step_ok tp (sv_store s) (put_check i c (sv_store s)) (sv_locks s)"
  using assms by (intro step_ok_same) (auto intro!: inv_put_check dest: position_Some)

lemma start_check_step:
  assumes "store_inv (sv_store s)" and "bt_wf (sv_locks s)"
  shows "leaves (step_ok tp (sv_store s)) (start_check pv a c now s)"
  unfolding start_check_def Let_def
  using assms
  by (intro op_rules) (auto intro: step_ok_same put_check_step simp: check_start_def)

lemma complete_check_step:
  assumes "store_inv (sv_store s)" and "bt_wf (sv_locks s)"
  shows "leaves (step_ok tp (sv_store s)) (complete_check pv c ok by_whom res ids now s)"
  unfolding complete_check_def Let_def
  using assms
  by (intro op_rules) (auto intro: step_ok_same put_check_step simp: check_complete_def Let_def)

text \<open>An upload: superseding first leaves no active evidence under the key of the new one.\<close>

lemma supersede_simps [simp]:
  "ev_id (supersede now e) = ev_id e" "evidence_key (supersede now e) = evidence_key e"
  "ev_status (supersede now e) = EvRevoked"
  by (simp_all add: supersede_def evidence_key_def)

lemma supersede_matching_inv:
  "store_inv st \<Longrightarrow> store_inv (supersede_matching i r now st)"
  unfolding supersede_matching_def by (rule inv_map_evidence) (auto split: if_splits)

lemma evidence_matches_key: "evidence_matches i r e \<longleftrightarrow> evidence_key e = (i, r)"
  by (simp add: evidence_matches_def evidence_key_def)

lemma supersede_matching_none:
  assumes "e \<in> set (sd_evidence (supersede_matching i r now st))" and "ev_status e = EvActive"
  shows "evidence_key e \<noteq> (i, r)"
proof -
  have "(\<exists>d. e = supersede now d) \<or> \<not> evidence_matches i r e \<or> ev_status e \<noteq> EvActive"
    using assms(1) by (auto simp: supersede_matching_def)
  with assms(2) show ?thesis by (auto simp: evidence_matches_key)
qed

lemma one_active_fresh:
  assumes "one_active es" and "\<And>d. d \<in> set es \<Longrightarrow> ev_status d = EvActive \<Longrightarrow> evidence_key d \<noteq> evidence_key e"
  shows "one_active (replace_or_insert ev_id e es)"
proof (cases "position (\<lambda>d. ev_id d = ev_id e) es")
  case None
  then show ?thesis
    using assms(1) assms(2) [THEN not_sym] by (auto simp: replace_or_insert_def one_active_def)
next
  case (Some i)
  then have i: "i < length es" using position_Some by blast
  have es: "es = take i es @ es ! i # drop (Suc i) es" using i by (simp add: id_take_nth_drop)
  have d: "distinct (map evidence_key (filter (\<lambda>e. ev_status e = EvActive)
      (take i es @ es ! i # drop (Suc i) es)))"
    using assms(1) es by (simp add: one_active_def)
  have "evidence_key e \<notin> evidence_key ` {d \<in> set (take i es). ev_status d = EvActive}"
    "evidence_key e \<notin> evidence_key ` {d \<in> set (drop (Suc i) es). ev_status d = EvActive}"
    using assms(2) [THEN not_sym] by (auto dest: in_set_takeD in_set_dropD)
  then have "distinct (map evidence_key (filter (\<lambda>e. ev_status e = EvActive)
      (take i es @ e # drop (Suc i) es)))"
    using d by (auto split: if_splits)
  then show ?thesis
    using Some i by (simp add: replace_or_insert_def one_active_def upd_conv_take_nth_drop)
qed

lemma inv_save_evidence:
  assumes "store_inv st"
    and "\<And>d. d \<in> set (sd_evidence st) \<Longrightarrow> ev_status d = EvActive \<Longrightarrow> evidence_key d \<noteq> evidence_key e"
  shows "store_inv (save_evidence e st)"
  using assms wf_save_evidence one_active_fresh [OF _ assms(2)]
  by (auto simp: store_inv_def) (auto simp: save_evidence_def)

lemma upload_evidence_step:
  assumes "store_inv (sv_store s)" and "bt_wf (sv_locks s)"
  shows "leaves (step_ok tp (sv_store s)) (upload_evidence tp pv u input m now s)"
proof -
  let ?st = "supersede_matching (up_application_id input) (up_evidence_requirement_id input) now (sv_store s)"
  have inv: "store_inv ?st" using assms(1) by (rule supersede_matching_inv)
  have "store_inv (save_evidence e ?st)"
    if "from_upload tp (tp_uuid_show tp u) input m now = Inr e" for e
  proof (rule inv_save_evidence [OF inv])
    have "evidence_key e = (up_application_id input, up_evidence_requirement_id input)"
      using that by (auto simp: from_upload_Inr evidence_key_def)
    then show "evidence_key d \<noteq> evidence_key e" if "d \<in> set (sd_evidence ?st)" "ev_status d = EvActive" for d
      using supersede_matching_none that by metis
  qed
  then show ?thesis
    unfolding upload_evidence_def Let_def
    using assms inv by (intro op_rules step_ok_same) auto
qed

end
