(* ===== verification/Applicant_Moves.thy ===== *)
theory Applicant_Moves
  imports Applicant_Steps
begin

text \<open>
  The critical sections that move an application through its lifecycle: each is one of the
  abstract moves of \<open>Applicant_Invariant\<close>, which keep the invariant.
\<close>

section \<open>The moves of an application\<close>

lemma set_system_data_simps [simp]:
  "an_id (set_system_data k v app) = an_id app"
  "an_applicant_id (set_system_data k v app) = an_applicant_id app"
  "an_status (set_system_data k v app) = an_status app"
  "an_submitted_at (set_system_data k v app) = an_submitted_at app"
  "an_reviewed_at (set_system_data k v app) = an_reviewed_at app"
  "an_organization_id (set_system_data k v app) = an_organization_id app"
  "an_application_template_id (set_system_data k v app) = an_application_template_id app"
  "an_credential_template_id (set_system_data k v app) = an_credential_template_id app"
  "an_form_data (set_system_data k v app) = an_form_data app"
  "an_created_at (set_system_data k v app) = an_created_at app"
  "an_claim_state (set_system_data k v app) = an_claim_state app"
  "same_case app0 (set_system_data k v app) = same_case app0 app"
  "wf_application app \<Longrightarrow> wf_application (set_system_data k v app)"
  "k \<noteq> ACTIVE_ATTEMPT \<Longrightarrow> active_attempt (set_system_data k v app) = active_attempt app"
  "k \<noteq> ''issuance_transaction_id'' \<Longrightarrow>
     bound_transaction (set_system_data k v app) = bound_transaction app"
  by (simp_all add: set_system_data_def same_case_def wf_application_def wf_map_insert
      active_attempt_def bound_transaction_def map_of_map_insert)

text \<open>
  Updates that leave the system data alone; the three facts a move needs about the data.
\<close>

definition same_data :: "Application \<Rightarrow> Application \<Rightarrow> bool" where
  "same_data app app' \<longleftrightarrow> (wf_application app \<longrightarrow> wf_application app')
     \<and> active_attempt app' = active_attempt app \<and> bound_transaction app' = bound_transaction app"

lemma same_dataI:
  "an_system_data app' = an_system_data app \<Longrightarrow> same_data app app'"
  by (simp add: same_data_def active_attempt_def bound_transaction_def wf_application_def)

lemma same_data_set:
  "same_data app app' \<Longrightarrow> k \<notin> {ACTIVE_ATTEMPT, ''issuance_transaction_id''}
   \<Longrightarrow> same_data app (set_system_data k v app')"
  by (simp add: same_data_def)

lemma safe_unbound:
  "app_safe app \<Longrightarrow> an_status app \<notin> {Offered, Credentialed, Withdrawn} \<Longrightarrow> bound_transaction app = None"
  unfolding app_safe_def by blast

lemma safe_inactive:
  "app_safe app \<Longrightarrow> an_status app \<notin> {Approved, Offered, Credentialed} \<Longrightarrow> active_attempt app = None"
  unfolding app_safe_def by blast

lemma safe_submitted:
  "app_safe app \<Longrightarrow> an_status app \<notin> {Draft, Withdrawn} \<Longrightarrow> an_submitted_at app \<noteq> None"
  unfolding app_safe_def by blast

lemma safe_reviewed:
  "app_safe app \<Longrightarrow> an_status app \<in> {Approved, Offered, Credentialed, Rejected}
   \<Longrightarrow> an_reviewed_at app \<noteq> None"
  unfolding app_safe_def by blast

text \<open>A move that keeps the data, when no attempt and no transaction depends on the status.\<close>

lemma unbound_move:
  assumes "app_safe app" and "same_case app app'" and "same_data app app'"
    and "bound_transaction app = None" and "active_attempt app = None"
    and "status_move (an_status app) (an_status app')"
    and "an_status app' \<notin> {Draft, Withdrawn} \<Longrightarrow> an_submitted_at app' \<noteq> None"
    and "an_status app' \<in> {Approved, Offered, Credentialed, Rejected} \<Longrightarrow> an_reviewed_at app' \<noteq> None"
  shows "app_move tp app app'"
  using assms unfolding app_move_def app_safe_def same_data_def attempt_move_def by simp

text \<open>A move that keeps data, status and the two times.\<close>

lemma quiet_move:
  assumes "app_safe app" and "same_case app app'" and "same_data app app'"
    and "an_status app' = an_status app" and "an_submitted_at app' = an_submitted_at app"
    and "an_reviewed_at app' = an_reviewed_at app"
  shows "app_move tp app app'"
  using assms unfolding app_move_def app_safe_def same_data_def attempt_move_def by simp

lemma submitted_application_Inr:
  assumes "submitted_application tp u now app = Inr app'"
  obtains r where "app' = app\<lparr>an_status := Submitted, an_submitted_at := Some now,
      an_updated_at := now, an_reference_number := r\<rparr>"
  using assms by (auto simp: submitted_application_def bind_result_Inr transition_Inr)

lemma submitted_move:
  assumes "app_safe app" and "editable (an_status app)"
    and "submitted_application tp u now app = Inr app'"
  shows "app_move tp app app'"
    and "app_move tp app (app'\<lparr>an_status := Approved, an_reviewed_at := Some now\<rparr>)"
    and "an_status app' = Submitted"
proof -
  obtain r where app': "app' = app\<lparr>an_status := Submitted, an_submitted_at := Some now,
      an_updated_at := now, an_reference_number := r\<rparr>"
    by (rule submitted_application_Inr [OF assms(3)])
  have st: "an_status app = Draft \<or> an_status app = PendingInformation"
    using assms(2) by (simp add: editable_def)
  then have none: "bound_transaction app = None" "active_attempt app = None"
    using safe_unbound [OF assms(1)] safe_inactive [OF assms(1)] by auto
  show "app_move tp app app'"
    using st by (intro unbound_move [OF assms(1) _ _ none])
      (auto simp: app' same_case_def intro: same_dataI)
  show "app_move tp app (app'\<lparr>an_status := Approved, an_reviewed_at := Some now\<rparr>)"
    using st by (intro unbound_move [OF assms(1) _ _ none])
      (auto simp: app' same_case_def intro: same_dataI)
  show "an_status app' = Submitted" by (simp add: app')
qed

section \<open>Submission\<close>

lemma put_step:
  assumes "store_inv (sv_store s)" and "bt_wf (sv_locks s)" and "store_inv st"
    and "sd_applications st = sd_applications (sv_store s)"
    and "application_index (sv_store s) i = Inr k"
    and "app_move tp (sd_applications (sv_store s) ! k) a"
  shows "step_ok tp (sv_store s) (put_application k a st) (sv_locks s)"
  using assms application_index_Inr(1) by (auto intro: step_put_application)

lemma same_step:
  assumes "store_inv (sv_store s)" and "bt_wf (sv_locks s)"
  shows "step_ok tp (sv_store s) (sv_store s) (sv_locks s)"
  using assms by (intro step_ok_same) auto

lemma check_step:
  assumes "check_required_evidence tp app now s = (r, s')" and "store_inv (sv_store s)"
    and "bt_wf (sv_locks s)"
  shows "step_ok tp (sv_store s) (sv_store s') (sv_locks s')"
  using check_required_evidence_inv [OF assms(1,2)] assms(3) by (intro step_ok_same) auto

lemma submit_decide_step:
  assumes "store_inv (sv_store s)" and "bt_wf (sv_locks s)"
    and "store_inv (sv_store s1)" and "sd_applications (sv_store s1) = sd_applications (sv_store s)"
    and "sv_locks s1 = sv_locks s" and "application_index (sv_store s) i = Inr k"
    and "app_move tp (sd_applications (sv_store s) ! k) a"
    and "app_move tp (sd_applications (sv_store s) ! k) (a\<lparr>an_status := Approved, an_reviewed_at := Some now\<rparr>)"
  shows "leaves (step_ok tp (sv_store s)) (submit_decide tp pv f i template first k a now s1)"
proof -
  have fail: "step_ok tp (sv_store s) (sv_store s1) (sv_locks s)"
    using assms(2-4) by (intro step_ok_same) auto
  show ?thesis
    unfolding submit_decide_def Let_def
    using assms fail
    by (intro op_rules) (auto simp: inv_save_checks inv_saves transition_Inr intro!: put_step)
qed

lemma submit_last:
  assumes "store_inv (sv_store s)" and "bt_wf (sv_locks s)"
    and "application_index (sv_store s) i = Inr k" and "app = sd_applications (sv_store s) ! k"
    and "editable (an_status app)" and "check_required_evidence tp app now s = (r, s1)"
    and "submitted_application tp u now app = Inr a"
    and "project_applicant (submit_applicant now) (an_applicant_id a) (sv_store s1) = Inr st"
  shows "leaves (step_ok tp (sv_store s))
    (submit_decide tp pv f i template first k a now (s1\<lparr>sv_store := st\<rparr>))"
proof -
  note chk = check_required_evidence_inv [OF assms(6,1)]
  note pr = project_applicant_inv [OF assms(8) chk(1) projections_keep_id(1)]
  have safe: "app_safe app" using safe_at [OF assms(1,3)] assms(4) by simp
  show ?thesis
    by (rule submit_decide_step [OF assms(1,2) _ _ _ assms(3)])
      (use pr chk submitted_move [OF safe assms(5,7)] assms(4) in simp_all)
qed

lemma submit_step:
  assumes "store_inv (sv_store s)" and "bt_wf (sv_locks s)"
  shows "leaves (step_ok tp (sv_store s)) (submit tp pv u f i now s)"
  unfolding submit_def
  by (intro op_rules same_step [OF assms])
    (auto intro: check_step [OF sym, OF _ assms] submit_last [OF assms _ refl _ sym])

section \<open>Withdrawal\<close>

lemma unissued_facts:
  assumes "require_unissued_withdrawal app = Inr ()"
  shows "an_status app \<notin> {Approved, Offered, Credentialed, Suspended}"
    and "active_attempt app = None"
proof -
  have free: "\<not> issuance_state app" "\<not> issuance_binding app"
    using assms by (auto simp: require_unissued_withdrawal_def split: if_splits)
  show "an_status app \<notin> {Approved, Offered, Credentialed, Suspended}"
    using free(1) by (auto simp: issuance_state_def)
  show "active_attempt app = None"
    using free(2) by (simp add: issuance_binding_def contains_key_def active_attempt_def)
qed

lemma withdrawn_move:
  assumes "app_safe app" and "same_case app app'" and "wf_application app'"
    and "active_attempt app = None" and "active_attempt app' = None" and "an_status app' = Withdrawn"
    and "status_move (an_status app) Withdrawn"
  shows "app_move tp app app'"
  using assms unfolding app_move_def app_safe_def attempt_move_def by simp

lemma withdrawal_move:
  assumes "app_safe app" and "active_attempt app = None"
    and "status_move (an_status app) Withdrawn"
    and "k \<notin> {ACTIVE_ATTEMPT, ''issuance_transaction_id''}"
  shows "app_move tp app
    (set_system_data k v (app\<lparr>an_status := Withdrawn, an_updated_at := now\<rparr>))"
proof -
  have data: "same_data app (set_system_data k v (app\<lparr>an_status := Withdrawn, an_updated_at := now\<rparr>))"
    by (intro same_data_set same_dataI) (use assms(4) in auto)
  show ?thesis
  proof (rule withdrawn_move [OF assms(1)])
    have "wf_application app" using assms(1) unfolding app_safe_def by blast
    then show "wf_application (set_system_data k v (app\<lparr>an_status := Withdrawn, an_updated_at := now\<rparr>))"
      using data unfolding same_data_def by blast
  qed (use assms(2,3) data in \<open>simp_all add: same_case_def same_data_def\<close>)
qed

lemma withdraw_application_step:
  assumes "store_inv (sv_store s)" and "bt_wf (sv_locks s)"
  shows "leaves (step_ok tp (sv_store s)) (withdraw_application pv i reason now by_whom s)"
proof -
  have move: "app_move tp (sd_applications (sv_store s) ! k)
      (set_system_data ''withdrawal_reason'' v
        ((sd_applications (sv_store s) ! k)\<lparr>an_status := st, an_updated_at := now\<rparr>))"
    if "application_index (sv_store s) i = Inr k"
      "require_unissued_withdrawal (sd_applications (sv_store s) ! k) = Inr ()"
      "withdrawal_status by_whom (an_status (sd_applications (sv_store s) ! k)) = Inr st" for k v st
  proof -
    let ?app = "sd_applications (sv_store s) ! k"
    note free = unissued_facts [OF that(2)]
    have st: "st = Withdrawn"
      using that(3) by (auto simp: withdrawal_status_def transition_Inr split: WithdrawalAuthority.splits)
    show ?thesis
      unfolding st using free(1)
      by (intro withdrawal_move safe_at [OF assms(1) that(1)] free(2)) (cases "an_status ?app"; simp)+
  qed
  show ?thesis
    unfolding withdraw_application_def
    by (intro op_rules same_step [OF assms])
      (auto intro!: put_step [OF assms] move
        dest: project_applicant_inv [OF _ assms(1) projections_keep_id(2)] intro: assms(1) split: if_splits)
qed

section \<open>Review\<close>

lemma reviewable_facts:
  assumes "app_safe app" and "reviewable (an_status app)"
  shows "bound_transaction app = None" and "active_attempt app = None" and "an_submitted_at app \<noteq> None"
proof -
  have st: "an_status app = Submitted \<or> an_status app = UnderReview \<or> an_status app = PendingInformation"
    using assms(2) by (simp add: reviewable_def)
  then show "bound_transaction app = None" by (intro safe_unbound [OF assms(1)]) auto
  show "active_attempt app = None" using st by (intro safe_inactive [OF assms(1)]) auto
  show "an_submitted_at app \<noteq> None" using st by (intro safe_submitted [OF assms(1)]) auto
qed

lemma insert_note_frames [simp]:
  "an_id (insert_note k v app) = an_id app"
  "an_status (insert_note k v app) = an_status app"
  "an_applicant_id (insert_note k v app) = an_applicant_id app"
  "an_submitted_at (insert_note k v app) = an_submitted_at app"
  "an_reviewed_at (insert_note k v app) = an_reviewed_at app"
  "an_organization_id (insert_note k v app) = an_organization_id app"
  "an_application_template_id (insert_note k v app) = an_application_template_id app"
  "an_credential_template_id (insert_note k v app) = an_credential_template_id app"
  "an_form_data (insert_note k v app) = an_form_data app"
  "an_created_at (insert_note k v app) = an_created_at app"
  "same_case app0 (insert_note k v app) = same_case app0 app"
  by (simp_all add: insert_note_def split: option.splits)

lemma same_data_note:
  "same_data app app' \<Longrightarrow> k \<notin> {ACTIVE_ATTEMPT, ''issuance_transaction_id''}
   \<Longrightarrow> same_data app (insert_note k v app')"
  by (simp add: insert_note_def same_data_set split: option.splits)

definition decision_status :: "ReviewRequest \<Rightarrow> LifecycleStatus" where
  "decision_status rq = (if rq_approve rq then Approved else Rejected)"

lemma reviewed_application_Inr:
  "reviewed_application rq now app = Inr app' \<longleftrightarrow>
     (an_status app = decision_status rq \<or> decision_status rq \<in> set (allowed_targets (an_status app)))
     \<and> app' = insert_note ''rejection_reason'' (rq_rejection_reason rq)
           (insert_note ''review_notes'' (rq_notes rq)
             (app\<lparr>an_status := decision_status rq, an_reviewed_at := Some now, an_updated_at := now\<rparr>))"
  by (auto simp: reviewed_application_def bind_result_Inr transition_Inr decision_status_def)

lemma reviewed_move:
  assumes "app_safe app" and "reviewable (an_status app)"
    and "reviewed_application rq now app = Inr app'"
  shows "app_move tp app app'"
proof -
  have app': "app' = insert_note ''rejection_reason'' (rq_rejection_reason rq)
           (insert_note ''review_notes'' (rq_notes rq)
             (app\<lparr>an_status := decision_status rq, an_reviewed_at := Some now, an_updated_at := now\<rparr>))"
    and st: "an_status app = decision_status rq \<or> decision_status rq \<in> set (allowed_targets (an_status app))"
    using assms(3) by (simp_all add: reviewed_application_Inr)
  note facts = reviewable_facts [OF assms(1,2)]
  show ?thesis
  proof (rule unbound_move [OF assms(1) _ _ facts(1,2)])
    show "same_data app app'"
      unfolding app' by (intro same_data_note same_dataI) auto
  qed (use st facts(3) in \<open>auto simp: app' same_case_def\<close>)
qed

lemma review_facts_step:
  assumes "store_inv (sv_store s)" and "bt_wf (sv_locks s)"
  shows "leaves (step_ok tp (sv_store s)) (review_facts tp rq now s)"
  unfolding review_facts_def
  by (intro op_rules same_step [OF assms])
    (auto intro: check_step [OF sym, OF _ assms] same_step [OF assms] split: if_splits)

lemma review_commit_step:
  assumes "store_inv (sv_store s)" and "bt_wf (sv_locks s)" and "reviewable (af_status facts)"
  shows "leaves (step_ok tp (sv_store s)) (review_commit tp pv u rq facts i now s)"
proof -
  have put: "step_ok tp (sv_store s) (push_event ev (put_application k app' st)) (sv_locks s)"
    if "application_index (sv_store s) (rq_application_id rq) = Inr k"
      "an_status (sd_applications (sv_store s) ! k) = af_status facts"
      "reviewed_application rq now (sd_applications (sv_store s) ! k) = Inr app'"
      "project_applicant (advance_applicant_projection t now) i (sv_store s) = Inr st"
    for k app' st ev t
  proof -
    note pr = project_applicant_inv [OF that(4) assms(1) projections_keep_id(3)]
    have "step_ok tp (sv_store s) (put_application k app' st) (sv_locks s)"
      using assms that(1,2)
      by (intro put_step [OF assms(1,2) pr(1,2) that(1)] reviewed_move [OF _ _ that(3)] safe_at) auto
    then show ?thesis by (simp add: step_ok_def push_event_def inv_events)
  qed
  show ?thesis
    unfolding review_commit_def
    by (intro op_rules same_step [OF assms(1,2)]) (auto intro!: put)
qed

section \<open>Requests for information\<close>

lemma push_info_request_Inr:
  "push_info_request r app = Inr app' \<Longrightarrow> \<exists>v. app' = set_system_data ''info_requests'' v app"
  by (auto simp: push_info_request_def bind_result_Inr)

lemma request_information_step:
  assumes "store_inv (sv_store s)" and "bt_wf (sv_locks s)"
  shows "leaves (step_ok tp (sv_store s)) (request_information tp pv i items msg dl now s)"
proof -
  have put: "step_ok tp (sv_store s) (put_application k (app'\<lparr>an_updated_at := now\<rparr>) st) (sv_locks s)"
    if "application_index (sv_store s) i = Inr k"
      "reviewable (an_status (sd_applications (sv_store s) ! k))"
      "transition (an_status (sd_applications (sv_store s) ! k)) PendingInformation = Inr t"
      "push_info_request r ((sd_applications (sv_store s) ! k)\<lparr>an_status := t\<rparr>) = Inr app'"
      "project_applicant (advance_applicant_projection PendingInformation now) j (sv_store s) = Inr st"
    for k app' st r t j
  proof -
    let ?app = "sd_applications (sv_store s) ! k"
    note pr = project_applicant_inv [OF that(5) assms(1) projections_keep_id(3)]
    have safe: "app_safe ?app" by (rule safe_at [OF assms(1) that(1)])
    note facts = reviewable_facts [OF safe that(2)]
    have t: "transition (an_status ?app) PendingInformation = Inr t" by (rule that(3))
    note idx = that(1) and push = push_info_request_Inr [OF that(4)]
    obtain v where app': "app' = set_system_data ''info_requests'' v (?app\<lparr>an_status := t\<rparr>)"
      using push by blast
    have "app_move tp ?app (app'\<lparr>an_updated_at := now\<rparr>)"
    proof (rule unbound_move [OF safe _ _ facts(1,2)])
      have "same_data ?app app'" unfolding app' by (intro same_data_set same_dataI) auto
      moreover have "same_data app' (app'\<lparr>an_updated_at := now\<rparr>)" by (rule same_dataI) simp
      ultimately show "same_data ?app (app'\<lparr>an_updated_at := now\<rparr>)" by (simp add: same_data_def)
    qed (use t facts(3) in \<open>auto simp: app' same_case_def transition_Inr\<close>)
    then show ?thesis by (intro put_step [OF assms pr(1,2) idx])
  qed
  show ?thesis
    unfolding request_information_def
    by (intro op_rules same_step [OF assms]) (auto intro!: put)
qed

section \<open>Locks and the outbox\<close>

lemma acquire_lock_step:
  assumes "store_inv (sv_store s)" and "bt_wf (sv_locks s)"
  shows "leaves (step_ok tp (sv_store s)) (acquire_lock tp u i r n now s)"
  using assms bt_wf_locks_acquire [OF assms(2), of "tp_uuid_show tp u" i r n now]
  unfolding acquire_lock_def leaves_def
  by (auto split: prod.splits intro: step_ok_same)

lemma release_lock_step:
  assumes "store_inv (sv_store s)" and "bt_wf (sv_locks s)"
  shows "leaves (step_ok tp (sv_store s)) (release_lock i r now s)"
  using assms bt_wf_locks_release [OF assms(2), of i r now]
  unfolding release_lock_def leaves_def
  by (auto split: prod.splits intro: step_ok_same)

lemma deliver_event_step:
  assumes "store_inv (sv_store s)" and "bt_wf (sv_locks s)"
  shows "leaves (step_ok tp (sv_store s)) (deliver_event pv ev s)"
  using assms unfolding deliver_event_def leaves_def Let_def
  by (auto split: sum.splits option.splits intro!: step_ok_same inv_events)

section \<open>Reconciliation\<close>

text \<open>What reconciliation keeps: the case, the data a move looks at, and the two times.\<close>

definition same_record :: "Application \<Rightarrow> Application \<Rightarrow> bool" where
  "same_record app app' \<longleftrightarrow> same_case app app' \<and> same_data app app'
     \<and> an_submitted_at app' = an_submitted_at app \<and> an_reviewed_at app' = an_reviewed_at app"

lemma same_record_trans: "same_record a b \<Longrightarrow> same_record b c \<Longrightarrow> same_record a c"
  unfolding same_record_def same_case_def same_data_def by (elim conjE) (intro conjI impI; simp)

lemma same_recordI:
  "same_case app app' \<Longrightarrow> an_system_data app' = an_system_data app
   \<Longrightarrow> an_submitted_at app' = an_submitted_at app \<Longrightarrow> an_reviewed_at app' = an_reviewed_at app
   \<Longrightarrow> same_record app app'"
  by (simp add: same_record_def same_dataI)

lemma same_record_refl: "same_record app app"
  by (intro same_recordI) (simp_all add: same_case_def)

lemma same_record_set:
  "k \<notin> {ACTIVE_ATTEMPT, ''issuance_transaction_id''} \<Longrightarrow> same_record app (set_system_data k v app)"
  unfolding same_record_def by (intro conjI same_data_set same_dataI) (simp_all add: same_case_def)

lemma reconcile_effect_record:
  assumes "reconcile_effect n issued_at now app a = Inr (c, app', a')"
  shows "same_record app app' \<and> ap_id a' = ap_id a
    \<and> (an_status app' = an_status app \<or> an_status app' = Credentialed
       \<or> an_status app = Credentialed \<and> an_status app' = Offered)"
  using assms
proof (cases rule: reconcile_effect_elim)
  case issued
  note facts = reconcile_issued_status [OF issued(2)]
  show ?thesis by (simp add: facts(1,3)) (intro same_recordI; simp add: same_case_def)
qed (auto intro!: same_recordI simp: same_case_def back_to_offered_def)

lemma reconcile_transaction_record:
  assumes "reconcile_transaction st issued_at now app a = Inr (c, app', a')"
  shows "same_record app app'" and "ap_id a' = ap_id a"
    and "an_status app' = an_status app
       \<or> an_status app \<notin> {Rejected, Withdrawn, Suspended}
         \<and> (an_status app' = Credentialed \<or> an_status app = Credentialed \<and> an_status app' = Offered)"
proof -
  have "same_record app app' \<and> ap_id a' = ap_id a \<and> (an_status app' = an_status app
       \<or> an_status app \<notin> {Rejected, Withdrawn, Suspended}
         \<and> (an_status app' = Credentialed \<or> an_status app = Credentialed \<and> an_status app' = Offered))"
  proof (cases "an_status app \<in> {Rejected, Withdrawn, Suspended}")
    case True
    then have "app' = app" "a' = a" using assms by (auto simp: reconcile_transaction_def)
    then show ?thesis by (auto intro: same_recordI simp: same_case_def)
  next
    case False
    obtain c0 app0 where e: "reconcile_effect (to_ascii_lowercase st) issued_at now app a = Inr (c0, app0, a')"
      and app': "app' = app0\<lparr>an_system_data := an_system_data app', an_updated_at := an_updated_at app'\<rparr>"
      and data: "an_system_data app' =
       (if Option.bind (map_of (an_system_data app0) ''issuance_status'') as_str
             = Some (to_ascii_lowercase st) then an_system_data app0
        else map_insert ''issuance_status'' (JStr (to_ascii_lowercase st)) (an_system_data app0))"
      by (rule reconcile_transaction_Inr [OF False assms])
    define app1 where "app1 = (if Option.bind (map_of (an_system_data app0) ''issuance_status'') as_str
             = Some (to_ascii_lowercase st) then app0
        else set_system_data ''issuance_status'' (JStr (to_ascii_lowercase st)) app0)"
    define t where "t = an_updated_at app'"
    have "app' = app1\<lparr>an_updated_at := t\<rparr>"
      using app' data by (simp add: app1_def t_def set_system_data_def split: if_splits)
    moreover have "same_record app0 app1"
      by (simp add: app1_def same_record_refl same_record_set)
    moreover have "same_record app1 (app1\<lparr>an_updated_at := t\<rparr>)"
      by (intro same_recordI) (simp_all add: same_case_def)
    ultimately have rec: "same_record app0 app'" using same_record_trans by blast
    have "an_status app' = an_status app0" by (subst app') simp
    then show ?thesis
      using reconcile_effect_record [OF e] same_record_trans [OF _ rec] False by auto
  qed
  then show "same_record app app'" and "ap_id a' = ap_id a"
    and "an_status app' = an_status app
       \<or> an_status app \<notin> {Rejected, Withdrawn, Suspended}
         \<and> (an_status app' = Credentialed \<or> an_status app = Credentialed \<and> an_status app' = Offered)"
    by blast+
qed

lemma bound_move:
  assumes "app_safe app" and "same_record app app'" and "an_status app \<in> {Offered, Credentialed}"
    and "an_status app' \<in> {Offered, Credentialed}"
  shows "app_move tp app app'"
proof -
  have "an_submitted_at app \<noteq> None" using assms(3) by (intro safe_submitted [OF assms(1)]) auto
  moreover have "an_reviewed_at app \<noteq> None" using assms(3) by (intro safe_reviewed [OF assms(1)]) auto
  moreover have "wf_application app" using assms(1) unfolding app_safe_def by blast
  moreover have "status_move (an_status app) (an_status app')" using assms(3,4) by auto
  ultimately show ?thesis
    using assms(2,4)
    unfolding app_move_def app_safe_def same_record_def same_data_def attempt_move_def
    by (simp, blast)
qed

lemma quiet_record_move:
  assumes "app_safe app" and "same_record app app'" and "an_status app' = an_status app"
  shows "app_move tp app app'"
  using assms by (intro quiet_move) (simp_all add: same_record_def)

lemma expire_offer_record:
  "expire_offer tp now app = (b, app') \<Longrightarrow> same_record app app' \<and> an_status app' = an_status app"
  by (auto simp: expire_offer_def intro!: same_recordI simp: same_case_def split: if_splits)

lemma reconcile_status_facts:
  assumes "reconcile_status ts issued_at now app st = Inr (c, app', st')" and "store_inv st"
  shows "same_record app app'" and "store_inv st'" and "sd_applications st' = sd_applications st"
    and "an_status app' = an_status app \<or> ts \<noteq> None
       \<and> an_status app \<notin> {Rejected, Withdrawn, Suspended}
         \<and> (an_status app' = Credentialed \<or> an_status app = Credentialed \<and> an_status app' = Offered)"
proof -
  have "ts = None \<and> app' = app \<and> st' = st \<or>
     (\<exists>status k c0 a. ts = Some status
       \<and> position (\<lambda>a. ap_id a = an_applicant_id app) (sd_applicants st) = Some k
       \<and> reconcile_transaction status issued_at now app (sd_applicants st ! k) = Inr (c0, app', a)
       \<and> (st' = st \<or> st' = put_applicant k a st))"
    using assms(1) unfolding reconcile_status_def
    by (cases ts) (auto simp: bind_result_Inr split: if_splits)
  then have "same_record app app' \<and> store_inv st' \<and> sd_applications st' = sd_applications st \<and>
    (an_status app' = an_status app \<or> ts \<noteq> None
       \<and> an_status app \<notin> {Rejected, Withdrawn, Suspended}
         \<and> (an_status app' = Credentialed \<or> an_status app = Credentialed \<and> an_status app' = Offered))"
  proof (elim disjE exE conjE)
    assume "ts = None" "app' = app" "st' = st"
    then show ?thesis using same_record_refl assms(2) by simp
  next
    fix status k c0 a
    assume ts: "ts = Some status"
      and pos: "position (\<lambda>a. ap_id a = an_applicant_id app) (sd_applicants st) = Some k"
      and rec: "reconcile_transaction status issued_at now app (sd_applicants st ! k) = Inr (c0, app', a)"
    note f = reconcile_transaction_record [OF rec]
    have inv: "store_inv (put_applicant k a st)"
      using position_Some [OF pos] f(2) by (intro inv_put_applicant assms(2)) auto
    assume "st' = put_applicant k a st"
    then show ?thesis using f(1,3) inv ts by simp
  next
    fix status k c0 a
    assume ts: "ts = Some status" and "st' = st"
      and rec: "reconcile_transaction status issued_at now app (sd_applicants st ! k) = Inr (c0, app', a)"
    then show ?thesis using reconcile_transaction_record [OF rec] assms(2) by simp
  qed
  then show "same_record app app'" and "store_inv st'" and "sd_applications st' = sd_applications st"
    and "an_status app' = an_status app \<or> ts \<noteq> None
       \<and> an_status app \<notin> {Rejected, Withdrawn, Suspended}
         \<and> (an_status app' = Credentialed \<or> an_status app = Credentialed \<and> an_status app' = Offered)"
    by blast+
qed

lemma reconcile_issuance_step:
  assumes "store_inv (sv_store s)" and "bt_wf (sv_locks s)" and "ts \<noteq> None \<Longrightarrow> expected \<noteq> None"
  shows "leaves (step_ok tp (sv_store s)) (reconcile_issuance tp pv i expected ts issued_at now s)"
proof -
  have put: "step_ok tp (sv_store s) (put_application k (app2\<lparr>an_updated_at := now\<rparr>) st) (sv_locks s)"
    if idx: "application_index (sv_store s) i = Inr k"
      and bound: "bound_transaction (sd_applications (sv_store s) ! k) = expected"
      and exp: "expire_offer tp now (sd_applications (sv_store s) ! k) = (e, app1)"
      and rec: "reconcile_status ts issued_at now app1 (sv_store s) = Inr (c, app2, st)"
    for k e app1 c app2 st
  proof -
    let ?app = "sd_applications (sv_store s) ! k" and ?app' = "app2\<lparr>an_updated_at := now\<rparr>"
    have safe: "app_safe ?app" by (rule safe_at [OF assms(1) idx])
    note f1 = expire_offer_record [OF exp] and f2 = reconcile_status_facts [OF rec assms(1)]
    have "same_record app2 ?app'" by (intro same_recordI) (simp_all add: same_case_def)
    then have same: "same_record ?app ?app'"
      using f1 f2(1) same_record_trans by blast
    have "app_move tp ?app ?app'"
    proof (cases "an_status ?app' = an_status ?app")
      case True
      then show ?thesis by (rule quiet_record_move [OF safe same])
    next
      case False
      then have "ts \<noteq> None" using f1 f2(4) by auto
      then have "bound_transaction ?app \<noteq> None" using assms(3) bound by blast
      then have "an_status ?app \<in> {Offered, Credentialed, Withdrawn}"
        using safe unfolding app_safe_def by blast
      then show ?thesis
        using False f1 f2(4) by (intro bound_move [OF safe same]) auto
    qed
    then show ?thesis by (intro put_step [OF assms(1,2) f2(2,3) idx])
  qed
  have keep: "step_ok tp (sv_store s) st (sv_locks s)"
    if "reconcile_status ts issued_at now app1 (sv_store s) = Inr (c, app2, st)" for app1 c app2 st
    using reconcile_status_facts [OF that assms(1)] assms(2) by (intro step_ok_same)
  show ?thesis
    unfolding reconcile_issuance_def
    by (intro op_rules same_step [OF assms(1,2)])
      (auto intro: put [OF _ _ sym] keep simp: bound_transaction_def split: if_splits)
qed

lemma withdraw_revoked_offer_step:
  assumes "store_inv (sv_store s)" and "bt_wf (sv_locks s)"
  shows "leaves (step_ok tp (sv_store s)) (withdraw_revoked_offer pv i expected reason now s)"
proof -
  have put: "step_ok tp (sv_store s) (put_application k (set_system_data ''retired_issuance_transaction_id'' v
      (set_system_data ''withdrawal_reason'' w (app1\<lparr>an_status := Withdrawn, an_updated_at := now\<rparr>)))
      (put_applicant j a (sv_store s))) (sv_locks s)"
    if idx: "application_index (sv_store s) i = Inr k"
      and ok: "offer_withdrawable expected (sd_applications (sv_store s) ! k)"
      and pos: "position (\<lambda>a. ap_id a = an_applicant_id (sd_applications (sv_store s) ! k))
            (sd_applicants (sv_store s)) = Some j"
      and rec: "reconcile_transaction ''revoked'' None now (sd_applications (sv_store s) ! k)
            (sd_applicants (sv_store s) ! j) = Inr (c, app1, a)"
    for k v w app1 j a c
  proof -
    let ?app = "sd_applications (sv_store s) ! k"
    have safe: "app_safe ?app" by (rule safe_at [OF assms(1) idx])
    note f = reconcile_transaction_record [OF rec]
    have "same_record app1 (app1\<lparr>an_status := Withdrawn, an_updated_at := now\<rparr>)"
      by (intro same_recordI) (simp_all add: same_case_def)
    then have "same_record ?app (app1\<lparr>an_status := Withdrawn, an_updated_at := now\<rparr>)"
      using f(1) same_record_trans by blast
    then have "same_record ?app (set_system_data ''withdrawal_reason'' w
        (app1\<lparr>an_status := Withdrawn, an_updated_at := now\<rparr>))"
      by (rule same_record_trans) (rule same_record_set, simp)
    then have same: "same_record ?app (set_system_data ''retired_issuance_transaction_id'' v
        (set_system_data ''withdrawal_reason'' w (app1\<lparr>an_status := Withdrawn, an_updated_at := now\<rparr>)))"
      by (rule same_record_trans) (rule same_record_set, simp)
    have st: "an_status ?app = Offered" and none: "active_attempt ?app = None"
      using ok by (auto simp: offer_withdrawable_def active_attempt_def contains_key_def)
    have wf: "wf_application ?app" using safe unfolding app_safe_def by blast
    have "app_move tp ?app (set_system_data ''retired_issuance_transaction_id'' v
      (set_system_data ''withdrawal_reason'' w (app1\<lparr>an_status := Withdrawn, an_updated_at := now\<rparr>)))"
      using same st none wf unfolding same_record_def same_data_def
      by (intro withdrawn_move [OF safe]) (elim conjE; simp)+
    moreover have "store_inv (put_applicant j a (sv_store s))"
      using position_Some [OF pos] f(2) by (intro inv_put_applicant assms(1)) auto
    ultimately show ?thesis by (intro put_step [OF assms(1,2) _ _ idx]) simp_all
  qed
  show ?thesis
    unfolding withdraw_revoked_offer_def
    by (intro op_rules same_step [OF assms]) (auto intro!: put)
qed

section \<open>Issuance\<close>

lemma reopen_facts:
  "same_record app (reopen_credentialed app)"
  "an_status (reopen_credentialed app) = (if an_status app = Credentialed then Offered else an_status app)"
  by (auto simp: reopen_credentialed_def intro!: same_recordI simp: same_case_def)

lemma reserve_Inr:
  assumes "reserve_attempt_with_lifetime tp u claims now ttl app = Inr ((i, res), app')"
  shows "app' = app \<and> active_attempt app \<noteq> None
    \<or> active_attempt app = None
      \<and> app' = (set_system_data ACTIVE_ATTEMPT (attempt_record tp u claims now ttl) app)\<lparr>an_updated_at := now\<rparr>"
proof (cases "active_attempt app")
  case None
  then show ?thesis
    using assms by (auto simp: reserve_none set_system_data_def)
next
  case (Some v)
  then show ?thesis using reserve_some(1) [OF Some assms] by simp
qed

lemma reserve_move:
  assumes safe: "app_safe app" and st: "an_status (reopen_credentialed app) \<in> {Approved, Offered}"
    and res: "reserve_attempt_with_lifetime tp u claims now ttl (reopen_credentialed app) = Inr ((i, r), app')"
  shows "app_move tp app app'"
proof -
  let ?app = "reopen_credentialed app"
  note f = reopen_facts [of app]
  have sub: "an_submitted_at app \<noteq> None"
    using st f(2) by (intro safe_submitted [OF safe]) (auto split: if_splits)
  have rev: "an_reviewed_at app \<noteq> None"
    using st f(2) by (intro safe_reviewed [OF safe]) (auto split: if_splits)
  have wf: "wf_application app" using safe unfolding app_safe_def by blast
  have bound: "bound_transaction app \<noteq> None \<longrightarrow> an_status ?app = Offered"
    using safe_unbound [OF safe] st f(2) by (auto split: if_splits)
  have move: "status_move (an_status app) (an_status ?app)" using f(2) by simp
  from reserve_Inr [OF res] show ?thesis
  proof (elim disjE conjE)
    assume "app' = ?app"
    then show ?thesis
      using f(1) sub rev wf bound st move
      unfolding app_move_def app_safe_def same_record_def same_data_def attempt_move_def
      by (simp, blast)
  next
    assume none: "active_attempt ?app = None"
      and app': "app' = (set_system_data ACTIVE_ATTEMPT (attempt_record tp u claims now ttl) ?app)\<lparr>an_updated_at := now\<rparr>"
    have "active_attempt app = None" using none f(1) unfolding same_record_def same_data_def by simp
    moreover have "bound_transaction app' = bound_transaction app"
      using f(1) unfolding same_record_def same_data_def app' bound_transaction_def set_system_data_def
      by (simp add: map_of_map_insert)
    moreover have "wf_application app'"
      using wf f(1) unfolding same_record_def same_data_def app' wf_application_def set_system_data_def
      by (simp add: wf_map_insert)
    moreover have "same_case app app'"
      using f(1) unfolding same_record_def app' same_case_def by simp
    moreover have "an_status app' = an_status ?app" "an_submitted_at app' = an_submitted_at app"
      "an_reviewed_at app' = an_reviewed_at app"
      using f(1) unfolding app' same_record_def by simp_all
    ultimately show ?thesis
      using sub rev bound st move unfolding app_move_def app_safe_def attempt_move_def
      by (simp, blast?)
  qed
qed

lemma issue_reserve_step:
  assumes "store_inv (sv_store s)" and "bt_wf (sv_locks s)"
  shows "leaves (step_ok tp (sv_store s)) (issue_reserve tp pv u i t claims ttl now s)"
proof -
  have put: "step_ok tp (sv_store s) (put_application k app' (sv_store s)) (sv_locks s)"
    if idx: "application_index (sv_store s) i = Inr k"
      and "an_status (reopen_credentialed (sd_applications (sv_store s) ! k)) \<in> {Approved, Offered}"
      and "reserve_attempt_with_lifetime tp u claims now ttl
             (reopen_credentialed (sd_applications (sv_store s) ! k)) = Inr ((x, r), app')"
    for k app' x r
    by (rule put_step [OF assms assms(1) refl idx])
      (rule reserve_move [OF safe_at [OF assms(1) idx] that(2,3)])
  show ?thesis
    unfolding issue_reserve_def
    by (intro op_rules same_step [OF assms]) (auto intro!: put leaves_commit)
qed

lemma issue_blocked_step:
  assumes "store_inv (sv_store s)" and "bt_wf (sv_locks s)"
  shows "leaves (step_ok tp (sv_store s)) (issue_blocked tp pv i u now s)"
proof -
  have put: "step_ok tp (sv_store s)
      (put_application k (mark_no_active_flow now (sd_applications (sv_store s) ! k)) (sv_store s)) (sv_locks s)"
    if idx: "application_index (sv_store s) i = Inr k" for k
    by (rule put_step [OF assms assms(1) refl idx])
      (auto intro!: quiet_record_move [OF safe_at [OF assms(1) idx]] same_recordI
        simp: mark_no_active_flow_def same_case_def)
  show ?thesis
    unfolding issue_blocked_def
    by (intro op_rules same_step [OF assms])
      (auto simp: leaves_def commit_def intro!: put split: sum.splits prod.splits)
qed

lemma apply_offer_move:
  assumes safe: "app_safe app" and ok: "apply_offer tp i offer now app a = Inr (app', a')"
  shows "app_move tp app app'"
proof -
  have wf: "wf_map (an_system_data app)"
    using safe unfolding app_safe_def wf_application_def by blast
  note look = apply_offer_lookups [OF ok wf]
  have st: "an_status app \<in> {Approved, Offered}" and m: "matches_active_attempt tp app i"
    using ok by (auto simp: apply_offer_Inr)
  have f: "an_status app' = Offered" "an_claim_state app' = OfferReady"
    "an_submitted_at app' = an_submitted_at app" "an_reviewed_at app' = an_reviewed_at app"
    "same_case app app'" "wf_application app'"
    using ok wf by (auto simp: apply_offer_Inr same_case_def wf_application_def
        intro!: wf_map_insert wf_map_extend wf_map_remove)
  have sub: "an_submitted_at app \<noteq> None" using st by (intro safe_submitted [OF safe]) auto
  have rev: "an_reviewed_at app \<noteq> None" using st by (intro safe_reviewed [OF safe]) auto
  have "active_attempt app' = None" using look(1) by (simp add: active_attempt_def)
  then show ?thesis
    using f sub rev st m look(2) unfolding app_move_def app_safe_def attempt_move_def by auto
qed

lemma apply_offer_ap_id: "apply_offer tp i offer now app a = Inr (app', a') \<Longrightarrow> ap_id a' = ap_id a"
  using advance_through_total [of now "[Submitted, UnderReview, Approved, Offered]" a]
  by (auto simp: apply_offer_Inr advance_to_offered_def)

lemma put_swap:
  "put_applicant j a (put_application k app st) = put_application k app (put_applicant j a st)"
  by (cases st) (simp add: put_application_def put_applicant_def)

lemma issue_complete_step:
  assumes "store_inv (sv_store s)" and "bt_wf (sv_locks s)"
  shows "leaves (step_ok tp (sv_store s)) (issue_complete tp pv i u offer now s)"
proof -
  have put: "step_ok tp (sv_store s) (put_applicant j a (put_application k app' (sv_store s))) (sv_locks s)"
    if idx: "application_index (sv_store s) i = Inr k"
      and pos: "position (\<lambda>a. ap_id a = an_applicant_id (sd_applications (sv_store s) ! k))
            (sd_applicants (sv_store s)) = Some j"
      and ok: "apply_offer tp u offer now (sd_applications (sv_store s) ! k)
            (sd_applicants (sv_store s) ! j) = Inr (app', a)"
    for k j app' a
  proof -
    have "store_inv (put_applicant j a (sv_store s))"
      using position_Some [OF pos] apply_offer_ap_id [OF ok] by (intro inv_put_applicant assms(1)) auto
    then have "step_ok tp (sv_store s) (put_application k app' (put_applicant j a (sv_store s))) (sv_locks s)"
      by (intro put_step [OF assms _ _ idx] apply_offer_move [OF safe_at [OF assms(1) idx] ok]) simp_all
    then show ?thesis by (simp add: put_swap)
  qed
  show ?thesis
    unfolding issue_complete_def
    by (intro op_rules same_step [OF assms]) (auto intro!: put)
qed

section \<open>Creation\<close>

lemma create_application_step:
  assumes "store_inv (sv_store s)" and "bt_wf (sv_locks s)"
    and "tp_uuid_show tp u \<notin> an_id ` set (sd_applications (sv_store s))"
  shows "leaves (step_ok tp (sv_store s)) (create_application tp pv u u' idn org tpl form ctx now s)"
proof -
  have save: "step_ok tp (sv_store s)
      (save_application (new_application tp u u' a org template form ctx now) (sv_store s)) (sv_locks s)"
    if none: "find (blocks_duplicate (ap_id a) (at_credential_template_id template))
        (sd_applications (sv_store s)) = None" for a template
  proof -
    let ?app = "new_application tp u u' a org template form ctx now"
    have data: "an_system_data ?app = initial_system_data template" "an_id ?app = tp_uuid_show tp u"
      "an_status ?app = Draft" "live_key ?app = (ap_id a, at_credential_template_id template)"
      by (simp_all add: new_application_def live_key_def)
    have empty: "bound_transaction ?app = None" "active_attempt ?app = None" "wf_application ?app"
      unfolding bound_transaction_def active_attempt_def wf_application_def data(1) initial_system_data_def
      by (simp_all add: map_of_map_insert) (intro wf_map_insert, simp add: wf_map_def)
    have safe: "app_safe ?app" using empty data(3) unfolding app_safe_def by simp
    have "position (\<lambda>x. an_id x = an_id ?app) (sd_applications (sv_store s)) = None"
      using assms(3) by (force simp: position_None data(2))
    then have saved: "sd_applications (save_application ?app (sv_store s)) = sd_applications (sv_store s) @ [?app]"
      by (simp add: save_application_def replace_or_insert_def)
    have key: "live_key ?app \<notin> live_key ` set (filter live (sd_applications (sv_store s)))"
      using none unfolding data(4)
      by (auto simp: find_None_iff blocks_duplicate_def live_key_def live_def dead_status_def)
    have "app_born (sd_applications (sv_store s)) ?app"
      using safe data empty key assms(3) unfolding app_born_def by simp
    moreover have "store_inv (save_application ?app (sv_store s))"
      using assms(1) safe key wf_save_application [of "sv_store s" ?app] empty(3)
      unfolding store_inv_def by (simp add: saved)
    ultimately show ?thesis
      using assms(2) saved unfolding step_ok_def apps_step_def by blast
  qed
  show ?thesis
    unfolding create_application_def
    by (intro op_rules same_step [OF assms(1,2)]) (auto intro!: save)
qed

end
