(* ===== verification/Applicant_Reachable.thy ===== *)
theory Applicant_Reachable
  imports Applicant_Moves
begin

text \<open>
  The applicant service as a state machine: every critical section, with any arguments and any
  answers of the providers, is a step, so that every interleaving of concurrent requests is a
  sequence of steps. The guards of the rules are what the callers ensure: an identifier drawn
  for a new application is fresh, the facts of a decision come from \<open>review_facts\<close>, and a
  transaction status is reported only for a bound transaction (\<open>sync_issuance\<close> in
  \<open>http.rs\<close>).
\<close>

inductive service_step :: "third_party \<Rightarrow> ServiceState \<Rightarrow> ServiceState \<Rightarrow> bool" for tp where
  step_enroll: "service_step tp s (snd (enroll_biometric tp pv u idn b s))"
| step_upsert: "service_step tp s (snd (upsert_profile tp pv u idn email g f ph now s))"
| step_vetting: "service_step tp s (snd (patch_profile_vetting_data pv i patch now s))"
| step_set_vetting: "service_step tp s (snd (set_profile_vetting_data pv i v now s))"
| step_create: "tp_uuid_show tp u \<notin> an_id ` set (sd_applications (sv_store s)) \<Longrightarrow>
    service_step tp s (snd (create_application tp pv u u' idn org tpl form ctx now s))"
| step_submit: "service_step tp s (snd (submit tp pv u fresh i now s))"
| step_upload: "service_step tp s (snd (upload_evidence tp pv u input m now s))"
| step_read_evidence: "service_step tp s (snd (read_evidence pv i e now s))"
| step_delete_evidence: "service_step tp s (snd (delete_evidence pv i e now s))"
| step_revoke_evidence: "service_step tp s (snd (revoke_evidence pv i e reason now s))"
| step_start_check: "service_step tp s (snd (start_check pv i c now s))"
| step_complete_check: "service_step tp s (snd (complete_check pv c passed by_whom res ids now s))"
| step_withdraw: "service_step tp s (snd (withdraw_application pv i reason_opt now authority s))"
| step_withdraw_offer: "service_step tp s (snd (withdraw_revoked_offer pv i txn reason_opt now s))"
| step_reconcile: "(transaction_status \<noteq> None \<Longrightarrow> expected \<noteq> None) \<Longrightarrow>
    service_step tp s (snd (reconcile_issuance tp pv i expected transaction_status issued_at now s))"
| step_acquire: "service_step tp s (snd (acquire_lock tp u i r name now s))"
| step_release: "service_step tp s (snd (release_lock i r now s))"
| step_review_facts: "service_step tp s (snd (review_facts tp rq now s))"
| step_review_commit: "reviewable (af_status facts) \<Longrightarrow>
    service_step tp s (snd (review_commit tp pv u rq facts j now s))"
| step_deliver: "service_step tp s (snd (deliver_event pv event s))"
| step_request_information:
    "service_step tp s (snd (request_information tp pv i items message deadline now s))"
| step_reserve: "service_step tp s (snd (issue_reserve tp pv u i t claims ttl now s))"
| step_blocked: "service_step tp s (snd (issue_blocked tp pv i attempt now s))"
| step_complete: "service_step tp s (snd (issue_complete tp pv i attempt offer now s))"

inductive_cases service_stepE: "service_step tp s s'"

definition service_init :: ServiceState where
  "service_init = \<lparr>sv_store = empty_store, sv_locks = [], sv_durable = empty_store\<rparr>"

definition reachable :: "third_party \<Rightarrow> ServiceState \<Rightarrow> bool" where
  "reachable tp s = (service_step tp)\<^sup>*\<^sup>* service_init s"

definition service_inv :: "ServiceState \<Rightarrow> bool" where
  "service_inv s \<longleftrightarrow> store_inv (sv_store s) \<and> bt_wf (sv_locks s)"

lemmas section_steps = enroll_biometric_step upsert_profile_step create_application_step
  submit_step upload_evidence_step read_evidence_step delete_evidence_step revoke_evidence_step
  start_check_step complete_check_step withdraw_application_step withdraw_revoked_offer_step
  reconcile_issuance_step acquire_lock_step release_lock_step review_facts_step
  review_commit_step deliver_event_step request_information_step issue_reserve_step
  issue_blocked_step issue_complete_step

lemma vetting_steps:
  assumes "store_inv (sv_store s)" and "bt_wf (sv_locks s)"
  shows "leaves (step_ok tp (sv_store s)) (patch_profile_vetting_data pv i patch now s)"
    and "leaves (step_ok tp (sv_store s)) (set_profile_vetting_data pv i v now s)"
  unfolding patch_profile_vetting_data_def set_profile_vetting_data_def
  by (rule update_applicant_step [OF assms]; simp)+

lemma service_step_ok:
  assumes "service_step tp s s'" and "service_inv s"
  shows "step_ok tp (sv_store s) (sv_store s') (sv_locks s')"
proof -
  have inv: "store_inv (sv_store s)" "bt_wf (sv_locks s)" using assms(2) by (auto simp: service_inv_def)
  from assms(1) have "\<exists>p :: unit \<times> ServiceState. snd p = s' \<and> leaves (step_ok tp (sv_store s)) p"
    by cases (use inv in \<open>auto simp: leaves_def intro!: section_steps [unfolded leaves_def]
        vetting_steps [unfolded leaves_def]\<close>)
  then show ?thesis by (auto simp: leaves_def)
qed

lemma service_inv_step: "service_step tp s s' \<Longrightarrow> service_inv s \<Longrightarrow> service_inv s'"
  using service_step_ok by (auto simp: service_inv_def step_ok_def)

lemma service_inv_init: "service_inv service_init"
  by (simp add: service_inv_def service_init_def store_inv_def wf_empty_store bt_wf_def
      empty_store_def one_active_def)
    (use wf_empty_store in \<open>simp add: empty_store_def\<close>)

lemma service_inv_steps:
  assumes "(service_step tp)\<^sup>*\<^sup>* s s'" and "service_inv s"
  shows "service_inv s'"
  using assms by (induction rule: rtranclp_induct) (auto intro: service_inv_step)

lemma reachable_inv: "reachable tp s \<Longrightarrow> service_inv s"
  using service_inv_steps service_inv_init by (auto simp: reachable_def)

lemma reachable_store_inv: "reachable tp s \<Longrightarrow> store_inv (sv_store s)"
  using reachable_inv by (auto simp: service_inv_def)

lemma reachable_init: "reachable tp service_init"
  by (simp add: reachable_def)

lemma reachable_step: "reachable tp s \<Longrightarrow> service_step tp s s' \<Longrightarrow> reachable tp s'"
  unfolding reachable_def by (rule rtranclp.rtrancl_into_rtrancl)

lemma reachable_app_safe:
  "reachable tp s \<Longrightarrow> application (sv_store s) i = Some app \<Longrightarrow> app_safe app"
  using reachable_store_inv find_Some_in_set by (fastforce simp: store_inv_def application_def)

end
