(* ===== verification/Applicant_Demo.thy ===== *)
theory Applicant_Demo
  imports Applicant_Reachable
begin

text \<open>
  A concrete run of the applicant service for the witnesses: a profile, an application, its
  evidence, its submission, a review under a lock and an issuance, with providers that answer
  as configured. Each state is evaluated by the simplifier on the definitions.
\<close>

definition demo_template :: "string option \<Rightarrow> ApplicationTemplate" where
  "demo_template strategy = \<lparr> at_id = ''tpl'', at_organization_id = ''org'', at_status = ''active'',
     at_credential_template_id = ''cred'', at_name = Some ''Pass'', at_description = None,
     at_form_fields = [], at_required_checks = [],
     at_evidence_requirements = [JObj [(''evidence_id'', JStr ''passport''),
        (''evidence_type'', JStr ''DOCUMENT_SCAN''), (''required'', JBool True)]],
     at_approval_strategy = strategy, at_application_validity_days = 30,
     at_claim_collection_rules = [] \<rparr>"

definition demo_providers :: "string option \<Rightarrow> providers" where
  "demo_providers strategy = \<lparr> pv_template = (\<lambda>_ _. Inr (demo_template strategy)),
     pv_validate_offer_lifetime = (\<lambda>_ _. Inr ()),
     pv_flow_issue = (\<lambda>_ _ _ _. Inr sample_offer),
     pv_authorize = (\<lambda>facts. if af_risk_score facts \<le> 50 then Inr () else Inl (Denied ''risk'')),
     pv_publish = (\<lambda>_. Inr ()), pv_persist = (\<lambda>_. Inr ()),
     pv_replaced = (\<lambda>_. False) \<rparr>"

definition demo_identity :: Identity where
  "demo_identity = \<lparr> idn_user_id = ''user'', idn_organization_id = ''org'' \<rparr>"

abbreviation dp :: providers where
  "dp \<equiv> demo_providers None"

section \<open>The states of the run\<close>

definition demo_person :: "LifecycleStatus \<Rightarrow> time \<Rightarrow> Applicant" where
  "demo_person st t = (applicant_new ''u'' ''org'' ''a@b'' 1)
     \<lparr>ap_user_id := Some ''user'', ap_oidc_subject := Some ''user'', ap_status := st,
      ap_updated_at := t\<rparr>"

definition demo_data :: jmap where
  "demo_data = [(''credential_display_name'', JStr ''Pass''), (''approval_strategy'', JNull),
     (''application_validity_days'', JNum (PosInt 30))]"

definition demo_app :: "LifecycleStatus \<Rightarrow> jmap \<Rightarrow> time \<Rightarrow> time option \<Rightarrow> time option \<Rightarrow> Application" where
  "demo_app st data t submitted reviewed = \<lparr> an_id = ''uu'', an_applicant_id = ''u'',
     an_organization_id = ''org'', an_reference_number = Some ''APP-11-UUU'',
     an_application_template_id = ''tpl'', an_credential_template_id = ''cred'', an_status = st,
     an_form_data = [], an_integration_context = [], an_system_data = data,
     an_required_checks = [],
     an_evidence_requirements = at_evidence_requirements (demo_template None),
     an_claim_state = NotReady, an_claim_blocker = None, an_created_at = 2, an_updated_at = t,
     an_submitted_at = submitted, an_reviewed_at = reviewed, an_issued_at = None \<rparr>"

definition demo_upload :: EvidenceUpload where
  "demo_upload = sample_upload\<lparr>up_application_id := ''uu'', up_applicant_id := ''u''\<rparr>"

definition demo_evidence :: Evidence where
  "demo_evidence = \<lparr> ev_id = ''uuuu'', ev_application_id = ''uu'', ev_applicant_id = ''u'',
     ev_organization_id = ''org'', ev_evidence_requirement_id = ''passport'',
     ev_evidence_type = ''DOCUMENT_SCAN'', ev_source = ''APPLICANT_UPLOAD'',
     ev_media_type = ''image/png'', ev_filename = ''scan.png'', ev_content = ''abc'',
     ev_size_bytes = 3, ev_sha256 = ''sha-abc'', ev_status = EvActive, ev_submitted_by = ''ann'',
     ev_created_at = 3, ev_updated_at = 3, ev_captured_at = None, ev_expires_at = Some 50,
     ev_revoked_at = None, ev_revocation_reason = None \<rparr>"

definition demo_state ::
  "Applicant list \<Rightarrow> Application list \<Rightarrow> VettingCheck list \<Rightarrow> Evidence list \<Rightarrow> ApplicationEvent list
   \<Rightarrow> ReviewerLocks \<Rightarrow> ServiceState" where
  "demo_state people apps checks evidence events locks =
     (let st = \<lparr> sd_schema_version = None, sd_applicants = people, sd_applications = apps,
            sd_biometrics = [], sd_checks = checks, sd_evidence = evidence,
            sd_pending_application_events = events \<rparr>
      in \<lparr>sv_store = st, sv_locks = locks, sv_durable = st\<rparr>)"

lemmas demo_defs = demo_def demo_uuid_show_def demo_time_show_def demo_providers_def
  demo_template_def demo_identity_def demo_person_def demo_data_def demo_app_def demo_upload_def
  demo_evidence_def demo_state_def sample_upload_def Let_def

lemma replicate_words [simp]:
  "replicate (numeral k) c = c # replicate (pred_numeral k) c"
  by (simp add: numeral_eq_Suc)

lemma trim_words:
  "trim ''user'' = ''user''" "trim ''org'' = ''org''" "trim ''cred'' = ''cred''"
  by (rule trim_visible; simp add: visible_def byte_def)+

lemma same_case_words:
  "eq_ignore_ascii_case ''active'' ''ACTIVE''"
  "to_ascii_uppercase ''DOCUMENT_SCAN'' = ''DOCUMENT_SCAN''"
  "to_ascii_uppercase ''uuu'' = ''UUU''"
  by code_simp+

definition demo1 :: ServiceState where
  "demo1 = demo_state [demo_person Draft 1] [] [] [] [] []"

lemma demo1_step:
  "snd (upsert_profile demo dp 1 demo_identity ''a@b'' None None None 1 service_init) = demo1"
  by (simp add: demo1_def upsert_profile_def identity_validate_def trim_words service_init_def
      empty_store_def or_else_def commit_def save_applicant_def with_store_def
      replace_or_insert_def upsert_new_def applicant_new_def demo_defs)

definition demo2 :: ServiceState where
  "demo2 = demo_state [demo_person Draft 1] [demo_app Draft demo_data 2 None None] [] [] [] []"

lemma demo2_step:
  "snd (create_application demo dp 2 3 demo_identity ''org'' ''tpl'' [] [] 2 demo1) = demo2"
  by (simp add: demo1_def demo2_def create_application_def identity_validate_def trim_words
      active_template_def same_case_words validate_form_data_def unknown_field_errors_def
      applicant_for_user_def is_applicant_of_def applicant_new_def save_application_def
      replace_or_insert_def new_application_def initial_system_data_def map_insert_def
      reference_number_def commit_def with_store_def json_opt_str_def json_of_int_def demo_defs)

definition demo3 :: ServiceState where
  "demo3 = demo_state [demo_person Draft 1] [demo_app Draft demo_data 2 None None] []
     [demo_evidence] [] []"

lemma demo3_step: "snd (upload_evidence demo dp 4 demo_upload 1000 3 demo2) = demo3"
  by (simp add: demo2_def demo3_def upload_evidence_def upload_guard_def application_def
      editable_def requirement_named_def str_field_def supersede_matching_def from_upload_def
      MAX_EVIDENCE_BYTES_def sample_filename save_evidence_def replace_or_insert_def
      commit_def with_store_def demo_defs)

definition demo_check :: VettingCheck where
  "demo_check = check_from_spec demo 5 ''uu'' default_check 4"

definition demo4 :: ServiceState where
  "demo4 = demo_state [demo_person Submitted 4] [demo_app Submitted demo_data 4 (Some 4) None]
     [demo_check] [demo_evidence] [] []"

lemma demo4_step: "snd (submit demo dp 9 (\<lambda>_. 5) ''uu'' 4 demo3) = demo4"
  by (simp add: demo3_def demo4_def submit_def submit_decide_def application_def
      application_index_def editable_def validate_form_data_def unknown_field_errors_def
      check_required_evidence_def requirement_checked_def str_field_def refresh_matching_def
      evidence_matches_def evidence_sound_def refresh_expiry_def same_case_words
      submitted_application_def transition_def project_applicant_def submit_applicant_def
      set_status_def put_applicant_def put_application_def automatic_strategy_def
      checks_for_application_def save_check_def replace_or_insert_def demo_check_def
      applicant_new_def commit_def with_store_def demo_defs)

definition demo_lock :: ReviewerLock where
  "demo_lock = \<lparr> lk_id = ''uuuuuu'', lk_application_id = ''uu'', lk_reviewer_id = ''rev'',
     lk_reviewer_name = ''Rev'', lk_acquired_at = 5, lk_expires_at = 5 + seconds 300 \<rparr>"

definition demo5 :: ServiceState where
  "demo5 = demo4\<lparr>sv_locks := [(''uu'', demo_lock)]\<rparr>"

lemma demo5_step: "snd (acquire_lock demo 6 ''uu'' ''rev'' ''Rev'' 5 demo4) = demo5"
  by (simp add: demo5_def demo4_def acquire_lock_def application_def locks_acquire_def
      demo_lock_def LOCK_TTL_SECONDS_def demo_defs)

section \<open>Review and issuance\<close>

definition demo_review :: ReviewRequest where
  "demo_review = \<lparr> rq_application_id = ''uu'', rq_reviewer_id = ''rev'', rq_correlation_id = ''c'',
     rq_approve = True, rq_notes = None, rq_rejection_reason = None \<rparr>"

definition demo_facts :: ApprovalFacts where
  "demo_facts = \<lparr> af_reviewer_id = ''rev'', af_organization_id = ''org'', af_application_id = ''uu'',
     af_status = Submitted, af_risk_score = 0, af_document_verification_passed = True,
     af_biometric_match_score = 100, af_evidence_count = 1, af_applicant_country = ''US'' \<rparr>"

lemma demo5_facts: "review_facts demo demo_review 6 demo5 = (Inr (demo_facts, ''u''), demo5)"
  by (simp add: demo5_def demo4_def review_facts_def demo_review_def application_def
      reviewable_def check_required_evidence_def requirement_checked_def str_field_def
      refresh_matching_def evidence_matches_def evidence_sound_def refresh_expiry_def
      same_case_words approval_facts_def fact_value_def unwrap_or_def
      evidence_for_application_def demo_facts_def with_store_def demo_defs)

definition demo6_app :: Application where
  "demo6_app = demo_app Approved demo_data 6 (Some 4) (Some 6)"

definition demo_event :: ApplicationEvent where
  "demo_event = review_event ''uuuuuuu'' demo_review 6 demo6_app"

definition demo6 :: ServiceState where
  "demo6 = demo_state [demo_person Approved 6] [demo6_app]
     [demo_check] [demo_evidence] [demo_event] [(''uu'', demo_lock)]"

lemma demo6_step:
  "review_commit demo dp 7 demo_review demo_facts ''u'' 6 demo5 = (Inr demo6_app, demo6)"
  by (simp add: demo5_def demo4_def demo6_def review_commit_def application_index_def
      demo_review_def demo_facts_def reviewed_application_def transition_def insert_note_def
      project_applicant_def advance_applicant_projection_def set_status_def put_applicant_def
      put_application_def push_event_def demo_event_def demo6_app_def applicant_new_def commit_def
      with_store_def demo_defs)

definition demo7 :: ServiceState where
  "demo7 = demo_state [demo_person Approved 6] [demo6_app]
     [demo_check] [demo_evidence] [] [(''uu'', demo_lock)]"

lemma demo7_step: "deliver_event dp demo_event demo6 = (Delivered, demo7)"
  by (simp add: deliver_event_def demo6_def demo7_def remove_at_def with_store_def demo_defs)

lemma demo5_review: "review demo dp 7 demo_review 6 demo5 = (Inr demo6_app, demo7)"
proof -
  have lock: "locks_held_by ''uu'' ''rev'' 6 (sv_locks demo5)"
    by (simp add: demo5_def demo_lock_def locks_held_by_def seconds_def)
  have pending: "sd_pending_application_events (sv_store demo6) = [demo_event]"
    by (simp add: demo6_def demo_state_def Let_def)
  have ok: "review_decision dp demo_review demo_facts = Inr ()"
    by (simp add: review_decision_def demo_review_def demo_facts_def demo_providers_def)
  have "rq_application_id demo_review = ''uu''" "rq_reviewer_id demo_review = ''rev''"
    by (simp_all add: demo_review_def)
  then show ?thesis
    using lock by (simp add: review_def demo5_facts ok demo6_step publish_pending_events_def
        pending demo7_step)
qed

definition demo_reserved :: Application where
  "demo_reserved = demo6_app\<lparr>an_system_data := demo_data @
      [(ACTIVE_ATTEMPT, attempt_record demo 8 [] 7 None)], an_updated_at := 7\<rparr>"

definition demo8 :: ServiceState where
  "demo8 = demo_state [demo_person Approved 6] [demo_reserved]
     [demo_check] [demo_evidence] [] [(''uu'', demo_lock)]"

lemma demo8_step:
  "issue_reserve demo dp 8 ''uu'' 6 [] None 7 demo7
     = (Inr (demo_reserved, demo_person Approved 6, 8, []), demo8)"
  by (simp add: demo7_def demo8_def issue_reserve_def application_index_def demo6_app_def
      reopen_credentialed_def applicant_def reserve_none active_attempt_def map_insert_def
      demo_reserved_def put_application_def applicant_new_def commit_def with_store_def
      demo_defs)

lemma demo_reachable:
  "reachable demo demo1" "reachable demo demo2" "reachable demo demo3" "reachable demo demo4"
  "reachable demo demo5" "reachable demo demo6" "reachable demo demo7" "reachable demo demo8"
proof -
  show r1: "reachable demo demo1"
    using reachable_step [OF reachable_init step_upsert] demo1_step by metis
  have fresh: "tp_uuid_show demo 2 \<notin> an_id ` set (sd_applications (sv_store demo1))"
    by (simp add: demo1_def demo_state_def Let_def)
  show r2: "reachable demo demo2"
    using reachable_step [OF r1 step_create [OF fresh]] demo2_step by metis
  show r3: "reachable demo demo3"
    using reachable_step [OF r2 step_upload] demo3_step by metis
  show r4: "reachable demo demo4"
    using reachable_step [OF r3 step_submit] demo4_step by metis
  show r5: "reachable demo demo5"
    using reachable_step [OF r4 step_acquire] demo5_step by metis
  have rv: "reviewable (af_status demo_facts)" by (simp add: reviewable_def demo_facts_def)
  show r6: "reachable demo demo6"
    using reachable_step [OF r5 step_review_commit [OF rv]] demo6_step by (metis snd_conv)
  show r7: "reachable demo demo7"
    using reachable_step [OF r6 step_deliver] demo7_step by (metis snd_conv)
  show "reachable demo demo8"
    using reachable_step [OF r7 step_reserve] demo8_step by (metis snd_conv)
qed

lemma demo8_retry:
  "issue_reserve demo dp fresh ''uu'' (an_updated_at demo_reserved) claims None 8 demo8
    = (Inr (demo_reserved, demo_person Approved 6, 8, []), demo8\<lparr>sv_durable := sv_store demo8\<rparr>)"
proof -
  have active: "active_attempt demo_reserved = Some (attempt_record demo 8 [] 7 None)"
    by (simp add: active_attempt_def demo_reserved_def demo_data_def)
  have fields: "an_applicant_id demo_reserved = ''u''" "an_status demo_reserved = Approved"
    "an_id demo_reserved = ''uu''" "ap_id (demo_person Approved 6) = ''u''"
    by (simp_all add: demo_reserved_def demo6_app_def demo_app_def demo_person_def applicant_new_def)
  have store: "sd_applications (sv_store demo8) = [demo_reserved]"
    "sd_applicants (sv_store demo8) = [demo_person Approved 6]"
    by (simp_all add: demo8_def demo_state_def Let_def)
  show ?thesis
    using reserve_record [OF demo_uuid_text_ok active]
    by (simp add: issue_reserve_def application_index_def store reopen_credentialed_def fields
        applicant_def commit_def demo_providers_def with_store_def put_application_def
        list_update_code)
qed

end
