(* ===== verification/Applicant_Outbox.thy ===== *)
theory Applicant_Outbox
  imports Applicant_Demo "HOL-Library.Sublist"
begin

text \<open>
  The review of an application and its event: who may decide, what is committed together, and
  that an event leaves the queue only after the publisher has accepted it.
\<close>

section \<open>The outbox\<close>

abbreviation pending :: "ServiceState \<Rightarrow> ApplicationEvent list" where
  "pending s \<equiv> sd_pending_application_events (sv_store s)"

text \<open>
  What a run leaves, in closed form: after the first \<open>n\<close> events of the queue have been handled,
  those the publisher refused stay, in their order, before the events not yet reached.
\<close>

definition refused :: "providers \<Rightarrow> ApplicationEvent list \<Rightarrow> ApplicationEvent list" where
  "refused pv evs = filter (\<lambda>ev. pv_publish pv ev \<noteq> Inr ()) evs"

definition rest_of :: "providers \<Rightarrow> nat \<Rightarrow> ApplicationEvent list \<Rightarrow> ApplicationEvent list" where
  "rest_of pv n evs = refused pv (take n evs) @ drop n evs"

definition run_outcome ::
  "providers \<Rightarrow> ProviderError option \<Rightarrow> nat \<Rightarrow> ApplicationEvent list \<Rightarrow> ProviderError + nat" where
  "run_outcome pv first_error delivered evs =
     (case first_error of
        Some e \<Rightarrow> Inl e
      | None \<Rightarrow> (case refused pv evs of
            [] \<Rightarrow> Inr (delivered + length evs)
          | ev # _ \<Rightarrow> Inl (projl (pv_publish pv ev))))"

lemma refused_simps [simp]:
  "refused pv [] = []"
  "pv_publish pv ev = Inr () \<Longrightarrow> refused pv (ev # evs) = refused pv evs"
  "pv_publish pv ev = Inl e \<Longrightarrow> refused pv (ev # evs) = ev # refused pv evs"
  by (simp_all add: refused_def)

lemma refused_length: "length (refused pv evs) \<le> length evs"
  by (simp add: refused_def)

lemma refused_shorter [simp]: "refused pv evs \<noteq> ev # evs" "ev # evs \<noteq> refused pv evs"
  using refused_length [of pv evs] by (metis Suc_n_not_le_n length_Cons)+

lemma rest_of_simps [simp]:
  "rest_of pv 0 evs = evs"
  "pv_publish pv ev = Inr () \<Longrightarrow> rest_of pv (Suc n) (ev # evs) = rest_of pv n evs"
  "pv_publish pv ev = Inl e \<Longrightarrow> rest_of pv (Suc n) (ev # evs) = ev # rest_of pv n evs"
  by (simp_all add: rest_of_def)

lemma rest_of_all: "length evs \<le> n \<Longrightarrow> rest_of pv n evs = refused pv evs"
  by (simp add: rest_of_def)

lemma rest_of_left: "ev \<in> set evs \<Longrightarrow> ev \<notin> set (rest_of pv n evs) \<Longrightarrow> pv_publish pv ev = Inr ()"
proof -
  assume ev: "ev \<in> set evs" and left: "ev \<notin> set (rest_of pv n evs)"
  have "ev \<in> set (take n evs) \<union> set (drop n evs)"
    unfolding set_append [symmetric] append_take_drop_id by (rule ev)
  then show "pv_publish pv ev = Inr ()" using left by (auto simp: rest_of_def refused_def)
qed

abbreviation with_pending :: "ApplicationEvent list \<Rightarrow> StoreDocument \<Rightarrow> StoreDocument" where
  "with_pending evs st \<equiv> st\<lparr>sd_pending_application_events := evs\<rparr>"

lemma position_middle:
  assumes "distinct (map f (kept @ x # xs))"
  shows "position (\<lambda>y. f y = f x) (kept @ x # xs) = Some (length kept)"
  using assms by (induction kept) auto

lemma remove_at_middle [simp]: "remove_at (length kept) (kept @ x # xs) = kept @ xs"
  by (simp add: remove_at_def)

lemma remove_pending:
  "pending s = kept @ ev # evs \<Longrightarrow> sd_pending_application_events_update (remove_at (length kept)) (sv_store s)
     = with_pending (kept @ evs) (sv_store s)"
  by (cases "sv_store s") simp

text \<open>One step over the head of what is left of the snapshot.\<close>

lemma deliver_event_head:
  assumes "pending s = kept @ ev # evs" and "distinct (map ae_event_id (kept @ ev # evs))"
  shows "deliver_event pv ev s =
    (case pv_publish pv ev of
       Inl e \<Rightarrow> (PublishFailed e, s)
     | Inr _ \<Rightarrow>
        (let st = with_pending (kept @ evs) (sv_store s) in
         case pv_persist pv st of
           Inl e \<Rightarrow> (PersistFailed e, persist_failed pv st s)
         | Inr _ \<Rightarrow> (Delivered, s\<lparr>sv_store := st, sv_durable := st\<rparr>)))"
proof -
  have pos: "position (\<lambda>c. ae_event_id c = ae_event_id ev) (pending s) = Some (length kept)"
    unfolding assms(1) by (rule position_middle [OF assms(2)])
  show ?thesis
    unfolding deliver_event_def pos option.case Let_def with_store_simps remove_pending [OF assms(1)]
    by (simp add: with_store_def remove_pending [OF assms(1)] split: sum.split)
qed

text \<open>What a run over \<open>evs\<close>, behind the events \<open>kept\<close> before, has done up to its \<open>n\<close>-th event.\<close>

definition run_upto ::
  "providers \<Rightarrow> ApplicationEvent list \<Rightarrow> ApplicationEvent list \<Rightarrow> (ProviderError + nat)
   \<Rightarrow> ProviderError + nat \<Rightarrow> ServiceState \<Rightarrow> ServiceState \<Rightarrow> nat \<Rightarrow> bool" where
  "run_upto pv kept evs whole r s s' n \<longleftrightarrow>
     n \<le> length evs \<and> sv_locks s' = sv_locks s
   \<and> sv_store s' = with_pending (kept @ rest_of pv n evs) (sv_store s)
   \<and> (let attempted = with_pending (kept @ rest_of pv (Suc n) evs) (sv_store s) in
        (if n < length evs
         then pv_publish pv (evs ! n) = Inr () \<and> (\<exists>e. pv_persist pv attempted = Inl e \<and> r = Inl e)
         else r = whole)
      \<and> sv_durable s' = (if n < length evs \<and> pv_replaced pv attempted then attempted
          else if refused pv (take n evs) = take n evs then sv_durable s else sv_store s'))"

lemma run_upto_refused:
  assumes "run_upto pv (kept @ [ev]) evs whole r s s' n" and "pv_publish pv ev = Inl e"
  shows "run_upto pv kept (ev # evs) whole r s s' (Suc n)"
  using assms by (simp add: run_upto_def Let_def)

lemma run_upto_accepted:
  assumes "run_upto pv kept evs whole r s1 s' n" and "pv_publish pv ev = Inr ()"
    and "s1 = s\<lparr>sv_store := with_pending (kept @ evs) (sv_store s),
                sv_durable := with_pending (kept @ evs) (sv_store s)\<rparr>"
  shows "run_upto pv kept (ev # evs) whole r s s' (Suc n)"
proof -
  have "rest_of pv n evs = evs" if "refused pv (take n evs) = take n evs"
    using that by (simp add: rest_of_def)
  then show ?thesis using assms by (auto simp: run_upto_def Let_def)
qed

lemma deliver_all_exact:
  assumes "deliver_all pv evs m fe s = (r, s')"
    and "pending s = kept @ evs" and "distinct (map ae_event_id (kept @ evs))"
  shows "\<exists>n. run_upto pv kept evs (run_outcome pv fe m evs) r s s' n"
  using assms
proof (induction evs arbitrary: m fe s kept)
  case Nil
  then have "run_upto pv kept [] (run_outcome pv fe m []) r s s' 0"
    by (cases "sv_store s") (auto simp: run_upto_def run_outcome_def Let_def split: option.splits)
  then show ?case ..
next
  case (Cons ev evs)
  note head = deliver_event_head [OF Cons.prems(2,3), of pv]
  show ?case
  proof (cases "pv_publish pv ev")
    case (Inl e)
    have run: "deliver_all pv evs m (Some (unwrap_or e fe)) s = (r, s')"
      using Cons.prems(1) head Inl by simp
    have pre: "pending s = (kept @ [ev]) @ evs" "distinct (map ae_event_id ((kept @ [ev]) @ evs))"
      using Cons.prems(2,3) by simp_all
    have "run_outcome pv (Some (unwrap_or e fe)) m evs = run_outcome pv fe m (ev # evs)"
      using Inl by (simp add: run_outcome_def unwrap_or_def split: option.split)
    then show ?thesis using Cons.IH [OF run pre] run_upto_refused Inl by metis
  next
    case pub: (Inr u)
    let ?st = "with_pending (kept @ evs) (sv_store s)"
    show ?thesis
    proof (cases "pv_persist pv ?st")
      case (Inl e)
      then have "r = Inl e" "s' = persist_failed pv ?st s" using Cons.prems(1) head pub by auto
      then have "run_upto pv kept (ev # evs) (run_outcome pv fe m (ev # evs)) r s s' 0"
        using Inl pub Cons.prems(2) by (cases "sv_store s") (simp add: run_upto_def Let_def)
      then show ?thesis ..
    next
      case (Inr v)
      have run: "deliver_all pv evs (Suc m) fe (s\<lparr>sv_store := ?st, sv_durable := ?st\<rparr>) = (r, s')"
        using Cons.prems(1) head pub Inr by (simp add: Let_def)
      have pre: "pending (s\<lparr>sv_store := ?st, sv_durable := ?st\<rparr>) = kept @ evs"
        "distinct (map ae_event_id (kept @ evs))" using Cons.prems(3) by simp_all
      have "run_outcome pv fe (Suc m) evs = run_outcome pv fe m (ev # evs)"
        using pub by (simp add: run_outcome_def split: option.split list.split)
      moreover have "pv_publish pv ev = Inr ()" using pub by simp
      ultimately show ?thesis using Cons.IH [OF run pre] run_upto_accepted by metis
    qed
  qed
qed

text \<open>The document after the first \<open>n\<close> events of the queue have been handled.\<close>

definition outbox_after :: "providers \<Rightarrow> nat \<Rightarrow> ServiceState \<Rightarrow> StoreDocument" where
  "outbox_after pv n s = with_pending (rest_of pv n (pending s)) (sv_store s)"

lemma outbox_exact:
  assumes "publish_pending_events pv s = (r, s')" and "distinct (map ae_event_id (pending s))"
  obtains n where "run_upto pv [] (pending s) (run_outcome pv None 0 (pending s)) r s s' n"
  using deliver_all_exact [of pv "pending s" 0 None s r s' "[]"] assms
  by (auto simp: publish_pending_events_def)

lemma rest_of_Suc:
  assumes "n < length evs" and "pv_publish pv (evs ! n) = Inr ()"
  shows "subseq (rest_of pv (Suc n) evs) (rest_of pv n evs)"
proof -
  have "rest_of pv (Suc n) evs = refused pv (take n evs) @ drop (Suc n) evs"
    using assms by (simp add: rest_of_def refused_def take_Suc_conv_app_nth)
  moreover have "rest_of pv n evs = refused pv (take n evs) @ evs ! n # drop (Suc n) evs"
    using assms(1) by (simp add: rest_of_def Cons_nth_drop_Suc)
  ultimately show ?thesis
    by (simp add: list_emb_append_mono list_emb_Cons)
qed

text \<open>What a review needs of the run that follows it.\<close>

lemma outbox_delivers:
  assumes "publish_pending_events pv s = (r, s')"
    and "distinct (map ae_event_id (pending s))"
  shows "\<forall>ev \<in> set (pending s) - set (pending s'). pv_publish pv ev = Inr ()"
    and "sv_store s' = with_pending (pending s') (sv_store s)"
    and "sv_durable s = sv_store s \<Longrightarrow>
         \<exists>evs. sv_durable s' = with_pending evs (sv_store s') \<and> subseq evs (pending s')"
proof -
  obtain n where n: "run_upto pv [] (pending s) (run_outcome pv None 0 (pending s)) r s s' n"
    by (rule outbox_exact [OF assms])
  then have st: "sv_store s' = with_pending (rest_of pv n (pending s)) (sv_store s)"
    by (simp add: run_upto_def)
  have p: "pending s' = rest_of pv n (pending s)" unfolding st by simp
  show "\<forall>ev \<in> set (pending s) - set (pending s'). pv_publish pv ev = Inr ()"
    unfolding p by (auto dest: rest_of_left)
  show st': "sv_store s' = with_pending (pending s') (sv_store s)" unfolding p by (rule st)
  have triv: "with_pending (pending x) (sv_store x) = sv_store x" for x by (cases "sv_store x") simp
  assume dur: "sv_durable s = sv_store s"
  consider (cut) "n < length (pending s)" "pv_publish pv (pending s ! n) = Inr ()"
      "sv_durable s' = with_pending (rest_of pv (Suc n) (pending s)) (sv_store s)"
    | (same) "refused pv (take n (pending s)) = take n (pending s)" "sv_durable s' = sv_durable s"
    | (stored) "sv_durable s' = sv_store s'"
    using n by (auto simp: run_upto_def Let_def split: if_splits)
  then show "\<exists>evs. sv_durable s' = with_pending evs (sv_store s') \<and> subseq evs (pending s')"
  proof cases
    case cut
    then have "subseq (rest_of pv (Suc n) (pending s)) (pending s')" by (simp add: p rest_of_Suc)
    then show ?thesis using cut(3) st by auto
  next
    case same
    then have "rest_of pv n (pending s) = pending s" by (simp add: rest_of_def)
    then have "sv_store s' = sv_store s" using st triv [of s] by (simp only:)
    then have "sv_durable s' = with_pending (pending s') (sv_store s')"
      unfolding triv by (simp only: same(2) dur)
    then show ?thesis by blast
  next
    case stored
    then have "sv_durable s' = with_pending (pending s') (sv_store s')" unfolding triv .
    then show ?thesis by blast
  qed
qed

text \<open>C7. A publishing run attempts every event of the queue. Unless the document cannot be
  persisted, the run does not stop at an event the publisher refuses: afterwards exactly the
  refused events are queued, in their order, the rest of the document and the locks are as before,
  and the answer counts the whole queue if nothing was refused and is the error of the first
  refused event otherwise. A run stops early only at an event that the publisher has accepted and
  whose removal could not be persisted; the events before it have been handled as above, this one
  and the later ones stay queued, and the answer is that error. The durable document is the one
  in memory once an event has left the queue; after an early stop whose persist had replaced
  the file it lacks the last accepted event as well. In either case an event that has left the
  queue, in memory or durably, was accepted by the publisher.\<close>

theorem outbox_delivers_at_least_once:
  assumes "publish_pending_events pv s = (r, s')"
    and "distinct (map ae_event_id (pending s))"
  shows "\<exists>n \<le> length (pending s).
      sv_store s' = (sv_store s)\<lparr>sd_pending_application_events :=
          filter (\<lambda>ev. pv_publish pv ev \<noteq> Inr ()) (take n (pending s)) @ drop n (pending s)\<rparr>
    \<and> sv_locks s' = sv_locks s
    \<and> (if n < length (pending s)
       then pv_publish pv (pending s ! n) = Inr ()
          \<and> (\<exists>e. pv_persist pv (outbox_after pv (Suc n) s) = Inl e \<and> r = Inl e)
       else (case filter (\<lambda>ev. pv_publish pv ev \<noteq> Inr ()) (pending s) of
               [] \<Rightarrow> r = Inr (length (pending s))
             | ev # _ \<Rightarrow> (\<exists>e. pv_publish pv ev = Inl e \<and> r = Inl e)))
    \<and> sv_durable s' =
        (if n < length (pending s) \<and> pv_replaced pv (outbox_after pv (Suc n) s)
         then outbox_after pv (Suc n) s
         else if \<forall>ev \<in> set (take n (pending s)). pv_publish pv ev \<noteq> Inr () then sv_durable s
         else sv_store s')"
proof -
  have out: "case filter (\<lambda>ev. pv_publish pv ev \<noteq> Inr ()) (pending s) of
               [] \<Rightarrow> r = Inr (length (pending s))
             | ev # _ \<Rightarrow> (\<exists>e. pv_publish pv ev = Inl e \<and> r = Inl e)"
    if "r = run_outcome pv None 0 (pending s)"
  proof (cases "refused pv (pending s)")
    case (Cons ev evs)
    then have "ev \<in> set (filter (\<lambda>ev. pv_publish pv ev \<noteq> Inr ()) (pending s))"
      by (simp add: refused_def)
    then obtain e where "pv_publish pv ev = Inl e" by (cases "pv_publish pv ev") auto
    then show ?thesis using that Cons by (simp add: run_outcome_def refused_def)
  qed (use that in \<open>simp add: run_outcome_def refused_def\<close>)
  have ref: "refused pv evs = evs \<longleftrightarrow> (\<forall>ev \<in> set evs. pv_publish pv ev \<noteq> Inr ())" for evs
    by (simp add: refused_def filter_id_conv)
  obtain n where "run_upto pv [] (pending s) (run_outcome pv None 0 (pending s)) r s s' n"
    by (rule outbox_exact [OF assms])
  then show ?thesis
    using out
    by (intro exI [of _ n])
      (simp add: run_upto_def Let_def outbox_after_def ref rest_of_def refused_def [symmetric])
qed

definition two_events :: ServiceState where
  "two_events = with_store (with_pending
     [demo_event\<lparr>ae_event_id := ''refused''\<rparr>, demo_event\<lparr>ae_event_id := ''accepted''\<rparr>]) demo6"

definition choosy :: providers where
  "choosy = dp\<lparr>pv_publish := \<lambda>ev. if ae_event_id ev = ''refused'' then Inl (Unavailable ''down'') else Inr ()\<rparr>"

theorem outbox_delivers_at_least_once_witness:
  "fst (publish_pending_events choosy two_events) = Inl (Unavailable ''down'')
   \<and> pending (snd (publish_pending_events choosy two_events)) = [demo_event\<lparr>ae_event_id := ''refused''\<rparr>]
   \<and> sv_durable (snd (publish_pending_events choosy two_events))
       = sv_store (snd (publish_pending_events choosy two_events))"
proof -
  have q: "pending two_events
      = [demo_event\<lparr>ae_event_id := ''refused''\<rparr>, demo_event\<lparr>ae_event_id := ''accepted''\<rparr>]"
    by (simp add: two_events_def)
  have persists: "pv_persist choosy st = Inr ()" for st
    by (simp add: choosy_def demo_providers_def)
  have accepts: "pv_publish choosy ev
      = (if ae_event_id ev = ''refused'' then Inl (Unavailable ''down'') else Inr ())" for ev
    by (simp add: choosy_def)
  obtain r s' where run: "publish_pending_events choosy two_events = (r, s')"
    by (cases "publish_pending_events choosy two_events")
  show ?thesis
    using outbox_delivers_at_least_once [OF run] 
    by (auto simp: q run persists accepts less_Suc_eq split: if_splits)
qed

section \<open>Review\<close>

lemma check_required_evidence_pending:
  "check_required_evidence tp app now s = (r, s') \<Longrightarrow> sd_applications (sv_store s') = sd_applications (sv_store s)
     \<and> pending s' = pending s \<and> sv_durable s' = sv_durable s"
  by (auto simp: check_required_evidence_def split: prod.splits)

lemma review_facts_Inr:
  assumes "review_facts tp rq now s = (Inr (facts, j), s')"
  obtains app where "application (sv_store s) (rq_application_id rq) = Some app"
    "reviewable (an_status app)" "af_status facts = an_status app" "j = an_applicant_id app"
    "af_application_id facts = an_id app" "af_reviewer_id facts = rq_reviewer_id rq"
    "af_organization_id facts = an_organization_id app"
    "sd_applications (sv_store s') = sd_applications (sv_store s)" "pending s' = pending s"
    "rq_approve rq \<Longrightarrow> fst (check_required_evidence tp app now s) = Inr ()"
proof -
  obtain app where app: "application (sv_store s) (rq_application_id rq) = Some app"
    using assms by (auto simp: review_facts_def split: option.splits)
      (cases "application (sv_store s) (rq_application_id rq)"; simp)
  show ?thesis
    using assms app that [OF app]
    by (auto simp: review_facts_def approval_facts_def Let_def try_op_def
        split: if_splits prod.splits sum.splits dest: check_required_evidence_pending)
qed

lemma commit_Inr: "commit pv v s = (Inr w, s') \<longleftrightarrow>
    (\<exists>u. pv_persist pv (sv_store s) = Inr u) \<and> w = v \<and> s' = s\<lparr>sv_durable := sv_store s\<rparr>"
  by (auto simp: commit_def split: sum.splits)

lemma try_op_Inr: "try_op r s k = (Inr w, s') \<longleftrightarrow> (\<exists>x. r = Inr x \<and> k x = (Inr w, s'))"
  by (cases r) auto

lemma review_commit_Inr:
  assumes "review_commit tp pv u rq facts j now s = (Inr app, s')"
  obtains k app0 where "application_index (sv_store s) (rq_application_id rq) = Inr k"
    "app0 = sd_applications (sv_store s) ! k" "an_status app0 = af_status facts"
    "reviewed_application rq now app0 = Inr app"
    "sd_applications (sv_store s') = (sd_applications (sv_store s))[k := app]"
    "pending s' = pending s @ [review_event (tp_uuid_show tp u) rq now app]"
    "sv_durable s' = sv_store s'"
proof -
  have frames: "sd_applications st = sd_applications (sv_store s) \<and>
      sd_pending_application_events st = pending s"
    if "project_applicant f i (sv_store s) = Inr st" for f i st
    using that by (auto simp: project_applicant_def bind_result_Inr split: option.splits)
  obtain k where k: "application_index (sv_store s) (rq_application_id rq) = Inr k"
    using assms by (auto simp: review_commit_def try_op_Inr)
  show ?thesis
    using assms that [OF k refl] frames
    by (auto simp: review_commit_def try_op_Inr commit_Inr k Let_def put_application_def
        push_event_def split: if_splits)
qed

text \<open>C8. A review that reports success was allowed and is recorded with its event. The reviewer
  held the lock; the application was Submitted, UnderReview or PendingInformation; an approval was
  authorized by the policy on facts about this application and this reviewer and had its required
  evidence, a rejection carries a reason. The decision is stored and durable, and its event was
  accepted by the publisher or is still queued.\<close>

theorem review_is_authorized_and_recorded:
  assumes "review tp pv u rq now s = (Inr app, s')"
    and "distinct (map ae_event_id (pending s))"
    and "tp_uuid_show tp u \<notin> ae_event_id ` set (pending s)"
  shows "locks_held_by (rq_application_id rq) (rq_reviewer_id rq) now (sv_locks s)
    \<and> (\<exists>app0. application (sv_store s) (rq_application_id rq) = Some app0
         \<and> an_status app0 \<in> {Submitted, UnderReview, PendingInformation}
         \<and> (rq_approve rq \<longrightarrow> fst (check_required_evidence tp app0 now s) = Inr ()
              \<and> (\<exists>facts. pv_authorize pv facts = Inr () \<and> af_application_id facts = an_id app0
                   \<and> af_reviewer_id facts = rq_reviewer_id rq)))
    \<and> (\<not> rq_approve rq \<longrightarrow> (\<exists>reason. rq_rejection_reason rq = Some reason \<and> reason \<noteq> []))
    \<and> an_status app = (if rq_approve rq then Approved else Rejected)
    \<and> app \<in> set (sd_applications (sv_store s')) \<and> app \<in> set (sd_applications (sv_durable s'))
    \<and> (let ev = review_event (tp_uuid_show tp u) rq now app
       in pv_publish pv ev = Inr () \<or> ev \<in> set (pending s'))"
proof -
  have lock: "locks_held_by (rq_application_id rq) (rq_reviewer_id rq) now (sv_locks s)"
    using assms(1) by (auto simp: review_def split: if_splits)
  obtain facts j s1 where facts: "review_facts tp rq now s = (Inr (facts, j), s1)"
    using assms(1) lock by (auto simp: review_def split: prod.splits sum.splits)
  obtain s2 where dec: "review_decision pv rq facts = Inr ()"
    and com: "review_commit tp pv u rq facts j now s1 = (Inr app, s2)"
    and s': "s' = snd (publish_pending_events pv s2)"
    using assms(1) lock facts by (auto simp: review_def try_op_Inr split: prod.splits sum.splits)
  obtain app0 where app0: "application (sv_store s) (rq_application_id rq) = Some app0"
    "reviewable (an_status app0)" "af_application_id facts = an_id app0"
    "af_reviewer_id facts = rq_reviewer_id rq"
    "rq_approve rq \<Longrightarrow> fst (check_required_evidence tp app0 now s) = Inr ()"
    "sd_applications (sv_store s1) = sd_applications (sv_store s)" "pending s1 = pending s"
    by (rule review_facts_Inr [OF facts]) blast
  obtain k app1 where k: "application_index (sv_store s1) (rq_application_id rq) = Inr k"
    and rev: "reviewed_application rq now app1 = Inr app"
    and apps: "sd_applications (sv_store s2) = (sd_applications (sv_store s1))[k := app]"
    and pend: "pending s2 = pending s1 @ [review_event (tp_uuid_show tp u) rq now app]"
    and dur: "sv_durable s2 = sv_store s2"
    by (rule review_commit_Inr [OF com]) blast
  have "distinct (map ae_event_id (pending s2))"
    using assms(2,3) pend app0(7) by (simp add: review_event_def)
  then have out: "\<forall>ev \<in> set (pending s2) - set (pending s'). pv_publish pv ev = Inr ()"
      "sv_store s' = with_pending (pending s') (sv_store s2)"
      "\<exists>evs. sv_durable s' = with_pending evs (sv_store s')"
    using outbox_delivers [of pv s2 "fst (publish_pending_events pv s2)" s'] dur s' by auto
  have mem: "app \<in> set (sd_applications (sv_store s2))"
    using apps application_index_Inr(1) [OF k] by (simp add: set_update_memI)
  then have mem': "app \<in> set (sd_applications (sv_store s'))"
    using arg_cong [OF out(2), of sd_applications] by simp
  have "\<exists>reason. rq_rejection_reason rq = Some reason \<and> reason \<noteq> []" if "\<not> rq_approve rq"
    using dec that by (auto simp: review_decision_def unwrap_or_def split: if_splits option.splits)
  moreover have "pv_authorize pv facts = Inr ()" if "rq_approve rq"
    using dec that by (simp add: review_decision_def)
  moreover have "an_status app = (if rq_approve rq then Approved else Rejected)"
    using rev by (auto simp: reviewed_application_Inr decision_status_def)
  ultimately show ?thesis
    using lock app0 out(1,3) mem' pend unfolding reviewable_def Let_def by auto
qed

theorem review_is_authorized_and_recorded_witness:
  "review demo dp 7 demo_review 6 demo5 = (Inr demo6_app, demo7)
   \<and> demo6_app \<in> set (sd_applications (sv_durable demo7))"
proof -
  have "pending demo5 = []" by (simp add: demo5_def demo4_def demo_state_def Let_def)
  then show ?thesis
    using review_is_authorized_and_recorded [OF demo5_review] demo5_review by simp
qed

end
