(* ===== verification/Applicant_Guarantees.thy ===== *)
theory Applicant_Guarantees
  imports Applicant_Outbox
begin

text \<open>
  What the operations of the applicant service guarantee when they return: what is durable, what
  a submission, a withdrawal and a claim have checked, who holds a reviewer lock.
\<close>

section \<open>Durability\<close>

text \<open>
  A reported success is durable, or nothing changed. A reported failure is atomic: the durable
  document is the one before, or persisting the whole document in memory has reported the
  failure although the document was in place.
\<close>

definition success_is_durable :: "ServiceState \<Rightarrow> 'a op_result \<Rightarrow> bool" where
  "success_is_durable s0 p \<longleftrightarrow> (\<forall>v. fst p = Inr v \<longrightarrow>
     sv_durable (snd p) = sv_store (snd p)
     \<or> sv_store (snd p) = sv_store s0 \<and> sv_durable (snd p) = sv_durable s0)"

definition failure_is_atomic :: "providers \<Rightarrow> ServiceState \<Rightarrow> 'a op_result \<Rightarrow> bool" where
  "failure_is_atomic pv s0 p \<longleftrightarrow> (\<forall>e. fst p = Inl e \<longrightarrow>
     sv_durable (snd p) = sv_durable s0
     \<or> sv_durable (snd p) = sv_store (snd p) \<and> pv_replaced pv (sv_store (snd p))
       \<and> (\<exists>x. pv_persist pv (sv_store (snd p)) = Inl x \<and> e = Provider x))"

definition honest :: "providers \<Rightarrow> ServiceState \<Rightarrow> 'a op_result \<Rightarrow> bool" where
  "honest pv s0 p \<longleftrightarrow> success_is_durable s0 p \<and> failure_is_atomic pv s0 p"

named_theorems honest_rules \<open>rules for honest operations\<close>

lemma honest_error [honest_rules]: "sv_durable s = sv_durable s0 \<Longrightarrow> honest pv s0 (Inl e, s)"
  by (simp add: honest_def success_is_durable_def failure_is_atomic_def)


lemma honest_try [honest_rules]:
  "sv_durable s = sv_durable s0 \<Longrightarrow> (\<And>x. r = Inr x \<Longrightarrow> honest pv s0 (k x))
     \<Longrightarrow> honest pv s0 (try_op r s k)"
  by (cases r) (auto intro: honest_error)


lemma honest_if [honest_rules]:
  "(b \<Longrightarrow> honest pv s0 p) \<Longrightarrow> (\<not> b \<Longrightarrow> honest pv s0 q) \<Longrightarrow> honest pv s0 (if b then p else q)"
  by simp

lemma honest_option [honest_rules]:
  "(x = None \<Longrightarrow> honest pv s0 p) \<Longrightarrow> (\<And>y. x = Some y \<Longrightarrow> honest pv s0 (f y))
   \<Longrightarrow> honest pv s0 (case x of None \<Rightarrow> p | Some y \<Rightarrow> f y)"
  by (cases x) auto

lemma honest_Let [honest_rules]: "(\<And>x. x = v \<Longrightarrow> honest pv s0 (f x)) \<Longrightarrow> honest pv s0 (let x = v in f x)"
  by (simp add: Let_def)

lemma honest_prod [honest_rules]:
  "(\<And>a b. p = (a, b) \<Longrightarrow> honest pv s0 (f a b)) \<Longrightarrow> honest pv s0 (case p of (a, b) \<Rightarrow> f a b)"
  by (cases p) auto
















lemma issue_blocked_fails: "issue_blocked tp pv i u now s \<noteq> (Inr v, s')"
  by (auto simp: issue_blocked_def try_op_Inr Let_def split: if_splits prod.splits sum.splits)

lemma issue_with_lifetime_Inr:
  assumes "issue_with_lifetime tp pv u i now ttl s = (Inr v, s')"
  obtains snapshot a0 claims app a attempt res s1 offer where
    "issue_snapshot i s = Inr (snapshot, a0)"
    "issue_claims tp pv snapshot a0 ttl now = Inr claims"
    "issue_reserve tp pv u i (an_updated_at snapshot) claims ttl now s = (Inr (app, a, attempt, res), s1)"
    "pv_flow_issue pv app a res attempt = Inr offer"
    "issue_complete tp pv i attempt offer now s1 = (Inr v, s')"
proof -
  obtain snapshot a0 where snap: "issue_snapshot i s = Inr (snapshot, a0)"
    using assms by (auto simp: issue_with_lifetime_def try_op_Inr)
  then obtain claims where cl: "issue_claims tp pv snapshot a0 ttl now = Inr claims"
    using assms by (auto simp: issue_with_lifetime_def try_op_Inr)
  obtain r s1 where rsv: "issue_reserve tp pv u i (an_updated_at snapshot) claims ttl now s = (r, s1)"
    by (cases "issue_reserve tp pv u i (an_updated_at snapshot) claims ttl now s")
  then obtain app a attempt res where r: "r = Inr (app, a, attempt, res)"
    using assms snap cl by (cases r) (auto simp: issue_with_lifetime_def)
  obtain offer where flow: "pv_flow_issue pv app a res attempt = Inr offer"
    using assms snap cl rsv r issue_blocked_fails
    by (cases "pv_flow_issue pv app a res attempt")
      (auto simp: issue_with_lifetime_def split: ProviderError.splits)
  then have "issue_complete tp pv i attempt offer now s1 = (Inr v, s')"
    using assms snap cl rsv r by (simp add: issue_with_lifetime_def)
  then show ?thesis using that snap cl rsv r flow by blast
qed











section \<open>Submission\<close>

text \<open>Evidence that a requirement accepts: active, of the right person, intact and not expired.\<close>

definition acceptable :: "third_party \<Rightarrow> Application \<Rightarrow> string \<Rightarrow> time \<Rightarrow> Evidence \<Rightarrow> bool" where
  "acceptable tp app requirement_id now e =
     (evidence_matches (an_id app) requirement_id e \<and> evidence_sound tp app e
      \<and> (\<forall>x. ev_expires_at e = Some x \<longrightarrow> now < x))"

lemma refresh_expiry_expires [simp]: "ev_expires_at (refresh_expiry now e) = ev_expires_at e"
  by (simp add: refresh_expiry_def)

lemma acceptable_refresh [simp]:
  "acceptable tp app i now (refresh_expiry now e) = acceptable tp app i now e"
  by (auto simp: acceptable_def evidence_sound_def refresh_expiry_active evidence_matches_def)

lemma acceptable_refresh_matching:
  "(\<exists>e \<in> set (refresh_matching a r now es). acceptable tp app i now e)
     = (\<exists>e \<in> set es. acceptable tp app i now e)"
proof -
  have "acceptable tp app i now (if evidence_matches a r e then refresh_expiry now e else e)
      = acceptable tp app i now e" for e by simp
  then show ?thesis by (simp only: refresh_matching_def set_map bex_simps)
qed

lemma sound_after_refresh:
  "list_ex (\<lambda>e. evidence_matches (an_id app) i e \<and> evidence_sound tp app e)
     (refresh_matching (an_id app) i now es) \<longleftrightarrow> (\<exists>e \<in> set es. acceptable tp app i now e)"
proof -
  have "evidence_matches (an_id app) i (if evidence_matches (an_id app) i e then refresh_expiry now e else e)
        \<and> evidence_sound tp app (if evidence_matches (an_id app) i e then refresh_expiry now e else e)
      \<longleftrightarrow> acceptable tp app i now e" for e
    by (auto simp: acceptable_def evidence_sound_def refresh_expiry_active evidence_matches_def)
  then show ?thesis by (simp only: refresh_matching_def list_ex_iff set_map bex_simps)
qed

lemma validate_required_evidence_ok:
  "fst (validate_required_evidence tp app now rs es) = Inr () \<longleftrightarrow>
     (\<forall>q \<in> set rs. requirement_checked q \<longrightarrow>
        (\<exists>e \<in> set es. acceptable tp app (str_field q ''evidence_id'') now e))"
proof (induction rs arbitrary: es)
  case (Cons q rs)
  show ?case
    using Cons [of es] Cons [of "refresh_matching (an_id app) (str_field q ''evidence_id'') now es"]
    by (auto simp: Let_def sound_after_refresh acceptable_refresh_matching)
qed simp

lemma check_required_evidence_ok:
  "fst (check_required_evidence tp app now s) = Inr () \<longleftrightarrow>
     (\<forall>q \<in> set (an_evidence_requirements app). requirement_checked q \<longrightarrow>
        (\<exists>e \<in> set (sd_evidence (sv_store s)). acceptable tp app (str_field q ''evidence_id'') now e))"
  by (simp add: check_required_evidence_def validate_required_evidence_ok split: prod.split)
    (metis fst_conv validate_required_evidence_ok)

lemma project_applicant_frame:
  "project_applicant f i st = Inr st' \<Longrightarrow> sd_applications st' = sd_applications st
     \<and> sd_checks st' = sd_checks st \<and> sd_evidence st' = sd_evidence st"
  by (auto simp: project_applicant_def bind_result_Inr split: option.splits)

lemma put_application_in:
  "application_index st0 i = Inr k \<Longrightarrow> sd_applications st = sd_applications st0
   \<Longrightarrow> app \<in> set (sd_applications (put_application k app st))"
  using application_index_Inr(1) by (simp add: put_application_def set_update_memI)

lemma check_required_evidence_checks:
  "check_required_evidence tp app now s = (r, s') \<Longrightarrow> sd_checks (sv_store s') = sd_checks (sv_store s)"
  by (auto simp: check_required_evidence_def split: prod.splits)

lemma save_checks_has:
  "(specs \<noteq> [] \<or> (\<exists>c \<in> set (sd_checks st). ck_application_id c = i))
   \<Longrightarrow> \<exists>c \<in> set (sd_checks (save_checks tp fresh i now n specs st)). ck_application_id c = i"
proof (induction specs arbitrary: n st)
  case (Cons spec specs)
  let ?c = "check_from_spec tp (fresh n) i spec now"
  have "?c \<in> set (sd_checks (save_check ?c st))"
    by (auto simp: save_check_def replace_or_insert_def set_update_memI split: option.splits
        dest: position_Some)
  then have "\<exists>c \<in> set (sd_checks (save_check ?c st)). ck_application_id c = i"
    by (intro bexI [of _ ?c]) (simp_all add: check_from_spec_def)
  then show ?case using Cons.IH by simp
qed simp

lemma submit_decide_Inr:
  assumes "submit_decide tp pv fresh i template first k app now s = (Inr app', s')"
    and "application_index st0 i = Inr k" and "sd_applications (sv_store s) = sd_applications st0"
  shows "an_status app' = (if automatic_strategy template then Approved else an_status app)"
    and "an_submitted_at app' = an_submitted_at app" and "an_id app' = an_id app"
    and "an_reference_number app' = an_reference_number app"
    and "app' \<in> set (sd_applications (sv_store s'))" and "sv_durable s' = sv_store s'"
    and "\<not> automatic_strategy template \<Longrightarrow> first
      \<Longrightarrow> \<exists>c \<in> set (sd_checks (sv_store s')). ck_application_id c = i"
proof -
  show "an_status app' = (if automatic_strategy template then Approved else an_status app)"
    "an_submitted_at app' = an_submitted_at app" "an_id app' = an_id app"
    "an_reference_number app' = an_reference_number app" "sv_durable s' = sv_store s'"
    using assms(1)
    by (auto simp: submit_decide_def try_op_Inr commit_Inr transition_Inr Let_def split: if_splits)
  show "app' \<in> set (sd_applications (sv_store s'))"
    using assms put_application_in [OF assms(2)]
    by (auto simp: submit_decide_def try_op_Inr commit_Inr transition_Inr Let_def inv_save_checks
        split: if_splits)
  assume manual: "\<not> automatic_strategy template" and first: "first"
  let ?specs = "if at_required_checks template = [] then [default_check] else at_required_checks template"
  have "\<exists>c \<in> set (sd_checks (sv_store (if checks_for_application (sv_store s) i = []
      then with_store (save_checks tp fresh i now 0 ?specs) s else s))). ck_application_id c = i"
  proof (cases "checks_for_application (sv_store s) i = []")
    case True
    then show ?thesis by (simp add: save_checks_has)
  next
    case False
    then have "hd (checks_for_application (sv_store s) i) \<in> set (checks_for_application (sv_store s) i)"
      by (rule hd_in_set)
    then show ?thesis using False by (auto simp: checks_for_application_def)
  qed
  then show "\<exists>c \<in> set (sd_checks (sv_store s')). ck_application_id c = i"
    using assms(1) manual first
    by (auto simp: submit_decide_def commit_Inr Let_def put_application_def split: if_splits)
qed

text \<open>A submission that changes an application was complete: the application was a Draft or
  waiting for information, its form satisfies the template, and every required piece of evidence
  that the service checks is there, active, intact, of this person and not expired. Afterwards it
  is Submitted, or Approved when the template approves automatically, carries the time and a
  reference number, is stored and durable, and a first submission that is reviewed by hand has at
  least one vetting check.\<close>

theorem submission_is_complete:
  assumes "submit tp pv u fresh i now s = (Inr app, s')"
    and "application (sv_store s) i = Some app0" and "an_status app0 \<noteq> Submitted"
  shows "\<exists>template. pv_template pv (an_organization_id app0) (an_application_template_id app0) = Inr template
    \<and> an_status app0 \<in> {Draft, PendingInformation}
    \<and> form_ok tp (an_form_data app0) (at_form_fields template)
    \<and> (\<forall>q \<in> set (an_evidence_requirements app0). requirement_checked q \<longrightarrow>
         (\<exists>e \<in> set (sd_evidence (sv_store s)). acceptable tp app0 (str_field q ''evidence_id'') now e))
    \<and> an_status app = (if automatic_strategy template then Approved else Submitted)
    \<and> an_submitted_at app = Some now \<and> an_reference_number app \<noteq> None \<and> an_id app = i
    \<and> app \<in> set (sd_applications (sv_store s')) \<and> sv_durable s' = sv_store s'
    \<and> (\<not> automatic_strategy template \<and> an_status app0 = Draft
         \<longrightarrow> (\<exists>c \<in> set (sd_checks (sv_store s')). ck_application_id c = i))"
proof -
  obtain template k where tmpl:
      "pv_template pv (an_organization_id app0) (an_application_template_id app0) = Inr template"
    and k: "application_index (sv_store s) i = Inr k"
    using assms(1,2) by (auto simp: submit_def try_op_Inr)
  have app0: "sd_applications (sv_store s) ! k = app0"
    using application_index_Inr(4) [OF k] assms(2) by simp
  obtain c s1 where chk: "check_required_evidence tp app0 now s = (c, s1)"
    by (cases "check_required_evidence tp app0 now s")
  obtain app1 store where ed: "editable (an_status app0)"
    and form: "validate_form_data tp (an_form_data app0) (at_form_fields template) = Inr ()"
    and ok: "c = Inr ()"
    and sub: "submitted_application tp u now app0 = Inr app1"
    and pr: "project_applicant (submit_applicant now) (an_applicant_id app1) (sv_store s1) = Inr store"
    and dec: "submit_decide tp pv fresh i template (an_status app0 = Draft) k app1 now
        (s1\<lparr>sv_store := store\<rparr>) = (Inr app, s')"
    using assms tmpl k app0 chk
    by (auto simp: submit_def try_op_Inr Let_def split: if_splits prod.splits)
  obtain r where app1: "app1 = app0\<lparr>an_status := Submitted, an_submitted_at := Some now,
      an_updated_at := now, an_reference_number := r\<rparr>" and r: "r \<noteq> None"
    using sub by (auto simp: submitted_application_def bind_result_Inr transition_Inr split: option.splits)
  have frame: "sd_applications store = sd_applications (sv_store s)"
    using project_applicant_frame [OF pr] check_required_evidence_pending [OF chk] by simp
  have dec': "sd_applications (sv_store (s1\<lparr>sv_store := store\<rparr>)) = sd_applications (sv_store s)"
    using frame by simp
  note res = submit_decide_Inr [OF dec k dec']
  have ev: "\<forall>q \<in> set (an_evidence_requirements app0). requirement_checked q \<longrightarrow>
      (\<exists>e \<in> set (sd_evidence (sv_store s)). acceptable tp app0 (str_field q ''evidence_id'') now e)"
    using check_required_evidence_ok [of tp app0 now s] chk ok by simp
  have id: "an_id app0 = i" using assms(2) by (rule application_id)
  have checks: "\<not> automatic_strategy template \<and> an_status app0 = Draft
         \<longrightarrow> (\<exists>c \<in> set (sd_checks (sv_store s')). ck_application_id c = i)"
    using res(7) by blast
  show ?thesis
    using tmpl ed form ev res(1-6) app1 r id checks
    by (intro exI [of _ template]) (simp add: validate_form_data_ok editable_def)
qed

theorem submission_is_complete_witness:
  "\<exists>app. submit demo dp 9 (\<lambda>_. 5) ''uu'' 4 demo3 = (Inr app, demo4) \<and> an_status app = Submitted"
proof -
  have app0: "application (sv_store demo3) ''uu'' = Some (demo_app Draft demo_data 2 None None)"
    by (simp add: application_def demo3_def demo_state_def Let_def demo_app_def)
  have ok: "fst (submit demo dp 9 (\<lambda>_. 5) ''uu'' 4 demo3) = Inr (demo_app Submitted demo_data 4 (Some 4) None)"
    by (simp add: demo3_def submit_def submit_decide_def application_def
      application_index_def editable_def validate_form_data_def unknown_field_errors_def
      check_required_evidence_def requirement_checked_def str_field_def refresh_matching_def
      evidence_matches_def evidence_sound_def refresh_expiry_def same_case_words
      submitted_application_def transition_def project_applicant_def submit_applicant_def
      set_status_def put_applicant_def put_application_def automatic_strategy_def
      checks_for_application_def save_check_def replace_or_insert_def
      applicant_new_def commit_def with_store_def demo_defs)
  have run: "submit demo dp 9 (\<lambda>_. 5) ''uu'' 4 demo3 = (Inr (demo_app Submitted demo_data 4 (Some 4) None), demo4)"
    using ok demo4_step by (metis prod.collapse)
  have "an_status (demo_app Draft demo_data 2 None None) \<noteq> Submitted" by (simp add: demo_app_def)
  then obtain template where "pv_template dp ''org'' ''tpl'' = Inr template"
    "an_status (demo_app Submitted demo_data 4 (Some 4) None)
       = (if automatic_strategy template then Approved else Submitted)"
    using submission_is_complete [OF run app0] by (auto simp: demo_app_def)
  then show ?thesis
    using run by (auto simp: demo_providers_def demo_template_def automatic_strategy_def)
qed

section \<open>Withdrawal\<close>

lemma withdraw_application_Inr:
  assumes "withdraw_application pv i reason now authority s = (Inr app, s')"
  obtains k where "application_index (sv_store s) i = Inr k"
    "require_unissued_withdrawal (sd_applications (sv_store s) ! k) = Inr ()"
    "an_status app = Withdrawn" "an_id app = an_id (sd_applications (sv_store s) ! k)"
    "app \<in> set (sd_applications (sv_store s'))" "sv_durable s' = sv_store s'"
proof -
  obtain k where k: "application_index (sv_store s) i = Inr k"
    and free: "require_unissued_withdrawal (sd_applications (sv_store s) ! k) = Inr ()"
    using assms by (auto simp: withdraw_application_def try_op_Inr Let_def)
  let ?app = "sd_applications (sv_store s) ! k"
  obtain st store where st: "withdrawal_status authority (an_status ?app) = Inr st"
    and app: "app = set_system_data ''withdrawal_reason'' (json_opt_str reason)
                 (?app\<lparr>an_status := st, an_updated_at := now\<rparr>)"
    and fr: "sd_applications store = sd_applications (sv_store s)"
    and s': "sv_store s' = put_application k app store" "sv_durable s' = sv_store s'"
    using assms k free
    by (auto simp: withdraw_application_def try_op_Inr commit_Inr Let_def
        dest: project_applicant_frame split: if_splits)
  have "st = Withdrawn"
    using st by (auto simp: withdrawal_status_def transition_Inr split: WithdrawalAuthority.splits)
  then show ?thesis
    using that [OF k free] app s' put_application_in [OF k fr] by simp
qed

text \<open>C6. A withdrawal never hides an issuance. When it succeeds, by the applicant or by the
  organization, the application was not Approved, Offered, Credentialed or Suspended, had no offer
  ready, claimed or expired, was never issued, had no attempt reserved, and none of the eight keys
  that bind it to an issuance held a value; afterwards it is Withdrawn, stored and durable.\<close>

theorem withdrawal_never_hides_an_issuance:
  assumes "withdraw_application pv i reason now authority s = (Inr app, s')"
  shows "\<exists>app0. application (sv_store s) i = Some app0
    \<and> an_status app0 \<notin> {Approved, Offered, Credentialed, Suspended}
    \<and> an_claim_state app0 \<notin> {OfferReady, Claimed, ClaimExpired} \<and> an_issued_at app0 = None
    \<and> \<not> contains_key ACTIVE_ATTEMPT (an_system_data app0)
    \<and> (\<forall>key \<in> {''issuance_transaction_id'', ''last_issuance_attempt_id'', ''flow_instance_id'',
           ''issuance_status'', ''offer_generated_at'', ''offer_expires_at'',
           ''credential_offer_uri'', ''credential_offer_uris''}.
         \<not> binding_present (an_system_data app0) key)
    \<and> an_status app = Withdrawn \<and> an_id app = i
    \<and> app \<in> set (sd_applications (sv_store s')) \<and> sv_durable s' = sv_store s'"
proof -
  obtain k where k: "application_index (sv_store s) i = Inr k"
    and free: "require_unissued_withdrawal (sd_applications (sv_store s) ! k) = Inr ()"
    and res: "an_status app = Withdrawn" "an_id app = an_id (sd_applications (sv_store s) ! k)"
      "app \<in> set (sd_applications (sv_store s'))" "sv_durable s' = sv_store s'"
    by (rule withdraw_application_Inr [OF assms])
  have "\<not> issuance_state (sd_applications (sv_store s) ! k)"
    "\<not> issuance_binding (sd_applications (sv_store s) ! k)"
    using free by (auto simp: require_unissued_withdrawal_def split: if_splits)
  then show ?thesis
    using application_index_Inr [OF k] res
    by (intro exI [of _ "sd_applications (sv_store s) ! k"])
      (simp add: issuance_state_def issuance_binding_def)
qed

theorem withdrawal_never_hides_an_issuance_witness:
  "\<exists>app s'. withdraw_application dp ''uu'' None 5 ByApplicant demo4 = (Inr app, s')
     \<and> an_status app = Withdrawn \<and> sv_durable s' = sv_store s'"
proof -
  obtain app s' where run: "withdraw_application dp ''uu'' None 5 ByApplicant demo4 = (Inr app, s')"
    by (simp add: demo4_def withdraw_application_def application_index_def
      require_unissued_withdrawal_def issuance_state_def issuance_binding_def binding_present_def
      contains_key_def withdrawal_status_def transition_def set_system_data_def map_insert_def
      project_applicant_def withdraw_projection_def applicant_new_def put_applicant_def
      put_application_def commit_def with_store_def demo_defs)
  then show ?thesis using withdrawal_never_hides_an_issuance [OF run] by blast
qed

section \<open>Claiming and issuing\<close>

lemma issue_complete_Inr:
  assumes "issue_complete tp pv i attempt offer now s = (Inr app, s')"
  obtains (repeated) "matches_completed_offer tp app attempt offer" "s' = s"
    "application (sv_store s) i = Some app"
  | (applied) app0 a a' where "application (sv_store s) i = Some app0"
    "apply_offer tp attempt offer now app0 a = Inr (app, a')"
    "app \<in> set (sd_applications (sv_store s'))" "sv_durable s' = sv_store s'"
proof -
  obtain k where k: "application_index (sv_store s) i = Inr k"
    using assms by (auto simp: issue_complete_def try_op_Inr)
  let ?app = "sd_applications (sv_store s) ! k"
  note at = application_index_Inr(4) [OF k]
  show ?thesis
  proof (cases "matches_completed_offer tp ?app attempt offer")
    case True
    then show ?thesis using assms k at by (intro repeated) (auto simp: issue_complete_def Let_def)
  next
    case False
    then obtain j a' where ok: "apply_offer tp attempt offer now ?app (sd_applicants (sv_store s) ! j)
        = Inr (app, a')"
      and s': "sv_store s' = put_applicant j a' (put_application k app (sv_store s))"
        "sv_durable s' = sv_store s'"
      using assms k by (auto simp: issue_complete_def try_op_Inr commit_Inr Let_def)
    show ?thesis
      using applied [OF at ok _ s'(2)] put_application_in [OF k refl, of app] s'(1) by simp
  qed
qed

text \<open>An issuance or a claim that succeeds returns an offer that someone made. Claiming returns
  the stored offer only while it is ready and not expired; otherwise the flow service has answered
  with an offer for the reserved attempt, and the returned application records that attempt as its
  last one, is Offered or Credentialed and has no attempt left. In both cases the template is
  active and belongs to the organization of the application.\<close>

theorem claim_returns_an_offer:
  assumes "claim tp pv u i now s = (Inr app, s')" and "reachable tp s"
    and "application (sv_store s) i = Some app0"
  shows "is_ok (active_template pv (an_organization_id app0) (an_application_template_id app0))
    \<and> ((app = app0 \<and> s' = s \<and> an_claim_state app = OfferReady \<and> stored_offer app
          \<and> offer_still_valid tp now app)
       \<or> (\<exists>attempt offer. (\<exists>a b claims. pv_flow_issue pv a b claims attempt = Inr offer)
            \<and> has_offer offer \<and> an_status app \<in> {Offered, Credentialed}
            \<and> map_of (an_system_data app) LAST_ATTEMPT = Some (JStr (tp_uuid_show tp attempt))
            \<and> map_of (an_system_data app) ACTIVE_ATTEMPT = None))"
proof -
  have tmpl: "is_ok (active_template pv (an_organization_id app0) (an_application_template_id app0))"
    using assms(1,3) by (auto simp: claim_def try_op_Inr)
  show ?thesis
  proof (cases "an_claim_state app0 = OfferReady \<and> stored_offer app0 \<and> offer_still_valid tp now app0")
    case True
    then have "app = app0" "s' = s" using assms(1,3) by (auto simp: claim_def try_op_Inr)
    then show ?thesis using tmpl True by simp
  next
    case False
    then have "issue_with_lifetime tp pv u i now None s = (Inr app, s')"
      using assms(1,3) by (auto simp: claim_def try_op_Inr issue_def)
    then obtain a b claims res attempt s1 offer t where
      rsv: "issue_reserve tp pv u i t claims None now s = (Inr (a, b, attempt, res), s1)"
      and flow: "pv_flow_issue pv a b res attempt = Inr offer"
      and fin: "issue_complete tp pv i attempt offer now s1 = (Inr app, s')"
      by (rule issue_with_lifetime_Inr) blast
    have "leaves (step_ok tp (sv_store s)) (issue_reserve tp pv u i t claims None now s)"
      using reachable_inv [OF assms(2)] by (intro issue_reserve_step) (auto simp: service_inv_def)
    then have inv: "store_inv (sv_store s1)" using rsv by (simp add: leaves_def step_ok_def)
    have "has_offer offer \<and> an_status app \<in> {Offered, Credentialed}
      \<and> map_of (an_system_data app) LAST_ATTEMPT = Some (JStr (tp_uuid_show tp attempt))
      \<and> map_of (an_system_data app) ACTIVE_ATTEMPT = None"
      using fin
    proof (cases rule: issue_complete_Inr)
      case repeated
      then show ?thesis
        by (auto simp: matches_completed_offer_def contains_key_def split: option.splits)
    next
      case (applied app1 a1 a2)
      have "wf_map (an_system_data app1)"
        using inv applied(1) wf_application_of by (auto simp: store_inv_def wf_application_def)
      then show ?thesis
        using apply_offer_lookups(1,2) [OF applied(2)] applied(2) by (simp add: apply_offer_Inr)
    qed
    then show ?thesis using tmpl flow by blast
  qed
qed

lemma demo8_claims: "\<exists>app s'. claim demo dp 9 ''uu'' 8 demo8 = (Inr app, s')"
proof -
  have wf: "wf_map (an_system_data demo_reserved)"
    by (simp add: demo_reserved_def demo_data_def wf_map_def)
  have tmpl: "active_template dp ''org'' ''tpl'' = Inr (demo_template None)"
    by (simp add: active_template_def demo_providers_def demo_template_def same_case_words)
  have active: "active_attempt demo_reserved = Some (attempt_record demo 8 [] 7 None)"
    by (simp add: active_attempt_def demo_reserved_def demo_data_def)
  have fields: "an_organization_id demo_reserved = ''org''" "an_application_template_id demo_reserved = ''tpl''"
    "an_claim_state demo_reserved = NotReady" "an_applicant_id demo_reserved = ''u''"
    "an_status demo_reserved = Approved"
    by (simp_all add: demo_reserved_def demo6_app_def demo_app_def)
  have apps: "sd_applications (sv_store demo8) = [demo_reserved]" "an_id demo_reserved = ''uu''"
    "sd_applicants (sv_store demo8) = [demo_person Approved 6]"
    "ap_id (demo_person Approved 6) = ''u''"
    by (simp_all add: demo8_def demo_state_def Let_def demo_reserved_def demo6_app_def demo_app_def
        demo_person_def applicant_new_def)
  obtain claims where cl: "issue_claims demo dp demo_reserved (demo_person Approved 6) None 8 = Inr claims"
    using matching_lifetime_record [OF active] by (simp add: issue_claims_def fields tmpl)
  obtain app' a' where ap: "apply_offer demo 8 sample_offer 8 demo_reserved (demo_person Approved 6)
      = Inr (app', a')"
    by (simp add: apply_offer_Inr matches_active_attempt_def fields advance_to_offered_def
        offered_step_def is_ok_transition set_status_def transition_def demo_person_def
        applicant_new_def has_offer_def sample_offer_def demo_reserved_def demo_data_def
        attempt_record_def demo6_app_def demo_app_def)
  have "\<not> matches_completed_offer demo demo_reserved 8 sample_offer"
    by (simp add: matches_completed_offer_def fields)
  then have "\<exists>s'. issue_complete demo dp ''uu'' 8 sample_offer 8 (demo8\<lparr>sv_durable := sv_store demo8\<rparr>)
      = (Inr app', s')"
    by (simp add: issue_complete_def application_index_def apps fields ap commit_def
        demo_providers_def)
  then obtain s' where fin: "issue_complete demo dp ''uu'' 8 sample_offer 8
      (demo8\<lparr>sv_durable := sv_store demo8\<rparr>) = (Inr app', s')"
    by blast
  have flow: "pv_flow_issue dp a b c d = Inr sample_offer" for a b c d
    by (simp add: demo_providers_def)
  have snap: "issue_snapshot ''uu'' demo8 = Inr (demo_reserved, demo_person Approved 6)"
    by (simp add: issue_snapshot_def application_def applicant_def apps fields)
  have "issue_with_lifetime demo dp 9 ''uu'' 8 None demo8 = (Inr app', s')"
    unfolding issue_with_lifetime_def snap try_op_simps prod.case cl demo8_retry sum.case flow fin ..
  moreover have "claim demo dp 9 ''uu'' 8 demo8 = issue demo dp 9 ''uu'' 8 demo8"
    unfolding claim_def by (simp add: application_def apps tmpl fields)
  ultimately show ?thesis by (simp add: issue_def)
qed

theorem claim_returns_an_offer_witness:
  "\<exists>app s'. claim demo dp 9 ''uu'' 8 demo8 = (Inr app, s') \<and> an_status app \<in> {Offered, Credentialed}"
proof -
  obtain app s' where run: "claim demo dp 9 ''uu'' 8 demo8 = (Inr app, s')"
    using demo8_claims by blast
  have look: "application (sv_store demo8) ''uu'' = Some demo_reserved"
    by (simp add: application_def demo8_def demo_state_def Let_def demo_reserved_def demo6_app_def demo_app_def)
  have "an_claim_state demo_reserved \<noteq> OfferReady"
    by (simp add: demo_reserved_def demo6_app_def demo_app_def)
  then have "an_status app \<in> {Offered, Credentialed}"
    using claim_returns_an_offer [OF run demo_reachable(8) look] by auto
  then show ?thesis using run by blast
qed

section \<open>A failed upload\<close>

text \<open>C29. An upload that is refused for its content still supersedes: when the checks on the
  application pass but the content, the size or the file name is refused, the service returns the
  error, and in memory the evidence that was active for this requirement is now revoked, while the
  persisted document still has it active. The applicant's earlier good evidence is lost to the
  running service, and the next successful write makes the loss durable.\<close>

theorem refused_upload_revokes_earlier_evidence:
  assumes "upload_guard (sv_store s) input = Inr ()"
    and "from_upload tp (tp_uuid_show tp u) input m now = Inl err"
    and "e \<in> set (sd_evidence (sv_store s))"
    and "evidence_matches (up_application_id input) (up_evidence_requirement_id input) e"
    and "ev_status e = EvActive"
  shows "\<exists>s'. upload_evidence tp pv u input m now s = (Inl (Domain err), s')
    \<and> supersede now e \<in> set (sd_evidence (sv_store s'))
    \<and> ev_status (supersede now e) = EvRevoked
    \<and> (\<forall>d \<in> set (sd_evidence (sv_store s')). ev_status d = EvActive \<longrightarrow>
         \<not> evidence_matches (up_application_id input) (up_evidence_requirement_id input) d)
    \<and> sv_durable s' = sv_durable s"
proof -
  let ?st = "supersede_matching (up_application_id input) (up_evidence_requirement_id input) now (sv_store s)"
  have "supersede now e \<in> set (sd_evidence ?st)"
    using assms(3-5) by (force simp: supersede_matching_def)
  moreover have "\<not> evidence_matches (up_application_id input) (up_evidence_requirement_id input) d"
    if "d \<in> set (sd_evidence ?st)" "ev_status d = EvActive" for d
    using supersede_matching_none [OF that] by (simp add: evidence_matches_key)
  moreover have "upload_evidence tp pv u input m now s = (Inl (Domain err),
      with_store (supersede_matching (up_application_id input) (up_evidence_requirement_id input) now) s)"
    by (simp add: upload_evidence_def assms(1,2) Let_def)
  ultimately show ?thesis by auto
qed

theorem refused_upload_revokes_earlier_evidence_witness:
  "\<exists>s'. upload_evidence demo dp 9 (demo_upload\<lparr>up_content_base64 := []\<rparr>) 1000 5 demo3
          = (Inl (Domain (EvidenceSize 1000)), s')
     \<and> supersede 5 demo_evidence \<in> set (sd_evidence (sv_store s'))
     \<and> sv_durable s' = sv_durable demo3"
proof -
  let ?input = "demo_upload\<lparr>up_content_base64 := []\<rparr>"
  have guard: "upload_guard (sv_store demo3) ?input = Inr ()"
    by (simp add: demo3_def upload_guard_def application_def editable_def requirement_named_def
        str_field_def demo_defs)
  have err: "from_upload demo (tp_uuid_show demo 9) ?input 1000 5 = Inl (EvidenceSize 1000)"
    by (simp add: from_upload_def demo_def MAX_EVIDENCE_BYTES_def)
  have e: "demo_evidence \<in> set (sd_evidence (sv_store demo3))"
    "evidence_matches (up_application_id ?input) (up_evidence_requirement_id ?input) demo_evidence"
    "ev_status demo_evidence = EvActive"
    by (simp_all add: demo3_def evidence_matches_def demo_defs)
  show ?thesis
    using refused_upload_revokes_earlier_evidence [OF guard err e, of dp] by blast
qed

end
