(* ===== verification/Applicant_Properties.thy ===== *)
theory Applicant_Properties
  imports Applicant_Guarantees
begin

text \<open>
  The properties of the applicant service: safety of every reachable state under every
  interleaving, final statuses, stability of reserved attempts, exclusive reviewer locks, the
  conditions under which a review, a submission, a withdrawal and an issuance succeed, and what
  is durable when an operation reports success.
\<close>

section \<open>Every reachable state\<close>

text \<open>C1. In every reachable state of the service, under any interleaving of requests and any
  answers and failures of the providers, an application that is Approved, Offered or Credentialed
  was submitted and reviewed, an issuance transaction is bound only to an application that was
  offered, and a reserved attempt belongs only to one that was approved.\<close>

theorem issued_applications_were_reviewed:
  assumes "reachable tp s" and "application (sv_store s) i = Some app"
  shows "(an_status app \<in> {Approved, Offered, Credentialed}
            \<longrightarrow> an_submitted_at app \<noteq> None \<and> an_reviewed_at app \<noteq> None)
    \<and> (Option.bind (map_of (an_system_data app) ''issuance_transaction_id'') as_str \<noteq> None
            \<longrightarrow> an_status app \<in> {Offered, Credentialed, Withdrawn})
    \<and> (contains_key ACTIVE_ATTEMPT (an_system_data app)
            \<longrightarrow> an_status app \<in> {Approved, Offered, Credentialed})"
proof -
  have safe: "app_safe app" by (rule reachable_app_safe [OF assms])
  show ?thesis
    using safe unfolding app_safe_def bound_transaction_def active_attempt_def contains_key_def
    by (cases "an_status app") simp_all
qed

lemma demo_lookup:
  "application (sv_store demo6) ''uu'' = Some demo6_app"
  "application (sv_store demo7) ''uu'' = Some demo6_app"
  "application (sv_store demo8) ''uu'' = Some demo_reserved"
  by (simp_all add: application_def demo6_def demo7_def demo8_def demo_state_def Let_def
      demo6_app_def demo_app_def demo_reserved_def)

lemma demo_statuses [simp]: "an_status demo6_app = Approved" "an_status demo_reserved = Approved"
  by (simp_all add: demo6_app_def demo_app_def demo_reserved_def)

theorem issued_applications_were_reviewed_witness:
  "an_submitted_at demo_reserved \<noteq> None \<and> an_reviewed_at demo_reserved \<noteq> None"
  using issued_applications_were_reviewed [OF demo_reachable(8) demo_lookup(3)] by simp

text \<open>C2. In every reachable state a person has at most one live application for a credential
  template: two stored applications with the same applicant and the same credential template that
  are both neither Rejected nor Withdrawn nor Suspended are the same application.\<close>

theorem one_live_application:
  assumes "reachable tp s"
    and "a \<in> set (sd_applications (sv_store s))" and "b \<in> set (sd_applications (sv_store s))"
    and "an_applicant_id a = an_applicant_id b"
    and "an_credential_template_id a = an_credential_template_id b"
    and "an_status a \<notin> {Rejected, Withdrawn, Suspended}"
    and "an_status b \<notin> {Rejected, Withdrawn, Suspended}"
  shows "a = b"
proof -
  have "distinct (map live_key (filter live (sd_applications (sv_store s))))"
    using reachable_store_inv [OF assms(1)] by (simp add: store_inv_def)
  then have "inj_on live_key (set (filter live (sd_applications (sv_store s))))"
    by (simp add: distinct_map)
  then show ?thesis
    using assms(2-) by (auto simp: inj_on_def live_key_def live_def dead_status_def)
qed

theorem one_live_application_witness:
  "reachable demo demo8 \<and> demo_reserved = hd (sd_applications (sv_store demo8))"
proof -
  have apps: "sd_applications (sv_store demo8) = [demo_reserved]"
    by (simp add: demo8_def demo_state_def Let_def)
  have "an_status demo_reserved = Approved"
    by (simp add: demo_reserved_def demo6_app_def demo_app_def)
  then show ?thesis
    using one_live_application [OF demo_reachable(8),
        of demo_reserved "hd (sd_applications (sv_store demo8))"] demo_reachable(8)
    by (simp add: apps)
qed

text \<open>C3. In every reachable state an application has at most one active piece of evidence for a
  requirement, also while an upload supersedes an earlier one.\<close>

theorem one_active_evidence:
  assumes "reachable tp s"
    and "i < length (sd_evidence (sv_store s))" and "j < length (sd_evidence (sv_store s))"
    and "ev_status (sd_evidence (sv_store s) ! i) = EvActive"
    and "ev_status (sd_evidence (sv_store s) ! j) = EvActive"
    and "ev_application_id (sd_evidence (sv_store s) ! i) = ev_application_id (sd_evidence (sv_store s) ! j)"
    and "ev_evidence_requirement_id (sd_evidence (sv_store s) ! i)
           = ev_evidence_requirement_id (sd_evidence (sv_store s) ! j)"
  shows "i = j"
proof -
  let ?es = "sd_evidence (sv_store s)"
  have inv: "store_inv (sv_store s)" by (rule reachable_store_inv [OF assms(1)])
  then have "inj_on evidence_key (set (filter (\<lambda>e. ev_status e = EvActive) ?es))"
    by (simp add: store_inv_def one_active_def distinct_map)
  then have "?es ! i = ?es ! j"
    using assms(2-) by (auto simp: inj_on_def evidence_key_def)
  moreover have "distinct ?es"
    using inv by (auto simp: store_inv_def wf_store_def distinct_map)
  ultimately show ?thesis using assms(2,3) by (simp add: nth_eq_iff_index_eq)
qed

theorem one_active_evidence_witness:
  "ev_status (sd_evidence (sv_store demo8) ! 0) = EvActive
   \<and> (0::nat) = length (sd_evidence (sv_store demo8)) - 1"
proof -
  have es: "sd_evidence (sv_store demo8) = [demo_evidence]"
    by (simp add: demo8_def demo_state_def Let_def)
  have "ev_status demo_evidence = EvActive" by (simp add: demo_evidence_def)
  then show ?thesis
    using one_active_evidence [OF demo_reachable(8), of 0 "length (sd_evidence (sv_store demo8)) - 1"]
    by (simp add: es)
qed

section \<open>Steps and runs\<close>

lemma find_distinct:
  assumes "distinct (map key xs)"
  shows "find (\<lambda>x. key x = k) xs = Some x \<longleftrightarrow> x \<in> set xs \<and> key x = k"
  using assms
proof (induction xs)
  case (Cons y ys)
  then show ?case by (force simp: image_iff)
qed simp

lemma application_in_set:
  "wf_store st \<Longrightarrow> application st i = Some app \<longleftrightarrow> app \<in> set (sd_applications st) \<and> an_id app = i"
  by (simp add: application_def wf_store_def find_distinct)

lemma step_application:
  assumes "service_inv s" and "service_step tp s s'" and "application (sv_store s) i = Some app"
  shows "\<exists>app'. application (sv_store s') i = Some app' \<and> (app' = app \<or> app_move tp app app')"
proof -
  let ?xs = "sd_applications (sv_store s)" and ?ys = "sd_applications (sv_store s')"
  have wf: "wf_store (sv_store s)" "wf_store (sv_store s')"
    using assms(1) service_inv_step [OF assms(2,1)] by (auto simp: service_inv_def store_inv_def)
  have app: "app \<in> set ?xs" "an_id app = i"
    using assms(3) application_in_set [OF wf(1)] by auto
  obtain k where k: "k < length ?xs" "?xs ! k = app" using app(1) by (auto simp: in_set_conv_nth)
  have "apps_step tp ?xs ?ys"
    using service_step_ok [OF assms(2,1)] by (simp add: step_ok_def)
  then consider "?ys = ?xs" | j a where "j < length ?xs" "?ys = ?xs[j := a]" "app_move tp (?xs ! j) a"
    | a where "?ys = ?xs @ [a]"
    by (auto simp: apps_step_def)
  then have "\<exists>app' \<in> set ?ys. an_id app' = i \<and> (app' = app \<or> app_move tp app app')"
  proof cases
    case 2
    show ?thesis
    proof (cases "j = k")
      case True
      then have "a \<in> set ?ys" using 2 by (simp add: set_update_memI)
      moreover have "an_id a = i" using 2(3) True k(2) app(2) by (simp add: app_move_def same_case_def)
      ultimately show ?thesis using 2(3) True k(2) by auto
    next
      case False
      then have "?ys ! k = app" using 2(2) k by simp
      then have "app \<in> set ?ys" using 2(2) k(1) by (metis length_list_update nth_mem)
      then show ?thesis using app(2) by auto
    qed
  qed (use app in auto)
  then show ?thesis using application_in_set [OF wf(2)] by auto
qed



lemma steps_reachable: "reachable tp s \<Longrightarrow> (service_step tp)\<^sup>*\<^sup>* s s' \<Longrightarrow> reachable tp s'"
  unfolding reachable_def by (rule rtranclp_trans)

text \<open>C5. The ends are final, whatever requests follow: an application that is Rejected, Withdrawn
  or Suspended keeps its status, except that a Rejected one may become Withdrawn (by the
  organization) and then stays so; none is ever approved, offered or issued.\<close>

theorem ended_applications_stay_ended:
  assumes "reachable tp s" and "(service_step tp)\<^sup>*\<^sup>* s s'"
    and "application (sv_store s) i = Some app"
    and "an_status app \<in> {Rejected, Withdrawn, Suspended}"
  shows "\<exists>app'. application (sv_store s') i = Some app'
    \<and> (an_status app' = an_status app \<or> an_status app = Rejected \<and> an_status app' = Withdrawn)"
  using assms(2)
proof (induction rule: rtranclp_induct)
  case base
  then show ?case using assms(3,4) by blast
next
  case (step s1 s2)
  then obtain app1 where app1: "application (sv_store s1) i = Some app1"
    "an_status app1 = an_status app \<or> an_status app = Rejected \<and> an_status app1 = Withdrawn"
    by blast
  have "service_inv s1" by (rule reachable_inv [OF steps_reachable [OF assms(1) step(1)]])
  then obtain app2 where "application (sv_store s2) i = Some app2"
    "app2 = app1 \<or> app_move tp app1 app2"
    using step_application step(2) app1(1) by blast
  then show ?case using app1(2) assms(4) by (auto simp: app_move_def)
qed

definition demo_withdrawn :: ServiceState where
  "demo_withdrawn = snd (withdraw_application dp ''uu'' None 5 ByApplicant demo4)"

lemma demo_withdrawn_lookup:
  "\<exists>app. application (sv_store demo_withdrawn) ''uu'' = Some app \<and> an_status app = Withdrawn"
  by (simp add: demo_withdrawn_def demo4_def withdraw_application_def application_index_def
      require_unissued_withdrawal_def issuance_state_def issuance_binding_def binding_present_def
      contains_key_def withdrawal_status_def transition_def set_system_data_def map_insert_def
      project_applicant_def withdraw_projection_def applicant_new_def put_applicant_def
      put_application_def application_def commit_def with_store_def demo_defs)

theorem ended_applications_stay_ended_witness:
  "\<exists>app. application (sv_store (snd (submit demo dp 1 (\<lambda>_. 2) ''uu'' 6 demo_withdrawn))) ''uu'' = Some app
     \<and> an_status app = Withdrawn"
proof -
  obtain app where app: "application (sv_store demo_withdrawn) ''uu'' = Some app" "an_status app = Withdrawn"
    using demo_withdrawn_lookup by blast
  have "reachable demo demo_withdrawn"
    unfolding demo_withdrawn_def by (rule reachable_step [OF demo_reachable(4) step_withdraw])
  moreover have "service_step demo demo_withdrawn (snd (submit demo dp 1 (\<lambda>_. 2) ''uu'' 6 demo_withdrawn))"
    by (rule step_submit)
  ultimately show ?thesis
    using ended_applications_stay_ended [OF _ r_into_rtranclp [of "service_step demo"] app(1)] app(2)
    by auto
qed

section \<open>Reserved attempts\<close>

text \<open>C17. A reserved issuance attempt is stable under every interleaving: while it is active no
  step replaces it, changes its claims or drops it, except the completion that records this very
  attempt as the last one, sets the status Offered and makes the offer claimable.\<close>

theorem reserved_attempt_is_stable:
  assumes "reachable tp s" and "service_step tp s s'"
    and "application (sv_store s) i = Some app"
    and "map_of (an_system_data app) ACTIVE_ATTEMPT = Some attempt"
  shows "\<exists>app'. application (sv_store s') i = Some app'
    \<and> (map_of (an_system_data app') ACTIVE_ATTEMPT = Some attempt
       \<or> (map_of (an_system_data app') ACTIVE_ATTEMPT = None
          \<and> an_status app' = Offered \<and> an_claim_state app' = OfferReady
          \<and> (\<exists>u. matches_active_attempt tp app u
                \<and> map_of (an_system_data app') LAST_ATTEMPT = Some (JStr (tp_uuid_show tp u)))))"
proof -
  obtain app' where "application (sv_store s') i = Some app'" "app' = app \<or> app_move tp app app'"
    using step_application [OF reachable_inv [OF assms(1)] assms(2,3)] by blast
  then show ?thesis
    using assms(4) by (auto simp: app_move_def attempt_move_def active_attempt_def)
qed

theorem reserved_attempt_is_stable_witness:
  "\<exists>app'. application (sv_store (snd (start_check dp ''uu'' ''none'' 8 demo8))) ''uu'' = Some app'
     \<and> (map_of (an_system_data app') ACTIVE_ATTEMPT = Some (attempt_record demo 8 [] 7 None)
        \<or> an_status app' = Offered)"
proof -
  have "map_of (an_system_data demo_reserved) ACTIVE_ATTEMPT = Some (attempt_record demo 8 [] 7 None)"
    by (simp add: demo_reserved_def demo_data_def)
  then show ?thesis
    using reserved_attempt_is_stable [OF demo_reachable(8) step_start_check demo_lookup(3)] by blast
qed

lemma reserve_retries:
  assumes "uuid_text_ok tp"
    and "application (sv_store s) i = Some app0"
    and "active_attempt app0 = Some (attempt_record tp attempt claims t ttl)"
    and "issue_reserve tp pv fresh i snapshot claims' ttl' now s = (Inr (app, a, attempt', reserved), s')"
  shows "attempt' = attempt \<and> reserved = claims \<and> ttl' = ttl \<and> active_attempt app = active_attempt app0"
proof -
  obtain k where k: "application_index (sv_store s) i = Inr k"
    using assms(4) by (cases "application_index (sv_store s) i") (auto simp: issue_reserve_def)
  have app0: "sd_applications (sv_store s) ! k = app0"
    using application_index_Inr(4) [OF k] assms(2) by simp
  have active: "active_attempt (reopen_credentialed app0) = Some (attempt_record tp attempt claims t ttl)"
    using assms(3) reopen_facts(1) [of app0] by (simp add: same_record_def same_data_def)
  have res: "reserve_attempt_with_lifetime tp fresh claims' now ttl' (reopen_credentialed app0)
      = Inr ((attempt', reserved), app)"
    using assms(4) by (auto simp: issue_reserve_def k app0 Let_def try_op_def commit_def
        split: if_splits sum.splits prod.splits)
  have ttl: "ttl' = ttl"
    using res matching_lifetime_record [OF active, of ttl']
    by (auto simp: reserve_attempt_with_lifetime_def split: if_splits)
  then show ?thesis
    using res reserve_record [OF assms(1) active] active assms(3) by auto
qed

text \<open>The sections around the call of the flow service do not look at it.\<close>

lemma commit_flow: "commit (pv\<lparr>pv_flow_issue := flow\<rparr>) = commit pv"
  by (intro ext) (simp add: commit_def persist_failed_def cong: sum.case_cong)

lemma flow_only_in_issue:
  "issue_claims tp (pv\<lparr>pv_flow_issue := flow\<rparr>) app a ttl now = issue_claims tp pv app a ttl now"
  "issue_reserve tp (pv\<lparr>pv_flow_issue := flow\<rparr>) u i t claims ttl now s
     = issue_reserve tp pv u i t claims ttl now s"
  "issue_complete tp (pv\<lparr>pv_flow_issue := flow\<rparr>) i attempt offer now s
     = issue_complete tp pv i attempt offer now s"
  "issue_blocked tp (pv\<lparr>pv_flow_issue := flow\<rparr>) i attempt now s
     = issue_blocked tp pv i attempt now s"
proof -
  have tem: "active_template (pv\<lparr>pv_flow_issue := flow\<rparr>) = active_template pv"
    by (intro ext) (simp add: active_template_def)
  show "issue_claims tp (pv\<lparr>pv_flow_issue := flow\<rparr>) app a ttl now = issue_claims tp pv app a ttl now"
    unfolding issue_claims_def tem by (simp cong: option.case_cong if_cong)
  show "issue_reserve tp (pv\<lparr>pv_flow_issue := flow\<rparr>) u i t claims ttl now s
      = issue_reserve tp pv u i t claims ttl now s"
    unfolding issue_reserve_def commit_flow ..
  show "issue_complete tp (pv\<lparr>pv_flow_issue := flow\<rparr>) i attempt offer now s
      = issue_complete tp pv i attempt offer now s"
    unfolding issue_complete_def commit_flow ..
  show "issue_blocked tp (pv\<lparr>pv_flow_issue := flow\<rparr>) i attempt now s
      = issue_blocked tp pv i attempt now s"
    unfolding issue_blocked_def commit_flow ..
qed

text \<open>C26. A retried issuance hands the flow service the idempotency key and the claims of the
  attempt it retries, and nothing else: while an application holds the record of an attempt, the
  result and the state of an issuance depend on the flow service only through its answers to that
  attempt with its reserved claims, whatever fresh identifier the retry brings and whatever claims
  it would build; an issuance that returns an application has asked with exactly these, on the
  application that holds the attempt, and was accepted; a retry with another offer lifetime
  fails.\<close>

theorem retry_reuses_the_attempt:
  assumes "uuid_text_ok tp"
    and "application (sv_store s) i = Some app0"
    and "active_attempt app0 = Some (attempt_record tp attempt claims t ttl)"
    and "\<forall>app a. flow app a claims attempt = pv_flow_issue pv app a claims attempt"
  shows "issue_with_lifetime tp (pv\<lparr>pv_flow_issue := flow\<rparr>) fresh i now ttl' s
      = issue_with_lifetime tp pv fresh i now ttl' s
    \<and> (\<forall>v. fst (issue_with_lifetime tp pv fresh i now ttl' s) = Inr v \<longrightarrow>
         ttl' = ttl
         \<and> (\<exists>app a offer. pv_flow_issue pv app a claims attempt = Inr offer
              \<and> active_attempt app = active_attempt app0))"
proof -
  note retries = reserve_retries [OF assms(1-3)]
  have step:
    "(case pv_flow_issue (pv\<lparr>pv_flow_issue := flow\<rparr>) app a res u of
        Inr offer \<Rightarrow> issue_complete tp pv i u offer now s1
      | Inl e \<Rightarrow>
          (case e of
             ProviderNoActiveFlow \<Rightarrow> issue_blocked tp pv i u now s1
           | _ \<Rightarrow> (Inl (Provider e), s1)))
     = (case pv_flow_issue pv app a res u of
        Inr offer \<Rightarrow> issue_complete tp pv i u offer now s1
      | Inl e \<Rightarrow>
          (case e of
             ProviderNoActiveFlow \<Rightarrow> issue_blocked tp pv i u now s1
           | _ \<Rightarrow> (Inl (Provider e), s1)))"
    if "issue_reserve tp pv fresh i at0 cl ttl' now s = (Inr (app, a, u, res), s1)"
    for app a u res s1 at0 cl
    using retries [OF that] assms(4) by simp
  have same: "issue_with_lifetime tp (pv\<lparr>pv_flow_issue := flow\<rparr>) fresh i now ttl' s
      = issue_with_lifetime tp pv fresh i now ttl' s"
    unfolding issue_with_lifetime_def flow_only_in_issue try_op_def
    using step by (auto split: sum.split prod.split)
  have asked: "ttl' = ttl \<and> (\<exists>app a offer. pv_flow_issue pv app a claims attempt = Inr offer
              \<and> active_attempt app = active_attempt app0)"
    if "fst (issue_with_lifetime tp pv fresh i now ttl' s) = Inr v" for v
  proof -
    have "issue_with_lifetime tp pv fresh i now ttl' s
        = (Inr v, snd (issue_with_lifetime tp pv fresh i now ttl' s))"
      using that by (simp add: prod_eq_iff)
    then obtain t0 cl app a u res s1 offer where
      "issue_reserve tp pv fresh i t0 cl ttl' now s = (Inr (app, a, u, res), s1)"
      "pv_flow_issue pv app a res u = Inr offer"
      by (rule issue_with_lifetime_Inr) blast
    then show ?thesis using retries by blast
  qed
  show ?thesis using same asked by blast
qed

text \<open>The flow service of the witness refuses everything but the reserved attempt.\<close>

definition strict_flow ::
  "Application \<Rightarrow> Applicant \<Rightarrow> jmap \<Rightarrow> uuid \<Rightarrow> ProviderError + IssuanceOffer" where
  "strict_flow app a claims attempt =
     (if claims = [] \<and> attempt = 8 then Inr sample_offer else Inl (Denied ''other''))"

lemma demo8_issue: "\<exists>v s'. issue_with_lifetime demo dp 99 ''uu'' 8 None demo8 = (Inr v, s')"
proof -
  have store: "sd_applications (sv_store demo8) = [demo_reserved]"
    "sd_applicants (sv_store demo8) = [demo_person Approved 6]"
    by (simp_all add: demo8_def demo_state_def Let_def)
  have app: "an_applicant_id demo_reserved = ''u''" "an_id demo_reserved = ''uu''"
    "an_organization_id demo_reserved = ''org''" "an_application_template_id demo_reserved = ''tpl''"
    "map_of (an_system_data demo_reserved) LAST_ATTEMPT = None"
    "map_of (an_system_data demo_reserved) ACTIVE_ATTEMPT = Some (attempt_record demo 8 [] 7 None)"
    "ap_id (demo_person Approved 6) = ''u''"
    by (simp_all add: demo_reserved_def demo6_app_def demo_app_def demo_person_def applicant_new_def
        demo_data_def)
  have person: "ap_status (demo_person Approved 6) = Approved" by (simp add: demo_person_def)
  have snap: "issue_snapshot ''uu'' demo8 = Inr (demo_reserved, demo_person Approved 6)"
    by (simp add: issue_snapshot_def demo_lookup applicant_def store app)
  have template: "active_template dp ''org'' ''tpl'' = Inr (demo_template None)"
    by (simp add: active_template_def demo_providers_def demo_template_def same_case_words)
  have "has_matching_reserved_lifetime demo_reserved None = Inr True"
    using matching_lifetime_record [of demo_reserved] by (simp add: active_attempt_def app)
  then obtain cl where cl: "issue_claims demo dp demo_reserved (demo_person Approved 6) None 8 = Inr cl"
    by (simp add: issue_claims_def app template)
  have offered: "advance_to_offered 8 (demo_person Approved 6)
      = Inr ((demo_person Approved 6)\<lparr>ap_status := Offered, ap_updated_at := 8\<rparr>)"
    by (simp add: advance_to_offered_def offered_step_def is_ok_transition set_status_def
        transition_def person)
  obtain app' a' where applied: "apply_offer demo 8 sample_offer 8 demo_reserved (demo_person Approved 6)
      = Inr (app', a')"
    using offered
    by (simp add: apply_offer_Inr sample_offer_def has_offer_def matches_active_attempt_def
        attempt_record_def app)
  have "\<exists>v s'. issue_complete demo dp ''uu'' 8 sample_offer 8 (demo8\<lparr>sv_durable := sv_store demo8\<rparr>)
      = (Inr v, s')"
    using applied
    by (simp add: issue_complete_def application_index_def store app matches_completed_offer_def
        commit_def demo_providers_def)
  then show ?thesis
    using cl demo8_retry [of 99 cl]
    by (simp add: issue_with_lifetime_def snap demo_providers_def)
qed

theorem retry_reuses_the_attempt_witness:
  "\<exists>v. fst (issue_with_lifetime demo (dp\<lparr>pv_flow_issue := strict_flow\<rparr>) 99 ''uu'' 8 None demo8) = Inr v"
proof -
  have "active_attempt demo_reserved = Some (attempt_record demo 8 [] 7 None)"
    by (simp add: active_attempt_def demo_reserved_def demo_data_def)
  moreover have "strict_flow app a [] 8 = pv_flow_issue dp app a [] 8" for app a
    by (simp add: strict_flow_def demo_providers_def)
  ultimately show ?thesis
    using retry_reuses_the_attempt [OF demo_uuid_text_ok demo_lookup(3), of 8 "[]" 7 None strict_flow dp 99 8 None]
      demo8_issue by fastforce
qed

end
