(* ===== verification/Rust_Chars.thy ===== *)
theory Rust_Chars
  imports Rust_Text Json_Value
begin

text \<open>
  Further operations of \<open>str\<close> on UTF-8 text: counting and taking characters, searching,
  splitting, replacing, and parsing an \<open>i64\<close>. A character starts at every byte that is not a
  continuation byte. \<open>HashMap\<close> is an association list whose order is the iteration order.
\<close>

section \<open>Characters\<close>

definition char_start :: "char \<Rightarrow> bool" where
  "char_start c = (byte c div 64 \<noteq> 2)"

definition char_count :: "string \<Rightarrow> nat" where
  "char_count s = length (filter char_start s)"

text \<open>\<open>s.chars().take(n).collect()\<close>.\<close>

fun take_chars :: "nat \<Rightarrow> string \<Rightarrow> string" where
  "take_chars n [] = []"
| "take_chars n (c # cs) =
     (if char_start c then (case n of 0 \<Rightarrow> [] | Suc m \<Rightarrow> c # take_chars m cs)
      else c # take_chars n cs)"

lemma char_count_take_chars: "char_count (take_chars n s) \<le> n"
  by (induction n s rule: take_chars.induct) (auto simp: char_count_def split: nat.splits)

definition is_alphanumeric :: "char \<Rightarrow> bool" where
  "is_alphanumeric c =
     (48 \<le> byte c \<and> byte c \<le> 57 \<or> 65 \<le> byte c \<and> byte c \<le> 90 \<or> 97 \<le> byte c \<and> byte c \<le> 122)"

section \<open>Searching and splitting\<close>

fun contains_text :: "string \<Rightarrow> string \<Rightarrow> bool" where
  "contains_text p [] = (p = [])"
| "contains_text p (c # cs) = (starts_with p (c # cs) \<or> contains_text p cs)"

definition strip_prefix :: "string \<Rightarrow> string \<Rightarrow> string option" where
  "strip_prefix p s = (if starts_with p s then Some (drop (length p) s) else None)"

definition strip_suffix :: "string \<Rightarrow> string \<Rightarrow> string option" where
  "strip_suffix p s = (if ends_with p s then Some (take (length s - length p) s) else None)"

fun split_once :: "char \<Rightarrow> string \<Rightarrow> (string \<times> string) option" where
  "split_once d [] = None"
| "split_once d (c # cs) =
     (if c = d then Some ([], cs) else map_option (apfst ((#) c)) (split_once d cs))"

fun join :: "string \<Rightarrow> string list \<Rightarrow> string" where
  "join sep [] = []"
| "join sep [x] = x"
| "join sep (x # y # xs) = x @ sep @ join sep (y # xs)"

text \<open>\<open>s.replace(p, r)\<close> of a pattern that is not empty.\<close>

function replace_text :: "string \<Rightarrow> string \<Rightarrow> string \<Rightarrow> string" where
  "replace_text p r s =
     (if p = [] then s
      else if starts_with p s \<and> s \<noteq> [] then r @ replace_text p r (drop (length p) s)
      else (case s of [] \<Rightarrow> [] | c # cs \<Rightarrow> c # replace_text p r cs))"
  by pat_completeness auto
termination by (relation "measure (\<lambda>(p, r, s). length s)") (auto simp: starts_with_def)

declare replace_text.simps [simp del]

lemma starts_with_append [simp]: "starts_with p (p @ s)"
  by (simp add: starts_with_def)

lemma starts_with_exact: "starts_with p s \<longleftrightarrow> (\<exists>t. s = p @ t)"
  by (metis append_eq_conv_conj starts_with_def append_take_drop_id)

lemma contains_text_exact: "contains_text p s \<longleftrightarrow> (\<exists>a b. s = a @ p @ b)"
proof (induction p s rule: contains_text.induct)
  case (2 p c cs)
  show ?case
  proof
    assume "contains_text p (c # cs)"
    then consider t where "c # cs = p @ t" | a b where "cs = a @ p @ b"
      using 2 by (auto simp: starts_with_exact)
    then show "\<exists>a b. c # cs = a @ p @ b"
    proof cases
      case (1 t)
      then have "c # cs = [] @ p @ t" by simp
      then show ?thesis by blast
    next
      case (2 a b)
      then have "c # cs = (c # a) @ p @ b" by simp
      then show ?thesis by blast
    qed
  next
    assume "\<exists>a b. c # cs = a @ p @ b"
    then obtain a b where ab: "c # cs = a @ p @ b" by blast
    show "contains_text p (c # cs)"
    proof (cases a)
      case Nil
      then have "starts_with p (c # cs)" using ab by (auto simp: starts_with_exact)
      then show ?thesis by simp
    next
      case (Cons d a')
      then show ?thesis using ab 2 by auto
    qed
  qed
qed auto

lemma strip_suffix_exact: "strip_suffix p s = Some t \<longleftrightarrow> s = t @ p"
proof
  assume "strip_suffix p s = Some t"
  then have e: "starts_with (rev p) (rev s)" and t: "t = take (length s - length p) s"
    by (auto simp: strip_suffix_def ends_with_def split: if_splits)
  from e obtain u where "rev s = rev p @ u" by (auto simp: starts_with_exact)
  then have "s = rev u @ p" by (metis rev_append rev_rev_ident)
  then show "s = t @ p" using t by simp
qed (simp add: strip_suffix_def ends_with_def)

lemma strip_prefix_exact: "strip_prefix p s = Some t \<longleftrightarrow> s = p @ t"
  by (auto simp: strip_prefix_def starts_with_exact)

lemma split_once_exact: "split_once d s = Some (a, b) \<longleftrightarrow> s = a @ d # b \<and> d \<notin> set a"
proof (induction s arbitrary: a)
  case (Cons c cs)
  then show ?case by (cases a) auto
qed simp

section \<open>Numbers\<close>

text \<open>\<open>parse::<i64>()\<close>: an optional sign and at least one digit, in range.\<close>

definition digits_value :: "string \<Rightarrow> int" where
  "digits_value s = foldl (\<lambda>n c. 10 * n + (int (byte c) - 48)) 0 s"

definition parse_i64 :: "string \<Rightarrow> int option" where
  "parse_i64 s =
     (let negative = starts_with ''-'' s;
          digits = (if negative \<or> starts_with ''+'' s then tl s else s);
          value = (if negative then - digits_value digits else digits_value digits)
      in if digits \<noteq> [] \<and> (\<forall>c \<in> set digits. is_digit c) \<and> - (2 ^ 63) \<le> value \<and> value < 2 ^ 63
         then Some value else None)"

text \<open>\<open>format!\<close> of a \<open>usize\<close>.\<close>

fun show_nat :: "nat \<Rightarrow> string" where
  "show_nat n =
     (if n < 10 then [char_of (48 + n)] else show_nat (n div 10) @ [char_of (48 + n mod 10)])"

declare show_nat.simps [simp del]

type_synonym i32 = "32 word"
type_synonym i64 = "64 word"

section \<open>Hash maps\<close>

type_synonym 'v hash_map = "(string \<times> 'v) list"

definition hm_insert :: "string \<Rightarrow> 'v \<Rightarrow> 'v hash_map \<Rightarrow> 'v hash_map" where
  "hm_insert k v m = map_insert k v m"

definition hm_remove :: "string \<Rightarrow> 'v hash_map \<Rightarrow> 'v hash_map" where
  "hm_remove k m = AList.delete k m"

text \<open>\<open>values_mut\<close> and \<open>get_mut\<close>.\<close>

definition hm_map :: "('v \<Rightarrow> 'v) \<Rightarrow> 'v hash_map \<Rightarrow> 'v hash_map" where
  "hm_map f m = map (\<lambda>(k, v). (k, f v)) m"

definition hm_adjust :: "string \<Rightarrow> ('v \<Rightarrow> 'v) \<Rightarrow> 'v hash_map \<Rightarrow> 'v hash_map" where
  "hm_adjust k f m = map (\<lambda>(k', v). (k', if k' = k then f v else v)) m"

lemma wf_hm_delete: "wf_map m \<Longrightarrow> wf_map (AList.delete k m)"
  by (simp add: wf_map_def AList.distinct_delete)

interpretation hm: keyed_map map_of hm_insert hm_remove wf_map
  by unfold_locales
    (auto simp: hm_insert_def hm_remove_def map_of_map_insert wf_map_insert AList.delete_conv'
      intro: wf_hm_delete)

lemma map_of_hm_insert [simp]: "map_of (hm_insert k v m) = (map_of m)(k \<mapsto> v)"
  by (simp add: hm_insert_def map_of_map_insert)

lemma map_of_hm_remove [simp]: "map_of (hm_remove k m) = (map_of m)(k := None)"
  by (simp add: hm_remove_def AList.delete_conv')

lemma map_of_hm_map [simp]: "map_of (hm_map f m) k = map_option f (map_of m k)"
  by (induction m) (auto simp: hm_map_def)

lemma map_of_hm_adjust [simp]:
  "map_of (hm_adjust k f m) k' = (if k' = k then map_option f (map_of m k) else map_of m k')"
  by (induction m) (auto simp: hm_adjust_def)

lemma wf_hm_map [simp]: "wf_map (hm_map f m) = wf_map m"
  by (simp add: wf_map_def hm_map_def comp_def case_prod_beta)

lemma wf_hm_adjust [simp]: "wf_map (hm_adjust k f m) = wf_map m"
  by (simp add: wf_map_def hm_adjust_def comp_def case_prod_beta)

lemma wf_hm_insert [simp]: "wf_map m \<Longrightarrow> wf_map (hm_insert k v m)"
  by (rule hm.inv_insert)

lemma wf_hm_remove [simp]: "wf_map m \<Longrightarrow> wf_map (hm_remove k m)"
  by (rule hm.inv_remove)

end
