(* ===== verification/Verification_Domain.thy ===== *)
theory Verification_Domain
  imports Third_Party Rust_Chars
begin

text \<open>
  \<open>rust/services/verification/src/domain.rs\<close>: the verification session, its protocol
  projection, and the minimization that strips a terminal session of everything the verifier
  does not have to keep.
\<close>

section \<open>Constants and data\<close>

definition SESSION_TTL_SECONDS :: int where
  "SESSION_TTL_SECONDS = 60 * 60"

definition SUBMISSION_LEASE_SECONDS :: int where
  "SUBMISSION_LEASE_SECONDS = 30"

definition SUBMISSION_CAS_RETRIES :: nat where
  "SUBMISSION_CAS_RETRIES = 8"

datatype SessionStatus = SsPending | SsCompleted | SsExpired | SsFailed



record VerificationSession =
  vs_session_id :: string
  vs_flow_id :: string
  vs_flow_instance_id :: string
  vs_organization_id :: string
  vs_evaluation_principal_id :: string
  vs_presentation_policy_id :: "string option"
  vs_response_type :: string
  vs_trust_profile_id :: "string option"
  vs_deployment_profile_id :: "string option"
  vs_external_reference :: "string option"
  vs_callback_url :: "string option"
  vs_purpose :: string
  vs_nonce :: string
  vs_holder_id :: "string option"
  vs_status :: SessionStatus
  vs_created_at :: time
  vs_updated_at :: time
  vs_expires_at :: time
  vs_result :: "string option"
  vs_decision :: "string option"
  vs_decision_reason :: string
  vs_verified_claims :: jmap
  vs_credential_results :: "json list"
  vs_holder_binding_evidence :: "json option"
  vs_inspection_performed :: bool
  vs_inspection_result :: string
  vs_inspection_result_sha256 :: "string option"
  vs_vp_token_sha256 :: "string option"
  vs_processing_token :: "string option"
  vs_processing_expires_at :: "time option"
  vs_total_requirements :: i32
  vs_satisfied_requirements :: i32
  vs_completed_at :: "time option"
  vs_error :: "string option"
  vs_vp_token :: "string option"

record StartVerificationRequest =
  sr_organization_id :: string
  sr_presentation_policy_id :: "string option"
  sr_response_type :: string
  sr_trust_profile_id :: "string option"
  sr_deployment_profile_id :: "string option"
  sr_external_reference :: "string option"
  sr_callback_url :: "string option"
  sr_expiry_minutes :: i32
  sr_purpose :: string

record EvaluateRequest =
  er_vp_token :: string
  er_presentation_policy_id :: string
  er_nonce :: "string option"
  er_audience :: "string option"
  er_context :: "jmap option"

record ZkpSubmitRequest =
  zk_vp_token :: "string option"
  zk_proof :: "string option"
  zk_presentation_policy_id :: "string option"
  zk_policy_id :: "string option"
  zk_nonce :: "string option"

record EvaluationResult =
  ev_result :: string
  ev_decision :: string
  ev_decision_reason :: string
  ev_verified_claims :: jmap
  ev_credential_results :: "json list"
  ev_holder_binding_evidence :: "json option"
  ev_total_requirements :: i32
  ev_satisfied_requirements :: i32
  ev_evaluation_timestamp :: string
  ev_nonce :: string

definition json_of_i32 :: "i32 \<Rightarrow> json" where
  "json_of_i32 n = json_of_int (sint n)"

definition evaluation_as_value :: "EvaluationResult \<Rightarrow> jmap" where
  "evaluation_as_value r =
     [(''result'', JStr (ev_result r)),
      (''decision'', JStr (ev_decision r)),
      (''decision_reason'', JStr (ev_decision_reason r)),
      (''verified_claims'', JObj (ev_verified_claims r)),
      (''credential_results'', JArr (ev_credential_results r)),
      (''total_requirements'', json_of_i32 (ev_total_requirements r)),
      (''satisfied_requirements'', json_of_i32 (ev_satisfied_requirements r)),
      (''evaluation_timestamp'', JStr (ev_evaluation_timestamp r)),
      (''nonce'', JStr (ev_nonce r))]"

datatype SubmissionOutcome =
  SoClaimed | SoCommitted | SoDuplicate | SoBusy | SoConflict | SoExpired | SoMissing

record SubmissionTransition =
  st_outcome :: SubmissionOutcome
  st_session :: "VerificationSession option"
  st_token :: "string option"

definition transition_new :: "SubmissionOutcome \<Rightarrow> SubmissionTransition" where
  "transition_new outcome = \<lparr> st_outcome = outcome, st_session = None, st_token = None \<rparr>"

datatype VerificationError =
    BadRequest string
  | Unauthorized string
  | Forbidden string
  | NotFound string
  | Conflict string
  | Gone string
  | Dependency string
  | Coordination string
  | Internal string

section \<open>A new session\<close>

text \<open>The two identifiers and the nonce are drawn by the code; here they are arguments.\<close>

definition session_new ::
  "third_party \<Rightarrow> uuid \<Rightarrow> uuid \<Rightarrow> string \<Rightarrow> StartVerificationRequest \<Rightarrow> time
   \<Rightarrow> VerificationError + VerificationSession" where
  "session_new tp session_uuid flow_uuid nonce request now =
     bind_result (ok_or (BadRequest ''invalid expiry_minutes'')
        (tp_checked_add tp now (seconds (60 * sint (sr_expiry_minutes request))))) (\<lambda>expires_at.
     let session_id = tp_uuid_show tp session_uuid
     in Inr \<lparr> vs_session_id = session_id, vs_flow_id = tp_uuid_show tp flow_uuid,
          vs_flow_instance_id = session_id,
          vs_organization_id = sr_organization_id request,
          vs_evaluation_principal_id = [],
          vs_presentation_policy_id = sr_presentation_policy_id request,
          vs_response_type = sr_response_type request,
          vs_trust_profile_id = sr_trust_profile_id request,
          vs_deployment_profile_id = sr_deployment_profile_id request,
          vs_external_reference = sr_external_reference request,
          vs_callback_url = None, vs_purpose = sr_purpose request, vs_nonce = nonce,
          vs_holder_id = None, vs_status = SsPending, vs_created_at = now, vs_updated_at = now,
          vs_expires_at = expires_at, vs_result = None, vs_decision = None,
          vs_decision_reason = [], vs_verified_claims = [], vs_credential_results = [],
          vs_holder_binding_evidence = None, vs_inspection_performed = False,
          vs_inspection_result = [], vs_inspection_result_sha256 = None,
          vs_vp_token_sha256 = None, vs_processing_token = None,
          vs_processing_expires_at = None, vs_total_requirements = 0,
          vs_satisfied_requirements = 0, vs_completed_at = None, vs_error = None,
          vs_vp_token = None \<rparr>)"

definition is_expired_at :: "VerificationSession \<Rightarrow> time \<Rightarrow> bool" where
  "is_expired_at session now = (vs_expires_at session < now)"

section \<open>Minimization\<close>

definition minimize_verified_claims :: "jmap \<Rightarrow> jmap" where
  "minimize_verified_claims claims =
     map (\<lambda>kv. (fst kv, JBool True)) (filter (\<lambda>kv. fst kv \<noteq> []) claims)"

definition scalar_json :: "json \<Rightarrow> bool" where
  "scalar_json v = (case v of JStr _ \<Rightarrow> True | JBool _ \<Rightarrow> True | JNum _ \<Rightarrow> True | _ \<Rightarrow> False)"

definition text_or_bool :: "json \<Rightarrow> bool" where
  "text_or_bool v = (case v of JStr _ \<Rightarrow> True | JBool _ \<Rightarrow> True | _ \<Rightarrow> False)"

text \<open>The fields of \<open>keys\<close> that the source holds and \<open>p\<close> accepts, inserted in that order.\<close>

definition copy_fields :: "(json \<Rightarrow> bool) \<Rightarrow> string list \<Rightarrow> jmap \<Rightarrow> jmap \<Rightarrow> jmap" where
  "copy_fields p keys source m =
     fold (\<lambda>key m. case map_of source key of
                None \<Rightarrow> m
              | Some v \<Rightarrow> if p v then map_insert key v m else m) keys m"

definition nonempty_string :: "third_party \<Rightarrow> json \<Rightarrow> string option" where
  "nonempty_string tp value =
     (let shown = (let s = tp_json_show tp value in if s \<noteq> [] then Some s else None)
      in case value of
           JStr s \<Rightarrow> if s \<noteq> [] then Some s else shown
         | JNull \<Rightarrow> None
         | _ \<Rightarrow> shown)"

definition minimize_constraint :: "json \<Rightarrow> json option" where
  "minimize_constraint constraint =
     (case as_object constraint of
        None \<Rightarrow> None
      | Some source \<Rightarrow>
          let projected = copy_fields text_or_bool
                [''constraint_type'', ''passed'', ''satisfied''] source []
          in if projected \<noteq> [] then Some (JObj projected) else None)"

definition minimize_claim_result :: "json \<Rightarrow> json option" where
  "minimize_claim_result value =
     (case as_object value of
        None \<Rightarrow> None
      | Some source \<Rightarrow>
          let result = copy_fields text_or_bool [''claim_name'', ''satisfied''] source [];
              result =
                (case Option.bind (map_of source ''constraint_results'') as_array of
                   None \<Rightarrow> result
                 | Some constraints \<Rightarrow>
                     let minimized = List.map_filter minimize_constraint constraints
                     in if minimized \<noteq> [] then map_insert ''constraint_results'' (JArr minimized) result
                        else result)
          in if result \<noteq> [] then Some (JObj result) else None)"

definition SCALARS :: "string list" where
  "SCALARS = [''credential_template_id'', ''credential_type'', ''credential_format'', ''satisfied'',
     ''issuer_did'', ''signature_valid'', ''trust_validated'', ''revocation_checked'',
     ''revocation_validated'', ''revocation_status_checked'', ''holder_binding_validated'']"

definition LISTS :: "string list" where
  "LISTS = [''claims_missing'', ''claims_satisfied'']"

definition copy_lists :: "third_party \<Rightarrow> string list \<Rightarrow> jmap \<Rightarrow> jmap \<Rightarrow> jmap" where
  "copy_lists tp keys source m =
     fold (\<lambda>key m. case Option.bind (map_of source key) as_array of
                None \<Rightarrow> m
              | Some values \<Rightarrow>
                  map_insert key (JArr (map JStr (List.map_filter (nonempty_string tp) values))) m)
       keys m"

definition minimize_credential_result :: "third_party \<Rightarrow> jmap \<Rightarrow> jmap" where
  "minimize_credential_result tp source =
     (let projected = copy_fields scalar_json SCALARS source [];
          projected = copy_lists tp LISTS source projected
      in case Option.bind (map_of source ''claim_results'') as_array of
           None \<Rightarrow> projected
         | Some claims \<Rightarrow>
             let claims = List.map_filter minimize_claim_result claims
             in if claims \<noteq> [] then map_insert ''claim_results'' (JArr claims) projected
                else projected)"

definition minimize_credential_results :: "third_party \<Rightarrow> json list \<Rightarrow> json list" where
  "minimize_credential_results tp results =
     map (\<lambda>source. JObj (minimize_credential_result tp source)) (List.map_filter as_object results)"

definition safe_inspection_results :: "string list" where
  "safe_inspection_results =
     [''error'', ''failed'', ''invalid'', ''ok'', ''passed'', ''recorded'', ''unavailable'',
      ''unsupported'', ''unverified'', ''valid'', ''verified'']"

definition inspection_candidate :: "jmap \<Rightarrow> string \<Rightarrow> string option" where
  "inspection_candidate object key =
     map_option (\<lambda>v. to_ascii_lowercase (trim v)) (Option.bind (map_of object key) as_str)"

definition minimize_inspection_result :: "third_party \<Rightarrow> string \<Rightarrow> string \<times> string option" where
  "minimize_inspection_result tp raw =
     (if raw = [] then ([], None)
      else
        let digest = tp_sha256_hex tp raw;
            normalized = to_ascii_lowercase (trim raw);
            normalized =
              (case Option.bind (tp_json_parse tp raw) as_object of
                 None \<Rightarrow> normalized
               | Some object \<Rightarrow>
                   (case find (\<lambda>candidate. candidate \<in> set safe_inspection_results)
                           (List.map_filter (inspection_candidate object)
                              [''result'', ''status'', ''decision'']) of
                      None \<Rightarrow> normalized
                    | Some candidate \<Rightarrow> candidate));
            safe = (if normalized \<in> set safe_inspection_results then normalized else ''recorded'')
        in (safe, Some digest))"

definition inspection_minimal :: "VerificationSession \<Rightarrow> bool" where
  "inspection_minimal session =
     (vs_inspection_result session = []
      \<or> vs_inspection_result_sha256 session \<noteq> None
        \<and> vs_inspection_result session \<in> set safe_inspection_results)"

definition minimize_terminal :: "third_party \<Rightarrow> VerificationSession \<Rightarrow> VerificationSession" where
  "minimize_terminal tp session =
     (if vs_status session = SsPending then session
      else
        let session = session\<lparr>vs_callback_url := None, vs_evaluation_principal_id := [],
              vs_processing_token := None, vs_processing_expires_at := None\<rparr>;
            session = (if vs_vp_token_sha256 session = None
              then session\<lparr>vs_vp_token_sha256 :=
                     map_option (tp_sha256_hex tp) (vs_vp_token session)\<rparr>
              else session);
            session = session\<lparr>vs_vp_token := None,
              vs_verified_claims := minimize_verified_claims (vs_verified_claims session),
              vs_credential_results :=
                minimize_credential_results tp (vs_credential_results session)\<rparr>
        in if inspection_minimal session then session
           else let (result, digest) = minimize_inspection_result tp (vs_inspection_result session)
                in session\<lparr>vs_inspection_result := result,
                     vs_inspection_result_sha256 := digest\<rparr>)"

section \<open>Protocol projection\<close>

definition insert_optional :: "string \<Rightarrow> json option \<Rightarrow> jmap \<Rightarrow> jmap" where
  "insert_optional key value doc =
     (case value of None \<Rightarrow> doc | Some v \<Rightarrow> map_insert key v doc)"

fun protocol_status :: "SessionStatus \<Rightarrow> string" where
  "protocol_status SsPending = ''PENDING''"
| "protocol_status SsCompleted = ''PASSED''"
| "protocol_status SsExpired = ''EXPIRED''"
| "protocol_status SsFailed = ''FAILED''"

text \<open>The texts listed as missing by one result: the three spellings, in this order.\<close>

definition missing_of_result :: "third_party \<Rightarrow> jmap \<Rightarrow> string list" where
  "missing_of_result tp result =
     List.map_filter (nonempty_string tp)
       (concat (map (\<lambda>key. case Option.bind (map_of result key) as_array of
                               None \<Rightarrow> [] | Some values \<Rightarrow> values)
          [''claims_missing'', ''missing_claims'', ''unsatisfied_claims'']))"

definition collect_claims_missing :: "third_party \<Rightarrow> json list \<Rightarrow> string list" where
  "collect_claims_missing tp results =
     sorted_unique (concat (map (missing_of_result tp) (List.map_filter as_object results)))"

definition derive_revocation_checked :: "json list \<Rightarrow> bool option" where
  "derive_revocation_checked results =
     (case concat (map (\<lambda>result. List.map_filter (map_of result)
                [''revocation_checked'', ''revocation_validated'', ''revocation_status_checked''])
              (List.map_filter as_object results)) of
        [] \<Rightarrow> None
      | value # _ \<Rightarrow> Some (case as_bool value of Some b \<Rightarrow> b | None \<Rightarrow> value \<noteq> JNull))"

definition protocol_result :: "third_party \<Rightarrow> VerificationSession \<Rightarrow> json option" where
  "protocol_result tp session =
     (if vs_completed_at session = None \<and> vs_result session = None then None
      else
        let passed = (vs_result session = Some ''passed'' \<and> vs_status session \<noteq> SsFailed);
            result = [(''passed'', JBool passed)];
            claims = map fst (vs_verified_claims session);
            result = (if claims \<noteq> []
              then map_insert ''claims_satisfied'' (JArr (map JStr claims)) result else result);
            missing = collect_claims_missing tp (vs_credential_results session);
            result = (if missing \<noteq> []
              then map_insert ''claims_missing'' (JArr (map JStr missing)) result else result);
            result = insert_optional ''trust_validated''
              (map_option (\<lambda>decision. JBool (decision = ''allow'')) (vs_decision session)) result;
            result = insert_optional ''revocation_checked''
              (map_option JBool (derive_revocation_checked (vs_credential_results session))) result;
            result = insert_optional ''holder_binding_evidence''
              (vs_holder_binding_evidence session) result;
            reason = (if vs_decision_reason session = []
              then (case vs_error session of None \<Rightarrow> [] | Some e \<Rightarrow> e)
              else vs_decision_reason session);
            result = (if \<not> passed \<and> reason \<noteq> []
              then map_insert ''failure_reason'' (JStr reason) result else result)
        in Some (JObj result))"

definition protocol_value :: "third_party \<Rightarrow> VerificationSession \<Rightarrow> jmap" where
  "protocol_value tp session =
     (let doc =
        [(''id'', JStr (vs_session_id session)),
         (''flow_id'', JStr (vs_flow_id session)),
         (''flow_instance_id'', JStr (vs_flow_instance_id session)),
         (''verifier_nonce'', JStr (vs_nonce session)),
         (''status'', JStr (protocol_status (vs_status session))),
         (''expires_at'', JStr (tp_rfc3339 tp (vs_expires_at session))),
         (''created_at'', JStr (tp_rfc3339 tp (vs_created_at session))),
         (''updated_at'', JStr (tp_rfc3339 tp (vs_updated_at session)))];
        doc = insert_optional ''presentation_policy_id''
          (map_option JStr (vs_presentation_policy_id session)) doc;
        doc = insert_optional ''deployment_profile_id''
          (map_option JStr (vs_deployment_profile_id session)) doc;
        doc = insert_optional ''holder_id'' (map_option JStr (vs_holder_id session)) doc;
        doc = insert_optional ''result'' (protocol_result tp session) doc;
        doc = insert_optional ''completed_at''
          (map_option (\<lambda>t. JStr (tp_rfc3339 tp t)) (vs_completed_at session)) doc
      in insert_optional ''error'' (map_option JStr (vs_error session)) doc)"

section \<open>Holder binding\<close>

definition binding_source :: "jmap \<Rightarrow> jmap option" where
  "binding_source object =
     (case Option.bind (map_of object ''holder_binding_evidence'') as_object of
        Some raw \<Rightarrow> Some raw
      | None \<Rightarrow>
          map_option (\<lambda>validated.
            [(''required'', case map_of object ''holder_binding_required'' of
                              Some v \<Rightarrow> v | None \<Rightarrow> JBool True),
             (''validated'', validated)])
          (map_of object ''holder_binding_validated''))"

definition bool_field :: "jmap \<Rightarrow> string \<Rightarrow> bool" where
  "bool_field raw key = (Option.bind (map_of raw key) as_bool = Some True)"

definition normalize_holder_binding :: "json \<Rightarrow> json option" where
  "normalize_holder_binding evaluation =
     Option.bind (as_object evaluation) (\<lambda>object.
     map_option (\<lambda>raw.
       JObj (copy_fields (\<lambda>value. value \<noteq> JNull)
         [''binding_method'', ''proof_profile'', ''challenge_validated'', ''audience_validated'',
          ''replay_checked'', ''proof_age_seconds'', ''failure_reason''] raw
         [(''required'', JBool (bool_field raw ''required'')),
          (''validated'', JBool (bool_field raw ''validated''))]))
     (binding_source object))"

end
