(* ===== verification/Verification_Store.thy ===== *)
theory Verification_Store
  imports Verification_Domain
begin

text \<open>
  \<open>rust/services/verification/src/store.rs\<close>: the submission protocol of a session and the
  in-memory store. A submission is claimed under a lease and bound to the digest of the
  presentation, evaluated outside the store, and finalized under the same lease.
\<close>

section \<open>The submission protocol on one session\<close>

datatype StoreError = Unavailable | InvalidRecord | ImmutableState | InvalidTerminalState

definition expire_session :: "third_party \<Rightarrow> time \<Rightarrow> VerificationSession \<Rightarrow> VerificationSession" where
  "expire_session tp now session =
     minimize_terminal tp
       (session\<lparr>vs_status := SsExpired,
          vs_error := Some ''Session expired before presentation was submitted'',
          vs_updated_at := now\<rparr>)"

definition project_expiry :: "third_party \<Rightarrow> time \<Rightarrow> VerificationSession \<Rightarrow> VerificationSession" where
  "project_expiry tp now session =
     (if vs_status session = SsPending \<and> vs_vp_token_sha256 session = None
         \<and> is_expired_at session now
      then expire_session tp now session else session)"

definition submission_state ::
  "VerificationSession \<Rightarrow> string \<Rightarrow> time \<Rightarrow> SubmissionOutcome option" where
  "submission_state session digest now =
     (if vs_status session = SsExpired then Some SoExpired
      else if vs_status session \<noteq> SsPending
      then Some (if vs_vp_token_sha256 session = Some digest then SoDuplicate else SoConflict)
      else if vs_vp_token_sha256 session \<noteq> None \<and> vs_vp_token_sha256 session \<noteq> Some digest
      then Some SoConflict
      else if vs_processing_token session \<noteq> None
           \<and> (case vs_processing_expires_at session of
                 None \<Rightarrow> False | Some expires_at \<Rightarrow> now < expires_at)
      then Some SoBusy
      else if vs_vp_token_sha256 session = Some digest then None
      else if is_expired_at session now then Some SoExpired else None)"

definition transition_to ::
  "SubmissionOutcome \<Rightarrow> VerificationSession \<Rightarrow> string option \<Rightarrow> SubmissionTransition" where
  "transition_to outcome session token =
     \<lparr> st_outcome = outcome, st_session = Some session, st_token = token \<rparr>"

definition claimed_session ::
  "string \<Rightarrow> string \<Rightarrow> time \<Rightarrow> VerificationSession \<Rightarrow> VerificationSession" where
  "claimed_session digest token now session =
     session\<lparr>vs_vp_token_sha256 := Some digest, vs_processing_token := Some token,
       vs_processing_expires_at := Some (now + seconds SUBMISSION_LEASE_SECONDS),
       vs_updated_at := now\<rparr>"

definition validate_terminal_candidate ::
  "VerificationSession \<Rightarrow> VerificationSession \<Rightarrow> StoreError + unit" where
  "validate_terminal_candidate current candidate =
     (let immutable =
        (vs_session_id current = vs_session_id candidate
         \<and> vs_flow_id current = vs_flow_id candidate
         \<and> vs_flow_instance_id current = vs_flow_instance_id candidate
         \<and> vs_organization_id current = vs_organization_id candidate
         \<and> vs_evaluation_principal_id current = vs_evaluation_principal_id candidate
         \<and> vs_presentation_policy_id current = vs_presentation_policy_id candidate
         \<and> vs_response_type current = vs_response_type candidate
         \<and> vs_nonce current = vs_nonce candidate
         \<and> vs_created_at current = vs_created_at candidate
         \<and> vs_expires_at current = vs_expires_at candidate)
      in if \<not> immutable then Inl ImmutableState
         else if vs_status candidate = SsPending \<or> vs_completed_at candidate = None
         then Inl InvalidTerminalState
         else Inr ())"

text \<open>What a finalization answers without writing: an outcome, when there is one.\<close>

definition finalize_refusal ::
  "VerificationSession \<Rightarrow> string \<Rightarrow> string \<Rightarrow> SubmissionOutcome option" where
  "finalize_refusal current digest token =
     (if vs_status current \<noteq> SsPending
      then Some (if vs_vp_token_sha256 current = Some digest then SoDuplicate else SoConflict)
      else if vs_vp_token_sha256 current \<noteq> Some digest then Some SoConflict
      else if vs_processing_token current \<noteq> Some token then Some SoBusy
      else None)"

definition terminal_session ::
  "third_party \<Rightarrow> string \<Rightarrow> VerificationSession \<Rightarrow> VerificationSession" where
  "terminal_session tp digest candidate =
     minimize_terminal tp
       (candidate\<lparr>vs_vp_token_sha256 := Some digest, vs_processing_token := None,
          vs_processing_expires_at := None\<rparr>)"

section \<open>The in-memory store\<close>

type_synonym MemorySessionStore = "(string \<times> VerificationSession) list"

definition get_at ::
  "third_party \<Rightarrow> string \<Rightarrow> time \<Rightarrow> MemorySessionStore \<Rightarrow> VerificationSession option" where
  "get_at tp session_id now sessions =
     map_option (project_expiry tp now) (map_of sessions session_id)"

definition claim_at ::
  "third_party \<Rightarrow> string \<Rightarrow> string \<Rightarrow> string \<Rightarrow> time \<Rightarrow> MemorySessionStore
   \<Rightarrow> SubmissionTransition \<times> MemorySessionStore" where
  "claim_at tp token session_id digest now sessions =
     (case map_of sessions session_id of
        None \<Rightarrow> (transition_new SoMissing, sessions)
      | Some session \<Rightarrow>
          (case submission_state session digest now of
             Some outcome \<Rightarrow>
               if outcome = SoExpired
               then let session = expire_session tp now session
                    in (transition_to outcome session None, bt_insert session_id session sessions)
               else (transition_to outcome session None, sessions)
           | None \<Rightarrow>
               let session = claimed_session digest token now session
               in (transition_to SoClaimed session (Some token),
                   bt_insert session_id session sessions)))"

definition finalize_at ::
  "third_party \<Rightarrow> string \<Rightarrow> string \<Rightarrow> string \<Rightarrow> VerificationSession \<Rightarrow> MemorySessionStore
   \<Rightarrow> (StoreError + SubmissionTransition) \<times> MemorySessionStore" where
  "finalize_at tp session_id digest token candidate sessions =
     (case map_of sessions session_id of
        None \<Rightarrow> (Inr (transition_new SoMissing), sessions)
      | Some current \<Rightarrow>
          (case finalize_refusal current digest token of
             Some outcome \<Rightarrow> (Inr (transition_to outcome current None), sessions)
           | None \<Rightarrow>
               (case validate_terminal_candidate current candidate of
                  Inl e \<Rightarrow> (Inl e, sessions)
                | Inr _ \<Rightarrow>
                    let terminal = terminal_session tp digest candidate
                    in (Inr (transition_to SoCommitted terminal None),
                        bt_insert session_id terminal sessions))))"

definition save_session ::
  "third_party \<Rightarrow> VerificationSession \<Rightarrow> MemorySessionStore \<Rightarrow> MemorySessionStore" where
  "save_session tp session sessions =
     (let session = minimize_terminal tp session
      in bt_insert (vs_session_id session) session sessions)"

fun status_name :: "SessionStatus \<Rightarrow> string" where
  "status_name SsPending = ''pending''"
| "status_name SsCompleted = ''completed''"
| "status_name SsExpired = ''expired''"
| "status_name SsFailed = ''failed''"

definition status_wanted :: "string option \<Rightarrow> VerificationSession \<Rightarrow> bool" where
  "status_wanted status session =
     (case status of None \<Rightarrow> True | Some name \<Rightarrow> status_name (vs_status session) = name)"

definition newest_first :: "VerificationSession list \<Rightarrow> VerificationSession list" where
  "newest_first sessions = sort_key (\<lambda>session. - vs_created_at session) sessions"

definition list_by_org ::
  "string \<Rightarrow> string option \<Rightarrow> MemorySessionStore \<Rightarrow> VerificationSession list" where
  "list_by_org organization_id status sessions =
     newest_first
       (filter (status_wanted status)
         (filter (\<lambda>session. vs_organization_id session = organization_id) (map snd sessions)))"

section \<open>Facts on minimization\<close>

lemma minimize_pending [simp]: "vs_status s = SsPending \<Longrightarrow> minimize_terminal tp s = s"
  by (simp add: minimize_terminal_def)

lemma minimize_keeps [simp]:
  "vs_status (minimize_terminal tp s) = vs_status s"
  "vs_session_id (minimize_terminal tp s) = vs_session_id s"
  "vs_organization_id (minimize_terminal tp s) = vs_organization_id s"
  "vs_created_at (minimize_terminal tp s) = vs_created_at s"
  "vs_expires_at (minimize_terminal tp s) = vs_expires_at s"
  "vs_result (minimize_terminal tp s) = vs_result s"
  "vs_decision (minimize_terminal tp s) = vs_decision s"
  "vs_completed_at (minimize_terminal tp s) = vs_completed_at s"
  "vs_error (minimize_terminal tp s) = vs_error s"
  by (simp_all add: minimize_terminal_def Let_def split: prod.splits)

lemma minimize_clears [simp]:
  assumes "vs_status s \<noteq> SsPending"
  shows "vs_processing_token (minimize_terminal tp s) = None"
    and "vs_processing_expires_at (minimize_terminal tp s) = None"
    and "vs_vp_token (minimize_terminal tp s) = None"
    and "vs_callback_url (minimize_terminal tp s) = None"
    and "vs_evaluation_principal_id (minimize_terminal tp s) = []"
    and "vs_verified_claims (minimize_terminal tp s) = minimize_verified_claims (vs_verified_claims s)"
    and "vs_credential_results (minimize_terminal tp s)
       = minimize_credential_results tp (vs_credential_results s)"
  using assms by (simp_all add: minimize_terminal_def Let_def split: prod.splits)

lemma minimize_digest:
  "vs_vp_token_sha256 (minimize_terminal tp s) =
     (if vs_status s = SsPending \<or> vs_vp_token_sha256 s \<noteq> None then vs_vp_token_sha256 s
      else map_option (tp_sha256_hex tp) (vs_vp_token s))"
  by (simp add: minimize_terminal_def Let_def split: prod.splits)

end
