(* ===== verification/Verification_Minimize.thy ===== *)
theory Verification_Minimize
  imports Verification_Store
begin

text \<open>
  Facts on the minimization of terminal sessions: what it leaves, and that it is idempotent,
  which is what lets the store minimize on every write and on every read.
\<close>

section \<open>Copied fields\<close>

definition field_of :: "(json \<Rightarrow> bool) \<Rightarrow> jmap \<Rightarrow> string \<Rightarrow> json option" where
  "field_of p source key =
     (case map_of source key of None \<Rightarrow> None | Some v \<Rightarrow> if p v then Some v else None)"

text \<open>The entries that a partial function gives for a list of keys.\<close>

fun entries :: "('k \<Rightarrow> 'v option) \<Rightarrow> 'k list \<Rightarrow> ('k \<times> 'v) list" where
  "entries f [] = []"
| "entries f (k # ks) = (case f k of None \<Rightarrow> entries f ks | Some v \<Rightarrow> (k, v) # entries f ks)"

declare entries.simps(2) [simp del]

lemma map_insert_new: "k \<notin> fst ` set m \<Longrightarrow> map_insert k v m = m @ [(k, v)]"
  unfolding map_insert_def by (induction m) auto

lemma entries_fst: "fst ` set (entries f keys) \<subseteq> set keys"
  by (induction keys) (auto simp: entries.simps(2) split: option.splits)

lemma map_of_entries: "map_of (entries f keys) k = (if k \<in> set keys then f k else None)"
  by (induction keys) (auto simp: entries.simps(2) split: option.splits)

lemma entries_cong: "(\<And>k. k \<in> set keys \<Longrightarrow> f k = g k) \<Longrightarrow> entries f keys = entries g keys"
proof (induction keys)
  case (Cons k ks)
  have "f k = g k" by (rule Cons.prems) simp
  moreover have "entries f ks = entries g ks" using Cons by simp
  ultimately show ?case by (simp add: entries.simps(2) split: option.split)
qed simp

text \<open>A fold that inserts what a partial function gives for distinct new keys appends entries.\<close>

lemma fold_insert_entries:
  assumes "distinct keys" and "set keys \<inter> fst ` set m = {}"
  shows "fold (\<lambda>key m. case f key of None \<Rightarrow> m | Some v \<Rightarrow> map_insert key v m) keys m
    = m @ entries f keys"
  using assms
proof (induction keys arbitrary: m)
  case Nil
  then show ?case by simp
next
  case (Cons k ks)
  show ?case
  proof (cases "f k")
    case None
    then show ?thesis using Cons by (simp add: entries.simps(2))
  next
    case (Some v)
    have new: "map_insert k v m = m @ [(k, v)]" using Cons.prems by (intro map_insert_new) auto
    have "fold (\<lambda>key m. case f key of None \<Rightarrow> m | Some v \<Rightarrow> map_insert key v m) ks (m @ [(k, v)])
        = (m @ [(k, v)]) @ entries f ks"
      using Cons.prems by (intro Cons.IH) auto
    then show ?thesis using Some new by (simp add: entries.simps(2))
  qed
qed

lemma copy_fields_append:
  assumes "distinct keys" and "set keys \<inter> fst ` set m = {}"
  shows "copy_fields p keys source m = m @ entries (field_of p source) keys"
proof -
  have "(\<lambda>key m. case map_of source key of None \<Rightarrow> m | Some v \<Rightarrow> if p v then map_insert key v m else m)
      = (\<lambda>key m. case field_of p source key of None \<Rightarrow> m | Some v \<Rightarrow> map_insert key v m)"
    by (simp add: field_of_def fun_eq_iff split: option.splits)
  then show ?thesis
    unfolding copy_fields_def using fold_insert_entries [OF assms] by simp
qed

lemma field_of_entries:
  assumes "map_of source' k = (if k \<in> set keys then field_of p source k else None)" and "k \<in> set keys"
  shows "field_of p source' k = field_of p source k"
  using assms by (auto simp: field_of_def split: option.splits if_splits)

lemma map_filter_fixed: "(\<And>x. x \<in> set xs \<Longrightarrow> f x = Some x) \<Longrightarrow> List.map_filter f xs = xs"
  by (induction xs) (simp_all add: map_filter_simps)

lemma set_map_filter_iff: "y \<in> set (List.map_filter f xs) \<longleftrightarrow> (\<exists>x \<in> set xs. f x = Some y)"
  by (induction xs) (auto simp: map_filter_simps split: option.splits)

section \<open>The nested parts\<close>

definition constraint_keys :: "string list" where
  "constraint_keys = [''constraint_type'', ''passed'', ''satisfied'']"

definition claim_keys :: "string list" where
  "claim_keys = [''claim_name'', ''satisfied'']"

lemma key_lists:
  "distinct constraint_keys" "distinct claim_keys" "''constraint_results'' \<notin> set claim_keys"
  by (simp_all add: constraint_keys_def claim_keys_def)

lemma minimize_constraint_eq:
  "minimize_constraint c =
     (case as_object c of
        None \<Rightarrow> None
      | Some source \<Rightarrow>
          let r = entries (field_of text_or_bool source) constraint_keys
          in if r \<noteq> [] then Some (JObj r) else None)"
  by (simp add: minimize_constraint_def copy_fields_append key_lists Let_def
      flip: constraint_keys_def split: option.split)

lemma minimize_constraint_idem:
  assumes "minimize_constraint c = Some c'"
  shows "minimize_constraint c' = Some c'"
proof -
  obtain source where c': "c' = JObj (entries (field_of text_or_bool source) constraint_keys)"
    and ne: "entries (field_of text_or_bool source) constraint_keys \<noteq> []"
    using assms by (auto simp: minimize_constraint_eq Let_def split: option.splits if_splits)
  have "entries (field_of text_or_bool (entries (field_of text_or_bool source) constraint_keys)) constraint_keys
      = entries (field_of text_or_bool source) constraint_keys"
    by (rule entries_cong) (rule field_of_entries, auto simp: map_of_entries)
  then show ?thesis using ne by (simp add: c' minimize_constraint_eq)
qed

definition constraint_part :: "jmap \<Rightarrow> jmap" where
  "constraint_part source =
     (case Option.bind (map_of source ''constraint_results'') as_array of
        None \<Rightarrow> []
      | Some constraints \<Rightarrow>
          let minimized = List.map_filter minimize_constraint constraints
          in if minimized \<noteq> [] then [(''constraint_results'', JArr minimized)] else [])"

definition claim_body :: "jmap \<Rightarrow> jmap" where
  "claim_body source = entries (field_of text_or_bool source) claim_keys @ constraint_part source"

lemma minimize_claim_result_eq:
  "minimize_claim_result value =
     (case as_object value of
        None \<Rightarrow> None
      | Some source \<Rightarrow> if claim_body source \<noteq> [] then Some (JObj (claim_body source)) else None)"
proof (cases "as_object value")
  case None
  then show ?thesis by (simp add: minimize_claim_result_def)
next
  case (Some source)
  let ?f = "entries (field_of text_or_bool source) claim_keys"
  have ins: "map_insert ''constraint_results'' v ?f = ?f @ [(''constraint_results'', v)]" for v
    using entries_fst [of "field_of text_or_bool source" claim_keys] key_lists
    by (intro map_insert_new) auto
  have copy: "copy_fields text_or_bool [''claim_name'', ''satisfied''] source [] = ?f"
    by (simp add: copy_fields_append key_lists flip: claim_keys_def)
  show ?thesis
    by (simp add: minimize_claim_result_def copy Some Let_def ins constraint_part_def claim_body_def split: option.splits)
qed

lemma map_of_constraint_part: "k \<noteq> ''constraint_results'' \<Longrightarrow> map_of (constraint_part source) k = None"
  by (auto simp: constraint_part_def Let_def split: option.splits)

lemma constraint_part_idem:
  assumes "map_of source' ''constraint_results'' = map_of (constraint_part source) ''constraint_results''"
  shows "constraint_part source' = constraint_part source"
proof -
  have "List.map_filter minimize_constraint (List.map_filter minimize_constraint cs)
      = List.map_filter minimize_constraint cs" for cs
    by (rule map_filter_fixed) (auto simp: set_map_filter_iff intro: minimize_constraint_idem)
  then show ?thesis
    using assms by (auto simp: constraint_part_def Let_def split: option.splits if_splits)
qed

lemma claim_body_idem: "claim_body (claim_body source) = claim_body source"
proof -
  let ?f = "entries (field_of text_or_bool source) claim_keys"
  have at: "map_of (claim_body source) k = (if k \<in> set claim_keys then field_of text_or_bool source k
      else map_of (constraint_part source) k)" for k
  proof (cases "k \<in> set claim_keys")
    case True
    then have "map_of (constraint_part source) k = None"
      using key_lists by (intro map_of_constraint_part) auto
    then show ?thesis
      using True by (simp add: claim_body_def map_add_def map_of_entries split: option.split)
  next
    case False
    then show ?thesis
      by (simp add: claim_body_def map_add_def map_of_entries split: option.splits)
  qed
  have "entries (field_of text_or_bool (claim_body source)) claim_keys = ?f"
    by (rule entries_cong) (auto simp: at field_of_def split: option.splits)
  moreover have "constraint_part (claim_body source) = constraint_part source"
    using key_lists by (intro constraint_part_idem) (simp add: at)
  ultimately show ?thesis by (simp add: claim_body_def [of "claim_body source"]) (simp add: claim_body_def)
qed

lemma minimize_claim_result_idem:
  "minimize_claim_result v = Some v' \<Longrightarrow> minimize_claim_result v' = Some v'"
  by (auto simp: minimize_claim_result_eq claim_body_idem split: option.splits if_splits)

lemma nonempty_string_Some: "nonempty_string tp v = Some s \<Longrightarrow> s \<noteq> []"
  by (auto simp: nonempty_string_def Let_def split: json.splits if_splits)

lemma nonempty_string_idem:
  "List.map_filter (nonempty_string tp) (map JStr (List.map_filter (nonempty_string tp) vs))
     = List.map_filter (nonempty_string tp) vs"
proof -
  have "List.map_filter (nonempty_string tp) (map JStr xs) = xs" if "\<forall>x \<in> set xs. x \<noteq> []" for xs
    using that by (induction xs) (simp_all add: map_filter_simps nonempty_string_def)
  moreover have "\<forall>x \<in> set (List.map_filter (nonempty_string tp) vs). x \<noteq> []"
    by (auto simp: set_map_filter_iff dest: nonempty_string_Some)
  ultimately show ?thesis by blast
qed

section \<open>A credential result\<close>

definition list_of :: "third_party \<Rightarrow> jmap \<Rightarrow> string \<Rightarrow> json option" where
  "list_of tp source key =
     map_option (\<lambda>values. JArr (map JStr (List.map_filter (nonempty_string tp) values)))
       (Option.bind (map_of source key) as_array)"

definition claims_part :: "jmap \<Rightarrow> jmap" where
  "claims_part source =
     (case Option.bind (map_of source ''claim_results'') as_array of
        None \<Rightarrow> []
      | Some claims \<Rightarrow>
          let claims = List.map_filter minimize_claim_result claims
          in if claims \<noteq> [] then [(''claim_results'', JArr claims)] else [])"

lemma copy_lists_append:
  assumes "distinct keys" and "set keys \<inter> fst ` set m = {}"
  shows "copy_lists tp keys source m = m @ entries (list_of tp source) keys"
proof -
  have "(\<lambda>key m. case Option.bind (map_of source key) as_array of None \<Rightarrow> m
        | Some values \<Rightarrow> map_insert key (JArr (map JStr (List.map_filter (nonempty_string tp) values))) m)
      = (\<lambda>key m. case list_of tp source key of None \<Rightarrow> m | Some v \<Rightarrow> map_insert key v m)"
    by (simp add: list_of_def fun_eq_iff split: option.splits)
  then show ?thesis
    unfolding copy_lists_def using fold_insert_entries [OF assms] by simp
qed

lemma key_sets:
  "distinct SCALARS" "distinct LISTS" "set LISTS \<inter> set SCALARS = {}"
  "''claim_results'' \<notin> set SCALARS" "''claim_results'' \<notin> set LISTS"
  by (simp_all add: SCALARS_def LISTS_def)

lemma minimize_credential_result_eq:
  "minimize_credential_result tp source =
     entries (field_of scalar_json source) SCALARS @ entries (list_of tp source) LISTS
       @ claims_part source"
proof -
  let ?s = "entries (field_of scalar_json source) SCALARS"
  let ?l = "entries (list_of tp source) LISTS"
  have s: "copy_fields scalar_json SCALARS source [] = ?s"
    by (simp add: copy_fields_append key_sets)
  have l: "copy_lists tp LISTS source ?s = ?s @ ?l"
    using key_sets entries_fst [of "field_of scalar_json source" SCALARS]
    by (intro copy_lists_append) auto
  have ins: "map_insert ''claim_results'' v (?s @ ?l) = (?s @ ?l) @ [(''claim_results'', v)]" for v
    using key_sets entries_fst [of "field_of scalar_json source" SCALARS]
      entries_fst [of "list_of tp source" LISTS]
    by (intro map_insert_new) auto
  show ?thesis
    by (simp add: minimize_credential_result_def s l ins Let_def claims_part_def split: option.splits)
qed

lemma map_of_minimized:
  "map_of (minimize_credential_result tp source) k =
     (if k \<in> set SCALARS then field_of scalar_json source k
      else if k \<in> set LISTS then list_of tp source k
      else map_of (claims_part source) k)"
proof -
  have "map_of (claims_part source) k = None" if "k \<noteq> ''claim_results''"
    using that by (auto simp: claims_part_def Let_def split: option.splits)
  then show ?thesis
    using key_sets
    by (auto simp: minimize_credential_result_eq map_add_def map_of_entries split: option.splits)
qed

lemma claims_part_idem:
  assumes "map_of source' ''claim_results'' = map_of (claims_part source) ''claim_results''"
  shows "claims_part source' = claims_part source"
proof -
  have "List.map_filter minimize_claim_result (List.map_filter minimize_claim_result cs)
      = List.map_filter minimize_claim_result cs" for cs
    by (rule map_filter_fixed) (auto simp: set_map_filter_iff intro: minimize_claim_result_idem)
  then show ?thesis
    using assms by (auto simp: claims_part_def Let_def split: option.splits if_splits)
qed

lemma minimize_credential_result_idem:
  "minimize_credential_result tp (minimize_credential_result tp source)
     = minimize_credential_result tp source"
proof -
  let ?m = "minimize_credential_result tp source"
  have "entries (field_of scalar_json ?m) SCALARS = entries (field_of scalar_json source) SCALARS"
    by (rule entries_cong) (auto simp: map_of_minimized field_of_def split: option.splits)
  moreover have "entries (list_of tp ?m) LISTS = entries (list_of tp source) LISTS"
  proof (rule entries_cong)
    fix k assume "k \<in> set LISTS"
    then have "map_of ?m k = list_of tp source k" using key_sets by (auto simp: map_of_minimized)
    then show "list_of tp ?m k = list_of tp source k"
      by (cases "Option.bind (map_of source k) as_array") (auto simp: list_of_def nonempty_string_idem)
  qed
  moreover have "claims_part ?m = claims_part source"
    using key_sets by (intro claims_part_idem) (simp add: map_of_minimized)
  ultimately show ?thesis
    by (simp add: minimize_credential_result_eq [of tp ?m])
      (simp add: minimize_credential_result_eq)
qed

lemma minimize_credential_results_idem:
  "minimize_credential_results tp (minimize_credential_results tp rs) = minimize_credential_results tp rs"
proof -
  have "List.map_filter as_object (map (\<lambda>x. JObj (f x)) xs) = map f xs" for f and xs :: "jmap list"
    by (induction xs) (simp_all add: map_filter_simps)
  then show ?thesis
    by (simp add: minimize_credential_results_def minimize_credential_result_idem comp_def)
qed

lemma minimize_verified_claims_idem:
  "minimize_verified_claims (minimize_verified_claims m) = minimize_verified_claims m"
  by (induction m) (auto simp: minimize_verified_claims_def)

section \<open>A session\<close>

lemma minimize_inspection_minimal:
  "minimize_inspection_result tp raw = (r, d) \<Longrightarrow> r = [] \<or> d \<noteq> None \<and> r \<in> set safe_inspection_results"
  by (auto simp: minimize_inspection_result_def Let_def safe_inspection_results_def split: if_splits)

lemma minimize_minimal: "vs_status s \<noteq> SsPending \<Longrightarrow> inspection_minimal (minimize_terminal tp s)"
  using minimize_inspection_minimal [of tp "vs_inspection_result s"]
  by (auto simp: minimize_terminal_def Let_def inspection_minimal_def split: prod.splits)

text \<open>Being minimal, as a property of the fields.\<close>

definition minimal :: "third_party \<Rightarrow> VerificationSession \<Rightarrow> bool" where
  "minimal tp s =
     (vs_callback_url s = None \<and> vs_evaluation_principal_id s = [] \<and> vs_processing_token s = None
      \<and> vs_processing_expires_at s = None \<and> vs_vp_token s = None
      \<and> vs_verified_claims s = minimize_verified_claims (vs_verified_claims s)
      \<and> vs_credential_results s = minimize_credential_results tp (vs_credential_results s)
      \<and> inspection_minimal s)"

lemma minimize_terminal_minimal: "vs_status s \<noteq> SsPending \<Longrightarrow> minimal tp (minimize_terminal tp s)"
  using minimize_minimal [of s tp]
  by (simp add: minimal_def minimize_verified_claims_idem minimize_credential_results_idem)

lemma minimal_fixed: "minimal tp s \<Longrightarrow> minimize_terminal tp s = s"
  by (auto simp: minimal_def minimize_terminal_def Let_def inspection_minimal_def)

lemma minimize_terminal_idem [simp]: "minimize_terminal tp (minimize_terminal tp s) = minimize_terminal tp s"
  by (cases "vs_status s = SsPending") (simp_all add: minimal_fixed minimize_terminal_minimal)

end
