(* ===== verification/Verification_Sessions.thy ===== *)
theory Verification_Sessions
  imports Verification_Minimize Lease
begin

text \<open>
  The sessions of the verification service as a state machine: the steps of the store, its
  reachable states, the invariant, and the moves one session makes. The submission lease is an
  instance of the lease contract.
\<close>

named_theorems session_simps \<open>unfolding of the submission protocol\<close>

lemmas [session_simps] = transition_new_def transition_to_def claimed_session_def
  terminal_session_def expire_session_def is_expired_at_def

section \<open>Steps\<close>

text \<open>A session is saved once, when it starts, under an identifier that is not in use.\<close>

inductive session_step :: "third_party \<Rightarrow> MemorySessionStore \<Rightarrow> MemorySessionStore \<Rightarrow> bool"
  for tp where
  start: "session_new tp session_uuid flow_uuid nonce request now = Inr session
     \<Longrightarrow> map_of sessions (vs_session_id session) = None
     \<Longrightarrow> session_step tp sessions
           (save_session tp (session\<lparr>vs_evaluation_principal_id := actor\<rparr>) sessions)"
| claim: "session_step tp sessions (snd (claim_at tp token session_id digest now sessions))"
| finalize: "session_step tp sessions (snd (finalize_at tp session_id digest token candidate sessions))"

definition sessions_reachable :: "third_party \<Rightarrow> MemorySessionStore \<Rightarrow> bool" where
  "sessions_reachable tp sessions = (session_step tp)\<^sup>*\<^sup>* [] sessions"

section \<open>The moves of a session\<close>

definition session_inv :: "third_party \<Rightarrow> VerificationSession \<Rightarrow> bool" where
  "session_inv tp s =
     ((vs_status s \<noteq> SsPending \<longrightarrow> minimal tp s)
      \<and> (vs_processing_token s = None \<longleftrightarrow> vs_processing_expires_at s = None)
      \<and> (vs_processing_token s \<noteq> None \<longrightarrow> vs_vp_token_sha256 s \<noteq> None))"

definition sessions_inv :: "third_party \<Rightarrow> MemorySessionStore \<Rightarrow> bool" where
  "sessions_inv tp m =
     (bt_wf m \<and> (\<forall>sid s. map_of m sid = Some s \<longrightarrow> vs_session_id s = sid \<and> session_inv tp s))"

inductive session_move :: "third_party \<Rightarrow> VerificationSession \<Rightarrow> VerificationSession \<Rightarrow> bool"
  for tp where
  stay: "session_move tp s s"
| claimed: "submission_state s digest now = None
     \<Longrightarrow> session_move tp s (claimed_session digest token now s)"
| expired: "submission_state s digest now = Some SoExpired
     \<Longrightarrow> session_move tp s (expire_session tp now s)"
| finalized: "finalize_refusal s digest token = None
     \<Longrightarrow> validate_terminal_candidate s candidate = Inr ()
     \<Longrightarrow> session_move tp s (terminal_session tp digest candidate)"

lemma validate_Inr:
  "validate_terminal_candidate current candidate = Inr u \<longleftrightarrow>
     vs_session_id current = vs_session_id candidate \<and> vs_flow_id current = vs_flow_id candidate
     \<and> vs_flow_instance_id current = vs_flow_instance_id candidate
     \<and> vs_organization_id current = vs_organization_id candidate
     \<and> vs_evaluation_principal_id current = vs_evaluation_principal_id candidate
     \<and> vs_presentation_policy_id current = vs_presentation_policy_id candidate
     \<and> vs_response_type current = vs_response_type candidate
     \<and> vs_nonce current = vs_nonce candidate \<and> vs_created_at current = vs_created_at candidate
     \<and> vs_expires_at current = vs_expires_at candidate
     \<and> vs_status candidate \<noteq> SsPending \<and> vs_completed_at candidate \<noteq> None"
  by (auto simp: validate_terminal_candidate_def Let_def)

lemma refusal_None:
  "finalize_refusal s digest token = None \<longleftrightarrow>
     vs_status s = SsPending \<and> vs_vp_token_sha256 s = Some digest \<and> vs_processing_token s = Some token"
  by (auto simp: finalize_refusal_def)

lemma state_None:
  "submission_state s digest now = None \<longleftrightarrow>
     vs_status s = SsPending
     \<and> (vs_vp_token_sha256 s = Some digest
        \<or> vs_vp_token_sha256 s = None \<and> now \<le> vs_expires_at s)
     \<and> (vs_processing_token s = None
        \<or> (\<forall>e. vs_processing_expires_at s = Some e \<longrightarrow> e \<le> now))"
  by (cases "vs_status s"; cases "vs_vp_token_sha256 s"; cases "vs_processing_token s";
      cases "vs_processing_expires_at s")
    (auto simp: submission_state_def is_expired_at_def)

lemma state_Expired:
  "submission_state s digest now = Some SoExpired \<longleftrightarrow>
     vs_status s = SsExpired
     \<or> vs_status s = SsPending \<and> vs_vp_token_sha256 s = None \<and> vs_expires_at s < now
       \<and> (vs_processing_token s = None
          \<or> (\<forall>e. vs_processing_expires_at s = Some e \<longrightarrow> e \<le> now))"
  by (cases "vs_status s"; cases "vs_vp_token_sha256 s"; cases "vs_processing_token s";
      cases "vs_processing_expires_at s")
    (auto simp: submission_state_def is_expired_at_def)

lemma move_id:
  assumes "session_move tp s s'"
  shows "vs_session_id s' = vs_session_id s"
  using assms by cases (auto simp: session_simps validate_Inr)

lemma move_inv:
  assumes "session_move tp s s'" and "session_inv tp s"
  shows "session_inv tp s'"
  using assms(1)
proof cases
  case stay
  then show ?thesis using assms(2) by simp
next
  case (claimed digest now token)
  then show ?thesis by (auto simp: session_inv_def claimed_session_def state_None)
next
  case (expired digest now)
  have "minimal tp s'"
    unfolding expired(1) expire_session_def by (rule minimize_terminal_minimal) simp
  then show ?thesis by (simp add: session_inv_def minimal_def)
next
  case (finalized digest token candidate)
  have "minimal tp s'"
    unfolding finalized(1) terminal_session_def
    using finalized(3) by (intro minimize_terminal_minimal) (simp add: validate_Inr)
  then show ?thesis by (simp add: session_inv_def minimal_def)
qed

text \<open>A session that ended keeps everything; an expired one may be stamped again.\<close>

lemma move_terminal:
  assumes "session_move tp s s'" and "session_inv tp s" and "vs_status s \<noteq> SsPending"
  shows "s' = s \<or> vs_status s = SsExpired
    \<and> s'\<lparr>vs_error := vs_error s, vs_updated_at := vs_updated_at s\<rparr> = s"
  using assms(1)
proof cases
  case (expired digest now)
  let ?t = "s\<lparr>vs_status := SsExpired,
     vs_error := Some ''Session expired before presentation was submitted'', vs_updated_at := now\<rparr>"
  have st: "vs_status s = SsExpired" using expired(2) assms(3) by (simp add: state_Expired)
  have "minimal tp ?t"
    using assms(2,3) by (simp add: session_inv_def minimal_def inspection_minimal_def)
  then have "s' = ?t" by (simp add: expired(1) expire_session_def minimal_fixed)
  then show ?thesis using st by simp
next
  case (claimed digest now token)
  then show ?thesis using assms(3) by (simp add: state_None)
next
  case (finalized digest token candidate)
  then show ?thesis using assms(3) by (simp add: refusal_None)
qed simp

lemma move_digest:
  assumes "session_move tp s s'" and "session_inv tp s" and "vs_vp_token_sha256 s = Some d"
  shows "vs_vp_token_sha256 s' = Some d"
  using assms(1)
proof cases
  case (claimed digest now token)
  then show ?thesis using assms(3) by (auto simp: state_None claimed_session_def)
next
  case (expired digest now)
  then show ?thesis using assms(3) by (auto simp: expire_session_def minimize_digest)
next
  case (finalized digest token candidate)
  then show ?thesis
    using assms(3) by (auto simp: refusal_None terminal_session_def minimize_digest)
qed (use assms(3) in simp)

section \<open>Steps and moves\<close>

lemma claim_move:
  assumes "map_of m sid = Some s"
  shows "\<exists>s'. map_of (snd (claim_at tp token k digest now m)) sid = Some s' \<and> session_move tp s s'"
  using assms
  by (cases "k = sid")
    (auto simp: claim_at_def Let_def store_simps split: option.splits
      intro: session_move.intros)

lemma finalize_move:
  assumes "map_of m sid = Some s"
  shows "\<exists>s'. map_of (snd (finalize_at tp k digest token candidate m)) sid = Some s'
    \<and> session_move tp s s'"
proof (cases "k = sid \<and> finalize_refusal s digest token = None")
  case True
  then show ?thesis
    using assms
    by (auto simp: finalize_at_def Let_def store_simps split: option.splits sum.splits
        intro: session_move.intros)
next
  case False
  then show ?thesis
    using assms
    by (auto simp: finalize_at_def Let_def store_simps split: option.splits sum.splits
        intro: session_move.stay)
qed

lemma step_move:
  assumes "session_step tp m m'" and "map_of m sid = Some s"
  shows "\<exists>s'. map_of m' sid = Some s' \<and> session_move tp s s'"
  using assms(1)
proof cases
  case (start session_uuid flow_uuid nonce request now session actor)
  then have "vs_session_id session \<noteq> sid" using assms(2) by auto
  then show ?thesis
    using start(1) assms(2)
    by (auto simp: save_session_def Let_def store_simps intro: session_move.stay)
qed (use assms(2) in \<open>auto intro: claim_move finalize_move\<close>)

lemma session_new_fields:
  assumes "session_new tp u f nonce request now = Inr s"
  shows "vs_status s = SsPending" "vs_vp_token_sha256 s = None" "vs_processing_token s = None"
    "vs_processing_expires_at s = None" "vs_session_id s = tp_uuid_show tp u"
    "vs_organization_id s = sr_organization_id request" "vs_nonce s = nonce"
    "vs_presentation_policy_id s = sr_presentation_policy_id request"
    "vs_callback_url s = None" "vs_vp_token s = None"
  using assms by (auto simp: session_new_def bind_result_Inr Let_def)

text \<open>A key of the new store is an old one or belongs to the session that started.\<close>

lemma step_key:
  assumes "session_step tp m m'" and "map_of m' sid = Some s'"
  shows "(\<exists>s. map_of m sid = Some s \<and> session_move tp s s')
    \<or> map_of m sid = None \<and> vs_session_id s' = sid \<and> session_inv tp s'"
proof (cases "map_of m sid")
  case (Some s)
  then show ?thesis using step_move [OF assms(1) Some] assms(2) by auto
next
  case None
  from assms(1) show ?thesis
  proof cases
    case (start session_uuid flow_uuid nonce request now session actor)
    have "s' = session\<lparr>vs_evaluation_principal_id := actor\<rparr>"
      and "vs_session_id session = sid"
      using assms(2) None start(1) session_new_fields [OF start(2)]
      by (auto simp: save_session_def Let_def store_simps split: if_splits)
    then show ?thesis
      using session_new_fields [OF start(2)] None by (simp add: session_inv_def)
  next
    case (claim token session_id digest now)
    then show ?thesis
      using assms(2) None
      by (auto simp: claim_at_def Let_def store_simps split: option.splits if_splits)
  next
    case (finalize session_id digest token candidate)
    then show ?thesis
      using assms(2) None
      by (auto simp: finalize_at_def Let_def store_simps split: option.splits if_splits sum.splits)
  qed
qed

lemma step_wf: "session_step tp m m' \<Longrightarrow> bt_wf m \<Longrightarrow> bt_wf m'"
  by (erule session_step.cases)
    (auto simp: save_session_def claim_at_def finalize_at_def Let_def bt_wf_insert
      split: option.splits sum.splits)

lemma step_inv: "session_step tp m m' \<Longrightarrow> sessions_inv tp m \<Longrightarrow> sessions_inv tp m'"
  unfolding sessions_inv_def using step_key step_wf move_id move_inv by (metis (no_types, lifting))

lemma reachable_inv_sessions: "sessions_reachable tp m \<Longrightarrow> sessions_inv tp m"
  unfolding sessions_reachable_def
proof (induction rule: rtranclp_induct)
  case base
  show ?case by (simp add: sessions_inv_def bt_wf_def)
next
  case (step m m')
  then show ?case by (blast intro: step_inv)
qed

text \<open>Facts about one session that every move keeps hold of it in every later state.\<close>

lemma steps_keep:
  assumes "(session_step tp)\<^sup>*\<^sup>* m m'" and "sessions_inv tp m"
    and "map_of m sid = Some s" and "P s"
    and keep: "\<And>s s'. session_move tp s s' \<Longrightarrow> session_inv tp s \<Longrightarrow> P s \<Longrightarrow> P s'"
  shows "\<exists>s'. map_of m' sid = Some s' \<and> P s'"
  using assms(1)
proof (induction rule: rtranclp_induct)
  case base
  show ?case using assms(3,4) by blast
next
  case (step m1 m2)
  have "sessions_inv tp m1"
    using step.hyps(1) assms(2) by (induction rule: rtranclp_induct) (blast intro: step_inv)+
  then show ?case using step.IH step_move [OF step.hyps(2)] keep by (metis sessions_inv_def)
qed

end
