(* ===== verification/Flow_Presentation.thy ===== *)
theory Flow_Presentation
  imports Third_Party Rust_Chars
begin

text \<open>
  \<open>rust/services/flow/src/presentation_request.rs\<close> with the reference types of
  \<open>providers.rs\<close>: how a presentation policy is resolved with the credential templates it names,
  and how the presentation request is assembled from them. The providers are remote services;
  they are functions here. \<open>build_presentation_request\<close> of the protocol crate is a parameter.
\<close>

section \<open>References and errors\<close>

datatype FlowProviderError =
    FpNotFound string string
  | FpConflict string string
  | FpRejected string string
  | FpInvalidResponse string string
  | FpUnavailable string
  | FpMissing string

record CredentialClaimReference =
  cc_name :: string
  cc_display_name :: string
  cc_description :: string
  cc_required :: bool
  cc_mdoc_namespace :: string
  cc_mdoc_element_identifier :: string

record WalletConfiguration =
  wc_wallet_id :: string
  wc_deep_link_scheme :: string
  wc_format_variant :: "string option"
  wc_display_name :: "string option"

record CredentialTemplateReference =
  ct_id :: string
  ct_organization_id :: string
  ct_status :: string
  ct_credential_type :: string
  ct_vct :: string
  ct_doctype :: string
  ct_supported_formats :: "string list"
  ct_claims :: "CredentialClaimReference list"
  ct_issuer_did :: string
  ct_credential_format :: string
  ct_issuance_protocol :: string
  ct_wallet_configurations :: "WalletConfiguration list"
  ct_issuer_algorithm :: "string option"

record PresentationPolicyReference =
  pr_id :: string
  pr_organization_id :: string
  pr_status :: string
  pr_credential_requirements :: "json list"

datatype FlowPresentationRequestError =
    Provider FlowProviderError
  | InvalidPolicy string
  | PolicyNotVisible
  | PolicyInactive
  | InvalidTemplate string
  | TemplateNotVisible
  | TemplateInactive
  | Native string

text \<open>The two registry entries this module uses; a registry may lack either.\<close>

record flow_providers =
  fp_get_policy :: "(string \<Rightarrow> FlowProviderError + PresentationPolicyReference) option"
  fp_get_template :: "(string \<Rightarrow> FlowProviderError + CredentialTemplateReference) option"
  fp_wallet_formats :: "string \<Rightarrow> FlowProviderError + string list"

section \<open>Messages\<close>

text \<open>A loop over an enumerated list that stops at the first error.\<close>

fun collect_from :: "(nat \<Rightarrow> 'a \<Rightarrow> 'e + 'b) \<Rightarrow> nat \<Rightarrow> 'a list \<Rightarrow> 'e + 'b list" where
  "collect_from f i [] = Inr []"
| "collect_from f i (x # xs) =
     bind_result (f i x) (\<lambda>y. bind_result (collect_from f (Suc i) xs) (\<lambda>ys. Inr (y # ys)))"

section \<open>Resolving a policy\<close>

definition validate_template ::
  "CredentialTemplateReference \<Rightarrow> string \<Rightarrow> string \<Rightarrow> FlowPresentationRequestError + unit" where
  "validate_template template template_id organization_id =
     (if ct_id template \<noteq> template_id \<or> ct_organization_id template \<noteq> organization_id
      then Inl TemplateNotVisible
      else if \<not> eq_ignore_ascii_case (ct_status template) ''active'' then Inl TemplateInactive
      else if ct_supported_formats template = [] then Inl (InvalidTemplate template_id)
      else Inr ())"

definition template_named :: "jmap \<Rightarrow> string option" where
  "template_named object =
     (case Option.bind (map_of object ''credential_template_id'') as_str of
        None \<Rightarrow> None
      | Some value \<Rightarrow> if blank value then None else Some value)"

definition resolve_requirement ::
  "(string \<Rightarrow> FlowProviderError + CredentialTemplateReference) \<Rightarrow> string \<Rightarrow> nat \<Rightarrow> json
   \<Rightarrow> FlowPresentationRequestError + (json \<times> CredentialTemplateReference)" where
  "resolve_requirement get_template organization_id index requirement =
     bind_result (ok_or (InvalidPolicy (''requirement '' @ show_nat index @ '' must be an object''))
        (as_object requirement)) (\<lambda>object.
     bind_result (ok_or (InvalidPolicy (''requirement '' @ show_nat index @ '' has no credential template''))
        (template_named object)) (\<lambda>template_id.
     bind_result (map_err Provider (get_template template_id)) (\<lambda>template.
     bind_result (validate_template template template_id organization_id) (\<lambda>_.
     Inr (requirement, template)))))"

definition resolve_flow_presentation_policy ::
  "flow_providers \<Rightarrow> string \<Rightarrow> string \<Rightarrow> FlowPresentationRequestError
     + PresentationPolicyReference \<times> (json \<times> CredentialTemplateReference) list" where
  "resolve_flow_presentation_policy providers presentation_policy_id organization_id =
     (if blank presentation_policy_id \<or> blank organization_id
      then Inl (InvalidPolicy ''policy and organization are required'')
      else
        bind_result (ok_or (Provider (FpUnavailable ''presentation_policy''))
           (fp_get_policy providers)) (\<lambda>get_policy.
        bind_result (ok_or (Provider (FpUnavailable ''credential_template''))
           (fp_get_template providers)) (\<lambda>get_template.
        bind_result (map_err Provider (get_policy presentation_policy_id)) (\<lambda>policy.
        if pr_id policy \<noteq> presentation_policy_id \<or> pr_organization_id policy \<noteq> organization_id
        then Inl PolicyNotVisible
        else if \<not> eq_ignore_ascii_case (pr_status policy) ''active'' then Inl PolicyInactive
        else if pr_credential_requirements policy = []
        then Inl (InvalidPolicy ''policy has no credential requirements'')
        else
          bind_result (collect_from (resolve_requirement get_template organization_id) 0
             (pr_credential_requirements policy)) (\<lambda>requirements.
          Inr (policy, requirements))))))"

section \<open>Building the request\<close>

record RequestedClaimInput =
  rc_claim_name :: string
  rc_display_name :: "string option"
  rc_purpose :: "string option"
  rc_required :: bool
  rc_intent_to_retain :: bool

record MdocClaimInput =
  mc_claim_name :: string
  mc_namespace :: string
  mc_element_identifier :: string

record PresentationRequirementInput =
  ri_id :: "string option"
  ri_display_name :: "string option"
  ri_description :: "string option"
  ri_credential_type :: "string option"
  ri_credential_vct :: "string option"
  ri_credential_doctype :: "string option"
  ri_supported_formats :: "string list"
  ri_requested_claims :: "RequestedClaimInput list"
  ri_mdoc_claims :: "MdocClaimInput list"

record PresentationRequestBuildInput =
  bi_id :: string
  bi_requirements :: "PresentationRequirementInput list"
  bi_wallet_formats :: "string list"

definition optional_string :: "json option \<Rightarrow> string option" where
  "optional_string value =
     Option.bind (Option.bind value as_str)
       (\<lambda>s. if trim s \<noteq> [] then Some (trim s) else None)"

definition nonempty :: "string \<Rightarrow> string option" where
  "nonempty value = (if \<not> blank value then Some value else None)"

definition bool_or_false :: "json option \<Rightarrow> bool" where
  "bool_or_false value = (case Option.bind value as_bool of None \<Rightarrow> False | Some b \<Rightarrow> b)"

definition requested_claim ::
  "nat \<Rightarrow> nat \<Rightarrow> json \<Rightarrow> FlowPresentationRequestError + RequestedClaimInput" where
  "requested_claim requirement_index claim_index value =
     (let place = ''requirement '' @ show_nat requirement_index @ '' claim '' @ show_nat claim_index in
      bind_result (ok_or (InvalidPolicy (place @ '' must be an object'')) (as_object value)) (\<lambda>object.
      bind_result (ok_or (InvalidPolicy (place @ '' has no name''))
         (Option.bind (Option.bind (map_of object ''claim_name'') as_str) nonempty)) (\<lambda>claim_name.
      Inr \<lparr> rc_claim_name = claim_name,
        rc_display_name = optional_string (map_of object ''display_name''),
        rc_purpose = optional_string (map_of object ''purpose''),
        rc_required = bool_or_false (map_of object ''required''),
        rc_intent_to_retain = bool_or_false (map_of object ''intent_to_retain'') \<rparr>)))"

definition requested_claims ::
  "json option \<Rightarrow> nat \<Rightarrow> FlowPresentationRequestError + RequestedClaimInput list" where
  "requested_claims value requirement_index =
     (case value of
        None \<Rightarrow> Inr []
      | Some value \<Rightarrow>
          bind_result (ok_or (InvalidPolicy (''requirement '' @ show_nat requirement_index
             @ '' requested_claims must be an array'')) (as_array value)) (\<lambda>values.
          collect_from (requested_claim requirement_index) 0 values))"

definition mdoc_claim :: "CredentialClaimReference \<Rightarrow> MdocClaimInput" where
  "mdoc_claim claim =
     \<lparr> mc_claim_name = cc_name claim, mc_namespace = cc_mdoc_namespace claim,
       mc_element_identifier =
         (if blank (cc_mdoc_element_identifier claim) then cc_name claim
          else cc_mdoc_element_identifier claim) \<rparr>"

definition requirement_input ::
  "nat \<Rightarrow> json \<times> CredentialTemplateReference
   \<Rightarrow> FlowPresentationRequestError + PresentationRequirementInput" where
  "requirement_input index rt =
     (let (requirement, template) = rt in
      bind_result (ok_or (InvalidPolicy (''requirement '' @ show_nat index @ '' must be an object''))
         (as_object requirement)) (\<lambda>object.
      bind_result (requested_claims (map_of object ''requested_claims'') index) (\<lambda>claims.
      Inr \<lparr> ri_id = optional_string (map_of object ''id''),
        ri_display_name = optional_string (map_of object ''display_name''),
        ri_description = optional_string (map_of object ''description''),
        ri_credential_type = nonempty (ct_credential_type template),
        ri_credential_vct = nonempty (ct_vct template),
        ri_credential_doctype = nonempty (ct_doctype template),
        ri_supported_formats = ct_supported_formats template,
        ri_requested_claims = claims,
        ri_mdoc_claims = map mdoc_claim
          (filter (\<lambda>claim. \<not> blank (cc_mdoc_namespace claim)) (ct_claims template)) \<rparr>)))"

definition build_flow_presentation_request ::
  "flow_providers \<Rightarrow> (PresentationRequestBuildInput \<Rightarrow> string + 'a) \<Rightarrow> string \<Rightarrow> string \<Rightarrow> string
   \<Rightarrow> FlowPresentationRequestError + 'a" where
  "build_flow_presentation_request providers build_request fresh_id presentation_policy_id
     organization_id =
     bind_result (ok_or (Provider (FpUnavailable ''credential_template''))
        (fp_get_template providers)) (\<lambda>_.
     bind_result (resolve_flow_presentation_policy providers presentation_policy_id organization_id)
       (\<lambda>(policy, resolved).
     bind_result (collect_from requirement_input 0 resolved) (\<lambda>requirements.
     bind_result (map_err Provider (fp_wallet_formats providers organization_id)) (\<lambda>wallet_formats.
     map_err Native (build_request
       \<lparr> bi_id = fresh_id, bi_requirements = requirements,
         bi_wallet_formats = wallet_formats \<rparr>)))))"

section \<open>Facts\<close>

text \<open>A resolved requirement names its template, which is active and of the organization.\<close>

definition template_ok :: "string \<Rightarrow> json \<times> CredentialTemplateReference \<Rightarrow> bool" where
  "template_ok organization_id rt =
     (ct_organization_id (snd rt) = organization_id
      \<and> eq_ignore_ascii_case (ct_status (snd rt)) ''active''
      \<and> ct_supported_formats (snd rt) \<noteq> []
      \<and> Option.bind (Option.bind (as_object (fst rt)) (\<lambda>m. map_of m ''credential_template_id'')) as_str
          = Some (ct_id (snd rt)))"

lemma resolve_requirement_Inr:
  "resolve_requirement get org i r = Inr rt \<Longrightarrow> fst rt = r \<and> template_ok org rt
    \<and> get (ct_id (snd rt)) = Inr (snd rt)"
  by (auto simp: resolve_requirement_def bind_result_Inr validate_template_def template_ok_def
      template_named_def split: if_splits option.splits)

lemma resolve_requirements_Inr:
  "collect_from (resolve_requirement get org) i rs = Inr rts \<Longrightarrow>
     map fst rts = rs \<and> (\<forall>rt \<in> set rts. template_ok org rt \<and> get (ct_id (snd rt)) = Inr (snd rt))"
proof (induction rs arbitrary: i rts)
  case (Cons r rs)
  obtain x xs where "resolve_requirement get org i r = Inr x"
    and rest: "collect_from (resolve_requirement get org) (Suc i) rs = Inr xs" and "rts = x # xs"
    using Cons.prems by (auto simp: bind_result_Inr)
  then show ?case using resolve_requirement_Inr Cons.IH [OF rest] by auto
qed simp

lemma resolve_policy_Inr:
  assumes "resolve_flow_presentation_policy fp pid org = Inr (policy, rts)"
  obtains get_policy get_template where "fp_get_policy fp = Some get_policy"
    and "fp_get_template fp = Some get_template" and "get_policy pid = Inr policy"
    and "pr_id policy = pid" "pr_organization_id policy = org"
    and "eq_ignore_ascii_case (pr_status policy) ''active''"
    and "rts \<noteq> []" "map fst rts = pr_credential_requirements policy"
    and "\<forall>rt \<in> set rts. template_ok org rt \<and> get_template (ct_id (snd rt)) = Inr (snd rt)"
    and "\<not> blank pid" "\<not> blank org"
proof -
  obtain get_policy get_template where a: "\<not> blank pid" "\<not> blank org"
    "fp_get_policy fp = Some get_policy" "fp_get_template fp = Some get_template"
    "get_policy pid = Inr policy" "pr_id policy = pid" "pr_organization_id policy = org"
    "eq_ignore_ascii_case (pr_status policy) ''active''" "pr_credential_requirements policy \<noteq> []"
    and rts: "collect_from (resolve_requirement get_template org) 0 (pr_credential_requirements policy)
      = Inr rts"
    using assms
    by (auto simp: resolve_flow_presentation_policy_def bind_result_Inr split: if_splits)
  note b = resolve_requirements_Inr [OF rts]
  then have "rts \<noteq> []" using a(9) by auto
  from that [OF a(3-8) this b [THEN conjunct1] b [THEN conjunct2] a(1,2)] show thesis .
qed

end
