(* ===== verification/Verification_Service.thy ===== *)
theory Verification_Service
  imports Verification_Sessions Flow_Presentation
begin

text \<open>
  \<open>rust/services/verification/src/service.rs\<close>: every operation of the verification service.
  The service works on any session store (the trait \<open>SessionStore\<close>), so its store is a record of
  operations on a state; the in-memory store is one instance. Providers and the two
  authorization functions of the security crate are functions. A submission releases the
  store between its claim and its finalization, so these are separate definitions.
\<close>

section \<open>Stores, providers, principals\<close>

record 's session_store =
  ss_save :: "VerificationSession \<Rightarrow> 's \<Rightarrow> (StoreError + unit) \<times> 's"
  ss_get :: "string \<Rightarrow> 's \<Rightarrow> (StoreError + VerificationSession option) \<times> 's"
  ss_list :: "string \<Rightarrow> string option \<Rightarrow> 's \<Rightarrow> (StoreError + VerificationSession list) \<times> 's"
  ss_claim :: "string \<Rightarrow> string \<Rightarrow> 's \<Rightarrow> (StoreError + SubmissionTransition) \<times> 's"
  ss_finalize :: "string \<Rightarrow> string \<Rightarrow> string \<Rightarrow> VerificationSession \<Rightarrow> 's
    \<Rightarrow> (StoreError + SubmissionTransition) \<times> 's"

text \<open>The in-memory store at an instant, with the token the claim would draw.\<close>

definition memory_store :: "third_party \<Rightarrow> time \<Rightarrow> string \<Rightarrow> MemorySessionStore session_store" where
  "memory_store tp now token =
     \<lparr> ss_save = (\<lambda>session m. (Inr (), save_session tp session m)),
       ss_get = (\<lambda>sid m. (Inr (get_at tp sid now m), m)),
       ss_list = (\<lambda>org status m. (Inr (list_by_org org status m), m)),
       ss_claim = (\<lambda>sid digest m. apfst Inr (claim_at tp token sid digest now m)),
       ss_finalize = (\<lambda>sid digest token candidate m. finalize_at tp sid digest token candidate m) \<rparr>"

record ManagementPrincipal =
  mp_user_id :: string
  mp_organization_id :: string
  mp_api_key_id :: string
  mp_api_key_scopes :: string
  mp_required_permission :: string

record PresentationEvaluationRequest =
  pe_policy_id :: string
  pe_organization_id :: string
  pe_principal_id :: string
  pe_presentation :: string
  pe_nonce :: string
  pe_audience :: string
  pe_context :: jmap

text \<open>The failures of the security crate: the service tells one of them apart.\<close>

datatype TenantAuthorizationFailure = AuthenticationRequired | OtherFailure

record 'm verification_providers =
  vp_flow :: flow_providers
  vp_membership :: "string \<Rightarrow> string \<Rightarrow> string + 'm option"
  vp_evaluate :: "PresentationEvaluationRequest \<Rightarrow> VerificationError + EvaluationResult"
  vp_inspect :: "string \<Rightarrow> VerificationError + string option"
  vp_authorize_api_key :: "string \<Rightarrow> string \<Rightarrow> string \<Rightarrow> string \<Rightarrow> string \<Rightarrow> string \<Rightarrow> bool"
  vp_authorize_membership ::
    "string \<Rightarrow> string \<Rightarrow> string \<Rightarrow> 'm option \<Rightarrow> TenantAuthorizationFailure + unit"

record ('s, 'm) VerificationService =
  vc_store :: "'s session_store"
  vc_providers :: "'m verification_providers"
  vc_public_base_url :: string
  vc_management_authorization :: bool

definition API_KEY_SCOPES :: "string list" where
  "API_KEY_SCOPES = [''credentials:read'', ''flows:execute'', ''admin:full'']"

section \<open>Errors\<close>

definition coordination :: VerificationError where
  "coordination = Coordination ''Verification session coordination unavailable''"

definition submission_error :: "SubmissionOutcome \<Rightarrow> VerificationError" where
  "submission_error outcome =
     (case outcome of
        SoMissing \<Rightarrow> NotFound ''Session not found''
      | SoExpired \<Rightarrow> Gone ''Session expired''
      | SoConflict \<Rightarrow> Conflict ''Session is already bound to a different presentation''
      | SoBusy \<Rightarrow> Conflict ''Presentation evaluation is already in progress''
      | _ \<Rightarrow> coordination)"

definition map_authorization :: "TenantAuthorizationFailure \<Rightarrow> VerificationError" where
  "map_authorization error =
     (case error of
        AuthenticationRequired \<Rightarrow> Unauthorized ''Authentication required''
      | OtherFailure \<Rightarrow> Forbidden ''Permission denied'')"

definition map_policy_provider :: "FlowProviderError \<Rightarrow> VerificationError" where
  "map_policy_provider error =
     (case error of
        FpNotFound _ _ \<Rightarrow> NotFound ''Presentation policy not found''
      | _ \<Rightarrow> Dependency ''Presentation policy service unavailable'')"

definition map_presentation_error :: "FlowPresentationRequestError \<Rightarrow> VerificationError" where
  "map_presentation_error error =
     (case error of
        PolicyNotVisible \<Rightarrow> NotFound ''Presentation policy not found''
      | PolicyInactive \<Rightarrow> Conflict ''Presentation policy is not active''
      | TemplateNotVisible \<Rightarrow> NotFound ''Credential template not found''
      | TemplateInactive \<Rightarrow> Conflict ''Credential template is not active''
      | Provider (FpNotFound provider _) \<Rightarrow>
          if provider = ''credential_template'' then NotFound ''Credential template not found''
          else NotFound ''Presentation policy not found''
      | InvalidPolicy _ \<Rightarrow>
          Conflict ''Presentation policy contains an invalid credential requirement''
      | InvalidTemplate _ \<Rightarrow>
          Conflict ''Presentation policy contains an invalid credential requirement''
      | _ \<Rightarrow> Dependency ''Presentation policy service unavailable'')"

section \<open>Validation\<close>

definition at_most :: "nat \<Rightarrow> string option \<Rightarrow> bool" where
  "at_most n value = (case value of None \<Rightarrow> True | Some v \<Rightarrow> length v \<le> n)"

definition validate_start :: "StartVerificationRequest \<Rightarrow> VerificationError + unit" where
  "validate_start body =
     (if length (sr_organization_id body) \<le> 255
         \<and> at_most 255 (sr_presentation_policy_id body)
         \<and> length (sr_response_type body) \<le> 50
         \<and> at_most 255 (sr_trust_profile_id body)
         \<and> at_most 255 (sr_deployment_profile_id body)
         \<and> at_most 500 (sr_external_reference body)
         \<and> at_most 2048 (sr_callback_url body)
         \<and> length (sr_purpose body) \<le> 1000
      then Inr () else Inl (BadRequest ''Request validation failed''))"

definition validate_evaluate :: "EvaluateRequest \<Rightarrow> VerificationError + unit" where
  "validate_evaluate body =
     (if length (er_vp_token body) \<le> 1000000
         \<and> length (er_presentation_policy_id body) \<le> 255
         \<and> at_most 512 (er_nonce body) \<and> at_most 512 (er_audience body)
      then Inr () else Inl (BadRequest ''Request validation failed''))"

section \<open>Authorization and references\<close>

definition api_context :: "ManagementPrincipal \<Rightarrow> bool" where
  "api_context actor =
     (starts_with ''api_key:'' (mp_user_id actor)
      \<or> mp_api_key_id actor \<noteq> [] \<or> \<not> blank (mp_api_key_scopes actor))"

definition scope_allowed :: "ManagementPrincipal \<Rightarrow> bool" where
  "scope_allowed actor =
     list_ex (\<lambda>scope. scope \<in> set API_KEY_SCOPES)
       (filter (\<lambda>scope. scope \<noteq> [])
         (map trim (split_on (CHR '','') (mp_api_key_scopes actor))))"

definition authorize ::
  "('s, 'm) VerificationService \<Rightarrow> ManagementPrincipal \<Rightarrow> string \<Rightarrow> VerificationError + unit" where
  "authorize svc actor organization_id =
     (let pv = vc_providers svc in
      if \<not> vc_management_authorization svc then Inr ()
      else if blank (mp_user_id actor) then Inl (Unauthorized ''Authentication required'')
      else if api_context actor then
        (if \<not> scope_allowed actor
            \<or> \<not> vp_authorize_api_key pv ''verification:execute'' (mp_user_id actor)
                  organization_id (mp_api_key_id actor) (mp_organization_id actor)
                  (mp_required_permission actor)
         then Inl (Forbidden ''API key is not authorized to execute verification'')
         else Inr ())
      else
        bind_result (map_err (\<lambda>_. Dependency ''Organization service unavailable'')
           (vp_membership pv (mp_user_id actor) organization_id)) (\<lambda>membership.
        map_err map_authorization
          (vp_authorize_membership pv ''verification:execute'' (mp_user_id actor)
             organization_id membership)))"

definition policy_reference ::
  "('s, 'm) VerificationService \<Rightarrow> string \<Rightarrow> VerificationError + PresentationPolicyReference" where
  "policy_reference svc policy_id =
     bind_result (ok_or (Dependency ''Presentation policy service unavailable'')
        (fp_get_policy (vp_flow (vc_providers svc)))) (\<lambda>get_policy.
     map_err map_policy_provider (get_policy policy_id))"

definition resolve_policy ::
  "('s, 'm) VerificationService \<Rightarrow> string \<Rightarrow> string \<Rightarrow> VerificationError + unit" where
  "resolve_policy svc policy_id organization_id =
     bind_result (map_err map_presentation_error
        (resolve_flow_presentation_policy (vp_flow (vc_providers svc)) policy_id organization_id))
       (\<lambda>_. Inr ())"

text \<open>\<open>trim_end_matches\<close> of a non-empty text.\<close>

function trim_end_matches :: "string \<Rightarrow> string \<Rightarrow> string" where
  "trim_end_matches p s =
     (if p \<noteq> [] \<and> s \<noteq> [] \<and> ends_with p s
      then trim_end_matches p (take (length s - length p) s) else s)"
  by pat_completeness auto
termination by (relation "measure (\<lambda>(p, s). length s)") auto

declare trim_end_matches.simps [simp del]

definition request_uri :: "('s, 'm) VerificationService \<Rightarrow> string \<Rightarrow> string" where
  "request_uri svc session_id =
     trim_end_matches ''/'' (vc_public_base_url svc) @ ''/v1/verify/'' @ session_id @ ''/request''"

definition stored_session ::
  "('s, 'm) VerificationService \<Rightarrow> string \<Rightarrow> 's \<Rightarrow> (VerificationError + VerificationSession) \<times> 's" where
  "stored_session svc session_id s =
     (case ss_get (vc_store svc) session_id s of
        (Inl _, s) \<Rightarrow> (Inl coordination, s)
      | (Inr None, s) \<Rightarrow> (Inl (NotFound ''Session not found''), s)
      | (Inr (Some session), s) \<Rightarrow> (Inr session, s))"

section \<open>Starting and reading sessions\<close>

text \<open>The checks of a start, in the order of the code.\<close>

definition start_checks ::
  "('s, 'm) VerificationService \<Rightarrow> StartVerificationRequest \<Rightarrow> ManagementPrincipal
   \<Rightarrow> VerificationError + unit" where
  "start_checks svc body actor =
     bind_result (validate_start body) (\<lambda>_.
     if sr_response_type body = ''vp_token'' \<and> blank (mp_user_id actor)
     then Inl (Unauthorized ''Authenticated initiating principal is required'')
     else if \<not> blank (mp_organization_id actor) \<and> \<not> blank (sr_organization_id body)
          \<and> mp_organization_id actor \<noteq> sr_organization_id body
     then Inl (Forbidden ''Organization mismatch'')
     else if sr_response_type body = ''vp_token'' \<and> sr_presentation_policy_id body = None
     then Inl (BadRequest ''presentation_policy_id is required for vp_token response_type'')
     else if sr_callback_url body \<noteq> None
     then Inl (BadRequest ''Standalone Verification callbacks are not supported; use the Flow service transactional callback outbox'')
     else if vc_management_authorization svc
          \<and> (sr_trust_profile_id body \<noteq> None \<or> sr_deployment_profile_id body \<noteq> None)
     then Inl (BadRequest ''Standalone trust/deployment profile overrides are not supported; use the Flow verification endpoint'')
     else if vc_management_authorization svc then
       bind_result (authorize svc actor (sr_organization_id body)) (\<lambda>_.
       case sr_presentation_policy_id body of
         None \<Rightarrow> Inr ()
       | Some policy_id \<Rightarrow> resolve_policy svc policy_id (sr_organization_id body))
     else Inr ())"

definition save_started ::
  "('s, 'm) VerificationService \<Rightarrow> VerificationSession \<Rightarrow> 's \<Rightarrow> (VerificationError + VerificationSession) \<times> 's" where
  "save_started svc session s =
     (case ss_save (vc_store svc) session s of
        (Inl _, s) \<Rightarrow> (Inl coordination, s)
      | (Inr _, s) \<Rightarrow> (Inr session, s))"

definition start_session ::
  "third_party \<Rightarrow> ('s, 'm) VerificationService \<Rightarrow> uuid \<Rightarrow> uuid \<Rightarrow> string \<Rightarrow> StartVerificationRequest
   \<Rightarrow> ManagementPrincipal \<Rightarrow> time \<Rightarrow> 's \<Rightarrow> (VerificationError + VerificationSession) \<times> 's" where
  "start_session tp svc session_uuid flow_uuid nonce body actor now s =
     (case start_checks svc body actor of
        Inl e \<Rightarrow> (Inl e, s)
      | Inr _ \<Rightarrow>
          (case session_new tp session_uuid flow_uuid nonce body now of
             Inl e \<Rightarrow> (Inl e, s)
           | Inr session \<Rightarrow> save_started svc (session\<lparr>vs_evaluation_principal_id := mp_user_id actor\<rparr>) s))"

definition start_response ::
  "third_party \<Rightarrow> ('s, 'm) VerificationService \<Rightarrow> VerificationSession \<Rightarrow> jmap" where
  "start_response tp svc session =
     (let response = protocol_value tp session;
          uri = request_uri svc (vs_session_id session);
          response = map_insert ''request_uri'' (JStr uri) response
      in map_insert ''qr_code_data''
           (JStr (''openid4vp://authorize?request_uri='' @ uri)) response)"

definition start_verification ::
  "third_party \<Rightarrow> ('s, 'm) VerificationService \<Rightarrow> uuid \<Rightarrow> uuid \<Rightarrow> string \<Rightarrow> StartVerificationRequest
   \<Rightarrow> ManagementPrincipal \<Rightarrow> time \<Rightarrow> 's \<Rightarrow> (VerificationError + jmap) \<times> 's" where
  "start_verification tp svc session_uuid flow_uuid nonce body actor now s =
     (case start_session tp svc session_uuid flow_uuid nonce body actor now s of
        (Inl e, s) \<Rightarrow> (Inl e, s)
      | (Inr session, s) \<Rightarrow> (Inr (start_response tp svc session), s))"

definition list_sessions ::
  "third_party \<Rightarrow> ('s, 'm) VerificationService \<Rightarrow> string \<Rightarrow> string option \<Rightarrow> nat \<Rightarrow> nat
   \<Rightarrow> ManagementPrincipal \<Rightarrow> 's \<Rightarrow> (VerificationError + jmap) \<times> 's" where
  "list_sessions tp svc organization_id status limit offset actor s =
     (case authorize svc actor organization_id of
        Inl e \<Rightarrow> (Inl e, s)
      | Inr _ \<Rightarrow>
          (case ss_list (vc_store svc) organization_id status s of
             (Inl _, s) \<Rightarrow> (Inl coordination, s)
           | (Inr sessions, s) \<Rightarrow>
               let page = map (\<lambda>session. JObj (protocol_value tp session))
                            (take limit (drop offset sessions))
               in (Inr [(''sessions'', JArr page),
                        (''total'', json_of_int (int (length sessions)))], s)))"

definition get_session ::
  "third_party \<Rightarrow> ('s, 'm) VerificationService \<Rightarrow> string \<Rightarrow> ManagementPrincipal \<Rightarrow> 's
   \<Rightarrow> (VerificationError + jmap) \<times> 's" where
  "get_session tp svc session_id actor s =
     (case stored_session svc session_id s of
        (Inl e, s) \<Rightarrow> (Inl e, s)
      | (Inr session, s) \<Rightarrow>
          (bind_result (authorize svc actor (vs_organization_id session))
             (\<lambda>_. Inr (protocol_value tp session)), s))"

definition inspection ::
  "third_party \<Rightarrow> ('s, 'm) VerificationService \<Rightarrow> string \<Rightarrow> ManagementPrincipal \<Rightarrow> 's
   \<Rightarrow> (VerificationError + jmap) \<times> 's" where
  "inspection tp svc session_id actor s =
     (case stored_session svc session_id s of
        (Inl e, s) \<Rightarrow> (Inl e, s)
      | (Inr session, s) \<Rightarrow>
          (bind_result (authorize svc actor (vs_organization_id session)) (\<lambda>_. Inr
             [(''session_id'', JStr session_id),
              (''performed'', JBool (vs_inspection_performed session)),
              (''result'', JStr (vs_inspection_result session)),
              (''result_sha256'', json_opt_str (vs_inspection_result_sha256 session)),
              (''timestamp'', JStr (case vs_completed_at session of
                                      None \<Rightarrow> [] | Some t \<Rightarrow> tp_rfc3339 tp t))]), s))"

definition request_object ::
  "('s, 'm) VerificationService \<Rightarrow> (PresentationRequestBuildInput \<Rightarrow> string + json) \<Rightarrow> string
   \<Rightarrow> string \<Rightarrow> 's \<Rightarrow> (VerificationError + jmap) \<times> 's" where
  "request_object svc build_request fresh_id session_id s =
     (case stored_session svc session_id s of
        (Inl e, s) \<Rightarrow> (Inl e, s)
      | (Inr session, s) \<Rightarrow>
          (let response_uri =
             trim_end_matches ''/request'' (request_uri svc session_id) @ ''/submit'' in
           if vs_status session = SsExpired then Inl (Gone ''Session expired'')
           else if vs_response_type session = ''id_token'' then
             Inr [(''response_type'', JStr ''id_token''),
                  (''client_id'', JStr (vc_public_base_url svc)),
                  (''nonce'', JStr (vs_nonce session)),
                  (''response_uri'', JStr response_uri),
                  (''scope'', JStr ''openid'')]
           else
             bind_result (ok_or (Conflict ''Verification session has no saved presentation policy'')
                (vs_presentation_policy_id session)) (\<lambda>policy_id.
             bind_result (map_err map_presentation_error
                (build_flow_presentation_request (vp_flow (vc_providers svc)) build_request fresh_id
                   policy_id (vs_organization_id session))) (\<lambda>dcql_query.
             Inr [(''response_type'', JStr (vs_response_type session)),
                  (''client_id'', JStr (vc_public_base_url svc)),
                  (''nonce'', JStr (vs_nonce session)),
                  (''response_uri'', JStr response_uri),
                  (''dcql_query'', dcql_query)])), s))"

section \<open>Submissions\<close>

definition apply_evaluation :: "VerificationSession \<Rightarrow> EvaluationResult \<Rightarrow> VerificationSession" where
  "apply_evaluation session result =
     (let normalized = evaluation_as_value result;
          normalized = (case ev_holder_binding_evidence result of
            None \<Rightarrow> normalized
          | Some evidence \<Rightarrow> map_insert ''holder_binding_evidence'' evidence normalized)
      in session\<lparr>
        vs_result := Some (if ev_result result = [] then ''failed'' else ev_result result),
        vs_decision := Some (if ev_decision result = [] then ''deny'' else ev_decision result),
        vs_decision_reason := ev_decision_reason result,
        vs_verified_claims := ev_verified_claims result,
        vs_credential_results := ev_credential_results result,
        vs_holder_binding_evidence := normalize_holder_binding (JObj normalized),
        vs_total_requirements := ev_total_requirements result,
        vs_satisfied_requirements := ev_satisfied_requirements result,
        vs_error := None\<rparr>)"

definition evaluation_failed :: "VerificationSession \<Rightarrow> VerificationSession" where
  "evaluation_failed session =
     session\<lparr>vs_result := Some ''failed'', vs_decision := Some ''deny'',
       vs_decision_reason := ''Credential evaluation failed'',
       vs_holder_binding_evidence := None, vs_total_requirements := 0,
       vs_satisfied_requirements := 0, vs_error := Some ''Credential evaluation failed''\<rparr>"

definition evaluation_request :: "VerificationSession \<Rightarrow> string \<Rightarrow> string \<Rightarrow> PresentationEvaluationRequest" where
  "evaluation_request session session_id vp_token =
     \<lparr> pe_policy_id = (case vs_presentation_policy_id session of None \<Rightarrow> [] | Some p \<Rightarrow> p),
       pe_organization_id = vs_organization_id session,
       pe_principal_id = vs_evaluation_principal_id session,
       pe_presentation = vp_token, pe_nonce = vs_nonce session, pe_audience = [],
       pe_context = [(''session_id'', JStr session_id)] \<rparr>"

text \<open>What the holder of a claim computes before it finalizes: the candidate session.\<close>

definition evaluated_session ::
  "('s, 'm) VerificationService \<Rightarrow> string \<Rightarrow> string \<Rightarrow> time \<Rightarrow> VerificationSession \<Rightarrow> VerificationSession" where
  "evaluated_session svc session_id vp_token completed_at session =
     (let pv = vc_providers svc;
          session =
            (case vp_evaluate pv (evaluation_request session session_id vp_token) of
               Inr result \<Rightarrow> apply_evaluation session result
             | Inl _ \<Rightarrow> evaluation_failed session);
          session =
            (if vs_result session = Some ''failed'' then session
             else case vp_inspect pv vp_token of
               Inr (Some result) \<Rightarrow>
                 session\<lparr>vs_inspection_performed := True, vs_inspection_result := result\<rparr>
             | _ \<Rightarrow> session)
      in session\<lparr>vs_status := (if vs_result session = Some ''passed'' then SsCompleted else SsFailed),
           vs_completed_at := Some completed_at, vs_updated_at := completed_at\<rparr>)"

text \<open>A claim either ends the request or hands out a session and a lease token.\<close>

datatype submission = Finished VerificationSession | Granted VerificationSession string

definition submit_references ::
  "('s, 'm) VerificationService \<Rightarrow> string \<Rightarrow> bool \<Rightarrow> 's \<Rightarrow> (VerificationError + unit) \<times> 's" where
  "submit_references svc session_id validate_references s =
     (if validate_references then
        (case stored_session svc session_id s of
           (Inl e, s) \<Rightarrow> (Inl e, s)
         | (Inr session, s) \<Rightarrow>
             (bind_result (ok_or (Conflict ''Verification session has no saved presentation policy'')
                (vs_presentation_policy_id session)) (\<lambda>policy_id.
              resolve_policy svc policy_id (vs_organization_id session)), s))
      else (Inr (), s))"

definition submit_claim ::
  "('s, 'm) VerificationService \<Rightarrow> string \<Rightarrow> string \<Rightarrow> 's \<Rightarrow> (VerificationError + submission) \<times> 's" where
  "submit_claim svc session_id digest s =
     (case ss_claim (vc_store svc) session_id digest s of
        (Inl _, s) \<Rightarrow> (Inl coordination, s)
      | (Inr transition, s) \<Rightarrow>
          (if st_outcome transition = SoDuplicate
           then bind_result (ok_or coordination (st_session transition)) (\<lambda>session.
                  Inr (Finished session))
           else if st_outcome transition \<noteq> SoClaimed
           then Inl (submission_error (st_outcome transition))
           else bind_result (ok_or coordination (st_session transition)) (\<lambda>session.
                bind_result (ok_or coordination (st_token transition)) (\<lambda>token.
                Inr (Granted session token))), s))"

definition submit_finalize ::
  "('s, 'm) VerificationService \<Rightarrow> string \<Rightarrow> string \<Rightarrow> string \<Rightarrow> VerificationSession \<Rightarrow> 's
   \<Rightarrow> (VerificationError + VerificationSession) \<times> 's" where
  "submit_finalize svc session_id digest token session s =
     (case ss_finalize (vc_store svc) session_id digest token session s of
        (Inl _, s) \<Rightarrow> (Inl coordination, s)
      | (Inr finalized, s) \<Rightarrow>
          (if st_outcome finalized \<in> set [SoCommitted, SoDuplicate]
           then ok_or coordination (st_session finalized)
           else Inl (submission_error (st_outcome finalized)), s))"

text \<open>A submission that no other request interrupts.\<close>

definition submit_session ::
  "third_party \<Rightarrow> ('s, 'm) VerificationService \<Rightarrow> string \<Rightarrow> string \<Rightarrow> bool \<Rightarrow> time \<Rightarrow> 's
   \<Rightarrow> (VerificationError + VerificationSession) \<times> 's" where
  "submit_session tp svc session_id vp_token validate_references completed_at s =
     (if 1000000 < length vp_token then (Inl (BadRequest ''Request validation failed''), s)
      else case submit_references svc session_id validate_references s of
        (Inl e, s) \<Rightarrow> (Inl e, s)
      | (Inr _, s) \<Rightarrow>
          (let digest = tp_sha256_hex tp vp_token in
           case submit_claim svc session_id digest s of
             (Inl e, s) \<Rightarrow> (Inl e, s)
           | (Inr (Finished session), s) \<Rightarrow> (Inr session, s)
           | (Inr (Granted session token), s) \<Rightarrow>
               submit_finalize svc session_id digest token
                 (evaluated_session svc session_id vp_token completed_at session) s))"

definition submit_verification ::
  "third_party \<Rightarrow> ('s, 'm) VerificationService \<Rightarrow> string \<Rightarrow> string \<Rightarrow> bool \<Rightarrow> time \<Rightarrow> 's
   \<Rightarrow> (VerificationError + jmap) \<times> 's" where
  "submit_verification tp svc session_id vp_token validate_references completed_at s =
     (case submit_session tp svc session_id vp_token validate_references completed_at s of
        (Inl e, s) \<Rightarrow> (Inl e, s)
      | (Inr session, s) \<Rightarrow> (Inr (protocol_value tp session), s))"

section \<open>Direct evaluation\<close>

definition evaluate ::
  "('s, 'm) VerificationService \<Rightarrow> EvaluateRequest \<Rightarrow> ManagementPrincipal \<Rightarrow> VerificationError + jmap" where
  "evaluate svc body actor =
     bind_result (validate_evaluate body) (\<lambda>_.
     if blank (mp_user_id actor)
     then Inl (Unauthorized ''Authenticated evaluation principal is required'')
     else
       bind_result (policy_reference svc (er_presentation_policy_id body)) (\<lambda>policy.
       if \<not> eq_ignore_ascii_case (pr_status policy) ''active''
       then Inl (Conflict ''Presentation policy is not active'')
       else
         bind_result (authorize svc actor (pr_organization_id policy)) (\<lambda>_.
         bind_result (resolve_policy svc (er_presentation_policy_id body) (pr_organization_id policy)) (\<lambda>_.
         bind_result (map_err (\<lambda>_. Dependency ''Evaluation failed'')
            (vp_evaluate (vc_providers svc)
              \<lparr> pe_policy_id = er_presentation_policy_id body,
                pe_organization_id = pr_organization_id policy,
                pe_principal_id = mp_user_id actor,
                pe_presentation = er_vp_token body,
                pe_nonce = (case er_nonce body of None \<Rightarrow> [] | Some n \<Rightarrow> n),
                pe_audience = (case er_audience body of None \<Rightarrow> [] | Some a \<Rightarrow> a),
                pe_context = (case er_context body of None \<Rightarrow> []
                   | Some m \<Rightarrow> fold (\<lambda>(k, v). bt_insert k v) m []) \<rparr>)) (\<lambda>result.
         Inr (evaluation_as_value result))))))"

definition evaluate_zkp ::
  "('s, 'm) VerificationService \<Rightarrow> ZkpSubmitRequest \<Rightarrow> ManagementPrincipal \<Rightarrow> VerificationError + jmap" where
  "evaluate_zkp svc body actor =
     (let vp_token = (case zk_vp_token body of Some t \<Rightarrow> Some t | None \<Rightarrow> zk_proof body);
          policy_id = (case zk_presentation_policy_id body of
              Some p \<Rightarrow> p
            | None \<Rightarrow> (case zk_policy_id body of Some p \<Rightarrow> p | None \<Rightarrow> []))
      in case vp_token of
           None \<Rightarrow> Inl (BadRequest ''vp_token or proof is required'')
         | Some vp_token \<Rightarrow>
             if vp_token = [] then Inl (BadRequest ''vp_token or proof is required'')
             else if vc_management_authorization svc \<and> policy_id = []
             then Inl (BadRequest ''presentation_policy_id or policy_id is required'')
             else map_err (\<lambda>e. case e of Dependency _ \<Rightarrow> Dependency ''ZKP verification failed'' | _ \<Rightarrow> e)
               (evaluate svc
                  \<lparr> er_vp_token = vp_token, er_presentation_policy_id = policy_id,
                    er_nonce = zk_nonce body, er_audience = None, er_context = None \<rparr> actor))"

end
