(* ===== verification/Verification_Guarantees.thy ===== *)
theory Verification_Guarantees
  imports Verification_Service
begin

text \<open>
  What the session store guarantees in every reachable state: sessions end once, stay bound to
  one presentation, are finalized only under the current lease, and keep no secrets.
\<close>

section \<open>A concrete session\<close>

definition sample_start :: StartVerificationRequest where
  "sample_start = \<lparr> sr_organization_id = ''org'', sr_presentation_policy_id = Some ''pol'',
     sr_response_type = ''vp_token'', sr_trust_profile_id = None, sr_deployment_profile_id = None,
     sr_external_reference = None, sr_callback_url = None, sr_expiry_minutes = 15, sr_purpose = [] \<rparr>"

definition sample_session :: VerificationSession where
  "sample_session = (case session_new demo 1 2 ''nonce'' sample_start 0 of Inr s \<Rightarrow> s)"

lemma sample_session_new: "session_new demo 1 2 ''nonce'' sample_start 0 = Inr sample_session"
  by (simp add: sample_session_def session_new_def demo_def sample_start_def Let_def)

lemma sample_fields [simp]:
  "vs_session_id sample_session = ''u''" "vs_status sample_session = SsPending"
  "vs_vp_token_sha256 sample_session = None" "vs_processing_token sample_session = None"
  "vs_expires_at sample_session = seconds 900" "vs_processing_expires_at sample_session = None"
  "vs_vp_token sample_session = None" "vs_organization_id sample_session = ''org''"
  "vs_completed_at sample_session = None" "vs_callback_url sample_session = None"
  by (simp_all add: sample_session_def session_new_def demo_def sample_start_def demo_uuid_show_def
      seconds_def Let_def)

definition sample_claimed :: VerificationSession where
  "sample_claimed = claimed_session ''d'' ''tok'' 5 (sample_session\<lparr>vs_evaluation_principal_id := []\<rparr>)"

definition sample_verdict :: VerificationSession where
  "sample_verdict = sample_claimed\<lparr>vs_status := SsCompleted, vs_completed_at := Some 6,
     vs_result := Some ''passed'', vs_verified_claims := [(''age'', JStr ''1990-01-01'')],
     vs_credential_results := [JObj [(''issuer_did'', JStr ''did:i''), (''subject'', JStr ''secret''),
       (''claim_results'', JArr [JObj [(''claim_name'', JStr ''age''), (''value'', JStr ''1990-01-01'')]])]]\<rparr>"

definition sample_done :: VerificationSession where
  "sample_done = terminal_session demo ''d'' sample_verdict"

lemma sample_claimed_simps [simp]:
  "vs_status sample_claimed = SsPending" "vs_vp_token_sha256 sample_claimed = Some ''d''"
  "vs_processing_token sample_claimed = Some ''tok''" "vs_session_id sample_claimed = ''u''"
  "vs_processing_expires_at sample_claimed = Some (5 + seconds 30)"
  by (simp_all add: sample_claimed_def claimed_session_def SUBMISSION_LEASE_SECONDS_def)

lemma sample_done_simps [simp]:
  "vs_status sample_done = SsCompleted" "vs_vp_token_sha256 sample_done = Some ''d''"
  "vs_session_id sample_done = ''u''"
  by (simp_all add: sample_done_def terminal_session_def sample_verdict_def minimize_digest)

lemma sample_start_step: "session_step demo [] [(''u'', sample_session\<lparr>vs_evaluation_principal_id := []\<rparr>)]"
  using session_step.start [OF sample_session_new, of "[]" "[]"] by (simp add: save_session_def)

lemma sample_claim:
  "claim_at demo ''tok'' ''u'' ''d'' 5 [(''u'', sample_session\<lparr>vs_evaluation_principal_id := []\<rparr>)]
     = (transition_to SoClaimed sample_claimed (Some ''tok''), [(''u'', sample_claimed)])"
  by (simp add: claim_at_def submission_state_def is_expired_at_def seconds_def sample_claimed_def
      Let_def)

lemma sample_finalize:
  "finalize_at demo ''u'' ''d'' ''tok'' sample_verdict [(''u'', sample_claimed)]
     = (Inr (transition_to SoCommitted sample_done None), [(''u'', sample_done)])"
  by (simp add: finalize_at_def finalize_refusal_def validate_terminal_candidate_def
      sample_verdict_def sample_done_def Let_def)

lemma sample_reachable:
  "sessions_reachable demo [(''u'', sample_claimed)]" "sessions_reachable demo [(''u'', sample_done)]"
proof -
  have "session_step demo [(''u'', sample_session\<lparr>vs_evaluation_principal_id := []\<rparr>)] [(''u'', sample_claimed)]"
    using session_step.claim [of demo _ "''tok''" "''u''" "''d''" 5] sample_claim by (metis snd_conv)
  then show r: "sessions_reachable demo [(''u'', sample_claimed)]"
    using sample_start_step by (simp add: sessions_reachable_def)
  have "session_step demo [(''u'', sample_claimed)] [(''u'', sample_done)]"
    using session_step.finalize [of demo _ "''u''" "''d''" "''tok''" sample_verdict] sample_finalize
    by (metis snd_conv)
  then show "sessions_reachable demo [(''u'', sample_done)]"
    using r by (simp add: sessions_reachable_def)
qed

section \<open>Ended sessions\<close>

text \<open>C11. A session that has ended stays as it ended: in every later state a completed or failed
  session is exactly the same record, and an expired one differs at most in its error text and in
  the time of its last stamp. No claim and no finalization, of whoever and with whatever
  arguments, changes a verdict.\<close>

theorem terminal_sessions_are_final:
  assumes "sessions_reachable tp m" and "(session_step tp)\<^sup>*\<^sup>* m m'"
    and "map_of m sid = Some s" and "vs_status s \<noteq> SsPending"
  shows "\<exists>s'. map_of m' sid = Some s'
    \<and> (s' = s \<or> vs_status s = SsExpired
        \<and> s'\<lparr>vs_error := vs_error s, vs_updated_at := vs_updated_at s\<rparr> = s)"
proof -
  let ?P = "\<lambda>t. t = s \<or> vs_status s = SsExpired
    \<and> t\<lparr>vs_error := vs_error s, vs_updated_at := vs_updated_at s\<rparr> = s"
  have keep: "?P t'" if "session_move tp t t'" "session_inv tp t" "?P t" for t t'
  proof -
    have st: "vs_status t = vs_status s"
      using that(3) by (auto dest: arg_cong [of _ _ vs_status])
    from move_terminal [OF that(1,2)] st assms(4) consider "t' = t"
      | (u) "vs_status t = SsExpired" "t'\<lparr>vs_error := vs_error t, vs_updated_at := vs_updated_at t\<rparr> = t"
      by auto
    then show ?thesis
    proof cases
      case u
      have "t\<lparr>vs_error := vs_error s, vs_updated_at := vs_updated_at s\<rparr> = s"
        using that(3) by auto
      then have "t'\<lparr>vs_error := vs_error s, vs_updated_at := vs_updated_at s\<rparr> = s"
        by (subst (asm) u(2) [symmetric]) simp
      then show ?thesis using u(1) st by simp
    qed (use that(3) in simp)
  qed
  show ?thesis
    by (rule steps_keep [OF assms(2) reachable_inv_sessions [OF assms(1)] assms(3)])
      (use keep in auto)
qed

theorem terminal_sessions_are_final_witness:
  "map_of (snd (claim_at demo ''t2'' ''u'' ''other'' 99
     (snd (finalize_at demo ''u'' ''d'' ''tok'' sample_claimed [(''u'', sample_done)])))) ''u''
   = Some sample_done"
proof -
  let ?m1 = "snd (finalize_at demo ''u'' ''d'' ''tok'' sample_claimed [(''u'', sample_done)])"
  let ?m2 = "snd (claim_at demo ''t2'' ''u'' ''other'' 99 ?m1)"
  have run: "(session_step demo)\<^sup>*\<^sup>* [(''u'', sample_done)] ?m2"
    using session_step.finalize session_step.claim
    by (meson converse_rtranclp_into_rtranclp r_into_rtranclp)
  show ?thesis
    using terminal_sessions_are_final [OF sample_reachable(2) run, of "''u''" sample_done] by auto
qed

section \<open>One presentation\<close>

text \<open>C12. A session evaluates one presentation only. Once a submission has been claimed with the
  digest of a presentation, the session is bound to that digest for good: in every later state a
  claim with another digest is refused as a conflict (or because the session has expired) and a
  finalization with another digest is refused as a conflict and changes nothing.\<close>

theorem one_presentation_per_session:
  assumes "sessions_reachable tp m"
    and "claim_at tp token sid d now m = (transition_to SoClaimed s (Some token), m1)"
    and "(session_step tp)\<^sup>*\<^sup>* m1 m'" and "d' \<noteq> d"
  shows "\<exists>s'. map_of m' sid = Some s' \<and> vs_vp_token_sha256 s' = Some d
    \<and> st_outcome (fst (claim_at tp token' sid d' now' m')) \<in> {SoConflict, SoExpired}
    \<and> finalize_at tp sid d' token'' candidate m' = (Inr (transition_to SoConflict s' None), m')"
proof -
  have step: "session_step tp m m1" using session_step.claim [of tp m token sid d now] assms(2) by simp
  have inv1: "sessions_inv tp m1" using step_inv [OF step reachable_inv_sessions [OF assms(1)]] .
  have "map_of m1 sid = Some s \<and> vs_vp_token_sha256 s = Some d"
    using assms(2)
    by (auto simp: claim_at_def Let_def transition_to_def transition_new_def store_simps
        claimed_session_def split: option.splits if_splits)
  then obtain s' where s': "map_of m' sid = Some s'" "vs_vp_token_sha256 s' = Some d"
    using steps_keep [OF assms(3) inv1, of sid s "\<lambda>s. vs_vp_token_sha256 s = Some d"] move_digest
    by blast
  have "submission_state s' d' now' \<in> {Some SoConflict, Some SoExpired}"
    using s'(2) assms(4) by (auto simp: submission_state_def)
  then have "st_outcome (fst (claim_at tp token' sid d' now' m')) \<in> {SoConflict, SoExpired}"
    using s'(1) by (auto simp: claim_at_def Let_def transition_to_def)
  moreover have "finalize_refusal s' d' token'' = Some SoConflict"
    using s'(2) assms(4) by (auto simp: finalize_refusal_def)
  then have "finalize_at tp sid d' token'' candidate m' = (Inr (transition_to SoConflict s' None), m')"
    using s'(1) by (simp add: finalize_at_def)
  ultimately show ?thesis using s' by blast
qed

lemma sample_start_reachable:
  "sessions_reachable demo [(''u'', sample_session\<lparr>vs_evaluation_principal_id := []\<rparr>)]"
  using sample_start_step by (simp add: sessions_reachable_def)

theorem one_presentation_per_session_witness:
  "fst (finalize_at demo ''u'' ''other'' ''tok'' sample_verdict [(''u'', sample_claimed)])
     = Inr (transition_to SoConflict sample_claimed None)"
  using one_presentation_per_session [OF sample_start_reachable sample_claim rtranclp.rtrancl_refl,
      of "''other''" "''t2''" 7 "''tok''" sample_verdict]
  by simp

section \<open>The submission lease\<close>

definition session_holder :: "MemorySessionStore \<Rightarrow> string \<Rightarrow> (string \<times> time) option" where
  "session_holder m sid =
     Option.bind (map_of m sid) (\<lambda>s.
       if vs_status s = SsPending
       then Option.bind (vs_processing_token s) (\<lambda>w.
              map_option (Pair w) (vs_processing_expires_at s))
       else None)"

definition session_acquire ::
  "third_party \<Rightarrow> MemorySessionStore \<Rightarrow> string \<Rightarrow> string \<Rightarrow> string \<Rightarrow> time \<Rightarrow> MemorySessionStore option" where
  "session_acquire tp m sid w digest t =
     (case claim_at tp w sid digest t m of
        (tr, m') \<Rightarrow> if st_outcome tr = SoClaimed then Some m' else None)"

lemma session_acquire_Some:
  "session_acquire tp m sid w d t = Some m' \<longleftrightarrow>
     (\<exists>s. map_of m sid = Some s \<and> submission_state s d t = None
        \<and> m' = bt_insert sid (claimed_session d w t s) m)"
proof -
  have "submission_state s d t \<noteq> Some SoClaimed" for s
    by (auto simp: submission_state_def split: option.splits)
  then show ?thesis
    by (auto simp: session_acquire_def claim_at_def Let_def transition_to_def transition_new_def
        split: option.splits if_splits prod.splits)
qed

interpretation sl: lease session_holder "session_acquire tp" "seconds SUBMISSION_LEASE_SECONDS" for tp
proof
  fix s s' :: MemorySessionStore and k w x t
  assume "session_acquire tp s k w x t = Some s'"
  then show "session_holder s' k = Some (w, t + seconds SUBMISSION_LEASE_SECONDS)"
    by (auto simp: session_acquire_Some session_holder_def store_simps claimed_session_def state_None)
next
  fix s s' :: MemorySessionStore and k k' w x t
  assume "session_acquire tp s k w x t = Some s'" and "k' \<noteq> k"
  then show "session_holder s' k' = session_holder s k'"
    by (auto simp: session_acquire_Some session_holder_def store_simps)
next
  fix s :: MemorySessionStore and k w w' x t and e :: time
  assume "session_holder s k = Some (w', e)" and "t < e" and "w \<noteq> w'"
  then have "\<not> (\<exists>u. map_of s k = Some u \<and> submission_state u x t = None)"
    by (auto simp: session_holder_def state_None bind_eq_Some_conv split: if_splits)
  then have "session_acquire tp s k w x t \<noteq> Some m" for m by (auto simp: session_acquire_Some)
  then show "session_acquire tp s k w x t = None" by (cases "session_acquire tp s k w x t") auto
qed

text \<open>What other requests do: claims, with whatever token, and finalizations.\<close>

datatype session_op =
    OpClaim string string string time
  | OpFinalize string string string VerificationSession

fun op_step :: "third_party \<Rightarrow> session_op \<Rightarrow> MemorySessionStore \<Rightarrow> MemorySessionStore" where
  "op_step tp (OpClaim token sid digest now) m = snd (claim_at tp token sid digest now m)"
| "op_step tp (OpFinalize sid digest token candidate) m =
     snd (finalize_at tp sid digest token candidate m)"

fun foreign_op :: "string \<Rightarrow> string \<Rightarrow> time \<Rightarrow> session_op \<Rightarrow> bool" where
  "foreign_op sid w e (OpClaim token k digest now) = (k = sid \<longrightarrow> now < e)"
| "foreign_op sid w e (OpFinalize k digest token candidate) = (k = sid \<longrightarrow> token \<noteq> w)"

lemma foreign_op_keeps:
  assumes "map_of m sid = Some s" and "vs_status s = SsPending"
    and "vs_processing_token s = Some w" and "vs_processing_expires_at s = Some e"
    and "foreign_op sid w e p"
  shows "map_of (op_step tp p m) sid = Some s"
proof (cases p)
  case (OpClaim token k digest now)
  show ?thesis
  proof (cases "k = sid")
    case True
    then have "submission_state s digest now \<in> {Some SoConflict, Some SoBusy}"
      using assms OpClaim by (auto simp: submission_state_def)
    then show ?thesis using assms(1) True by (auto simp: OpClaim claim_at_def Let_def)
  next
    case False
    then show ?thesis
      using assms(1) by (auto simp: OpClaim claim_at_def Let_def store_simps split: option.splits)
  qed
next
  case (OpFinalize k digest token candidate)
  show ?thesis
  proof (cases "k = sid")
    case True
    then have "finalize_refusal s digest token \<noteq> None"
      using assms OpFinalize by (auto simp: finalize_refusal_def)
    then show ?thesis using assms(1) True by (auto simp: OpFinalize finalize_at_def)
  next
    case False
    then show ?thesis
      using assms(1)
      by (auto simp: OpFinalize finalize_at_def Let_def store_simps split: option.splits sum.splits)
  qed
qed

lemma foreign_ops_keep:
  assumes "map_of m sid = Some s" and "vs_status s = SsPending"
    and "vs_processing_token s = Some w" and "vs_processing_expires_at s = Some e"
    and "list_all (foreign_op sid w e) ps"
  shows "map_of (fold (op_step tp) ps m) sid = Some s"
  using assms(1,5)
  by (induction ps arbitrary: m) (auto intro: foreign_op_keeps assms(2-4))

text \<open>C13. A granted submission lease is exclusive for its thirty seconds. Whatever claims other
  requests make on any session in that time and whatever finalizations they attempt without the
  token, nobody else is granted the session, the record stays as it was claimed, and its holder
  can still commit a valid verdict.\<close>

theorem submission_lease_is_exclusive:
  assumes "claim_at tp w sid d t m = (transition_to SoClaimed s (Some w), m1)"
    and "list_all (foreign_op sid w (t + seconds SUBMISSION_LEASE_SECONDS)) ps"
    and "m2 = fold (op_step tp) ps m1"
  shows "map_of m2 sid = Some s
    \<and> (\<forall>w' d' t'. w' \<noteq> w \<longrightarrow> t' < t + seconds SUBMISSION_LEASE_SECONDS \<longrightarrow>
         st_outcome (fst (claim_at tp w' sid d' t' m2)) \<noteq> SoClaimed)
    \<and> (\<forall>candidate. validate_terminal_candidate s candidate = Inr () \<longrightarrow>
         fst (finalize_at tp sid d w candidate m2)
           = Inr (transition_to SoCommitted (terminal_session tp d candidate) None))"
proof -
  have "session_acquire tp m sid w d t = Some m1"
    using assms(1) by (simp add: session_acquire_def transition_to_def)
  then obtain s0 where s0: "submission_state s0 d t = None" "map_of m sid = Some s0"
    and m1: "m1 = bt_insert sid (claimed_session d w t s0) m"
    by (auto simp: session_acquire_Some)
  have s: "s = claimed_session d w t s0"
    using assms(1) s0 by (simp add: claim_at_def Let_def transition_to_def)
  have fields: "vs_status s = SsPending" "vs_processing_token s = Some w" "vs_vp_token_sha256 s = Some d"
    "vs_processing_expires_at s = Some (t + seconds SUBMISSION_LEASE_SECONDS)"
    using s0(1) by (simp_all add: s claimed_session_def state_None)
  have kept: "map_of m2 sid = Some s"
    unfolding assms(3) using fields assms(2)
    by (intro foreign_ops_keep) (auto simp: m1 s store_simps)
  then have "session_holder m2 sid = Some (w, t + seconds SUBMISSION_LEASE_SECONDS)"
    using fields by (simp add: session_holder_def)
  then have "st_outcome (fst (claim_at tp w' sid d' t' m2)) \<noteq> SoClaimed"
    if "w' \<noteq> w" "t' < t + seconds SUBMISSION_LEASE_SECONDS" for w' d' t'
    using sl.acquire_excl [of m2 sid w _ t' w' tp d'] that
    by (auto simp: session_acquire_def split: prod.splits if_splits)
  moreover have "finalize_refusal s d w = None" using fields by (simp add: refusal_None)
  ultimately show ?thesis using kept by (simp add: finalize_at_def Let_def)
qed

theorem submission_lease_is_exclusive_witness:
  "fst (finalize_at demo ''u'' ''d'' ''tok'' sample_verdict
     (fold (op_step demo) [OpClaim ''t2'' ''u'' ''d'' 9, OpFinalize ''u'' ''d'' ''t2'' sample_done]
       [(''u'', sample_claimed)]))
   = Inr (transition_to SoCommitted sample_done None)"
proof -
  have "validate_terminal_candidate sample_claimed sample_verdict = Inr ()"
    by (simp add: validate_Inr sample_verdict_def)
  then show ?thesis
    using submission_lease_is_exclusive [OF sample_claim, of
        "[OpClaim ''t2'' ''u'' ''d'' 9, OpFinalize ''u'' ''d'' ''t2'' sample_done]"]
    by (simp add: seconds_def SUBMISSION_LEASE_SECONDS_def sample_done_def)
qed

section \<open>Finalization\<close>

text \<open>A finalization commits exactly when the session is still pending, bound to this digest,
  held under this token, and the verdict keeps the identity of the session and is complete. Then
  the stored session carries the verdict's status, result, decision and completion time, bound to
  the digest; in every other case the store does not change at all.\<close>

theorem finalization_needs_the_lease:
  "(\<exists>t. fst (finalize_at tp sid d w candidate m) = Inr t \<and> st_outcome t = SoCommitted)
     = (\<exists>s. map_of m sid = Some s \<and> vs_status s = SsPending \<and> vs_vp_token_sha256 s = Some d
          \<and> vs_processing_token s = Some w \<and> validate_terminal_candidate s candidate = Inr ())
   \<and> (if \<exists>t. fst (finalize_at tp sid d w candidate m) = Inr t \<and> st_outcome t = SoCommitted
      then \<exists>s'. map_of (snd (finalize_at tp sid d w candidate m)) = (map_of m)(sid \<mapsto> s')
         \<and> vs_status s' = vs_status candidate \<and> vs_result s' = vs_result candidate
         \<and> vs_decision s' = vs_decision candidate \<and> vs_completed_at s' = vs_completed_at candidate
         \<and> vs_vp_token_sha256 s' = Some d \<and> minimal tp s'
      else snd (finalize_at tp sid d w candidate m) = m)"
proof -
  let ?commits = "\<exists>t. fst (finalize_at tp sid d w candidate m) = Inr t \<and> st_outcome t = SoCommitted"
  have refuse: "finalize_refusal s d w \<noteq> Some SoCommitted" for s
    by (auto simp: finalize_refusal_def)
  have iff: "?commits = (\<exists>s. map_of m sid = Some s \<and> finalize_refusal s d w = None
      \<and> validate_terminal_candidate s candidate = Inr ())"
    using refuse
    by (auto simp: finalize_at_def Let_def transition_to_def transition_new_def
        split: option.splits sum.splits)
  show ?thesis
  proof (cases ?commits)
    case True
    then obtain s where s: "map_of m sid = Some s" "finalize_refusal s d w = None"
      "validate_terminal_candidate s candidate = Inr ()"
      using iff by blast
    let ?t = "terminal_session tp d candidate"
    have run: "finalize_at tp sid d w candidate m
        = (Inr (transition_to SoCommitted ?t None), bt_insert sid ?t m)"
      by (simp add: finalize_at_def Let_def s)
    have "minimal tp ?t"
      unfolding terminal_session_def
      using s(3) by (intro minimize_terminal_minimal) (simp add: validate_Inr)
    moreover have "vs_status ?t = vs_status candidate" "vs_result ?t = vs_result candidate"
      "vs_decision ?t = vs_decision candidate" "vs_completed_at ?t = vs_completed_at candidate"
      "vs_vp_token_sha256 ?t = Some d"
      by (simp_all add: terminal_session_def minimize_digest)
    moreover have "map_of (snd (finalize_at tp sid d w candidate m)) = (map_of m)(sid \<mapsto> ?t)"
      by (simp add: run store_simps)
    ultimately show ?thesis
      using iff True unfolding refusal_None by (simp only: if_True) blast
  next
    case False
    then have "snd (finalize_at tp sid d w candidate m) = m"
      by (auto simp: finalize_at_def Let_def transition_to_def split: option.splits sum.splits)
    then show ?thesis using iff False by (auto simp: refusal_None)
  qed
qed

section \<open>What an ended session holds\<close>

text \<open>
  The documents an ended session may hold, stated without the code's copying: which members at
  each level, and which values they may have.
\<close>

definition object_of :: "(string \<Rightarrow> json \<Rightarrow> bool) \<Rightarrow> json \<Rightarrow> bool" where
  "object_of p v = (case v of JObj doc \<Rightarrow> list_all (\<lambda>kv. p (fst kv) (snd kv)) doc | _ \<Rightarrow> False)"

definition array_of :: "(json \<Rightarrow> bool) \<Rightarrow> json \<Rightarrow> bool" where
  "array_of p v = (case v of JArr xs \<Rightarrow> list_all p xs | _ \<Rightarrow> False)"

definition safe_constraint :: "json \<Rightarrow> bool" where
  "safe_constraint = object_of (\<lambda>k x.
     k \<in> {''constraint_type'', ''passed'', ''satisfied''} \<and> text_or_bool x)"

definition safe_claim :: "json \<Rightarrow> bool" where
  "safe_claim = object_of (\<lambda>k x.
     k \<in> {''claim_name'', ''satisfied''} \<and> text_or_bool x
     \<or> k = ''constraint_results'' \<and> array_of safe_constraint x)"

definition safe_credential :: "json \<Rightarrow> bool" where
  "safe_credential = object_of (\<lambda>k x.
     k \<in> {''credential_template_id'', ''credential_type'', ''credential_format'', ''satisfied'',
          ''issuer_did'', ''signature_valid'', ''trust_validated'', ''revocation_checked'',
          ''revocation_validated'', ''revocation_status_checked'', ''holder_binding_validated''}
       \<and> scalar_json x
     \<or> k \<in> {''claims_missing'', ''claims_satisfied''} \<and> array_of (\<lambda>e. as_str e \<noteq> None) x
     \<or> k = ''claim_results'' \<and> array_of safe_claim x)"

lemma entries_member: "(k, v) \<in> set (entries f keys) \<Longrightarrow> k \<in> set keys \<and> f k = Some v"
  by (induction keys) (auto simp: entries.simps(2) split: option.splits)

lemma field_of_Some: "field_of p source k = Some v \<Longrightarrow> p v"
  by (auto simp: field_of_def split: option.splits if_splits)

lemma minimize_constraint_safe: "minimize_constraint c = Some c' \<Longrightarrow> safe_constraint c'"
  by (auto simp: minimize_constraint_eq safe_constraint_def object_of_def list_all_iff Let_def
      constraint_keys_def split: option.splits if_splits dest!: entries_member field_of_Some)

lemma claim_body_safe: "safe_claim (JObj (claim_body source))"
proof -
  have "k \<in> {''claim_name'', ''satisfied''} \<and> text_or_bool x"
    if "(k, x) \<in> set (entries (field_of text_or_bool source) claim_keys)" for k x
    using entries_member [OF that] field_of_Some by (auto simp: claim_keys_def)
  moreover have "k = ''constraint_results'' \<and> array_of safe_constraint x"
    if "(k, x) \<in> set (constraint_part source)" for k x
    using that minimize_constraint_safe
    by (auto simp: constraint_part_def Let_def array_of_def list_all_iff set_map_filter_iff
        split: option.splits if_splits)
  ultimately show ?thesis
    by (fastforce simp: safe_claim_def object_of_def list_all_iff claim_body_def)
qed

lemma minimize_claim_safe: "minimize_claim_result v = Some v' \<Longrightarrow> safe_claim v'"
  using claim_body_safe by (auto simp: minimize_claim_result_eq split: option.splits if_splits)

lemma minimize_credential_safe: "safe_credential (JObj (minimize_credential_result tp source))"
proof -
  have scalars: "k \<in> set SCALARS \<and> scalar_json x"
    if "(k, x) \<in> set (entries (field_of scalar_json source) SCALARS)" for k x
    using entries_member [OF that] field_of_Some by auto
  have lists: "k \<in> set LISTS \<and> array_of (\<lambda>e. as_str e \<noteq> None) x"
    if "(k, x) \<in> set (entries (list_of tp source) LISTS)" for k x
    using entries_member [OF that] by (auto simp: list_of_def array_of_def list_all_iff)
  have claims: "k = ''claim_results'' \<and> array_of safe_claim x"
    if "(k, x) \<in> set (claims_part source)" for k x
    using that minimize_claim_safe
    by (auto simp: claims_part_def Let_def array_of_def list_all_iff set_map_filter_iff
        split: option.splits if_splits)
  have "k \<in> set SCALARS \<and> scalar_json x \<or> k \<in> set LISTS \<and> array_of (\<lambda>e. as_str e \<noteq> None) x
      \<or> k = ''claim_results'' \<and> array_of safe_claim x"
    if "(k, x) \<in> set (minimize_credential_result tp source)" for k x
    using that scalars lists claims unfolding minimize_credential_result_eq by auto
  then have "list_all (\<lambda>kv. fst kv \<in> set SCALARS \<and> scalar_json (snd kv)
      \<or> fst kv \<in> set LISTS \<and> array_of (\<lambda>e. as_str e \<noteq> None) (snd kv)
      \<or> fst kv = ''claim_results'' \<and> array_of safe_claim (snd kv)) (minimize_credential_result tp source)"
    by (auto simp: list_all_iff)
  then show ?thesis
    by (simp only: safe_credential_def object_of_def json.case SCALARS_def LISTS_def list.set)
qed

lemma minimize_credentials_safe: "list_all safe_credential (minimize_credential_results tp rs)"
  by (auto simp: minimize_credential_results_def list_all_iff minimize_credential_safe)

lemma holder_binding_members:
  assumes "normalize_holder_binding evaluation = Some evidence"
  shows "object_of (\<lambda>k x. k \<in> {''required'', ''validated''} \<and> as_bool x \<noteq> None
      \<or> k \<in> {''binding_method'', ''proof_profile'', ''challenge_validated'', ''audience_validated'',
             ''replay_checked'', ''proof_age_seconds'', ''failure_reason''} \<and> x \<noteq> JNull) evidence"
proof -
  let ?keys = "[''binding_method'', ''proof_profile'', ''challenge_validated'', ''audience_validated'',
             ''replay_checked'', ''proof_age_seconds'', ''failure_reason'']"
  have "copy_fields p ?keys raw [(''required'', r), (''validated'', v)]
      = [(''required'', r), (''validated'', v)] @ entries (field_of p raw) ?keys" for p raw r v
    by (rule copy_fields_append) simp_all
  then obtain raw r v where evidence: "evidence = JObj ([(''required'', JBool r), (''validated'', JBool v)]
      @ entries (field_of (\<lambda>value. value \<noteq> JNull) raw) ?keys)"
    using assms by (auto simp: normalize_holder_binding_def Option.bind_eq_Some_conv)
  have "k \<in> set ?keys \<and> x \<noteq> JNull"
    if "(k, x) \<in> set (entries (field_of (\<lambda>value. value \<noteq> JNull) raw) ?keys)" for k x
    using entries_member [OF that] field_of_Some by blast
  then have "list_all (\<lambda>kv. fst kv \<in> set ?keys \<and> snd kv \<noteq> JNull)
      (entries (field_of (\<lambda>value. value \<noteq> JNull) raw) ?keys)"
    unfolding list_all_iff by (metis prod.collapse)
  then show ?thesis
    unfolding evidence object_of_def json.case list_all_append list.set
    by (auto elim: list.pred_mono_strong)
qed

text \<open>C16. An ended session in the store keeps no secret of the presentation: no lease token, no
  presentation, no callback, no principal; of the verified claims only that they were verified;
  of each credential result only the listed scalar fields, the two lists of claims as texts, and
  of each claim result its name, whether it was satisfied and, of its constraints, the type and
  the outcome, each a text or a truth value; of the inspection one of the listed words, and its
  raw text at most as a digest. The holder-binding evidence is not minimized by the store: it is
  what the evaluation gave, reduced to nine listed members with two truth values, as the last
  part states for every evaluation.\<close>

theorem ended_sessions_keep_no_secrets:
  assumes "sessions_reachable tp m" and "map_of m sid = Some s" and "vs_status s \<noteq> SsPending"
  shows "vs_processing_token s = None \<and> vs_processing_expires_at s = None \<and> vs_vp_token s = None
    \<and> vs_callback_url s = None \<and> vs_evaluation_principal_id s = []
    \<and> snd ` set (vs_verified_claims s) \<subseteq> {JBool True}
    \<and> list_all safe_credential (vs_credential_results s)
    \<and> (vs_inspection_result s = []
       \<or> vs_inspection_result_sha256 s \<noteq> None
         \<and> vs_inspection_result s \<in> {''error'', ''failed'', ''invalid'', ''ok'', ''passed'', ''recorded'',
              ''unavailable'', ''unsupported'', ''unverified'', ''valid'', ''verified''})
    \<and> (\<forall>evaluation evidence. normalize_holder_binding evaluation = Some evidence \<longrightarrow>
         object_of (\<lambda>k x. k \<in> {''required'', ''validated''} \<and> as_bool x \<noteq> None
           \<or> k \<in> {''binding_method'', ''proof_profile'', ''challenge_validated'',
                  ''audience_validated'', ''replay_checked'', ''proof_age_seconds'',
                  ''failure_reason''} \<and> x \<noteq> JNull) evidence)"
proof -
  have min: "minimal tp s"
    using reachable_inv_sessions [OF assms(1)] assms(2,3) by (auto simp: sessions_inv_def session_inv_def)
  have fixed: "vs_credential_results s = minimize_credential_results tp (vs_credential_results s)"
    "vs_verified_claims s = minimize_verified_claims (vs_verified_claims s)"
    using min unfolding minimal_def by blast+
  have results: "list_all safe_credential (vs_credential_results s)"
    by (subst fixed(1)) (rule minimize_credentials_safe)
  have "snd ` set (minimize_verified_claims c) \<subseteq> {JBool True}" for c
    by (auto simp: minimize_verified_claims_def)
  then have "snd ` set (vs_verified_claims s) \<subseteq> {JBool True}"
    by (subst fixed(2))
  moreover have "vs_processing_token s = None \<and> vs_processing_expires_at s = None
      \<and> vs_vp_token s = None \<and> vs_callback_url s = None \<and> vs_evaluation_principal_id s = []
      \<and> inspection_minimal s"
    using min unfolding minimal_def by blast
  ultimately show ?thesis
    using results holder_binding_members
    unfolding inspection_minimal_def safe_inspection_results_def list.set by blast
qed

text \<open>The witness carries values that must not survive: a claim's value beside its name.\<close>

theorem ended_sessions_keep_no_secrets_witness:
  "vs_processing_token sample_done = None \<and> snd ` set (vs_verified_claims sample_done) \<subseteq> {JBool True}
   \<and> list_all safe_credential (vs_credential_results sample_done)"
  using ended_sessions_keep_no_secrets [OF sample_reachable(2), of "''u''" sample_done] by simp

end
