(* ===== verification/Verification_Redis.thy ===== *)
theory Verification_Redis
  imports Verification_Sessions
begin

text \<open>
  The Redis session store of \<open>rust/services/verification/src/store.rs\<close>. A record is the JSON text
  of a session under its key. Every update is a compare-and-set by a script, retried at most
  eight times, so that the code decides on a record and writes only if that record is still
  there. Redis is a service and serde derives the codec: both are records of functions, with the
  few documented laws the properties use. Between two commands other clients may do anything:
  each attempt carries what the environment does before each of its commands. A command fails for
  the client in two ways: it does not reach the server, or the server carries it out and the
  reply is lost; the code sees \<open>Unavailable\<close> in both, and for a script the state is the one after
  the server has carried it out.
\<close>

section \<open>The service and the codec\<close>

record 'r redis =
  rd_up :: "'r \<Rightarrow> bool"                                  \<comment> \<open>the next command reaches the server\<close>
  rd_reply :: "'r \<Rightarrow> bool"                               \<comment> \<open>the reply of a script arrives\<close>
  rd_get :: "'r \<Rightarrow> string \<Rightarrow> string option"               \<comment> \<open>GET\<close>
  rd_pttl :: "'r \<Rightarrow> string \<Rightarrow> int"                        \<comment> \<open>PTTL\<close>
  rd_set_ex :: "string \<Rightarrow> string \<Rightarrow> int \<Rightarrow> 'r \<Rightarrow> 'r"        \<comment> \<open>SET EX\<close>
  rd_set_px :: "string \<Rightarrow> string \<Rightarrow> int \<Rightarrow> 'r \<Rightarrow> 'r option"  \<comment> \<open>SET PX, refused for no time\<close>
  rd_sadd :: "string \<Rightarrow> string \<Rightarrow> 'r \<Rightarrow> 'r"                 \<comment> \<open>SADD\<close>
  rd_expire :: "string \<Rightarrow> int \<Rightarrow> 'r \<Rightarrow> 'r"                  \<comment> \<open>EXPIRE\<close>
  rd_smembers :: "'r \<Rightarrow> string \<Rightarrow> string list"            \<comment> \<open>SMEMBERS\<close>
  rd_time :: "'r \<Rightarrow> time option"                         \<comment> \<open>TIME, as an instant in range\<close>

record codec =
  cd_encode :: "VerificationSession \<Rightarrow> string option"
  cd_decode :: "string \<Rightarrow> VerificationSession option"

text \<open>What a set command stores is what a get returns, and nothing else changes.\<close>

definition redis_ok :: "'r redis \<Rightarrow> bool" where
  "redis_ok rd =
     ((\<forall>k v n s. rd_get rd (rd_set_ex rd k v n s) = (rd_get rd s)(k \<mapsto> v))
      \<and> (\<forall>k v n s s'. rd_set_px rd k v n s = Some s' \<longrightarrow> rd_get rd s' = (rd_get rd s)(k \<mapsto> v)))"

text \<open>A session's text decodes to the session, less the token that is never serialized.\<close>

definition codec_ok :: "codec \<Rightarrow> bool" where
  "codec_ok cd =
     (\<forall>s. \<exists>raw. cd_encode cd s = Some raw \<and> cd_decode cd raw = Some (s\<lparr>vs_vp_token := None\<rparr>))"

section \<open>Keys, records and scripts\<close>

definition SESSION_PREFIX :: string where
  "SESSION_PREFIX = ''verification:session:''"

definition session_key :: "string \<Rightarrow> string" where
  "session_key session_id = SESSION_PREFIX @ session_id"

definition organization_key :: "string \<Rightarrow> string" where
  "organization_key organization_id = SESSION_PREFIX @ ''org:'' @ organization_id"

definition decode_record :: "third_party \<Rightarrow> codec \<Rightarrow> string \<Rightarrow> VerificationSession option" where
  "decode_record tp cd raw =
     map_option (\<lambda>session. minimize_terminal tp (session\<lparr>vs_callback_url := None\<rparr>))
       (cd_decode cd raw)"

text \<open>The script SAVE.\<close>

definition save_script :: "'r redis \<Rightarrow> string \<Rightarrow> string \<Rightarrow> string \<Rightarrow> string \<Rightarrow> 'r \<Rightarrow> 'r" where
  "save_script rd key set_key encoded session_id s =
     rd_expire rd set_key SESSION_TTL_SECONDS
       (rd_sadd rd set_key session_id (rd_set_ex rd key encoded SESSION_TTL_SECONDS s))"

text \<open>The answer to a script that the server has carried out.\<close>

definition replied :: "'r redis \<Rightarrow> 'a \<Rightarrow> 'r \<Rightarrow> (StoreError + 'a) \<times> 'r" where
  "replied rd x s = (if rd_reply rd s then Inr x else Inl Unavailable, s)"

text \<open>The scripts CAS\_KEEP\_TTL and CAS\_RESET\_TTL.\<close>

definition cas ::
  "'r redis \<Rightarrow> string \<Rightarrow> string \<Rightarrow> string \<Rightarrow> bool \<Rightarrow> 'r \<Rightarrow> (StoreError + bool) \<times> 'r" where
  "cas rd session_id expected replacement reset_ttl s =
     (let key = session_key session_id in
      if \<not> rd_up rd s then (Inl Unavailable, s)
      else if rd_get rd s key \<noteq> Some expected then replied rd False s
      else if \<not> reset_ttl \<and> 0 \<le> rd_pttl rd s key
      then (case rd_set_px rd key replacement (rd_pttl rd s key) s of
              None \<Rightarrow> (Inl Unavailable, s)
            | Some s' \<Rightarrow> replied rd True s')
      else replied rd True (rd_set_ex rd key replacement SESSION_TTL_SECONDS s))"

section \<open>Operations\<close>

text \<open>One attempt: the environment's moves before the read, the clock and the write, and the
  token that the attempt would draw.\<close>

record 'r attempt =
  at_read :: "'r \<Rightarrow> 'r"
  at_time :: "'r \<Rightarrow> 'r"
  at_write :: "'r \<Rightarrow> 'r"
  at_token :: string

definition redis_save ::
  "third_party \<Rightarrow> 'r redis \<Rightarrow> codec \<Rightarrow> VerificationSession \<Rightarrow> 'r \<Rightarrow> (StoreError + unit) \<times> 'r" where
  "redis_save tp rd cd session s =
     (let session = minimize_terminal tp session in
      case cd_encode cd session of
        None \<Rightarrow> (Inl InvalidRecord, s)
      | Some encoded \<Rightarrow>
          if \<not> rd_up rd s then (Inl Unavailable, s)
          else replied rd () (save_script rd (session_key (vs_session_id session))
                  (organization_key (vs_organization_id session)) encoded (vs_session_id session) s))"

definition redis_project ::
  "third_party \<Rightarrow> 'r redis \<Rightarrow> VerificationSession \<Rightarrow> 'r
   \<Rightarrow> (StoreError + VerificationSession option) \<times> 'r" where
  "redis_project tp rd session s =
     (if vs_status session = SsPending \<and> vs_vp_token_sha256 session = None
      then if \<not> rd_up rd s then (Inl Unavailable, s)
           else (case rd_time rd s of
                   None \<Rightarrow> (Inl InvalidRecord, s)
                 | Some now \<Rightarrow> (Inr (Some (project_expiry tp now session)), s))
      else (Inr (Some session), s))"

definition redis_get ::
  "third_party \<Rightarrow> 'r redis \<Rightarrow> codec \<Rightarrow> 'r attempt \<Rightarrow> string \<Rightarrow> 'r
   \<Rightarrow> (StoreError + VerificationSession option) \<times> 'r" where
  "redis_get tp rd cd a session_id s0 =
     (let s = at_read a s0 in
      if \<not> rd_up rd s then (Inl Unavailable, s)
      else case rd_get rd s (session_key session_id) of
        None \<Rightarrow> (Inr None, s)
      | Some raw \<Rightarrow>
          (case decode_record tp cd raw of
             None \<Rightarrow> (Inl InvalidRecord, s)
           | Some session \<Rightarrow>
               (case cd_encode cd session of
                  None \<Rightarrow> (Inl InvalidRecord, s)
                | Some canonical \<Rightarrow>
                    if canonical = raw then redis_project tp rd session (at_time a s)
                    else (case cas rd session_id raw canonical False (at_write a s) of
                        (Inl e, s) \<Rightarrow> (Inl e, s)
                      | (Inr False, s) \<Rightarrow> redis_project tp rd session (at_time a s)
                      | (Inr True, s) \<Rightarrow>
                          (case decode_record tp cd canonical of
                             None \<Rightarrow> (Inl InvalidRecord, s)
                           | Some session \<Rightarrow> redis_project tp rd session (at_time a s))))))"

fun redis_get_all ::
  "third_party \<Rightarrow> 'r redis \<Rightarrow> codec \<Rightarrow> 'r attempt \<Rightarrow> string option \<Rightarrow> string list \<Rightarrow> 'r
   \<Rightarrow> (StoreError + VerificationSession list) \<times> 'r" where
  "redis_get_all tp rd cd a status [] s = (Inr [], s)"
| "redis_get_all tp rd cd a status (session_id # ids) s =
     (case redis_get tp rd cd a session_id s of
        (Inl e, s) \<Rightarrow> (Inl e, s)
      | (Inr found, s) \<Rightarrow>
          (case redis_get_all tp rd cd a status ids s of
             (Inl e, s) \<Rightarrow> (Inl e, s)
           | (Inr sessions, s) \<Rightarrow>
               (Inr (filter (status_wanted status) (case found of None \<Rightarrow> [] | Some x \<Rightarrow> [x]) @ sessions),
                s)))"

definition redis_list ::
  "third_party \<Rightarrow> 'r redis \<Rightarrow> codec \<Rightarrow> 'r attempt \<Rightarrow> string \<Rightarrow> string option \<Rightarrow> 'r
   \<Rightarrow> (StoreError + VerificationSession list) \<times> 'r" where
  "redis_list tp rd cd a organization_id status s =
     (if \<not> rd_up rd s then (Inl Unavailable, s)
      else case redis_get_all tp rd cd a status
                  (rd_smembers rd s (organization_key organization_id)) s of
        (Inl e, s) \<Rightarrow> (Inl e, s)
      | (Inr sessions, s) \<Rightarrow> (Inr (newest_first sessions), s))"

text \<open>The write that ends an attempt: done, or the record has changed and the loop goes on.\<close>

datatype 'a attempt_end = Done 'a | Retry

definition write_back ::
  "'r redis \<Rightarrow> codec \<Rightarrow> string \<Rightarrow> string \<Rightarrow> VerificationSession \<Rightarrow> bool \<Rightarrow> SubmissionTransition \<Rightarrow> 'r
   \<Rightarrow> (StoreError + SubmissionTransition) attempt_end \<times> 'r" where
  "write_back rd cd session_id raw session reset_ttl result s =
     (case cd_encode cd session of
        None \<Rightarrow> (Done (Inl InvalidRecord), s)
      | Some encoded \<Rightarrow>
          (case cas rd session_id raw encoded reset_ttl s of
             (Inl e, s) \<Rightarrow> (Done (Inl e), s)
           | (Inr False, s) \<Rightarrow> (Retry, s)
           | (Inr True, s) \<Rightarrow> (Done (Inr result), s)))"

text \<open>What an attempt decides on the record it read: a session to write, if any, and its answer.\<close>

definition claim_decision ::
  "third_party \<Rightarrow> string \<Rightarrow> string \<Rightarrow> time \<Rightarrow> VerificationSession
   \<Rightarrow> VerificationSession option \<times> SubmissionTransition" where
  "claim_decision tp token digest now session =
     (case submission_state session digest now of
        Some outcome \<Rightarrow>
          if outcome = SoExpired
          then let session = expire_session tp now session
               in (Some session, transition_to outcome session None)
          else (None, transition_to outcome session None)
      | None \<Rightarrow>
          let session = claimed_session digest token now session
          in (Some session, transition_to SoClaimed session (Some token)))"

definition finalize_decision ::
  "third_party \<Rightarrow> string \<Rightarrow> string \<Rightarrow> VerificationSession \<Rightarrow> VerificationSession
   \<Rightarrow> StoreError + VerificationSession option \<times> SubmissionTransition" where
  "finalize_decision tp digest token candidate current =
     (case finalize_refusal current digest token of
        Some outcome \<Rightarrow> Inr (None, transition_to outcome current None)
      | None \<Rightarrow>
          bind_result (validate_terminal_candidate current candidate) (\<lambda>_.
          let terminal = terminal_session tp digest candidate
          in Inr (Some terminal, transition_to SoCommitted terminal None)))"

definition write_decision ::
  "'r redis \<Rightarrow> codec \<Rightarrow> string \<Rightarrow> string \<Rightarrow> bool \<Rightarrow> VerificationSession option \<times> SubmissionTransition
   \<Rightarrow> 'r attempt \<Rightarrow> 'r \<Rightarrow> (StoreError + SubmissionTransition) attempt_end \<times> 'r" where
  "write_decision rd cd session_id raw reset_ttl decision a s =
     (case decision of
        (None, result) \<Rightarrow> (Done (Inr result), s)
      | (Some session, result) \<Rightarrow>
          write_back rd cd session_id raw session reset_ttl result (at_write a s))"

definition claim_attempt ::
  "third_party \<Rightarrow> 'r redis \<Rightarrow> codec \<Rightarrow> string \<Rightarrow> string \<Rightarrow> 'r attempt \<Rightarrow> 'r
   \<Rightarrow> (StoreError + SubmissionTransition) attempt_end \<times> 'r" where
  "claim_attempt tp rd cd session_id digest a s0 =
     (let s = at_read a s0 in
      if \<not> rd_up rd s then (Done (Inl Unavailable), s)
      else case rd_get rd s (session_key session_id) of
        None \<Rightarrow> (Done (Inr (transition_new SoMissing)), s)
      | Some raw \<Rightarrow>
          (case decode_record tp cd raw of
             None \<Rightarrow> (Done (Inl InvalidRecord), s)
           | Some session \<Rightarrow>
               let s = at_time a s in
               if \<not> rd_up rd s then (Done (Inl Unavailable), s)
               else (case rd_time rd s of
                  None \<Rightarrow> (Done (Inl InvalidRecord), s)
                | Some now \<Rightarrow>
                    write_decision rd cd session_id raw False
                      (claim_decision tp (at_token a) digest now session) a s)))"

definition finalize_attempt ::
  "third_party \<Rightarrow> 'r redis \<Rightarrow> codec \<Rightarrow> string \<Rightarrow> string \<Rightarrow> string \<Rightarrow> VerificationSession \<Rightarrow> 'r attempt
   \<Rightarrow> 'r \<Rightarrow> (StoreError + SubmissionTransition) attempt_end \<times> 'r" where
  "finalize_attempt tp rd cd session_id digest token candidate a s0 =
     (let s = at_read a s0 in
      if \<not> rd_up rd s then (Done (Inl Unavailable), s)
      else case rd_get rd s (session_key session_id) of
        None \<Rightarrow> (Done (Inr (transition_new SoMissing)), s)
      | Some raw \<Rightarrow>
          (case decode_record tp cd raw of
             None \<Rightarrow> (Done (Inl InvalidRecord), s)
           | Some current \<Rightarrow>
               (case finalize_decision tp digest token candidate current of
                  Inl e \<Rightarrow> (Done (Inl e), s)
                | Inr decision \<Rightarrow> write_decision rd cd session_id raw True decision a s)))"

fun retry_loop ::
  "('r attempt \<Rightarrow> 'r \<Rightarrow> (StoreError + 'a) attempt_end \<times> 'r) \<Rightarrow> 'r attempt list \<Rightarrow> 'r
   \<Rightarrow> (StoreError + 'a) \<times> 'r" where
  "retry_loop step [] s = (Inl Unavailable, s)"
| "retry_loop step (a # attempts) s =
     (case step a s of
        (Done r, s) \<Rightarrow> (r, s)
      | (Retry, s) \<Rightarrow> retry_loop step attempts s)"

definition redis_claim ::
  "third_party \<Rightarrow> 'r redis \<Rightarrow> codec \<Rightarrow> 'r attempt list \<Rightarrow> string \<Rightarrow> string \<Rightarrow> 'r
   \<Rightarrow> (StoreError + SubmissionTransition) \<times> 'r" where
  "redis_claim tp rd cd attempts session_id digest s =
     retry_loop (claim_attempt tp rd cd session_id digest)
       (take SUBMISSION_CAS_RETRIES attempts) s"

definition redis_finalize ::
  "third_party \<Rightarrow> 'r redis \<Rightarrow> codec \<Rightarrow> 'r attempt list \<Rightarrow> string \<Rightarrow> string \<Rightarrow> string
   \<Rightarrow> VerificationSession \<Rightarrow> 'r \<Rightarrow> (StoreError + SubmissionTransition) \<times> 'r" where
  "redis_finalize tp rd cd attempts session_id digest token candidate s =
     retry_loop (finalize_attempt tp rd cd session_id digest token candidate)
       (take SUBMISSION_CAS_RETRIES attempts) s"

section \<open>The decisions\<close>

definition writing_outcome :: "SubmissionOutcome \<Rightarrow> bool" where
  "writing_outcome outcome = (outcome \<in> {SoClaimed, SoCommitted, SoExpired})"

text \<open>A decision either answers without a write, or writes a move and answers with it.\<close>

definition sound_decision ::
  "third_party \<Rightarrow> VerificationSession \<Rightarrow> VerificationSession option \<times> SubmissionTransition \<Rightarrow> bool" where
  "sound_decision tp session d =
     (case d of
        (None, t) \<Rightarrow> \<not> writing_outcome (st_outcome t) \<and> st_session t = Some session
      | (Some session', t) \<Rightarrow>
          writing_outcome (st_outcome t) \<and> st_session t = Some session'
          \<and> session_move tp session session')"

lemma claim_decision_sound: "sound_decision tp session (claim_decision tp token digest now session)"
proof -
  have "submission_state session digest now \<noteq> Some SoClaimed"
    "submission_state session digest now \<noteq> Some SoCommitted"
    by (auto simp: submission_state_def split: option.splits)
  then show ?thesis
    by (auto simp: sound_decision_def claim_decision_def Let_def transition_to_def writing_outcome_def
        split: option.splits intro: session_move.intros)
qed

lemma finalize_decision_sound:
  assumes "finalize_decision tp digest token candidate session = Inr d"
  shows "sound_decision tp session d"
  using assms
  by (auto simp: sound_decision_def finalize_decision_def Let_def transition_to_def writing_outcome_def
      bind_result_Inr finalize_refusal_def split: option.splits if_splits
      intro: session_move.finalized)

text \<open>The in-memory store carries out the same decisions.\<close>

lemma claim_at_decision:
  "claim_at tp token sid digest now m =
     (case map_of m sid of
        None \<Rightarrow> (transition_new SoMissing, m)
      | Some session \<Rightarrow>
          (case claim_decision tp token digest now session of
             (None, t) \<Rightarrow> (t, m)
           | (Some session', t) \<Rightarrow> (t, bt_insert sid session' m)))"
  by (simp add: claim_at_def claim_decision_def Let_def split: option.split)

lemma finalize_at_decision:
  "finalize_at tp sid digest token candidate m =
     (case map_of m sid of
        None \<Rightarrow> (Inr (transition_new SoMissing), m)
      | Some session \<Rightarrow>
          (case finalize_decision tp digest token candidate session of
             Inl e \<Rightarrow> (Inl e, m)
           | Inr (None, t) \<Rightarrow> (Inr t, m)
           | Inr (Some session', t) \<Rightarrow> (Inr t, bt_insert sid session' m)))"
  by (simp add: finalize_at_def finalize_decision_def Let_def bind_result_def
      split: option.split sum.split)

section \<open>Every write is a move of the record that was read\<close>

definition env_step :: "'r attempt list \<Rightarrow> 'r \<Rightarrow> 'r \<Rightarrow> bool" where
  "env_step attempts s s' = (\<exists>a \<in> set attempts. s' \<in> {at_read a s, at_time a s, at_write a s})"

text \<open>At one instant the record of a session is replaced by a move of the session it held.\<close>

definition own_write ::
  "third_party \<Rightarrow> 'r redis \<Rightarrow> codec \<Rightarrow> string \<Rightarrow> VerificationSession \<Rightarrow> 'r \<Rightarrow> 'r \<Rightarrow> bool" where
  "own_write tp rd cd sid session' s s' \<longleftrightarrow>
     (\<exists>raw session encoded.
        rd_get rd s (session_key sid) = Some raw \<and> decode_record tp cd raw = Some session
        \<and> session_move tp session session' \<and> cd_encode cd session' = Some encoded
        \<and> rd_get rd s' = (rd_get rd s)(session_key sid \<mapsto> encoded))"

text \<open>
  How an attempt, or a whole loop, may end: no write of its own, or one such write at the end,
  which it reports unless the reply was lost.
\<close>

definition quiet :: "(StoreError + SubmissionTransition) \<Rightarrow> bool" where
  "quiet r = (case r of Inl _ \<Rightarrow> True | Inr t \<Rightarrow> \<not> writing_outcome (st_outcome t))"

definition one_write ::
  "third_party \<Rightarrow> 'r redis \<Rightarrow> codec \<Rightarrow> string \<Rightarrow> 'r attempt list \<Rightarrow> 'r
   \<Rightarrow> (StoreError + SubmissionTransition) \<Rightarrow> 'r \<Rightarrow> bool" where
  "one_write tp rd cd sid attempts s r s' \<longleftrightarrow>
     (quiet r \<and> (env_step attempts)\<^sup>*\<^sup>* s s')
     \<or> (\<exists>s1 session'. (env_step attempts)\<^sup>*\<^sup>* s s1 \<and> own_write tp rd cd sid session' s1 s'
          \<and> (case r of
               Inl e \<Rightarrow> e = Unavailable \<and> \<not> rd_reply rd s'
             | Inr t \<Rightarrow> writing_outcome (st_outcome t) \<and> st_session t = Some session'))"

definition ends_well ::
  "third_party \<Rightarrow> 'r redis \<Rightarrow> codec \<Rightarrow> string \<Rightarrow> 'r attempt list \<Rightarrow> 'r
   \<Rightarrow> (StoreError + SubmissionTransition) attempt_end \<times> 'r \<Rightarrow> bool" where
  "ends_well tp rd cd sid attempts s es =
     (case es of
        (Retry, s') \<Rightarrow> (env_step attempts)\<^sup>*\<^sup>* s s'
      | (Done r, s') \<Rightarrow> one_write tp rd cd sid attempts s r s')"

lemma cas_cases:
  assumes "redis_ok rd" and "cas rd sid expected repl reset s = (r, s')"
  shows "(r = Inr True \<or> r = Inl Unavailable \<and> \<not> rd_reply rd s')
      \<and> rd_get rd s (session_key sid) = Some expected
      \<and> rd_get rd s' = (rd_get rd s)(session_key sid \<mapsto> repl)
    \<or> r \<noteq> Inr True \<and> s' = s"
  using assms by (auto simp: cas_def Let_def redis_ok_def replied_def split: if_splits option.splits)

lemma env_moves:
  "(env_step [a])\<^sup>*\<^sup>* s (at_read a s)"
  "(env_step [a])\<^sup>*\<^sup>* s t \<Longrightarrow> (env_step [a])\<^sup>*\<^sup>* s (at_time a t)"
  "(env_step [a])\<^sup>*\<^sup>* s t \<Longrightarrow> (env_step [a])\<^sup>*\<^sup>* s (at_write a t)"
  by (auto simp: env_step_def intro: r_into_rtranclp rtranclp.rtrancl_into_rtrancl)

lemma write_decision_ends_well:
  assumes ok: "redis_ok rd" and raw: "decode_record tp cd raw = Some session"
    and sound: "sound_decision tp session d" and env: "(env_step [a])\<^sup>*\<^sup>* s0 s"
  shows "ends_well tp rd cd sid [a] s0 (write_decision rd cd sid raw reset d a s)"
proof (cases "fst d")
  case None
  then show ?thesis
    using sound env
    by (cases d) (simp add: write_decision_def sound_decision_def ends_well_def one_write_def quiet_def)
next
  case (Some session')
  then obtain t where d: "d = (Some session', t)" by (cases d) auto
  have sound': "writing_outcome (st_outcome t)" "st_session t = Some session'"
    "session_move tp session session'"
    using sound by (simp_all add: sound_decision_def d)
  have env': "(env_step [a])\<^sup>*\<^sup>* s0 (at_write a s)" using env by (rule env_moves)
  show ?thesis
  proof (cases "cd_encode cd session'")
    case None
    then show ?thesis
      using env' by (simp add: d write_decision_def write_back_def ends_well_def one_write_def quiet_def)
  next
    case (Some encoded)
    obtain r s' where c: "cas rd sid raw encoded reset (at_write a s) = (r, s')" by fastforce
    have eq: "write_decision rd cd sid raw reset d a s =
        (case r of Inl e \<Rightarrow> (Done (Inl e), s') | Inr b \<Rightarrow> (if b then Done (Inr t) else Retry, s'))"
      by (cases r) (simp_all add: d write_decision_def write_back_def Some c split: bool.splits)
    from cas_cases [OF ok c] show ?thesis
    proof
      assume w: "(r = Inr True \<or> r = Inl Unavailable \<and> \<not> rd_reply rd s')
        \<and> rd_get rd (at_write a s) (session_key sid) = Some raw
        \<and> rd_get rd s' = (rd_get rd (at_write a s))(session_key sid \<mapsto> encoded)"
      then have "own_write tp rd cd sid session' (at_write a s) s'"
        using raw sound' Some by (auto simp: own_write_def)
      then show ?thesis
        using w env' sound'(1,2) by (auto simp: eq ends_well_def one_write_def)
    next
      assume "r \<noteq> Inr True \<and> s' = at_write a s"
      then show ?thesis
        using env' by (auto simp: eq ends_well_def one_write_def quiet_def split: sum.splits)
    qed
  qed
qed

lemma quiet_end: "(env_step [a])\<^sup>*\<^sup>* s0 s \<Longrightarrow> quiet r \<Longrightarrow> ends_well tp rd cd sid [a] s0 (Done r, s)"
  by (simp add: ends_well_def one_write_def)

lemma quiet_simps [simp]: "quiet (Inl e)" "quiet (Inr (transition_new SoMissing))"
  by (simp_all add: quiet_def transition_new_def writing_outcome_def)

lemma claim_attempt_ends_well:
  "redis_ok rd \<Longrightarrow> ends_well tp rd cd sid [a] s (claim_attempt tp rd cd sid digest a s)"
  unfolding claim_attempt_def Let_def
  by (auto intro!: quiet_end env_moves write_decision_ends_well claim_decision_sound split: option.split)

lemma finalize_attempt_ends_well:
  "redis_ok rd \<Longrightarrow>
     ends_well tp rd cd sid [a] s (finalize_attempt tp rd cd sid digest token candidate a s)"
  unfolding finalize_attempt_def Let_def
  by (auto intro!: quiet_end env_moves write_decision_ends_well finalize_decision_sound
      split: option.split sum.split)

lemma env_step_mono:
  assumes "set as \<subseteq> set bs" and "(env_step as)\<^sup>*\<^sup>* s s'"
  shows "(env_step bs)\<^sup>*\<^sup>* s s'"
proof -
  have "env_step as x y \<Longrightarrow> env_step bs x y" for x y
    using assms(1) unfolding env_step_def by blast
  then have "env_step as \<le> env_step bs" by blast
  then show ?thesis using assms(2) by (rule rtranclp_mono [THEN predicate2D])
qed

lemma retry_loop_one_write:
  assumes "\<And>a s. ends_well tp rd cd sid [a] s (step a s)"
    and "retry_loop step attempts s = (r, s')"
  shows "one_write tp rd cd sid attempts s r s'"
  using assms(2)
proof (induction attempts arbitrary: s)
  case Nil
  then show ?case by (auto simp: one_write_def quiet_def)
next
  case (Cons a as)
  obtain e s1 where e: "step a s = (e, s1)" by fastforce
  have well: "ends_well tp rd cd sid [a] s (e, s1)" using assms(1) [of a s] by (simp add: e)
  show ?case
  proof (cases e)
    case (Done r')
    then have "r' = r" "s1 = s'" using Cons.prems by (simp_all add: e)
    then show ?thesis
      using well Done env_step_mono [of "[a]" "a # as"]
      by (auto simp: ends_well_def one_write_def split: if_splits)
  next
    case Retry
    then have one: "one_write tp rd cd sid as s1 r s'" using Cons by (simp add: e)
    have "(env_step (a # as))\<^sup>*\<^sup>* s s1"
      using well Retry env_step_mono [of "[a]" "a # as"] by (auto simp: ends_well_def)
    then have from_s: "(env_step (a # as))\<^sup>*\<^sup>* s x" if "(env_step as)\<^sup>*\<^sup>* s1 x" for x
      using env_step_mono [OF set_subset_Cons that] by (rule rtranclp_trans)
    show ?thesis using one from_s unfolding one_write_def by blast
  qed
qed

end
