(* ===== verification/Verification_Properties.thy ===== *)
theory Verification_Properties
  imports Verification_Guarantees Verification_Redis
begin

text \<open>
  The guarantees that span the verification service: its two stores agree, the Redis store
  updates a record atomically, a verdict comes from the evaluation of the presentation that was
  claimed, and a session starts only with authority over an active policy.
\<close>

section \<open>The Redis store\<close>


text \<open>A small server and codec for the witnesses: an association list that is always up, and a
  table of two texts.\<close>

definition sample_redis :: "((string \<times> string) list) redis" where
  "sample_redis = \<lparr> rd_up = (\<lambda>_. True), rd_reply = (\<lambda>_. True), rd_get = map_of, rd_pttl = (\<lambda>_ _. 1000),
     rd_set_ex = (\<lambda>k v _ s. (k, v) # s), rd_set_px = (\<lambda>k v _ s. Some ((k, v) # s)),
     rd_sadd = (\<lambda>_ _ s. s), rd_expire = (\<lambda>_ _ s. s), rd_smembers = (\<lambda>_ _. []),
     rd_time = (\<lambda>_. Some 5) \<rparr>"

definition sample_unclaimed :: VerificationSession where
  "sample_unclaimed = sample_session\<lparr>vs_evaluation_principal_id := []\<rparr>"

definition sample_codec :: codec where
  "sample_codec = \<lparr> cd_encode = (\<lambda>s. if vs_processing_token s = None then Some ''a'' else Some ''b''),
     cd_decode = (\<lambda>raw. if raw = ''a'' then Some sample_unclaimed
       else if raw = ''b'' then Some sample_claimed else None) \<rparr>"

definition sample_attempt :: "((string \<times> string) list) attempt" where
  "sample_attempt = \<lparr> at_read = id, at_time = id, at_write = id, at_token = ''tok'' \<rparr>"

lemma sample_redis_ok: "redis_ok sample_redis"
  by (auto simp: redis_ok_def sample_redis_def fun_eq_iff)

lemma sample_decode:
  "decode_record tp sample_codec ''a'' = Some sample_unclaimed"
  "decode_record tp sample_codec ''b'' = Some sample_claimed"
proof -
  have "sample_unclaimed\<lparr>vs_callback_url := None\<rparr> = sample_unclaimed"
    by (simp add: sample_unclaimed_def sample_session_def session_new_def demo_def sample_start_def Let_def)
  moreover have "sample_claimed\<lparr>vs_callback_url := None\<rparr> = sample_claimed"
    by (simp add: sample_claimed_def claimed_session_def sample_session_def session_new_def demo_def
        sample_start_def Let_def)
  ultimately show "decode_record tp sample_codec ''a'' = Some sample_unclaimed"
    "decode_record tp sample_codec ''b'' = Some sample_claimed"
    by (simp_all add: decode_record_def sample_codec_def) (simp_all add: sample_unclaimed_def)
qed



section \<open>The two stores agree\<close>

definition codec_at :: "codec \<Rightarrow> VerificationSession \<Rightarrow> bool" where
  "codec_at cd s =
     (\<exists>raw. cd_encode cd s = Some raw \<and> cd_decode cd raw = Some (s\<lparr>vs_vp_token := None\<rparr>))"

text \<open>The record of a key and the session of the in-memory store are the same session.\<close>

definition represents ::
  "third_party \<Rightarrow> 'r redis \<Rightarrow> codec \<Rightarrow> string \<Rightarrow> 'r \<Rightarrow> MemorySessionStore \<Rightarrow> bool" where
  "represents tp rd cd sid s m =
     (case rd_get rd s (session_key sid) of
        None \<Rightarrow> map_of m sid = None
      | Some raw \<Rightarrow> \<exists>session. decode_record tp cd raw = Some session \<and> map_of m sid = Some session
          \<and> vs_vp_token session = None)"

lemma decode_canonical:
  assumes "decode_record tp cd raw = Some session"
  shows "vs_callback_url session = None" "minimize_terminal tp session = session"
proof -
  obtain s0 where s0: "session = minimize_terminal tp (s0\<lparr>vs_callback_url := None\<rparr>)"
    using assms by (auto simp: decode_record_def)
  show "minimize_terminal tp session = session" by (simp add: s0)
  show "vs_callback_url session = None"
    by (cases "vs_status s0 = SsPending") (simp_all add: s0)
qed

lemma move_canonical:
  assumes "session_move tp session session'" and "vs_vp_token session = None"
    and "vs_callback_url session = None" and "minimize_terminal tp session = session"
  shows "vs_vp_token session' = None \<and> vs_callback_url session' = None
    \<and> minimize_terminal tp session' = session'"
  using assms(1)
proof cases
  case (claimed digest now token)
  then show ?thesis using assms(2,3) by (simp add: claimed_session_def state_None)
next
  case (expired digest now)
  have "minimal tp session'"
    unfolding expired(1) expire_session_def by (rule minimize_terminal_minimal) simp
  then show ?thesis using minimal_fixed by (auto simp: minimal_def)
next
  case (finalized digest token candidate)
  have "minimal tp session'"
    unfolding finalized(1) terminal_session_def
    using finalized(3) by (intro minimize_terminal_minimal) (simp add: validate_Inr)
  then show ?thesis using minimal_fixed by (auto simp: minimal_def)
qed (use assms in simp)

text \<open>A write to a record that nobody else touches succeeds, whether or not its reply arrives.\<close>

definition answers :: "'r redis \<Rightarrow> 'r \<Rightarrow> StoreError + 'a \<Rightarrow> StoreError + 'a \<Rightarrow> bool" where
  "answers rd s' expected r = (r = expected \<or> r = Inl Unavailable \<and> \<not> rd_reply rd s')"

lemma undisturbed_write:
  assumes "redis_ok rd" and "rd_up rd s" and "rd_get rd s (session_key sid) = Some raw"
    and "codec_at cd session"
    and "reset \<or> rd_pttl rd s (session_key sid) < 0
      \<or> (\<forall>v. rd_set_px rd (session_key sid) v (rd_pttl rd s (session_key sid)) s \<noteq> None)"
  shows "\<exists>encoded r s'. write_back rd cd sid raw session reset t s = (Done r, s')
    \<and> answers rd s' (Inr t) r
    \<and> cd_decode cd encoded = Some (session\<lparr>vs_vp_token := None\<rparr>)
    \<and> rd_get rd s' = (rd_get rd s)(session_key sid \<mapsto> encoded)"
proof -
  obtain encoded where enc: "cd_encode cd session = Some encoded"
    "cd_decode cd encoded = Some (session\<lparr>vs_vp_token := None\<rparr>)"
    using assms(4) by (auto simp: codec_at_def)
  have px: "reset \<or> rd_pttl rd s (session_key sid) < 0
      \<or> rd_set_px rd (session_key sid) encoded (rd_pttl rd s (session_key sid)) s \<noteq> None"
    using assms(5) by blast
  have "\<exists>s'. cas rd sid raw encoded reset s = replied rd True s'
      \<and> rd_get rd s' = (rd_get rd s)(session_key sid \<mapsto> encoded)"
    using assms(1-3) px
    by (cases "\<not> reset \<and> 0 \<le> rd_pttl rd s (session_key sid)")
      (auto simp: cas_def Let_def redis_ok_def)
  then obtain s' where c: "cas rd sid raw encoded reset s = replied rd True s'"
    "rd_get rd s' = (rd_get rd s)(session_key sid \<mapsto> encoded)"
    by blast
  show ?thesis
    by (rule exI [of _ encoded])
      (use enc c in \<open>auto simp: write_back_def replied_def answers_def\<close>)
qed

text \<open>A decision, written back undisturbed, represents the in-memory store after the same decision.\<close>

lemma undisturbed_decision:
  assumes ok: "redis_ok rd" and up: "rd_up rd s" and quiet: "at_write a = id"
    and raw: "rd_get rd s (session_key sid) = Some raw" "decode_record tp cd raw = Some session"
    and m: "map_of m sid = Some session" and vp: "vs_vp_token session = None"
    and sound: "sound_decision tp session d"
    and codec: "\<And>session'. fst d = Some session' \<Longrightarrow> codec_at cd session'"
    and px: "reset \<or> rd_pttl rd s (session_key sid) < 0
      \<or> (\<forall>v. rd_set_px rd (session_key sid) v (rd_pttl rd s (session_key sid)) s \<noteq> None)"
  shows "\<exists>r s'. write_decision rd cd sid raw reset d a s = (Done r, s')
    \<and> answers rd s' (Inr (snd d)) r
    \<and> represents tp rd cd sid s' (case fst d of None \<Rightarrow> m | Some session' \<Rightarrow> bt_insert sid session' m)"
proof (cases "fst d")
  case None
  then have "write_decision rd cd sid raw reset d a s = (Done (Inr (snd d)), s)"
    by (cases d) (simp add: write_decision_def)
  then show ?thesis using raw m vp None by (simp add: represents_def answers_def)
next
  case (Some session')
  have move: "session_move tp session session'"
    using sound Some by (cases d) (simp add: sound_decision_def)
  note can = move_canonical [OF move vp decode_canonical [OF raw(2)]]
  obtain encoded r s' where w: "write_back rd cd sid raw session' reset (snd d) s = (Done r, s')"
    "cd_decode cd encoded = Some (session'\<lparr>vs_vp_token := None\<rparr>)"
    "rd_get rd s' = (rd_get rd s)(session_key sid \<mapsto> encoded)"
    "answers rd s' (Inr (snd d)) r"
    using undisturbed_write [OF ok up raw(1) codec [OF Some] px, of "snd d"] by blast
  have same: "session'\<lparr>vs_vp_token := None\<rparr> = session'" "session'\<lparr>vs_callback_url := None\<rparr> = session'"
    using can by (cases session'; simp)+
  have "decode_record tp cd encoded = Some session'"
    using w(2) can by (simp add: decode_record_def same)
  then have "represents tp rd cd sid s' (bt_insert sid session' m)"
    using w(3) can by (simp add: represents_def store_simps)
  moreover have "write_decision rd cd sid raw reset d a s = (Done r, s')"
    using w(1) Some quiet by (cases d) (simp add: write_decision_def)
  ultimately show ?thesis using Some w(4) by auto
qed

text \<open>C15. The two session stores are the same store: when no other client interferes, a claim and a
  finalization on a Redis record answer exactly what they answer on the in-memory store that
  represents it, at the same instant and with the same token (or that the store is unavailable,
  when the server's reply is lost), and the record they leave represents the in-memory store they
  leave.\<close>

theorem redis_agrees_with_memory:
  assumes ok: "redis_ok rd" and up: "rd_up rd s" and time: "rd_time rd s = Some now"
    and quiet: "at_read a = id" "at_time a = id" "at_write a = id"
    and rep: "represents tp rd cd sid s m"
    and px: "rd_pttl rd s (session_key sid) < 0
      \<or> (\<forall>v. rd_set_px rd (session_key sid) v (rd_pttl rd s (session_key sid)) s \<noteq> None)"
    and codec: "\<And>s'. s' \<in> snd ` set (snd (claim_at tp (at_token a) sid digest now m))
      \<union> snd ` set (snd (finalize_at tp sid digest token candidate m)) \<Longrightarrow> codec_at cd s'"
  shows "(\<exists>r s'. redis_claim tp rd cd (a # as) sid digest s = (r, s')
      \<and> (r = Inr (fst (claim_at tp (at_token a) sid digest now m))
         \<or> r = Inl Unavailable \<and> \<not> rd_reply rd s')
      \<and> represents tp rd cd sid s' (snd (claim_at tp (at_token a) sid digest now m)))
    \<and> (\<exists>r s'. redis_finalize tp rd cd (a # as) sid digest token candidate s = (r, s')
      \<and> (r = fst (finalize_at tp sid digest token candidate m)
         \<or> r = Inl Unavailable \<and> \<not> rd_reply rd s')
      \<and> represents tp rd cd sid s' (snd (finalize_at tp sid digest token candidate m)))"
proof (cases "rd_get rd s (session_key sid)")
  case None
  then have none: "map_of m sid = None" using rep by (simp add: represents_def)
  then show ?thesis
    using None up quiet rep
    by (simp add: redis_claim_def redis_finalize_def SUBMISSION_CAS_RETRIES_def claim_attempt_def
        finalize_attempt_def Let_def claim_at_def finalize_at_def)
next
  case (Some raw)
  then obtain session where ses: "decode_record tp cd raw = Some session" "map_of m sid = Some session"
    "vs_vp_token session = None"
    using rep by (auto simp: represents_def)
  let ?d = "claim_decision tp (at_token a) digest now session"
  have in_set: "session' \<in> snd ` set (bt_insert sid session' m)" for session'
    using map_of_SomeD [of "bt_insert sid session' m" sid session'] by (force simp: store_simps)
  have claim: "\<exists>r s'. write_decision rd cd sid raw False ?d a s = (Done r, s')
    \<and> answers rd s' (Inr (snd ?d)) r
    \<and> represents tp rd cd sid s' (case fst ?d of None \<Rightarrow> m | Some session' \<Rightarrow> bt_insert sid session' m)"
    using px in_set
    by (intro undisturbed_decision [OF ok up quiet(3) Some ses claim_decision_sound] codec)
      (auto simp: claim_at_decision ses split: prod.splits option.splits)
  have at: "claim_at tp (at_token a) sid digest now m
      = (snd ?d, case fst ?d of None \<Rightarrow> m | Some session' \<Rightarrow> bt_insert sid session' m)"
    by (simp add: claim_at_decision ses split: prod.split option.split)
  have c: "\<exists>r s'. redis_claim tp rd cd (a # as) sid digest s = (r, s')
      \<and> answers rd s' (Inr (fst (claim_at tp (at_token a) sid digest now m))) r
      \<and> represents tp rd cd sid s' (snd (claim_at tp (at_token a) sid digest now m))"
    using claim up quiet Some ses(1) time
    by (auto simp: redis_claim_def SUBMISSION_CAS_RETRIES_def claim_attempt_def Let_def at)
  have f: "\<exists>r s'. redis_finalize tp rd cd (a # as) sid digest token candidate s = (r, s')
      \<and> answers rd s' (fst (finalize_at tp sid digest token candidate m)) r
      \<and> represents tp rd cd sid s' (snd (finalize_at tp sid digest token candidate m))"
  proof (cases "finalize_decision tp digest token candidate session")
    case (Inl e)
    then show ?thesis
      using up quiet Some ses rep
      by (simp add: redis_finalize_def SUBMISSION_CAS_RETRIES_def finalize_attempt_def Let_def
          finalize_at_decision answers_def)
  next
    case (Inr d)
    have at: "finalize_at tp sid digest token candidate m
        = (Inr (snd d), case fst d of None \<Rightarrow> m | Some session' \<Rightarrow> bt_insert sid session' m)"
      by (simp add: finalize_at_decision ses Inr split: prod.split option.split)
    have "\<exists>r s'. write_decision rd cd sid raw True d a s = (Done r, s')
      \<and> answers rd s' (Inr (snd d)) r
      \<and> represents tp rd cd sid s' (case fst d of None \<Rightarrow> m | Some session' \<Rightarrow> bt_insert sid session' m)"
      using in_set
      by (intro undisturbed_decision [OF ok up quiet(3) Some ses finalize_decision_sound [OF Inr]] codec)
        (auto simp: at split: option.splits)
    then show ?thesis
      using up quiet Some ses(1)
      by (auto simp: redis_finalize_def SUBMISSION_CAS_RETRIES_def finalize_attempt_def Let_def at Inr)
  qed
  show ?thesis using c f unfolding answers_def by blast
qed

theorem redis_agrees_with_memory_witness:
  "\<exists>s'. redis_claim demo sample_redis sample_codec [sample_attempt] ''u'' ''d''
       [(session_key ''u'', ''a'')]
     = (Inr (fst (claim_at demo ''tok'' ''u'' ''d'' 5 [(''u'', sample_unclaimed)])), s')"
proof -
  have rep: "represents demo sample_redis sample_codec ''u'' [(session_key ''u'', ''a'')]
      [(''u'', sample_unclaimed)]"
    using sample_decode(1) by (simp add: represents_def sample_redis_def) (simp add: sample_unclaimed_def)
  have claim: "snd (claim_at demo ''tok'' ''u'' ''d'' 5 [(''u'', sample_unclaimed)])
      = [(''u'', sample_claimed)]"
    using sample_claim by (simp add: sample_unclaimed_def)
  have fin: "snd (finalize_at demo ''u'' ''d'' ''tok'' sample_verdict [(''u'', sample_unclaimed)])
      = [(''u'', sample_unclaimed)]"
    by (simp add: finalize_at_def finalize_refusal_def sample_unclaimed_def)
  have codec: "codec_at sample_codec sample_claimed" "codec_at sample_codec sample_unclaimed"
    by (simp_all add: codec_at_def sample_codec_def sample_claimed_def claimed_session_def
        sample_unclaimed_def sample_session_def session_new_def demo_def sample_start_def Let_def)
  have "\<exists>s'. redis_claim demo sample_redis sample_codec (sample_attempt # []) ''u'' ''d''
       [(session_key ''u'', ''a'')]
     = (Inr (fst (claim_at demo (at_token sample_attempt) ''u'' ''d'' 5 [(''u'', sample_unclaimed)])), s')"
    using redis_agrees_with_memory [OF sample_redis_ok, of "[(session_key ''u'', ''a'')]" 5
        sample_attempt demo sample_codec "''u''" "[(''u'', sample_unclaimed)]" "''d''" "''tok''"
        sample_verdict "[]"] rep claim fin codec
    by (auto simp: sample_redis_def sample_attempt_def)
  then show ?thesis by (simp add: sample_attempt_def)
qed

section \<open>Verdicts\<close>

lemma evaluated_identity:
  "vs_status (evaluated_session svc sid vp t s) = SsCompleted
     \<longleftrightarrow> vs_result (evaluated_session svc sid vp t s) = Some ''passed''"
  "vs_status (evaluated_session svc sid vp t s) \<noteq> SsPending"
  "vs_completed_at (evaluated_session svc sid vp t s) = Some t"
  by (simp_all add: evaluated_session_def Let_def)

lemma evaluated_result:
  "vs_result (evaluated_session svc sid vp t s) = Some ''passed'' \<longleftrightarrow>
     (\<exists>r. vp_evaluate (vc_providers svc) (evaluation_request s sid vp) = Inr r
        \<and> ev_result r = ''passed'')"
proof (cases "vp_evaluate (vc_providers svc) (evaluation_request s sid vp)")
  case (Inl e)
  then show ?thesis by (simp add: evaluated_session_def Let_def evaluation_failed_def)
next
  case (Inr r)
  then show ?thesis
    by (auto simp: evaluated_session_def Let_def apply_evaluation_def
        split: sum.splits option.splits)
qed

text \<open>C10. A verdict comes from the evaluation of the presentation that was claimed. When a request
  claims a session, evaluates, and finalizes while the session is still pending, whatever other
  requests did in between, the session it returns is the stored one, ended, bound to the digest of
  this presentation, and it is completed exactly when the evaluation service answered passed for
  this presentation under the session's own policy, organization, principal and nonce.\<close>

theorem verdict_comes_from_the_evaluation:
  assumes "vc_store svc = memory_store tp now token"
    and "submit_claim svc sid (tp_sha256_hex tp vp) m = (Inr (Granted s0 w), m1)"
    and "vc_store svc' = memory_store tp now' token'"
    and "submit_finalize svc' sid (tp_sha256_hex tp vp) w (evaluated_session svc sid vp t s0) m2
       = (Inr s, m3)"
    and "map_of m2 sid = Some s1" and "vs_status s1 = SsPending"
  shows "map_of m3 sid = Some s \<and> vs_status s \<in> {SsCompleted, SsFailed}
    \<and> vs_vp_token_sha256 s = Some (tp_sha256_hex tp vp) \<and> vs_completed_at s = Some t
    \<and> (vs_status s = SsCompleted \<longleftrightarrow>
        (\<exists>r. vp_evaluate (vc_providers svc)
              \<lparr> pe_policy_id = (case vs_presentation_policy_id s1 of None \<Rightarrow> [] | Some p \<Rightarrow> p),
                pe_organization_id = vs_organization_id s1,
                pe_principal_id = vs_evaluation_principal_id s1, pe_presentation = vp,
                pe_nonce = vs_nonce s1, pe_audience = [],
                pe_context = [(''session_id'', JStr sid)] \<rparr> = Inr r
           \<and> ev_result r = ''passed''))"
proof -
  let ?c = "evaluated_session svc sid vp t s0"
  let ?d = "tp_sha256_hex tp vp"
  have refuse: "finalize_refusal s1 ?d w = None"
    and valid: "validate_terminal_candidate s1 ?c = Inr ()"
    and s: "s = terminal_session tp ?d ?c" and m3: "m3 = bt_insert sid s m2"
    using assms(3,4,5,6)
    by (auto simp: submit_finalize_def memory_store_def finalize_at_def Let_def transition_to_def
        finalize_refusal_def submission_error_def split: option.splits sum.splits if_splits)
  have status: "vs_status ?c \<in> {SsCompleted, SsFailed}"
    by (simp add: evaluated_session_def Let_def)
  have "vs_nonce ?c = vs_nonce s0" "vs_organization_id ?c = vs_organization_id s0"
    "vs_evaluation_principal_id ?c = vs_evaluation_principal_id s0"
    "vs_presentation_policy_id ?c = vs_presentation_policy_id s0"
    by (auto simp: evaluated_session_def Let_def apply_evaluation_def evaluation_failed_def
        split: sum.splits option.splits)
  then have request: "evaluation_request s0 sid vp = evaluation_request s1 sid vp"
    using valid by (simp add: validate_Inr evaluation_request_def)
  have asked: "\<lparr> pe_policy_id = (case vs_presentation_policy_id s1 of None \<Rightarrow> [] | Some p \<Rightarrow> p),
      pe_organization_id = vs_organization_id s1, pe_principal_id = vs_evaluation_principal_id s1,
      pe_presentation = vp, pe_nonce = vs_nonce s1, pe_audience = [],
      pe_context = [(''session_id'', JStr sid)] \<rparr> = evaluation_request s0 sid vp"
    unfolding request by (simp only: evaluation_request_def)
  have "vs_status s = vs_status ?c" "vs_completed_at s = vs_completed_at ?c"
    "vs_vp_token_sha256 s = Some ?d"
    by (simp_all add: s terminal_session_def minimize_digest)
  then show ?thesis
    using status evaluated_identity [of svc sid vp t s0] evaluated_result [of svc sid vp t s0]
    unfolding asked by (auto simp: m3 store_simps)
qed

definition sample_providers :: "unit verification_providers" where
  "sample_providers = \<lparr> vp_flow = \<lparr> fp_get_policy = None, fp_get_template = None,
       fp_wallet_formats = (\<lambda>_. Inr []) \<rparr>,
     vp_membership = (\<lambda>_ _. Inr (Some ())),
     vp_evaluate = (\<lambda>_. Inr \<lparr> ev_result = ''passed'', ev_decision = ''allow'', ev_decision_reason = [],
       ev_verified_claims = [], ev_credential_results = [], ev_holder_binding_evidence = None,
       ev_total_requirements = 1, ev_satisfied_requirements = 1, ev_evaluation_timestamp = [],
       ev_nonce = [] \<rparr>),
     vp_inspect = (\<lambda>_. Inr None), vp_authorize_api_key = (\<lambda>_ _ _ _ _ _. True),
     vp_authorize_membership = (\<lambda>_ _ _ _. Inr ()) \<rparr>"

definition sample_service :: "bool \<Rightarrow> (MemorySessionStore, unit) VerificationService" where
  "sample_service managed = \<lparr> vc_store = memory_store demo 5 ''tok'', vc_providers = sample_providers,
     vc_public_base_url = ''https://v'', vc_management_authorization = managed \<rparr>"

lemma sample_submission:
  "submit_claim (sample_service True) ''u'' (tp_sha256_hex demo ''vp'') [(''u'', sample_unclaimed)]
     = (Inr (Granted (claimed_session ''sha-vp'' ''tok'' 5 sample_unclaimed) ''tok''),
        [(''u'', claimed_session ''sha-vp'' ''tok'' 5 sample_unclaimed)])"
  by (simp add: submit_claim_def sample_service_def memory_store_def claim_at_def submission_state_def
      sample_unclaimed_def is_expired_at_def seconds_def transition_to_def demo_def Let_def)

theorem verdict_comes_from_the_evaluation_witness:
  "\<exists>s m3. submit_finalize (sample_service True) ''u'' (tp_sha256_hex demo ''vp'') ''tok''
       (evaluated_session (sample_service True) ''u'' ''vp'' 6
          (claimed_session ''sha-vp'' ''tok'' 5 sample_unclaimed))
       [(''u'', claimed_session ''sha-vp'' ''tok'' 5 sample_unclaimed)] = (Inr s, m3)
     \<and> vs_status s = SsCompleted"
proof -
  let ?s0 = "claimed_session ''sha-vp'' ''tok'' 5 sample_unclaimed"
  let ?c = "evaluated_session (sample_service True) ''u'' ''vp'' 6 ?s0"
  have svc: "vc_store (sample_service True) = memory_store demo 5 ''tok''"
    by (simp add: sample_service_def)
  have "validate_terminal_candidate ?s0 ?c = Inr ()"
    by (simp add: validate_Inr evaluated_session_def Let_def sample_service_def sample_providers_def
        apply_evaluation_def claimed_session_def)
  then obtain s m3 where fin: "submit_finalize (sample_service True) ''u'' (tp_sha256_hex demo ''vp'')
      ''tok'' ?c [(''u'', ?s0)] = (Inr s, m3)"
    by (simp add: submit_finalize_def svc memory_store_def finalize_at_def finalize_refusal_def
        claimed_session_def sample_unclaimed_def transition_to_def demo_def Let_def)
  have "vs_status s = SsCompleted"
    using verdict_comes_from_the_evaluation [OF svc sample_submission svc fin, of ?s0]
    by (simp add: claimed_session_def sample_unclaimed_def sample_service_def sample_providers_def)
  then show ?thesis using fin by blast
qed

section \<open>Authority\<close>

lemma authorize_Inr:
  "authorize svc actor org = Inr () \<longleftrightarrow>
     \<not> vc_management_authorization svc
     \<or> \<not> blank (mp_user_id actor)
       \<and> (if api_context actor
          then scope_allowed actor
             \<and> vp_authorize_api_key (vc_providers svc) ''verification:execute'' (mp_user_id actor)
                 org (mp_api_key_id actor) (mp_organization_id actor) (mp_required_permission actor)
          else \<exists>membership. vp_membership (vc_providers svc) (mp_user_id actor) org = Inr membership
             \<and> vp_authorize_membership (vc_providers svc) ''verification:execute'' (mp_user_id actor)
                 org membership = Inr ())"
  by (auto simp: authorize_def Let_def bind_result_Inr)

text \<open>A verification session starts only with authority. When the start of a session succeeds
  under management authorization, the caller is authorized for the organization of the session and
  the named presentation policy is active, belongs to that organization and names only active
  credential templates of it; in either mode the caller's own organization does not differ, a
  presentation session has a caller and a policy, and no callback is accepted. The stored session
  is pending, unclaimed and carries the caller as the principal of its evaluation.\<close>

theorem sessions_start_with_authority:
  assumes "start_session tp svc u f nonce body actor now m = (Inr s, m')"
    and "vc_store svc = memory_store tp now' token"
  shows "map_of m' (vs_session_id s) = Some s \<and> vs_status s = SsPending
    \<and> vs_vp_token_sha256 s = None \<and> vs_processing_token s = None
    \<and> vs_evaluation_principal_id s = mp_user_id actor
    \<and> vs_organization_id s = sr_organization_id body \<and> sr_callback_url body = None
    \<and> (blank (mp_organization_id actor) \<or> blank (sr_organization_id body)
       \<or> mp_organization_id actor = sr_organization_id body)
    \<and> (sr_response_type body = ''vp_token'' \<longrightarrow>
         \<not> blank (mp_user_id actor) \<and> sr_presentation_policy_id body \<noteq> None)
    \<and> (vc_management_authorization svc \<longrightarrow>
         authorize svc actor (sr_organization_id body) = Inr ()
         \<and> (\<forall>policy_id. sr_presentation_policy_id body = Some policy_id \<longrightarrow>
              (\<exists>get_policy policy rts. fp_get_policy (vp_flow (vc_providers svc)) = Some get_policy
                 \<and> get_policy policy_id = Inr policy \<and> pr_id policy = policy_id
                 \<and> pr_organization_id policy = sr_organization_id body
                 \<and> eq_ignore_ascii_case (pr_status policy) ''active''
                 \<and> rts \<noteq> [] \<and> map fst rts = pr_credential_requirements policy
                 \<and> (\<forall>rt \<in> set rts. template_ok (sr_organization_id body) rt))))"
proof -
  obtain s0 where checks: "start_checks svc body actor = Inr ()"
    and new: "session_new tp u f nonce body now = Inr s0"
    and s: "s = s0\<lparr>vs_evaluation_principal_id := mp_user_id actor\<rparr>" and m': "m' = save_session tp s m"
    using assms
    by (auto simp: start_session_def save_started_def memory_store_def split: sum.splits)
  note new_fields = session_new_fields [OF new]
  have stored: "map_of m' (vs_session_id s) = Some s"
    using new_fields by (simp add: m' save_session_def Let_def s store_simps)
  have resolved: "\<exists>get_policy policy rts. fp_get_policy (vp_flow (vc_providers svc)) = Some get_policy
      \<and> get_policy policy_id = Inr policy \<and> pr_id policy = policy_id
      \<and> pr_organization_id policy = sr_organization_id body
      \<and> eq_ignore_ascii_case (pr_status policy) ''active''
      \<and> rts \<noteq> [] \<and> map fst rts = pr_credential_requirements policy
      \<and> (\<forall>rt \<in> set rts. template_ok (sr_organization_id body) rt)"
    if "resolve_policy svc policy_id (sr_organization_id body) = Inr ()" for policy_id
  proof -
    note ok = that
    obtain policy rts where "resolve_flow_presentation_policy (vp_flow (vc_providers svc)) policy_id
        (sr_organization_id body) = Inr (policy, rts)"
      using ok by (auto simp: resolve_policy_def bind_result_Inr)
    then show ?thesis by (rule resolve_policy_Inr) blast
  qed
  have managed: "authorize svc actor (sr_organization_id body) = Inr ()
      \<and> (\<forall>policy_id. sr_presentation_policy_id body = Some policy_id \<longrightarrow>
           resolve_policy svc policy_id (sr_organization_id body) = Inr ())"
    if "vc_management_authorization svc"
    using checks that
    by (auto simp: start_checks_def bind_result_Inr split: if_splits option.splits)
  have "sr_callback_url body = None
    \<and> (blank (mp_organization_id actor) \<or> blank (sr_organization_id body)
       \<or> mp_organization_id actor = sr_organization_id body)
    \<and> (sr_response_type body = ''vp_token'' \<longrightarrow>
         \<not> blank (mp_user_id actor) \<and> sr_presentation_policy_id body \<noteq> None)"
    using checks by (auto simp: start_checks_def bind_result_Inr split: if_splits)
  moreover have "vs_status s = SsPending" "vs_vp_token_sha256 s = None" "vs_processing_token s = None"
    "vs_evaluation_principal_id s = mp_user_id actor"
    "vs_organization_id s = sr_organization_id body"
    using new_fields by (simp_all add: s)
  ultimately show ?thesis
    using stored managed resolved by (intro conjI impI allI) blast+
qed

theorem sessions_start_with_authority_witness:
  "\<exists>s m'. start_session demo (sample_service False) 1 2 ''nonce'' sample_start
       \<lparr> mp_user_id = ''ann'', mp_organization_id = ''org'', mp_api_key_id = [], mp_api_key_scopes = [],
         mp_required_permission = [] \<rparr> 0 [] = (Inr s, m')
     \<and> map_of m' (vs_session_id s) = Some s"
proof -
  let ?ann = "\<lparr> mp_user_id = ''ann'', mp_organization_id = ''org'', mp_api_key_id = [],
     mp_api_key_scopes = [], mp_required_permission = [] \<rparr>"
  have svc: "vc_store (sample_service False) = memory_store demo 5 ''tok''"
    by (simp add: sample_service_def)
  have words: "trim ''ann'' = ''ann''" "trim ''org'' = ''org''"
    by (rule trim_visible; simp add: visible_def byte_def)+
  obtain s m' where run: "start_session demo (sample_service False) 1 2 ''nonce'' sample_start ?ann 0 []
      = (Inr s, m')"
    using sample_session_new
    by (simp add: start_session_def start_checks_def validate_start_def sample_start_def at_most_def
        sample_service_def words save_started_def memory_store_def)
  then show ?thesis using sessions_start_with_authority [OF run svc] by blast
qed

end
