(* ===== verification/Key_Material.thy ===== *)
theory Key_Material
  imports Rust_Chars
begin

text \<open>
  \<open>rust/crates/key-material-policy/src/lib.rs\<close>: the fail-closed scan for private key material
  in JSON documents and in JSON text nested inside their strings. The parser of JSON text that
  keeps duplicate members (\<open>JsonTree::from_json_bytes_preserving_duplicates\<close>) is the argument
  \<open>parse\<close>; its tree is \<open>jnode\<close>, with \<open>None\<close> for a text that is not a sequence of scalar values.
\<close>

datatype jnode =
    NScalar json
  | NText "string option"
  | NFloat rat
  | NArray "jnode list"
  | NObject "(string option \<times> jnode) list"

section \<open>Names of private members\<close>

definition PRIVATE_JWK_MEMBERS :: "string list" where
  "PRIVATE_JWK_MEMBERS = [''d'', ''p'', ''q'', ''dp'', ''dq'', ''qi'', ''oth'', ''k'']"

definition private_jwk_members :: "jmap \<Rightarrow> string list" where
  "private_jwk_members jwk = filter (\<lambda>m. contains_key m jwk) PRIVATE_JWK_MEMBERS"

definition is_private_jwk_field :: "string \<Rightarrow> bool" where
  "is_private_jwk_field name = (name \<in> set PRIVATE_JWK_MEMBERS \<or> name = ''rsa_d'')"

definition contains_populated_private_jwk_fields :: "jmap \<Rightarrow> bool" where
  "contains_populated_private_jwk_fields values =
     (\<exists>(name, value) \<in> set values. value \<noteq> JNull \<and> is_private_jwk_field name)"

definition normalized_name :: "string \<Rightarrow> string" where
  "normalized_name name = map ascii_lower (filter is_alphanumeric name)"

definition is_private_field_name :: "string \<Rightarrow> bool" where
  "is_private_field_name name =
     (\<exists>part \<in> set [''privatekey'', ''privatejwk'', ''privatepem'', ''secretkey'', ''pkcs8''].
        contains_text part (normalized_name name))"

definition has_private_key_fields :: "jmap \<Rightarrow> bool" where
  "has_private_key_fields values =
     ((\<exists>(name, value) \<in> set values. value \<noteq> JNull \<and> is_private_field_name name)
      \<or> contains_key ''kty'' values \<and> contains_populated_private_jwk_fields values)"

definition has_private_key_marker :: "string \<Rightarrow> bool" where
  "has_private_key_marker value =
     (contains_text ''-----BEGIN'' value \<and> contains_text ''PRIVATE KEY-----'' value)"

text \<open>A string is a hit by its marker, or by the nested JSON text it holds.\<close>

definition text_hit :: "(string \<Rightarrow> bool) \<Rightarrow> string \<Rightarrow> bool" where
  "text_hit nested value =
     (has_private_key_marker value
      \<or> (let trimmed = trim_front space_prefix value
         in (starts_with ''{'' trimmed \<or> starts_with ''['' trimmed) \<and> nested trimmed))"

section \<open>Scanning parsed JSON text\<close>

definition node_text :: "jnode \<Rightarrow> string option" where
  "node_text n = (case n of NText t \<Rightarrow> t | NScalar (JStr s) \<Rightarrow> Some s | _ \<Rightarrow> None)"

definition entry_hit :: "bool \<Rightarrow> string option \<times> jnode \<Rightarrow> bool" where
  "entry_hit has_kty entry =
     (case entry of (name, child) \<Rightarrow>
        (case name of
           None \<Rightarrow> False
         | Some name \<Rightarrow> child \<noteq> NScalar JNull
             \<and> (is_private_field_name name \<or> has_kty \<and> is_private_jwk_field name)))"

text \<open>A worklist weighs the sizes of its nodes; what replaces a container weighs less.\<close>

definition weight :: "'a::size list \<Rightarrow> nat" where
  "weight xs = sum_list (map (\<lambda>x. Suc (size x)) xs)"

lemma weight_simps [simp]:
  "weight [] = 0" "weight (x # xs) = Suc (size x) + weight xs"
  "weight (xs @ ys) = weight xs + weight ys" "weight (rev xs) = weight xs"
  by (simp_all add: weight_def rev_map [symmetric])

lemma weight_children [simp]: "weight xs \<le> size_list size xs"
  by (induction xs) auto

lemma weight_entries [simp]: "weight (map snd xs) \<le> size_list (size_prod f size) xs"
  by (induction xs) auto

text \<open>The worklist, its top first.\<close>

function scan_nodes :: "(string \<Rightarrow> bool) \<Rightarrow> jnode list \<Rightarrow> bool" where
  "scan_nodes nested [] = False"
| "scan_nodes nested (n # pending) =
     (if (case node_text n of None \<Rightarrow> False | Some t \<Rightarrow> text_hit nested t) then True
      else (case n of
          NArray children \<Rightarrow> scan_nodes nested (rev children @ pending)
        | NObject entries \<Rightarrow>
            (let has_kty = (\<exists>(name, _) \<in> set entries. name = Some ''kty'')
             in if (\<exists>entry \<in> set entries. entry_hit has_kty entry) then True
                else scan_nodes nested (rev (map snd entries) @ pending))
        | _ \<Rightarrow> scan_nodes nested pending))"
  by pat_completeness auto

termination
  by (relation "measure (\<lambda>(_, ns). weight ns)") (auto simp: less_Suc_eq_le intro: le_SucI)

function json_inner :: "(string \<Rightarrow> jnode option) \<Rightarrow> nat \<Rightarrow> string \<Rightarrow> bool option" where
  "json_inner parse decoded_depth raw =
     (if 16 < decoded_depth then Some True
      else (case parse raw of
          None \<Rightarrow> None
        | Some tree \<Rightarrow>
            Some (scan_nodes (\<lambda>t. json_inner parse (decoded_depth + 1) t = Some True) [tree])))"
  by pat_completeness auto
termination by (relation "measure (\<lambda>(_, d, _). 17 - d)") auto

declare json_inner.simps [simp del]

definition contains_private_key_json :: "(string \<Rightarrow> jnode option) \<Rightarrow> string \<Rightarrow> bool option" where
  "contains_private_key_json parse raw = json_inner parse 0 raw"

section \<open>Scanning values\<close>

function scan_values :: "(string \<Rightarrow> bool) \<Rightarrow> json list \<Rightarrow> bool" where
  "scan_values nested [] = False"
| "scan_values nested (v # pending) =
     (case v of
        JStr s \<Rightarrow> if text_hit nested s then True else scan_values nested pending
      | JArr vs \<Rightarrow> scan_values nested (rev vs @ pending)
      | JObj m \<Rightarrow>
          if has_private_key_fields m then True
          else scan_values nested (rev (map snd m) @ pending)
      | _ \<Rightarrow> scan_values nested pending)"
  by pat_completeness auto

termination
  by (relation "measure (\<lambda>(_, vs). weight vs)") (auto simp: less_Suc_eq_le intro: le_SucI)

definition contains_private_key_inner :: "(string \<Rightarrow> jnode option) \<Rightarrow> json \<Rightarrow> nat \<Rightarrow> bool" where
  "contains_private_key_inner parse value decoded_depth =
     (if 16 < decoded_depth then True
      else scan_values (\<lambda>t. json_inner parse (decoded_depth + 1) t = Some True) [value])"

definition contains_private_key :: "(string \<Rightarrow> jnode option) \<Rightarrow> json \<Rightarrow> bool" where
  "contains_private_key parse value = contains_private_key_inner parse value 0"

definition contains_private_key_map :: "(string \<Rightarrow> jnode option) \<Rightarrow> jmap \<Rightarrow> bool" where
  "contains_private_key_map parse values =
     (has_private_key_fields values
      \<or> (\<exists>value \<in> snd ` set values. contains_private_key_inner parse value 0))"

section \<open>What the scan finds\<close>

fun subvalues :: "json \<Rightarrow> json set" where
  "subvalues (JArr vs) = insert (JArr vs) (\<Union>v \<in> set vs. subvalues v)"
| "subvalues (JObj m) = insert (JObj m) (\<Union>kv \<in> set m. subvalues (snd kv))"
| "subvalues v = {v}"

fun subnodes :: "jnode \<Rightarrow> jnode set" where
  "subnodes (NArray ns) = insert (NArray ns) (\<Union>n \<in> set ns. subnodes n)"
| "subnodes (NObject es) = insert (NObject es) (\<Union>e \<in> set es. subnodes (snd e))"
| "subnodes n = {n}"

definition value_hit :: "(string \<Rightarrow> bool) \<Rightarrow> json \<Rightarrow> bool" where
  "value_hit nested v = (case v of
     JStr s \<Rightarrow> text_hit nested s | JObj m \<Rightarrow> has_private_key_fields m | _ \<Rightarrow> False)"

definition private_entries :: "jnode \<Rightarrow> bool" where
  "private_entries n = (case n of
     NObject es \<Rightarrow> (\<exists>e \<in> set es. entry_hit (\<exists>(name, _) \<in> set es. name = Some ''kty'') e)
   | _ \<Rightarrow> False)"

definition node_hit :: "(string \<Rightarrow> bool) \<Rightarrow> jnode \<Rightarrow> bool" where
  "node_hit nested n =
     ((\<exists>t. node_text n = Some t \<and> text_hit nested t) \<or> private_entries n)"

lemma scan_values_exact:
  "scan_values nested vs \<longleftrightarrow> (\<exists>v \<in> set vs. \<exists>w \<in> subvalues v. value_hit nested w)"
proof (induction nested vs rule: scan_values.induct)
  case (2 nested v pending)
  show ?case by (cases v) (auto simp: value_hit_def 2)
qed simp

lemma scan_nodes_exact:
  "scan_nodes nested ns \<longleftrightarrow> (\<exists>n \<in> set ns. \<exists>m \<in> subnodes n. node_hit nested m)"
proof (induction nested ns rule: scan_nodes.induct)
  case (2 nested n pending)
  have self: "n \<in> subnodes n" by (cases n) auto
  show ?case
  proof (cases "\<exists>t. node_text n = Some t \<and> text_hit nested t")
    case True
    then show ?thesis using self by (auto simp: node_hit_def)
  next
    case False
    then have no: "\<not> (case node_text n of None \<Rightarrow> False | Some t \<Rightarrow> text_hit nested t)"
      by (auto split: option.splits)
    show ?thesis
    proof (cases n)
      case (NObject es)
      have n: "node_hit nested (NObject es) = private_entries (NObject es)"
        by (simp add: node_hit_def node_text_def)
      show ?thesis
      proof (cases "private_entries (NObject es)")
        case True
        then show ?thesis
          using no by (simp add: NObject n) (auto simp: private_entries_def Let_def)
      next
        case False
        have "scan_nodes nested (n # pending) = scan_nodes nested (rev (map snd es) @ pending)"
          using False no by (simp add: NObject) (auto simp: private_entries_def Let_def)
        also have "\<dots> = (\<exists>n\<in>set (rev (map snd es) @ pending). \<exists>m\<in>subnodes n. node_hit nested m)"
          using False by (intro 2(5) [OF no NObject refl]) (simp add: private_entries_def)
        finally show ?thesis using False by (auto simp: NObject n)
      qed
    qed (use no False 2 in \<open>auto simp: node_hit_def private_entries_def\<close>)
  qed
qed simp

text \<open>The text of a JSON document nested in a string, if the string looks like one.\<close>

definition nested_text :: "string \<Rightarrow> string option" where
  "nested_text s = (let trimmed = trim_front space_prefix s
     in if starts_with ''{'' trimmed \<or> starts_with ''['' trimmed then Some trimmed else None)"

text \<open>A JSON text at a nesting level exposes a private key.\<close>

inductive exposes :: "(string \<Rightarrow> jnode option) \<Rightarrow> nat \<Rightarrow> string \<Rightarrow> bool" for parse where
  too_deep: "16 < level \<Longrightarrow> exposes parse level raw"
| entries: "parse raw = Some tree \<Longrightarrow> n \<in> subnodes tree \<Longrightarrow> private_entries n
     \<Longrightarrow> exposes parse level raw"
| marker: "parse raw = Some tree \<Longrightarrow> n \<in> subnodes tree \<Longrightarrow> node_text n = Some s
     \<Longrightarrow> has_private_key_marker s \<Longrightarrow> exposes parse level raw"
| deeper: "parse raw = Some tree \<Longrightarrow> n \<in> subnodes tree \<Longrightarrow> node_text n = Some s
     \<Longrightarrow> nested_text s = Some inner \<Longrightarrow> exposes parse (Suc level) inner
     \<Longrightarrow> exposes parse level raw"

inductive_simps exposes_iff: "exposes parse level raw"

lemma text_hit_exact:
  "text_hit nested s \<longleftrightarrow>
     has_private_key_marker s \<or> (\<exists>inner. nested_text s = Some inner \<and> nested inner)"
  by (auto simp: text_hit_def nested_text_def Let_def)

lemma json_inner_exact: "json_inner parse level raw = Some True \<longleftrightarrow> exposes parse level raw"
proof (induction parse level raw rule: json_inner.induct)
  case (1 parse level raw)
  show ?case
  proof (cases "16 < level")
    case True
    then show ?thesis by (simp add: json_inner.simps too_deep)
  next
    case False
    have IH: "json_inner parse (Suc level) t = Some True \<longleftrightarrow> exposes parse (Suc level) t"
      if "parse raw = Some tree" for t tree
      using 1 [OF False that] by simp
    show ?thesis
      by (subst json_inner.simps, subst exposes_iff)
        (auto simp: False scan_nodes_exact node_hit_def text_hit_exact IH split: option.splits)
  qed
qed

text \<open>C30. The scan for private keys misses nothing. A document is reported exactly when, at any
  depth of it, some object has a populated member with a private name (or a populated private JWK
  member beside \<open>kty\<close>), or some string carries a private-key PEM marker or is itself JSON text
  that exposes a key in the same sense; JSON text nested more than sixteen levels deep is reported
  unread. Scanning text answers nothing exactly when the text is not JSON.\<close>

theorem private_key_scan_is_exhaustive:
  "(contains_private_key parse value \<longleftrightarrow>
      (\<exists>w \<in> subvalues value.
         (\<exists>s. w = JStr s \<and> (has_private_key_marker s
            \<or> (\<exists>inner. nested_text s = Some inner \<and> exposes parse 1 inner)))
         \<or> (\<exists>m name v. w = JObj m \<and> (name, v) \<in> set m \<and> v \<noteq> JNull
              \<and> (is_private_field_name name
                 \<or> contains_key ''kty'' m \<and> is_private_jwk_field name))))
   \<and> (contains_private_key_json parse raw = Some True \<longleftrightarrow> exposes parse 0 raw)
   \<and> (contains_private_key_json parse raw = None \<longleftrightarrow> parse raw = None)"
proof (intro conjI)
  have hit: "value_hit (\<lambda>t. json_inner parse 1 t = Some True) w \<longleftrightarrow>
       (\<exists>s. w = JStr s \<and> (has_private_key_marker s
            \<or> (\<exists>inner. nested_text s = Some inner \<and> exposes parse 1 inner)))
       \<or> (\<exists>m name v. w = JObj m \<and> (name, v) \<in> set m \<and> v \<noteq> JNull
            \<and> (is_private_field_name name
               \<or> contains_key ''kty'' m \<and> is_private_jwk_field name))" for w
    by (cases w) (auto simp: value_hit_def text_hit_exact json_inner_exact has_private_key_fields_def
        contains_populated_private_jwk_fields_def)
  then show "contains_private_key parse value \<longleftrightarrow>
      (\<exists>w \<in> subvalues value.
         (\<exists>s. w = JStr s \<and> (has_private_key_marker s
            \<or> (\<exists>inner. nested_text s = Some inner \<and> exposes parse 1 inner)))
         \<or> (\<exists>m name v. w = JObj m \<and> (name, v) \<in> set m \<and> v \<noteq> JNull
              \<and> (is_private_field_name name
                 \<or> contains_key ''kty'' m \<and> is_private_jwk_field name)))"
    by (simp add: contains_private_key_def contains_private_key_inner_def scan_values_exact)
  show "contains_private_key_json parse raw = Some True \<longleftrightarrow> exposes parse 0 raw"
    by (simp add: contains_private_key_json_def json_inner_exact)
  show "contains_private_key_json parse raw = None \<longleftrightarrow> parse raw = None"
    by (simp add: contains_private_key_json_def json_inner.simps [of parse 0] split: option.split)
qed

end
