(* ===== verification/Notification_Domain.thy ===== *)
theory Notification_Domain
  imports Third_Party Key_Material
begin

text \<open>
  \<open>rust/services/notification/src/domain.rs\<close> and \<open>outbox.rs\<close>: the records of the notification
  service, its outbox events and their retry delay. A serialized record is the JSON value that
  serde derives from its declaration. Library functions beside \<open>third_party\<close> are the record
  \<open>notify_lib\<close>.
\<close>

record notify_lib =
  nl_tp :: third_party
  nl_time_json :: "time \<Rightarrow> string"                    \<comment> \<open>serde text of \<open>DateTime<Utc>\<close>\<close>
  nl_parse_tree :: "string \<Rightarrow> jnode option"            \<comment> \<open>JSON text, duplicates kept\<close>
  nl_uuid_v5 :: "uuid \<Rightarrow> string \<Rightarrow> uuid"               \<comment> \<open>\<open>Uuid::new_v5\<close>\<close>
  nl_sha256 :: "string \<Rightarrow> nat list"                    \<comment> \<open>the bytes of the digest\<close>

section \<open>Records\<close>

datatype NotificationType = NtEmail | NtPush | NtSms | NtWebhook

datatype NotificationStatus = NsPending | NsSent | NsDelivered | NsFailed

datatype NotificationPriority = PrLow | PrNormal | PrHigh | PrCritical

datatype ChannelType = Fcm | Sse | Webhook | Email | Sms

definition priority_parse :: "string \<Rightarrow> NotificationPriority option" where
  "priority_parse value =
     (let v = to_ascii_uppercase (trim value)
      in if v = ''LOW'' then Some PrLow
         else if v = ''NORMAL'' then Some PrNormal
         else if v = ''HIGH'' then Some PrHigh
         else if v = ''CRITICAL'' \<or> v = ''URGENT'' then Some PrCritical
         else None)"

fun channel_text :: "ChannelType \<Rightarrow> string" where
  "channel_text Fcm = ''FCM''"
| "channel_text Sse = ''SSE''"
| "channel_text Webhook = ''WEBHOOK''"
| "channel_text Email = ''EMAIL''"
| "channel_text Sms = ''SMS''"

record NotificationTarget =
  nt_organization_id :: "string option"
  nt_user_id :: "string option"
  nt_device_tokens :: "string list"
  nt_webhook_endpoints :: "string list"
  nt_email_addresses :: "string list"
  nt_channels :: "ChannelType list"

record DeliveryResult =
  dr_notification_id :: string
  dr_channel :: ChannelType
  dr_success :: bool
  dr_attempted_at :: time
  dr_delivered_at :: "time option"
  dr_error_code :: "string option"
  dr_should_retry :: "bool option"
  dr_retry_after :: "i64 option"

record Notification =
  nf_id :: string
  nf_organization_id :: "string option"
  nf_recipient_id :: "string option"
  nf_recipient_email :: "string option"
  nf_recipient_phone :: "string option"
  nf_notification_type :: NotificationType
  nf_template_id :: "string option"
  nf_subject :: string
  nf_body :: string
  nf_severity :: string
  nf_link :: "string option"
  nf_data :: jmap
  nf_status :: NotificationStatus
  nf_priority :: NotificationPriority
  nf_event_type :: string
  nf_ttl_seconds :: i64
  nf_collapse_key :: "string option"
  nf_correlation_id :: "string option"
  nf_target :: "NotificationTarget option"
  nf_delivery_results :: "DeliveryResult list"
  nf_attempts :: i32
  nf_last_attempt_at :: "time option"
  nf_delivered_at :: "time option"
  nf_error_message :: "string option"
  nf_created_at :: time
  nf_scheduled_at :: "time option"
  nf_read_at :: "time option"

definition notification_default :: "third_party \<Rightarrow> uuid \<Rightarrow> time \<Rightarrow> Notification" where
  "notification_default tp fresh now =
     \<lparr> nf_id = tp_uuid_show tp fresh, nf_organization_id = None, nf_recipient_id = None,
       nf_recipient_email = None, nf_recipient_phone = None, nf_notification_type = NtEmail,
       nf_template_id = None, nf_subject = [], nf_body = [], nf_severity = ''info'', nf_link = None,
       nf_data = [], nf_status = NsPending, nf_priority = PrNormal, nf_event_type = ''custom'',
       nf_ttl_seconds = 86400, nf_collapse_key = None, nf_correlation_id = None, nf_target = None,
       nf_delivery_results = [], nf_attempts = 0, nf_last_attempt_at = None,
       nf_delivered_at = None, nf_error_message = None, nf_created_at = now,
       nf_scheduled_at = None, nf_read_at = None \<rparr>"

definition mark_sent :: "time \<Rightarrow> Notification \<Rightarrow> Notification" where
  "mark_sent now n =
     n\<lparr>nf_status := NsSent, nf_attempts := nf_attempts n + 1, nf_last_attempt_at := Some now\<rparr>"

definition mark_delivered :: "time \<Rightarrow> Notification \<Rightarrow> Notification" where
  "mark_delivered now n = n\<lparr>nf_status := NsDelivered, nf_delivered_at := Some now\<rparr>"

definition is_read :: "Notification \<Rightarrow> bool" where
  "is_read n = (nf_read_at n \<noteq> None)"

record NotificationTemplate =
  tm_id :: string
  tm_organization_id :: "string option"
  tm_name :: string
  tm_notification_type :: NotificationType
  tm_subject_template :: string
  tm_body_template :: string
  tm_active :: bool
  tm_created_at :: time
  tm_updated_at :: time

record RetryPolicy =
  rp_max_attempts :: i32
  rp_initial_backoff_seconds :: i32
  rp_max_backoff_seconds :: i32

definition retry_policy_default :: RetryPolicy where
  "retry_policy_default =
     \<lparr> rp_max_attempts = 3, rp_initial_backoff_seconds = 1, rp_max_backoff_seconds = 30 \<rparr>"

definition retry_policy_validate :: "RetryPolicy \<Rightarrow> string + unit" where
  "retry_policy_validate p =
     (if \<not> (1 \<le> sint (rp_max_attempts p) \<and> sint (rp_max_attempts p) \<le> 10)
      then Inl ''max_attempts must be between 1 and 10''
      else if \<not> (0 \<le> sint (rp_initial_backoff_seconds p) \<and> sint (rp_initial_backoff_seconds p) \<le> 60)
      then Inl ''initial_backoff_seconds must be between 0 and 60''
      else if \<not> (1 \<le> sint (rp_max_backoff_seconds p) \<and> sint (rp_max_backoff_seconds p) \<le> 300)
      then Inl ''max_backoff_seconds must be between 1 and 300''
      else if sint (rp_max_backoff_seconds p) < sint (rp_initial_backoff_seconds p)
      then Inl ''initial_backoff_seconds must not exceed max_backoff_seconds''
      else Inr ())"

record Subscription =
  sb_id :: string
  sb_organization_id :: string
  sb_name :: string
  sb_description :: "string option"
  sb_event_types :: "string list"
  sb_filter_config :: jmap
  sb_retry_policy :: RetryPolicy
  sb_delivery_target_id :: "string option"
  sb_enabled :: bool
  sb_created_at :: time
  sb_updated_at :: time

record WebhookEndpoint =
  we_id :: string
  we_organization_id :: string
  we_name :: string
  we_url :: string
  we_secret :: string
  we_secret_envelope :: "string option"
  we_secret_hint :: "string option"
  we_description :: "string option"
  we_event_types :: "string list"
  we_enabled :: bool
  we_failure_count :: i32
  we_last_failure_at :: "time option"
  we_last_triggered_at :: "time option"
  we_circuit_breaker_open_until :: "time option"
  we_created_at :: time
  we_updated_at :: time

record WebhookDelivery =
  wd_id :: string
  wd_organization_id :: string
  wd_webhook_id :: string
  wd_subscription_id :: "string option"
  wd_event_id :: string
  wd_event_type :: string
  wd_correlation_id :: "string option"
  wd_success :: bool
  wd_response_status_code :: "i32 option"
  wd_error_message :: "string option"
  wd_retry_count :: i32
  wd_response_time_ms :: "i32 option"
  wd_created_at :: time

definition default_templates :: "time \<Rightarrow> NotificationTemplate list" where
  "default_templates now =
     [\<lparr> tm_id = ''invitation'', tm_organization_id = None, tm_name = ''Member Invitation'',
        tm_notification_type = NtEmail,
        tm_subject_template = ''You'' @ [CHR 0x27] @ ''ve been invited to join {{organization_name}}'',
        tm_body_template = ''Hello,'' @ [CHR 0x0A, CHR 0x0A] @ ''You'' @ [CHR 0x27]
          @ ''ve been invited to join {{organization_name}} on Marty.'' @ [CHR 0x0A, CHR 0x0A]
          @ ''Click here to accept: {{invitation_link}}'',
        tm_active = True, tm_created_at = now, tm_updated_at = now \<rparr>,
      \<lparr> tm_id = ''approval'', tm_organization_id = None, tm_name = ''Application Approved'',
        tm_notification_type = NtEmail,
        tm_subject_template = ''Your application has been approved'',
        tm_body_template = ''Hello {{given_name}},'' @ [CHR 0x0A, CHR 0x0A]
          @ ''Your application for {{credential_type}} has been approved.'',
        tm_active = True, tm_created_at = now, tm_updated_at = now \<rparr>,
      \<lparr> tm_id = ''credential-ready'', tm_organization_id = None, tm_name = ''Credential Ready'',
        tm_notification_type = NtEmail,
        tm_subject_template = ''Your credential is ready to claim'',
        tm_body_template = ''Hello {{given_name}},'' @ [CHR 0x0A, CHR 0x0A]
          @ ''Your {{credential_type}} credential is ready.'' @ [CHR 0x0A, CHR 0x0A]
          @ ''Claim it here: {{claim_link}}'',
        tm_active = True, tm_created_at = now, tm_updated_at = now \<rparr>]"

section \<open>Outbox events\<close>

record WebhookOutboxEvent =
  ob_id :: string
  ob_organization_id :: string
  ob_webhook_id :: string
  ob_subscription_id :: string
  ob_event_id :: string
  ob_event_type :: string
  ob_payload :: jmap
  ob_max_attempts :: i32
  ob_initial_backoff_seconds :: i32
  ob_max_backoff_seconds :: i32
  ob_created_at :: time
  ob_next_attempt_at :: time
  ob_expires_at :: time
  ob_status :: string
  ob_attempt_count :: i32
  ob_lease_token :: "string option"
  ob_lease_expires_at :: "time option"
  ob_delivered_at :: "time option"
  ob_last_error_code :: "string option"
  ob_response_status_code :: "i32 option"

definition OUTBOX_NAMESPACE :: uuid where
  "OUTBOX_NAMESPACE = 0xb431a1c8dfd944fab042b633f7d9ec6c"

definition WEBHOOK_TEST_EVENT_ID_PREFIX :: string where
  "WEBHOOK_TEST_EVENT_ID_PREFIX = ''webhook-test/''"

definition WEBHOOK_TEST_EVENT_TYPE :: string where
  "WEBHOOK_TEST_EVENT_TYPE = ''webhook.test''"

definition WEBHOOK_TEST_SUBSCRIPTION_ID :: string where
  "WEBHOOK_TEST_SUBSCRIPTION_ID = ''webhook-test''"

text \<open>A string member of a map: \<open>get(key).and_then(Value::as_str)\<close>.\<close>

definition str_member :: "jmap \<Rightarrow> string \<Rightarrow> string option" where
  "str_member m key = Option.bind (map_of m key) as_str"

definition is_webhook_test_event :: "third_party \<Rightarrow> WebhookOutboxEvent \<Rightarrow> bool" where
  "is_webhook_test_event tp event =
     (ob_subscription_id event = WEBHOOK_TEST_SUBSCRIPTION_ID
      \<and> ob_event_type event = WEBHOOK_TEST_EVENT_TYPE
      \<and> (case strip_prefix WEBHOOK_TEST_EVENT_ID_PREFIX (ob_event_id event) of
            None \<Rightarrow> False | Some i \<Rightarrow> tp_uuid_parse tp i \<noteq> None)
      \<and> str_member (ob_payload event) ''id'' = Some (ob_event_id event)
      \<and> str_member (ob_payload event) ''type'' = Some WEBHOOK_TEST_EVENT_TYPE
      \<and> str_member (ob_payload event) ''aggregate_id'' = Some (ob_webhook_id event)
      \<and> str_member (ob_payload event) ''aggregate_type'' = Some ''webhook''
      \<and> Option.bind (Option.bind (Option.bind (map_of (ob_payload event) ''data'') as_object)
            (\<lambda>data. map_of data ''test'')) as_bool = Some True)"

definition logical_webhook_delivery_id ::
  "notify_lib \<Rightarrow> string \<Rightarrow> string \<Rightarrow> string \<Rightarrow> string" where
  "logical_webhook_delivery_id nl event_id subscription_id webhook_id =
     tp_uuid_show (nl_tp nl) (nl_uuid_v5 nl OUTBOX_NAMESPACE
       (event_id @ '':'' @ subscription_id @ '':'' @ webhook_id))"

definition new_webhook_outbox_event ::
  "notify_lib \<Rightarrow> string \<Rightarrow> string \<Rightarrow> string \<Rightarrow> string \<Rightarrow> string \<Rightarrow> jmap \<Rightarrow> i32 \<Rightarrow> i32 \<Rightarrow> i32 \<Rightarrow> time \<Rightarrow> int
   \<Rightarrow> WebhookOutboxEvent" where
  "new_webhook_outbox_event nl organization_id webhook_id subscription_id event_id event_type payload
     max_attempts initial_backoff_seconds max_backoff_seconds created_at retention_seconds =
     \<lparr> ob_id = logical_webhook_delivery_id nl event_id subscription_id webhook_id,
       ob_organization_id = organization_id, ob_webhook_id = webhook_id,
       ob_subscription_id = subscription_id, ob_event_id = event_id, ob_event_type = event_type,
       ob_payload = payload, ob_max_attempts = max_attempts,
       ob_initial_backoff_seconds = initial_backoff_seconds,
       ob_max_backoff_seconds = max_backoff_seconds, ob_created_at = created_at,
       ob_next_attempt_at = created_at, ob_expires_at = created_at + seconds retention_seconds,
       ob_status = ''pending'', ob_attempt_count = 0, ob_lease_token = None,
       ob_lease_expires_at = None, ob_delivered_at = None, ob_last_error_code = None,
       ob_response_status_code = None \<rparr>"

end
