(* ===== verification/Notification_Retry.thy ===== *)
theory Notification_Retry
  imports Notification_Domain
begin

text \<open>
  \<open>webhook_retry_delay\<close> of \<open>rust/services/notification/src/outbox.rs\<close>: exponential backoff with
  jitter, in whole seconds. The jitter is computed in doubles; a double is the rational it
  denotes and every operation rounds to the nearest double, ties to even.
\<close>

section \<open>Doubles\<close>

definition pow2 :: "int \<Rightarrow> rat" where
  "pow2 e = (if 0 \<le> e then 2 ^ nat e else 1 / 2 ^ nat (- e))"

text \<open>The binary exponent of a positive rational: \<open>pow2 e \<le> q < pow2 (e + 1)\<close>.\<close>

definition exponent_of :: "rat \<Rightarrow> int" where
  "exponent_of q =
     (let (n, d) = quotient_of q; e = int (floorlog 2 (nat n)) - int (floorlog 2 (nat d))
      in if pow2 e \<le> q then e else e - 1)"

definition round_even :: "rat \<Rightarrow> int" where
  "round_even m =
     (let r = \<lfloor>m\<rfloor>; frac = m - of_int r
      in if 1 / 2 < frac \<or> (frac = 1 / 2 \<and> odd r) then r + 1 else r)"

text \<open>The nearest double of a rational whose exponent is in the normal range.\<close>

definition f64_round :: "rat \<Rightarrow> rat" where
  "f64_round q =
     (if q = 0 then 0
      else let u = pow2 (exponent_of \<bar>q\<bar> - 52); m = of_int (round_even (\<bar>q\<bar> / u)) * u
           in if q < 0 then - m else m)"

definition f64_mul :: "rat \<Rightarrow> rat \<Rightarrow> rat" where
  "f64_mul a b = f64_round (a * b)"

definition f64_div :: "rat \<Rightarrow> rat \<Rightarrow> rat" where
  "f64_div a b = f64_round (a / b)"

text \<open>\<open>as i64\<close> of a double in range: truncation towards zero.\<close>

definition f64_to_int :: "rat \<Rightarrow> int" where
  "f64_to_int q = (if q < 0 then \<lceil>q\<rceil> else \<lfloor>q\<rfloor>)"

definition sat_i64 :: "int \<Rightarrow> int" where
  "sat_i64 x = max (- (2 ^ 63)) (min (2 ^ 63 - 1) x)"

definition show_i32 :: "i32 \<Rightarrow> string" where
  "show_i32 w = (if sint w < 0 then CHR ''-'' # show_nat (nat (- sint w)) else show_nat (nat (sint w)))"

section \<open>The delay\<close>

definition retry_base :: "WebhookOutboxEvent \<Rightarrow> int" where
  "retry_base event =
     (let exponent = max 0 (min 16 (sint (ob_attempt_count event - 1)));
          multiplier = 2 ^ nat exponent
      in min (sint (ob_max_backoff_seconds event))
           (sat_i64 (sint (ob_initial_backoff_seconds event) * multiplier)))"

definition retry_jitter :: "notify_lib \<Rightarrow> WebhookOutboxEvent \<Rightarrow> int \<Rightarrow> int" where
  "retry_jitter nl event base =
     (let digest = nl_sha256 nl (ob_id event @ '':'' @ show_i32 (ob_attempt_count event));
          ratio = f64_div (of_nat (256 * digest ! 0 + digest ! 1)) 65535;
          room = sat_i64 (sint (ob_max_backoff_seconds event) - base)
      in f64_to_int (min (f64_mul (f64_mul (of_int base) (1 / 4)) ratio) (of_int room)))"

definition webhook_retry_delay :: "notify_lib \<Rightarrow> WebhookOutboxEvent \<Rightarrow> int" where
  "webhook_retry_delay nl event =
     (let base = retry_base event
      in seconds (sat_i64 (base + max 0 (retry_jitter nl event base))))"

section \<open>Bounds\<close>

lemma sat_i64_id: "- (2 ^ 63) \<le> x \<Longrightarrow> x < 2 ^ 63 \<Longrightarrow> sat_i64 x = x"
  by (simp add: sat_i64_def)

lemma sat_i64_small: "0 \<le> x \<Longrightarrow> x \<le> 60 * 2 ^ 16 \<Longrightarrow> sat_i64 x = x"
  by (simp add: sat_i64_def)

lemma i32_bounds: "- (2 ^ 31) \<le> sint (w :: i32)" "sint (w :: i32) < 2 ^ 31"
  using sint_ge [of w] sint_lt [of w] by simp_all

lemma f64_to_int_le: "q \<le> of_int n \<Longrightarrow> f64_to_int q \<le> n"
  by (simp add: f64_to_int_def floor_le_iff ceiling_le_iff)

text \<open>A jitter keeps the delay between the backoff and its maximum.\<close>

lemma retry_delay_between:
  assumes "0 \<le> sint (ob_initial_backoff_seconds event)" and "0 \<le> sint (ob_max_backoff_seconds event)"
  shows "seconds (retry_base event) \<le> webhook_retry_delay nl event
    \<and> webhook_retry_delay nl event \<le> seconds (sint (ob_max_backoff_seconds event))"
proof -
  define mx base j where "mx = sint (ob_max_backoff_seconds event)"
    and "base = retry_base event" and "j = retry_jitter nl event base"
  have mx: "0 \<le> mx" "mx < 2 ^ 31" using assms(2) i32_bounds by (simp_all add: mx_def)
  have base: "0 \<le> base" "base \<le> mx"
    using assms by (auto simp: base_def retry_base_def mx_def Let_def sat_i64_def le_max_iff_disj)
  have room: "sat_i64 (mx - base) = mx - base" using mx base by (intro sat_i64_id) auto
  have "j \<le> mx - base"
    unfolding j_def retry_jitter_def Let_def mx_def [symmetric] room
    by (rule f64_to_int_le) simp
  then have "base \<le> base + max 0 j" "base + max 0 j \<le> mx" using base by auto
  moreover from this have "sat_i64 (base + max 0 j) = base + max 0 j"
    using mx base by (intro sat_i64_id) auto
  ultimately show ?thesis
    by (simp add: webhook_retry_delay_def Let_def base_def [symmetric] j_def [symmetric]
        mx_def [symmetric] seconds_def)
qed

lemma sint_minus_one: "0 < sint w \<Longrightarrow> sint (w - 1 :: i32) = sint w - 1"
  using sint_lt [of w] by (simp add: sint_word_ariths signed_take_bit_int_eq_self)

text \<open>C34. A retry waits a bounded time. For an event with an accepted retry policy, after the
  \<open>n\<close>-th attempt (\<open>n\<close> at least one) the delay is at least the initial backoff doubled \<open>n - 1\<close>
  times (at most sixteen times) or the maximum, whichever is less, and never more than the
  maximum, which is at most 300 seconds. No step of the computation overflows.\<close>

theorem retry_delay_is_bounded:
  assumes "retry_policy_validate p = Inr ()"
    and "ob_initial_backoff_seconds event = rp_initial_backoff_seconds p"
    and "ob_max_backoff_seconds event = rp_max_backoff_seconds p"
    and "1 \<le> sint (ob_attempt_count event)"
  shows "seconds (min (sint (rp_max_backoff_seconds p))
             (sint (rp_initial_backoff_seconds p) * 2 ^ nat (min 16 (sint (ob_attempt_count event) - 1))))
           \<le> webhook_retry_delay nl event
      \<and> webhook_retry_delay nl event \<le> seconds (sint (rp_max_backoff_seconds p))
      \<and> webhook_retry_delay nl event \<le> seconds 300"
proof -
  let ?n = "sint (ob_attempt_count event)" and ?i = "sint (rp_initial_backoff_seconds p)"
  have policy: "0 \<le> ?i" "?i \<le> 60" "1 \<le> sint (rp_max_backoff_seconds p)"
      "sint (rp_max_backoff_seconds p) \<le> 300"
    using assms(1) by (simp_all add: retry_policy_validate_def split: if_splits)
  have n: "sint (ob_attempt_count event - 1) = ?n - 1"
    using assms(4) i32_bounds [of "ob_attempt_count event"]
    by (intro sint_minus_one) simp
  let ?e = "nat (min 16 (?n - 1))"
  have "(2::int) ^ ?e \<le> 2 ^ 16" by (rule power_increasing) auto
  then have "?i * 2 ^ ?e \<le> 60 * 2 ^ 16" using policy by (intro mult_mono) auto
  moreover have "0 \<le> ?i * 2 ^ ?e" using policy(1) by (intro mult_nonneg_nonneg) simp_all
  ultimately have "sat_i64 (?i * 2 ^ ?e) = ?i * 2 ^ ?e" by (rule sat_i64_small [rotated])
  moreover have "max 0 (min 16 (?n - 1)) = min 16 (?n - 1)" using assms(4) by simp
  ultimately have "retry_base event = min (sint (rp_max_backoff_seconds p)) (?i * 2 ^ ?e)"
    by (simp only: retry_base_def Let_def n assms(2,3))
  moreover have "seconds (sint (rp_max_backoff_seconds p)) \<le> seconds 300"
    using policy by (simp add: seconds_def)
  ultimately show ?thesis
    using retry_delay_between [of event nl] policy assms(2,3) by auto
qed

definition sample_event :: WebhookOutboxEvent where
  "sample_event = \<lparr> ob_id = ''d1'', ob_organization_id = ''o'', ob_webhook_id = ''w'',
     ob_subscription_id = ''s'', ob_event_id = ''e'', ob_event_type = ''application.approved'',
     ob_payload = [], ob_max_attempts = 3, ob_initial_backoff_seconds = 1,
     ob_max_backoff_seconds = 30, ob_created_at = 0, ob_next_attempt_at = 0,
     ob_expires_at = seconds 86400, ob_status = ''delivering'', ob_attempt_count = 2,
     ob_lease_token = Some ''t'', ob_lease_expires_at = Some (seconds 30), ob_delivered_at = None,
     ob_last_error_code = None, ob_response_status_code = None \<rparr>"

definition sample_notify_lib :: notify_lib where
  "sample_notify_lib = \<lparr> nl_tp = demo, nl_time_json = demo_time_show, nl_parse_tree = (\<lambda>_. None),
     nl_uuid_v5 = (\<lambda>u s. of_nat (length s)), nl_sha256 = (\<lambda>_. replicate 32 128) \<rparr>"

theorem retry_delay_is_bounded_witness:
  "seconds 2 \<le> webhook_retry_delay sample_notify_lib sample_event
   \<and> webhook_retry_delay sample_notify_lib sample_event \<le> seconds 30"
  using retry_delay_is_bounded [of retry_policy_default sample_event sample_notify_lib]
  by (simp add: retry_policy_validate_def retry_policy_default_def sample_event_def)

end
