(* ===== verification/Notification_Payload.thy ===== *)
theory Notification_Payload
  imports Notification_Domain
begin

text \<open>
  \<open>rust/services/notification/src/payload_security.rs\<close>: what notification data, texts and event
  projections may contain. A number of the model is always a 64 bit integer or a double, so the
  refusal of other numbers is a branch that no value of the model takes.
\<close>

section \<open>Constants\<close>

definition MAX_NOTIFICATION_DATA_BYTES :: nat where "MAX_NOTIFICATION_DATA_BYTES = 4096"
definition MAX_NOTIFICATION_DATA_DEPTH :: nat where "MAX_NOTIFICATION_DATA_DEPTH = 5"
definition MAX_NOTIFICATION_COLLECTION_ITEMS :: nat where "MAX_NOTIFICATION_COLLECTION_ITEMS = 64"
definition MAX_NOTIFICATION_KEY_LENGTH :: nat where "MAX_NOTIFICATION_KEY_LENGTH = 128"

definition COMPACT_TOKEN :: string where
  "COMPACT_TOKEN =
     ''(?:^|[^A-Za-z0-9_-])[A-Za-z0-9_-]{10,}'' @ [CHR 0x5C] @ ''.[A-Za-z0-9_-]{10,}'' @ [CHR 0x5C]
       @ ''.[A-Za-z0-9_-]{10,}(?:$|[^A-Za-z0-9_-])''"

definition is_compact_token :: "third_party \<Rightarrow> string \<Rightarrow> bool" where
  "is_compact_token tp s =
     (case tp_regex_new tp COMPACT_TOKEN of None \<Rightarrow> False | Some is_match \<Rightarrow> is_match s)"

definition RAW_TEXT_MARKERS :: "string list" where
  "RAW_TEXT_MARKERS =
     map (\<lambda>m. CHR 0x22 # m @ [CHR 0x22])
       [''credentialSubject'', ''presentation_submission'', ''privateKey'', ''proof'', ''vp_token'']"

definition FORBIDDEN_KEYS :: "string list" where
  "FORBIDDEN_KEYS =
     [''accesstoken'', ''claims'', ''clientsecret'', ''credential'', ''credentialjwt'',
      ''credentialpayload'', ''idtoken'', ''mdoc'', ''msomdoc'', ''payload'', ''presentation'',
      ''presentationsubmission'', ''privatekey'', ''proof'', ''rawcredential'', ''refreshtoken'',
      ''sdjwt'', ''sdjwtvc'', ''signedcredential'', ''subjectclaims'', ''token'',
      ''verifiablecredential'', ''verifiablepresentation'', ''vptoken'', ''secret'']"

section \<open>Data\<close>

text \<open>A loop that returns the first error.\<close>

fun check_all :: "('a \<Rightarrow> 'e + unit) \<Rightarrow> 'a list \<Rightarrow> 'e + unit" where
  "check_all f [] = Inr ()"
| "check_all f (x # xs) = bind_result (f x) (\<lambda>_. check_all f xs)"

lemma check_all_cong [fundef_cong]:
  "xs = ys \<Longrightarrow> (\<And>x. x \<in> set ys \<Longrightarrow> f x = g x) \<Longrightarrow> check_all f xs = check_all g ys"
  by (induction xs arbitrary: ys) auto

lemma unit_result: "(r :: 'e + unit) = Inr u \<longleftrightarrow> is_ok r"
  by (cases r) auto

lemma is_ok_check_all [simp]: "is_ok (check_all f xs) \<longleftrightarrow> (\<forall>x \<in> set xs. is_ok (f x))"
proof (induction xs)
  case (Cons x xs)
  then show ?case by (cases "f x") auto
qed simp

definition forbidden_key :: "string \<Rightarrow> bool" where
  "forbidden_key key =
     (let normalized = normalized_name key
      in normalized \<in> set FORBIDDEN_KEYS \<or> ends_with ''privatekey'' normalized
         \<or> ends_with ''secret'' normalized)"

definition json_number :: "number \<Rightarrow> bool" where
  "json_number n = (case n of PosInt _ \<Rightarrow> True | NegInt _ \<Rightarrow> True | Float _ \<Rightarrow> True)"

function validate_value :: "third_party \<Rightarrow> json \<Rightarrow> nat \<Rightarrow> string + unit" where
  "validate_value tp value depth =
     (if MAX_NOTIFICATION_DATA_DEPTH < depth then Inl ''notification data is too deeply nested''
      else case value of
        JObj m \<Rightarrow>
          if MAX_NOTIFICATION_COLLECTION_ITEMS < length m
          then Inl ''notification data contains too many object fields''
          else check_all (\<lambda>(key, child).
            if MAX_NOTIFICATION_KEY_LENGTH < length key
            then Inl ''notification data contains an invalid field name''
            else if forbidden_key key
            then Inl ''notification data contains protected credential material''
            else validate_value tp child (depth + 1)) m
      | JArr values \<Rightarrow>
          if MAX_NOTIFICATION_COLLECTION_ITEMS < length values
          then Inl ''notification data contains too many list items''
          else check_all (\<lambda>child. validate_value tp child (depth + 1)) values
      | JStr s \<Rightarrow>
          if is_compact_token tp s
          then Inl ''notification data contains protected credential material'' else Inr ()
      | JNum n \<Rightarrow>
          if \<not> json_number n then Inl ''notification data contains a non-JSON value'' else Inr ()
      | _ \<Rightarrow> Inr ())"
  by pat_completeness auto
termination
  by (relation "measure (\<lambda>(_, v, _). size v)")
    (auto simp: less_Suc_eq_le intro!: size_list_estimation' le_SucI)

declare validate_value.simps [simp del]

definition validate_notification_data :: "third_party \<Rightarrow> jmap \<Rightarrow> string + unit" where
  "validate_notification_data tp data =
     bind_result (validate_value tp (JObj data) 1) (\<lambda>_.
     if MAX_NOTIFICATION_DATA_BYTES < length (tp_json_show tp (JObj data))
     then Inl ''notification data exceeds the 4 KB protocol limit'' else Inr ())"

definition validate_notification_text :: "third_party \<Rightarrow> string \<Rightarrow> string \<Rightarrow> string + unit" where
  "validate_notification_text tp title body =
     (if 256 < char_count title
      then Inl ''notification title exceeds the 256 character protocol limit''
      else if 2048 < char_count body
      then Inl ''notification body exceeds the 2048 character protocol limit''
      else if \<exists>value \<in> set [title, body]. is_compact_token tp value
           \<or> (\<exists>marker \<in> set RAW_TEXT_MARKERS. contains_text marker value)
      then Inl ''notification content contains protected credential material''
      else Inr ())"

section \<open>Event projections\<close>

definition applicant_fields :: "string list" where
  "applicant_fields = [''applicant_id'', ''application_id'', ''credential_template_id'', ''status'']"

definition event_fields :: "(string \<times> string list) list" where
  "event_fields =
     [(''credential.offered'',
        [''application_id'', ''credential_template_id'', ''credential_type'', ''offer_uri'']),
      (''credential.issued'',
        [''application_id'', ''credential_id'', ''credential_template_id'', ''credential_type'',
         ''status'']),
      (''credential.revoked'',
        [''application_id'', ''credential_id'', ''credential_template_id'', ''credential_type'',
         ''reason_code'', ''status'']),
      (''verification.requested'',
        [''expires_at'', ''policy_id'', ''request_uri'', ''verification_id'']),
      (''application.received'', applicant_fields),
      (''application.approved'', applicant_fields),
      (''application.rejected'', applicant_fields),
      (''applicant.submitted'', applicant_fields),
      (''applicant.approved'', applicant_fields),
      (''applicant.rejected'', applicant_fields),
      (''applicant.status_changed'', applicant_fields),
      (''device.key_expiring'', [''device_id'', ''expires_at'', ''key_id''])]"

definition projection_value :: "string \<Rightarrow> json \<Rightarrow> string + unit" where
  "projection_value field value =
     (case value of
        JStr s \<Rightarrow>
          if (if ends_with ''_uri'' field then 2048 else 256) < char_count s
          then Inl ''internal event projection value exceeds its size limit'' else Inr ()
      | JNull \<Rightarrow> Inr ()
      | JArr _ \<Rightarrow> Inl ''internal event data must contain scalar projection values''
      | JObj _ \<Rightarrow> Inl ''internal event data must contain scalar projection values''
      | _ \<Rightarrow> Inl ''internal event projection values must be strings'')"

definition validate_internal_event_data :: "third_party \<Rightarrow> string \<Rightarrow> jmap \<Rightarrow> string + unit" where
  "validate_internal_event_data tp event_type data =
     bind_result (ok_or ''event_type is not supported for notification fan-out''
        (map_of event_fields event_type)) (\<lambda>allowed.
     if \<exists>key \<in> fst ` set data. key \<notin> set allowed
     then Inl ''event data contains fields outside the minimized event contract''
     else bind_result (validate_notification_data tp data) (\<lambda>_.
       check_all (\<lambda>(field, value). projection_value field value) data))"

section \<open>What accepted data contains\<close>

text \<open>The values inside a value, with their depth.\<close>

fun nested_in :: "json \<Rightarrow> nat \<Rightarrow> (json \<times> nat) set" where
  "nested_in (JArr vs) d = insert (JArr vs, d) (\<Union>v \<in> set vs. nested_in v (Suc d))"
| "nested_in (JObj m) d = insert (JObj m, d) (\<Union>kv \<in> set m. nested_in (snd kv) (Suc d))"
| "nested_in v d = {(v, d)}"

definition admissible :: "third_party \<Rightarrow> json \<times> nat \<Rightarrow> bool" where
  "admissible tp wd =
     (snd wd \<le> 5 \<and>
      (case fst wd of
         JObj m \<Rightarrow> length m \<le> 64 \<and> (\<forall>(k, _) \<in> set m. length k \<le> 128 \<and> \<not> forbidden_key k)
       | JArr vs \<Rightarrow> length vs \<le> 64
       | JStr s \<Rightarrow> \<not> is_compact_token tp s
       | _ \<Rightarrow> True))"

lemmas payload_bounds = MAX_NOTIFICATION_DATA_DEPTH_def MAX_NOTIFICATION_COLLECTION_ITEMS_def
  MAX_NOTIFICATION_KEY_LENGTH_def MAX_NOTIFICATION_DATA_BYTES_def

lemma validate_value_exact:
  "is_ok (validate_value tp v d) \<longleftrightarrow> (\<forall>wd \<in> nested_in v d. admissible tp wd)"
proof (induction tp v d rule: validate_value.induct)
  case (1 tp v d)
  show ?case
  proof (cases "5 < d")
    case True
    have "(v, d) \<in> nested_in v d" by (cases v) auto
    moreover have "\<not> admissible tp (v, d)" using True by (simp add: admissible_def)
    moreover have "\<not> is_ok (validate_value tp v d)"
      using True by (simp add: validate_value.simps [of tp v] payload_bounds)
    ultimately show ?thesis by blast
  next
    case False
    show ?thesis
    proof (cases v)
      case (JObj m)
      have IH: "is_ok (validate_value tp c (Suc d)) \<longleftrightarrow> (\<forall>wd \<in> nested_in c (Suc d). admissible tp wd)"
        if "(k, c) \<in> set m" "length k \<le> 128" "\<not> forbidden_key k" "length m \<le> 64" for k c
        using "1.IH"(2) [OF _ JObj _ that(1) refl] that False by (simp add: payload_bounds)
      have "is_ok (validate_value tp v d) \<longleftrightarrow> length m \<le> 64
          \<and> (\<forall>(k, c) \<in> set m. length k \<le> 128 \<and> \<not> forbidden_key k
               \<and> is_ok (validate_value tp c (Suc d)))"
        using False by (auto simp: JObj validate_value.simps [of tp "JObj m"] payload_bounds
            split: if_splits)
      also have "\<dots> \<longleftrightarrow> length m \<le> 64
          \<and> (\<forall>(k, c) \<in> set m. length k \<le> 128 \<and> \<not> forbidden_key k
               \<and> (\<forall>wd \<in> nested_in c (Suc d). admissible tp wd))"
        using IH by (intro conj_cong refl ball_cong) auto
      also have "\<dots> \<longleftrightarrow> (\<forall>wd \<in> nested_in v d. admissible tp wd)"
        using False by (auto simp: JObj admissible_def [of tp "(JObj m, d)"] split_beta)
      finally show ?thesis .
    next
      case (JArr vs)
      have IH: "is_ok (validate_value tp c (Suc d)) \<longleftrightarrow> (\<forall>wd \<in> nested_in c (Suc d). admissible tp wd)"
        if "c \<in> set vs" "length vs \<le> 64" for c
        using "1.IH"(1) [OF _ JArr _ that(1)] that False by (simp add: payload_bounds)
      show ?thesis
        using False IH
        by (auto simp: JArr validate_value.simps [of tp "JArr vs"] payload_bounds admissible_def)
    next
      case (JStr t)
      then show ?thesis
        using False by (simp add: validate_value.simps [of tp "JStr t"] payload_bounds admissible_def)
    qed (subst validate_value.simps, use False in \<open>auto simp: payload_bounds admissible_def
          json_number_def split: number.splits\<close>)+
  qed
qed

text \<open>C31. Notification data is accepted exactly when it is safe and small: nothing in it lies deeper
  than five levels, no object or array has more than 64 items, no member name is longer than 128
  bytes or names protected material, no string contains a compact token, and the JSON text is at
  most 4096 bytes.\<close>

theorem notification_data_is_safe:
  "validate_notification_data tp data = Inr () \<longleftrightarrow>
     (\<forall>wd \<in> nested_in (JObj data) 1. admissible tp wd)
     \<and> length (tp_json_show tp (JObj data)) \<le> 4096"
proof -
  have "validate_notification_data tp data = Inr () \<longleftrightarrow>
      is_ok (validate_value tp (JObj data) 1) \<and> length (tp_json_show tp (JObj data)) \<le> 4096"
    by (cases "validate_value tp (JObj data) 1")
      (auto simp: validate_notification_data_def payload_bounds)
  then show ?thesis by (simp only: validate_value_exact)
qed

theorem notification_data_is_safe_witness:
  "admissible demo (JStr ''a'', 2) \<and> \<not> admissible demo (JObj [(''client-secret'', JNull)], 1)"
proof
  have "validate_notification_data demo [(''k'', JStr ''a'')] = Inr ()" by code_simp
  from this [unfolded notification_data_is_safe] show "admissible demo (JStr ''a'', 2)"
    by (simp add: numeral_2_eq_2)
  show "\<not> admissible demo (JObj [(''client-secret'', JNull)], 1)" by code_simp
qed

end
