(* ===== verification/Notification_Webhook.thy ===== *)
theory Notification_Webhook
  imports Notification_Domain
begin

unbundle bit_operations_syntax

text \<open>
  \<open>rust/services/notification/src/webhook.rs\<close>: signing secrets, webhook destinations, the
  signature of a payload, and the secret bound to its webhook inside an envelope. The crates
  \<open>url\<close>, \<open>hmac\<close> and \<open>base64\<close> and the name resolution are the record \<open>webhook_lib\<close>.
\<close>

datatype WebhookError =
    Destination string bool
  | EnvelopeUnavailable string
  | InvalidEnvelope string

fun webhook_error_code :: "WebhookError \<Rightarrow> string" where
  "webhook_error_code (Destination code _) = code"
| "webhook_error_code (EnvelopeUnavailable _) = ''WEBHOOK_SECRET_KMS_UNAVAILABLE''"
| "webhook_error_code (InvalidEnvelope _) = ''WEBHOOK_SECRET_ENVELOPE_INVALID''"

fun webhook_error_retryable :: "WebhookError \<Rightarrow> bool" where
  "webhook_error_retryable (Destination _ retryable) = retryable"
| "webhook_error_retryable (EnvelopeUnavailable _) = True"
| "webhook_error_retryable (InvalidEnvelope _) = False"

text \<open>\<open>Display\<close> of the error.\<close>

fun webhook_error_text :: "WebhookError \<Rightarrow> string" where
  "webhook_error_text (Destination code _) = code"
| "webhook_error_text (EnvelopeUnavailable text) = text"
| "webhook_error_text (InvalidEnvelope text) = text"

datatype ip_addr = V4 "32 word" | V6 "128 word"

datatype url_host = Domain string | Ipv4 "32 word" | Ipv6 "128 word"

record url =
  ur_scheme :: string
  ur_host :: "url_host option"
  ur_host_str :: "string option"
  ur_username :: string
  ur_password :: "string option"
  ur_fragment :: "string option"
  ur_port :: "16 word option"

record webhook_lib =
  wl_url_parse :: "string \<Rightarrow> url option"                       \<comment> \<open>\<open>Url::parse\<close>\<close>
  wl_lookup_host :: "string \<Rightarrow> 16 word \<Rightarrow> (ip_addr \<times> 16 word) list option" \<comment> \<open>name resolution\<close>
  wl_hmac_sha256_hex :: "string \<Rightarrow> string \<Rightarrow> string"             \<comment> \<open>key, message\<close>
  wl_b64_encode :: "string \<Rightarrow> string"                           \<comment> \<open>\<open>STANDARD.encode\<close>\<close>

section \<open>Signing secrets\<close>

definition MIN_SECRET_LENGTH :: nat where "MIN_SECRET_LENGTH = 32"
definition MAX_SECRET_LENGTH :: nat where "MAX_SECRET_LENGTH = 128"

definition valid_webhook_signing_secret :: "string \<Rightarrow> bool" where
  "valid_webhook_signing_secret secret =
     (let normalized = trim secret; lowered = to_ascii_lowercase normalized
      in MIN_SECRET_LENGTH \<le> length normalized \<and> length normalized \<le> MAX_SECRET_LENGTH
         \<and> \<not> (\<exists>prefix \<in> set [''change-me'', ''change_me'', ''changeme'']. starts_with prefix lowered))"

text \<open>\<open>env\<close> and \<open>read_file\<close> are the process environment and the file system.\<close>

definition load_direct_webhook_signing_secret ::
  "(string \<Rightarrow> string option) \<Rightarrow> (string \<Rightarrow> string option) \<Rightarrow> string option" where
  "load_direct_webhook_signing_secret env read_file =
     (let value = (\<lambda>name. trim (case env name of None \<Rightarrow> [] | Some v \<Rightarrow> v));
          inline = value ''NOTIFICATION_WEBHOOK_SECRET'';
          file_name = value ''NOTIFICATION_WEBHOOK_SECRET_FILE''
      in if inline \<noteq> [] \<and> file_name \<noteq> [] then None
         else Option.bind
           (if file_name = [] then Some inline else map_option trim (read_file file_name))
           (\<lambda>candidate. if valid_webhook_signing_secret candidate then Some candidate else None))"

section \<open>Destinations\<close>

record ValidatedWebhookUrl =
  vu_original :: url
  vu_hostname :: string
  vu_port :: "16 word"

definition blocked_v4 :: "(32 word \<times> nat) list" where
  "blocked_v4 =
     [(0x00000000, 8), (0x0A000000, 8), (0x64400000, 10), (0x7F000000, 8), (0xA9FE0000, 16),
      (0xAC100000, 12), (0xC0000000, 24), (0xC0000200, 24), (0xC0586300, 24), (0xC0A80000, 16),
      (0xC6120000, 15), (0xC6336400, 24), (0xCB007100, 24), (0xE0000000, 3)]"

definition blocked_v6 :: "(128 word \<times> nat) list" where
  "blocked_v6 =
     [(0, 128), (1, 128), (0x01000000000000000000000000000000, 64),
      (0x20010002000000000000000000000000, 48), (0x20010DB8000000000000000000000000, 32),
      (0xFC000000000000000000000000000000, 7), (0xFE800000000000000000000000000000, 10),
      (0xFF000000000000000000000000000000, 8)]"

definition in_network_v4 :: "32 word \<Rightarrow> 32 word \<times> nat \<Rightarrow> bool" where
  "in_network_v4 value entry =
     (case entry of (network, prefix) \<Rightarrow>
        let mask = push_bit (32 - prefix) (- 1)
        in value AND mask = network AND mask)"

definition in_network_v6 :: "128 word \<Rightarrow> 128 word \<times> nat \<Rightarrow> bool" where
  "in_network_v6 value entry =
     (case entry of (network, prefix) \<Rightarrow>
        let mask = (if prefix = 0 then 0 else push_bit (128 - prefix) (- 1))
        in value AND mask = network AND mask)"

definition global_v4 :: "32 word \<Rightarrow> bool" where
  "global_v4 value = (\<not> (\<exists>entry \<in> set blocked_v4. in_network_v4 value entry))"

definition to_ipv4_mapped :: "128 word \<Rightarrow> 32 word option" where
  "to_ipv4_mapped value = (if drop_bit 32 value = 0xFFFF then Some (ucast value) else None)"

fun is_global_address :: "ip_addr \<Rightarrow> bool" where
  "is_global_address (V4 value) = global_v4 value"
| "is_global_address (V6 value) =
     (case to_ipv4_mapped value of
        Some mapped \<Rightarrow> global_v4 mapped
      | None \<Rightarrow> \<not> (\<exists>entry \<in> set blocked_v6. in_network_v6 value entry))"

abbreviation destination_rejected :: WebhookError where
  "destination_rejected \<equiv> Destination ''WEBHOOK_DESTINATION_REJECTED'' False"

definition require_global :: "ip_addr \<Rightarrow> WebhookError + unit" where
  "require_global address = (if is_global_address address then Inr () else Inl destination_rejected)"

definition host_address :: "url_host option \<Rightarrow> ip_addr option" where
  "host_address host = (case host of
     Some (Ipv4 value) \<Rightarrow> Some (V4 value) | Some (Ipv6 value) \<Rightarrow> Some (V6 value) | _ \<Rightarrow> None)"

definition validate_webhook_url_structure ::
  "webhook_lib \<Rightarrow> string \<Rightarrow> WebhookError + ValidatedWebhookUrl" where
  "validate_webhook_url_structure wl text =
     (if text = [] \<or> trim text \<noteq> text then Inl destination_rejected
      else bind_result (ok_or destination_rejected (wl_url_parse wl text)) (\<lambda>parsed.
        if ur_scheme parsed \<noteq> ''https'' then Inl (Destination ''WEBHOOK_HTTPS_REQUIRED'' False)
        else if ur_host parsed = None \<or> ur_username parsed \<noteq> [] \<or> ur_password parsed \<noteq> None
             \<or> ur_fragment parsed \<noteq> None
        then Inl destination_rejected
        else bind_result (ok_or destination_rejected (ur_host_str parsed)) (\<lambda>hostname.
          bind_result (case host_address (ur_host parsed) of
              None \<Rightarrow> Inr () | Some address \<Rightarrow> require_global address) (\<lambda>_.
          Inr \<lparr> vu_original = parsed, vu_hostname = hostname,
            vu_port = (case ur_port parsed of None \<Rightarrow> 443 | Some p \<Rightarrow> p) \<rparr>))))"

text \<open>The order of socket addresses: IPv4 before IPv6, then the address, then the port.\<close>

definition socket_key :: "ip_addr \<times> 16 word \<Rightarrow> int" where
  "socket_key a = (case a of
     (V4 v, p) \<Rightarrow> uint v * 65536 + uint p
   | (V6 v, p) \<Rightarrow> (2 ^ 128 + uint v) * 65536 + uint p)"

fun require_all_global :: "(ip_addr \<times> 16 word) list \<Rightarrow> WebhookError + unit" where
  "require_all_global [] = Inr ()"
| "require_all_global (a # as) = bind_result (require_global (fst a)) (\<lambda>_. require_all_global as)"

definition resolve_webhook_destination ::
  "webhook_lib \<Rightarrow> string \<Rightarrow> WebhookError + (ValidatedWebhookUrl \<times> (ip_addr \<times> 16 word) list)" where
  "resolve_webhook_destination wl text =
     bind_result (validate_webhook_url_structure wl text) (\<lambda>validated.
     bind_result (ok_or (Destination ''WEBHOOK_DESTINATION_UNAVAILABLE'' True)
        (wl_lookup_host wl (vu_hostname validated) (vu_port validated))) (\<lambda>addresses.
     if addresses = [] then Inl (Destination ''WEBHOOK_DESTINATION_UNAVAILABLE'' True)
     else bind_result (require_all_global addresses) (\<lambda>_.
       Inr (validated, remdups_adj (sort_key socket_key addresses)))))"

section \<open>Signatures\<close>

text \<open>\<open>sort_unstable_by_key\<close> on the names of an object, which are distinct.\<close>

fun canonical_json :: "json \<Rightarrow> json" where
  "canonical_json (JObj m) = JObj (map (\<lambda>(name, v). (name, canonical_json v)) (sort_key fst m))"
| "canonical_json (JArr vs) = JArr (map canonical_json vs)"
| "canonical_json v = v"

definition canonical_signature :: "notify_lib \<Rightarrow> webhook_lib \<Rightarrow> string \<Rightarrow> jmap \<Rightarrow> string" where
  "canonical_signature nl wl secret payload =
     ''sha256='' @ wl_hmac_sha256_hex wl secret
        (tp_json_show (nl_tp nl) (canonical_json (JObj payload)))"

section \<open>Bound secrets\<close>

definition WEBHOOK_SECRET_ENVELOPE_SCHEMA :: string where
  "WEBHOOK_SECRET_ENVELOPE_SCHEMA = ''marty.notification-webhook-secret/v1''"

definition WEBHOOK_SECRET_ENVELOPE_PURPOSE :: string where
  "WEBHOOK_SECRET_ENVELOPE_PURPOSE = ''webhook_hmac_signing''"

definition bound_webhook_secret_bytes ::
  "third_party \<Rightarrow> string \<Rightarrow> string \<Rightarrow> string \<Rightarrow> WebhookError + string" where
  "bound_webhook_secret_bytes tp organization_id webhook_id secret =
     (if organization_id = [] \<or> webhook_id = []
      then Inl (InvalidEnvelope ''Webhook secret binding is incomplete'')
      else if \<not> valid_webhook_signing_secret secret
      then Inl (InvalidEnvelope ''Webhook signing secret is invalid'')
      else Inr (tp_json_show tp (JObj
        [(''organization_id'', JStr organization_id),
         (''purpose'', JStr WEBHOOK_SECRET_ENVELOPE_PURPOSE),
         (''schema'', JStr WEBHOOK_SECRET_ENVELOPE_SCHEMA),
         (''secret'', JStr secret), (''webhook_id'', JStr webhook_id)])))"

definition encode_bound_webhook_secret ::
  "third_party \<Rightarrow> webhook_lib \<Rightarrow> string \<Rightarrow> string \<Rightarrow> string \<Rightarrow> WebhookError + string" where
  "encode_bound_webhook_secret tp wl organization_id webhook_id secret =
     bind_result (bound_webhook_secret_bytes tp organization_id webhook_id secret)
       (\<lambda>bytes. Inr (wl_b64_encode wl bytes))"

definition decode_bound_webhook_secret_bytes ::
  "third_party \<Rightarrow> string \<Rightarrow> string \<Rightarrow> string \<Rightarrow> WebhookError + string" where
  "decode_bound_webhook_secret_bytes tp plaintext organization_id webhook_id =
     bind_result (ok_or (InvalidEnvelope ''Webhook secret envelope plaintext is malformed'')
        (Option.bind (tp_json_parse tp plaintext) as_object)) (\<lambda>document.
     if \<exists>(key, value) \<in> set [(''schema'', WEBHOOK_SECRET_ENVELOPE_SCHEMA),
          (''organization_id'', organization_id), (''webhook_id'', webhook_id),
          (''purpose'', WEBHOOK_SECRET_ENVELOPE_PURPOSE)]. str_member document key \<noteq> Some value
     then Inl (InvalidEnvelope ''Webhook secret envelope binding mismatch'')
     else if length document \<noteq> 5
     then Inl (InvalidEnvelope ''Webhook secret envelope contains unexpected fields'')
     else (case str_member document ''secret'' of
         Some value \<Rightarrow>
           if valid_webhook_signing_secret value then Inr value
           else Inl (InvalidEnvelope ''Webhook secret envelope contains an invalid signing secret'')
       | None \<Rightarrow>
           Inl (InvalidEnvelope ''Webhook secret envelope contains an invalid signing secret'')))"

definition decode_bound_webhook_secret ::
  "third_party \<Rightarrow> string \<Rightarrow> string \<Rightarrow> string \<Rightarrow> WebhookError + string" where
  "decode_bound_webhook_secret tp plaintext organization_id webhook_id =
     bind_result (ok_or (InvalidEnvelope ''Webhook secret envelope plaintext is malformed'')
        (tp_b64_decode tp plaintext))
       (\<lambda>decoded. decode_bound_webhook_secret_bytes tp decoded organization_id webhook_id)"

end
