(* ===== verification/Notification_Destinations.thy ===== *)
theory Notification_Destinations
  imports Notification_Webhook
begin

text \<open>
  What the destination checks of \<open>webhook.rs\<close> establish: the addresses a webhook is delivered to
  lie outside the reserved ranges, written here as intervals, and a secret comes back from its
  envelope only for the webhook it was bound to.
\<close>

section \<open>Masks are intervals\<close>

lemma uint_drop_bit: "uint (drop_bit k (w :: 'a::len word)) = drop_bit k (uint w)"
  by (simp only: unsigned_drop_bit_eq bintr_uint [OF order_refl])

lemma drop_bit_eq_iff:
  fixes a b :: "'a::len word"
  shows "drop_bit k a = drop_bit k b \<longleftrightarrow> uint a div 2 ^ k = uint b div 2 ^ k"
  unfolding word_uint_eq_iff by (simp only: uint_drop_bit) (simp only: drop_bit_eq_div)

lemma mask_eq_iff:
  fixes a b :: "'a::len word"
  shows "a AND NOT (mask k) = b AND NOT (mask k) \<longleftrightarrow> uint a div 2 ^ k = uint b div 2 ^ k"
proof -
  have "a AND NOT (mask k) = b AND NOT (mask k) \<longleftrightarrow> drop_bit k a = drop_bit k b"
  proof
    assume eq: "a AND NOT (mask k) = b AND NOT (mask k)"
    show "drop_bit k a = drop_bit k b"
    proof (rule bit_word_eqI)
      fix n assume "n < LENGTH('a)"
      have "bit (a AND NOT (mask k)) (k + n) = bit (b AND NOT (mask k)) (k + n)"
        by (simp only: eq)
      then show "bit (drop_bit k a) n = bit (drop_bit k b) n"
        by (auto simp: bit_simps dest: bit_imp_le_length)
    qed
  next
    assume eq: "drop_bit k a = drop_bit k b"
    show "a AND NOT (mask k) = b AND NOT (mask k)"
    proof (rule bit_word_eqI)
      fix n assume "n < LENGTH('a)"
      have "bit (drop_bit k a) (n - k) = bit (drop_bit k b) (n - k)" by (simp add: eq)
      then show "bit (a AND NOT (mask k)) n = bit (b AND NOT (mask k)) n"
        by (auto simp: bit_simps)
    qed
  qed
  also have "\<dots> \<longleftrightarrow> uint a div 2 ^ k = uint b div 2 ^ k"
    by (rule drop_bit_eq_iff)
  finally show ?thesis .
qed

lemma push_bit_ones: "push_bit k (- 1 :: 'a::len word) = NOT (mask k)"
  by simp

lemma div_interval:
  fixes v d q :: int
  assumes "0 < d"
  shows "v div d = q \<longleftrightarrow> q * d \<le> v \<and> v \<le> q * d + d - 1"
proof
  assume "v div d = q"
  moreover have "v = (v div d) * d + v mod d" by simp
  moreover have "0 \<le> v mod d" "v mod d < d" using assms by simp_all
  ultimately show "q * d \<le> v \<and> v \<le> q * d + d - 1" by auto
next
  assume "q * d \<le> v \<and> v \<le> q * d + d - 1"
  then show "v div d = q" by (intro int_div_pos_eq [of v d q "v - q * d"]) auto
qed

lemma in_network_v4_exact:
  "in_network_v4 v (n, p) \<longleftrightarrow> uint v div 2 ^ (32 - p) = uint n div 2 ^ (32 - p)"
  by (simp add: in_network_v4_def mask_eq_iff)

lemma in_network_v6_exact:
  "0 < p \<Longrightarrow> in_network_v6 v (n, p) \<longleftrightarrow> uint v div 2 ^ (128 - p) = uint n div 2 ^ (128 - p)"
  by (simp add: in_network_v6_def mask_eq_iff)

section \<open>Reserved addresses\<close>

definition reserved_v4 :: "(int \<times> int) list" where
  "reserved_v4 =
     [(0, 16777215), (167772160, 184549375), (1681915904, 1686110207), (2130706432, 2147483647),
      (2851995648, 2852061183), (2886729728, 2887778303), (3221225472, 3221225727),
      (3221225984, 3221226239), (3227017984, 3227018239), (3232235520, 3232301055),
      (3323068416, 3323199487), (3325256704, 3325256959), (3405803776, 3405804031),
      (3758096384, 4294967295)]"

definition reserved_v6 :: "(int \<times> int) list" where
  "reserved_v6 =
     [(0, 0), (1, 1),
      (1329227995784915872903807060280344576, 1329227995784915891350551133989896191),
      (42540488320432167789079031612388147200, 42540488320433376714898646241562853375),
      (42540766411282592856903984951653826560, 42540766490510755371168322545197776895),
      (334965454937798799971759379190646833152, 337623910929368631717566993311207522303),
      (338288524927261089654018896841347694592, 338620831926207318622244848606417780735),
      (338953138925153547590470800371487866880, 340282366920938463463374607431768211455)]"

definition outside :: "(int \<times> int) list \<Rightarrow> int \<Rightarrow> bool" where
  "outside ranges v = (\<not> (\<exists>(first, last) \<in> set ranges. first \<le> v \<and> v \<le> last))"

definition public_address :: "ip_addr \<Rightarrow> bool" where
  "public_address a = (case a of
     V4 v \<Rightarrow> outside reserved_v4 (uint v)
   | V6 v \<Rightarrow>
       if 0xFFFF00000000 \<le> uint v \<and> uint v \<le> 0xFFFFFFFFFFFF
       then outside reserved_v4 (uint v - 0xFFFF00000000)
       else outside reserved_v6 (uint v))"

lemma global_v4_exact: "global_v4 v \<longleftrightarrow> outside reserved_v4 (uint v)"
  by (simp add: global_v4_def blocked_v4_def in_network_v4_exact div_interval outside_def
      reserved_v4_def)

lemma global_v6_exact:
  "\<not> (\<exists>entry \<in> set blocked_v6. in_network_v6 v entry) \<longleftrightarrow> outside reserved_v6 (uint v)"
  by (cases "uint v = 1")
    (simp_all add: blocked_v6_def in_network_v6_exact div_interval outside_def reserved_v6_def)

lemma ipv4_mapped_range:
  "drop_bit 32 (v :: 128 word) = 0xFFFF
     \<longleftrightarrow> 0xFFFF00000000 \<le> uint v \<and> uint v \<le> 0xFFFFFFFFFFFF"
proof -
  have "drop_bit 32 v = 0xFFFF \<longleftrightarrow> uint v div 2 ^ 32 = 0xFFFF"
    unfolding word_uint_eq_iff [of "drop_bit 32 v"] uint_drop_bit by (simp add: drop_bit_eq_div)
  then show ?thesis by (simp add: div_interval)
qed

lemma uint_ipv4_mapped:
  assumes "drop_bit 32 (v :: 128 word) = 0xFFFF"
  shows "uint (ucast v :: 32 word) = uint v - 0xFFFF00000000"
proof -
  have "uint v div 2 ^ 32 = 0xFFFF"
    using assms by (simp add: ipv4_mapped_range div_interval)
  then have "uint v mod 2 ^ 32 = uint v - 0xFFFF00000000"
    using div_mult_mod_eq [of "uint v" "2 ^ 32"] by simp
  then show ?thesis by (simp add: unsigned_ucast_eq take_bit_eq_mod)
qed

lemma is_global_exact: "is_global_address a \<longleftrightarrow> public_address a"
proof (cases a)
  case (V6 v)
  show ?thesis
  proof (cases "drop_bit 32 v = 0xFFFF")
    case True
    then show ?thesis
      using True [unfolded ipv4_mapped_range]
      by (simp add: V6 to_ipv4_mapped_def public_address_def global_v4_exact uint_ipv4_mapped)
  next
    case False
    then have "to_ipv4_mapped v = None" by (simp add: to_ipv4_mapped_def)
    then show ?thesis
      using False [unfolded ipv4_mapped_range] global_v6_exact [of v]
      by (auto simp: V6 public_address_def)
  qed
qed (simp add: public_address_def global_v4_exact)

section \<open>Properties\<close>

lemma is_ok_require_all_global:
  "is_ok (require_all_global as) \<longleftrightarrow> (\<forall>a \<in> set as. is_global_address (fst a))"
  by (induction as) (auto simp: require_global_def)

lemma distinct_remdups_adj:
  assumes "inj f" and "sorted (map f xs)"
  shows "distinct (remdups_adj xs)"
  using assms(2)
proof (induction xs rule: remdups_adj.induct)
  case (3 x y xs)
  show ?case
  proof (cases "x = y")
    case False
    have "f x < f z" if "z \<in> set (y # xs)" for z
    proof -
      have "f x \<le> f y" "f y \<le> f z" using 3(3) that by auto
      moreover have "f x \<noteq> f y" using False assms(1) by (auto dest: injD)
      ultimately show ?thesis by simp
    qed
    then show ?thesis using 3 False by auto
  qed (use 3 in auto)
qed simp_all

lemma inj_socket_key: "inj socket_key"
proof (rule injI)
  fix a b :: "ip_addr \<times> 16 word"
  have bounds: "0 \<le> uint p" "uint p < 65536" "0 \<le> uint v" "uint v < 2 ^ 32" for p :: "16 word" and v :: "32 word"
    using uint_bounded [of p] uint_bounded [of v] by simp_all
  have same: "i = j \<and> p = q" if "i * 65536 + uint p = j * 65536 + uint q" for i j and p q :: "16 word"
  proof -
    have high: "(i * 65536 + uint p) div 65536 = i" for i and p :: "16 word"
      using bounds(1,2) [of p] by (simp add: div_interval)
    have "i = j" using high [of i p] high [of j q] by (simp only: that)
    then show ?thesis using that by (simp add: word_uint_eq_iff)
  qed
  have far: "uint v * 65536 + uint p \<noteq> (2 ^ 128 + uint w) * 65536 + uint q"
    for v :: "32 word" and w :: "128 word" and p q :: "16 word"
  proof -
    have "uint v * 65536 + uint p < 2 ^ 128 * 65536"
      using bounds(2) [of p] bounds(4) [of v] by simp
    also have "\<dots> \<le> (2 ^ 128 + uint w) * 65536 + uint q" by simp
    finally show ?thesis by simp
  qed
  assume "socket_key a = socket_key b"
  then show "a = b"
    by (cases a; cases b; cases "fst a"; cases "fst b")
      (auto simp: socket_key_def far [simplified] far [simplified, symmetric] word_uint_eq_iff [of "_ :: 32 word"]
        word_uint_eq_iff [of "_ :: 128 word"] dest!: same)
qed

text \<open>C32. A webhook is never sent to a reserved address. When a destination resolves, it is an
  HTTPS address without user information or fragment, the addresses are those the name resolution
  gave, at least one, each once, and every one of them lies outside the private, loopback,
  link-local, documentation, multicast and other reserved ranges of IPv4 and IPv6 (an IPv4 address
  mapped into IPv6 is judged as IPv4).\<close>

theorem webhook_destinations_are_public:
  assumes "resolve_webhook_destination wl text = Inr (validated, addresses)"
  shows "\<exists>u found. wl_url_parse wl text = Some u \<and> vu_original validated = u
      \<and> ur_scheme u = ''https'' \<and> ur_username u = [] \<and> ur_password u = None \<and> ur_fragment u = None
      \<and> wl_lookup_host wl (vu_hostname validated) (vu_port validated) = Some found
      \<and> addresses \<noteq> [] \<and> distinct addresses \<and> set addresses = set found
      \<and> (\<forall>a \<in> set addresses. public_address (fst a))"
proof -
  obtain found where url: "validate_webhook_url_structure wl text = Inr validated"
    and found: "wl_lookup_host wl (vu_hostname validated) (vu_port validated) = Some found"
      "found \<noteq> []" "is_ok (require_all_global found)"
    and addresses: "addresses = remdups_adj (sort_key socket_key found)"
    using assms by (auto simp: resolve_webhook_destination_def bind_result_Inr split: if_splits)
  obtain u where u: "wl_url_parse wl text = Some u" "vu_original validated = u"
      "ur_scheme u = ''https''" "ur_username u = []" "ur_password u = None" "ur_fragment u = None"
    using url by (auto simp: validate_webhook_url_structure_def bind_result_Inr split: if_splits)
  have "distinct addresses"
    unfolding addresses by (rule distinct_remdups_adj [OF inj_socket_key]) simp
  moreover have "set addresses = set found" by (simp add: addresses)
  ultimately show ?thesis
    using u found by (auto simp: is_ok_require_all_global is_global_exact)
qed

definition sample_url :: url where
  "sample_url = \<lparr> ur_scheme = ''https'', ur_host = Some (Domain ''example.com''),
     ur_host_str = Some ''example.com'', ur_username = [], ur_password = None, ur_fragment = None,
     ur_port = None \<rparr>"

definition sample_webhook_lib :: webhook_lib where
  "sample_webhook_lib = \<lparr> wl_url_parse = (\<lambda>_. Some sample_url),
     wl_lookup_host = (\<lambda>_ p. Some [(V4 0x08080808, p), (V4 0x08080404, p), (V4 0x08080808, p)]),
     wl_hmac_sha256_hex = (\<lambda>k m. k @ m), wl_b64_encode = (\<lambda>s. s) \<rparr>"

lemma trim_h: "trim ''h'' = ''h''"
  by (rule trim_visible) (simp_all add: visible_def byte_def)

lemma sample_resolves:
  "resolve_webhook_destination sample_webhook_lib ''h'' =
     Inr (\<lparr> vu_original = sample_url, vu_hostname = ''example.com'', vu_port = 443 \<rparr>,
       [(V4 0x08080404, 443), (V4 0x08080808, 443)])"
  by (simp add: resolve_webhook_destination_def validate_webhook_url_structure_def trim_h
      sample_webhook_lib_def sample_url_def host_address_def require_global_def is_global_exact
      public_address_def outside_def reserved_v4_def socket_key_def)

theorem webhook_destinations_are_public_witness:
  "public_address (V4 0x08080404)"
  using webhook_destinations_are_public [OF sample_resolves] by fastforce

section \<open>Bound secrets\<close>

text \<open>The documented laws of the encoders: Base64 and JSON text decode to what was encoded.\<close>

definition encoders_ok :: "third_party \<Rightarrow> webhook_lib \<Rightarrow> bool" where
  "encoders_ok tp wl =
     ((\<forall>s. tp_b64_decode tp (wl_b64_encode wl s) = Some s)
      \<and> (\<forall>m. wf_map m \<and> list_all (\<lambda>(_, v). \<exists>s. v = JStr s) m
           \<longrightarrow> tp_json_parse tp (tp_json_show tp (JObj m)) = Some (JObj m)))"

text \<open>C33. A webhook secret comes back from its envelope, and only for its webhook: what
  \<open>encode_bound_webhook_secret\<close> makes decodes to the secret under the same organization and
  webhook, and is refused as a binding mismatch under any other.\<close>

theorem webhook_secret_roundtrip:
  assumes "encoders_ok tp wl"
    and "encode_bound_webhook_secret tp wl organization_id webhook_id secret = Inr text"
  shows "decode_bound_webhook_secret tp text organization_id webhook_id = Inr secret
    \<and> ((organization_id', webhook_id') \<noteq> (organization_id, webhook_id) \<longrightarrow>
        decode_bound_webhook_secret tp text organization_id' webhook_id' =
          Inl (InvalidEnvelope ''Webhook secret envelope binding mismatch''))"
proof -
  define document where "document =
    [(''organization_id'', JStr organization_id), (''purpose'', JStr WEBHOOK_SECRET_ENVELOPE_PURPOSE),
     (''schema'', JStr WEBHOOK_SECRET_ENVELOPE_SCHEMA), (''secret'', JStr secret),
     (''webhook_id'', JStr webhook_id)]"
  have "wf_map document" and "list_all (\<lambda>(_, v). \<exists>s. v = JStr s) document"
    by (simp_all add: document_def wf_map_def)
  then have parsed: "tp_json_parse tp (tp_json_show tp (JObj document)) = Some (JObj document)"
    and b64: "tp_b64_decode tp (wl_b64_encode wl s) = Some s" for s
    using assms(1) by (auto simp: encoders_ok_def)
  have made: "text = wl_b64_encode wl (tp_json_show tp (JObj document))"
    and valid: "valid_webhook_signing_secret secret"
    using assms(2) by (auto simp: encode_bound_webhook_secret_def bound_webhook_secret_bytes_def
        document_def bind_result_Inr split: if_splits)
  have members: "str_member document ''schema'' = Some WEBHOOK_SECRET_ENVELOPE_SCHEMA"
      "str_member document ''organization_id'' = Some organization_id"
      "str_member document ''webhook_id'' = Some webhook_id"
      "str_member document ''purpose'' = Some WEBHOOK_SECRET_ENVELOPE_PURPOSE"
      "str_member document ''secret'' = Some secret" "length document = 5"
    by (simp_all add: document_def str_member_def as_str_def)
  have "decode_bound_webhook_secret tp text o' w' =
      decode_bound_webhook_secret_bytes tp (tp_json_show tp (JObj document)) o' w'" for o' w'
    by (simp add: made decode_bound_webhook_secret_def b64)
  then show ?thesis
    by (auto simp: decode_bound_webhook_secret_bytes_def parsed as_object_def members valid)
qed


text \<open>Encoders with these laws: every text is preceded by its length in unary.\<close>

definition encode_piece :: "string \<Rightarrow> string" where
  "encode_piece s = replicate (length s) (CHR ''x'') @ CHR ''y'' # s"

fun decode_pieces :: "nat \<Rightarrow> string \<Rightarrow> string list" where
  "decode_pieces 0 s = []"
| "decode_pieces (Suc fuel) s =
     (if s = [] then []
      else let n = length (takeWhile (\<lambda>c. c = CHR ''x'') s); r = drop (Suc n) s
           in take n r # decode_pieces fuel (drop n r))"

fun pieces_of :: "jmap \<Rightarrow> string list" where
  "pieces_of [] = []"
| "pieces_of ((k, v) # m) = k # (case v of JStr s \<Rightarrow> s | _ \<Rightarrow> []) # pieces_of m"

fun pair_pieces :: "string list \<Rightarrow> jmap" where
  "pair_pieces (k # v # ps) = (k, JStr v) # pair_pieces ps"
| "pair_pieces _ = []"

definition sample_encoders :: third_party where
  "sample_encoders = demo\<lparr>
     tp_json_show := (\<lambda>j. case j of JObj m \<Rightarrow> concat (map encode_piece (pieces_of m)) | _ \<Rightarrow> []),
     tp_json_parse := (\<lambda>s. Some (JObj (pair_pieces (decode_pieces (length s) s)))) \<rparr>"

lemma decode_encode_pieces:
  "length ps \<le> fuel \<Longrightarrow> decode_pieces fuel (concat (map encode_piece ps)) = ps"
proof (induction fuel arbitrary: ps)
  case (Suc fuel)
  show ?case
  proof (cases ps)
    case (Cons p qs)
    then show ?thesis
      using Suc by (simp add: encode_piece_def takeWhile_append Let_def)
  qed simp
qed simp

lemma length_pieces: "length ps \<le> length (concat (map encode_piece ps))"
  by (induction ps) (auto simp: encode_piece_def)

lemma pair_pieces_of: "list_all (\<lambda>(_, v). \<exists>s. v = JStr s) m \<Longrightarrow> pair_pieces (pieces_of m) = m"
  by (induction m) auto

lemma sample_encoders_ok: "encoders_ok sample_encoders sample_webhook_lib"
  by (simp add: encoders_ok_def sample_encoders_def demo_def sample_webhook_lib_def
      decode_encode_pieces length_pieces pair_pieces_of)

abbreviation sample_secret :: string where
  "sample_secret \<equiv> ''0123456789abcdef0123456789abcdef''"

lemma sample_encoded:
  "\<exists>c. encode_bound_webhook_secret sample_encoders sample_webhook_lib ''o'' ''w'' sample_secret = Inr c"
proof -
  have "trim sample_secret = sample_secret"
    by (rule trim_visible) (simp_all add: visible_def byte_def)
  then have "valid_webhook_signing_secret sample_secret"
    by (simp add: valid_webhook_signing_secret_def MIN_SECRET_LENGTH_def MAX_SECRET_LENGTH_def
        to_ascii_lowercase_def ascii_lower_def byte_def starts_with_def Let_def)
  then show ?thesis
    by (simp add: encode_bound_webhook_secret_def bound_webhook_secret_bytes_def)
qed

theorem webhook_secret_roundtrip_witness:
  "\<exists>c. decode_bound_webhook_secret sample_encoders c ''o'' ''w'' = Inr sample_secret
     \<and> decode_bound_webhook_secret sample_encoders c ''p'' ''w'' =
         Inl (InvalidEnvelope ''Webhook secret envelope binding mismatch'')"
proof -
  obtain c where
    c: "encode_bound_webhook_secret sample_encoders sample_webhook_lib ''o'' ''w'' sample_secret = Inr c"
    using sample_encoded by blast
  show ?thesis
    using webhook_secret_roundtrip [OF sample_encoders_ok c, of "''p''" "''w''"]
    by (intro exI [of _ c]) simp
qed

end
