(* ===== verification/Notification_Json.thy ===== *)
theory Notification_Json
  imports Notification_Domain
begin

text \<open>
  The JSON values that serde derives for the records of \<open>domain.rs\<close> and \<open>outbox.rs\<close> which the
  repository scans for private keys before it stores them.
\<close>

definition opt_json :: "('a \<Rightarrow> json) \<Rightarrow> 'a option \<Rightarrow> json" where
  "opt_json f x = (case x of None \<Rightarrow> JNull | Some y \<Rightarrow> f y)"

text \<open>A field with \<open>skip_serializing_if = "Option::is_none"\<close>.\<close>

definition skip_none :: "string \<Rightarrow> ('a \<Rightarrow> json) \<Rightarrow> 'a option \<Rightarrow> jmap" where
  "skip_none name f x = (case x of None \<Rightarrow> [] | Some y \<Rightarrow> [(name, f y)])"

definition strings_json :: "string list \<Rightarrow> json" where
  "strings_json xs = JArr (map JStr xs)"

definition i32_json :: "i32 \<Rightarrow> json" where
  "i32_json w = json_of_int (sint w)"

definition i64_json :: "i64 \<Rightarrow> json" where
  "i64_json w = json_of_int (sint w)"

definition time_json :: "notify_lib \<Rightarrow> time \<Rightarrow> json" where
  "time_json nl t = JStr (nl_time_json nl t)"

fun notification_type_text :: "NotificationType \<Rightarrow> string" where
  "notification_type_text NtEmail = ''email''"
| "notification_type_text NtPush = ''push''"
| "notification_type_text NtSms = ''sms''"
| "notification_type_text NtWebhook = ''webhook''"

fun notification_status_text :: "NotificationStatus \<Rightarrow> string" where
  "notification_status_text NsPending = ''pending''"
| "notification_status_text NsSent = ''sent''"
| "notification_status_text NsDelivered = ''delivered''"
| "notification_status_text NsFailed = ''failed''"

fun priority_text :: "NotificationPriority \<Rightarrow> string" where
  "priority_text PrLow = ''LOW''"
| "priority_text PrNormal = ''NORMAL''"
| "priority_text PrHigh = ''HIGH''"
| "priority_text PrCritical = ''CRITICAL''"

definition target_json :: "NotificationTarget \<Rightarrow> json" where
  "target_json t = JObj
     (skip_none ''organization_id'' JStr (nt_organization_id t)
      @ skip_none ''user_id'' JStr (nt_user_id t)
      @ [(''device_tokens'', strings_json (nt_device_tokens t)),
         (''webhook_endpoints'', strings_json (nt_webhook_endpoints t)),
         (''email_addresses'', strings_json (nt_email_addresses t)),
         (''channels'', strings_json (map channel_text (nt_channels t)))])"

definition delivery_result_json :: "notify_lib \<Rightarrow> DeliveryResult \<Rightarrow> json" where
  "delivery_result_json nl r = JObj
     ([(''notification_id'', JStr (dr_notification_id r)),
       (''channel'', JStr (channel_text (dr_channel r))),
       (''success'', JBool (dr_success r)),
       (''attempted_at'', time_json nl (dr_attempted_at r))]
      @ skip_none ''delivered_at'' (time_json nl) (dr_delivered_at r)
      @ skip_none ''error_code'' JStr (dr_error_code r)
      @ skip_none ''should_retry'' JBool (dr_should_retry r)
      @ skip_none ''retry_after'' i64_json (dr_retry_after r))"

definition notification_json :: "notify_lib \<Rightarrow> Notification \<Rightarrow> json" where
  "notification_json nl n = JObj
     [(''id'', JStr (nf_id n)),
      (''organization_id'', json_opt_str (nf_organization_id n)),
      (''recipient_id'', json_opt_str (nf_recipient_id n)),
      (''recipient_email'', json_opt_str (nf_recipient_email n)),
      (''recipient_phone'', json_opt_str (nf_recipient_phone n)),
      (''notification_type'', JStr (notification_type_text (nf_notification_type n))),
      (''template_id'', json_opt_str (nf_template_id n)),
      (''subject'', JStr (nf_subject n)),
      (''body'', JStr (nf_body n)),
      (''severity'', JStr (nf_severity n)),
      (''link'', json_opt_str (nf_link n)),
      (''data'', JObj (nf_data n)),
      (''status'', JStr (notification_status_text (nf_status n))),
      (''priority'', JStr (priority_text (nf_priority n))),
      (''event_type'', JStr (nf_event_type n)),
      (''ttl_seconds'', i64_json (nf_ttl_seconds n)),
      (''collapse_key'', json_opt_str (nf_collapse_key n)),
      (''correlation_id'', json_opt_str (nf_correlation_id n)),
      (''target'', opt_json target_json (nf_target n)),
      (''delivery_results'', JArr (map (delivery_result_json nl) (nf_delivery_results n))),
      (''attempts'', i32_json (nf_attempts n)),
      (''last_attempt_at'', opt_json (time_json nl) (nf_last_attempt_at n)),
      (''delivered_at'', opt_json (time_json nl) (nf_delivered_at n)),
      (''error_message'', json_opt_str (nf_error_message n)),
      (''created_at'', time_json nl (nf_created_at n)),
      (''scheduled_at'', opt_json (time_json nl) (nf_scheduled_at n)),
      (''read_at'', opt_json (time_json nl) (nf_read_at n))]"

definition retry_policy_json :: "RetryPolicy \<Rightarrow> json" where
  "retry_policy_json p = JObj
     [(''max_attempts'', i32_json (rp_max_attempts p)),
      (''initial_backoff_seconds'', i32_json (rp_initial_backoff_seconds p)),
      (''max_backoff_seconds'', i32_json (rp_max_backoff_seconds p))]"

definition subscription_json :: "notify_lib \<Rightarrow> Subscription \<Rightarrow> json" where
  "subscription_json nl s = JObj
     [(''id'', JStr (sb_id s)),
      (''organization_id'', JStr (sb_organization_id s)),
      (''name'', JStr (sb_name s)),
      (''description'', json_opt_str (sb_description s)),
      (''event_types'', strings_json (sb_event_types s)),
      (''filter_config'', JObj (sb_filter_config s)),
      (''retry_policy'', retry_policy_json (sb_retry_policy s)),
      (''delivery_target_id'', json_opt_str (sb_delivery_target_id s)),
      (''enabled'', JBool (sb_enabled s)),
      (''created_at'', time_json nl (sb_created_at s)),
      (''updated_at'', time_json nl (sb_updated_at s))]"

definition outbox_event_json :: "notify_lib \<Rightarrow> WebhookOutboxEvent \<Rightarrow> json" where
  "outbox_event_json nl e = JObj
     [(''id'', JStr (ob_id e)),
      (''organization_id'', JStr (ob_organization_id e)),
      (''webhook_id'', JStr (ob_webhook_id e)),
      (''subscription_id'', JStr (ob_subscription_id e)),
      (''event_id'', JStr (ob_event_id e)),
      (''event_type'', JStr (ob_event_type e)),
      (''payload'', JObj (ob_payload e)),
      (''max_attempts'', i32_json (ob_max_attempts e)),
      (''initial_backoff_seconds'', i32_json (ob_initial_backoff_seconds e)),
      (''max_backoff_seconds'', i32_json (ob_max_backoff_seconds e)),
      (''created_at'', time_json nl (ob_created_at e)),
      (''next_attempt_at'', time_json nl (ob_next_attempt_at e)),
      (''expires_at'', time_json nl (ob_expires_at e)),
      (''status'', JStr (ob_status e)),
      (''attempt_count'', i32_json (ob_attempt_count e)),
      (''lease_token'', json_opt_str (ob_lease_token e)),
      (''lease_expires_at'', opt_json (time_json nl) (ob_lease_expires_at e)),
      (''delivered_at'', opt_json (time_json nl) (ob_delivered_at e)),
      (''last_error_code'', json_opt_str (ob_last_error_code e)),
      (''response_status_code'', opt_json i32_json (ob_response_status_code e))]"

end
