(* ===== verification/Notification_Store.thy ===== *)
theory Notification_Store
  imports Notification_Json
begin

text \<open>
  \<open>rust/services/notification/src/repository.rs\<close>: the in-memory repository. A \<open>HashMap\<close> is an
  association list in its iteration order. \<open>claim_due_webhook_events\<close> first expires what is past
  its retention, then leases the oldest due events, each with a fresh token.
\<close>

datatype RepositoryError = StorageUnavailable string | StorageInvalid string

record MemoryState =
  nm_notifications :: "Notification hash_map"
  nm_templates :: "NotificationTemplate hash_map"
  nm_subscriptions :: "Subscription hash_map"
  nm_webhooks :: "WebhookEndpoint hash_map"
  nm_deliveries :: "WebhookDelivery hash_map"
  nm_outbox :: "WebhookOutboxEvent hash_map"

definition memory_default :: "time \<Rightarrow> MemoryState" where
  "memory_default now =
     \<lparr> nm_notifications = [],
       nm_templates = fold (\<lambda>t. hm_insert (tm_id t) t) (default_templates now) [],
       nm_subscriptions = [], nm_webhooks = [], nm_deliveries = [], nm_outbox = [] \<rparr>"

definition reject_private_record :: "notify_lib \<Rightarrow> json \<Rightarrow> RepositoryError + unit" where
  "reject_private_record nl value =
     (if contains_private_key (nl_parse_tree nl) value
      then Inl (StorageInvalid ''private key material is not allowed in notification records'') else Inr ())"

text \<open>\<open>is_none_or\<close>: an absent filter admits everything.\<close>

definition is_none_or :: "'a option \<Rightarrow> ('a \<Rightarrow> bool) \<Rightarrow> bool" where
  "is_none_or x p = (case x of None \<Rightarrow> True | Some y \<Rightarrow> p y)"

text \<open>\<open>sort_by_key\<close> with \<open>Reverse(created_at)\<close>: newest first, stable.\<close>

definition newest :: "('a \<Rightarrow> time) \<Rightarrow> 'a list \<Rightarrow> 'a list" where
  "newest created xs = sort_key (\<lambda>x. - created x) xs"

section \<open>Notifications and templates\<close>

definition save_notification ::
  "notify_lib \<Rightarrow> Notification \<Rightarrow> MemoryState \<Rightarrow> (RepositoryError + unit) \<times> MemoryState" where
  "save_notification nl n m =
     (case reject_private_record nl (notification_json nl n) of
        Inl e \<Rightarrow> (Inl e, m)
      | Inr _ \<Rightarrow> (Inr (), m\<lparr>nm_notifications := hm_insert (nf_id n) n (nm_notifications m)\<rparr>))"

definition get_notification :: "string \<Rightarrow> MemoryState \<Rightarrow> Notification option" where
  "get_notification i m = map_of (nm_notifications m) i"

definition delete_notification :: "string \<Rightarrow> MemoryState \<Rightarrow> bool \<times> MemoryState" where
  "delete_notification i m =
     (map_of (nm_notifications m) i \<noteq> None,
      m\<lparr>nm_notifications := hm_remove i (nm_notifications m)\<rparr>)"

definition list_notifications ::
  "string option \<Rightarrow> string option \<Rightarrow> NotificationStatus option \<Rightarrow> MemoryState \<Rightarrow> Notification list" where
  "list_notifications organization_id recipient_id status m =
     newest nf_created_at
       (filter (\<lambda>item.
           is_none_or organization_id (\<lambda>i. nf_organization_id item = Some i)
           \<and> is_none_or recipient_id (\<lambda>i. nf_recipient_id item = Some i)
           \<and> is_none_or status (\<lambda>v. nf_status item = v))
         (map snd (nm_notifications m)))"

definition save_template :: "NotificationTemplate \<Rightarrow> MemoryState \<Rightarrow> MemoryState" where
  "save_template t m = m\<lparr>nm_templates := hm_insert (tm_id t) t (nm_templates m)\<rparr>"

definition get_template :: "string \<Rightarrow> MemoryState \<Rightarrow> NotificationTemplate option" where
  "get_template i m = map_of (nm_templates m) i"

definition list_templates :: "string option \<Rightarrow> MemoryState \<Rightarrow> NotificationTemplate list" where
  "list_templates organization_id m =
     sort_key tm_name
       (filter (\<lambda>item. is_none_or organization_id
           (\<lambda>i. tm_organization_id item = None \<or> tm_organization_id item = Some i))
         (map snd (nm_templates m)))"

section \<open>Subscriptions and webhooks\<close>

definition save_subscription ::
  "notify_lib \<Rightarrow> Subscription \<Rightarrow> MemoryState \<Rightarrow> (RepositoryError + unit) \<times> MemoryState" where
  "save_subscription nl s m =
     (case reject_private_record nl (subscription_json nl s) of
        Inl e \<Rightarrow> (Inl e, m)
      | Inr _ \<Rightarrow> (Inr (), m\<lparr>nm_subscriptions := hm_insert (sb_id s) s (nm_subscriptions m)\<rparr>))"

definition get_subscription :: "string \<Rightarrow> MemoryState \<Rightarrow> Subscription option" where
  "get_subscription i m = map_of (nm_subscriptions m) i"

definition list_subscriptions :: "string option \<Rightarrow> MemoryState \<Rightarrow> Subscription list" where
  "list_subscriptions organization_id m =
     newest sb_created_at
       (filter (\<lambda>item. is_none_or organization_id (\<lambda>i. sb_organization_id item = i))
         (map snd (nm_subscriptions m)))"

definition delete_subscription :: "string \<Rightarrow> MemoryState \<Rightarrow> bool \<times> MemoryState" where
  "delete_subscription i m =
     (map_of (nm_subscriptions m) i \<noteq> None,
      m\<lparr>nm_subscriptions := hm_remove i (nm_subscriptions m)\<rparr>)"

definition save_webhook :: "WebhookEndpoint \<Rightarrow> MemoryState \<Rightarrow> MemoryState" where
  "save_webhook w m = m\<lparr>nm_webhooks := hm_insert (we_id w) w (nm_webhooks m)\<rparr>"

definition get_webhook :: "string \<Rightarrow> MemoryState \<Rightarrow> WebhookEndpoint option" where
  "get_webhook i m = map_of (nm_webhooks m) i"

definition list_webhooks :: "string option \<Rightarrow> MemoryState \<Rightarrow> WebhookEndpoint list" where
  "list_webhooks organization_id m =
     newest we_created_at
       (filter (\<lambda>item. is_none_or organization_id (\<lambda>i. we_organization_id item = i))
         (map snd (nm_webhooks m)))"

definition delete_webhook :: "string \<Rightarrow> MemoryState \<Rightarrow> bool \<times> MemoryState" where
  "delete_webhook i m =
     (map_of (nm_webhooks m) i \<noteq> None, m\<lparr>nm_webhooks := hm_remove i (nm_webhooks m)\<rparr>)"

text \<open>The statistics of one delivery attempt.\<close>

definition attempt_recorded :: "bool \<Rightarrow> time \<Rightarrow> i32 \<Rightarrow> WebhookEndpoint \<Rightarrow> WebhookEndpoint" where
  "attempt_recorded success completed failure_threshold value =
     (let value =
        (if success
         then value\<lparr>we_failure_count := 0, we_last_triggered_at := Some completed,
                we_circuit_breaker_open_until := None\<rparr>
         else
           let value = value\<lparr>we_failure_count := we_failure_count value + 1,
                 we_last_failure_at := Some completed\<rparr>
           in if sint failure_threshold \<le> sint (we_failure_count value)
              then value\<lparr>we_circuit_breaker_open_until := Some (completed + seconds 3600)\<rparr>
              else value)
      in value\<lparr>we_updated_at := max (we_updated_at value) completed\<rparr>)"

definition record_webhook_attempt ::
  "string \<Rightarrow> string \<Rightarrow> bool \<Rightarrow> time \<Rightarrow> i32 \<Rightarrow> MemoryState \<Rightarrow> bool \<times> MemoryState" where
  "record_webhook_attempt i organization_id success completed failure_threshold m =
     (case map_of (nm_webhooks m) i of
        None \<Rightarrow> (False, m)
      | Some value \<Rightarrow>
          if we_organization_id value \<noteq> organization_id then (False, m)
          else (True, m\<lparr>nm_webhooks :=
                 hm_adjust i (attempt_recorded success completed failure_threshold) (nm_webhooks m)\<rparr>))"

definition save_webhook_delivery :: "WebhookDelivery \<Rightarrow> MemoryState \<Rightarrow> MemoryState" where
  "save_webhook_delivery d m = m\<lparr>nm_deliveries := hm_insert (wd_id d) d (nm_deliveries m)\<rparr>"

definition list_webhook_deliveries :: "string \<Rightarrow> MemoryState \<Rightarrow> WebhookDelivery list" where
  "list_webhook_deliveries webhook_id m =
     newest wd_created_at (filter (\<lambda>item. wd_webhook_id item = webhook_id) (map snd (nm_deliveries m)))"

section \<open>The outbox\<close>

definition enqueue_webhook_event ::
  "notify_lib \<Rightarrow> WebhookOutboxEvent \<Rightarrow> MemoryState \<Rightarrow> (RepositoryError + bool) \<times> MemoryState" where
  "enqueue_webhook_event nl event m =
     (case reject_private_record nl (outbox_event_json nl event) of
        Inl e \<Rightarrow> (Inl e, m)
      | Inr _ \<Rightarrow>
          if contains_key (ob_id event) (nm_outbox m) then (Inr False, m)
          else (Inr True, m\<lparr>nm_outbox := hm_insert (ob_id event) event (nm_outbox m)\<rparr>))"

definition expire_if_due :: "time \<Rightarrow> WebhookOutboxEvent \<Rightarrow> WebhookOutboxEvent" where
  "expire_if_due now event =
     (if ob_status event \<in> set [''pending'', ''retry'', ''delivering''] \<and> ob_expires_at event \<le> now
      then event\<lparr>ob_status := ''expired'', ob_payload := [], ob_lease_token := None,
             ob_lease_expires_at := None, ob_last_error_code := Some ''retention_expired''\<rparr>
      else event)"

definition is_due :: "time \<Rightarrow> WebhookOutboxEvent \<Rightarrow> bool" where
  "is_due now event =
     (now < ob_expires_at event
      \<and> (ob_status event \<in> set [''pending'', ''retry''] \<and> ob_next_attempt_at event \<le> now
         \<or> ob_status event = ''delivering''
           \<and> (case ob_lease_expires_at event of None \<Rightarrow> False | Some value \<Rightarrow> value \<le> now)))"

definition leased :: "string \<Rightarrow> time \<Rightarrow> WebhookOutboxEvent \<Rightarrow> WebhookOutboxEvent" where
  "leased token lease_expires_at event =
     event\<lparr>ob_status := ''delivering'', ob_attempt_count := ob_attempt_count event + 1,
       ob_lease_token := Some token, ob_lease_expires_at := Some lease_expires_at\<rparr>"

text \<open>The loop over the claimed events; the \<open>i\<close>-th one draws the token \<open>fresh i\<close>.\<close>

fun lease_each ::
  "third_party \<Rightarrow> (nat \<Rightarrow> uuid) \<Rightarrow> time \<Rightarrow> nat \<Rightarrow> (string \<times> WebhookOutboxEvent) list
   \<Rightarrow> WebhookOutboxEvent hash_map \<Rightarrow> WebhookOutboxEvent list \<times> WebhookOutboxEvent hash_map" where
  "lease_each tp fresh lease_expires_at i [] outbox = ([], outbox)"
| "lease_each tp fresh lease_expires_at i ((k, event) # due) outbox =
     (let event = leased (tp_uuid_show tp (fresh i)) lease_expires_at event;
          (claimed, outbox) =
            lease_each tp fresh lease_expires_at (Suc i) due (hm_adjust k (\<lambda>_. event) outbox)
      in (event # claimed, outbox))"

definition due_events ::
  "time \<Rightarrow> nat \<Rightarrow> WebhookOutboxEvent hash_map \<Rightarrow> (string \<times> WebhookOutboxEvent) list" where
  "due_events now limit outbox =
     take (max 1 (min 100 limit))
       (sort_key (\<lambda>(_, event). ob_created_at event) (filter (\<lambda>(_, event). is_due now event) outbox))"

definition claim_due_webhook_events ::
  "third_party \<Rightarrow> (nat \<Rightarrow> uuid) \<Rightarrow> time \<Rightarrow> time \<Rightarrow> nat \<Rightarrow> MemoryState
   \<Rightarrow> WebhookOutboxEvent list \<times> MemoryState" where
  "claim_due_webhook_events tp fresh now lease_expires_at limit m =
     (let outbox = hm_map (expire_if_due now) (nm_outbox m);
          (claimed, outbox) =
            lease_each tp fresh lease_expires_at 0 (due_events now limit outbox) outbox
      in (claimed, m\<lparr>nm_outbox := outbox\<rparr>))"

text \<open>The guard of both completions: the event is being delivered under this lease.\<close>

definition holds_lease :: "string \<Rightarrow> WebhookOutboxEvent \<Rightarrow> bool" where
  "holds_lease lease_token event =
     (ob_status event = ''delivering'' \<and> ob_lease_token event = Some lease_token)"

definition delivered_event :: "time \<Rightarrow> i32 \<Rightarrow> WebhookOutboxEvent \<Rightarrow> WebhookOutboxEvent" where
  "delivered_event delivered_at response_status_code event =
     event\<lparr>ob_status := ''delivered'', ob_payload := [], ob_delivered_at := Some delivered_at,
       ob_response_status_code := Some response_status_code, ob_lease_token := None,
       ob_lease_expires_at := None, ob_last_error_code := None\<rparr>"

definition mark_webhook_event_delivered ::
  "string \<Rightarrow> string \<Rightarrow> time \<Rightarrow> i32 \<Rightarrow> MemoryState \<Rightarrow> bool \<times> MemoryState" where
  "mark_webhook_event_delivered i lease_token delivered_at response_status_code m =
     (case map_of (nm_outbox m) i of
        None \<Rightarrow> (False, m)
      | Some event \<Rightarrow>
          if \<not> holds_lease lease_token event then (False, m)
          else (True, m\<lparr>nm_outbox :=
                 hm_adjust i (delivered_event delivered_at response_status_code) (nm_outbox m)\<rparr>))"

definition failed_event ::
  "time \<Rightarrow> bool \<Rightarrow> string \<Rightarrow> i32 option \<Rightarrow> WebhookOutboxEvent \<Rightarrow> WebhookOutboxEvent" where
  "failed_event next_attempt_at terminal error_code response_status_code event =
     (let event = event\<lparr>ob_status := (if terminal then ''dead_letter'' else ''retry''),
            ob_next_attempt_at := next_attempt_at, ob_lease_token := None,
            ob_lease_expires_at := None, ob_last_error_code := Some (take_chars 128 error_code),
            ob_response_status_code := response_status_code\<rparr>
      in if terminal then event\<lparr>ob_payload := []\<rparr> else event)"

definition mark_webhook_event_failed ::
  "string \<Rightarrow> string \<Rightarrow> time \<Rightarrow> bool \<Rightarrow> string \<Rightarrow> i32 option \<Rightarrow> MemoryState \<Rightarrow> bool \<times> MemoryState" where
  "mark_webhook_event_failed i lease_token next_attempt_at terminal error_code response_status_code m =
     (case map_of (nm_outbox m) i of
        None \<Rightarrow> (False, m)
      | Some event \<Rightarrow>
          if \<not> holds_lease lease_token event then (False, m)
          else (True, m\<lparr>nm_outbox :=
                 hm_adjust i (failed_event next_attempt_at terminal error_code response_status_code)
                   (nm_outbox m)\<rparr>))"

definition get_webhook_outbox_event :: "string \<Rightarrow> MemoryState \<Rightarrow> WebhookOutboxEvent option" where
  "get_webhook_outbox_event i m = map_of (nm_outbox m) i"

end
