(* ===== verification/Notification_Outbox.thy ===== *)
theory Notification_Outbox
  imports Notification_Store
begin

text \<open>
  The webhook outbox of \<open>repository.rs\<close> as a state machine. A step is one operation of the
  repository with any arguments, so a run is any interleaving of producers, workers and
  administrators. The invariant, the end of a delivery and the lease of a worker are stated over
  runs.
\<close>

section \<open>Claiming\<close>

lemma lease_each_other:
  "k \<notin> fst ` set due \<Longrightarrow> map_of (snd (lease_each tp fresh le i due ob)) k = map_of ob k"
  by (induction tp fresh le i due ob rule: lease_each.induct) (auto simp: Let_def split_beta)

lemma wf_lease_each [simp]: "wf_map (snd (lease_each tp fresh le i due ob)) = wf_map ob"
  by (induction tp fresh le i due ob rule: lease_each.induct) (auto simp: Let_def split_beta)

lemma lease_each_due:
  assumes "distinct (map fst due)" and "(k, e) \<in> set due" and "map_of ob k \<noteq> None"
  shows "\<exists>w. map_of (snd (lease_each tp fresh le i due ob)) k = Some (leased w le e)
    \<and> leased w le e \<in> set (fst (lease_each tp fresh le i due ob))"
  using assms
proof (induction tp fresh le i due ob rule: lease_each.induct)
  case (2 tp fresh le i k' e' due ob)
  show ?case
  proof (cases "k' = k")
    case True
    then have "e' = e" and "k \<notin> fst ` set due" using "2.prems"(1,2) by force+
    then show ?thesis using True "2.prems"(3) by (auto simp: Let_def split_beta lease_each_other)
  next
    case False
    then show ?thesis using 2 by (auto simp: Let_def split_beta)
  qed
qed simp

lemma lease_each_origin:
  "e' \<in> set (fst (lease_each tp fresh le i due ob)) \<Longrightarrow> \<exists>k e w. (k, e) \<in> set due \<and> e' = leased w le e"
  by (induction tp fresh le i due ob rule: lease_each.induct) (auto simp: Let_def split_beta)

lemma distinct_sort_keys: "distinct (map f (sort_key g xs)) \<longleftrightarrow> distinct (map f xs)"
  by (simp add: distinct_map)

lemma due_events_sound:
  assumes "wf_map ob"
  shows "distinct (map fst (due_events now limit ob))"
    and "\<And>k e. (k, e) \<in> set (due_events now limit ob) \<Longrightarrow> map_of ob k = Some e \<and> is_due now e"
proof -
  let ?due = "filter (\<lambda>(_, event). is_due now event) ob"
  have "distinct (map fst ?due)"
    using assms by (auto simp: wf_map_def intro: distinct_map_filter)
  then have "distinct (map fst (sort_key (\<lambda>(_, event). ob_created_at event) ?due))"
    by (simp only: distinct_sort_keys)
  then show "distinct (map fst (due_events now limit ob))"
    unfolding due_events_def take_map [symmetric] by (rule distinct_take)
  show "map_of ob k = Some e \<and> is_due now e" if "(k, e) \<in> set (due_events now limit ob)" for k e
  proof -
    from that have "(k, e) \<in> set ob" and "is_due now e"
      unfolding due_events_def by (auto dest: in_set_takeD)
    then show ?thesis using assms by (simp add: wf_map_def)
  qed
qed

text \<open>What a claim makes of one event.\<close>

definition claimed_to :: "time \<Rightarrow> time \<Rightarrow> WebhookOutboxEvent \<Rightarrow> WebhookOutboxEvent \<Rightarrow> bool" where
  "claimed_to now le e e' = (e' = expire_if_due now e \<or> is_due now e \<and> (\<exists>w. e' = leased w le e))"

lemma due_not_expired: "is_due now (expire_if_due now e) \<Longrightarrow> expire_if_due now e = e"
  by (auto simp: is_due_def expire_if_due_def split: if_splits)

lemma claim_event:
  assumes "wf_map (nm_outbox m)" and claim: "claim_due_webhook_events tp fresh now le limit m = (evs, m')"
  shows "map_of (nm_outbox m) k = None \<Longrightarrow> map_of (nm_outbox m') k = None"
    and "map_of (nm_outbox m) k = Some e \<Longrightarrow> \<exists>e'. map_of (nm_outbox m') k = Some e' \<and> claimed_to now le e e'"
    and "wf_map (nm_outbox m')" and "nm_outbox m' = ob \<Longrightarrow> m' = m\<lparr>nm_outbox := ob\<rparr>"
proof -
  let ?ob = "hm_map (expire_if_due now) (nm_outbox m)"
  let ?due = "due_events now limit ?ob"
  let ?ob' = "snd (lease_each tp fresh le 0 ?due ?ob)"
  have m': "m' = m\<lparr>nm_outbox := ?ob'\<rparr>"
    using claim by (auto simp: claim_due_webhook_events_def Let_def split_beta)
  have wf: "wf_map ?ob" using assms(1) by simp
  note due = due_events_sound(1) [OF wf, of now limit] due_events_sound(2) [OF wf, of _ _ now limit]
  show "wf_map (nm_outbox m')" using assms(1) by (simp add: m')
  show "nm_outbox m' = ob \<Longrightarrow> m' = m\<lparr>nm_outbox := ob\<rparr>" by (auto simp: m')
  show "map_of (nm_outbox m') k = None" if "map_of (nm_outbox m) k = None"
  proof -
    have "k \<notin> fst ` set ?due" using due(2) that by fastforce
    then show ?thesis using that by (simp add: m' lease_each_other)
  qed
  show "\<exists>e'. map_of (nm_outbox m') k = Some e' \<and> claimed_to now le e e'"
    if e: "map_of (nm_outbox m) k = Some e"
  proof (cases "k \<in> fst ` set ?due")
    case False
    then show ?thesis using e by (simp add: m' lease_each_other claimed_to_def)
  next
    case True
    then obtain e1 where in_due: "(k, e1) \<in> set ?due" by auto
    then have e1: "e1 = expire_if_due now e" and d: "is_due now e1" using due(2) [OF in_due] e by auto
    have "map_of ?ob k \<noteq> None" using e by simp
    from lease_each_due [OF due(1) in_due this, of tp fresh le 0]
    obtain w where "map_of ?ob' k = Some (leased w le e1)" by blast
    moreover have "e1 = e" using d due_not_expired by (simp add: e1)
    ultimately show ?thesis using d by (auto simp: m' claimed_to_def)
  qed
qed

text \<open>A claimed event is the stored one, and it was due.\<close>

lemma claim_result:
  assumes "wf_map (nm_outbox m)" and claim: "claim_due_webhook_events tp fresh now le limit m = (evs, m')"
    and "e' \<in> set evs"
  shows "\<exists>k e w. map_of (nm_outbox m) k = Some e \<and> is_due now e \<and> e' = leased w le e"
proof -
  let ?ob = "hm_map (expire_if_due now) (nm_outbox m)"
  have wf: "wf_map ?ob" using assms(1) by simp
  have "e' \<in> set (fst (lease_each tp fresh le 0 (due_events now limit ?ob) ?ob))"
    using claim assms(3) by (auto simp: claim_due_webhook_events_def Let_def split_beta)
  then obtain k e1 w where in_due: "(k, e1) \<in> set (due_events now limit ?ob)" and e': "e' = leased w le e1"
    by (blast dest: lease_each_origin)
  then have "map_of ?ob k = Some e1" and d: "is_due now e1"
    using due_events_sound(2) [OF wf] by blast+
  then obtain e where "map_of (nm_outbox m) k = Some e" "e1 = expire_if_due now e" by auto
  then show ?thesis using d due_not_expired e' by metis
qed

section \<open>Steps\<close>

datatype outbox_action =
    Enqueue WebhookOutboxEvent
  | Claim "nat \<Rightarrow> uuid" time time nat
  | Complete string string time i32
  | Fail string string time bool string "i32 option"
  | Configure

text \<open>An event as \<open>new_webhook_outbox_event\<close> makes it.\<close>

definition is_new :: "WebhookOutboxEvent \<Rightarrow> bool" where
  "is_new e = (ob_status e = ''pending'' \<and> ob_lease_token e = None \<and> ob_lease_expires_at e = None)"

text \<open>\<open>Configure\<close> is any operation on notifications, templates, subscriptions, webhooks or
  delivery records: it leaves the outbox alone.\<close>

inductive outbox_step ::
  "notify_lib \<Rightarrow> outbox_action \<Rightarrow> MemoryState \<Rightarrow> MemoryState \<Rightarrow> bool" for nl where
  enqueue: "is_new e \<Longrightarrow> enqueue_webhook_event nl e m = (r, m') \<Longrightarrow> outbox_step nl (Enqueue e) m m'"
| claim: "claim_due_webhook_events (nl_tp nl) fresh now le limit m = (evs, m')
    \<Longrightarrow> outbox_step nl (Claim fresh now le limit) m m'"
| complete: "mark_webhook_event_delivered i w t c m = (b, m') \<Longrightarrow> outbox_step nl (Complete i w t c) m m'"
| fail: "mark_webhook_event_failed i w t d x c m = (b, m') \<Longrightarrow> outbox_step nl (Fail i w t d x c) m m'"
| configure: "nm_outbox m' = nm_outbox m \<Longrightarrow> outbox_step nl Configure m m'"

inductive outbox_run ::
  "notify_lib \<Rightarrow> outbox_action list \<Rightarrow> MemoryState \<Rightarrow> MemoryState \<Rightarrow> bool" for nl where
  finish: "outbox_run nl [] m m"
| more: "outbox_step nl a m m' \<Longrightarrow> outbox_run nl as m' m'' \<Longrightarrow> outbox_run nl (a # as) m m''"

lemma outbox_run_append:
  "outbox_run nl as m m' \<Longrightarrow> outbox_run nl bs m' m'' \<Longrightarrow> outbox_run nl (as @ bs) m m''"
  by (induction rule: outbox_run.induct) (auto intro: outbox_run.intros)

lemma outbox_run_single: "outbox_step nl a m m' \<Longrightarrow> outbox_run nl [a] m m'"
  by (blast intro: outbox_run.intros)

text \<open>What one step makes of one event: the only moves of the delivery life cycle.\<close>

inductive event_move :: "outbox_action \<Rightarrow> WebhookOutboxEvent \<Rightarrow> WebhookOutboxEvent \<Rightarrow> bool" where
  stay: "event_move a e e"
| expire: "expire_if_due now e = e' \<Longrightarrow> event_move (Claim fresh now le limit) e e'"
| lease: "is_due now e \<Longrightarrow> leased w le e = e' \<Longrightarrow> event_move (Claim fresh now le limit) e e'"
| deliver: "holds_lease w e \<Longrightarrow> delivered_event t c e = e' \<Longrightarrow> event_move (Complete i w t c) e e'"
| fail: "holds_lease w e \<Longrightarrow> failed_event t d x c e = e' \<Longrightarrow> event_move (Fail i w t d x c) e e'"

inductive_cases event_moveE: "event_move a e e'"
inductive_cases outbox_stepE: "outbox_step nl a m m'"

lemma outbox_step_event:
  assumes "outbox_step nl a m m'" and "wf_map (nm_outbox m)" and e: "map_of (nm_outbox m) k = Some e"
  shows "\<exists>e'. map_of (nm_outbox m') k = Some e' \<and> event_move a e e'"
  using assms(1)
proof (cases rule: outbox_step.cases)
  case (enqueue e0 r)
  then have "map_of (nm_outbox m') k = Some e"
    using e by (auto simp: enqueue_webhook_event_def contains_key_def split: sum.splits if_splits)
  then show ?thesis by (blast intro: event_move.stay)
next
  case (claim fresh now le limit evs)
  then show ?thesis
    using claim_event(2) [OF assms(2) claim(2) e]
    by (auto simp: claimed_to_def intro: event_move.intros)
next
  case (complete i w t c b)
  then have "map_of (nm_outbox m') k = Some e
      \<or> holds_lease w e \<and> map_of (nm_outbox m') k = Some (delivered_event t c e)"
    using e by (auto simp: mark_webhook_event_delivered_def split: option.splits if_splits)
  then show ?thesis unfolding complete(1) by (blast intro: event_move.intros)
next
  case (fail i w t d x c b)
  then have "map_of (nm_outbox m') k = Some e
      \<or> holds_lease w e \<and> map_of (nm_outbox m') k = Some (failed_event t d x c e)"
    using e by (auto simp: mark_webhook_event_failed_def split: option.splits if_splits)
  then show ?thesis unfolding fail(1) by (blast intro: event_move.intros)
next
  case configure
  then show ?thesis using e by (auto intro: event_move.stay)
qed

text \<open>An event that a step brings in is new.\<close>

lemma outbox_step_new:
  assumes "outbox_step nl a m m'" and "wf_map (nm_outbox m)" and "map_of (nm_outbox m) k = None"
    and "map_of (nm_outbox m') k = Some e"
  shows "is_new e \<and> ob_id e = k"
  using assms
proof (cases rule: outbox_step.cases)
  case (enqueue e0 r)
  then show ?thesis
    using assms(3,4) by (auto simp: enqueue_webhook_event_def split: sum.splits if_splits)
next
  case (claim fresh now le limit evs)
  then show ?thesis using claim_event(1) [OF assms(2) claim(2) assms(3)] assms(4) by simp
next
  case (complete i w t c b)
  then show ?thesis
    using assms(3,4) by (auto simp: mark_webhook_event_delivered_def split: option.splits if_splits)
next
  case (fail i w t d x c b)
  then show ?thesis
    using assms(3,4) by (auto simp: mark_webhook_event_failed_def split: option.splits if_splits)
next
  case configure
  then show ?thesis using assms(3,4) by auto
qed

lemma outbox_step_wf:
  assumes "outbox_step nl a m m'" and "wf_map (nm_outbox m)"
  shows "wf_map (nm_outbox m')"
  using assms
proof (cases rule: outbox_step.cases)
  case (claim fresh now le limit evs)
  then show ?thesis using claim_event(3) [OF assms(2)] by blast
qed (auto simp: enqueue_webhook_event_def mark_webhook_event_delivered_def
    mark_webhook_event_failed_def split: sum.splits option.splits if_splits)

section \<open>The invariant\<close>

definition ENDED :: "string list" where
  "ENDED = [''delivered'', ''dead_letter'', ''expired'']"

definition event_ok :: "WebhookOutboxEvent \<Rightarrow> bool" where
  "event_ok e =
     (ob_status e \<in> set ([''pending'', ''retry'', ''delivering''] @ ENDED)
      \<and> (ob_status e = ''delivering'' \<longleftrightarrow> ob_lease_token e \<noteq> None)
      \<and> (ob_lease_token e \<noteq> None \<longleftrightarrow> ob_lease_expires_at e \<noteq> None)
      \<and> (ob_status e \<in> set ENDED \<longrightarrow> ob_payload e = []))"

definition outbox_ok :: "MemoryState \<Rightarrow> bool" where
  "outbox_ok m =
     (wf_map (nm_outbox m)
      \<and> (\<forall>k e. map_of (nm_outbox m) k = Some e \<longrightarrow> event_ok e \<and> ob_id e = k))"

lemma event_move_ok: "event_move a e e' \<Longrightarrow> event_ok e \<Longrightarrow> event_ok e' \<and> ob_id e' = ob_id e"
proof (induction rule: event_move.induct)
  case (expire now e e')
  then have "e' = e \<or> e' = e\<lparr>ob_status := ''expired'', ob_payload := [], ob_lease_token := None,
      ob_lease_expires_at := None, ob_last_error_code := Some ''retention_expired''\<rparr>"
    by (auto simp only: expire_if_due_def split: if_splits)
  then show ?case using expire(2) by (elim disjE) (simp, simp add: event_ok_def ENDED_def)
next
  case (lease now e w le e')
  show ?case unfolding lease(2) [symmetric] by (simp add: event_ok_def ENDED_def leased_def)
next
  case (deliver w e t c e')
  show ?case unfolding deliver(2) [symmetric] by (simp add: event_ok_def ENDED_def delivered_event_def)
next
  case (fail w e t d x c e')
  show ?case unfolding fail(2) [symmetric]
    by (cases d) (simp_all add: event_ok_def ENDED_def failed_event_def)
qed simp

lemma outbox_ok_step: "outbox_step nl a m m' \<Longrightarrow> outbox_ok m \<Longrightarrow> outbox_ok m'"
proof -
  assume step: "outbox_step nl a m m'" and ok: "outbox_ok m"
  then have wf: "wf_map (nm_outbox m)" by (simp add: outbox_ok_def)
  have "event_ok e' \<and> ob_id e' = k" if e': "map_of (nm_outbox m') k = Some e'" for k e'
  proof (cases "map_of (nm_outbox m) k")
    case None
    then show ?thesis
      using outbox_step_new [OF step wf None e'] by (auto simp: is_new_def event_ok_def ENDED_def)
  next
    case (Some e)
    then show ?thesis
      using outbox_step_event [OF step wf Some] e' ok event_move_ok by (fastforce simp: outbox_ok_def)
  qed
  then show "outbox_ok m'" using outbox_step_wf [OF step wf] by (simp add: outbox_ok_def)
qed

lemma outbox_ok_run: "outbox_run nl as m m' \<Longrightarrow> outbox_ok m \<Longrightarrow> outbox_ok m'"
  by (induction rule: outbox_run.induct) (auto intro: outbox_ok_step)

lemma outbox_ok_default: "outbox_ok (memory_default now)"
  by (simp add: outbox_ok_def memory_default_def wf_map_def)

section \<open>Ends and leases\<close>

lemma event_move_ended: "event_move a e e' \<Longrightarrow> ob_status e \<in> set ENDED \<Longrightarrow> e' = e"
  by (erule event_moveE) (auto simp: ENDED_def expire_if_due_def is_due_def holds_lease_def)

lemma ended_run:
  assumes "outbox_run nl as m m'" and "outbox_ok m" and "map_of (nm_outbox m) k = Some e"
    and "ob_status e \<in> set ENDED"
  shows "map_of (nm_outbox m') k = Some e"
  using assms
proof (induction rule: outbox_run.induct)
  case (more a m m' as m'')
  then have "map_of (nm_outbox m') k = Some e"
    using outbox_step_event [OF more.hyps(1), of k e] event_move_ended [of a e]
    by (auto simp: outbox_ok_def)
  then show ?case using more.IH outbox_ok_step [OF more.hyps(1)] more.prems by blast
qed simp

text \<open>What the others may do while a worker holds the lease of an event.\<close>

fun spares_lease :: "string \<Rightarrow> string \<Rightarrow> time \<Rightarrow> outbox_action \<Rightarrow> bool" where
  "spares_lease k w until (Claim fresh now le limit) = (now < until)"
| "spares_lease k w until (Complete i w' t c) = (i \<noteq> k \<or> w' \<noteq> w)"
| "spares_lease k w until (Fail i w' t d x c) = (i \<noteq> k \<or> w' \<noteq> w)"
| "spares_lease k w until _ = True"

lemma lease_step_kept:
  assumes step: "outbox_step nl a m m'" and ok: "outbox_ok m" and e: "map_of (nm_outbox m) k = Some e"
    and held: "holds_lease w e" "ob_lease_expires_at e = Some until"
    and others: "spares_lease k w (min until (ob_expires_at e)) a"
  shows "map_of (nm_outbox m') k = Some e"
  using step
proof (cases rule: outbox_step.cases)
  case (complete i w' t c b)
  then show ?thesis
    using e held others
    by (auto simp: mark_webhook_event_delivered_def holds_lease_def split: option.splits if_splits)
next
  case (fail i w' t d x c b)
  then show ?thesis
    using e held others
    by (auto simp: mark_webhook_event_failed_def holds_lease_def split: option.splits if_splits)
next
  case (claim fresh now le limit evs)
  have wf: "wf_map (nm_outbox m)" using ok by (simp add: outbox_ok_def)
  obtain e' where "map_of (nm_outbox m') k = Some e'" "claimed_to now le e e'"
    using claim_event(2) [OF wf claim(2) e] by blast
  moreover have "\<not> is_due now e" "expire_if_due now e = e"
    using held others claim(1) by (auto simp: is_due_def expire_if_due_def holds_lease_def)
  ultimately show ?thesis by (auto simp: claimed_to_def)
next
  case (enqueue e0 r)
  then show ?thesis
    using e by (auto simp: enqueue_webhook_event_def contains_key_def split: sum.splits if_splits)
next
  case configure
  then show ?thesis using e by simp
qed

lemma lease_run_kept:
  assumes "outbox_run nl as m m'" and "outbox_ok m" and "map_of (nm_outbox m) k = Some e"
    and "holds_lease w e" "ob_lease_expires_at e = Some until"
    and "list_all (spares_lease k w (min until (ob_expires_at e))) as"
  shows "map_of (nm_outbox m') k = Some e"
  using assms
proof (induction rule: outbox_run.induct)
  case (more a m m' as m'')
  then have "map_of (nm_outbox m') k = Some e"
    by (auto intro: lease_step_kept)
  then show ?case using more.IH outbox_ok_step [OF more.hyps(1)] more.prems by simp
qed simp

end
