(* ===== verification/Notification_Delivery.thy ===== *)
theory Notification_Delivery
  imports Notification_Store Notification_Webhook Notification_Retry
begin

text \<open>
  \<open>rust/services/notification/src/delivery.rs\<close>: an attempt to deliver to a webhook, the direct
  delivery of a notification, and the worker that processes the outbox. The repository is any
  record of operations; \<open>memory_repository\<close> is the one of \<open>Notification_Store\<close>. The network, the
  environment and the secret envelope are the record \<open>delivery_env\<close>.
\<close>

record 's notification_repository =
  nr_save_notification :: "Notification \<Rightarrow> 's \<Rightarrow> (RepositoryError + unit) \<times> 's"
  nr_get_notification :: "string \<Rightarrow> 's \<Rightarrow> RepositoryError + Notification option"
  nr_get_template :: "string \<Rightarrow> 's \<Rightarrow> RepositoryError + NotificationTemplate option"
  nr_save_subscription :: "Subscription \<Rightarrow> 's \<Rightarrow> (RepositoryError + unit) \<times> 's"
  nr_get_subscription :: "string \<Rightarrow> 's \<Rightarrow> RepositoryError + Subscription option"
  nr_list_subscriptions :: "string option \<Rightarrow> 's \<Rightarrow> RepositoryError + Subscription list"
  nr_save_webhook :: "WebhookEndpoint \<Rightarrow> 's \<Rightarrow> (RepositoryError + unit) \<times> 's"
  nr_get_webhook :: "string \<Rightarrow> 's \<Rightarrow> RepositoryError + WebhookEndpoint option"
  nr_record_webhook_attempt ::
    "string \<Rightarrow> string \<Rightarrow> bool \<Rightarrow> time \<Rightarrow> i32 \<Rightarrow> 's \<Rightarrow> (RepositoryError + bool) \<times> 's"
  nr_save_webhook_delivery :: "WebhookDelivery \<Rightarrow> 's \<Rightarrow> (RepositoryError + unit) \<times> 's"
  nr_enqueue_webhook_event :: "WebhookOutboxEvent \<Rightarrow> 's \<Rightarrow> (RepositoryError + bool) \<times> 's"
  nr_claim_due_webhook_events ::
    "(nat \<Rightarrow> uuid) \<Rightarrow> time \<Rightarrow> time \<Rightarrow> nat \<Rightarrow> 's \<Rightarrow> (RepositoryError + WebhookOutboxEvent list) \<times> 's"
  nr_mark_webhook_event_delivered ::
    "string \<Rightarrow> string \<Rightarrow> time \<Rightarrow> i32 \<Rightarrow> 's \<Rightarrow> (RepositoryError + bool) \<times> 's"
  nr_mark_webhook_event_failed ::
    "string \<Rightarrow> string \<Rightarrow> time \<Rightarrow> bool \<Rightarrow> string \<Rightarrow> i32 option \<Rightarrow> 's \<Rightarrow> (RepositoryError + bool) \<times> 's"

definition memory_repository :: "notify_lib \<Rightarrow> MemoryState notification_repository" where
  "memory_repository nl =
     \<lparr> nr_save_notification = save_notification nl,
       nr_get_notification = (\<lambda>i m. Inr (get_notification i m)),
       nr_get_template = (\<lambda>i m. Inr (get_template i m)),
       nr_save_subscription = save_subscription nl,
       nr_get_subscription = (\<lambda>i m. Inr (get_subscription i m)),
       nr_list_subscriptions = (\<lambda>o' m. Inr (list_subscriptions o' m)),
       nr_save_webhook = (\<lambda>w m. (Inr (), save_webhook w m)),
       nr_get_webhook = (\<lambda>i m. Inr (get_webhook i m)),
       nr_record_webhook_attempt = (\<lambda>i o' ok t n m. apfst Inr (record_webhook_attempt i o' ok t n m)),
       nr_save_webhook_delivery = (\<lambda>d m. (Inr (), save_webhook_delivery d m)),
       nr_enqueue_webhook_event = enqueue_webhook_event nl,
       nr_claim_due_webhook_events =
         (\<lambda>fresh t l n m. apfst Inr (claim_due_webhook_events (nl_tp nl) fresh t l n m)),
       nr_mark_webhook_event_delivered =
         (\<lambda>i w t c m. apfst Inr (mark_webhook_event_delivered i w t c m)),
       nr_mark_webhook_event_failed =
         (\<lambda>i w t d e c m. apfst Inr (mark_webhook_event_failed i w t d e c m)) \<rparr>"

section \<open>Configuration\<close>

definition bounded :: "(string \<Rightarrow> string option) \<Rightarrow> string \<Rightarrow> int \<Rightarrow> int \<Rightarrow> int \<Rightarrow> string + int" where
  "bounded env name fallback minimum maximum =
     bind_result
       (case env name of
          None \<Rightarrow> Inr fallback
        | Some value \<Rightarrow>
            if blank value then Inr fallback
            else ok_or (name @ '' must be an integer'') (parse_i64 value)) (\<lambda>value.
     if minimum \<le> value \<and> value \<le> maximum then Inr value
     else Inl (name @ '' must be between '' @ show_nat (nat minimum) @ '' and ''
       @ show_nat (nat maximum)))"

definition outbox_retention_seconds :: "(string \<Rightarrow> string option) \<Rightarrow> string + int" where
  "outbox_retention_seconds env =
     bounded env ''NOTIFICATION_WEBHOOK_OUTBOX_RETENTION_SECONDS'' 86400 60 604800"

definition outbox_lease_seconds :: "(string \<Rightarrow> string option) \<Rightarrow> string + int" where
  "outbox_lease_seconds env = bounded env ''NOTIFICATION_WEBHOOK_OUTBOX_LEASE_SECONDS'' 30 5 300"

definition outbox_poll_milliseconds :: "(string \<Rightarrow> string option) \<Rightarrow> string + int" where
  "outbox_poll_milliseconds env =
     bounded env ''NOTIFICATION_WEBHOOK_OUTBOX_POLL_MILLISECONDS'' 1000 100 60000"

definition outbox_batch_size :: "(string \<Rightarrow> string option) \<Rightarrow> string + int" where
  "outbox_batch_size env = bounded env ''NOTIFICATION_WEBHOOK_OUTBOX_BATCH_SIZE'' 25 1 100"

text \<open>\<open>unwrap_or\<close> of a configuration.\<close>

definition or_default :: "int \<Rightarrow> string + int \<Rightarrow> int" where
  "or_default d r = (case r of Inl _ \<Rightarrow> d | Inr v \<Rightarrow> v)"

section \<open>One attempt\<close>

record WebhookAttempt =
  wa_success :: bool
  wa_retryable :: bool
  wa_error_code :: "string option"
  wa_response_status_code :: "i32 option"
  wa_response_time_ms :: i32

definition attempt_failed :: "string \<Rightarrow> bool \<Rightarrow> WebhookAttempt" where
  "attempt_failed code retryable =
     \<lparr> wa_success = False, wa_retryable = retryable, wa_error_code = Some code,
       wa_response_status_code = None, wa_response_time_ms = 0 \<rparr>"

text \<open>A request as it is sent, and the status and the milliseconds of its response.\<close>

record http_request =
  hq_url :: url
  hq_addresses :: "(ip_addr \<times> 16 word) list"
  hq_payload :: jmap
  hq_headers :: "(string \<times> string) list"

record delivery_env =
  de_lib :: notify_lib
  de_webhook_lib :: webhook_lib
  de_var :: "string \<Rightarrow> string option"
  de_read_file :: "string \<Rightarrow> string option"
  de_pinned_client :: "string \<Rightarrow> (ip_addr \<times> 16 word) list \<Rightarrow> bool"
  de_send :: "http_request \<Rightarrow> (nat \<times> nat) option"
  de_unwrap :: "string \<Rightarrow> string \<Rightarrow> string \<Rightarrow> WebhookError + string"

definition retryable_status :: "nat \<Rightarrow> bool" where
  "retryable_status code = (500 \<le> code \<and> code < 600 \<or> code \<in> set [408, 425, 429])"

definition payload_header :: "jmap \<Rightarrow> string \<times> string \<Rightarrow> (string \<times> string) list" where
  "payload_header payload hk =
     (case hk of (header, key) \<Rightarrow>
        (case str_member payload key of None \<Rightarrow> [] | Some value \<Rightarrow> [(header, value)]))"

definition request_headers ::
  "notify_lib \<Rightarrow> webhook_lib \<Rightarrow> string \<Rightarrow> string \<Rightarrow> i32 \<Rightarrow> jmap \<Rightarrow> (string \<times> string) list" where
  "request_headers nl wl secret delivery_id attempt payload =
     [(''X-MIP-Signature'', canonical_signature nl wl secret payload),
      (''X-MIP-Delivery-Id'', delivery_id), (''X-MIP-Delivery-Attempt'', show_i32 attempt)]
     @ concat (map (payload_header payload)
         [(''X-MIP-Event'', ''type''), (''X-MIP-Event-Id'', ''id''), (''X-MIP-Timestamp'', ''timestamp'')])
     @ (case str_member payload ''event_type'' of
          None \<Rightarrow> []
        | Some event_type \<Rightarrow>
            (''X-MIP-Event-Type'', event_type)
            # payload_header payload (''X-MIP-Notification-ID'', ''id''))"

definition response_outcome :: "nat \<Rightarrow> nat \<Rightarrow> WebhookAttempt" where
  "response_outcome status millis =
     (let elapsed = (if millis < 2 ^ 31 then of_nat millis else 2 ^ 31 - 1 :: i32);
          code = of_nat status :: i32
      in if 200 \<le> status \<and> status < 300
         then \<lparr> wa_success = True, wa_retryable = False, wa_error_code = None,
                wa_response_status_code = Some code, wa_response_time_ms = elapsed \<rparr>
         else if 300 \<le> status \<and> status < 400
         then \<lparr> wa_success = False, wa_retryable = False,
                wa_error_code = Some ''WEBHOOK_REDIRECT_REJECTED'',
                wa_response_status_code = Some code, wa_response_time_ms = elapsed \<rparr>
         else \<lparr> wa_success = False, wa_retryable = retryable_status status,
                wa_error_code = Some (''HTTP_'' @ show_i32 code),
                wa_response_status_code = Some code, wa_response_time_ms = elapsed \<rparr>)"

definition attempt_webhook ::
  "delivery_env \<Rightarrow> jmap \<Rightarrow> string \<Rightarrow> string \<Rightarrow> string \<Rightarrow> i32 \<Rightarrow> WebhookAttempt" where
  "attempt_webhook de payload target secret delivery_id attempt =
     (if \<not> valid_webhook_signing_secret secret
      then attempt_failed ''WEBHOOK_SIGNING_UNAVAILABLE'' False
      else (case resolve_webhook_destination (de_webhook_lib de) target of
          Inl e \<Rightarrow> attempt_failed (webhook_error_code e) (webhook_error_retryable e)
        | Inr (destination, addresses) \<Rightarrow>
            if \<not> de_pinned_client de (vu_hostname destination) addresses
            then attempt_failed ''WEBHOOK_DESTINATION_UNAVAILABLE'' True
            else (case de_send de
                \<lparr> hq_url = vu_original destination, hq_addresses = addresses, hq_payload = payload,
                  hq_headers = request_headers (de_lib de) (de_webhook_lib de) secret delivery_id
                    attempt payload \<rparr> of
                None \<Rightarrow> attempt_failed ''WEBHOOK_DELIVERY_FAILED'' True
              | Some (status, millis) \<Rightarrow> response_outcome status millis)))"

section \<open>Direct delivery\<close>

definition delivery_result :: "Notification \<Rightarrow> ChannelType \<Rightarrow> time \<Rightarrow> string \<Rightarrow> DeliveryResult" where
  "delivery_result n channel now code =
     \<lparr> dr_notification_id = nf_id n, dr_channel = channel, dr_success = False,
       dr_attempted_at = now, dr_delivered_at = None, dr_error_code = Some code,
       dr_should_retry = Some False, dr_retry_after = None \<rparr>"

definition notification_payload :: "notify_lib \<Rightarrow> Notification \<Rightarrow> jmap" where
  "notification_payload nl n =
     [(''id'', JStr (nf_id n)), (''title'', JStr (nf_subject n)), (''body'', JStr (nf_body n)),
      (''data'', JObj (nf_data n)), (''event_type'', JStr (nf_event_type n)),
      (''priority'', JStr (priority_text (nf_priority n))),
      (''correlation_id'', json_opt_str (nf_correlation_id n)),
      (''created_at'', JStr (tp_rfc3339 (nl_tp nl) (nf_created_at n)))]"

text \<open>The attempts \<open>attempt..=max_attempts\<close>; the sleeps between them are not modelled.\<close>

fun direct_attempts :: "(i32 \<Rightarrow> WebhookAttempt) \<Rightarrow> i32 \<Rightarrow> nat \<Rightarrow> WebhookAttempt \<Rightarrow> WebhookAttempt" where
  "direct_attempts run attempt 0 outcome = outcome"
| "direct_attempts run attempt (Suc left) outcome =
     (let outcome = run attempt
      in if wa_success outcome \<or> \<not> wa_retryable outcome then outcome
         else direct_attempts run (attempt + 1) left outcome)"

definition endpoint_result ::
  "delivery_env \<Rightarrow> Notification \<Rightarrow> time \<Rightarrow> time \<Rightarrow> string \<Rightarrow> string \<Rightarrow> DeliveryResult" where
  "endpoint_result de n now finished secret endpoint =
     (let max_attempts = or_default 3 (bounded (de_var de) ''DIRECT_WEBHOOK_MAX_RETRIES'' 3 1 10);
          outcome = direct_attempts
            (attempt_webhook de (notification_payload (de_lib de) n) endpoint secret (nf_id n))
            1 (nat max_attempts) (attempt_failed ''WEBHOOK_DELIVERY_FAILED'' False)
      in \<lparr> dr_notification_id = nf_id n, dr_channel = Webhook, dr_success = wa_success outcome,
           dr_attempted_at = now,
           dr_delivered_at = (if wa_success outcome then Some finished else None),
           dr_error_code = wa_error_code outcome, dr_should_retry = Some False,
           dr_retry_after = None \<rparr>)"

definition adapter_error :: "NotificationTarget \<Rightarrow> ChannelType \<Rightarrow> string" where
  "adapter_error target channel =
     (case channel of
        Email \<Rightarrow> if nt_email_addresses target = [] then ''NO_EMAIL_TARGETS'' else ''EMAIL_ADAPTER_UNAVAILABLE''
      | _ \<Rightarrow>
          if nt_device_tokens target = [] \<and> nt_user_id target = None
             \<and> nt_organization_id target = None
          then ''NO_DEVICE_TARGETS''
          else (case channel of
                  Fcm \<Rightarrow> ''FCM_ADAPTER_UNAVAILABLE''
                | Sse \<Rightarrow> ''SSE_ADAPTER_UNAVAILABLE''
                | _ \<Rightarrow> ''SMS_ADAPTER_UNAVAILABLE''))"

definition channel_results ::
  "delivery_env \<Rightarrow> Notification \<Rightarrow> NotificationTarget \<Rightarrow> time \<Rightarrow> time \<Rightarrow> ChannelType \<Rightarrow> DeliveryResult list" where
  "channel_results de n target now finished channel =
     (if channel = Webhook then
        if nt_webhook_endpoints target = [] then [delivery_result n channel now ''NO_WEBHOOK_TARGETS'']
        else (case load_direct_webhook_signing_secret (de_var de) (de_read_file de) of
            None \<Rightarrow> map (\<lambda>_. delivery_result n channel now ''WEBHOOK_SIGNING_UNAVAILABLE'')
                      (nt_webhook_endpoints target)
          | Some secret \<Rightarrow> map (endpoint_result de n now finished secret) (nt_webhook_endpoints target))
      else [delivery_result n channel now (adapter_error target channel)])"

definition deliver_notification ::
  "delivery_env \<Rightarrow> Notification \<Rightarrow> time \<Rightarrow> time \<Rightarrow> DeliveryResult list" where
  "deliver_notification de n now finished =
     (case nf_target n of
        None \<Rightarrow> []
      | Some target \<Rightarrow> concat (map (channel_results de n target now finished) (nt_channels target)))"

section \<open>The outbox worker\<close>

text \<open>\<open>match_event_patterns\<close> of \<open>service.rs\<close>.\<close>

definition match_event_patterns :: "string list \<Rightarrow> string \<Rightarrow> bool" where
  "match_event_patterns patterns event_type =
     (let category = (case split_once (CHR ''.'') event_type of
            None \<Rightarrow> event_type | Some (value, _) \<Rightarrow> value)
      in \<exists>pattern \<in> set patterns.
           pattern = ''*'' \<or> pattern = event_type \<or> strip_suffix ''.*'' pattern = Some category)"

definition valid_payload :: "WebhookOutboxEvent \<Rightarrow> bool" where
  "valid_payload event =
     (str_member (ob_payload event) ''id'' = Some (ob_event_id event)
      \<and> str_member (ob_payload event) ''type'' = Some (ob_event_type event)
      \<and> str_member (ob_payload event) ''organization_id'' = Some (ob_organization_id event)
      \<and> str_member (ob_payload event) ''timestamp'' \<noteq> None)"

definition subscription_invalid :: "WebhookOutboxEvent \<Rightarrow> Subscription \<Rightarrow> bool" where
  "subscription_invalid event value =
     (\<not> sb_enabled value \<or> sb_organization_id value \<noteq> ob_organization_id event
      \<or> sb_delivery_target_id value \<noteq> Some (ob_webhook_id event)
      \<or> \<not> match_event_patterns (sb_event_types value) (ob_event_type event))"

definition endpoint_invalid :: "bool \<Rightarrow> WebhookOutboxEvent \<Rightarrow> WebhookEndpoint \<Rightarrow> bool" where
  "endpoint_invalid test_delivery event value =
     (\<not> we_enabled value \<or> we_organization_id value \<noteq> ob_organization_id event
      \<or> \<not> test_delivery \<and> we_event_types value \<noteq> []
        \<and> \<not> match_event_patterns (we_event_types value) (ob_event_type event))"

definition signing_secret :: "delivery_env \<Rightarrow> WebhookEndpoint \<Rightarrow> WebhookError + string" where
  "signing_secret de value =
     (case we_secret_envelope value of
        Some ciphertext \<Rightarrow> de_unwrap de (we_organization_id value) (we_id value) ciphertext
      | None \<Rightarrow>
          if valid_webhook_signing_secret (we_secret value) then Inr (we_secret value)
          else Inl (InvalidEnvelope ''Webhook signing secret is unavailable''))"

text \<open>The outcome of an event, whether the network was used, and the open circuit if any.\<close>

definition event_outcome ::
  "delivery_env \<Rightarrow> WebhookOutboxEvent \<Rightarrow> Subscription option \<Rightarrow> WebhookEndpoint option \<Rightarrow> time
   \<Rightarrow> WebhookAttempt \<times> bool \<times> time option" where
  "event_outcome de event subscription webhook claimed_at =
     (let test_delivery = is_webhook_test_event (nl_tp (de_lib de)) event
      in if \<not> valid_payload event then (attempt_failed ''WEBHOOK_PAYLOAD_INVALID'' False, False, None)
         else if \<not> test_delivery \<and> subscription = None
         then (attempt_failed ''WEBHOOK_SUBSCRIPTION_MISSING'' False, False, None)
         else if \<not> test_delivery
              \<and> (case subscription of None \<Rightarrow> False | Some value \<Rightarrow> subscription_invalid event value)
         then (attempt_failed ''WEBHOOK_SUBSCRIPTION_INVALID'' False, False, None)
         else (case webhook of
             None \<Rightarrow> (attempt_failed ''WEBHOOK_ENDPOINT_MISSING'' False, False, None)
           | Some value \<Rightarrow>
               if endpoint_invalid test_delivery event value
               then (attempt_failed ''WEBHOOK_ENDPOINT_INVALID'' False, False, None)
               else if (case we_circuit_breaker_open_until value of
                          None \<Rightarrow> False | Some until \<Rightarrow> claimed_at < until)
               then (attempt_failed ''WEBHOOK_CIRCUIT_OPEN'' True, False, we_circuit_breaker_open_until value)
               else (case signing_secret de value of
                   Inr secret \<Rightarrow>
                     (attempt_webhook de (ob_payload event) (we_url value) secret (ob_id event)
                        (ob_attempt_count event), True, None)
                 | Inl (InvalidEnvelope _) \<Rightarrow>
                     (attempt_failed (if we_secret_envelope value \<noteq> None
                        then ''WEBHOOK_SECRET_ENVELOPE_INVALID'' else ''WEBHOOK_SIGNING_UNAVAILABLE'') False,
                      False, None)
                 | Inl _ \<Rightarrow> (attempt_failed ''WEBHOOK_SECRET_KMS_UNAVAILABLE'' True, False, None))))"

definition outcome_terminal :: "WebhookOutboxEvent \<Rightarrow> WebhookAttempt \<Rightarrow> time option \<Rightarrow> bool" where
  "outcome_terminal event outcome circuit_until =
     (\<not> wa_retryable outcome
      \<or> (circuit_until = None \<and> sint (ob_max_attempts event) \<le> sint (ob_attempt_count event)))"

definition next_attempt :: "notify_lib \<Rightarrow> WebhookOutboxEvent \<Rightarrow> time \<Rightarrow> time option \<Rightarrow> time" where
  "next_attempt nl event completed circuit_until =
     (let next = completed + webhook_retry_delay nl event
      in case circuit_until of
           None \<Rightarrow> next | Some until \<Rightarrow> if next < until then until else next)"

text \<open>The completion under the lease: \<open>None\<close> when the store fails.\<close>

definition mark_outcome ::
  "'s notification_repository \<Rightarrow> notify_lib \<Rightarrow> WebhookOutboxEvent \<Rightarrow> string \<Rightarrow> WebhookAttempt
   \<Rightarrow> time option \<Rightarrow> time \<Rightarrow> 's \<Rightarrow> bool option \<times> 's" where
  "mark_outcome rp nl event lease outcome circuit_until completed s =
     (let (r, s) =
        (if wa_success outcome
         then nr_mark_webhook_event_delivered rp (ob_id event) lease completed
                (case wa_response_status_code outcome of None \<Rightarrow> 200 | Some c \<Rightarrow> c) s
         else nr_mark_webhook_event_failed rp (ob_id event) lease
                (next_attempt nl event completed circuit_until)
                (outcome_terminal event outcome circuit_until)
                (case wa_error_code outcome of None \<Rightarrow> ''WEBHOOK_DELIVERY_FAILED'' | Some c \<Rightarrow> c)
                (wa_response_status_code outcome) s)
      in (case r of Inl _ \<Rightarrow> None | Inr marked \<Rightarrow> Some marked, s))"

definition delivery_record :: "WebhookOutboxEvent \<Rightarrow> WebhookAttempt \<Rightarrow> WebhookDelivery" where
  "delivery_record event outcome =
     \<lparr> wd_id = ob_id event, wd_organization_id = ob_organization_id event,
       wd_webhook_id = ob_webhook_id event, wd_subscription_id = Some (ob_subscription_id event),
       wd_event_id = ob_event_id event, wd_event_type = ob_event_type event,
       wd_correlation_id = str_member (ob_payload event) ''correlation_id'',
       wd_success = wa_success outcome,
       wd_response_status_code = wa_response_status_code outcome,
       wd_error_message = wa_error_code outcome,
       wd_retry_count = (if sint (ob_attempt_count event - 1) < 0 then 0 else ob_attempt_count event - 1),
       wd_response_time_ms = Some (wa_response_time_ms outcome),
       wd_created_at = ob_created_at event \<rparr>"

text \<open>A read of the repository whose error counts as absence.\<close>

definition read_or_none :: "'e + 'a option \<Rightarrow> 'a option" where
  "read_or_none r = (case r of Inl _ \<Rightarrow> None | Inr x \<Rightarrow> x)"

text \<open>
  A pass runs its deliveries as concurrent tasks. A task is suspended at every call of the
  repository, so the calls of several tasks interleave; each state below is a task before its next
  call. The clock is read when the outcome is known, so every task completes at its own instant.
\<close>

datatype delivery_task =
    Spawned WebhookOutboxEvent
  | Subscribed WebhookOutboxEvent string "Subscription option"
  | Located WebhookOutboxEvent string "Subscription option" "WebhookEndpoint option"
  | Marked WebhookOutboxEvent "WebhookEndpoint option" WebhookAttempt bool time string
  | Recorded WebhookOutboxEvent "WebhookEndpoint option" WebhookAttempt string
  | Joined "string option"

definition record_attempt ::
  "'s notification_repository \<Rightarrow> delivery_env \<Rightarrow> WebhookOutboxEvent \<Rightarrow> WebhookAttempt \<Rightarrow> bool \<Rightarrow> time
   \<Rightarrow> 's \<Rightarrow> 's" where
  "record_attempt rp de event outcome attempted completed s =
     (if attempted
      then snd (nr_record_webhook_attempt rp (ob_webhook_id event) (ob_organization_id event)
             (wa_success outcome) completed
             (of_int (or_default 5 (bounded (de_var de) ''WEBHOOK_CIRCUIT_BREAKER_THRESHOLD'' 5 1 100))) s)
      else s)"

definition save_delivery ::
  "'s notification_repository \<Rightarrow> WebhookOutboxEvent \<Rightarrow> WebhookEndpoint option \<Rightarrow> WebhookAttempt \<Rightarrow> 's \<Rightarrow> 's" where
  "save_delivery rp event webhook outcome s =
     (if is_none_or webhook (\<lambda>value. we_organization_id value = ob_organization_id event)
      then snd (nr_save_webhook_delivery rp (delivery_record event outcome) s) else s)"

definition outcome_word :: "WebhookOutboxEvent \<Rightarrow> WebhookAttempt \<Rightarrow> time option \<Rightarrow> string" where
  "outcome_word event outcome circuit_until =
     (if wa_success outcome then ''delivered''
      else if outcome_terminal event outcome circuit_until then ''dead''
      else ''retried'')"

fun task_step ::
  "'s notification_repository \<Rightarrow> delivery_env \<Rightarrow> time \<Rightarrow> time \<Rightarrow> delivery_task \<Rightarrow> 's
   \<Rightarrow> delivery_task \<times> 's" where
  "task_step rp de claimed_at clock (Spawned event) s =
     (case ob_lease_token event of
        None \<Rightarrow> (Joined None, s)
      | Some lease \<Rightarrow>
          (Subscribed event lease (read_or_none (nr_get_subscription rp (ob_subscription_id event) s)), s))"
| "task_step rp de claimed_at clock (Subscribed event lease subscription) s =
     (Located event lease subscription (read_or_none (nr_get_webhook rp (ob_webhook_id event) s)), s)"
| "task_step rp de claimed_at clock (Located event lease subscription webhook) s =
     (let (outcome, attempted, circuit_until) = event_outcome de event subscription webhook claimed_at;
          (marked, s) = mark_outcome rp (de_lib de) event lease outcome circuit_until clock s
      in if marked \<noteq> Some True then (Joined None, s)
         else (Marked event webhook outcome attempted clock (outcome_word event outcome circuit_until), s))"
| "task_step rp de claimed_at clock (Marked event webhook outcome attempted completed word) s =
     (Recorded event webhook outcome word, record_attempt rp de event outcome attempted completed s)"
| "task_step rp de claimed_at clock (Recorded event webhook outcome word) s =
     (Joined (Some word), save_delivery rp event webhook outcome s)"
| "task_step rp de claimed_at clock (Joined result) s = (Joined result, s)"

text \<open>
  The runtime runs the tasks by some schedule: which task moves next, and what its clock shows.
  The pass waits for all of them, so after the given schedule the tasks not yet joined are run to
  their end; a task has at most five steps.
\<close>

fun run_tasks ::
  "'s notification_repository \<Rightarrow> delivery_env \<Rightarrow> time \<Rightarrow> (nat \<times> time) list \<Rightarrow> delivery_task list \<Rightarrow> 's
   \<Rightarrow> delivery_task list \<times> 's" where
  "run_tasks rp de claimed_at [] tasks s = (tasks, s)"
| "run_tasks rp de claimed_at ((i, clock) # schedule) tasks s =
     (if i < length tasks
      then let (task, s) = task_step rp de claimed_at clock (tasks ! i) s
           in run_tasks rp de claimed_at schedule (tasks[i := task]) s
      else run_tasks rp de claimed_at schedule tasks s)"

definition to_the_end :: "nat \<Rightarrow> time \<Rightarrow> (nat \<times> time) list" where
  "to_the_end n clock = concat (map (\<lambda>i. replicate 5 (i, clock)) [0..<n])"

definition join_result :: "delivery_task \<Rightarrow> string option" where
  "join_result task = (case task of Joined result \<Rightarrow> result | _ \<Rightarrow> None)"

definition process_all ::
  "'s notification_repository \<Rightarrow> delivery_env \<Rightarrow> time \<Rightarrow> (nat \<times> time) list \<Rightarrow> time
   \<Rightarrow> WebhookOutboxEvent list \<Rightarrow> 's \<Rightarrow> string option list \<times> 's" where
  "process_all rp de claimed_at schedule last_clock events s =
     (let (tasks, s) = run_tasks rp de claimed_at (schedule @ to_the_end (length events) last_clock)
                         (map Spawned events) s
      in (map join_result tasks, s))"

text \<open>A delivery whose task no other interrupts.\<close>

definition process_outbox_event ::
  "'s notification_repository \<Rightarrow> delivery_env \<Rightarrow> WebhookOutboxEvent \<Rightarrow> time \<Rightarrow> time \<Rightarrow> 's
   \<Rightarrow> string option \<times> 's" where
  "process_outbox_event rp de event claimed_at completed s =
     (case ob_lease_token event of
        None \<Rightarrow> (None, s)
      | Some lease \<Rightarrow>
          let subscription = read_or_none (nr_get_subscription rp (ob_subscription_id event) s);
              webhook = read_or_none (nr_get_webhook rp (ob_webhook_id event) s);
              (outcome, attempted, circuit_until) =
                event_outcome de event subscription webhook claimed_at;
              (marked, s) = mark_outcome rp (de_lib de) event lease outcome circuit_until completed s
          in if marked \<noteq> Some True then (None, s)
             else (Some (outcome_word event outcome circuit_until),
                   save_delivery rp event webhook outcome
                     (record_attempt rp de event outcome attempted completed s)))"

definition tally :: "string \<Rightarrow> string option list \<Rightarrow> json" where
  "tally word results = json_of_int (int (length (filter (\<lambda>r. r = Some word) results)))"

definition repository_error_text :: "RepositoryError \<Rightarrow> string" where
  "repository_error_text e = (case e of
     StorageUnavailable text \<Rightarrow> ''notification storage is unavailable: '' @ text
   | StorageInvalid text \<Rightarrow> ''notification storage rejected invalid state: '' @ text)"

definition process_due ::
  "'s notification_repository \<Rightarrow> delivery_env \<Rightarrow> (nat \<Rightarrow> uuid) \<Rightarrow> time \<Rightarrow> (nat \<times> time) list \<Rightarrow> time
   \<Rightarrow> 's \<Rightarrow> (string + jmap) \<times> 's" where
  "process_due rp de fresh now schedule last_clock s =
     (case outbox_lease_seconds (de_var de) of
        Inl e \<Rightarrow> (Inl e, s)
      | Inr lease \<Rightarrow>
          (case outbox_batch_size (de_var de) of
             Inl e \<Rightarrow> (Inl e, s)
           | Inr batch \<Rightarrow>
               (case nr_claim_due_webhook_events rp fresh now (now + seconds lease) (nat batch) s of
                  (Inl e, s) \<Rightarrow> (Inl (repository_error_text e), s)
                | (Inr events, s) \<Rightarrow>
                    let (results, s) = process_all rp de now schedule last_clock events s
                    in (Inr [(''claimed'', json_of_int (int (length events))),
                             (''delivered'', tally ''delivered'' results),
                             (''retried'', tally ''retried'' results),
                             (''dead'', tally ''dead'' results)], s))))"

end
