(* ===== verification/Notification_Service.thy ===== *)
theory Notification_Service
  imports Notification_Delivery Notification_Payload
begin

text \<open>
  \<open>rust/services/notification/src/service.rs\<close>: sending a notification, the administration of
  webhooks and subscriptions, and the ingestion of events into the outbox, over any repository.
  The clock, fresh identifiers and a generated secret are arguments.
\<close>

definition STANDARD_EVENT_TYPES :: "string list" where
  "STANDARD_EVENT_TYPES =
     [''credential.offered'', ''credential.issued'', ''credential.revoked'',
      ''verification.requested'', ''application.received'', ''application.approved'',
      ''application.rejected'', ''applicant.submitted'', ''applicant.approved'',
      ''applicant.rejected'', ''applicant.status_changed'', ''device.key_expiring'']"

datatype ServiceError = Invalid string | NotFound string | Unavailable string

definition from_repository :: "RepositoryError + 'a \<Rightarrow> ServiceError + 'a" where
  "from_repository r = map_err (\<lambda>e. Unavailable (repository_error_text e)) r"

text \<open>A repository operation, and what follows when it succeeds.\<close>

definition after_write ::
  "(RepositoryError + 'a) \<times> 's \<Rightarrow> ('a \<Rightarrow> 's \<Rightarrow> (ServiceError + 'b) \<times> 's) \<Rightarrow> (ServiceError + 'b) \<times> 's" where
  "after_write rs f =
     (case rs of (Inl e, s) \<Rightarrow> (Inl (Unavailable (repository_error_text e)), s) | (Inr x, s) \<Rightarrow> f x s)"

section \<open>Requests and responses\<close>

record NotificationTargetRequest =
  tq_organization_id :: "string option"
  tq_user_id :: "string option"
  tq_device_tokens :: "string list"
  tq_webhook_endpoints :: "string list"
  tq_email_addresses :: "string list"
  tq_channels :: "string list"

record SendNotificationRequest =
  sn_organization_id :: string
  sn_recipient_id :: "string option"
  sn_recipient_email :: "string option"
  sn_notification_type :: string
  sn_template_id :: "string option"
  sn_subject :: "string option"
  sn_body :: "string option"
  sn_title :: "string option"
  sn_message :: "string option"
  sn_severity :: string
  sn_link :: "string option"
  sn_data :: jmap
  sn_priority :: string
  sn_event_type :: string
  sn_ttl_seconds :: i64
  sn_collapse_key :: "string option"
  sn_correlation_id :: "string option"
  sn_target :: "NotificationTargetRequest option"

record CreateSubscriptionRequest =
  cs_organization_id :: string
  cs_name :: string
  cs_description :: "string option"
  cs_event_types :: "string list"
  cs_delivery_channel :: string
  cs_filter_config :: jmap
  cs_retry_policy :: RetryPolicy
  cs_delivery_target_id :: "string option"
  cs_enabled :: bool

record CreateWebhookRequest =
  cw_organization_id :: string
  cw_name :: string
  cw_url :: string
  cw_description :: "string option"
  cw_event_types :: "string list"
  cw_secret :: "string option"
  cw_enabled :: bool

record UpdateWebhookRequest =
  uw_name :: "string option"
  uw_url :: "string option"
  uw_description :: "string option"
  uw_event_types :: "string list option"
  uw_secret :: "string option"
  uw_enabled :: "bool option"

record WebhookResponse =
  wr_id :: string
  wr_organization_id :: string
  wr_name :: string
  wr_description :: "string option"
  wr_endpoint_url :: string
  wr_events :: "string list"
  wr_signing_secret :: "string option"
  wr_signing_secret_masked :: "string option"
  wr_enabled :: bool
  wr_status :: string
  wr_failure_count :: i32
  wr_last_triggered_at :: "string option"
  wr_created_at :: string
  wr_updated_at :: string

record TestWebhookResponse =
  tw_delivery_id :: string
  tw_event_id :: string
  tw_status :: string

record EventIngestRequest =
  ei_event_id :: string
  ei_event_type :: string
  ei_aggregate_id :: string
  ei_aggregate_type :: string
  ei_organization_id :: string
  ei_correlation_id :: string
  ei_data :: jmap
  ei_timestamp :: "string option"

record NotificationResponse =
  np_id :: string
  np_organization_id :: "string option"
  np_title :: string
  np_body :: string
  np_read :: bool
  np_severity :: string
  np_status :: NotificationStatus
  np_link :: "string option"
  np_data :: jmap
  np_event_type :: string
  np_priority :: string
  np_target :: NotificationTarget
  np_ttl_seconds :: i64
  np_collapse_key :: "string option"
  np_correlation_id :: "string option"
  np_created_at :: string

definition empty_target :: NotificationTarget where
  "empty_target =
     \<lparr> nt_organization_id = None, nt_user_id = None, nt_device_tokens = [],
       nt_webhook_endpoints = [], nt_email_addresses = [], nt_channels = [] \<rparr>"

definition notification_response :: "third_party \<Rightarrow> Notification \<Rightarrow> NotificationResponse" where
  "notification_response tp value =
     \<lparr> np_id = nf_id value, np_organization_id = nf_organization_id value,
       np_title = nf_subject value, np_body = nf_body value, np_read = is_read value,
       np_severity = nf_severity value, np_status = nf_status value, np_link = nf_link value,
       np_data = nf_data value, np_event_type = nf_event_type value,
       np_priority = priority_text (nf_priority value),
       np_target = (case nf_target value of None \<Rightarrow> empty_target | Some t \<Rightarrow> t),
       np_ttl_seconds = nf_ttl_seconds value, np_collapse_key = nf_collapse_key value,
       np_correlation_id = nf_correlation_id value,
       np_created_at = tp_rfc3339 tp (nf_created_at value) \<rparr>"

record SubscriptionResponse =
  sr_id :: string
  sr_subscription_organization_id :: string
  sr_name :: string
  sr_description :: "string option"
  sr_event_types :: "string list"
  sr_delivery :: json
  sr_delivery_target_id :: "string option"
  sr_filter_config :: "jmap option"
  sr_enabled :: bool
  sr_retry_policy :: RetryPolicy
  sr_created_at :: string
  sr_updated_at :: string

definition subscription_response :: "third_party \<Rightarrow> Subscription \<Rightarrow> SubscriptionResponse" where
  "subscription_response tp value =
     \<lparr> sr_id = sb_id value, sr_subscription_organization_id = sb_organization_id value,
       sr_name = sb_name value, sr_description = sb_description value,
       sr_event_types = sb_event_types value,
       sr_delivery = JObj [(''channel'', JStr ''WEBHOOK''),
          (''target_id'', json_opt_str (sb_delivery_target_id value))],
       sr_delivery_target_id = sb_delivery_target_id value,
       sr_filter_config = (if sb_filter_config value = [] then None else Some (sb_filter_config value)),
       sr_enabled = sb_enabled value, sr_retry_policy = sb_retry_policy value,
       sr_created_at = tp_rfc3339 tp (sb_created_at value),
       sr_updated_at = tp_rfc3339 tp (sb_updated_at value) \<rparr>"

definition webhook_response :: "third_party \<Rightarrow> WebhookEndpoint \<Rightarrow> bool \<Rightarrow> WebhookResponse" where
  "webhook_response tp value include_secret =
     \<lparr> wr_id = we_id value, wr_organization_id = we_organization_id value, wr_name = we_name value,
       wr_description = we_description value, wr_endpoint_url = we_url value,
       wr_events = we_event_types value,
       wr_signing_secret = (if include_secret then Some (we_secret value) else None),
       wr_signing_secret_masked = map_option (\<lambda>hint. hint @ ''...'') (we_secret_hint value),
       wr_enabled = we_enabled value,
       wr_status = (if we_enabled value then ''ACTIVE'' else ''DISABLED''),
       wr_failure_count = we_failure_count value,
       wr_last_triggered_at = map_option (tp_rfc3339 tp) (we_last_triggered_at value),
       wr_created_at = tp_rfc3339 tp (we_created_at value),
       wr_updated_at = tp_rfc3339 tp (we_updated_at value) \<rparr>"

text \<open>
  The service: its repository, the envelope that protects secrets if there is one (\<open>wrap\<close>), and
  the environment of deliveries.
\<close>

record 's notification_service =
  ns_repository :: "'s notification_repository"
  ns_wrap :: "(string \<Rightarrow> string \<Rightarrow> string \<Rightarrow> WebhookError + string) option"
  ns_env :: delivery_env

abbreviation ns_tp :: "'s notification_service \<Rightarrow> third_party" where
  "ns_tp ns \<equiv> nl_tp (de_lib (ns_env ns))"

section \<open>Checks\<close>

definition require_text :: "string \<Rightarrow> string \<Rightarrow> nat \<Rightarrow> ServiceError + unit" where
  "require_text value field most =
     (if value = [] \<or> most < char_count value
      then Inl (Invalid (field @ '' must be between 1 and '' @ show_nat most @ '' characters''))
      else Inr ())"

definition render_template :: "third_party \<Rightarrow> string \<Rightarrow> jmap \<Rightarrow> string" where
  "render_template tp template data =
     fold (\<lambda>(key, replacement) value.
         replace_text (''{{'' @ key @ ''}}'')
           (case as_str replacement of None \<Rightarrow> tp_json_show tp replacement | Some s \<Rightarrow> s) value)
       data template"

definition default_channels :: "string \<Rightarrow> ChannelType list" where
  "default_channels event_type =
     (if event_type \<in> set [''credential.offered'', ''credential.issued'', ''verification.requested'',
           ''applicant.status_changed'', ''device.key_expiring'']
      then [Fcm, Sse]
      else if event_type \<in> set [''credential.revoked'', ''application.approved'',
           ''application.rejected'', ''applicant.approved'', ''applicant.rejected'']
      then [Fcm, Sse, Email]
      else [Email])"

definition parse_channel :: "string \<Rightarrow> ServiceError + ChannelType" where
  "parse_channel value =
     (let v = to_ascii_uppercase (trim value)
      in if v = ''FCM'' then Inr Fcm
         else if v = ''SSE'' then Inr Sse
         else if v = ''WEBHOOK'' then Inr Webhook
         else if v = ''EMAIL'' then Inr Email
         else if v = ''SMS'' then Inr Sms
         else Inl (Invalid (''invalid channel: '' @ value)))"

fun parse_channels :: "string list \<Rightarrow> ServiceError + ChannelType list" where
  "parse_channels [] = Inr []"
| "parse_channels (value # values) =
     bind_result (parse_channel value) (\<lambda>c.
     bind_result (parse_channels values) (\<lambda>cs. Inr (c # cs)))"

text \<open>The target without a requested one: the channels follow the notification type.\<close>

definition implied_channels :: "SendNotificationRequest \<Rightarrow> ChannelType list" where
  "implied_channels rq =
     (let t = to_ascii_lowercase (trim (sn_notification_type rq))
      in if t = ''webhook'' then [Webhook]
         else if t = ''sms'' then [Sms]
         else if t = ''push'' then [Fcm]
         else if sn_recipient_email rq \<noteq> None then [Email]
         else default_channels (sn_event_type rq))"

definition build_target :: "SendNotificationRequest \<Rightarrow> ServiceError + NotificationTarget" where
  "build_target rq =
     (case sn_target rq of
        Some target \<Rightarrow>
          bind_result
            (if tq_channels target = [] then Inr (default_channels (sn_event_type rq))
             else parse_channels (tq_channels target)) (\<lambda>channels.
          Inr \<lparr> nt_organization_id = (case tq_organization_id target of
                  None \<Rightarrow> Some (sn_organization_id rq) | Some i \<Rightarrow> Some i),
                nt_user_id = (case tq_user_id target of
                  None \<Rightarrow> sn_recipient_id rq | Some i \<Rightarrow> Some i),
                nt_device_tokens = tq_device_tokens target,
                nt_webhook_endpoints = tq_webhook_endpoints target,
                nt_email_addresses = tq_email_addresses target,
                nt_channels = channels \<rparr>)
      | None \<Rightarrow>
          Inr \<lparr> nt_organization_id = Some (sn_organization_id rq), nt_user_id = sn_recipient_id rq,
                nt_device_tokens = [], nt_webhook_endpoints = [],
                nt_email_addresses = (case sn_recipient_email rq of None \<Rightarrow> [] | Some e \<Rightarrow> [e]),
                nt_channels = implied_channels rq \<rparr>)"

definition destination_check :: "webhook_lib \<Rightarrow> string \<Rightarrow> ServiceError + unit" where
  "destination_check wl endpoint =
     (case resolve_webhook_destination wl endpoint of
        Inl e \<Rightarrow> Inl (Invalid (webhook_error_text e)) | Inr _ \<Rightarrow> Inr ())"

definition validate_target :: "webhook_lib \<Rightarrow> NotificationTarget \<Rightarrow> i64 \<Rightarrow> ServiceError + unit" where
  "validate_target wl target ttl_seconds =
     (if sint ttl_seconds \<le> 0 then Inl (Invalid ''ttl_seconds must be greater than 0'')
      else if nt_channels target = []
      then Inl (Invalid ''target.channels must contain at least one channel'')
      else if nt_organization_id target = None \<and> nt_user_id target = None
           \<and> nt_device_tokens target = [] \<and> nt_webhook_endpoints target = []
           \<and> nt_email_addresses target = []
      then Inl (Invalid ''At least one notification target must be provided'')
      else check_all (destination_check wl) (nt_webhook_endpoints target))"

definition notification_type :: "ChannelType list \<Rightarrow> NotificationType" where
  "notification_type channels =
     (if Webhook \<in> set channels then NtWebhook
      else if Email \<in> set channels then NtEmail
      else if Sms \<in> set channels then NtSms
      else NtPush)"

definition event_categories :: "string list" where
  "event_categories =
     List.map_filter (\<lambda>t. map_option fst (split_once (CHR ''.'') t)) STANDARD_EVENT_TYPES"

definition known_event_type :: "string \<Rightarrow> bool" where
  "known_event_type value =
     (value = ''*'' \<or> value \<in> set STANDARD_EVENT_TYPES
      \<or> (case strip_suffix ''.*'' value of
            None \<Rightarrow> False | Some category \<Rightarrow> category \<in> set event_categories))"

definition validate_event_types :: "string list \<Rightarrow> ServiceError + unit" where
  "validate_event_types event_types =
     (if event_types = [] then Inl (Invalid ''event_types must contain at least one event'')
      else
        let unknown = filter (\<lambda>value. \<not> known_event_type value) event_types
        in if unknown = [] then Inr ()
           else Inl (Invalid (''Unknown event_types: '' @ join '', '' unknown)))"

definition filter_matches :: "jmap \<Rightarrow> EventIngestRequest \<Rightarrow> bool" where
  "filter_matches filters event =
     (is_none_or (Option.bind (map_of filters ''aggregate_types'') as_array)
        (\<lambda>values. values = [] \<or> (\<exists>value \<in> set values. as_str value = Some (ei_aggregate_type event)))
      \<and> is_none_or (Option.bind (map_of filters ''required_data_keys'') as_array)
        (\<lambda>values. \<forall>value \<in> set values.
           (case as_str value of None \<Rightarrow> False | Some key \<Rightarrow> contains_key key (ei_data event))))"

fun safe_event_id :: "nat \<Rightarrow> string \<Rightarrow> bool" where
  "safe_event_id index [] = True"
| "safe_event_id index (value # rest) =
     ((is_alphanumeric value \<or> 0 < index \<and> value \<in> set ''._:/-'') \<and> safe_event_id (Suc index) rest)"

text \<open>The projection of an application event that the producer may publish.\<close>

definition bound_projection :: "EventIngestRequest \<Rightarrow> string \<Rightarrow> bool" where
  "bound_projection event status =
     (let required = [''applicant_id'', ''application_id'', ''credential_template_id'', ''status'']
      in ei_aggregate_type event = ''application''
         \<and> length (ei_data event) = length required
         \<and> (\<forall>field \<in> set required.
              case str_member (ei_data event) field of None \<Rightarrow> False | Some value \<Rightarrow> \<not> blank value)
         \<and> str_member (ei_data event) ''application_id'' = Some (ei_aggregate_id event)
         \<and> str_member (ei_data event) ''status'' = Some status)"

definition validate_event :: "third_party \<Rightarrow> EventIngestRequest \<Rightarrow> ServiceError + unit" where
  "validate_event tp event =
     bind_result (require_text (ei_event_id event) ''event_id'' 64) (\<lambda>_.
     if \<not> safe_event_id 0 (ei_event_id event) then Inl (Invalid ''event_id contains unsafe characters'')
     else if tp_uuid_parse tp (ei_correlation_id event) = None
     then Inl (Invalid ''correlation_id must be a gateway request UUID'')
     else bind_result
       (map_err Invalid (validate_internal_event_data tp (ei_event_type event) (ei_data event))) (\<lambda>_.
     if (case ei_timestamp event of None \<Rightarrow> False | Some t \<Rightarrow> tp_parse_rfc3339 tp t = None)
     then Inl (Invalid ''timestamp must be an ISO 8601 datetime with a timezone'')
     else if ei_event_type event = ''application.approved'' \<or> ei_event_type event = ''application.rejected''
     then
       if bound_projection event
            (if ei_event_type event = ''application.approved'' then ''APPROVED'' else ''REJECTED'')
       then Inr ()
       else Inl (Invalid ''Applicant producer is not authorized for this event projection'')
     else Inl (Invalid ''Applicant producer is not authorized for this event type'')))"

section \<open>Notifications\<close>

text \<open>The texts of a notification: a template of the repository replaces those of the request.\<close>

definition notification_texts ::
  "third_party \<Rightarrow> SendNotificationRequest \<Rightarrow> NotificationTemplate option \<Rightarrow> string \<times> string" where
  "notification_texts tp rq template =
     (case template of
        None \<Rightarrow>
          ((case sn_title rq of Some t \<Rightarrow> t | None \<Rightarrow> (case sn_subject rq of None \<Rightarrow> [] | Some t \<Rightarrow> t)),
           (case sn_message rq of Some t \<Rightarrow> t | None \<Rightarrow> (case sn_body rq of None \<Rightarrow> [] | Some t \<Rightarrow> t)))
      | Some t \<Rightarrow>
          (render_template tp (tm_subject_template t) (sn_data rq),
           render_template tp (tm_body_template t) (sn_data rq)))"

definition notification_of ::
  "third_party \<Rightarrow> SendNotificationRequest \<Rightarrow> string \<times> string \<Rightarrow> NotificationTarget
   \<Rightarrow> NotificationPriority \<Rightarrow> uuid \<Rightarrow> time \<Rightarrow> Notification" where
  "notification_of tp rq texts target priority fresh now =
     (notification_default tp fresh now)\<lparr>
       nf_organization_id := Some (sn_organization_id rq), nf_recipient_id := sn_recipient_id rq,
       nf_recipient_email := sn_recipient_email rq,
       nf_notification_type := notification_type (nt_channels target),
       nf_template_id := sn_template_id rq, nf_subject := fst texts, nf_body := snd texts,
       nf_severity := sn_severity rq, nf_link := sn_link rq, nf_data := sn_data rq,
       nf_priority := priority, nf_event_type := sn_event_type rq,
       nf_ttl_seconds := sn_ttl_seconds rq, nf_collapse_key := sn_collapse_key rq,
       nf_correlation_id := sn_correlation_id rq, nf_target := Some target,
       nf_created_at := now\<rparr>"

text \<open>What the delivery results make of the notification.\<close>

definition with_results :: "time \<Rightarrow> DeliveryResult list \<Rightarrow> Notification \<Rightarrow> Notification" where
  "with_results now results n =
     (let n = mark_sent now (n\<lparr>nf_delivery_results := results\<rparr>)
      in if \<exists>r \<in> set results. dr_success r then mark_delivered now n
         else (case List.map_filter dr_error_code results of
             [] \<Rightarrow> n
           | error # _ \<Rightarrow> n\<lparr>nf_status := NsFailed, nf_error_message := Some error\<rparr>))"

definition prepare_notification ::
  "'s notification_service \<Rightarrow> SendNotificationRequest \<Rightarrow> NotificationTemplate option \<Rightarrow> uuid \<Rightarrow> time
   \<Rightarrow> ServiceError + Notification" where
  "prepare_notification ns rq template fresh now =
     (let (subject, body) = notification_texts (ns_tp ns) rq template
      in bind_result (map_err Invalid (validate_notification_text (ns_tp ns) subject body)) (\<lambda>_.
         bind_result (build_target rq) (\<lambda>target.
         bind_result (validate_target (de_webhook_lib (ns_env ns)) target (sn_ttl_seconds rq)) (\<lambda>_.
         bind_result (ok_or (Invalid ''invalid priority'') (priority_parse (sn_priority rq)))
           (\<lambda>priority. Inr (notification_of (ns_tp ns) rq (subject, body) target priority fresh now))))))"

definition send ::
  "'s notification_service \<Rightarrow> SendNotificationRequest \<Rightarrow> uuid \<Rightarrow> time \<Rightarrow> time \<Rightarrow> 's
   \<Rightarrow> (ServiceError + Notification) \<times> 's" where
  "send ns rq fresh now finished s =
     (case bind_result (require_text (sn_organization_id rq) ''organization_id'' 255) (\<lambda>_.
           bind_result (map_err Invalid (validate_notification_data (ns_tp ns) (sn_data rq))) (\<lambda>_.
           if (case Option.bind (sn_target rq) tq_organization_id of
                 None \<Rightarrow> False | Some i \<Rightarrow> i \<noteq> sn_organization_id rq)
           then Inl (Invalid ''target.organization_id must match organization_id'')
           else bind_result
             (case sn_template_id rq of
                None \<Rightarrow> Inr None
              | Some i \<Rightarrow> from_repository (nr_get_template (ns_repository ns) i s)) (\<lambda>template.
           prepare_notification ns rq template fresh now))) of
        Inl e \<Rightarrow> (Inl e, s)
      | Inr n \<Rightarrow>
          let n = with_results now (deliver_notification (ns_env ns) n now finished) n
          in after_write (nr_save_notification (ns_repository ns) n s) (\<lambda>_ s. (Inr n, s)))"

definition notification_for_organization ::
  "'s notification_service \<Rightarrow> string \<Rightarrow> string \<Rightarrow> 's \<Rightarrow> ServiceError + Notification" where
  "notification_for_organization ns i organization_id s =
     bind_result (from_repository (nr_get_notification (ns_repository ns) i s)) (\<lambda>value.
     ok_or (NotFound ''Notification'')
       (Option.bind value (\<lambda>n. if nf_organization_id n = Some organization_id then Some n else None)))"

section \<open>Webhooks\<close>

definition secret_length_ok :: "string \<Rightarrow> ServiceError + unit" where
  "secret_length_ok secret =
     (if 32 \<le> length secret \<and> length secret \<le> 128 then Inr ()
      else Inl (Invalid ''secret must be between 32 and 128 characters''))"

text \<open>The secret goes into the envelope when there is one, and in the clear otherwise.\<close>

definition protect_secret ::
  "'s notification_service \<Rightarrow> string \<Rightarrow> WebhookEndpoint \<Rightarrow> ServiceError + WebhookEndpoint" where
  "protect_secret ns secret webhook =
     (case ns_wrap ns of
        None \<Rightarrow> Inr (webhook\<lparr>we_secret := secret\<rparr>)
      | Some wrap \<Rightarrow>
          (case wrap (we_organization_id webhook) (we_id webhook) secret of
             Inl _ \<Rightarrow> Inl (Unavailable ''Webhook signing secret protection is unavailable'')
           | Inr ciphertext \<Rightarrow> Inr (webhook\<lparr>we_secret_envelope := Some ciphertext, we_secret := []\<rparr>)))"

definition new_webhook :: "third_party \<Rightarrow> CreateWebhookRequest \<Rightarrow> string \<Rightarrow> uuid \<Rightarrow> time \<Rightarrow> WebhookEndpoint" where
  "new_webhook tp rq secret fresh now =
     \<lparr> we_id = tp_uuid_show tp fresh, we_organization_id = cw_organization_id rq,
       we_name = cw_name rq, we_url = cw_url rq, we_secret = secret, we_secret_envelope = None,
       we_secret_hint = Some (take_chars 4 secret), we_description = cw_description rq,
       we_event_types = cw_event_types rq, we_enabled = cw_enabled rq, we_failure_count = 0,
       we_last_failure_at = None, we_last_triggered_at = None,
       we_circuit_breaker_open_until = None, we_created_at = now, we_updated_at = now \<rparr>"

definition optional_event_types :: "string list \<Rightarrow> ServiceError + unit" where
  "optional_event_types event_types =
     (if event_types \<noteq> [] then validate_event_types event_types else Inr ())"

definition create_webhook ::
  "'s notification_service \<Rightarrow> CreateWebhookRequest \<Rightarrow> string \<Rightarrow> uuid \<Rightarrow> time \<Rightarrow> 's
   \<Rightarrow> (ServiceError + WebhookResponse) \<times> 's" where
  "create_webhook ns rq generated fresh now s =
     (let secret = (case cw_secret rq of None \<Rightarrow> generated | Some x \<Rightarrow> x)
      in case bind_result (require_text (cw_organization_id rq) ''organization_id'' 255) (\<lambda>_.
              bind_result (require_text (cw_name rq) ''name'' 255) (\<lambda>_.
              bind_result (optional_event_types (cw_event_types rq)) (\<lambda>_.
              bind_result (destination_check (de_webhook_lib (ns_env ns)) (cw_url rq)) (\<lambda>_.
              bind_result (secret_length_ok secret) (\<lambda>_.
              protect_secret ns secret (new_webhook (ns_tp ns) rq secret fresh now)))))) of
           Inl e \<Rightarrow> (Inl e, s)
         | Inr webhook \<Rightarrow>
             after_write (nr_save_webhook (ns_repository ns) webhook s) (\<lambda>_ s.
               (Inr ((webhook_response (ns_tp ns) webhook False)\<lparr>wr_signing_secret := Some secret\<rparr>), s)))"

definition webhook_of_organization ::
  "'s notification_service \<Rightarrow> string \<Rightarrow> string \<Rightarrow> 's \<Rightarrow> ServiceError + WebhookEndpoint" where
  "webhook_of_organization ns i organization_id s =
     bind_result (from_repository (nr_get_webhook (ns_repository ns) i s)) (\<lambda>value.
     ok_or (NotFound ''Webhook'')
       (Option.bind value (\<lambda>w. if we_organization_id w = organization_id then Some w else None)))"

text \<open>The changes of a request, in the order the code makes them.\<close>

definition updated_webhook ::
  "'s notification_service \<Rightarrow> UpdateWebhookRequest \<Rightarrow> time \<Rightarrow> WebhookEndpoint
   \<Rightarrow> ServiceError + WebhookEndpoint" where
  "updated_webhook ns rq now webhook =
     bind_result (case uw_name rq of
        None \<Rightarrow> Inr webhook
      | Some name \<Rightarrow> bind_result (require_text name ''name'' 255) (\<lambda>_. Inr (webhook\<lparr>we_name := name\<rparr>)))
       (\<lambda>webhook.
     bind_result (case uw_url rq of
        None \<Rightarrow> Inr webhook
      | Some url \<Rightarrow> bind_result (destination_check (de_webhook_lib (ns_env ns)) url)
          (\<lambda>_. Inr (webhook\<lparr>we_url := url\<rparr>))) (\<lambda>webhook.
     let webhook = (case uw_description rq of
           None \<Rightarrow> webhook | Some description \<Rightarrow> webhook\<lparr>we_description := Some description\<rparr>)
     in bind_result (case uw_event_types rq of
        None \<Rightarrow> Inr webhook
      | Some event_types \<Rightarrow> bind_result (optional_event_types event_types)
          (\<lambda>_. Inr (webhook\<lparr>we_event_types := event_types\<rparr>))) (\<lambda>webhook.
     bind_result (case uw_secret rq of
        None \<Rightarrow> Inr webhook
      | Some secret \<Rightarrow> bind_result (secret_length_ok secret) (\<lambda>_.
          protect_secret ns secret (webhook\<lparr>we_secret_hint := Some (take_chars 4 secret)\<rparr>)))
       (\<lambda>webhook.
     let webhook = (case uw_enabled rq of
           None \<Rightarrow> webhook | Some enabled \<Rightarrow> webhook\<lparr>we_enabled := enabled\<rparr>)
     in Inr (webhook\<lparr>we_updated_at := now\<rparr>)))))"

definition update_webhook ::
  "'s notification_service \<Rightarrow> string \<Rightarrow> string \<Rightarrow> UpdateWebhookRequest \<Rightarrow> time \<Rightarrow> 's
   \<Rightarrow> (ServiceError + WebhookResponse) \<times> 's" where
  "update_webhook ns i organization_id rq now s =
     (case bind_result (webhook_of_organization ns i organization_id s) (updated_webhook ns rq now) of
        Inl e \<Rightarrow> (Inl e, s)
      | Inr webhook \<Rightarrow>
          after_write (nr_save_webhook (ns_repository ns) webhook s) (\<lambda>_ s.
            (Inr ((webhook_response (ns_tp ns) webhook False)\<lparr>wr_signing_secret := uw_secret rq\<rparr>), s)))"

definition rotate_webhook_secret ::
  "'s notification_service \<Rightarrow> string \<Rightarrow> string \<Rightarrow> string \<Rightarrow> time \<Rightarrow> 's
   \<Rightarrow> (ServiceError + WebhookResponse) \<times> 's" where
  "rotate_webhook_secret ns i organization_id generated now s =
     update_webhook ns i organization_id
       \<lparr> uw_name = None, uw_url = None, uw_description = None, uw_event_types = None,
         uw_secret = Some generated, uw_enabled = None \<rparr> now s"

definition webhook_test_payload :: "third_party \<Rightarrow> WebhookEndpoint \<Rightarrow> string \<Rightarrow> time \<Rightarrow> jmap" where
  "webhook_test_payload tp webhook event_id now =
     [(''id'', JStr event_id), (''type'', JStr WEBHOOK_TEST_EVENT_TYPE),
      (''timestamp'', JStr (tp_rfc3339 tp now)), (''aggregate_id'', JStr (we_id webhook)),
      (''aggregate_type'', JStr ''webhook''),
      (''organization_id'', JStr (we_organization_id webhook)),
      (''data'', JObj [(''test'', JBool True)])]"

definition webhook_test_event ::
  "notify_lib \<Rightarrow> WebhookEndpoint \<Rightarrow> uuid \<Rightarrow> time \<Rightarrow> WebhookOutboxEvent" where
  "webhook_test_event nl webhook fresh now =
     (let event_id = WEBHOOK_TEST_EVENT_ID_PREFIX @ tp_uuid_show (nl_tp nl) fresh
      in new_webhook_outbox_event nl (we_organization_id webhook) (we_id webhook)
           WEBHOOK_TEST_SUBSCRIPTION_ID event_id WEBHOOK_TEST_EVENT_TYPE
           (webhook_test_payload (nl_tp nl) webhook event_id now) 3 1 30 now 86400)"

definition test_webhook ::
  "'s notification_service \<Rightarrow> string \<Rightarrow> string \<Rightarrow> uuid \<Rightarrow> time \<Rightarrow> 's
   \<Rightarrow> (ServiceError + TestWebhookResponse) \<times> 's" where
  "test_webhook ns i organization_id fresh now s =
     (case webhook_of_organization ns i organization_id s of
        Inl e \<Rightarrow> (Inl e, s)
      | Inr webhook \<Rightarrow>
          if \<not> we_enabled webhook then (Inl (Invalid ''Webhook is disabled''), s)
          else
            let event = webhook_test_event (de_lib (ns_env ns)) webhook fresh now
            in after_write (nr_enqueue_webhook_event (ns_repository ns) event s) (\<lambda>queued s.
                 if \<not> queued then (Inl (Unavailable ''Webhook test delivery could not be queued''), s)
                 else (Inr \<lparr> tw_delivery_id = ob_id event, tw_event_id = ob_event_id event,
                         tw_status = ''QUEUED'' \<rparr>, s)))"

section \<open>Subscriptions and events\<close>

definition create_subscription ::
  "'s notification_service \<Rightarrow> CreateSubscriptionRequest \<Rightarrow> uuid \<Rightarrow> time \<Rightarrow> 's
   \<Rightarrow> (ServiceError + Subscription) \<times> 's" where
  "create_subscription ns rq fresh now s =
     (case
        if cs_delivery_channel rq \<noteq> ''WEBHOOK''
        then Inl (Invalid ''Only WEBHOOK delivery_channel is currently supported'')
        else bind_result (validate_event_types (cs_event_types rq)) (\<lambda>_.
          bind_result (map_err Invalid (retry_policy_validate (cs_retry_policy rq))) (\<lambda>_.
          bind_result
            (ok_or (Invalid ''delivery_target_id is required for WEBHOOK subscriptions'')
               (cs_delivery_target_id rq)) (\<lambda>target_id.
          bind_result (from_repository (nr_get_webhook (ns_repository ns) target_id s)) (\<lambda>webhook.
          if is_none_or webhook (\<lambda>value. we_organization_id value \<noteq> cs_organization_id rq)
          then Inl (Invalid ''Referenced webhook endpoint not found'')
          else Inr target_id)))) of
        Inl e \<Rightarrow> (Inl e, s)
      | Inr target_id \<Rightarrow>
          let subscription =
            \<lparr> sb_id = tp_uuid_show (ns_tp ns) fresh, sb_organization_id = cs_organization_id rq,
              sb_name = cs_name rq, sb_description = cs_description rq,
              sb_event_types = cs_event_types rq, sb_filter_config = cs_filter_config rq,
              sb_retry_policy = cs_retry_policy rq, sb_delivery_target_id = Some target_id,
              sb_enabled = cs_enabled rq, sb_created_at = now, sb_updated_at = now \<rparr>
          in after_write (nr_save_subscription (ns_repository ns) subscription s)
               (\<lambda>_ s. (Inr subscription, s)))"

definition event_payload :: "third_party \<Rightarrow> EventIngestRequest \<Rightarrow> time \<Rightarrow> jmap" where
  "event_payload tp event created_at =
     [(''id'', JStr (ei_event_id event)), (''type'', JStr (ei_event_type event)),
      (''timestamp'', JStr (tp_rfc3339 tp created_at)),
      (''aggregate_id'', JStr (ei_aggregate_id event)),
      (''aggregate_type'', JStr (ei_aggregate_type event)),
      (''organization_id'', JStr (ei_organization_id event)),
      (''correlation_id'', JStr (ei_correlation_id event)),
      (''data'', JObj (ei_data event))]"

definition matching_subscription :: "EventIngestRequest \<Rightarrow> Subscription \<Rightarrow> bool" where
  "matching_subscription event subscription =
     (sb_enabled subscription
      \<and> match_event_patterns (sb_event_types subscription) (ei_event_type event)
      \<and> filter_matches (sb_filter_config subscription) event)"

definition delivery_of ::
  "notify_lib \<Rightarrow> EventIngestRequest \<Rightarrow> time \<Rightarrow> Subscription \<Rightarrow> WebhookEndpoint \<Rightarrow> WebhookOutboxEvent" where
  "delivery_of nl event created_at subscription webhook =
     new_webhook_outbox_event nl (ei_organization_id event) (we_id webhook) (sb_id subscription)
       (ei_event_id event) (ei_event_type event) (event_payload (nl_tp nl) event created_at)
       (rp_max_attempts (sb_retry_policy subscription))
       (rp_initial_backoff_seconds (sb_retry_policy subscription))
       (rp_max_backoff_seconds (sb_retry_policy subscription)) created_at 86400"

datatype fan_out = Skip | Failure | Deliver WebhookEndpoint

definition fan_out_decision ::
  "EventIngestRequest \<Rightarrow> Subscription \<Rightarrow> WebhookEndpoint option \<Rightarrow> fan_out" where
  "fan_out_decision event subscription webhook =
     (case webhook of
        None \<Rightarrow> Skip
      | Some w \<Rightarrow>
          if \<not> we_enabled w then Skip
          else if we_organization_id w \<noteq> sb_organization_id subscription then Failure
          else if we_event_types w \<noteq> []
               \<and> \<not> match_event_patterns (we_event_types w) (ei_event_type event) then Skip
          else Deliver w)"

text \<open>The loop over the matching subscriptions: the counts of new deliveries and failures.\<close>

fun fan_out_all ::
  "'s notification_service \<Rightarrow> EventIngestRequest \<Rightarrow> time \<Rightarrow> Subscription list \<Rightarrow> nat \<Rightarrow> nat \<Rightarrow> 's
   \<Rightarrow> (ServiceError + nat \<times> nat) \<times> 's" where
  "fan_out_all ns event created_at [] deliveries failures s = (Inr (deliveries, failures), s)"
| "fan_out_all ns event created_at (subscription # rest) deliveries failures s =
     (case sb_delivery_target_id subscription of
        None \<Rightarrow> fan_out_all ns event created_at rest deliveries failures s
      | Some target_id \<Rightarrow>
          (case from_repository (nr_get_webhook (ns_repository ns) target_id s) of
             Inl e \<Rightarrow> (Inl e, s)
           | Inr webhook \<Rightarrow>
               (case fan_out_decision event subscription webhook of
                  Skip \<Rightarrow> fan_out_all ns event created_at rest deliveries failures s
                | Failure \<Rightarrow> fan_out_all ns event created_at rest deliveries (failures + 1) s
                | Deliver w \<Rightarrow>
                    after_write (nr_enqueue_webhook_event (ns_repository ns)
                        (delivery_of (de_lib (ns_env ns)) event created_at subscription w) s)
                      (\<lambda>queued s. fan_out_all ns event created_at rest
                         (if queued then deliveries + 1 else deliveries) failures s))))"

definition event_created_at :: "third_party \<Rightarrow> EventIngestRequest \<Rightarrow> time \<Rightarrow> time" where
  "event_created_at tp event now =
     (case Option.bind (ei_timestamp event) (tp_parse_rfc3339 tp) of None \<Rightarrow> now | Some t \<Rightarrow> t)"

definition ingest_event ::
  "'s notification_service \<Rightarrow> EventIngestRequest \<Rightarrow> time \<Rightarrow> 's \<Rightarrow> (ServiceError + jmap) \<times> 's" where
  "ingest_event ns event now s =
     (case bind_result (validate_event (ns_tp ns) event) (\<lambda>_.
           from_repository (nr_list_subscriptions (ns_repository ns)
             (Some (ei_organization_id event)) s)) of
        Inl e \<Rightarrow> (Inl e, s)
      | Inr subscriptions \<Rightarrow>
          let matching = filter (matching_subscription event) subscriptions;
              created_at = event_created_at (ns_tp ns) event now
          in (case fan_out_all ns event created_at matching 0 0 s of
                (Inl e, s) \<Rightarrow> (Inl e, s)
              | (Inr (deliveries, failures), s) \<Rightarrow>
                  (Inr [(''status'', JStr ''accepted''),
                        (''matched_subscriptions'', json_of_int (int (length matching))),
                        (''deliveries'', json_of_int (int deliveries)),
                        (''failures'', json_of_int (int failures))], s)))"

end
