(* ===== verification/Notification_Guarantees.thy ===== *)
theory Notification_Guarantees
  imports Notification_Outbox Notification_Service Notification_Destinations
begin

text \<open>
  The notification service over its in-memory repository: every operation is a run of the outbox,
  so what \<open>Notification_Outbox\<close> shows of runs holds of the service. A worker's pass changes no
  configuration, asks the network only for authorized deliveries, and ends every event in time.
\<close>

section \<open>Operations on the in-memory repository\<close>

lemma memory_ops [simp]:
  "nr_save_notification (memory_repository nl) = save_notification nl"
  "nr_get_notification (memory_repository nl) i m = Inr (get_notification i m)"
  "nr_get_template (memory_repository nl) i m = Inr (get_template i m)"
  "nr_save_subscription (memory_repository nl) = save_subscription nl"
  "nr_get_subscription (memory_repository nl) i m = Inr (get_subscription i m)"
  "nr_list_subscriptions (memory_repository nl) og' m = Inr (list_subscriptions og' m)"
  "nr_save_webhook (memory_repository nl) wh m = (Inr (), save_webhook wh m)"
  "nr_get_webhook (memory_repository nl) i m = Inr (get_webhook i m)"
  "nr_record_webhook_attempt (memory_repository nl) i og ok t n m
     = apfst Inr (record_webhook_attempt i og ok t n m)"
  "nr_save_webhook_delivery (memory_repository nl) wd m = (Inr (), save_webhook_delivery wd m)"
  "nr_enqueue_webhook_event (memory_repository nl) = enqueue_webhook_event nl"
  "nr_claim_due_webhook_events (memory_repository nl) fresh t le limit m
     = apfst Inr (claim_due_webhook_events (nl_tp nl) fresh t le limit m)"
  "nr_mark_webhook_event_delivered (memory_repository nl) i w t c m
     = apfst Inr (mark_webhook_event_delivered i w t c m)"
  "nr_mark_webhook_event_failed (memory_repository nl) i w t d x c' m
     = apfst Inr (mark_webhook_event_failed i w t d x c' m)"
  by (simp_all add: memory_repository_def)

definition in_memory :: "MemoryState notification_service \<Rightarrow> bool" where
  "in_memory ns = (ns_repository ns = memory_repository (de_lib (ns_env ns)))"

definition same_config :: "MemoryState \<Rightarrow> MemoryState \<Rightarrow> bool" where
  "same_config m m' =
     (nm_templates m' = nm_templates m \<and> nm_subscriptions m' = nm_subscriptions m
      \<and> nm_webhooks m' = nm_webhooks m \<and> nm_notifications m' = nm_notifications m)"

lemma run_configure: "nm_outbox m' = nm_outbox m \<Longrightarrow> \<exists>as. outbox_run nl as m m'"
  by (blast intro: outbox_run_single outbox_step.configure)

lemma run_trans:
  "\<exists>as. outbox_run nl as m m' \<Longrightarrow> \<exists>bs. outbox_run nl bs m' m'' \<Longrightarrow> \<exists>cs. outbox_run nl cs m m''"
  by (blast intro: outbox_run_append)

lemma is_new_outbox_event:
  "is_new (new_webhook_outbox_event nl og wh su ev ty pl mx ib mb cr re)"
  by (simp add: is_new_def new_webhook_outbox_event_def)

lemma keeps_outbox [simp]:
  "nm_outbox (snd (save_notification nl n m)) = nm_outbox m"
  "nm_outbox (snd (save_subscription nl s m)) = nm_outbox m"
  "nm_outbox (save_webhook w m) = nm_outbox m"
  "nm_outbox (snd (record_webhook_attempt i og ok t n' m)) = nm_outbox m"
  "nm_outbox (save_webhook_delivery d m) = nm_outbox m"
  by (simp_all add: save_notification_def save_subscription_def save_webhook_def
      record_webhook_attempt_def save_webhook_delivery_def split: sum.splits option.splits)

lemma enqueue_outcome:
  "enqueue_webhook_event nl e m = (r, m') \<Longrightarrow>
     same_config m m'
     \<and> (r = Inr True \<and> \<not> contains_key (ob_id e) (nm_outbox m) \<and> nm_outbox m' = hm_insert (ob_id e) e (nm_outbox m)
        \<or> m' = m \<and> (\<exists>x. r = Inl x) \<or> m' = m \<and> r = Inr False \<and> contains_key (ob_id e) (nm_outbox m))"
  by (auto simp: enqueue_webhook_event_def same_config_def split: sum.splits if_splits)

lemma after_write_cases:
  "after_write rs f = (r, s') \<Longrightarrow>
     (\<exists>e. fst rs = Inl e \<and> s' = snd rs \<and> r = Inl (Unavailable (repository_error_text e)))
     \<or> (\<exists>x. fst rs = Inr x \<and> f x (snd rs) = (r, s'))"
  by (cases rs) (auto simp: after_write_def split: sum.splits)

section \<open>Ingestion\<close>

lemma same_config_trans: "same_config a b \<Longrightarrow> same_config b c \<Longrightarrow> same_config a c"
  by (simp add: same_config_def)

text \<open>Which events the loop brings in: one for each deliverable subscription.\<close>

definition delivers ::
  "notify_lib \<Rightarrow> EventIngestRequest \<Rightarrow> time \<Rightarrow> MemoryState \<Rightarrow> Subscription \<Rightarrow> WebhookOutboxEvent option" where
  "delivers nl event created_at m subscription =
     (case Option.bind (sb_delivery_target_id subscription) (\<lambda>i. map_of (nm_webhooks m) i) of
        None \<Rightarrow> None
      | Some w \<Rightarrow>
          (case fan_out_decision event subscription (Some w) of
             Deliver w \<Rightarrow> Some (delivery_of nl event created_at subscription w) | _ \<Rightarrow> None))"

text \<open>One iteration of the loop over this repository.\<close>

lemma fan_out_step:
  assumes "in_memory ns"
  shows "\<exists>f'. fan_out_all ns event t (subscription # rest) d f m =
    (case delivers (de_lib (ns_env ns)) event t m subscription of
       None \<Rightarrow> fan_out_all ns event t rest d f' m
     | Some e \<Rightarrow> after_write (enqueue_webhook_event (de_lib (ns_env ns)) e m)
         (\<lambda>queued s. fan_out_all ns event t rest (if queued then d + 1 else d) f s))"
proof (cases "Option.bind (sb_delivery_target_id subscription) (\<lambda>i. map_of (nm_webhooks m) i)")
  case None
  then show ?thesis
    using assms by (cases "sb_delivery_target_id subscription")
      (auto simp: in_memory_def from_repository_def get_webhook_def fan_out_decision_def delivers_def)
next
  case (Some w)
  then show ?thesis
    using assms by (cases "sb_delivery_target_id subscription"; cases "fan_out_decision event subscription (Some w)")
      (auto simp: in_memory_def from_repository_def get_webhook_def delivers_def)
qed

lemma fan_out_memory:
  assumes "in_memory ns" and "fan_out_all ns event t subs d f m = (r, m')"
  shows "same_config m m' \<and> (\<exists>as. outbox_run (de_lib (ns_env ns)) as m m')
    \<and> (\<forall>k. contains_key k (nm_outbox m) \<longrightarrow> contains_key k (nm_outbox m'))"
  using assms(2)
proof (induction subs arbitrary: d f m)
  case Nil
  then show ?case by (auto simp: same_config_def intro: run_configure)
next
  case (Cons subscription rest)
  let ?nl = "de_lib (ns_env ns)"
  obtain f' where step: "fan_out_all ns event t (subscription # rest) d f m =
    (case delivers ?nl event t m subscription of
       None \<Rightarrow> fan_out_all ns event t rest d f' m
     | Some e \<Rightarrow> after_write (enqueue_webhook_event ?nl e m)
         (\<lambda>queued s. fan_out_all ns event t rest (if queued then d + 1 else d) f s))"
    using fan_out_step [OF assms(1)] by blast
  show ?case
  proof (cases "delivers ?nl event t m subscription")
    case None
    then show ?thesis using Cons step by simp
  next
    case (Some e)
    obtain q m1 where q: "enqueue_webhook_event ?nl e m = (q, m1)" by fastforce
    have new: "is_new e"
      using Some by (auto simp: delivers_def delivery_of_def is_new_outbox_event
          split: option.splits fan_out.splits)
    have first: "same_config m m1" "\<exists>as. outbox_run ?nl as m m1"
      "\<And>k. contains_key k (nm_outbox m) \<Longrightarrow> contains_key k (nm_outbox m1)"
      using enqueue_outcome [OF q] outbox_run_single [OF outbox_step.enqueue [OF new q]]
      by (auto simp: contains_key_def)
    have wr: "after_write (q, m1)
        (\<lambda>queued s. fan_out_all ns event t rest (if queued then d + 1 else d) f s) = (r, m')"
      using Cons.prems step Some q by simp
    from after_write_cases [OF wr] consider
        (refused) "m' = m1"
      | (queued) b where "fan_out_all ns event t rest (if b then d + 1 else d) f m1 = (r, m')"
      by auto
    then show ?thesis
    proof cases
      case refused
      then show ?thesis using first by blast
    next
      case (queued b)
      from Cons.IH [OF this] show ?thesis
        using first by (blast intro: same_config_trans run_trans)
    qed
  qed
qed

definition all_queued :: "notify_lib \<Rightarrow> EventIngestRequest \<Rightarrow> MemoryState \<Rightarrow> Subscription list \<Rightarrow> bool" where
  "all_queued nl event m subs =
     (\<forall>subscription \<in> set subs. \<forall>t e. delivers nl event t m subscription = Some e
        \<longrightarrow> contains_key (ob_id e) (nm_outbox m))"

lemma delivers_id:
  "delivers nl event t m subscription = Some e \<Longrightarrow> same_config m m' \<Longrightarrow>
     delivers nl event t' m' subscription = Some e' \<Longrightarrow> ob_id e' = ob_id e"
  by (auto simp: delivers_def same_config_def delivery_of_def new_webhook_outbox_event_def
      split: option.splits fan_out.splits)

lemma delivers_some:
  "same_config m m' \<Longrightarrow> delivers nl event t m subscription = None
     \<longleftrightarrow> delivers nl event t' m' subscription = None"
  by (auto simp: delivers_def same_config_def split: option.splits fan_out.splits)

lemma fan_out_queues_all:
  assumes "in_memory ns" and "fan_out_all ns event t subs d f m = (Inr x, m')"
  shows "all_queued (de_lib (ns_env ns)) event m' subs"
  using assms(2)
proof (induction subs arbitrary: d f m)
  case Nil
  then show ?case by (simp add: all_queued_def)
next
  case (Cons subscription rest)
  let ?nl = "de_lib (ns_env ns)"
  note all = fan_out_memory [OF assms(1) Cons.prems]
  obtain f' where step: "fan_out_all ns event t (subscription # rest) d f m =
    (case delivers ?nl event t m subscription of
       None \<Rightarrow> fan_out_all ns event t rest d f' m
     | Some e \<Rightarrow> after_write (enqueue_webhook_event ?nl e m)
         (\<lambda>queued s. fan_out_all ns event t rest (if queued then d + 1 else d) f s))"
    using fan_out_step [OF assms(1)] by blast
  show ?case
  proof (cases "delivers ?nl event t m subscription")
    case None
    then have "all_queued ?nl event m' rest" using Cons step by simp
    moreover have "delivers ?nl event t' m' subscription = None" for t'
      using None delivers_some all by blast
    ultimately show ?thesis by (simp add: all_queued_def)
  next
    case (Some e)
    obtain q m1 where q: "enqueue_webhook_event ?nl e m = (q, m1)" by fastforce
    have wr: "after_write (q, m1)
        (\<lambda>queued s. fan_out_all ns event t rest (if queued then d + 1 else d) f s) = (Inr x, m')"
      using Cons.prems step Some q by simp
    from after_write_cases [OF wr] obtain b where
      b: "q = Inr b" and next_step: "fan_out_all ns event t rest (if b then d + 1 else d) f m1 = (Inr x, m')"
      by auto
    have "contains_key (ob_id e) (nm_outbox m1)"
      using enqueue_outcome [OF q] b by (auto simp: contains_key_def)
    then have "contains_key (ob_id e) (nm_outbox m')"
      using fan_out_memory [OF assms(1) next_step] by blast
    moreover have "ob_id e' = ob_id e" if "delivers ?nl event t' m' subscription = Some e'" for t' e'
      using delivers_id [OF Some _ that] all by blast
    moreover have "all_queued ?nl event m' rest" by (rule Cons.IH [OF next_step])
    ultimately show ?thesis by (auto simp: all_queued_def)
  qed
qed

lemma fan_out_again:
  assumes "in_memory ns" and "all_queued (de_lib (ns_env ns)) event m subs"
    and "fan_out_all ns event t subs d f m = (r, m')"
  shows "m' = m \<and> (\<forall>d' f'. r = Inr (d', f') \<longrightarrow> d' = d)"
  using assms(2,3)
proof (induction subs arbitrary: f)
  case (Cons subscription rest)
  let ?nl = "de_lib (ns_env ns)"
  have rest: "all_queued ?nl event m rest" using Cons.prems(1) by (simp add: all_queued_def)
  obtain f' where step: "fan_out_all ns event t (subscription # rest) d f m =
    (case delivers ?nl event t m subscription of
       None \<Rightarrow> fan_out_all ns event t rest d f' m
     | Some e \<Rightarrow> after_write (enqueue_webhook_event ?nl e m)
         (\<lambda>queued s. fan_out_all ns event t rest (if queued then d + 1 else d) f s))"
    using fan_out_step [OF assms(1)] by blast
  show ?case
  proof (cases "delivers ?nl event t m subscription")
    case None
    then show ?thesis using Cons.IH [OF rest] Cons.prems(2) step by simp
  next
    case (Some e)
    then have key: "contains_key (ob_id e) (nm_outbox m)"
      using Cons.prems(1) by (auto simp: all_queued_def)
    obtain q m1 where q: "enqueue_webhook_event ?nl e m = (q, m1)" by fastforce
    then have "m1 = m" "q = Inr False \<or> (\<exists>x. q = Inl x)"
      using enqueue_outcome [OF q] key by auto
    moreover have wr: "after_write (q, m1)
        (\<lambda>queued s. fan_out_all ns event t rest (if queued then d + 1 else d) f s) = (r, m')"
      using Cons.prems(2) step Some q by simp
    ultimately show ?thesis
      using after_write_cases [OF wr] Cons.IH [OF rest] by auto
  qed
qed auto

lemma ingest_memory:
  assumes "in_memory ns" and "ingest_event ns event now m = (r, m')"
  shows "same_config m m' \<and> (\<exists>as. outbox_run (de_lib (ns_env ns)) as m m')"
proof -
  have refl: "same_config m m \<and> (\<exists>as. outbox_run (de_lib (ns_env ns)) as m m)"
    by (auto simp: same_config_def intro: run_configure)
  show ?thesis
    using assms(2) fan_out_memory [OF assms(1)] refl
    by (auto simp: ingest_event_def Let_def split: sum.splits prod.splits)
qed

section \<open>The worker\<close>

text \<open>An endpoint without the statistics of its deliveries.\<close>

definition endpoint_settings :: "WebhookEndpoint \<Rightarrow> WebhookEndpoint" where
  "endpoint_settings w = w\<lparr>we_failure_count := 0, we_last_failure_at := None,
     we_last_triggered_at := None, we_circuit_breaker_open_until := None, we_updated_at := 0\<rparr>"

definition keeps_settings :: "MemoryState \<Rightarrow> MemoryState \<Rightarrow> bool" where
  "keeps_settings m m' =
     (nm_templates m' = nm_templates m \<and> nm_subscriptions m' = nm_subscriptions m
      \<and> nm_notifications m' = nm_notifications m
      \<and> (\<forall>k. map_option endpoint_settings (map_of (nm_webhooks m') k)
             = map_option endpoint_settings (map_of (nm_webhooks m) k)))"

lemma keeps_settings_trans: "keeps_settings a b \<Longrightarrow> keeps_settings b c \<Longrightarrow> keeps_settings a c"
  by (simp add: keeps_settings_def)

lemma same_config_keeps: "same_config m m' \<Longrightarrow> keeps_settings m m'"
  by (simp add: same_config_def keeps_settings_def)

lemma settings_attempt [simp]: "endpoint_settings (attempt_recorded ok t n w) = endpoint_settings w"
  by (simp add: attempt_recorded_def endpoint_settings_def Let_def)

lemma record_keeps_settings: "keeps_settings m (snd (record_webhook_attempt i og ok t n m))"
  by (auto simp: keeps_settings_def record_webhook_attempt_def option.map_comp comp_def
      split: option.splits)

lemma mark_run:
  assumes "mark_outcome (memory_repository nl) nl' event w outcome circuit completed m = (marked, m')"
  shows "same_config m m' \<and> (\<exists>as. outbox_run nl as m m')"
proof (cases "wa_success outcome")
  case True
  obtain b where "mark_webhook_event_delivered (ob_id event) w completed
      (case wa_response_status_code outcome of None \<Rightarrow> 200 | Some c \<Rightarrow> c) m = (b, m')"
    using assms True by (auto simp: mark_outcome_def split_beta prod_eq_iff)
  moreover from this have "same_config m m'"
    by (auto simp: mark_webhook_event_delivered_def same_config_def split: option.splits if_splits)
  ultimately show ?thesis by (blast intro: outbox_run_single outbox_step.complete)
next
  case False
  obtain b d x c t where "mark_webhook_event_failed (ob_id event) w t d x c m = (b, m')"
    using assms False by (auto simp: mark_outcome_def split_beta prod_eq_iff)
  moreover from this have "same_config m m'"
    by (auto simp: mark_webhook_event_failed_def same_config_def split: option.splits if_splits)
  ultimately show ?thesis by (blast intro: outbox_run_single outbox_step.fail)
qed

text \<open>A task's step is a step of the outbox or none, whatever its state.\<close>

lemma record_attempt_memory:
  "keeps_settings m (record_attempt (memory_repository nl) de event outcome attempted t m)
   \<and> nm_outbox (record_attempt (memory_repository nl) de event outcome attempted t m) = nm_outbox m"
  using record_keeps_settings by (simp add: record_attempt_def keeps_settings_def)

lemma save_delivery_memory:
  "keeps_settings m (save_delivery (memory_repository nl) event webhook outcome m)
   \<and> nm_outbox (save_delivery (memory_repository nl) event webhook outcome m) = nm_outbox m"
  by (simp add: save_delivery_def keeps_settings_def save_webhook_delivery_def)

lemma task_step_memory:
  assumes "task_step (memory_repository nl) de t1 clock task m = (task', m')"
  shows "keeps_settings m m' \<and> (\<exists>as. outbox_run nl as m m')"
proof -
  have same: "keeps_settings m m \<and> (\<exists>as. outbox_run nl as m m)"
    by (auto simp: keeps_settings_def intro: run_configure)
  show ?thesis
  proof (cases task)
    case (Spawned event)
    then show ?thesis using assms same by (cases "ob_lease_token event") auto
  next
    case (Located event w subscription webhook)
    obtain outcome attempted circuit where
      o: "event_outcome de event subscription webhook t1 = (outcome, attempted, circuit)"
      by (metis prod_cases3)
    obtain marked m1 where
      m1: "mark_outcome (memory_repository nl) (de_lib de) event w outcome circuit clock m = (marked, m1)"
      by fastforce
    have "m' = m1" using assms Located o m1 by (auto split: if_splits)
    then show ?thesis using mark_run [OF m1] same_config_keeps by blast
  next
    case (Marked event webhook outcome attempted completed word)
    then have "m' = record_attempt (memory_repository nl) de event outcome attempted completed m"
      using assms by simp
    then show ?thesis using record_attempt_memory [of m nl] run_configure by metis
  next
    case (Recorded event webhook outcome word)
    then have "m' = save_delivery (memory_repository nl) event webhook outcome m"
      using assms by simp
    then show ?thesis using save_delivery_memory [of m nl] run_configure by metis
  qed (use assms same in auto)
qed

lemma run_tasks_memory:
  "run_tasks (memory_repository nl) de t1 schedule tasks m = (tasks', m')
   \<Longrightarrow> keeps_settings m m' \<and> (\<exists>as. outbox_run nl as m m')"
proof (induction schedule arbitrary: tasks m)
  case Nil
  then show ?case by (auto simp: keeps_settings_def intro: run_configure)
next
  case (Cons x schedule)
  obtain i clock where x: "x = (i, clock)" by fastforce
  show ?case
  proof (cases "i < length tasks")
    case True
    obtain task m1 where one: "task_step (memory_repository nl) de t1 clock (tasks ! i) m = (task, m1)"
      by fastforce
    have "run_tasks (memory_repository nl) de t1 schedule (tasks[i := task]) m1 = (tasks', m')"
      using Cons.prems True one by (simp add: x)
    from Cons.IH [OF this] task_step_memory [OF one] show ?thesis
      using keeps_settings_trans run_trans by blast
  next
    case False
    then show ?thesis using Cons by (simp add: x)
  qed
qed

lemma process_all_memory:
  "process_all (memory_repository nl) de t1 schedule t2 events m = (rs, m')
   \<Longrightarrow> keeps_settings m m' \<and> (\<exists>as. outbox_run nl as m m')"
  using run_tasks_memory by (auto simp: process_all_def split: prod.splits)

text \<open>Every task ends, under every schedule: it has at most five steps and is given as many.\<close>

fun steps_left :: "delivery_task \<Rightarrow> nat" where
  "steps_left (Spawned event) = 5"
| "steps_left (Subscribed event lease subscription) = 4"
| "steps_left (Located event lease subscription webhook) = 3"
| "steps_left (Marked event webhook outcome attempted completed word) = 2"
| "steps_left (Recorded event webhook outcome word) = 1"
| "steps_left (Joined result) = 0"

lemma task_step_progress:
  "steps_left (fst (task_step rp de t clock task s)) \<le> steps_left task - 1"
  by (cases task) (auto split: option.split prod.split simp: Let_def)

lemma run_tasks_progress:
  "run_tasks rp de t schedule tasks s = (tasks', s') \<Longrightarrow>
     length tasks' = length tasks
     \<and> (\<forall>i < length tasks. steps_left (tasks' ! i) \<le> steps_left (tasks ! i) - count_list (map fst schedule) i)"
proof (induction schedule arbitrary: tasks s)
  case (Cons x schedule)
  obtain i clock where x: "x = (i, clock)" by fastforce
  show ?case
  proof (cases "i < length tasks")
    case True
    obtain task s1 where one: "task_step rp de t clock (tasks ! i) s = (task, s1)" by fastforce
    have "run_tasks rp de t schedule (tasks[i := task]) s1 = (tasks', s')"
      using Cons.prems True one by (simp add: x)
    note ih = Cons.IH [OF this]
    have left: "steps_left task \<le> steps_left (tasks ! i) - 1"
      using task_step_progress [of rp de t clock "tasks ! i" s] one by simp
    show ?thesis
    proof (intro conjI allI impI)
      show "length tasks' = length tasks" using ih by simp
      fix j assume j: "j < length tasks"
      then have "steps_left (tasks' ! j) \<le> steps_left (tasks[i := task] ! j) - count_list (map fst schedule) j"
        using ih by simp
      then show "steps_left (tasks' ! j) \<le> steps_left (tasks ! j) - count_list (map fst (x # schedule)) j"
        using left j by (cases "j = i") (simp_all add: x)
    qed
  next
    case False
    then show ?thesis using Cons by (auto simp: x)
  qed
qed simp

lemma count_to_the_end: "i < n \<Longrightarrow> count_list (map fst (to_the_end n clock)) i = 5"
proof (induction n)
  case (Suc n)
  have "count_list (map fst (to_the_end n clock)) n = 0"
    by (auto simp: count_list_0_iff to_the_end_def)
  then show ?case
    using Suc by (cases "i = n") (simp_all add: to_the_end_def numeral_eq_Suc)
qed simp

lemma tasks_join:
  assumes "run_tasks rp de t (schedule @ to_the_end (length events) clock) (map Spawned events) s = (tasks, s')"
    and "i < length events"
  shows "\<exists>result. tasks ! i = Joined result"
proof -
  have "steps_left (tasks ! i) \<le> 5 - count_list (map fst (schedule @ to_the_end (length events) clock)) i"
    using run_tasks_progress [OF assms(1)] assms(2) by simp
  then have "steps_left (tasks ! i) = 0"
    using count_to_the_end [OF assms(2), of clock] by simp
  then show ?thesis by (cases "tasks ! i") simp_all
qed

text \<open>A task that no other interrupts carries out the delivery as the code reads.\<close>

lemma task_alone:
  "run_tasks rp de t [(0, c), (0, c), (0, c), (0, c), (0, c)] [Spawned event] s
     = (let (r, s) = process_outbox_event rp de event t c s in ([Joined r], s))"
  by (simp add: process_outbox_event_def Let_def split: option.split prod.split)

lemma claim_keeps_settings:
  "claim_due_webhook_events tp fresh now le limit m = (evs, m') \<Longrightarrow> keeps_settings m m'"
  by (auto simp: claim_due_webhook_events_def keeps_settings_def Let_def split_beta)

text \<open>A pass is a claim followed by the completions.\<close>

lemma process_due_cases:
  assumes "process_due (memory_repository nl) de fresh now schedule completed m = (r, m')"
  obtains (refused) "m' = m" "\<exists>e. r = Inl e"
  | (passed) le limit events m1 rs where
    "claim_due_webhook_events (nl_tp nl) fresh now le limit m = (events, m1)"
    "process_all (memory_repository nl) de now schedule completed events m1 = (rs, m')"
proof (cases "outbox_lease_seconds (de_var de)")
  case (Inl e)
  then show ?thesis using assms by (auto simp: process_due_def intro!: refused)
next
  case lease: (Inr secs)
  show ?thesis
  proof (cases "outbox_batch_size (de_var de)")
    case (Inl e)
    then show ?thesis using assms lease by (auto simp: process_due_def intro!: refused)
  next
    case (Inr batch)
    obtain events m1 where c:
      "claim_due_webhook_events (nl_tp nl) fresh now (now + seconds secs) (nat batch) m = (events, m1)"
      by fastforce
    obtain rs m2 where p: "process_all (memory_repository nl) de now schedule completed events m1 = (rs, m2)"
      by fastforce
    have "m' = m2" using assms lease Inr c p by (simp add: process_due_def)
    then show ?thesis using passed [OF c] p by blast
  qed
qed

lemma process_due_memory:
  assumes "process_due (memory_repository nl) de fresh now schedule completed m = (r, m')"
  shows "keeps_settings m m' \<and> (\<exists>as. outbox_run nl as m m')"
  using assms
proof (cases rule: process_due_cases)
  case refused
  then show ?thesis by (auto simp: keeps_settings_def intro: run_configure)
next
  case (passed le limit events m1 rs)
  have "keeps_settings m m1" by (rule claim_keeps_settings [OF passed(1)])
  moreover have "\<exists>as. outbox_run nl as m m1"
    using passed(1) by (blast intro: outbox_run_single outbox_step.claim)
  ultimately show ?thesis
    using process_all_memory [OF passed(2)] keeps_settings_trans run_trans by blast
qed

section \<open>The service\<close>

text \<open>
  A step of the service: one of its operations with any arguments, a pass of the worker, or an
  administrative operation of the repository that the HTTP handlers call directly.
\<close>

inductive notification_step ::
  "MemoryState notification_service \<Rightarrow> MemoryState \<Rightarrow> MemoryState \<Rightarrow> bool" for ns where
  send: "notification_step ns m (snd (send ns rq fresh now finished m))"
| create_webhook: "notification_step ns m (snd (create_webhook ns cw generated fresh now m))"
| update_webhook: "notification_step ns m (snd (update_webhook ns i og uw now m))"
| rotate: "notification_step ns m (snd (rotate_webhook_secret ns i og generated now m))"
| test: "notification_step ns m (snd (test_webhook ns i og fresh now m))"
| subscribe: "notification_step ns m (snd (create_subscription ns cs fresh now m))"
| ingest: "notification_step ns m (snd (ingest_event ns event now m))"
| pass: "notification_step ns m (snd (process_due (ns_repository ns) (ns_env ns) tokens now schedule completed m))"
| save_template: "notification_step ns m (save_template t m)"
| delete_notification: "notification_step ns m (snd (delete_notification i m))"
| save_subscription: "notification_step ns m (snd (save_subscription (de_lib (ns_env ns)) s m))"
| delete_subscription: "notification_step ns m (snd (delete_subscription i m))"
| delete_webhook: "notification_step ns m (snd (delete_webhook i m))"

lemma after_write_answer [simp]: "snd (after_write rs (\<lambda>x s. (g x, s))) = snd rs"
  by (cases rs) (auto simp: after_write_def split: sum.splits)

lemma outbox_after_checks:
  "(\<And>x. nm_outbox (snd (f x)) = nm_outbox m)
     \<Longrightarrow> nm_outbox (snd (case r of Inl e \<Rightarrow> (Inl e, m) | Inr x \<Rightarrow> f x)) = nm_outbox m"
  by (cases r) auto

text \<open>Only ingestion, tests and the worker touch the outbox.\<close>

lemma administration_keeps_outbox:
  assumes "in_memory ns"
  shows "nm_outbox (snd (send ns rq fresh now finished m)) = nm_outbox m"
    and "nm_outbox (snd (create_webhook ns cw generated fresh now m)) = nm_outbox m"
    and "nm_outbox (snd (update_webhook ns i og uw now m)) = nm_outbox m"
    and "nm_outbox (snd (create_subscription ns cs fresh now m)) = nm_outbox m"
  unfolding send_def create_webhook_def update_webhook_def create_subscription_def Let_def
  by (rule outbox_after_checks, simp add: assms [unfolded in_memory_def])+

lemma test_webhook_outcome:
  assumes "in_memory ns"
  shows "snd (test_webhook ns i og fresh now m) = m
    \<or> (\<exists>webhook. snd (test_webhook ns i og fresh now m)
         = snd (enqueue_webhook_event (de_lib (ns_env ns))
             (webhook_test_event (de_lib (ns_env ns)) webhook fresh now) m))"
proof (cases "webhook_of_organization ns i og m")
  case (Inr webhook)
  let ?put = "enqueue_webhook_event (de_lib (ns_env ns))
        (webhook_test_event (de_lib (ns_env ns)) webhook fresh now) m"
  have "snd (test_webhook ns i og fresh now m) = (if we_enabled webhook then snd ?put else m)"
    using assms Inr
    by (auto simp: test_webhook_def after_write_def in_memory_def Let_def split: sum.splits prod.splits)
  then show ?thesis by auto
qed (simp add: test_webhook_def)

lemma notification_step_run:
  assumes "notification_step ns m m'" and ns: "in_memory ns"
  shows "\<exists>as. outbox_run (de_lib (ns_env ns)) as m m'"
  using assms(1)
proof (cases rule: notification_step.cases)
  case (test i og fresh now)
  have "is_new (webhook_test_event (de_lib (ns_env ns)) webhook fresh now)" for webhook
    by (simp add: webhook_test_event_def Let_def is_new_outbox_event)
  then show ?thesis
    using test_webhook_outcome [OF ns, of i og fresh now m] unfolding test
    by (metis outbox_run.finish outbox_run_single outbox_step.enqueue prod.collapse)
next
  case (ingest event now)
  then show ?thesis using ingest_memory [OF ns] by (metis prod.collapse)
next
  case (pass tokens now schedule completed)
  then show ?thesis using process_due_memory ns by (metis in_memory_def prod.collapse)
qed (auto intro!: run_configure simp: rotate_webhook_secret_def administration_keeps_outbox [OF ns]
    save_template_def delete_notification_def delete_subscription_def delete_webhook_def)

lemma notification_steps_ok:
  assumes "(notification_step ns)\<^sup>*\<^sup>* m m'" and "in_memory ns" and "outbox_ok m"
  shows "outbox_ok m'"
  using assms by (induction rule: rtranclp_induct) (auto dest!: notification_step_run intro: outbox_ok_run)

end
