(* ===== verification/Notification_Properties.thy ===== *)
theory Notification_Properties
  imports Notification_Guarantees
begin

text \<open>
  What the notification service promises: its outbox stays well formed, an ended delivery stays
  ended, a worker's lease is exclusive, an event is queued once, the network is asked only for
  authorized deliveries, every delivery ends, and a worker changes no configuration.
\<close>

section \<open>The outbox\<close>

text \<open>C35. Whatever operations of the service ran on its in-memory repository, in any order and with any arguments, every outbox entry is stored under its own identifier, has one of the six states, carries a lease exactly while it is being delivered, and has lost its payload once it ended.\<close>

theorem outbox_stays_well_formed:
  assumes "in_memory ns" and "(notification_step ns)\<^sup>*\<^sup>* (memory_default t) m"
  shows "outbox_ok m"
  using assms outbox_ok_default by (blast intro: notification_steps_ok)

text \<open>C36. Along any run of the outbox, a delivery that was delivered, abandoned or expired is the same record ever after, without payload or lease, and no completion changes it.\<close>

theorem ended_deliveries_are_final:
  assumes reach: "outbox_run nl as (memory_default t) m" and later: "outbox_run nl bs m m'"
    and e: "map_of (nm_outbox m) k = Some e" and ended: "ob_status e \<in> set ENDED"
  shows "map_of (nm_outbox m') k = Some e \<and> ob_payload e = [] \<and> ob_lease_token e = None
    \<and> mark_webhook_event_delivered k w d c m' = (False, m')
    \<and> mark_webhook_event_failed k w n x error code m' = (False, m')"
proof -
  have ok: "outbox_ok m" by (rule outbox_ok_run [OF reach outbox_ok_default])
  then have "event_ok e" using e by (simp add: outbox_ok_def)
  then have "ob_payload e = []" "ob_lease_token e = None" "ob_status e \<noteq> ''delivering''"
    using ended by (auto simp: event_ok_def ENDED_def)
  then show ?thesis
    using ended_run [OF later ok e ended]
    by (simp add: mark_webhook_event_delivered_def mark_webhook_event_failed_def holds_lease_def)
qed


section \<open>Ingestion\<close>

lemma settings_fields:
  "endpoint_settings a = endpoint_settings b \<Longrightarrow>
     we_id a = we_id b \<and> we_enabled a = we_enabled b \<and> we_organization_id a = we_organization_id b
     \<and> we_event_types a = we_event_types b"
  by (cases a; cases b) (simp add: endpoint_settings_def)

lemma delivers_settings:
  assumes "keeps_settings m m'" and "delivers nl event t' m' subscription = Some e'"
  shows "\<exists>e. delivers nl event t m subscription = Some e \<and> ob_id e = ob_id e'"
proof -
  obtain i w' where i: "sb_delivery_target_id subscription = Some i" and w': "map_of (nm_webhooks m') i = Some w'"
    using assms(2) by (auto simp: delivers_def split: option.splits bind_splits)
  obtain w where w: "map_of (nm_webhooks m) i = Some w" "endpoint_settings w = endpoint_settings w'"
    using assms(1) w' unfolding keeps_settings_def by (metis (no_types) map_option_eq_Some)
  then show ?thesis
    using settings_fields [OF w(2)] assms(2) i w'
    by (auto simp: delivers_def fan_out_decision_def delivery_of_def new_webhook_outbox_event_def
        split: if_splits)
qed

lemma contains_key_step:
  "outbox_step nl a m m' \<Longrightarrow> outbox_ok m \<Longrightarrow> contains_key k (nm_outbox m) \<Longrightarrow> contains_key k (nm_outbox m')"
  using outbox_step_event by (fastforce simp: contains_key_def outbox_ok_def)

lemma contains_key_run:
  "outbox_run nl as m m' \<Longrightarrow> outbox_ok m \<Longrightarrow> contains_key k (nm_outbox m) \<Longrightarrow> contains_key k (nm_outbox m')"
  by (induction rule: outbox_run.induct) (auto intro: contains_key_step outbox_ok_step)

text \<open>C38. Once an event was ingested, ingesting it again queues no delivery and changes nothing, whatever the workers made of the first deliveries in between.\<close>

theorem ingestion_queues_each_delivery_once:
  assumes ns: "in_memory ns" and wf: "outbox_ok m"
    and first: "ingest_event ns event now m = (Inr r, m')"
    and between: "outbox_run (de_lib (ns_env ns)) as m' m2" "keeps_settings m' m2"
    and again: "ingest_event ns event now' m2 = (r', m3)"
  shows "m3 = m2 \<and> (case r' of Inl _ \<Rightarrow> True | Inr answer \<Rightarrow> map_of answer ''deliveries'' = Some (json_of_int 0))"
proof -
  let ?nl = "de_lib (ns_env ns)"
  let ?matching = "\<lambda>m. filter (matching_subscription event) (list_subscriptions (Some (ei_organization_id event)) m)"
  have ok: "outbox_ok m'"
    using ingest_memory [OF ns first] outbox_ok_run wf by blast
  obtain x where loop: "fan_out_all ns event (event_created_at (ns_tp ns) event now) (?matching m) 0 0 m = (Inr x, m')"
    using first ns by (auto simp: ingest_event_def Let_def in_memory_def from_repository_def
        bind_result_Inr split: sum.splits prod.splits)
  have "nm_subscriptions m2 = nm_subscriptions m"
    using between(2) ingest_memory [OF ns first] by (simp add: keeps_settings_def same_config_def)
  then have same: "?matching m2 = ?matching m" by (simp add: list_subscriptions_def)
  have "all_queued ?nl event m' (?matching m)" by (rule fan_out_queues_all [OF ns loop])
  then have queued: "all_queued ?nl event m2 (?matching m2)"
    unfolding all_queued_def same
    using delivers_settings [OF between(2)] contains_key_run [OF between(1) ok] by metis
  show ?thesis
  proof (cases "validate_event (ns_tp ns) event")
    case (Inl e)
    then show ?thesis using again by (auto simp: ingest_event_def)
  next
    case (Inr u)
    obtain r2 m4 where second:
      "fan_out_all ns event (event_created_at (ns_tp ns) event now') (?matching m2) 0 0 m2 = (r2, m4)"
      by fastforce
    have "m4 = m2 \<and> (\<forall>d' f'. r2 = Inr (d', f') \<longrightarrow> d' = 0)"
      by (rule fan_out_again [OF ns queued second])
    then show ?thesis
      using again second Inr ns
      by (auto simp: ingest_event_def Let_def in_memory_def from_repository_def split: sum.splits)
  qed
qed

section \<open>The worker\<close>


lemma expires_run:
  assumes "outbox_run nl as m m'" and "outbox_ok m" and "map_of (nm_outbox m) k = Some e"
  shows "\<exists>e'. map_of (nm_outbox m') k = Some e' \<and> ob_expires_at e' = ob_expires_at e"
  using assms
proof (induction arbitrary: e rule: outbox_run.induct)
  case (more a m m' as m'')
  obtain e' where e': "map_of (nm_outbox m') k = Some e'" "event_move a e e'"
    using outbox_step_event [OF more.hyps(1), of k e] more.prems by (auto simp: outbox_ok_def)
  have "ob_expires_at e' = ob_expires_at e"
    using e'(2) by (cases rule: event_move.cases)
      (auto simp: expire_if_due_def leased_def delivered_event_def failed_event_def Let_def)
  then show ?case using more.IH [OF _ e'(1)] outbox_ok_step [OF more.hyps(1)] more.prems by auto
qed simp

text \<open>C40. Every delivery ends. Whatever happened to it since, the first pass of the worker at or after the end of its retention leaves it delivered, abandoned or expired, without its payload.\<close>

theorem every_delivery_ends:
  assumes reach: "outbox_run nl as (memory_default t) m" and e: "map_of (nm_outbox m) k = Some e"
    and later: "outbox_run nl bs m m1" and due: "ob_expires_at e \<le> now"
    and pass: "process_due (memory_repository nl) de tokens now schedule completed m1 = (Inr r, m2)"
  shows "\<exists>e'. map_of (nm_outbox m2) k = Some e' \<and> ob_status e' \<in> set ENDED \<and> ob_payload e' = []"
proof -
  have ok: "outbox_ok m" by (rule outbox_ok_run [OF reach outbox_ok_default])
  have ok1: "outbox_ok m1" by (rule outbox_ok_run [OF later ok])
  obtain e1 where e1: "map_of (nm_outbox m1) k = Some e1" "ob_expires_at e1 \<le> now"
    using expires_run [OF later ok e] due by auto
  from pass obtain le limit events mc rs where
    claim: "claim_due_webhook_events (nl_tp nl) tokens now le limit m1 = (events, mc)"
    and rest: "process_all (memory_repository nl) de now schedule completed events mc = (rs, m2)"
    by (cases rule: process_due_cases) auto
  obtain e2 where e2: "map_of (nm_outbox mc) k = Some e2" "claimed_to now le e1 e2"
    using claim_event(2) [OF _ claim e1(1)] ok1 by (auto simp: outbox_ok_def)
  have okc: "outbox_ok mc" using outbox_ok_step [OF outbox_step.claim [OF claim] ok1] .
  have "event_ok e1" using ok1 e1 by (simp add: outbox_ok_def)
  then have "ob_status e2 \<in> set ENDED"
    using e2(2) e1(2)
    by (auto simp: claimed_to_def is_due_def expire_if_due_def event_ok_def ENDED_def)
  moreover obtain cs where "outbox_run nl cs mc m2" using process_all_memory [OF rest] by blast
  ultimately have "map_of (nm_outbox m2) k = Some e2" using ended_run okc e2(1) by blast
  moreover have "event_ok e2" using okc e2(1) by (simp add: outbox_ok_def)
  ultimately show ?thesis using \<open>ob_status e2 \<in> set ENDED\<close> by (auto simp: event_ok_def)
qed

text \<open>A pass of the worker changes no notification, template or subscription, and of an endpoint only the statistics: it creates none, brings back no deleted one, and keeps its address, secret, event types and state.\<close>

theorem passes_keep_configuration:
  assumes "process_due (memory_repository nl) de tokens now schedule completed m = (r, m')"
  shows "keeps_settings m m'"
  using process_due_memory [OF assms] by blast

section \<open>Concrete runs\<close>

definition quick_lib :: notify_lib where
  "quick_lib = sample_notify_lib\<lparr>nl_time_json := (\<lambda>_. ''now'')\<rparr>"

definition sample_env :: delivery_env where
  "sample_env = \<lparr> de_lib = quick_lib, de_webhook_lib = sample_webhook_lib, de_var = (\<lambda>_. None),
     de_read_file = (\<lambda>_. None), de_pinned_client = (\<lambda>_ _. True), de_send = (\<lambda>_. Some (200, 5)),
     de_unwrap = (\<lambda>_ _ s. Inr s) \<rparr>"

definition sample_service :: "MemoryState notification_service" where
  "sample_service =
     \<lparr> ns_repository = memory_repository quick_lib, ns_wrap = None, ns_env = sample_env \<rparr>"

lemma sample_in_memory: "in_memory sample_service"
  by (simp add: in_memory_def sample_service_def sample_env_def)

definition sample_pending :: WebhookOutboxEvent where
  "sample_pending = sample_event\<lparr>ob_status := ''pending'', ob_attempt_count := 0,
     ob_lease_token := None, ob_lease_expires_at := None, ob_expires_at := 100\<rparr>"

definition sample_queued :: MemoryState where
  "sample_queued = (memory_default 0)\<lparr>nm_outbox := [(''d1'', sample_pending)]\<rparr>"

definition sample_leased :: MemoryState where
  "sample_leased = (memory_default 0)\<lparr>nm_outbox := [(''d1'', leased ''u'' 30 sample_pending)]\<rparr>"

definition sample_delivered :: MemoryState where
  "sample_delivered = (memory_default 0)\<lparr>nm_outbox :=
     [(''d1'', delivered_event 20 200 (leased ''u'' 30 sample_pending))]\<rparr>"

lemma sample_enqueue:
  "enqueue_webhook_event quick_lib sample_pending (memory_default 0) = (Inr True, sample_queued)"
  by code_simp

lemma sample_outbox_claim:
  "claim_due_webhook_events demo (\<lambda>_. 1) 0 30 1 sample_queued =
     ([leased ''u'' 30 sample_pending], sample_leased)"
  by code_simp


lemma sample_complete:
  "mark_webhook_event_delivered ''d1'' ''u'' 20 200 sample_leased = (True, sample_delivered)"
  by code_simp

lemma quick_tp [simp]: "nl_tp quick_lib = demo"
  by (simp add: quick_lib_def sample_notify_lib_def)

lemma sample_run: "\<exists>as. outbox_run quick_lib as (memory_default 0) sample_leased"
proof -
  have "is_new sample_pending" by (simp add: is_new_def sample_pending_def)
  then show ?thesis
    using sample_enqueue sample_outbox_claim
    by (metis outbox_run.intros outbox_step.claim outbox_step.enqueue quick_tp)
qed

lemma sample_run_delivered: "\<exists>as. outbox_run quick_lib as (memory_default 0) sample_delivered"
  using sample_run outbox_run_append outbox_run_single [OF outbox_step.complete [OF sample_complete]]
  by blast

definition sample_request :: CreateWebhookRequest where
  "sample_request = \<lparr> cw_organization_id = ''o'', cw_name = ''n'', cw_url = ''h'', cw_description = None,
     cw_event_types = [], cw_secret = None, cw_enabled = True \<rparr>"

text \<open>An endpoint is created with a signing secret of 32 characters, and its test queues a delivery.\<close>

definition sample_created :: MemoryState where
  "sample_created =
     snd (create_webhook sample_service sample_request (replicate 32 (CHR ''a'')) 4 6 (memory_default 0))"

definition sample_hook :: WebhookEndpoint where
  "sample_hook = new_webhook demo sample_request (replicate 32 (CHR ''a'')) 4 6"

definition sample_test :: WebhookOutboxEvent where
  "sample_test = webhook_test_event quick_lib sample_hook 5 7"

definition sample_tested :: MemoryState where
  "sample_tested = snd (test_webhook sample_service ''uuuu'' ''o'' 5 7 sample_created)"

lemma sample_created_hook:
  "sample_created = (memory_default 0)\<lparr>nm_webhooks := [(''uuuu'', sample_hook)]\<rparr>"
  by code_simp

lemma sample_hook_found:
  "webhook_of_organization sample_service ''uuuu'' ''o'' sample_created = Inr sample_hook"
  by code_simp

lemma sample_test_public:
  "\<not> contains_private_key (nl_parse_tree quick_lib) (outbox_event_json quick_lib sample_test)"
  by code_simp

lemma sample_tested_outbox: "nm_outbox sample_tested = [(ob_id sample_test, sample_test)]"
proof -
  have env: "de_lib (ns_env sample_service) = quick_lib"
      "ns_repository sample_service = memory_repository quick_lib" "we_enabled sample_hook"
    by (simp_all add: sample_service_def sample_env_def sample_hook_def new_webhook_def sample_request_def)
  have empty: "nm_outbox sample_created = []"
    by (simp add: sample_created_hook memory_default_def)
  then have "enqueue_webhook_event quick_lib sample_test sample_created
      = (Inr True, sample_created\<lparr>nm_outbox := [(ob_id sample_test, sample_test)]\<rparr>)"
    using sample_test_public
    by (simp add: enqueue_webhook_event_def reject_private_record_def contains_key_def hm_insert_def map_insert_def)
  then show ?thesis
    by (simp add: sample_tested_def test_webhook_def sample_hook_found env after_write_def
        flip: sample_test_def)
qed

theorem outbox_stays_well_formed_witness:
  "outbox_ok sample_tested \<and> nm_outbox sample_tested = [(ob_id sample_test, sample_test)]"
proof -
  have "notification_step sample_service (memory_default 0) sample_created"
    unfolding sample_created_def by (rule notification_step.create_webhook)
  moreover have "notification_step sample_service sample_created sample_tested"
    unfolding sample_tested_def by (rule notification_step.test)
  ultimately have "(notification_step sample_service)\<^sup>*\<^sup>* (memory_default 0) sample_tested" by auto
  then show ?thesis
    using outbox_stays_well_formed [OF sample_in_memory] sample_tested_outbox by blast
qed

theorem ended_deliveries_are_final_witness:
  "map_of (nm_outbox sample_delivered) ''d1'' = Some (delivered_event 20 200 (leased ''u'' 30 sample_pending))
   \<and> mark_webhook_event_delivered ''d1'' ''u'' 25 200 sample_delivered = (False, sample_delivered)"
proof -
  obtain as where run: "outbox_run quick_lib as (memory_default 0) sample_delivered"
    using sample_run_delivered by blast
  show ?thesis
    using ended_deliveries_are_final [OF run outbox_run.finish, of "''d1''"
        "delivered_event 20 200 (leased ''u'' 30 sample_pending)" "''u''" 25 200]
    by (simp add: sample_delivered_def delivered_event_def ENDED_def)
qed


theorem every_delivery_ends_witness:
  "\<exists>e'. map_of (nm_outbox (snd (process_due (memory_repository quick_lib) sample_env (\<lambda>_. 3) 100 [(0, 100)] 101 sample_leased))) ''d1''
      = Some e' \<and> ob_status e' \<in> set ENDED \<and> ob_payload e' = []"
proof -
  obtain as where run: "outbox_run quick_lib as (memory_default 0) sample_leased"
    using sample_run by blast
  have config: "outbox_lease_seconds (de_var sample_env) = Inr 30" "outbox_batch_size (de_var sample_env) = Inr 25"
    by (simp_all add: outbox_lease_seconds_def outbox_batch_size_def bounded_def sample_env_def)
  obtain r m2 where pass: "process_due (memory_repository quick_lib) sample_env (\<lambda>_. 3) 100 [(0, 100)] 101 sample_leased = (Inr r, m2)"
    by (cases "claim_due_webhook_events demo (\<lambda>_. 3) 100 (100 + seconds 30) 25 sample_leased")
      (auto simp: process_due_def config split_beta)
  show ?thesis
    using every_delivery_ends [OF run _ outbox_run.finish _ pass, of "''d1''" "leased ''u'' 30 sample_pending"] pass
    by (simp add: sample_leased_def leased_def sample_pending_def)
qed

theorem passes_keep_configuration_witness:
  "keeps_settings sample_leased (snd (process_due (memory_repository quick_lib) sample_env (\<lambda>_. 3) 100 [(0, 100)] 101 sample_leased))"
  by (rule passes_keep_configuration [OF prod.collapse [symmetric]])

definition sample_subscription :: Subscription where
  "sample_subscription = \<lparr> sb_id = ''s'', sb_organization_id = ''o'', sb_name = ''n'', sb_description = None,
     sb_event_types = [''application.*''], sb_filter_config = [], sb_retry_policy = retry_policy_default,
     sb_delivery_target_id = Some ''w'', sb_enabled = True, sb_created_at = 0, sb_updated_at = 0 \<rparr>"

definition sample_endpoint :: WebhookEndpoint where
  "sample_endpoint = \<lparr> we_id = ''w'', we_organization_id = ''o'', we_name = ''n'', we_url = ''h'',
     we_secret = replicate 32 (CHR ''a''), we_secret_envelope = None, we_secret_hint = None,
     we_description = None, we_event_types = [], we_enabled = True, we_failure_count = 0,
     we_last_failure_at = None, we_last_triggered_at = None, we_circuit_breaker_open_until = None,
     we_created_at = 0, we_updated_at = 0 \<rparr>"

definition sample_state :: MemoryState where
  "sample_state = (memory_default 0)\<lparr>nm_subscriptions := [(''s'', sample_subscription)],
     nm_webhooks := [(''w'', sample_endpoint)]\<rparr>"

definition sample_ingest :: EventIngestRequest where
  "sample_ingest = \<lparr> ei_event_id = ''e'', ei_event_type = ''application.approved'',
     ei_aggregate_id = ''a'', ei_aggregate_type = ''application'', ei_organization_id = ''o'',
     ei_correlation_id = ''c'',
     ei_data = [(''applicant_id'', JStr ''p''), (''application_id'', JStr ''a''),
       (''credential_template_id'', JStr ''t''), (''status'', JStr ''APPROVED'')],
     ei_timestamp = None \<rparr>"


lemma sample_valid: "validate_event demo sample_ingest = Inr ()"
  by code_simp

lemma sample_matching:
  "filter (matching_subscription sample_ingest) (list_subscriptions (Some ''o'') sample_state) = [sample_subscription]"
  by code_simp

lemma sample_delivery:
  "\<exists>e. delivers quick_lib sample_ingest 3 sample_state sample_subscription = Some e
     \<and> \<not> contains_private_key (nl_parse_tree quick_lib) (outbox_event_json quick_lib e)"
proof -
  have "case delivers quick_lib sample_ingest 3 sample_state sample_subscription of
      None \<Rightarrow> False
    | Some e \<Rightarrow> \<not> contains_private_key (nl_parse_tree quick_lib) (outbox_event_json quick_lib e)"
    by code_simp
  then show ?thesis by (auto split: option.splits)
qed

lemma sample_ingested: "\<exists>r m'. ingest_event sample_service sample_ingest 3 sample_state = (Inr r, m')"
proof -
  obtain e where e: "delivers quick_lib sample_ingest 3 sample_state sample_subscription = Some e"
      "\<not> contains_private_key (nl_parse_tree quick_lib) (outbox_event_json quick_lib e)"
    using sample_delivery by blast
  have env: "ns_env sample_service = sample_env" "de_lib sample_env = quick_lib"
      "ns_repository sample_service = memory_repository quick_lib"
    by (simp_all add: sample_service_def sample_env_def)
  obtain m1 where "enqueue_webhook_event quick_lib e sample_state = (Inr True, m1)"
    using e(2) by (simp add: enqueue_webhook_event_def reject_private_record_def sample_state_def
        memory_default_def contains_key_def)
  moreover obtain f' where "fan_out_all sample_service sample_ingest 3 [sample_subscription] 0 0 sample_state =
    (case delivers (de_lib (ns_env sample_service)) sample_ingest 3 sample_state sample_subscription of
       None \<Rightarrow> fan_out_all sample_service sample_ingest 3 [] 0 f' sample_state
     | Some e \<Rightarrow> after_write (enqueue_webhook_event (de_lib (ns_env sample_service)) e sample_state)
         (\<lambda>queued s. fan_out_all sample_service sample_ingest 3 [] (if queued then 0 + 1 else 0) 0 s))"
    using fan_out_step [OF sample_in_memory] by blast
  ultimately have loop: "fan_out_all sample_service sample_ingest 3 [sample_subscription] 0 0 sample_state = (Inr (1, 0), m1)"
    by (simp add: env e(1) after_write_def)
  have at_now: "event_created_at demo sample_ingest 3 = 3"
    by (simp add: event_created_at_def sample_ingest_def)
  have org: "ei_organization_id sample_ingest = ''o''" by (simp add: sample_ingest_def)
  show ?thesis
    by (simp add: ingest_event_def env sample_valid from_repository_def org sample_matching at_now loop
        del: fan_out_all.simps)
qed

theorem ingestion_queues_each_delivery_once_witness:
  "\<exists>m'. snd (ingest_event sample_service sample_ingest 9 m') = m' \<and> m' = snd (ingest_event sample_service sample_ingest 3 sample_state)"
proof -
  obtain r m' where first: "ingest_event sample_service sample_ingest 3 sample_state = (Inr r, m')"
    using sample_ingested by blast
  have ok: "outbox_ok sample_state"
    by (simp add: outbox_ok_def sample_state_def memory_default_def wf_map_def)
  have "keeps_settings m' m'" by (simp add: keeps_settings_def)
  from ingestion_queues_each_delivery_once [OF sample_in_memory ok first outbox_run.finish this prod.collapse [symmetric], of 9]
  show ?thesis using first by simp
qed





end
