(* ===== verification/Organization_Domain.thy ===== *)
theory Organization_Domain
  imports Third_Party Key_Material Rust_Chars
begin

text \<open>
  \<open>rust/services/organization/src/domain.rs\<close>: organizations, members, roles and permissions, join
  codes, API keys and policy sets. Library functions beside \<open>third_party\<close> are the record
  \<open>org_lib\<close>: what the standard library knows of Unicode, and what PostgreSQL does to the values
  it stores and compares. Fresh identifiers and random draws are arguments.
\<close>

record org_lib =
  ol_tp :: third_party
  ol_uuid_v5 :: "uuid \<Rightarrow> string \<Rightarrow> uuid"              \<comment> \<open>\<open>Uuid::new_v5\<close>\<close>
  ol_to_lowercase :: "string \<Rightarrow> string"              \<comment> \<open>\<open>str::to_lowercase\<close>\<close>
  ol_to_uppercase :: "string \<Rightarrow> string"              \<comment> \<open>\<open>str::to_uppercase\<close>\<close>
  ol_parse_tree :: "string \<Rightarrow> jnode option"          \<comment> \<open>JSON text, duplicates kept\<close>
  ol_sql_lower :: "string \<Rightarrow> string"                 \<comment> \<open>SQL \<open>lower\<close>\<close>
  ol_collation :: "string \<Rightarrow> string"                 \<comment> \<open>sort key of the collation of the database\<close>
  ol_ilike :: "string \<Rightarrow> string \<Rightarrow> bool"             \<comment> \<open>SQL \<open>text ILIKE pattern\<close>\<close>
  ol_jsonb :: "json \<Rightarrow> json"                         \<comment> \<open>a value after a round trip through \<open>jsonb\<close>\<close>
  ol_json_text :: "json \<Rightarrow> string"                  \<comment> \<open>SQL \<open>jsonb::text\<close>\<close>
  ol_timestamptz :: "time \<Rightarrow> time"                   \<comment> \<open>a time after a round trip through \<open>timestamptz\<close>\<close>

type_synonym u32 = "32 word"

definition APPLICANT_PERMISSION_KEYS :: "string list" where
  "APPLICANT_PERMISSION_KEYS =
     [''application-template:view'', ''application:view'', ''credential-template:view'',
      ''issuance:view'', ''organization:view'', ''wallet:view'']"

datatype DomainError =
    InvitationNotPending
  | InvalidOrganizationName
  | JoinCodeUsageOverflow
  | InvalidOrganizationType string
  | InvalidJoinMechanism string
  | InvalidViewMode string

section \<open>Permissions and roles\<close>

record Permission =
  pm_id :: uuid
  pm_resource :: string
  pm_action :: string
  pm_description :: "string option"

definition permission_new :: "uuid \<Rightarrow> string \<Rightarrow> string \<Rightarrow> Permission" where
  "permission_new fresh resource action =
     \<lparr> pm_id = fresh, pm_resource = resource, pm_action = action, pm_description = None \<rparr>"

definition permission_key :: "Permission \<Rightarrow> string" where
  "permission_key p = pm_resource p @ '':'' @ pm_action p"

record Role =
  rl_id :: uuid
  rl_organization_id :: uuid
  rl_name :: string
  rl_display_name :: "string option"
  rl_description :: "string option"
  rl_is_system :: bool
  rl_is_default_for_new_members :: bool
  rl_permissions :: "Permission list"
  rl_created_at :: time
  rl_updated_at :: time

definition permission_keys :: "Role \<Rightarrow> string set" where
  "permission_keys r = permission_key ` set (rl_permissions r)"

definition role_has_permission :: "string \<Rightarrow> string \<Rightarrow> Role \<Rightarrow> bool" where
  "role_has_permission resource action r =
     (\<exists>p \<in> set (rl_permissions r). pm_resource p = resource \<and> pm_action p = action)"

definition add_permission :: "Permission \<Rightarrow> time \<Rightarrow> Role \<Rightarrow> Role" where
  "add_permission p now r =
     (if permission_key p \<notin> permission_keys r
      then r\<lparr>rl_permissions := rl_permissions r @ [p], rl_updated_at := now\<rparr> else r)"

definition remove_permission :: "string \<Rightarrow> string \<Rightarrow> time \<Rightarrow> Role \<Rightarrow> Role" where
  "remove_permission resource action now r =
     r\<lparr>rl_permissions :=
         filter (\<lambda>p. pm_resource p \<noteq> resource \<or> pm_action p \<noteq> action) (rl_permissions r),
       rl_updated_at := now\<rparr>"

definition set_permissions :: "Permission list \<Rightarrow> time \<Rightarrow> Role \<Rightarrow> Role" where
  "set_permissions ps now r = r\<lparr>rl_permissions := ps, rl_updated_at := now\<rparr>"

section \<open>Enumerations\<close>

datatype OrganizationStatus = OsActive | OsSuspended | OsPending

fun organization_status_text :: "OrganizationStatus \<Rightarrow> string" where
  "organization_status_text OsActive = ''active''"
| "organization_status_text OsSuspended = ''suspended''"
| "organization_status_text OsPending = ''pending''"

datatype OrganizationType =
  Enterprise | Startup | Individual | Government | Education | Healthcare | Financial | OtherType

fun organization_type_text :: "OrganizationType \<Rightarrow> string" where
  "organization_type_text Enterprise = ''enterprise''"
| "organization_type_text Startup = ''startup''"
| "organization_type_text Individual = ''individual''"
| "organization_type_text Government = ''government''"
| "organization_type_text Education = ''education''"
| "organization_type_text Healthcare = ''healthcare''"
| "organization_type_text Financial = ''financial''"
| "organization_type_text OtherType = ''other''"

definition organization_type_from_str :: "string \<Rightarrow> DomainError + OrganizationType" where
  "organization_type_from_str value =
     (let v = to_ascii_lowercase (trim value)
      in if v = ''enterprise'' \<or> v = ''vendor'' then Inr Enterprise
         else if v = ''startup'' then Inr Startup
         else if v = ''individual'' \<or> v = ''nonprofit'' then Inr Individual
         else if v = ''government'' then Inr Government
         else if v = ''education'' then Inr Education
         else if v = ''healthcare'' then Inr Healthcare
         else if v = ''financial'' then Inr Financial
         else if v = ''other'' then Inr OtherType
         else Inl (InvalidOrganizationType value))"

datatype MemberStatus = MsActive | MsPending | MsInvited | MsDeactivated

fun member_status_text :: "MemberStatus \<Rightarrow> string" where
  "member_status_text MsActive = ''active''"
| "member_status_text MsPending = ''pending''"
| "member_status_text MsInvited = ''invited''"
| "member_status_text MsDeactivated = ''deactivated''"

datatype ApiKeyStatus = KeyActive | KeyRevoked | KeyExpired

fun api_key_status_text :: "ApiKeyStatus \<Rightarrow> string" where
  "api_key_status_text KeyActive = ''active''"
| "api_key_status_text KeyRevoked = ''revoked''"
| "api_key_status_text KeyExpired = ''expired''"

datatype ViewMode = ApplicantView | OrgAdminView

fun view_mode_text :: "ViewMode \<Rightarrow> string" where
  "view_mode_text ApplicantView = ''applicant''"
| "view_mode_text OrgAdminView = ''org_admin''"

definition view_mode_from_str :: "string \<Rightarrow> DomainError + ViewMode" where
  "view_mode_from_str value =
     (let v = to_ascii_lowercase (trim value)
      in if v = ''applicant'' then Inr ApplicantView
         else if v = ''org_admin'' then Inr OrgAdminView
         else Inl (InvalidViewMode value))"

datatype JoinMechanism = JoinOpen | JoinByCode | JoinInvite | JoinDomain

fun join_mechanism_text :: "JoinMechanism \<Rightarrow> string" where
  "join_mechanism_text JoinOpen = ''open''"
| "join_mechanism_text JoinByCode = ''code''"
| "join_mechanism_text JoinInvite = ''invite''"
| "join_mechanism_text JoinDomain = ''domain''"

definition join_mechanism_from_str :: "string \<Rightarrow> DomainError + JoinMechanism" where
  "join_mechanism_from_str value =
     (let v = to_ascii_lowercase (trim value)
      in if v = ''open'' then Inr JoinOpen
         else if v = ''code'' then Inr JoinByCode
         else if v = ''invite'' then Inr JoinInvite
         else if v = ''domain'' then Inr JoinDomain
         else Inl (InvalidJoinMechanism value))"

section \<open>Audit events and preferences\<close>

record AuditEvent =
  au_id :: uuid
  au_organization_id :: uuid
  au_event_type :: string
  au_action :: string
  au_category :: string
  au_resource_type :: string
  au_resource_id :: "string option"
  au_resource_name :: "string option"
  au_actor_id :: "string option"
  au_actor_type :: string
  au_severity :: string
  au_message :: string
  au_changes :: "json option"
  au_metadata :: json
  au_timestamp :: time

record ConsoleContextPreference =
  cp_id :: uuid
  cp_user_id :: string
  cp_last_view_mode :: ViewMode
  cp_last_active_org_id :: "uuid option"
  cp_created_at :: time
  cp_updated_at :: time

section \<open>Join codes\<close>

record JoinCode =
  jc_id :: uuid
  jc_organization_id :: uuid
  jc_code :: string
  jc_created_by :: string
  jc_expires_at :: "time option"
  jc_max_uses :: "u32 option"
  jc_use_count :: u32
  jc_is_active :: bool
  jc_created_at :: time
  jc_updated_at :: time

definition JOIN_CODE_ALPHABET :: string where
  "JOIN_CODE_ALPHABET = ''ABCDEFGHJKLMNPQRSTUVWXYZ23456789''"

text \<open>The eight random indices are the arguments \<open>draw 0\<close> to \<open>draw 7\<close>.\<close>

definition generate_code :: "(nat \<Rightarrow> nat) \<Rightarrow> string" where
  "generate_code draw =
     map (\<lambda>i. JOIN_CODE_ALPHABET ! (draw i mod length JOIN_CODE_ALPHABET)) [0..<8]"

definition join_code_is_valid_at :: "time \<Rightarrow> JoinCode \<Rightarrow> bool" where
  "join_code_is_valid_at now jc =
     (jc_is_active jc
      \<and> (case jc_expires_at jc of None \<Rightarrow> True | Some expires_at \<Rightarrow> now \<le> expires_at)
      \<and> (case jc_max_uses jc of None \<Rightarrow> True | Some max_uses \<Rightarrow> jc_use_count jc < max_uses))"

definition checked_add_u32 :: "u32 \<Rightarrow> u32 \<Rightarrow> u32 option" where
  "checked_add_u32 a b = (if unat a + unat b < 2 ^ 32 then Some (a + b) else None)"

definition increment_usage :: "time \<Rightarrow> JoinCode \<Rightarrow> DomainError + JoinCode" where
  "increment_usage now jc =
     bind_result (ok_or JoinCodeUsageOverflow (checked_add_u32 (jc_use_count jc) 1))
       (\<lambda>n. Inr (jc\<lparr>jc_use_count := n, jc_updated_at := now\<rparr>))"

section \<open>Members\<close>

record Member =
  mb_id :: uuid
  mb_organization_id :: uuid
  mb_user_id :: string
  mb_email :: "string option"
  mb_status :: MemberStatus
  mb_roles :: "Role list"
  mb_invited_by :: "string option"
  mb_invited_at :: "time option"
  mb_joined_at :: "time option"
  mb_created_at :: time
  mb_updated_at :: time

definition member_create ::
  "uuid \<Rightarrow> uuid \<Rightarrow> string \<Rightarrow> string option \<Rightarrow> MemberStatus \<Rightarrow> time \<Rightarrow> Member" where
  "member_create fresh organization_id user_id email status now =
     \<lparr> mb_id = fresh, mb_organization_id = organization_id, mb_user_id = user_id,
       mb_email = email, mb_status = status, mb_roles = [], mb_invited_by = None,
       mb_invited_at = None, mb_joined_at = Some now, mb_created_at = now, mb_updated_at = now \<rparr>"

definition create_invitation :: "uuid \<Rightarrow> uuid \<Rightarrow> string \<Rightarrow> string \<Rightarrow> time \<Rightarrow> Member" where
  "create_invitation fresh organization_id email invited_by now =
     \<lparr> mb_id = fresh, mb_organization_id = organization_id, mb_user_id = '''',
       mb_email = Some email, mb_status = MsInvited, mb_roles = [],
       mb_invited_by = Some invited_by, mb_invited_at = Some now, mb_joined_at = None,
       mb_created_at = now, mb_updated_at = now \<rparr>"

definition member_accept_invitation :: "string \<Rightarrow> time \<Rightarrow> Member \<Rightarrow> DomainError + Member" where
  "member_accept_invitation user_id now m =
     (if mb_status m \<noteq> MsInvited then Inl InvitationNotPending
      else Inr (m\<lparr>mb_user_id := user_id, mb_status := MsActive, mb_joined_at := Some now,
                  mb_updated_at := now\<rparr>))"

definition member_deactivate :: "time \<Rightarrow> Member \<Rightarrow> Member" where
  "member_deactivate now m = m\<lparr>mb_status := MsDeactivated, mb_updated_at := now\<rparr>"

definition effective_permissions :: "Member \<Rightarrow> string set" where
  "effective_permissions m = \<Union> (permission_keys ` set (mb_roles m))"

definition role_names :: "Member \<Rightarrow> string set" where
  "role_names m = rl_name ` set (mb_roles m)"

definition member_has_permission :: "string \<Rightarrow> string option \<Rightarrow> Member \<Rightarrow> bool" where
  "member_has_permission resource action m =
     ((case action of None \<Rightarrow> resource | Some a \<Rightarrow> resource @ '':'' @ a) \<in> effective_permissions m)"

definition has_role :: "string list \<Rightarrow> Member \<Rightarrow> bool" where
  "has_role names m = (\<exists>name \<in> set names. name \<in> role_names m)"

definition has_org_console_access :: "Member \<Rightarrow> bool" where
  "has_org_console_access m =
     (\<exists>key \<in> effective_permissions m. key \<notin> set APPLICANT_PERMISSION_KEYS)"

definition is_owner :: "Member \<Rightarrow> bool" where
  "is_owner m = has_role [''owner''] m"

section \<open>Organizations\<close>

record Organization =
  og_id :: uuid
  og_name :: string
  og_display_name :: "string option"
  og_slug :: string
  og_description :: "string option"
  og_org_type :: OrganizationType
  og_status :: OrganizationStatus
  og_owner_id :: string
  og_join_code :: "string option"
  og_visibility :: string
  og_join_mechanism :: JoinMechanism
  og_requires_approval :: bool
  og_is_discoverable :: bool
  og_contact_email :: "string option"
  og_contact_phone :: "string option"
  og_website :: "string option"
  og_plan :: string
  og_plan_expires_at :: "time option"
  og_settings :: jmap
  og_created_at :: time
  og_updated_at :: time

record OrganizationCreate =
  oc_name :: string
  oc_owner_id :: string
  oc_org_type :: OrganizationType
  oc_display_name :: "string option"
  oc_description :: "string option"
  oc_join_mechanism :: JoinMechanism
  oc_requires_approval :: bool
  oc_is_discoverable :: bool
  oc_now :: time

text \<open>
  \<open>[^a-z0-9]+\<close> replaced by a dash: the flag says that the text before is such a run. A character
  beyond ASCII is bytes outside of the class, so a run of bytes is a run of characters.
\<close>

definition slug_char :: "char \<Rightarrow> bool" where
  "slug_char c = (97 \<le> byte c \<and> byte c \<le> 122 \<or> 48 \<le> byte c \<and> byte c \<le> 57)"

fun dash_runs :: "bool \<Rightarrow> string \<Rightarrow> string" where
  "dash_runs run [] = []"
| "dash_runs run (c # cs) =
     (if slug_char c then c # dash_runs False cs
      else if run then dash_runs True cs
      else CHR ''-'' # dash_runs True cs)"

definition trim_dashes :: "string \<Rightarrow> string" where
  "trim_dashes s =
     rev (dropWhile (\<lambda>c. c = CHR ''-'') (rev (dropWhile (\<lambda>c. c = CHR ''-'') s)))"

definition generate_slug :: "org_lib \<Rightarrow> uuid \<Rightarrow> string \<Rightarrow> DomainError + string" where
  "generate_slug ol fresh name =
     (let prefix = trim_dashes (dash_runs False (ol_to_lowercase ol name))
      in if prefix = [] then Inl InvalidOrganizationName
         else Inr (prefix @ ''-'' @ take 8 (tp_uuid_simple (ol_tp ol) fresh)))"

text \<open>The three fresh identifiers are the one of the slug, of the organization and of the owner.\<close>

definition organization_create ::
  "org_lib \<Rightarrow> uuid \<Rightarrow> uuid \<Rightarrow> uuid \<Rightarrow> OrganizationCreate \<Rightarrow> DomainError + (Organization \<times> Member)" where
  "organization_create ol slug_id organization_id member_id cmd =
     bind_result (generate_slug ol slug_id (oc_name cmd)) (\<lambda>slug.
       Inr (\<lparr> og_id = organization_id, og_name = oc_name cmd,
              og_display_name = Some (case oc_display_name cmd of None \<Rightarrow> oc_name cmd | Some d \<Rightarrow> d),
              og_slug = slug, og_description = oc_description cmd, og_org_type = oc_org_type cmd,
              og_status = OsActive, og_owner_id = oc_owner_id cmd, og_join_code = None,
              og_visibility = (if oc_is_discoverable cmd then ''PUBLIC'' else ''PRIVATE''),
              og_join_mechanism = oc_join_mechanism cmd,
              og_requires_approval = oc_requires_approval cmd,
              og_is_discoverable = oc_is_discoverable cmd, og_contact_email = None,
              og_contact_phone = None, og_website = None, og_plan = ''free'',
              og_plan_expires_at = None, og_settings = [], og_created_at = oc_now cmd,
              og_updated_at = oc_now cmd \<rparr>,
            member_create member_id organization_id (oc_owner_id cmd) None MsActive (oc_now cmd)))"

definition organization_activate :: "time \<Rightarrow> Organization \<Rightarrow> Organization" where
  "organization_activate now og = og\<lparr>og_status := OsActive, og_updated_at := now\<rparr>"

definition organization_suspend :: "time \<Rightarrow> Organization \<Rightarrow> Organization" where
  "organization_suspend now og = og\<lparr>og_status := OsSuspended, og_updated_at := now\<rparr>"

definition update_settings :: "jmap \<Rightarrow> time \<Rightarrow> Organization \<Rightarrow> Organization" where
  "update_settings settings now og =
     og\<lparr>og_settings := map_extend (og_settings og) settings, og_updated_at := now\<rparr>"

section \<open>API keys\<close>

record ApiKey =
  ak_id :: uuid
  ak_organization_id :: uuid
  ak_name :: string
  ak_description :: "string option"
  ak_key_prefix :: string
  ak_key_hash :: string
  ak_scopes :: "string list"
  ak_scope_type :: string
  ak_deployment_profile_id :: "uuid option"
  ak_status :: ApiKeyStatus
  ak_enabled :: bool
  ak_rate_limit :: "u32 option"
  ak_created_by :: string
  ak_last_used_at :: "time option"
  ak_last_used_ip :: "string option"
  ak_expires_at :: "time option"
  ak_created_at :: time
  ak_updated_at :: time

record ApiKeySpec =
  as_organization_id :: uuid
  as_name :: string
  as_created_by :: string
  as_scopes :: "string list option"
  as_description :: "string option"
  as_expires_at :: "time option"
  as_now :: time

definition hash_key :: "org_lib \<Rightarrow> string \<Rightarrow> string" where
  "hash_key ol raw_key = tp_sha256_hex (ol_tp ol) raw_key"

definition api_key_from_raw :: "org_lib \<Rightarrow> uuid \<Rightarrow> ApiKeySpec \<Rightarrow> string \<Rightarrow> ApiKey" where
  "api_key_from_raw ol fresh spec raw_key =
     \<lparr> ak_id = fresh, ak_organization_id = as_organization_id spec, ak_name = as_name spec,
       ak_description = as_description spec,
       ak_key_prefix = (if starts_with ''mk_test_'' raw_key then ''mk_test_'' else ''mk_live_''),
       ak_key_hash = hash_key ol raw_key,
       ak_scopes = (case as_scopes spec of None \<Rightarrow> [''credentials:read'', ''credentials:issue'']
                    | Some scopes \<Rightarrow> scopes),
       ak_scope_type = ''ORGANIZATION'', ak_deployment_profile_id = None,
       ak_status = KeyActive, ak_enabled = True, ak_rate_limit = None,
       ak_created_by = as_created_by spec, ak_last_used_at = None, ak_last_used_ip = None,
       ak_expires_at = as_expires_at spec, ak_created_at = as_now spec,
       ak_updated_at = as_now spec \<rparr>"

text \<open>The token is the 43 random alphanumeric characters that the code draws.\<close>

definition api_key_create ::
  "org_lib \<Rightarrow> uuid \<Rightarrow> string \<Rightarrow> ApiKeySpec \<Rightarrow> bool \<Rightarrow> ApiKey \<times> string" where
  "api_key_create ol fresh token spec is_test =
     (let raw_key = (if is_test then ''mk_test_'' else ''mk_live_'') @ token
      in (api_key_from_raw ol fresh spec raw_key, raw_key))"

definition api_key_verify :: "org_lib \<Rightarrow> string \<Rightarrow> ApiKey \<Rightarrow> bool" where
  "api_key_verify ol raw_key ak = (ak_key_hash ak = hash_key ol raw_key)"

definition record_usage :: "string option \<Rightarrow> time \<Rightarrow> ApiKey \<Rightarrow> ApiKey" where
  "record_usage ip_address now ak = ak\<lparr>ak_last_used_at := Some now, ak_last_used_ip := ip_address\<rparr>"

definition api_key_revoke :: "time \<Rightarrow> ApiKey \<Rightarrow> ApiKey" where
  "api_key_revoke now ak = ak\<lparr>ak_status := KeyRevoked, ak_enabled := False, ak_updated_at := now\<rparr>"

definition api_key_is_enabled :: "ApiKey \<Rightarrow> bool" where
  "api_key_is_enabled ak = (ak_status ak = KeyActive \<and> ak_enabled ak)"

definition api_key_is_valid_at :: "time \<Rightarrow> ApiKey \<Rightarrow> bool" where
  "api_key_is_valid_at now ak =
     (api_key_is_enabled ak
      \<and> (case ak_expires_at ak of None \<Rightarrow> True | Some expires_at \<Rightarrow> now \<le> expires_at))"

definition has_scope :: "string \<Rightarrow> ApiKey \<Rightarrow> bool" where
  "has_scope scope ak =
     ((\<exists>item \<in> set (ak_scopes ak). item = scope \<or> item = ''*'')
      \<or> (case split_once (CHR '':'') scope of None \<Rightarrow> False
         | Some (left, right) \<Rightarrow> right @ '':'' @ left \<in> set (ak_scopes ak)))"

section \<open>Policy sets\<close>

datatype PolicySetStatus = PsDraft | PsActive | PsArchived

fun policy_set_status_text :: "PolicySetStatus \<Rightarrow> string" where
  "policy_set_status_text PsDraft = ''DRAFT''"
| "policy_set_status_text PsActive = ''ACTIVE''"
| "policy_set_status_text PsArchived = ''ARCHIVED''"

datatype PolicySetType = AccessControl | CredentialVerification | ApprovalRules | CustomPolicies

fun policy_set_type_text :: "PolicySetType \<Rightarrow> string" where
  "policy_set_type_text AccessControl = ''ACCESS_CONTROL''"
| "policy_set_type_text CredentialVerification = ''CREDENTIAL_VERIFICATION''"
| "policy_set_type_text ApprovalRules = ''APPROVAL_RULES''"
| "policy_set_type_text CustomPolicies = ''CUSTOM''"

record PolicySet =
  ps_id :: uuid
  ps_organization_id :: uuid
  ps_name :: string
  ps_description :: "string option"
  ps_policy_type :: PolicySetType
  ps_status :: PolicySetStatus
  ps_cedar_policies :: string
  ps_cedar_schema_version :: string
  ps_created_by :: "string option"
  ps_created_at :: time
  ps_updated_at :: time

record PolicySetSpec =
  pp_organization_id :: uuid
  pp_name :: string
  pp_cedar_policies :: string
  pp_policy_type :: PolicySetType
  pp_description :: "string option"
  pp_created_by :: "string option"
  pp_cedar_schema_version :: "string option"
  pp_now :: time

definition policy_set_create :: "uuid \<Rightarrow> PolicySetSpec \<Rightarrow> PolicySet" where
  "policy_set_create fresh spec =
     \<lparr> ps_id = fresh, ps_organization_id = pp_organization_id spec, ps_name = pp_name spec,
       ps_description = pp_description spec, ps_policy_type = pp_policy_type spec,
       ps_status = PsDraft, ps_cedar_policies = pp_cedar_policies spec,
       ps_cedar_schema_version =
         (case pp_cedar_schema_version spec of None \<Rightarrow> ''MIP/1.0'' | Some v \<Rightarrow> v),
       ps_created_by = pp_created_by spec, ps_created_at = pp_now spec,
       ps_updated_at = pp_now spec \<rparr>"

definition policy_set_archive :: "time \<Rightarrow> PolicySet \<Rightarrow> PolicySet" where
  "policy_set_archive now ps = ps\<lparr>ps_status := PsArchived, ps_updated_at := now\<rparr>"

definition policy_set_activate :: "time \<Rightarrow> PolicySet \<Rightarrow> PolicySet" where
  "policy_set_activate now ps = ps\<lparr>ps_status := PsActive, ps_updated_at := now\<rparr>"

definition update_policies :: "string \<Rightarrow> time \<Rightarrow> PolicySet \<Rightarrow> PolicySet" where
  "update_policies cedar_policies now ps =
     ps\<lparr>ps_cedar_policies := cedar_policies, ps_updated_at := now\<rparr>"

section \<open>Facts\<close>

lemma slug_text:
  "set (dash_runs run s) \<subseteq> {c. slug_char c \<or> c = CHR ''-''}"
  by (induction run s rule: dash_runs.induct) auto

text \<open>A generated code is eight characters of the alphabet, so the length check of the table holds.\<close>

lemma generate_code_text:
  "length (generate_code draw) = 8 \<and> set (generate_code draw) \<subseteq> set JOIN_CODE_ALPHABET"
proof -
  have "0 < length JOIN_CODE_ALPHABET" by (simp add: JOIN_CODE_ALPHABET_def)
  then have "JOIN_CODE_ALPHABET ! (draw i mod length JOIN_CODE_ALPHABET) \<in> set JOIN_CODE_ALPHABET" for i
    by (intro nth_mem mod_less_divisor)
  then show ?thesis by (auto simp: generate_code_def)
qed

lemma checked_add_u32_Some:
  "checked_add_u32 a b = Some c \<Longrightarrow> unat c = unat a + unat b"
  by (auto simp: checked_add_u32_def unat_word_ariths take_bit_eq_mod split: if_splits)

text \<open>A valid code can be counted once more, and the count stays within its bound.\<close>

lemma increment_within_bound:
  assumes "join_code_is_valid_at now jc" and "jc_max_uses jc = Some mx"
  shows "\<exists>jc'. increment_usage now jc = Inr jc' \<and> jc_use_count jc' \<le> mx
    \<and> unat (jc_use_count jc') = Suc (unat (jc_use_count jc))"
proof -
  have lt: "unat (jc_use_count jc) < unat mx"
    using assms by (simp add: join_code_is_valid_at_def word_less_nat_alt)
  moreover have "unat mx < 2 ^ 32" using unsigned_less [of mx, where 'a = nat] by simp
  ultimately have "unat (jc_use_count jc) + unat (1 :: u32) < 2 ^ 32" by simp
  then obtain n where n: "checked_add_u32 (jc_use_count jc) 1 = Some n"
    by (simp add: checked_add_u32_def)
  then have "unat n = Suc (unat (jc_use_count jc))" by (auto dest: checked_add_u32_Some)
  then show ?thesis using n lt by (simp add: increment_usage_def word_le_nat_alt)
qed

lemma revoked_stays_invalid: "\<not> api_key_is_valid_at t (api_key_revoke now ak)"
  by (simp add: api_key_is_valid_at_def api_key_is_enabled_def api_key_revoke_def)

end
