(* ===== verification/Organization_Events.thy ===== *)
theory Organization_Events
  imports Organization_Domain
begin

text \<open>
  \<open>rust/services/organization/src/events.rs\<close>: the events of the organization service, the audit
  record and the message that each of them becomes. The message record has the attributes the code
  sets; the others are the defaults of the messaging library.
\<close>

datatype OrganizationEventKind =
    OrganizationCreated
  | OrganizationUpdated
  | MemberInvited
  | MemberAdded
  | MemberRemoved
  | ApiKeyCreated
  | ApiKeyRevoked
  | RoleCreated
  | RoleUpdated
  | RoleDeleted
  | RoleAssigned
  | RoleRemovedFromMember

fun event_type :: "OrganizationEventKind \<Rightarrow> string" where
  "event_type OrganizationCreated = ''organization.created.event''"
| "event_type OrganizationUpdated = ''organization.updated.event''"
| "event_type MemberInvited = ''member.invited.event''"
| "event_type MemberAdded = ''member.added.event''"
| "event_type MemberRemoved = ''member.removed.event''"
| "event_type ApiKeyCreated = ''api.key.created.event''"
| "event_type ApiKeyRevoked = ''api.key.revoked.event''"
| "event_type RoleCreated = ''role.created.event''"
| "event_type RoleUpdated = ''role.updated.event''"
| "event_type RoleDeleted = ''role.deleted.event''"
| "event_type RoleAssigned = ''role.assigned.event''"
| "event_type RoleRemovedFromMember = ''role.removed.from.member.event''"

fun required_fields :: "OrganizationEventKind \<Rightarrow> string list" where
  "required_fields OrganizationCreated = [''name'', ''owner_user_id'']"
| "required_fields OrganizationUpdated = [''updated_fields'']"
| "required_fields MemberInvited = [''member_id'', ''email'', ''invited_by'']"
| "required_fields MemberAdded = [''member_id'', ''user_id'', ''roles'']"
| "required_fields MemberRemoved = [''member_id'', ''user_id'']"
| "required_fields ApiKeyCreated = [''api_key_id'', ''name'', ''created_by'']"
| "required_fields ApiKeyRevoked = [''api_key_id'', ''revoked_by'']"
| "required_fields RoleCreated = [''role_id'', ''role_name'', ''created_by'']"
| "required_fields RoleUpdated = [''role_id'', ''role_name'', ''updated_by'']"
| "required_fields RoleDeleted = [''role_id'', ''role_name'', ''deleted_by'']"
| "required_fields RoleAssigned = [''member_id'', ''role_id'', ''role_name'', ''assigned_by'']"
| "required_fields RoleRemovedFromMember = [''member_id'', ''role_id'', ''role_name'', ''removed_by'']"

datatype OrganizationEventError =
    MissingOrganization
  | MissingField string
  | EventTimestamp
  | InvalidInstallerActor

record OrganizationEvent =
  oe_event_id :: uuid
  oe_kind :: OrganizationEventKind
  oe_organization_id :: uuid
  oe_data :: jmap
  oe_timestamp :: time
  oe_correlation_id :: "string option"
  oe_causation_id :: "string option"

definition event_field_present :: "jmap \<Rightarrow> string \<Rightarrow> bool" where
  "event_field_present data field =
     (case map_of data field of
        None \<Rightarrow> False
      | Some JNull \<Rightarrow> False
      | Some (JStr s) \<Rightarrow> \<not> blank s
      | Some _ \<Rightarrow> True)"

definition organization_event_new ::
  "third_party \<Rightarrow> uuid \<Rightarrow> OrganizationEventKind \<Rightarrow> uuid \<Rightarrow> jmap \<Rightarrow> time
   \<Rightarrow> OrganizationEventError + OrganizationEvent" where
  "organization_event_new tp fresh kind organization_id data timestamp =
     (if organization_id = 0 then Inl MissingOrganization
      else let data = map_insert ''organization_id'' (JStr (tp_uuid_show tp organization_id)) data
      in case find (\<lambda>field. \<not> event_field_present data field) (required_fields kind) of
           Some field \<Rightarrow> Inl (MissingField field)
         | None \<Rightarrow>
             Inr \<lparr> oe_event_id = fresh, oe_kind = kind, oe_organization_id = organization_id,
                   oe_data = data, oe_timestamp = timestamp, oe_correlation_id = None,
                   oe_causation_id = None \<rparr>)"

definition aggregate_id :: "third_party \<Rightarrow> OrganizationEvent \<Rightarrow> string" where
  "aggregate_id tp e =
     (case List.map_filter (\<lambda>field. Option.bind (map_of (oe_data e) field) as_str)
             [''aggregate_id'', ''application_id'', ''applicant_id'', ''member_id'', ''user_id''] of
        v # _ \<Rightarrow> (if v \<noteq> [] then v else tp_uuid_show tp (oe_organization_id e))
      | [] \<Rightarrow> tp_uuid_show tp (oe_organization_id e))"

section \<open>The message\<close>

record Message =
  ms_message_id :: string
  ms_created_at_ms :: u64
  ms_correlation_id :: "string option"
  ms_causation_id :: "string option"
  ms_tenant_id :: "string option"
  ms_source_service :: "string option"
  ms_partition_key :: "string option"
  ms_deduplication_key :: "string option"
  ms_message_type :: string
  ms_topic :: string
  ms_routing_key :: string
  ms_payload :: json
  ms_retry_count :: nat
  ms_max_retries :: nat

definition timestamp_millis :: "time \<Rightarrow> int" where
  "timestamp_millis t = t div 1000000"

definition to_message :: "third_party \<Rightarrow> OrganizationEvent \<Rightarrow> OrganizationEventError + Message" where
  "to_message tp e =
     (if timestamp_millis (oe_timestamp e) < 0 then Inl EventTimestamp
      else let event_id = tp_uuid_show tp (oe_event_id e);
               organization_id = tp_uuid_show tp (oe_organization_id e);
               kind = event_type (oe_kind e)
      in Inr \<lparr> ms_message_id = event_id,
               ms_created_at_ms = of_int (timestamp_millis (oe_timestamp e)),
               ms_correlation_id = oe_correlation_id e, ms_causation_id = oe_causation_id e,
               ms_tenant_id = Some organization_id, ms_source_service = Some ''organization'',
               ms_partition_key = Some organization_id, ms_deduplication_key = Some event_id,
               ms_message_type = kind, ms_topic = ''marty.organization.events'',
               ms_routing_key = kind,
               ms_payload = JObj [(''event_id'', JStr event_id), (''event_type'', JStr kind),
                 (''aggregate_id'', JStr (aggregate_id tp e)),
                 (''aggregate_type'', JStr ''organization''),
                 (''organization_id'', JStr organization_id), (''data'', JObj (oe_data e)),
                 (''timestamp'', JStr (tp_rfc3339 tp (oe_timestamp e))),
                 (''correlation_id'', json_opt_str (oe_correlation_id e))],
               ms_retry_count = 0, ms_max_retries = 3 \<rparr>)"

section \<open>The audit record\<close>

record AuditDescriptor =
  ad_action :: string
  ad_category :: string
  ad_resource_type :: string
  ad_resource_id :: "string option"
  ad_resource_name :: "string option"
  ad_actor_id :: "string option"
  ad_actor_type :: string
  ad_severity :: string
  ad_message :: string
  ad_changes :: "json option"

definition event_value :: "OrganizationEvent \<Rightarrow> string \<Rightarrow> OrganizationEventError + json" where
  "event_value e field = ok_or (MissingField field) (map_of (oe_data e) field)"

definition event_text :: "OrganizationEvent \<Rightarrow> string \<Rightarrow> OrganizationEventError + string" where
  "event_text e field =
     bind_result (event_value e field) (\<lambda>v.
       case as_str v of
         Some s \<Rightarrow> (if s \<noteq> [] then Inr s else Inl (MissingField field))
       | None \<Rightarrow> Inl (MissingField field))"

text \<open>\<open>get_version_num\<close>: the upper half of the seventh byte.\<close>

definition uuid_version :: "uuid \<Rightarrow> nat" where
  "uuid_version u = unat (drop_bit 76 u) mod 16"

definition installer_actor :: "third_party \<Rightarrow> uuid \<Rightarrow> string" where
  "installer_actor tp i = ''installer:'' @ tp_uuid_show tp i"

definition api_key_actor_type ::
  "third_party \<Rightarrow> OrganizationEvent \<Rightarrow> string \<Rightarrow> OrganizationEventError + string" where
  "api_key_actor_type tp e actor_field =
     (case map_of (oe_data e) ''installer_bootstrap_installation_id'' of
        None \<Rightarrow> Inr ''user''
      | Some v \<Rightarrow>
          bind_result (ok_or InvalidInstallerActor (as_str v)) (\<lambda>installation.
          bind_result (ok_or InvalidInstallerActor (tp_uuid_parse tp installation)) (\<lambda>i.
            if uuid_version i \<noteq> 4 \<or> tp_uuid_show tp i \<noteq> installation then Inl InvalidInstallerActor
            else bind_result (event_text e actor_field) (\<lambda>actor.
              if actor \<noteq> installer_actor tp i then Inl InvalidInstallerActor
              else Inr ''system''))))"

text \<open>A descriptor from the three texts that differ between events.\<close>

definition described ::
  "string \<Rightarrow> string \<Rightarrow> string \<Rightarrow> string option \<Rightarrow> string option \<Rightarrow> string option \<Rightarrow> string \<Rightarrow> string
   \<Rightarrow> string \<Rightarrow> AuditDescriptor" where
  "described action category resource_type resource_id resource_name actor_id actor_type severity message =
     \<lparr> ad_action = action, ad_category = category, ad_resource_type = resource_type,
       ad_resource_id = resource_id, ad_resource_name = resource_name, ad_actor_id = actor_id,
       ad_actor_type = actor_type, ad_severity = severity, ad_message = message,
       ad_changes = None \<rparr>"

definition role_descriptor ::
  "OrganizationEvent \<Rightarrow> string \<Rightarrow> string \<Rightarrow> string \<Rightarrow> bool \<Rightarrow> bool
   \<Rightarrow> OrganizationEventError + AuditDescriptor" where
  "role_descriptor e action actor_field verb warning member_resource =
     bind_result (event_text e (if member_resource then ''member_id'' else ''role_id'')) (\<lambda>resource.
     bind_result (event_text e ''role_name'') (\<lambda>name.
     bind_result (event_text e actor_field) (\<lambda>actor.
       Inr (described action ''team'' ''role'' (Some resource) (Some name) (Some actor) ''user''
              (if warning then ''warning'' else ''info'') (''Role '' @ name @ '' '' @ verb)))))"

fun audit_descriptor ::
  "third_party \<Rightarrow> OrganizationEventKind \<Rightarrow> OrganizationEvent \<Rightarrow> OrganizationEventError + AuditDescriptor" where
  "audit_descriptor tp OrganizationCreated e =
     bind_result (event_text e ''name'') (\<lambda>name.
     bind_result (event_text e ''owner_user_id'') (\<lambda>owner.
       Inr (described ''organization.created'' ''settings'' ''organization''
              (Some (tp_uuid_show tp (oe_organization_id e))) (Some name) (Some owner) ''user''
              ''info'' (''Organization '' @ name @ '' created''))))"
| "audit_descriptor tp OrganizationUpdated e =
     bind_result (event_value e ''updated_fields'') (\<lambda>updated.
       Inr (described ''organization.updated'' ''settings'' ''organization''
              (Some (tp_uuid_show tp (oe_organization_id e))) None None ''system'' ''info''
              ''Organization settings updated''
            \<lparr>ad_changes := Some (JObj [(''updated_fields'', updated)])\<rparr>))"
| "audit_descriptor tp MemberInvited e =
     bind_result (event_text e ''member_id'') (\<lambda>member.
     bind_result (event_text e ''email'') (\<lambda>email.
     bind_result (event_text e ''invited_by'') (\<lambda>inviter.
       Inr (described ''team.member.invited'' ''team'' ''member'' (Some member) (Some email)
              (Some inviter) ''user'' ''info'' (''Member invitation sent to '' @ email)))))"
| "audit_descriptor tp MemberAdded e =
     bind_result (event_text e ''member_id'') (\<lambda>member.
     bind_result (event_text e ''user_id'') (\<lambda>user.
       Inr (described ''team.member.added'' ''team'' ''member'' (Some member) (Some user)
              (Some user) ''user'' ''info'' ''Member added to organization'')))"
| "audit_descriptor tp MemberRemoved e =
     bind_result (event_text e ''member_id'') (\<lambda>member.
     bind_result (event_text e ''user_id'') (\<lambda>user.
       Inr (described ''team.member.removed'' ''team'' ''member'' (Some member) (Some user)
              (Some user) ''user'' ''warning'' ''Member removed from organization'')))"
| "audit_descriptor tp ApiKeyCreated e =
     bind_result (event_text e ''api_key_id'') (\<lambda>key.
     bind_result (event_text e ''name'') (\<lambda>name.
     bind_result (event_text e ''created_by'') (\<lambda>actor.
     bind_result (api_key_actor_type tp e ''created_by'') (\<lambda>actor_type.
       Inr (described ''api_key.created'' ''settings'' ''api_key'' (Some key) (Some name)
              (Some actor) actor_type ''info'' (''API key '' @ name @ '' created''))))))"
| "audit_descriptor tp ApiKeyRevoked e =
     bind_result (event_text e ''api_key_id'') (\<lambda>key.
     bind_result (event_text e ''revoked_by'') (\<lambda>actor.
     bind_result (api_key_actor_type tp e ''revoked_by'') (\<lambda>actor_type.
       Inr (described ''api_key.revoked'' ''settings'' ''api_key'' (Some key) None
              (Some actor) actor_type ''warning'' ''API key revoked''))))"
| "audit_descriptor tp RoleCreated e =
     role_descriptor e ''team.role.created'' ''created_by'' ''created'' False False"
| "audit_descriptor tp RoleUpdated e =
     role_descriptor e ''team.role.updated'' ''updated_by'' ''updated'' False False"
| "audit_descriptor tp RoleDeleted e =
     role_descriptor e ''team.role.deleted'' ''deleted_by'' ''deleted'' True False"
| "audit_descriptor tp RoleAssigned e =
     role_descriptor e ''team.role.assigned'' ''assigned_by'' ''assigned'' False True"
| "audit_descriptor tp RoleRemovedFromMember e =
     role_descriptor e ''team.role.removed'' ''removed_by'' ''removed'' True True"

definition to_audit_event ::
  "third_party \<Rightarrow> uuid \<Rightarrow> OrganizationEvent \<Rightarrow> OrganizationEventError + AuditEvent" where
  "to_audit_event tp fresh e =
     bind_result (audit_descriptor tp (oe_kind e) e) (\<lambda>d.
       Inr \<lparr> au_id = fresh, au_organization_id = oe_organization_id e,
             au_event_type = event_type (oe_kind e), au_action = ad_action d,
             au_category = ad_category d, au_resource_type = ad_resource_type d,
             au_resource_id = ad_resource_id d, au_resource_name = ad_resource_name d,
             au_actor_id = ad_actor_id d,
             au_actor_type = (if ad_actor_id d = Some [] then ''system'' else ad_actor_type d),
             au_severity = ad_severity d, au_message = ad_message d, au_changes = ad_changes d,
             au_metadata = JObj [(''source_service'', JStr ''organization''),
               (''source_event_id'', JStr (tp_uuid_show tp (oe_event_id e))),
               (''source_event_type'', JStr (event_type (oe_kind e))),
               (''event_data'', JObj (oe_data e))],
             au_timestamp = oe_timestamp e \<rparr>)"

text \<open>The data as text, in key order: a string as it is, another value as JSON text.\<close>

definition event_stream_data :: "third_party \<Rightarrow> OrganizationEvent \<Rightarrow> (string \<times> string) list" where
  "event_stream_data tp e =
     fold (\<lambda>(k, v). bt_insert k (case as_str v of Some s \<Rightarrow> s | None \<Rightarrow> tp_json_show tp v))
       (oe_data e) []"

text \<open>
  \<open>OrganizationEventPublisher.publish\<close>: the audit sink and the transport are operations on a state
  of their own.
\<close>

datatype ('ra, 'mt) PublisherError = Projection OrganizationEventError | AuditFailed 'ra | TransportFailed 'mt

definition publish_event ::
  "third_party \<Rightarrow> (AuditEvent \<Rightarrow> 's \<Rightarrow> ('ra + unit) \<times> 's) \<Rightarrow> (Message \<Rightarrow> 's \<Rightarrow> ('mt + unit) \<times> 's)
   \<Rightarrow> uuid \<Rightarrow> OrganizationEvent \<Rightarrow> 's \<Rightarrow> (('ra, 'mt) PublisherError + unit) \<times> 's" where
  "publish_event tp audit transport fresh e s =
     (case to_audit_event tp fresh e of
        Inl x \<Rightarrow> (Inl (Projection x), s)
      | Inr record \<Rightarrow>
          (case to_message tp e of
             Inl x \<Rightarrow> (Inl (Projection x), s)
           | Inr message \<Rightarrow>
               (case audit record s of
                  (Inl x, s) \<Rightarrow> (Inl (AuditFailed x), s)
                | (Inr _, s) \<Rightarrow>
                    (case transport message s of
                       (Inl x, s) \<Rightarrow> (Inl (TransportFailed x), s)
                     | (Inr _, s) \<Rightarrow> (Inr (), s)))))"

section \<open>Facts\<close>

lemma event_new_data:
  "organization_event_new tp fresh kind og data t = Inr e \<Longrightarrow>
     og \<noteq> 0 \<and> oe_kind e = kind \<and> oe_organization_id e = og \<and> oe_timestamp e = t \<and> oe_event_id e = fresh
     \<and> oe_data e = map_insert ''organization_id'' (JStr (tp_uuid_show tp og)) data
     \<and> (\<forall>field \<in> set (required_fields kind). event_field_present (oe_data e) field)"
  by (auto simp: organization_event_new_def Let_def find_None_iff split: if_splits option.splits)

lemma to_audit_event_origin:
  "to_audit_event tp fresh e = Inr a \<Longrightarrow>
     au_id a = fresh \<and> au_organization_id a = oe_organization_id e \<and> au_timestamp a = oe_timestamp e
     \<and> au_event_type a = event_type (oe_kind e)"
  by (auto simp: to_audit_event_def bind_result_Inr)

lemma to_message_origin:
  "to_message tp e = Inr m \<Longrightarrow>
     ms_message_id m = tp_uuid_show tp (oe_event_id e) \<and> ms_message_type m = event_type (oe_kind e)
     \<and> ms_tenant_id m = Some (tp_uuid_show tp (oe_organization_id e))"
  by (auto simp: to_message_def Let_def split: if_splits)

end
