(* ===== verification/Organization_Store.thy ===== *)
theory Organization_Store
  imports Organization_Events
begin

text \<open>
  \<open>rust/services/organization/src/postgres.rs\<close> with the tables of \<open>migrations/0001\<close>: a database is
  a record of tables, a table the list of its rows, a query a function and a statement a function
  to the changed database or an error. The constraints of the tables are checked by the statements
  that could break them, and a deletion cascades as the foreign keys say. Columns hold text where
  the code parses it. A query without an order takes the rows in table order.

  A transaction is a function from a database to an error, which rolls it back, or a value and the
  database it commits. The row locks it takes (\<open>FOR UPDATE\<close>) make transactions on one row follow
  each other. An outage and a value too long for its column end a transaction in an error too; they
  are no further case of the state, which an error leaves as it was.
\<close>

datatype DbError = UniqueViolation | ForeignKeyViolation | CheckViolation | UnexpectedNull

datatype RepositoryError = Database DbError | InvalidData string string | PrivateKeyMaterial

section \<open>Rows\<close>

record organization_row =
  gr_id :: uuid
  gr_name :: string
  gr_display_name :: "string option"
  gr_description :: "string option"
  gr_status :: string
  gr_owner_id :: "string option"
  gr_slug :: "string option"
  gr_org_type :: "string option"
  gr_contact_email :: "string option"
  gr_contact_phone :: "string option"
  gr_website :: "string option"
  gr_settings :: json
  gr_plan :: string
  gr_plan_expires_at :: "time option"
  gr_join_mechanism :: string
  gr_requires_approval :: bool
  gr_is_discoverable :: bool
  gr_created_at :: time
  gr_updated_at :: time

record member_row =
  mr_id :: uuid
  mr_organization_id :: uuid
  mr_user_id :: "string option"
  mr_email :: "string option"
  mr_status :: string
  mr_invited_by :: "string option"
  mr_invited_at :: "time option"
  mr_joined_at :: "time option"
  mr_created_at :: time
  mr_updated_at :: time

record role_row =
  rr_id :: uuid
  rr_organization_id :: uuid
  rr_name :: string
  rr_display_name :: "string option"
  rr_description :: "string option"
  rr_is_system :: bool
  rr_is_default_for_new_members :: bool
  rr_created_at :: time
  rr_updated_at :: time

record api_key_row =
  kr_id :: uuid
  kr_organization_id :: uuid
  kr_name :: string
  kr_description :: "string option"
  kr_key_prefix :: string
  kr_key_hash :: string
  kr_scopes :: "string list"
  kr_scope_type :: string
  kr_deployment_profile_id :: "uuid option"
  kr_status :: string
  kr_enabled :: bool
  kr_rate_limit :: "int option"
  kr_created_by :: string
  kr_last_used_at :: "time option"
  kr_last_used_ip :: "string option"
  kr_expires_at :: "time option"
  kr_created_at :: time
  kr_updated_at :: time

record join_code_row =
  cr_id :: uuid
  cr_organization_id :: uuid
  cr_code :: string
  cr_created_by :: string
  cr_expires_at :: "time option"
  cr_max_uses :: "int option"
  cr_use_count :: int
  cr_is_active :: bool
  cr_created_at :: time
  cr_updated_at :: time

record policy_set_row =
  yr_id :: uuid
  yr_organization_id :: uuid
  yr_name :: string
  yr_description :: "string option"
  yr_policy_type :: string
  yr_status :: string
  yr_cedar_policies :: string
  yr_cedar_schema_version :: string
  yr_created_by :: "string option"
  yr_created_at :: time
  yr_updated_at :: time

record preference_row =
  fr_id :: uuid
  fr_user_id :: string
  fr_last_view_mode :: string
  fr_last_active_org_id :: "uuid option"
  fr_created_at :: time
  fr_updated_at :: time

record Db =
  db_organizations :: "organization_row list"
  db_members :: "member_row list"
  db_roles :: "role_row list"
  db_permissions :: "Permission list"
  db_role_permissions :: "(uuid \<times> uuid) list"
  db_member_roles :: "(uuid \<times> uuid) list"
  db_join_codes :: "join_code_row list"
  db_api_keys :: "api_key_row list"
  db_policy_sets :: "policy_set_row list"
  db_audit_events :: "AuditEvent list"
  db_preferences :: "preference_row list"
  db_outbox :: "Message list"

section \<open>Statements\<close>

text \<open>
  \<open>INSERT ... ON CONFLICT (key) DO UPDATE\<close>: \<open>upd old new\<close> is the updated row and \<open>clash\<close> a unique
  constraint other than the conflict target; \<open>ref\<close> is the foreign key of an inserted row.
\<close>

definition upsert ::
  "('r \<Rightarrow> 'k) \<Rightarrow> ('r \<Rightarrow> 'r \<Rightarrow> 'r) \<Rightarrow> ('r \<Rightarrow> 'r \<Rightarrow> bool) \<Rightarrow> bool \<Rightarrow> 'r \<Rightarrow> 'r list \<Rightarrow> RepositoryError + 'r list" where
  "upsert key upd clash ref r rows =
     (case find (\<lambda>old. key old = key r) rows of
        Some old \<Rightarrow>
          (let new = upd old r
           in if \<exists>other \<in> set rows. key other \<noteq> key r \<and> clash other new
              then Inl (Database UniqueViolation)
              else Inr (map (\<lambda>x. if key x = key r then new else x) rows))
      | None \<Rightarrow>
          (if \<exists>other \<in> set rows. clash other r then Inl (Database UniqueViolation)
           else if \<not> ref then Inl (Database ForeignKeyViolation)
           else Inr (rows @ [r])))"

text \<open>\<open>INSERT ... ON CONFLICT DO NOTHING\<close> of a link with two foreign keys.\<close>

definition insert_link ::
  "bool \<Rightarrow> 'l \<Rightarrow> 'l list \<Rightarrow> RepositoryError + 'l list" where
  "insert_link refs l links =
     (if l \<in> set links then Inr links
      else if \<not> refs then Inl (Database ForeignKeyViolation)
      else Inr (links @ [l]))"

fun insert_links ::
  "('l \<Rightarrow> bool) \<Rightarrow> 'l list \<Rightarrow> 'l list \<Rightarrow> RepositoryError + 'l list" where
  "insert_links refs [] links = Inr links"
| "insert_links refs (l # ls) links = bind_result (insert_link (refs l) l links) (insert_links refs ls)"

definition organization_exists :: "uuid \<Rightarrow> Db \<Rightarrow> bool" where
  "organization_exists i d = (\<exists>g \<in> set (db_organizations d). gr_id g = i)"

section \<open>Parsing of columns\<close>

definition parse_organization_type :: "string \<Rightarrow> RepositoryError + OrganizationType" where
  "parse_organization_type v =
     (if v = ''enterprise'' then Inr Enterprise
      else if v = ''startup'' then Inr Startup
      else if v = ''individual'' then Inr Individual
      else if v = ''government'' then Inr Government
      else if v = ''education'' then Inr Education
      else if v = ''healthcare'' then Inr Healthcare
      else if v = ''financial'' then Inr Financial
      else if v = ''other'' then Inr OtherType
      else Inl (InvalidData ''organizations.org_type'' v))"

definition parse_organization_status :: "string \<Rightarrow> RepositoryError + OrganizationStatus" where
  "parse_organization_status v =
     (if v = ''active'' then Inr OsActive
      else if v = ''suspended'' then Inr OsSuspended
      else if v = ''pending'' then Inr OsPending
      else Inl (InvalidData ''organizations.status'' v))"

definition parse_join_mechanism :: "string \<Rightarrow> RepositoryError + JoinMechanism" where
  "parse_join_mechanism v =
     (if v = ''open'' then Inr JoinOpen
      else if v = ''code'' then Inr JoinByCode
      else if v = ''invite'' then Inr JoinInvite
      else if v = ''domain'' then Inr JoinDomain
      else Inl (InvalidData ''organizations.join_mechanism'' v))"

definition parse_member_status :: "org_lib \<Rightarrow> string \<Rightarrow> RepositoryError + MemberStatus" where
  "parse_member_status ol value =
     (let v = ol_to_lowercase ol value
      in if v = ''active'' then Inr MsActive
         else if v = ''pending'' \<or> v = ''draft'' then Inr MsPending
         else if v = ''invited'' then Inr MsInvited
         else if v = ''deactivated'' then Inr MsDeactivated
         else Inl (InvalidData ''members.status'' value))"

definition parse_api_key_status :: "string \<Rightarrow> RepositoryError + ApiKeyStatus" where
  "parse_api_key_status v =
     (if v = ''active'' then Inr KeyActive
      else if v = ''revoked'' then Inr KeyRevoked
      else if v = ''expired'' then Inr KeyExpired
      else Inl (InvalidData ''api_keys.status'' v))"

definition parse_view_mode :: "string \<Rightarrow> RepositoryError + ViewMode" where
  "parse_view_mode v =
     (if v = ''applicant'' then Inr ApplicantView
      else if v = ''org_admin'' then Inr OrgAdminView
      else Inl (InvalidData ''console_context_preferences.last_view_mode'' v))"

definition parse_policy_set_status :: "org_lib \<Rightarrow> string \<Rightarrow> RepositoryError + PolicySetStatus" where
  "parse_policy_set_status ol value =
     (let v = ol_to_uppercase ol value
      in if v = ''DRAFT'' then Inr PsDraft
         else if v = ''ACTIVE'' then Inr PsActive
         else if v = ''ARCHIVED'' then Inr PsArchived
         else Inl (InvalidData ''policy_sets.status'' value))"

definition parse_policy_set_type :: "org_lib \<Rightarrow> string \<Rightarrow> RepositoryError + PolicySetType" where
  "parse_policy_set_type ol value =
     (let v = ol_to_uppercase ol value
      in if v = ''ACCESS_CONTROL'' then Inr AccessControl
         else if v = ''CREDENTIAL_VERIFICATION'' then Inr CredentialVerification
         else if v = ''APPROVAL_RULES'' then Inr ApprovalRules
         else if v = ''CUSTOM'' then Inr CustomPolicies
         else Inl (InvalidData ''policy_sets.policy_type'' value))"

section \<open>Organizations\<close>

definition organization_from_row :: "org_lib \<Rightarrow> organization_row \<Rightarrow> RepositoryError + Organization" where
  "organization_from_row ol g =
     (if contains_private_key (ol_parse_tree ol) (gr_settings g) then Inl PrivateKeyMaterial
      else
      bind_result (ok_or (InvalidData ''organizations.settings'' (tp_json_show (ol_tp ol) (gr_settings g)))
                     (as_object (gr_settings g))) (\<lambda>settings.
      bind_result (ok_or (Database UnexpectedNull) (gr_slug g)) (\<lambda>slug.
      bind_result (ok_or (Database UnexpectedNull) (gr_org_type g)) (\<lambda>org_type_text.
      bind_result (parse_organization_type org_type_text) (\<lambda>org_type.
      bind_result (parse_organization_status (gr_status g)) (\<lambda>status.
      bind_result (parse_join_mechanism (gr_join_mechanism g)) (\<lambda>join_mechanism.
        Inr \<lparr> og_id = gr_id g, og_name = gr_name g, og_display_name = gr_display_name g,
              og_slug = slug, og_description = gr_description g, og_org_type = org_type,
              og_status = status,
              og_owner_id = (case gr_owner_id g of None \<Rightarrow> [] | Some i \<Rightarrow> i),
              og_join_code = None,
              og_visibility = (if gr_is_discoverable g then ''PUBLIC'' else ''PRIVATE''),
              og_join_mechanism = join_mechanism, og_requires_approval = gr_requires_approval g,
              og_is_discoverable = gr_is_discoverable g, og_contact_email = gr_contact_email g,
              og_contact_phone = gr_contact_phone g, og_website = gr_website g,
              og_plan = gr_plan g, og_plan_expires_at = gr_plan_expires_at g,
              og_settings = settings, og_created_at = gr_created_at g,
              og_updated_at = gr_updated_at g \<rparr>)))))))"

definition organization_row_of :: "org_lib \<Rightarrow> Organization \<Rightarrow> organization_row" where
  "organization_row_of ol og =
     \<lparr> gr_id = og_id og, gr_name = og_name og, gr_display_name = og_display_name og,
       gr_description = og_description og, gr_status = organization_status_text (og_status og),
       gr_owner_id = Some (og_owner_id og), gr_slug = Some (og_slug og),
       gr_org_type = Some (organization_type_text (og_org_type og)),
       gr_contact_email = og_contact_email og, gr_contact_phone = og_contact_phone og,
       gr_website = og_website og, gr_settings = ol_jsonb ol (JObj (og_settings og)),
       gr_plan = og_plan og,
       gr_plan_expires_at = map_option (ol_timestamptz ol) (og_plan_expires_at og),
       gr_join_mechanism = join_mechanism_text (og_join_mechanism og),
       gr_requires_approval = og_requires_approval og, gr_is_discoverable = og_is_discoverable og,
       gr_created_at = ol_timestamptz ol (og_created_at og),
       gr_updated_at = ol_timestamptz ol (og_updated_at og) \<rparr>"

definition save_organization :: "org_lib \<Rightarrow> Organization \<Rightarrow> Db \<Rightarrow> RepositoryError + Db" where
  "save_organization ol og d =
     (if contains_private_key_map (ol_parse_tree ol) (og_settings og) then Inl PrivateKeyMaterial
      else
      bind_result
        (upsert gr_id (\<lambda>old new. new\<lparr>gr_created_at := gr_created_at old\<rparr>)
           (\<lambda>a b. gr_slug a \<noteq> None \<and> gr_slug a = gr_slug b) True
           (organization_row_of ol og) (db_organizations d))
        (\<lambda>t. Inr (d\<lparr>db_organizations := t\<rparr>)))"

definition fetch_optional :: "('r \<Rightarrow> bool) \<Rightarrow> ('r \<Rightarrow> RepositoryError + 'a) \<Rightarrow> 'r list \<Rightarrow> RepositoryError + 'a option" where
  "fetch_optional p from_row rows =
     (case find p rows of None \<Rightarrow> Inr None | Some r \<Rightarrow> bind_result (from_row r) (\<lambda>x. Inr (Some x)))"

fun fetch_all :: "('r \<Rightarrow> RepositoryError + 'a) \<Rightarrow> 'r list \<Rightarrow> RepositoryError + 'a list" where
  "fetch_all from_row [] = Inr []"
| "fetch_all from_row (r # rs) =
     bind_result (from_row r) (\<lambda>x. bind_result (fetch_all from_row rs) (\<lambda>xs. Inr (x # xs)))"

definition organization_by_id :: "org_lib \<Rightarrow> uuid \<Rightarrow> Db \<Rightarrow> RepositoryError + Organization option" where
  "organization_by_id ol i d =
     fetch_optional (\<lambda>g. gr_id g = i) (organization_from_row ol) (db_organizations d)"

definition organization_by_slug :: "org_lib \<Rightarrow> string \<Rightarrow> Db \<Rightarrow> RepositoryError + Organization option" where
  "organization_by_slug ol slug d =
     fetch_optional (\<lambda>g. gr_slug g = Some slug) (organization_from_row ol) (db_organizations d)"

definition organization_by_name_case_insensitive ::
  "org_lib \<Rightarrow> string \<Rightarrow> Db \<Rightarrow> RepositoryError + Organization option" where
  "organization_by_name_case_insensitive ol name d =
     fetch_optional (\<lambda>g. ol_sql_lower ol (gr_name g) = ol_sql_lower ol name)
       (organization_from_row ol) (db_organizations d)"

text \<open>\<open>ORDER BY created_at DESC LIMIT l OFFSET o\<close>, the limit at most 1000.\<close>

definition page :: "nat \<Rightarrow> nat \<Rightarrow> 'r list \<Rightarrow> 'r list" where
  "page limit offset rows = take (min limit 1000) (drop offset rows)"

definition newest_organizations :: "organization_row list \<Rightarrow> organization_row list" where
  "newest_organizations rows = sort_key (\<lambda>g. - gr_created_at g) rows"

definition list_organizations :: "org_lib \<Rightarrow> nat \<Rightarrow> nat \<Rightarrow> Db \<Rightarrow> RepositoryError + Organization list" where
  "list_organizations ol limit offset d =
     fetch_all (organization_from_row ol)
       (page limit offset (newest_organizations (db_organizations d)))"

definition ilike_option :: "org_lib \<Rightarrow> string option \<Rightarrow> string \<Rightarrow> bool" where
  "ilike_option ol column pattern = (case column of None \<Rightarrow> False | Some c \<Rightarrow> ol_ilike ol c pattern)"

definition organization_matches ::
  "org_lib \<Rightarrow> string option \<Rightarrow> OrganizationType option \<Rightarrow> JoinMechanism option \<Rightarrow> organization_row \<Rightarrow> bool" where
  "organization_matches ol search org_type join_mechanism g =
     ((case search of
         None \<Rightarrow> True
       | Some s \<Rightarrow> ol_ilike ol (gr_name g) (''%'' @ s @ ''%'')
                   \<or> ilike_option ol (gr_display_name g) (''%'' @ s @ ''%''))
      \<and> (case org_type of None \<Rightarrow> True | Some t \<Rightarrow> gr_org_type g = Some (organization_type_text t))
      \<and> (case join_mechanism of None \<Rightarrow> True | Some j \<Rightarrow> gr_join_mechanism g = join_mechanism_text j))"

definition list_organizations_filtered ::
  "org_lib \<Rightarrow> string option \<Rightarrow> OrganizationType option \<Rightarrow> JoinMechanism option \<Rightarrow> nat \<Rightarrow> nat \<Rightarrow> Db
   \<Rightarrow> RepositoryError + (Organization list \<times> nat)" where
  "list_organizations_filtered ol search org_type join_mechanism limit offset d =
     (let rows = filter (organization_matches ol search org_type join_mechanism) (db_organizations d)
      in bind_result (fetch_all (organization_from_row ol) (page limit offset (newest_organizations rows)))
           (\<lambda>page. Inr (page, length rows)))"

definition list_discoverable_organizations ::
  "org_lib \<Rightarrow> string option \<Rightarrow> OrganizationType option \<Rightarrow> JoinMechanism option \<Rightarrow> nat \<Rightarrow> nat \<Rightarrow> Db
   \<Rightarrow> RepositoryError + Organization list" where
  "list_discoverable_organizations ol search org_type join_mechanism limit offset d =
     fetch_all (organization_from_row ol)
       (page limit offset (newest_organizations
          (filter (\<lambda>g. gr_is_discoverable g \<and> gr_status g = ''active''
                       \<and> organization_matches ol search org_type join_mechanism g)
             (db_organizations d))))"

section \<open>Permissions and roles\<close>

definition same_permission_key :: "Permission \<Rightarrow> Permission \<Rightarrow> bool" where
  "same_permission_key a b = (pm_resource a = pm_resource b \<and> pm_action a = pm_action b)"

definition upsert_permission :: "Permission \<Rightarrow> Db \<Rightarrow> RepositoryError + (Permission \<times> Db)" where
  "upsert_permission p d =
     bind_result
       (upsert (\<lambda>q. (pm_resource q, pm_action q)) (\<lambda>old new. old\<lparr>pm_description := pm_description new\<rparr>)
          (\<lambda>a b. pm_id a = pm_id b) True p (db_permissions d))
       (\<lambda>t. case find (same_permission_key p) t of
              None \<Rightarrow> Inl (Database UnexpectedNull)
            | Some q \<Rightarrow> Inr (q, d\<lparr>db_permissions := t\<rparr>))"

definition permission_order :: "org_lib \<Rightarrow> Permission list \<Rightarrow> Permission list" where
  "permission_order ol ps =
     sort_key (\<lambda>p. ol_collation ol (pm_resource p)) (sort_key (\<lambda>p. ol_collation ol (pm_action p)) ps)"

definition list_permissions :: "org_lib \<Rightarrow> Db \<Rightarrow> Permission list" where
  "list_permissions ol d = permission_order ol (db_permissions d)"

definition permission_by_key :: "string \<Rightarrow> string \<Rightarrow> Db \<Rightarrow> Permission option" where
  "permission_by_key resource action d =
     find (\<lambda>p. pm_resource p = resource \<and> pm_action p = action) (db_permissions d)"

definition permissions_by_ids :: "org_lib \<Rightarrow> uuid list \<Rightarrow> Db \<Rightarrow> Permission list" where
  "permissions_by_ids ol ids d = permission_order ol (filter (\<lambda>p. pm_id p \<in> set ids) (db_permissions d))"

definition permissions_for_role :: "org_lib \<Rightarrow> uuid \<Rightarrow> Db \<Rightarrow> Permission list" where
  "permissions_for_role ol role_id d =
     permission_order ol
       (filter (\<lambda>p. (role_id, pm_id p) \<in> set (db_role_permissions d)) (db_permissions d))"

definition role_from_row :: "role_row \<Rightarrow> Permission list \<Rightarrow> Role" where
  "role_from_row r ps =
     \<lparr> rl_id = rr_id r, rl_organization_id = rr_organization_id r, rl_name = rr_name r,
       rl_display_name = rr_display_name r, rl_description = rr_description r,
       rl_is_system = rr_is_system r,
       rl_is_default_for_new_members = rr_is_default_for_new_members r, rl_permissions = ps,
       rl_created_at = rr_created_at r, rl_updated_at = rr_updated_at r \<rparr>"

definition hydrate_role :: "org_lib \<Rightarrow> Db \<Rightarrow> role_row \<Rightarrow> Role" where
  "hydrate_role ol d r = role_from_row r (permissions_for_role ol (rr_id r) d)"

definition role_row_of :: "org_lib \<Rightarrow> Role \<Rightarrow> role_row" where
  "role_row_of ol r =
     \<lparr> rr_id = rl_id r, rr_organization_id = rl_organization_id r, rr_name = rl_name r,
       rr_display_name = rl_display_name r, rr_description = rl_description r,
       rr_is_system = rl_is_system r,
       rr_is_default_for_new_members = rl_is_default_for_new_members r,
       rr_created_at = ol_timestamptz ol (rl_created_at r),
       rr_updated_at = ol_timestamptz ol (rl_updated_at r) \<rparr>"

definition upsert_role :: "org_lib \<Rightarrow> Role \<Rightarrow> Db \<Rightarrow> RepositoryError + Db" where
  "upsert_role ol r d =
     bind_result
       (upsert rr_id
          (\<lambda>old new. new\<lparr>rr_organization_id := rr_organization_id old, rr_created_at := rr_created_at old\<rparr>)
          (\<lambda>a b. rr_organization_id a = rr_organization_id b \<and> rr_name a = rr_name b)
          (organization_exists (rl_organization_id r) d) (role_row_of ol r) (db_roles d))
       (\<lambda>t. Inr (d\<lparr>db_roles := t\<rparr>))"

definition set_role_permissions :: "Role \<Rightarrow> Db \<Rightarrow> RepositoryError + Db" where
  "set_role_permissions r d =
     bind_result
       (insert_links (\<lambda>(_, p). \<exists>q \<in> set (db_permissions d). pm_id q = p)
          (map (\<lambda>p. (rl_id r, pm_id p)) (rl_permissions r))
          (filter (\<lambda>(i, _). i \<noteq> rl_id r) (db_role_permissions d)))
       (\<lambda>t. Inr (d\<lparr>db_role_permissions := t\<rparr>))"

definition save_role :: "org_lib \<Rightarrow> Role \<Rightarrow> Db \<Rightarrow> RepositoryError + Db" where
  "save_role ol r d = bind_result (upsert_role ol r d) (set_role_permissions r)"

text \<open>\<open>ORDER BY is_system DESC, name\<close>.\<close>

definition role_order :: "org_lib \<Rightarrow> role_row list \<Rightarrow> role_row list" where
  "role_order ol rows =
     (let sorted = sort_key (\<lambda>r. ol_collation ol (rr_name r)) rows
      in filter rr_is_system sorted @ filter (\<lambda>r. \<not> rr_is_system r) sorted)"

definition select_roles :: "org_lib \<Rightarrow> (role_row \<Rightarrow> bool) \<Rightarrow> Db \<Rightarrow> Role list" where
  "select_roles ol p d = map (hydrate_role ol d) (role_order ol (filter p (db_roles d)))"

definition role_by_id :: "org_lib \<Rightarrow> uuid \<Rightarrow> Db \<Rightarrow> Role option" where
  "role_by_id ol i d = map_option (hydrate_role ol d) (find (\<lambda>r. rr_id r = i) (db_roles d))"

definition role_by_name :: "org_lib \<Rightarrow> uuid \<Rightarrow> string \<Rightarrow> Db \<Rightarrow> Role option" where
  "role_by_name ol organization_id name d =
     map_option (hydrate_role ol d)
       (find (\<lambda>r. rr_organization_id r = organization_id \<and> rr_name r = name) (db_roles d))"

definition roles_by_organization :: "org_lib \<Rightarrow> uuid \<Rightarrow> Db \<Rightarrow> Role list" where
  "roles_by_organization ol organization_id d =
     select_roles ol (\<lambda>r. rr_organization_id r = organization_id) d"

definition roles_by_ids_for_organization :: "org_lib \<Rightarrow> uuid \<Rightarrow> uuid list \<Rightarrow> Db \<Rightarrow> Role list" where
  "roles_by_ids_for_organization ol organization_id ids d =
     select_roles ol (\<lambda>r. rr_organization_id r = organization_id \<and> rr_id r \<in> set ids) d"

definition default_roles_for_organization :: "org_lib \<Rightarrow> uuid \<Rightarrow> Db \<Rightarrow> Role list" where
  "default_roles_for_organization ol organization_id d =
     select_roles ol (\<lambda>r. rr_organization_id r = organization_id \<and> rr_is_default_for_new_members r) d"

definition roles_for_member :: "org_lib \<Rightarrow> uuid \<Rightarrow> Db \<Rightarrow> Role list" where
  "roles_for_member ol member_id d =
     select_roles ol (\<lambda>r. (member_id, rr_id r) \<in> set (db_member_roles d)) d"

definition delete_role_rows :: "uuid \<Rightarrow> Db \<Rightarrow> Db" where
  "delete_role_rows i d =
     d\<lparr>db_roles := filter (\<lambda>r. rr_id r \<noteq> i) (db_roles d),
       db_role_permissions := filter (\<lambda>(r, _). r \<noteq> i) (db_role_permissions d),
       db_member_roles := filter (\<lambda>(_, r). r \<noteq> i) (db_member_roles d)\<rparr>"

definition delete_role_row :: "uuid \<Rightarrow> Db \<Rightarrow> bool \<times> Db" where
  "delete_role_row i d = (length (filter (\<lambda>r. rr_id r = i) (db_roles d)) = 1, delete_role_rows i d)"

section \<open>Members\<close>

definition member_from_row :: "org_lib \<Rightarrow> member_row \<Rightarrow> RepositoryError + Member" where
  "member_from_row ol m =
     bind_result (parse_member_status ol (mr_status m)) (\<lambda>status.
       Inr \<lparr> mb_id = mr_id m, mb_organization_id = mr_organization_id m,
             mb_user_id = (case mr_user_id m of None \<Rightarrow> [] | Some u \<Rightarrow> u), mb_email = mr_email m,
             mb_status = status, mb_roles = [], mb_invited_by = mr_invited_by m,
             mb_invited_at = mr_invited_at m, mb_joined_at = mr_joined_at m,
             mb_created_at = mr_created_at m, mb_updated_at = mr_updated_at m \<rparr>)"

definition hydrate_member :: "org_lib \<Rightarrow> Db \<Rightarrow> member_row \<Rightarrow> RepositoryError + Member" where
  "hydrate_member ol d m =
     bind_result (member_from_row ol m) (\<lambda>member.
       Inr (member\<lparr>mb_roles := roles_for_member ol (mr_id m) d\<rparr>))"

definition member_row_of :: "org_lib \<Rightarrow> Member \<Rightarrow> member_row" where
  "member_row_of ol m =
     \<lparr> mr_id = mb_id m, mr_organization_id = mb_organization_id m, mr_user_id = Some (mb_user_id m),
       mr_email = mb_email m, mr_status = member_status_text (mb_status m),
       mr_invited_by = mb_invited_by m,
       mr_invited_at = map_option (ol_timestamptz ol) (mb_invited_at m),
       mr_joined_at = map_option (ol_timestamptz ol) (mb_joined_at m),
       mr_created_at = ol_timestamptz ol (mb_created_at m),
       mr_updated_at = ol_timestamptz ol (mb_updated_at m) \<rparr>"

definition same_user :: "member_row \<Rightarrow> member_row \<Rightarrow> bool" where
  "same_user a b =
     (mr_organization_id a = mr_organization_id b \<and> mr_user_id a = mr_user_id b
      \<and> mr_user_id a \<noteq> None \<and> mr_user_id a \<noteq> Some [])"

definition save_member :: "org_lib \<Rightarrow> Member \<Rightarrow> Db \<Rightarrow> RepositoryError + Db" where
  "save_member ol m d =
     bind_result
       (upsert mr_id
          (\<lambda>old new. new\<lparr>mr_organization_id := mr_organization_id old, mr_created_at := mr_created_at old\<rparr>)
          same_user (organization_exists (mb_organization_id m) d) (member_row_of ol m) (db_members d))
       (\<lambda>t. Inr (d\<lparr>db_members := t\<rparr>))"

definition member_by_id :: "org_lib \<Rightarrow> uuid \<Rightarrow> Db \<Rightarrow> RepositoryError + Member option" where
  "member_by_id ol i d = fetch_optional (\<lambda>m. mr_id m = i) (hydrate_member ol d) (db_members d)"

definition member_by_user_and_organization ::
  "org_lib \<Rightarrow> string \<Rightarrow> uuid \<Rightarrow> Db \<Rightarrow> RepositoryError + Member option" where
  "member_by_user_and_organization ol user_id organization_id d =
     fetch_optional (\<lambda>m. mr_user_id m = Some user_id \<and> mr_organization_id m = organization_id)
       (hydrate_member ol d) (db_members d)"

definition email_matches :: "org_lib \<Rightarrow> string \<Rightarrow> uuid \<Rightarrow> member_row \<Rightarrow> bool" where
  "email_matches ol email organization_id m =
     (map_option (ol_sql_lower ol) (mr_email m) = Some (ol_sql_lower ol email)
      \<and> mr_organization_id m = organization_id)"

definition member_by_email_and_organization ::
  "org_lib \<Rightarrow> string \<Rightarrow> uuid \<Rightarrow> Db \<Rightarrow> RepositoryError + Member option" where
  "member_by_email_and_organization ol email organization_id d =
     fetch_optional (email_matches ol email organization_id) (hydrate_member ol d) (db_members d)"

definition member_order :: "member_row list \<Rightarrow> member_row list" where
  "member_order rows = sort_key mr_created_at (sort_key mr_id rows)"

definition members_by_organization :: "org_lib \<Rightarrow> uuid \<Rightarrow> Db \<Rightarrow> RepositoryError + Member list" where
  "members_by_organization ol organization_id d =
     fetch_all (hydrate_member ol d)
       (member_order (filter (\<lambda>m. mr_organization_id m = organization_id) (db_members d)))"

definition memberships_by_user :: "org_lib \<Rightarrow> string \<Rightarrow> Db \<Rightarrow> RepositoryError + Member list" where
  "memberships_by_user ol user_id d =
     fetch_all (hydrate_member ol d)
       (member_order (filter (\<lambda>m. mr_user_id m = Some user_id) (db_members d)))"

definition delete_member :: "uuid \<Rightarrow> Db \<Rightarrow> bool \<times> Db" where
  "delete_member i d =
     (length (filter (\<lambda>m. mr_id m = i) (db_members d)) = 1,
      d\<lparr>db_members := filter (\<lambda>m. mr_id m \<noteq> i) (db_members d),
        db_member_roles := filter (\<lambda>(m, _). m \<noteq> i) (db_member_roles d)\<rparr>)"

definition member_role_refs :: "Db \<Rightarrow> uuid \<times> uuid \<Rightarrow> bool" where
  "member_role_refs d l =
     ((\<exists>m \<in> set (db_members d). mr_id m = fst l) \<and> (\<exists>r \<in> set (db_roles d). rr_id r = snd l))"

definition add_member_role_row :: "uuid \<Rightarrow> uuid \<Rightarrow> Db \<Rightarrow> RepositoryError + Db" where
  "add_member_role_row member_id role_id d =
     bind_result
       (insert_link (member_role_refs d (member_id, role_id)) (member_id, role_id) (db_member_roles d))
       (\<lambda>t. Inr (d\<lparr>db_member_roles := t\<rparr>))"

definition set_member_role_rows :: "uuid \<Rightarrow> uuid list \<Rightarrow> Db \<Rightarrow> RepositoryError + Db" where
  "set_member_role_rows member_id role_ids d =
     bind_result
       (insert_links (member_role_refs d) (map (Pair member_id) role_ids)
          (filter (\<lambda>(m, _). m \<noteq> member_id) (db_member_roles d)))
       (\<lambda>t. Inr (d\<lparr>db_member_roles := t\<rparr>))"

definition remove_member_role_row :: "uuid \<Rightarrow> uuid \<Rightarrow> Db \<Rightarrow> bool \<times> Db" where
  "remove_member_role_row member_id role_id d =
     (length (filter (\<lambda>l. l = (member_id, role_id)) (db_member_roles d)) = 1,
      d\<lparr>db_member_roles := filter (\<lambda>l. l \<noteq> (member_id, role_id)) (db_member_roles d)\<rparr>)"

definition member_permissions :: "org_lib \<Rightarrow> uuid \<Rightarrow> Db \<Rightarrow> Permission list" where
  "member_permissions ol member_id d =
     permission_order ol
       (filter (\<lambda>p. \<exists>(m, r) \<in> set (db_member_roles d).
                      m = member_id \<and> (r, pm_id p) \<in> set (db_role_permissions d))
          (db_permissions d))"

definition member_ids_with_role :: "uuid \<Rightarrow> Db \<Rightarrow> uuid list" where
  "member_ids_with_role role_id d = sort (map fst (filter (\<lambda>(_, r). r = role_id) (db_member_roles d)))"

end
