(* ===== verification/Organization_Records.thy ===== *)
theory Organization_Records
  imports Organization_Store
begin

text \<open>
  The rest of \<open>postgres.rs\<close>: join codes, API keys, policy sets, audit records, console preferences,
  the deletion of an organization, and the outbox table, to which the messaging library adds a
  message in the transaction of the caller.
\<close>

section \<open>Join codes\<close>

text \<open>\<open>i32::try_from\<close> of an unsigned value, and the value read back.\<close>

definition i32_try_from :: "u32 \<Rightarrow> int option" where
  "i32_try_from n = (if uint n < 2 ^ 31 then Some (uint n) else None)"

definition join_code_from_row :: "join_code_row \<Rightarrow> RepositoryError + JoinCode" where
  "join_code_from_row c =
     (if (case cr_max_uses c of None \<Rightarrow> False | Some v \<Rightarrow> v < 0) \<or> cr_use_count c < 0
      then Inl (InvalidData ''join_codes.usage'' ''negative'')
      else Inr \<lparr> jc_id = cr_id c, jc_organization_id = cr_organization_id c, jc_code = cr_code c,
                 jc_created_by = cr_created_by c, jc_expires_at = cr_expires_at c,
                 jc_max_uses = map_option of_int (cr_max_uses c),
                 jc_use_count = of_int (cr_use_count c), jc_is_active = cr_is_active c,
                 jc_created_at = cr_created_at c, jc_updated_at = cr_updated_at c \<rparr>)"

definition join_code_row_of :: "org_lib \<Rightarrow> JoinCode \<Rightarrow> int option \<Rightarrow> int \<Rightarrow> join_code_row" where
  "join_code_row_of ol jc max_uses use_count =
     \<lparr> cr_id = jc_id jc, cr_organization_id = jc_organization_id jc, cr_code = jc_code jc,
       cr_created_by = jc_created_by jc,
       cr_expires_at = map_option (ol_timestamptz ol) (jc_expires_at jc), cr_max_uses = max_uses,
       cr_use_count = use_count, cr_is_active = jc_is_active jc,
       cr_created_at = ol_timestamptz ol (jc_created_at jc),
       cr_updated_at = ol_timestamptz ol (jc_updated_at jc) \<rparr>"

definition column_i32 :: "string \<Rightarrow> u32 \<Rightarrow> RepositoryError + int" where
  "column_i32 field n = ok_or (InvalidData field (show_nat (unat n))) (i32_try_from n)"

definition optional_i32 :: "string \<Rightarrow> u32 option \<Rightarrow> RepositoryError + int option" where
  "optional_i32 field n =
     (case n of None \<Rightarrow> Inr None | Some v \<Rightarrow> bind_result (column_i32 field v) (\<lambda>i. Inr (Some i)))"

definition save_join_code :: "org_lib \<Rightarrow> JoinCode \<Rightarrow> Db \<Rightarrow> RepositoryError + Db" where
  "save_join_code ol jc d =
     bind_result (optional_i32 ''join_codes.max_uses'' (jc_max_uses jc)) (\<lambda>max_uses.
     bind_result (column_i32 ''join_codes.use_count'' (jc_use_count jc)) (\<lambda>use_count.
       if char_count (jc_code jc) \<noteq> 8 then Inl (Database CheckViolation)
       else
       bind_result
         (upsert cr_id
            (\<lambda>old new. new\<lparr>cr_organization_id := cr_organization_id old,
                           cr_created_by := cr_created_by old, cr_created_at := cr_created_at old\<rparr>)
            (\<lambda>a b. cr_code a = cr_code b) (organization_exists (jc_organization_id jc) d)
            (join_code_row_of ol jc max_uses use_count) (db_join_codes d))
         (\<lambda>t. Inr (d\<lparr>db_join_codes := t\<rparr>))))"

definition join_code_by_code :: "string \<Rightarrow> Db \<Rightarrow> RepositoryError + JoinCode option" where
  "join_code_by_code code d = fetch_optional (\<lambda>c. cr_code c = code) join_code_from_row (db_join_codes d)"

definition join_codes_by_organization :: "uuid \<Rightarrow> Db \<Rightarrow> RepositoryError + JoinCode list" where
  "join_codes_by_organization organization_id d =
     fetch_all join_code_from_row
       (sort_key (\<lambda>c. - cr_created_at c)
          (sort_key cr_id (filter (\<lambda>c. cr_organization_id c = organization_id) (db_join_codes d))))"

definition delete_join_code :: "uuid \<Rightarrow> Db \<Rightarrow> bool \<times> Db" where
  "delete_join_code i d =
     (length (filter (\<lambda>c. cr_id c = i) (db_join_codes d)) = 1,
      d\<lparr>db_join_codes := filter (\<lambda>c. cr_id c \<noteq> i) (db_join_codes d)\<rparr>)"

section \<open>API keys\<close>

definition api_key_from_row :: "api_key_row \<Rightarrow> RepositoryError + ApiKey" where
  "api_key_from_row k =
     bind_result (parse_api_key_status (kr_status k)) (\<lambda>status.
       Inr \<lparr> ak_id = kr_id k, ak_organization_id = kr_organization_id k, ak_name = kr_name k,
             ak_description = kr_description k, ak_key_prefix = kr_key_prefix k,
             ak_key_hash = kr_key_hash k, ak_scopes = kr_scopes k, ak_scope_type = kr_scope_type k,
             ak_deployment_profile_id = kr_deployment_profile_id k, ak_status = status,
             ak_enabled = kr_enabled k,
             ak_rate_limit = map_option (\<lambda>v. of_int (max v 0)) (kr_rate_limit k),
             ak_created_by = kr_created_by k, ak_last_used_at = kr_last_used_at k,
             ak_last_used_ip = kr_last_used_ip k, ak_expires_at = kr_expires_at k,
             ak_created_at = kr_created_at k, ak_updated_at = kr_updated_at k \<rparr>)"

definition api_key_row_of :: "org_lib \<Rightarrow> ApiKey \<Rightarrow> int option \<Rightarrow> api_key_row" where
  "api_key_row_of ol ak rate_limit =
     \<lparr> kr_id = ak_id ak, kr_organization_id = ak_organization_id ak, kr_name = ak_name ak,
       kr_description = ak_description ak, kr_key_prefix = ak_key_prefix ak,
       kr_key_hash = ak_key_hash ak, kr_scopes = ak_scopes ak, kr_scope_type = ak_scope_type ak,
       kr_deployment_profile_id = ak_deployment_profile_id ak,
       kr_status = api_key_status_text (ak_status ak), kr_enabled = ak_enabled ak,
       kr_rate_limit = rate_limit, kr_created_by = ak_created_by ak,
       kr_last_used_at = map_option (ol_timestamptz ol) (ak_last_used_at ak),
       kr_last_used_ip = ak_last_used_ip ak,
       kr_expires_at = map_option (ol_timestamptz ol) (ak_expires_at ak),
       kr_created_at = ol_timestamptz ol (ak_created_at ak),
       kr_updated_at = ol_timestamptz ol (ak_updated_at ak) \<rparr>"

definition key_hash_ok :: "string \<Rightarrow> bool" where
  "key_hash_ok h =
     (length h = 64 \<and> (\<forall>c \<in> set h. 48 \<le> byte c \<and> byte c \<le> 57 \<or> 97 \<le> byte c \<and> byte c \<le> 102))"

definition save_api_key :: "org_lib \<Rightarrow> ApiKey \<Rightarrow> Db \<Rightarrow> RepositoryError + Db" where
  "save_api_key ol ak d =
     bind_result (optional_i32 ''api_keys.rate_limit'' (ak_rate_limit ak)) (\<lambda>rate_limit.
       if \<not> key_hash_ok (ak_key_hash ak) then Inl (Database CheckViolation)
       else
       bind_result
         (upsert kr_id
            (\<lambda>old new. new\<lparr>kr_organization_id := kr_organization_id old,
                           kr_key_prefix := kr_key_prefix old, kr_key_hash := kr_key_hash old,
                           kr_created_by := kr_created_by old, kr_created_at := kr_created_at old\<rparr>)
            (\<lambda>a b. kr_key_hash a = kr_key_hash b) (organization_exists (ak_organization_id ak) d)
            (api_key_row_of ol ak rate_limit) (db_api_keys d))
         (\<lambda>t. Inr (d\<lparr>db_api_keys := t\<rparr>)))"

definition api_key_by_id :: "uuid \<Rightarrow> Db \<Rightarrow> RepositoryError + ApiKey option" where
  "api_key_by_id i d = fetch_optional (\<lambda>k. kr_id k = i) api_key_from_row (db_api_keys d)"

definition api_key_by_hash :: "string \<Rightarrow> Db \<Rightarrow> RepositoryError + ApiKey option" where
  "api_key_by_hash h d = fetch_optional (\<lambda>k. kr_key_hash k = h) api_key_from_row (db_api_keys d)"

definition api_keys_by_organization :: "uuid \<Rightarrow> Db \<Rightarrow> RepositoryError + ApiKey list" where
  "api_keys_by_organization organization_id d =
     fetch_all api_key_from_row
       (sort_key (\<lambda>k. - kr_created_at k)
          (sort_key kr_id (filter (\<lambda>k. kr_organization_id k = organization_id) (db_api_keys d))))"

definition delete_api_key :: "uuid \<Rightarrow> Db \<Rightarrow> bool \<times> Db" where
  "delete_api_key i d =
     (length (filter (\<lambda>k. kr_id k = i) (db_api_keys d)) = 1,
      d\<lparr>db_api_keys := filter (\<lambda>k. kr_id k \<noteq> i) (db_api_keys d)\<rparr>)"

section \<open>Policy sets\<close>

definition policy_set_from_row :: "org_lib \<Rightarrow> policy_set_row \<Rightarrow> RepositoryError + PolicySet" where
  "policy_set_from_row ol y =
     bind_result (parse_policy_set_type ol (yr_policy_type y)) (\<lambda>policy_type.
     bind_result (parse_policy_set_status ol (yr_status y)) (\<lambda>status.
       Inr \<lparr> ps_id = yr_id y, ps_organization_id = yr_organization_id y, ps_name = yr_name y,
             ps_description = yr_description y, ps_policy_type = policy_type, ps_status = status,
             ps_cedar_policies = yr_cedar_policies y,
             ps_cedar_schema_version = yr_cedar_schema_version y,
             ps_created_by = yr_created_by y, ps_created_at = yr_created_at y,
             ps_updated_at = yr_updated_at y \<rparr>))"

definition policy_set_row_of :: "org_lib \<Rightarrow> PolicySet \<Rightarrow> policy_set_row" where
  "policy_set_row_of ol ps =
     \<lparr> yr_id = ps_id ps, yr_organization_id = ps_organization_id ps, yr_name = ps_name ps,
       yr_description = ps_description ps, yr_policy_type = policy_set_type_text (ps_policy_type ps),
       yr_status = policy_set_status_text (ps_status ps), yr_cedar_policies = ps_cedar_policies ps,
       yr_cedar_schema_version = ps_cedar_schema_version ps, yr_created_by = ps_created_by ps,
       yr_created_at = ol_timestamptz ol (ps_created_at ps),
       yr_updated_at = ol_timestamptz ol (ps_updated_at ps) \<rparr>"

definition save_policy_set :: "org_lib \<Rightarrow> PolicySet \<Rightarrow> Db \<Rightarrow> RepositoryError + Db" where
  "save_policy_set ol ps d =
     bind_result
       (upsert yr_id
          (\<lambda>old new. new\<lparr>yr_organization_id := yr_organization_id old,
                         yr_created_by := yr_created_by old, yr_created_at := yr_created_at old\<rparr>)
          (\<lambda>a b. yr_organization_id a = yr_organization_id b \<and> yr_name a = yr_name b)
          (organization_exists (ps_organization_id ps) d) (policy_set_row_of ol ps) (db_policy_sets d))
       (\<lambda>t. Inr (d\<lparr>db_policy_sets := t\<rparr>))"

definition policy_set_by_id :: "org_lib \<Rightarrow> uuid \<Rightarrow> uuid \<Rightarrow> Db \<Rightarrow> RepositoryError + PolicySet option" where
  "policy_set_by_id ol organization_id i d =
     fetch_optional (\<lambda>y. yr_organization_id y = organization_id \<and> yr_id y = i)
       (policy_set_from_row ol) (db_policy_sets d)"

definition policy_sets_by_organization ::
  "org_lib \<Rightarrow> uuid \<Rightarrow> PolicySetStatus option \<Rightarrow> Db \<Rightarrow> RepositoryError + PolicySet list" where
  "policy_sets_by_organization ol organization_id status d =
     fetch_all (policy_set_from_row ol)
       (sort_key (\<lambda>y. - yr_created_at y)
          (sort_key yr_id
             (filter (\<lambda>y. yr_organization_id y = organization_id
                \<and> (case status of None \<Rightarrow> True | Some s \<Rightarrow> yr_status y = policy_set_status_text s))
               (db_policy_sets d))))"

definition delete_policy_set_row :: "uuid \<Rightarrow> uuid \<Rightarrow> Db \<Rightarrow> bool \<times> Db" where
  "delete_policy_set_row organization_id i d =
     (length (filter (\<lambda>y. yr_organization_id y = organization_id \<and> yr_id y = i) (db_policy_sets d)) = 1,
      d\<lparr>db_policy_sets :=
          filter (\<lambda>y. \<not> (yr_organization_id y = organization_id \<and> yr_id y = i)) (db_policy_sets d)\<rparr>)"

section \<open>Console preferences\<close>

definition preference_from_row :: "preference_row \<Rightarrow> RepositoryError + ConsoleContextPreference" where
  "preference_from_row f =
     bind_result (parse_view_mode (fr_last_view_mode f)) (\<lambda>mode.
       Inr \<lparr> cp_id = fr_id f, cp_user_id = fr_user_id f, cp_last_view_mode = mode,
             cp_last_active_org_id = fr_last_active_org_id f, cp_created_at = fr_created_at f,
             cp_updated_at = fr_updated_at f \<rparr>)"

definition preference_row_of :: "org_lib \<Rightarrow> ConsoleContextPreference \<Rightarrow> preference_row" where
  "preference_row_of ol cp =
     \<lparr> fr_id = cp_id cp, fr_user_id = cp_user_id cp,
       fr_last_view_mode = view_mode_text (cp_last_view_mode cp),
       fr_last_active_org_id = cp_last_active_org_id cp,
       fr_created_at = ol_timestamptz ol (cp_created_at cp),
       fr_updated_at = ol_timestamptz ol (cp_updated_at cp) \<rparr>"

definition save_preference :: "org_lib \<Rightarrow> ConsoleContextPreference \<Rightarrow> Db \<Rightarrow> RepositoryError + Db" where
  "save_preference ol cp d =
     bind_result
       (upsert fr_user_id (\<lambda>old new. new\<lparr>fr_id := fr_id old, fr_created_at := fr_created_at old\<rparr>)
          (\<lambda>a b. fr_id a = fr_id b) True (preference_row_of ol cp) (db_preferences d))
       (\<lambda>t. Inr (d\<lparr>db_preferences := t\<rparr>))"

definition preference_by_user :: "string \<Rightarrow> Db \<Rightarrow> RepositoryError + ConsoleContextPreference option" where
  "preference_by_user user_id d =
     fetch_optional (\<lambda>f. fr_user_id f = user_id) preference_from_row (db_preferences d)"

section \<open>Audit records\<close>

definition audit_has_private_key :: "org_lib \<Rightarrow> AuditEvent \<Rightarrow> bool" where
  "audit_has_private_key ol a =
     ((case au_changes a of None \<Rightarrow> False | Some c \<Rightarrow> contains_private_key (ol_parse_tree ol) c)
      \<or> contains_private_key (ol_parse_tree ol) (au_metadata a))"

definition save_audit_event :: "org_lib \<Rightarrow> AuditEvent \<Rightarrow> Db \<Rightarrow> RepositoryError + Db" where
  "save_audit_event ol a d =
     (if audit_has_private_key ol a then Inl PrivateKeyMaterial
      else if \<exists>b \<in> set (db_audit_events d). au_id b = au_id a then Inr d
      else if \<not> organization_exists (au_organization_id a) d then Inl (Database ForeignKeyViolation)
      else Inr (d\<lparr>db_audit_events := db_audit_events d @
             [a\<lparr>au_changes := map_option (ol_jsonb ol) (au_changes a),
                au_metadata := ol_jsonb ol (au_metadata a),
                au_timestamp := ol_timestamptz ol (au_timestamp a)\<rparr>]\<rparr>))"

definition audit_event_from_row :: "org_lib \<Rightarrow> AuditEvent \<Rightarrow> RepositoryError + AuditEvent" where
  "audit_event_from_row ol a = (if audit_has_private_key ol a then Inl PrivateKeyMaterial else Inr a)"

definition audit_event_by_id :: "org_lib \<Rightarrow> uuid \<Rightarrow> uuid \<Rightarrow> Db \<Rightarrow> RepositoryError + AuditEvent option" where
  "audit_event_by_id ol organization_id i d =
     fetch_optional (\<lambda>a. au_organization_id a = organization_id \<and> au_id a = i)
       (audit_event_from_row ol) (db_audit_events d)"

record AuditEventQuery =
  aq_category :: "string option"
  aq_event_type :: "string option"
  aq_resource_type :: "string option"
  aq_resource_id :: "string option"
  aq_action :: "string option"
  aq_actor_id :: "string option"
  aq_severity :: "string option"
  aq_search :: "string option"
  aq_ip_address :: "string option"
  aq_from :: "time option"
  aq_to :: "time option"
  aq_limit :: nat
  aq_offset :: nat

definition optional_filter :: "string option \<Rightarrow> string option \<Rightarrow> bool" where
  "optional_filter wanted column = (case wanted of None \<Rightarrow> True | Some v \<Rightarrow> column = Some v)"

definition audit_filters :: "org_lib \<Rightarrow> AuditEventQuery \<Rightarrow> AuditEvent \<Rightarrow> bool" where
  "audit_filters ol q a =
     (let like = (\<lambda>column v. ilike_option ol column (''%'' @ v @ ''%'')) in
      optional_filter (aq_category q) (Some (au_category a))
      \<and> optional_filter (aq_event_type q) (Some (au_event_type a))
      \<and> optional_filter (aq_resource_type q) (Some (au_resource_type a))
      \<and> optional_filter (aq_resource_id q) (au_resource_id a)
      \<and> optional_filter (aq_action q) (Some (au_action a))
      \<and> optional_filter (aq_severity q) (Some (au_severity a))
      \<and> (case aq_actor_id q of None \<Rightarrow> True | Some v \<Rightarrow> like (au_actor_id a) v)
      \<and> (case aq_ip_address q of None \<Rightarrow> True | Some v \<Rightarrow> like (Some (ol_json_text ol (au_metadata a))) v)
      \<and> (case aq_from q of None \<Rightarrow> True | Some t \<Rightarrow> t \<le> au_timestamp a)
      \<and> (case aq_to q of None \<Rightarrow> True | Some t \<Rightarrow> au_timestamp a \<le> t)
      \<and> (case aq_search q of None \<Rightarrow> True
         | Some v \<Rightarrow>
             (\<exists>column \<in> set [Some (au_event_type a), Some (au_action a), Some (au_message a),
                             Some (au_resource_type a), au_resource_id a, au_resource_name a,
                             au_actor_id a, Some (ol_json_text ol (au_metadata a))].
                like column v)))"

definition matching_audit_events :: "org_lib \<Rightarrow> uuid \<Rightarrow> AuditEventQuery \<Rightarrow> Db \<Rightarrow> AuditEvent list" where
  "matching_audit_events ol organization_id q d =
     filter (\<lambda>a. au_organization_id a = organization_id \<and> audit_filters ol q a) (db_audit_events d)"

definition list_audit_events ::
  "org_lib \<Rightarrow> uuid \<Rightarrow> AuditEventQuery \<Rightarrow> Db \<Rightarrow> RepositoryError + AuditEvent list" where
  "list_audit_events ol organization_id q d =
     fetch_all (audit_event_from_row ol)
       (take (max 1 (min (aq_limit q) 1000)) (drop (aq_offset q)
          (sort_key (\<lambda>a. - au_timestamp a)
             (sort_key au_id (matching_audit_events ol organization_id q d)))))"

definition count_audit_events :: "org_lib \<Rightarrow> uuid \<Rightarrow> AuditEventQuery \<Rightarrow> Db \<Rightarrow> nat" where
  "count_audit_events ol organization_id q d = length (matching_audit_events ol organization_id q d)"

section \<open>Organizations that end\<close>

definition delete_organization :: "uuid \<Rightarrow> Db \<Rightarrow> bool \<times> Db" where
  "delete_organization i d =
     (let roles = map rr_id (filter (\<lambda>r. rr_organization_id r = i) (db_roles d));
          members = map mr_id (filter (\<lambda>m. mr_organization_id m = i) (db_members d))
      in (length (filter (\<lambda>g. gr_id g = i) (db_organizations d)) = 1,
          if \<not> organization_exists i d then d
          else d\<lparr>db_organizations := filter (\<lambda>g. gr_id g \<noteq> i) (db_organizations d),
                 db_members := filter (\<lambda>m. mr_organization_id m \<noteq> i) (db_members d),
                 db_roles := filter (\<lambda>r. rr_organization_id r \<noteq> i) (db_roles d),
                 db_role_permissions := filter (\<lambda>(r, _). r \<notin> set roles) (db_role_permissions d),
                 db_member_roles :=
                   filter (\<lambda>(m, r). m \<notin> set members \<and> r \<notin> set roles) (db_member_roles d),
                 db_join_codes := filter (\<lambda>c. cr_organization_id c \<noteq> i) (db_join_codes d),
                 db_api_keys := filter (\<lambda>k. kr_organization_id k \<noteq> i) (db_api_keys d),
                 db_policy_sets := filter (\<lambda>y. yr_organization_id y \<noteq> i) (db_policy_sets d),
                 db_audit_events := filter (\<lambda>a. au_organization_id a \<noteq> i) (db_audit_events d)\<rparr>))"

section \<open>The outbox\<close>

text \<open>
  \<open>enqueue_in_transaction\<close> of the messaging library: it refuses a message it finds invalid and
  otherwise adds it to the outbox table in the same transaction.
\<close>

definition enqueue_message :: "(Message \<Rightarrow> string option) \<Rightarrow> Message \<Rightarrow> Db \<Rightarrow> string + Db" where
  "enqueue_message refuses m d =
     (case refuses m of Some x \<Rightarrow> Inl x | None \<Rightarrow> Inr (d\<lparr>db_outbox := db_outbox d @ [m]\<rparr>))"

section \<open>Columns read what the code stored\<close>

lemma parse_organization_type_text [simp]:
  "parse_organization_type (organization_type_text t) = Inr t"
  by (cases t) (simp_all add: parse_organization_type_def)

lemma parse_organization_status_text [simp]:
  "parse_organization_status (organization_status_text t) = Inr t"
  by (cases t) (simp_all add: parse_organization_status_def)

lemma parse_join_mechanism_text [simp]: "parse_join_mechanism (join_mechanism_text t) = Inr t"
  by (cases t) (simp_all add: parse_join_mechanism_def)

lemma parse_api_key_status_text [simp]: "parse_api_key_status (api_key_status_text t) = Inr t"
  by (cases t) (simp_all add: parse_api_key_status_def)

lemma parse_view_mode_text [simp]: "parse_view_mode (view_mode_text t) = Inr t"
  by (cases t) (simp_all add: parse_view_mode_def)

text \<open>What the library's case conversions do to ASCII text.\<close>

definition ascii_case_ok :: "org_lib \<Rightarrow> bool" where
  "ascii_case_ok ol =
     (\<forall>s. (\<forall>c \<in> set s. byte c < 128) \<longrightarrow>
        ol_to_lowercase ol s = to_ascii_lowercase s \<and> ol_to_uppercase ol s = to_ascii_uppercase s)"

lemma parse_member_status_text:
  assumes "ascii_case_ok ol"
  shows "parse_member_status ol (member_status_text st) = Inr st"
proof -
  have "ol_to_lowercase ol (member_status_text st) = member_status_text st"
    using assms by (cases st) (simp_all add: ascii_case_ok_def to_ascii_lowercase_def ascii_lower_def byte_def)
  then show ?thesis by (cases st) (simp_all add: parse_member_status_def)
qed

lemma parse_policy_set_texts:
  assumes "ascii_case_ok ol"
  shows "parse_policy_set_status ol (policy_set_status_text st) = Inr st"
    and "parse_policy_set_type ol (policy_set_type_text ty) = Inr ty"
proof -
  have "ol_to_uppercase ol (policy_set_status_text st) = policy_set_status_text st"
    using assms by (cases st) (simp_all add: ascii_case_ok_def to_ascii_uppercase_def ascii_upper_def byte_def)
  then show "parse_policy_set_status ol (policy_set_status_text st) = Inr st"
    by (cases st) (simp_all add: parse_policy_set_status_def)
  have "ol_to_uppercase ol (policy_set_type_text ty) = policy_set_type_text ty"
    using assms by (cases ty) (simp_all add: ascii_case_ok_def to_ascii_uppercase_def ascii_upper_def byte_def)
  then show "parse_policy_set_type ol (policy_set_type_text ty) = Inr ty"
    by (cases ty) (simp_all add: parse_policy_set_type_def)
qed

lemma member_row_round_trip:
  assumes "ascii_case_ok ol" and "\<forall>t. ol_timestamptz ol t = t"
  shows "member_from_row ol (member_row_of ol m) = Inr (m\<lparr>mb_roles := []\<rparr>)"
proof -
  have "ol_timestamptz ol = id" using assms(2) by auto
  then show ?thesis
    by (simp add: member_from_row_def member_row_of_def parse_member_status_text [OF assms(1)]
        option.map_id0)
qed

end
