(* ===== verification/Organization_Catalog.thy ===== *)
theory Organization_Catalog
  imports Organization_Store
begin

text \<open>
  \<open>rust/services/organization/src/catalog.rs\<close>: the permission catalog, which the build embeds as a
  JSON document, and the eight system roles that every organization gets from it. The parsed
  document is an argument. A set of permission keys is the sorted list of a \<open>BTreeSet\<close>.
\<close>

record PermissionDefinition =
  pd_resource :: string
  pd_action :: string
  pd_description :: string

definition definition_key :: "PermissionDefinition \<Rightarrow> string" where
  "definition_key p = pd_resource p @ '':'' @ pd_action p"

record SystemRoleTemplate =
  rt_name :: string
  rt_display_name :: string
  rt_description :: string
  rt_permission_keys :: "string list"
  rt_is_default_for_new_members :: bool

datatype CatalogError = InvalidJson string | DuplicatePermission string

datatype SeedError = SeedCatalog CatalogError | SeedRepository RepositoryError | MissingPermission string

type_synonym catalog_document = "string + (nat \<times> PermissionDefinition list)"

fun first_duplicate :: "string list \<Rightarrow> string list \<Rightarrow> string option" where
  "first_duplicate seen [] = None"
| "first_duplicate seen (k # ks) = (if k \<in> set seen then Some k else first_duplicate (k # seen) ks)"

definition permission_catalog :: "catalog_document \<Rightarrow> CatalogError + PermissionDefinition list" where
  "permission_catalog document =
     (case document of
        Inl x \<Rightarrow> Inl (InvalidJson x)
      | Inr (schema_version, permissions) \<Rightarrow>
          (if schema_version \<noteq> 1 then Inl (InvalidJson ''unsupported permission catalog schema version'')
           else case first_duplicate [] (map definition_key permissions) of
                  Some k \<Rightarrow> Inl (DuplicatePermission k)
                | None \<Rightarrow> Inr permissions))"

definition keys_matching :: "(PermissionDefinition \<Rightarrow> bool) \<Rightarrow> PermissionDefinition list \<Rightarrow> string list" where
  "keys_matching p catalog = sorted_unique (map definition_key (filter p catalog))"

definition keys_for_resources :: "string list \<Rightarrow> PermissionDefinition list \<Rightarrow> string list" where
  "keys_for_resources resources catalog = keys_matching (\<lambda>p. pd_resource p \<in> set resources) catalog"

definition view_keys_for_resources :: "string list \<Rightarrow> PermissionDefinition list \<Rightarrow> string list" where
  "view_keys_for_resources resources catalog =
     keys_matching (\<lambda>p. pd_action p = ''view'' \<and> pd_resource p \<in> set resources) catalog"

definition template ::
  "string \<Rightarrow> string \<Rightarrow> string \<Rightarrow> string list \<Rightarrow> bool \<Rightarrow> SystemRoleTemplate" where
  "template name display_name description keys is_default =
     \<lparr> rt_name = name, rt_display_name = display_name, rt_description = description,
       rt_permission_keys = keys, rt_is_default_for_new_members = is_default \<rparr>"

definition access_admin_keys :: "PermissionDefinition list \<Rightarrow> string list" where
  "access_admin_keys = keys_for_resources
     [''organization'', ''team'', ''role'', ''policy-set'', ''api-key'', ''signing-key'', ''webhook'',
      ''integration-connector'', ''notification'', ''audit'']"

definition catalog_admin_keys :: "PermissionDefinition list \<Rightarrow> string list" where
  "catalog_admin_keys = keys_for_resources
     [''trust-profile'', ''policy-set'', ''trusted-issuer'', ''credential-template'', ''wallet'',
      ''compliance-profile'', ''presentation-policy'', ''revocation-profile'', ''deployment-profile'',
      ''flow-definition'', ''application-template'', ''integration-connector'']"

definition reviewer_keys :: "PermissionDefinition list \<Rightarrow> string list" where
  "reviewer_keys catalog = sorted_unique (view_keys_for_resources
     [''organization'', ''trust-profile'', ''trusted-issuer'', ''credential-template'', ''wallet'',
      ''compliance-profile'', ''presentation-policy'', ''revocation-profile'', ''deployment-profile'',
      ''application-template'', ''application''] catalog
     @ [''application:review'', ''application:approve'', ''application:reject''])"

definition operator_keys :: "PermissionDefinition list \<Rightarrow> string list" where
  "operator_keys catalog = sorted_unique (view_keys_for_resources
     [''organization'', ''trust-profile'', ''credential-template'', ''wallet'',
      ''application-template'', ''deployment-profile'', ''flow-definition'', ''flow-instance'',
      ''issuance'', ''verification''] catalog
     @ [''flow-instance:start'', ''flow-instance:advance'', ''flow-instance:cancel'',
        ''issuance:initiate'', ''issuance:revoke'', ''passport-certificate:issue'',
        ''verification:execute''])"

definition system_role_templates :: "PermissionDefinition list \<Rightarrow> SystemRoleTemplate list" where
  "system_role_templates catalog =
     (let everything = keys_matching (\<lambda>_. True) catalog
      in [template ''owner'' ''Owner'' ''Full access. Can transfer ownership.'' everything False,
          template ''admin'' ''Administrator''
            ''Full access to all organization resources and settings.'' everything False,
          template ''access_admin'' ''Access Administrator''
            ''Manages organization settings, team access, roles, keys, webhooks, notifications, and audit.''
            (access_admin_keys catalog) False,
          template ''catalog_admin'' ''Catalog Administrator''
            ''Manages trust, compliance, templates, deployment profiles, flow definitions, and application templates.''
            (catalog_admin_keys catalog) False,
          template ''reviewer'' ''Reviewer''
            ''Reviews applications and related organization artifacts.'' (reviewer_keys catalog) False,
          template ''operator'' ''Operator''
            ''Runs issuance, verification, and operational flows.'' (operator_keys catalog) False,
          template ''viewer'' ''Viewer'' ''Read-only access to organization console resources.''
            (keys_matching (\<lambda>p. pd_action p = ''view'') catalog) False,
          template ''applicant'' ''Applicant''
            ''Catalog and application access without organization console access.''
            (sorted_unique APPLICANT_PERMISSION_KEYS) True])"

definition NAMESPACE_URL :: uuid where
  "NAMESPACE_URL = 0x6ba7b8119dad11d180b400c04fd430c8"

definition catalog_permission :: "org_lib \<Rightarrow> PermissionDefinition \<Rightarrow> Permission" where
  "catalog_permission ol p =
     \<lparr> pm_id = ol_uuid_v5 ol NAMESPACE_URL (''marty:permission:'' @ definition_key p),
       pm_resource = pd_resource p, pm_action = pd_action p, pm_description = Some (pd_description p) \<rparr>"

text \<open>A \<open>BTreeMap\<close> from the key of a permission to it.\<close>

definition materialize_permission_catalog ::
  "org_lib \<Rightarrow> catalog_document \<Rightarrow> CatalogError + (string \<times> Permission) list" where
  "materialize_permission_catalog ol document =
     bind_result (permission_catalog document) (\<lambda>catalog.
       Inr (fold (\<lambda>p. bt_insert (definition_key p) (catalog_permission ol p)) catalog []))"

fun collect_permissions ::
  "(string \<times> Permission) list \<Rightarrow> string list \<Rightarrow> SeedError + Permission list" where
  "collect_permissions permissions [] = Inr []"
| "collect_permissions permissions (key # keys) =
     bind_result (ok_or (MissingPermission key) (map_of permissions key)) (\<lambda>p.
     bind_result (collect_permissions permissions keys) (\<lambda>ps. Inr (p # ps)))"

definition system_role ::
  "org_lib \<Rightarrow> uuid \<Rightarrow> time \<Rightarrow> SystemRoleTemplate \<Rightarrow> Permission list \<Rightarrow> Role" where
  "system_role ol organization_id now t permissions =
     \<lparr> rl_id = ol_uuid_v5 ol organization_id (rt_name t), rl_organization_id = organization_id,
       rl_name = rt_name t, rl_display_name = Some (rt_display_name t),
       rl_description = Some (rt_description t), rl_is_system = True,
       rl_is_default_for_new_members = rt_is_default_for_new_members t,
       rl_permissions = permissions, rl_created_at = now, rl_updated_at = now \<rparr>"

fun insert_system_roles ::
  "org_lib \<Rightarrow> uuid \<Rightarrow> (string \<times> Permission) list \<Rightarrow> time \<Rightarrow> SystemRoleTemplate list
   \<Rightarrow> (string \<times> Role) list \<Rightarrow> SeedError + (string \<times> Role) list" where
  "insert_system_roles ol organization_id permissions now [] roles = Inr roles"
| "insert_system_roles ol organization_id permissions now (t # ts) roles =
     bind_result (collect_permissions permissions (rt_permission_keys t)) (\<lambda>ps.
       insert_system_roles ol organization_id permissions now ts
         (bt_insert (rt_name t) (system_role ol organization_id now t ps) roles))"

definition materialize_system_roles ::
  "org_lib \<Rightarrow> catalog_document \<Rightarrow> uuid \<Rightarrow> (string \<times> Permission) list \<Rightarrow> time
   \<Rightarrow> SeedError + (string \<times> Role) list" where
  "materialize_system_roles ol document organization_id permissions now =
     bind_result (map_err SeedCatalog (permission_catalog document)) (\<lambda>catalog.
       insert_system_roles ol organization_id permissions now (system_role_templates catalog) [])"

section \<open>Seeding an existing database\<close>

fun seed_permissions ::
  "(string \<times> Permission) list \<Rightarrow> (string \<times> Permission) list \<Rightarrow> Db
   \<Rightarrow> SeedError + ((string \<times> Permission) list \<times> Db)" where
  "seed_permissions [] persisted d = Inr (persisted, d)"
| "seed_permissions ((key, p) # rest) persisted d =
     bind_result (map_err SeedRepository (upsert_permission p d)) (\<lambda>(_, d).
     bind_result (ok_or (MissingPermission key) (permission_by_key (pm_resource p) (pm_action p) d))
       (\<lambda>stored. seed_permissions rest (bt_insert key stored persisted) d))"

definition seed_permission_catalog ::
  "org_lib \<Rightarrow> catalog_document \<Rightarrow> Db \<Rightarrow> SeedError + ((string \<times> Permission) list \<times> Db)" where
  "seed_permission_catalog ol document d =
     bind_result (map_err SeedCatalog (materialize_permission_catalog ol document)) (\<lambda>catalog.
       seed_permissions catalog [] d)"

definition with_existing_role :: "org_lib \<Rightarrow> uuid \<Rightarrow> Db \<Rightarrow> Role \<Rightarrow> Role" where
  "with_existing_role ol organization_id d r =
     (case role_by_name ol organization_id (rl_name r) d of
        None \<Rightarrow> r
      | Some existing \<Rightarrow> r\<lparr>rl_id := rl_id existing, rl_created_at := rl_created_at existing\<rparr>)"

fun save_seed_roles ::
  "org_lib \<Rightarrow> uuid \<Rightarrow> (string \<times> Role) list \<Rightarrow> Db \<Rightarrow> SeedError + ((string \<times> Role) list \<times> Db)" where
  "save_seed_roles ol organization_id [] d = Inr ([], d)"
| "save_seed_roles ol organization_id ((name, r) # rest) d =
     (let r = with_existing_role ol organization_id d r in
      bind_result (map_err SeedRepository (save_role ol r d)) (\<lambda>d.
      bind_result (save_seed_roles ol organization_id rest d) (\<lambda>(roles, d).
        Inr ((name, r) # roles, d))))"

definition seed_system_roles ::
  "org_lib \<Rightarrow> catalog_document \<Rightarrow> uuid \<Rightarrow> time \<Rightarrow> Db \<Rightarrow> SeedError + ((string \<times> Role) list \<times> Db)" where
  "seed_system_roles ol document organization_id now d =
     bind_result (seed_permission_catalog ol document d) (\<lambda>(permissions, d).
     bind_result (materialize_system_roles ol document organization_id permissions now) (\<lambda>roles.
       save_seed_roles ol organization_id roles d))"

section \<open>Facts\<close>

lemma system_role_template_names:
  "map rt_name (system_role_templates catalog) =
     [''owner'', ''admin'', ''access_admin'', ''catalog_admin'', ''reviewer'', ''operator'', ''viewer'',
      ''applicant'']"
  by (simp add: system_role_templates_def template_def Let_def)

lemma system_role_template_defaults:
  "map rt_is_default_for_new_members (system_role_templates catalog) =
     [False, False, False, False, False, False, False, True]"
  by (simp add: system_role_templates_def template_def Let_def)

text \<open>The roles of a list of templates: one for each, under its name.\<close>

definition template_roles ::
  "org_lib \<Rightarrow> uuid \<Rightarrow> time \<Rightarrow> SystemRoleTemplate list \<Rightarrow> Permission list list \<Rightarrow> (string \<times> Role) list
   \<Rightarrow> (string \<times> Role) list" where
  "template_roles ol og now ts qs roles =
     fold (\<lambda>(t, q). bt_insert (rt_name t) (system_role ol og now t q)) (zip ts qs) roles"

lemma insert_system_roles_templates:
  "insert_system_roles ol og ps now ts roles = Inr rs \<Longrightarrow>
     \<exists>qs. length qs = length ts \<and> rs = template_roles ol og now ts qs roles"
proof (induction ol og ps now ts roles arbitrary: rs rule: insert_system_roles.induct)
  case (2 ol og ps now t ts roles)
  then obtain q where "collect_permissions ps (rt_permission_keys t) = Inr q"
      "insert_system_roles ol og ps now ts (bt_insert (rt_name t) (system_role ol og now t q) roles) = Inr rs"
    by (auto simp: bind_result_Inr)
  with "2.IH" obtain qs where qs: "length qs = length ts"
      "rs = template_roles ol og now ts qs (bt_insert (rt_name t) (system_role ol og now t q) roles)"
    by blast
  then show ?case by (intro exI [of _ "q # qs"]) (simp add: template_roles_def)
qed (simp add: template_roles_def)

lemma map_of_template_roles:
  assumes "length qs = length ts" and "distinct (map rt_name ts)" and "\<forall>t \<in> set ts. map_of roles (rt_name t) = None"
  shows "map_of (template_roles ol og now ts qs roles) k =
    (case find (\<lambda>(t, _). rt_name t = k) (zip ts qs) of
       None \<Rightarrow> map_of roles k | Some (t, q) \<Rightarrow> Some (system_role ol og now t q))"
  using assms
proof (induction ts arbitrary: qs roles)
  case (Cons t ts)
  then obtain q qs' where qs: "qs = q # qs'" "length qs' = length ts" by (cases qs) auto
  have none: "find (\<lambda>(u, _). rt_name u = rt_name t) (zip ts qs') = None"
    using Cons.prems(2) by (auto simp: find_None_iff) (metis image_eqI set_zip_leftD)
  have "map_of (template_roles ol og now ts qs' (bt_insert (rt_name t) (system_role ol og now t q) roles)) k =
    (case find (\<lambda>(t, _). rt_name t = k) (zip ts qs') of
       None \<Rightarrow> map_of (bt_insert (rt_name t) (system_role ol og now t q) roles) k
     | Some (t, q) \<Rightarrow> Some (system_role ol og now t q))"
    using Cons.prems qs by (intro Cons.IH) (auto simp: map_of_bt_insert, metis image_eqI)
  then show ?case using none
    by (auto simp: qs template_roles_def map_of_bt_insert split: option.splits)
qed (simp add: template_roles_def)

lemma bt_wf_template_roles: "bt_wf roles \<Longrightarrow> bt_wf (template_roles ol og now ts qs roles)"
proof (induction ts arbitrary: qs roles)
  case (Cons t ts)
  then show ?case by (cases qs) (simp_all add: template_roles_def bt_wf_insert)
qed (simp add: template_roles_def)

end
