(* ===== verification/Organization_Service.thy ===== *)
theory Organization_Service
  imports Organization_Records Organization_Catalog
begin

text \<open>
  \<open>rust/services/organization/src/application.rs\<close> and \<open>cache.rs\<close>: the commands on organizations,
  members and join codes. A command is checked, runs in one transaction and then touches the
  caches, whose failure is a warning. The transaction of a command is the definition with the
  suffix \<open>_tx\<close>. The argument \<open>fr\<close> gives the fresh identifiers of the command.
\<close>

section \<open>Caches\<close>

datatype OrganizationCacheError = InvalidIdentifier string | CacheBackend string

fun cache_error_text :: "OrganizationCacheError \<Rightarrow> string" where
  "cache_error_text (InvalidIdentifier field) = ''ORGANIZATION.CACHE_INVALID_IDENTIFIER: '' @ field"
| "cache_error_text (CacheBackend x) = ''ORGANIZATION.CACHE_BACKEND: '' @ x"

text \<open>The three key spaces of the cache store, an error of the library being its text.\<close>

record 'c organization_cache =
  ca_delete_membership :: "string \<Rightarrow> 'c \<Rightarrow> string option \<times> 'c"
  ca_delete_permissions :: "string \<Rightarrow> 'c \<Rightarrow> string option \<times> 'c"
  ca_set_plan :: "string \<Rightarrow> string \<Rightarrow> u64 \<Rightarrow> 'c \<Rightarrow> string option \<times> 'c"

definition required_identifier :: "string \<Rightarrow> string \<Rightarrow> OrganizationCacheError + string" where
  "required_identifier v field = (if blank v then Inl (InvalidIdentifier field) else Inr (trim v))"

definition member_cache_key ::
  "third_party \<Rightarrow> string \<Rightarrow> uuid \<Rightarrow> OrganizationCacheError + string" where
  "member_cache_key tp user_id organization_id =
     bind_result (required_identifier user_id ''user_id'') (\<lambda>u.
       Inr (u @ '':'' @ tp_uuid_show tp organization_id))"

definition plan_cache_key :: "third_party \<Rightarrow> uuid \<Rightarrow> string" where
  "plan_cache_key tp organization_id = tp_uuid_show tp organization_id @ '':plan''"

definition invalidate_member ::
  "third_party \<Rightarrow> 'c organization_cache \<Rightarrow> string \<Rightarrow> uuid \<Rightarrow> 'c \<Rightarrow> (OrganizationCacheError + unit) \<times> 'c" where
  "invalidate_member tp ca user_id organization_id c =
     (case member_cache_key tp user_id organization_id of
        Inl x \<Rightarrow> (Inl x, c)
      | Inr key \<Rightarrow>
          (case ca_delete_membership ca key c of
             (Some x, c) \<Rightarrow> (Inl (CacheBackend x), c)
           | (None, c) \<Rightarrow>
               (case ca_delete_permissions ca key c of
                  (Some x, c) \<Rightarrow> (Inl (CacheBackend x), c)
                | (None, c) \<Rightarrow> (Inr (), c))))"

definition store_plan ::
  "third_party \<Rightarrow> 'c organization_cache \<Rightarrow> uuid \<Rightarrow> string \<Rightarrow> u64 \<Rightarrow> 'c
   \<Rightarrow> (OrganizationCacheError + unit) \<times> 'c" where
  "store_plan tp ca organization_id plan now_ms c =
     (case required_identifier plan ''plan'' of
        Inl x \<Rightarrow> (Inl x, c)
      | Inr plan \<Rightarrow>
          (case ca_set_plan ca (plan_cache_key tp organization_id) plan now_ms c of
             (Some x, c) \<Rightarrow> (Inl (CacheBackend x), c)
           | (None, c) \<Rightarrow> (Inr (), c)))"

section \<open>Commands, results and errors\<close>

record CreateOrganizationCommand =
  co_name :: string
  co_owner_id :: string
  co_org_type :: OrganizationType
  co_display_name :: "string option"
  co_description :: "string option"
  co_contact_email :: "string option"
  co_visibility :: string
  co_join_mechanism :: JoinMechanism
  co_requires_approval :: bool
  co_now :: time

record UpdateOrganizationPatch =
  up_name :: "string option"
  up_display_name :: "string option"
  up_org_type :: "OrganizationType option"
  up_description :: "string option option"
  up_contact_email :: "string option option"
  up_contact_phone :: "string option option"
  up_website :: "string option option"
  up_visibility :: "string option"
  up_join_mechanism :: "JoinMechanism option"
  up_requires_approval :: "bool option"
  up_settings :: "jmap option"

definition patch_is_empty :: "UpdateOrganizationPatch \<Rightarrow> bool" where
  "patch_is_empty p =
     (up_name p = None \<and> up_display_name p = None \<and> up_org_type p = None \<and> up_description p = None
      \<and> up_contact_email p = None \<and> up_contact_phone p = None \<and> up_website p = None
      \<and> up_visibility p = None \<and> up_join_mechanism p = None \<and> up_requires_approval p = None
      \<and> up_settings p = None)"

record UpdateOrganizationCommand =
  uo_organization_id :: uuid
  uo_patch :: UpdateOrganizationPatch
  uo_now :: time

record InviteMemberCommand =
  im_organization_id :: uuid
  im_email :: string
  im_role_ids :: "uuid list"
  im_invited_by :: string
  im_now :: time

record AcceptInvitationCommand =
  ai_member_id :: uuid
  ai_user_id :: string
  ai_now :: time

record SetMemberRolesCommand =
  sr_member_id :: uuid
  sr_organization_id :: uuid
  sr_role_ids :: "uuid list"
  sr_updated_by :: string
  sr_now :: time

record RemoveMemberCommand =
  rm_organization_id :: uuid
  rm_member_id :: uuid
  rm_removed_by :: string
  rm_now :: time

record AddMemberDirectCommand =
  am_organization_id :: uuid
  am_user_id :: string
  am_email :: "string option"
  am_role_ids :: "uuid list option"
  am_now :: time

record CreateScimMemberCommand =
  cs_organization_id :: uuid
  cs_user_id :: string
  cs_email :: string
  cs_active :: bool
  cs_role_ids :: "uuid list option"
  cs_now :: time

record UpdateScimMemberCommand =
  us_organization_id :: uuid
  us_member_id :: uuid
  us_user_id :: string
  us_email :: string
  us_active :: bool
  us_role_ids :: "uuid list option"
  us_now :: time

record JoinByCodeCommand =
  jb_user_id :: string
  jb_code :: string
  jb_email :: string
  jb_now :: time

record JoinOrganizationCommand =
  jo_user_id :: string
  jo_organization_id :: uuid
  jo_email :: string
  jo_now :: time

record JoinCodeValidation =
  jv_is_valid :: bool
  jv_organization :: "Organization option"
  jv_message :: string
  jv_expired :: bool

datatype JoinCodeState = JcValid | JcInactive | JcExpired | JcExhausted | JcInvalid

record JoinCodeEvaluation =
  je_state :: JoinCodeState
  je_message :: string
  je_expired :: bool

record MembershipPolicy =
  mp_marty_organization_id :: "uuid option"
  mp_marty_admin_emails :: "string list"

definition normalized_email :: "org_lib \<Rightarrow> string \<Rightarrow> string" where
  "normalized_email ol email = ol_to_lowercase ol (trim email)"

definition membership_policy_new :: "org_lib \<Rightarrow> uuid option \<Rightarrow> string list \<Rightarrow> MembershipPolicy" where
  "membership_policy_new ol organization_id emails =
     \<lparr> mp_marty_organization_id = organization_id,
       mp_marty_admin_emails = sorted_unique (filter (\<lambda>e. e \<noteq> []) (map (normalized_email ol) emails)) \<rparr>"

definition policy_grants_marty_admin :: "org_lib \<Rightarrow> MembershipPolicy \<Rightarrow> uuid \<Rightarrow> string option \<Rightarrow> bool" where
  "policy_grants_marty_admin ol mp organization_id email =
     (mp_marty_organization_id mp = Some organization_id
      \<and> (case email of None \<Rightarrow> False | Some e \<Rightarrow> normalized_email ol e \<in> set (mp_marty_admin_emails mp)))"

datatype ApplicationWarningCode = PlanCacheSynchronizationFailed | MembershipCacheInvalidationFailed

type_synonym ApplicationWarning = "ApplicationWarningCode \<times> string"

text \<open>A \<open>MutationResult\<close> is its value and its warnings.\<close>

type_synonym 'a mutation = "'a \<times> ApplicationWarning list"

datatype OrganizationApplicationError =
    InvalidCommand string
  | InvalidVisibility string
  | OpenJoinRequiresPublicVisibility
  | OrganizationNotFound uuid
  | OwnerRoleMissing
  | MemberNotFound uuid
  | RoleNotFound uuid
  | PermissionNotFound uuid
  | RoleConflict string
  | SystemRoleDeleteForbidden
  | ReplacementRoleRequired
  | LastMemberRoleRemovalForbidden
  | RoleNotAssigned
  | PolicySetNotFound uuid
  | PolicyValidatorUnavailable
  | InvalidPolicy string
  | InvalidAuditFilter string
  | MemberConflict string
  | DefaultRoleMissing
  | AdminRoleMissing
  | OwnerRoleRequired
  | OwnerCannotBeRemoved
  | InvalidJoinCode string
  | DirectJoinNotAllowed
  | JoinRequestPending
  | ApiKeyNotFound uuid
  | InvalidApiKeyScope string
  | InvalidApiKeyBinding string
  | InvalidTimestamp
  | AppDomain DomainError
  | AppCatalog CatalogError
  | AppSeed SeedError
  | AppRepository RepositoryError
  | AppEvent OrganizationEventError
  | AppMessaging string

text \<open>The application: the library, the embedded catalog and the services it is built with.\<close>

record 'c organization_app =
  oa_lib :: org_lib
  oa_document :: catalog_document
  oa_refuses :: "Message \<Rightarrow> string option"
  oa_cache :: "'c organization_cache"
  oa_policy :: MembershipPolicy
  oa_validator :: "(string \<Rightarrow> string option) option"   \<comment> \<open>the error of the Cedar validator\<close>

abbreviation oa_tp :: "('c, 'z) organization_app_scheme \<Rightarrow> third_party" where
  "oa_tp oa \<equiv> ol_tp (oa_lib oa)"

section \<open>Transactions\<close>

type_synonym 'a tx = "Db \<Rightarrow> OrganizationApplicationError + ('a \<times> Db)"

text \<open>An error rolls back; a value is committed and what follows touches the cache only.\<close>

definition transact ::
  "'a tx \<Rightarrow> ('a \<Rightarrow> 'c \<Rightarrow> (OrganizationApplicationError + 'b) \<times> 'c) \<Rightarrow> Db \<times> 'c
   \<Rightarrow> (OrganizationApplicationError + 'b) \<times> (Db \<times> 'c)" where
  "transact t after s =
     (case t (fst s) of
        Inl e \<Rightarrow> (Inl e, s)
      | Inr (x, d) \<Rightarrow> (case after x (snd s) of (r, c) \<Rightarrow> (r, (d, c))))"

definition repository :: "RepositoryError + 'a \<Rightarrow> OrganizationApplicationError + 'a" where
  "repository r = map_err AppRepository r"

definition require_non_empty :: "string \<Rightarrow> string \<Rightarrow> OrganizationApplicationError + unit" where
  "require_non_empty v message = (if blank v then Inl (InvalidCommand message) else Inr ())"

definition require :: "bool \<Rightarrow> 'e \<Rightarrow> 'e + unit" where
  "require b e = (if b then Inr () else Inl e)"

definition locked_organization ::
  "('c, 'z) organization_app_scheme \<Rightarrow> uuid \<Rightarrow> Db \<Rightarrow> OrganizationApplicationError + Organization" where
  "locked_organization oa i d =
     bind_result (repository (organization_by_id (oa_lib oa) i d)) (ok_or (OrganizationNotFound i))"

definition locked_member ::
  "('c, 'z) organization_app_scheme \<Rightarrow> uuid \<Rightarrow> Db \<Rightarrow> OrganizationApplicationError + Member" where
  "locked_member oa i d =
     bind_result (repository (member_by_id (oa_lib oa) i d)) (ok_or (MemberNotFound i))"

text \<open>\<open>filter(|member| member.organization_id == organization_id).ok_or(...)\<close>.\<close>

definition locked_member_of ::
  "('c, 'z) organization_app_scheme \<Rightarrow> uuid \<Rightarrow> uuid \<Rightarrow> Db \<Rightarrow> OrganizationApplicationError + Member" where
  "locked_member_of oa organization_id i d =
     bind_result (locked_member oa i d) (\<lambda>m.
     bind_result (require (mb_organization_id m = organization_id) (MemberNotFound i)) (\<lambda>_. Inr m))"

definition persist_event ::
  "('c, 'z) organization_app_scheme \<Rightarrow> uuid \<Rightarrow> OrganizationEventError + OrganizationEvent
   \<Rightarrow> Db \<Rightarrow> OrganizationApplicationError + Db" where
  "persist_event oa fresh event d =
     bind_result (map_err AppEvent event) (\<lambda>e.
     bind_result (map_err AppEvent (to_audit_event (oa_tp oa) fresh e)) (\<lambda>audit.
     bind_result (map_err AppEvent (to_message (oa_tp oa) e)) (\<lambda>message.
     bind_result (repository (save_audit_event (oa_lib oa) audit d)) (\<lambda>d.
       map_err AppMessaging (enqueue_message (oa_refuses oa) message d)))))"

definition invalidate_member_after_commit ::
  "('c, 'z) organization_app_scheme \<Rightarrow> string \<Rightarrow> uuid \<Rightarrow> 'c \<Rightarrow> ApplicationWarning list \<times> 'c" where
  "invalidate_member_after_commit oa user_id organization_id c =
     (if blank user_id then ([], c)
      else case invalidate_member (oa_tp oa) (oa_cache oa) user_id organization_id c of
             (Inl x, c) \<Rightarrow> ([(MembershipCacheInvalidationFailed, cache_error_text x)], c)
           | (Inr _, c) \<Rightarrow> ([], c))"

definition with_warnings ::
  "'a \<Rightarrow> ApplicationWarning list \<times> 'c \<Rightarrow> (OrganizationApplicationError + 'a mutation) \<times> 'c" where
  "with_warnings x wc = (Inr (x, fst wc), snd wc)"

definition without_warnings :: "'a \<Rightarrow> 'c \<Rightarrow> (OrganizationApplicationError + 'a mutation) \<times> 'c" where
  "without_warnings x c = (Inr (x, []), c)"

definition after_member ::
  "('c, 'z) organization_app_scheme \<Rightarrow> Member \<Rightarrow> 'c
   \<Rightarrow> (OrganizationApplicationError + Member mutation) \<times> 'c" where
  "after_member oa m c =
     with_warnings m (invalidate_member_after_commit oa (mb_user_id m) (mb_organization_id m) c)"

text \<open>The identifiers of roles in their order, each once.\<close>

fun deduplicate_from :: "uuid list \<Rightarrow> uuid list \<Rightarrow> uuid list" where
  "deduplicate_from seen [] = []"
| "deduplicate_from seen (i # is) =
     (if i \<in> set seen then deduplicate_from seen is else i # deduplicate_from (i # seen) is)"

definition deduplicate_ids :: "uuid list \<Rightarrow> uuid list" where
  "deduplicate_ids is = deduplicate_from [] is"

definition role_id_set :: "Role list \<Rightarrow> uuid set" where
  "role_id_set rs = rl_id ` set rs"

end
