(* ===== verification/Organization_Members.thy ===== *)
theory Organization_Members
  imports Organization_Service
begin

text \<open>
  The commands of \<open>application.rs\<close> on organizations and their members: creation, update,
  invitations, roles of a member, removal, SCIM provisioning and joining.
\<close>

section \<open>Rules\<close>

definition parse_visibility :: "string \<Rightarrow> OrganizationApplicationError + bool" where
  "parse_visibility visibility =
     (if visibility = ''PUBLIC'' then Inr True
      else if visibility = ''PRIVATE'' then Inr False
      else Inl (InvalidVisibility visibility))"

definition validate_admission :: "JoinMechanism \<Rightarrow> bool \<Rightarrow> OrganizationApplicationError + unit" where
  "validate_admission join_mechanism is_discoverable =
     (if join_mechanism = JoinOpen \<and> \<not> is_discoverable then Inl OpenJoinRequiresPublicVisibility
      else Inr ())"

definition timestamp_ms :: "time \<Rightarrow> OrganizationApplicationError + u64" where
  "timestamp_ms now =
     (if timestamp_millis now < 0 then Inl InvalidTimestamp else Inr (of_int (timestamp_millis now)))"

definition validate_owner_roles ::
  "Organization \<Rightarrow> string \<Rightarrow> Role list \<Rightarrow> OrganizationApplicationError + unit" where
  "validate_owner_roles organization user_id roles =
     (if og_owner_id organization \<noteq> [] \<and> user_id = og_owner_id organization
         \<and> \<not> (\<exists>r \<in> set roles. rl_name r = ''owner'')
      then Inl OwnerRoleRequired else Inr ())"

fun retain_first_roles :: "uuid list \<Rightarrow> Role list \<Rightarrow> Role list" where
  "retain_first_roles seen [] = []"
| "retain_first_roles seen (r # rs) =
     (if rl_id r \<in> set seen then retain_first_roles seen rs
      else r # retain_first_roles (rl_id r # seen) rs)"

text \<open>What \<open>plan_direct_member_roles\<close> makes of the requested or current roles before the defaults.\<close>

definition with_marty_admin :: "bool \<Rightarrow> Role list \<Rightarrow> Role list \<Rightarrow> Role \<Rightarrow> Role list" where
  "with_marty_admin explicitly_requested resolved current_roles admin =
     (let current_names = rl_name ` set current_roles;
          has_admin = (\<exists>r \<in> set resolved. rl_id r = rl_id admin)
      in if explicitly_requested then (if has_admin then resolved else resolved @ [admin])
         else if resolved = [] \<or> current_names = {''applicant''} then [admin]
         else if ''admin'' \<notin> current_names \<and> \<not> has_admin then resolved @ [admin]
         else resolved)"

definition plan_direct_member_roles ::
  "bool \<Rightarrow> Role list option \<Rightarrow> Role list \<Rightarrow> Role option \<Rightarrow> Role list
   \<Rightarrow> OrganizationApplicationError + Role list" where
  "plan_direct_member_roles grants_marty_admin requested_roles current_roles admin_role default_roles =
     (let explicitly_requested = (case requested_roles of None \<Rightarrow> False | Some rs \<Rightarrow> rs \<noteq> []);
          resolved = (if explicitly_requested then the requested_roles else current_roles)
      in bind_result
           (if grants_marty_admin
            then bind_result (ok_or AdminRoleMissing admin_role)
                   (\<lambda>admin. Inr (with_marty_admin explicitly_requested resolved current_roles admin))
            else Inr resolved)
           (\<lambda>resolved.
              if resolved = [] \<and> default_roles = [] then Inl DefaultRoleMissing
              else Inr (retain_first_roles [] (if resolved = [] then default_roles else resolved))))"

section \<open>Events\<close>

definition member_invited_event ::
  "third_party \<Rightarrow> uuid \<Rightarrow> InviteMemberCommand \<Rightarrow> uuid \<Rightarrow> OrganizationEventError + OrganizationEvent" where
  "member_invited_event tp fresh cmd member_id =
     organization_event_new tp fresh MemberInvited (im_organization_id cmd)
       [(''member_id'', JStr (tp_uuid_show tp member_id)), (''email'', JStr (im_email cmd)),
        (''invited_by'', JStr (im_invited_by cmd))] (im_now cmd)"

definition member_added_event ::
  "third_party \<Rightarrow> uuid \<Rightarrow> Member \<Rightarrow> time \<Rightarrow> OrganizationEventError + OrganizationEvent" where
  "member_added_event tp fresh m now =
     organization_event_new tp fresh MemberAdded (mb_organization_id m)
       [(''member_id'', JStr (tp_uuid_show tp (mb_id m))), (''user_id'', JStr (mb_user_id m)),
        (''roles'', JArr (map JStr (sorted_unique (map rl_name (mb_roles m)))))] now"

definition member_removed_event ::
  "third_party \<Rightarrow> uuid \<Rightarrow> Member \<Rightarrow> time \<Rightarrow> OrganizationEventError + OrganizationEvent" where
  "member_removed_event tp fresh m now =
     organization_event_new tp fresh MemberRemoved (mb_organization_id m)
       [(''member_id'', JStr (tp_uuid_show tp (mb_id m))), (''user_id'', JStr (mb_user_id m))] now"

section \<open>Organizations\<close>

record OrganizationCreationPlan =
  cq_organization :: Organization
  cq_owner :: Member
  cq_permissions :: "(string \<times> Permission) list"

definition plan_organization_creation ::
  "('c, 'z) organization_app_scheme \<Rightarrow> (nat \<Rightarrow> uuid) \<Rightarrow> CreateOrganizationCommand
   \<Rightarrow> OrganizationApplicationError + OrganizationCreationPlan" where
  "plan_organization_creation oa fr cmd =
     bind_result (require_non_empty (co_name cmd) ''name is required'') (\<lambda>_.
     bind_result (require_non_empty (co_owner_id cmd) ''owner_id is required'') (\<lambda>_.
     bind_result (parse_visibility (co_visibility cmd)) (\<lambda>is_discoverable.
     bind_result (validate_admission (co_join_mechanism cmd) is_discoverable) (\<lambda>_.
     bind_result
       (map_err AppDomain
         (organization_create (oa_lib oa) (fr 0) (fr 1) (fr 2)
           \<lparr> oc_name = co_name cmd, oc_owner_id = co_owner_id cmd, oc_org_type = co_org_type cmd,
             oc_display_name = co_display_name cmd, oc_description = co_description cmd,
             oc_join_mechanism = co_join_mechanism cmd,
             oc_requires_approval = co_requires_approval cmd,
             oc_is_discoverable = is_discoverable, oc_now = co_now cmd \<rparr>)) (\<lambda>(organization, owner).
     bind_result (map_err AppCatalog (materialize_permission_catalog (oa_lib oa) (oa_document oa)))
       (\<lambda>permissions.
         Inr \<lparr> cq_organization = organization\<lparr>og_contact_email := co_contact_email cmd\<rparr>,
               cq_owner = owner, cq_permissions = permissions \<rparr>))))))"

fun upsert_catalog ::
  "(string \<times> Permission) list \<Rightarrow> (string \<times> Permission) list \<Rightarrow> Db
   \<Rightarrow> RepositoryError + ((string \<times> Permission) list \<times> Db)" where
  "upsert_catalog [] persisted d = Inr (persisted, d)"
| "upsert_catalog ((key, p) # rest) persisted d =
     bind_result (upsert_permission p d) (\<lambda>(q, d). upsert_catalog rest (bt_insert key q persisted) d)"

fun save_roles :: "org_lib \<Rightarrow> Role list \<Rightarrow> Db \<Rightarrow> RepositoryError + Db" where
  "save_roles ol [] d = Inr d"
| "save_roles ol (r # rs) d = bind_result (save_role ol r d) (save_roles ol rs)"

definition create_organization_tx ::
  "('c, 'z) organization_app_scheme \<Rightarrow> (nat \<Rightarrow> uuid) \<Rightarrow> CreateOrganizationCommand \<Rightarrow> Organization tx" where
  "create_organization_tx oa fr cmd d =
     bind_result (plan_organization_creation oa fr cmd) (\<lambda>creation.
     let organization = cq_organization creation; owner = cq_owner creation in
     bind_result (map_err AppEvent
       (organization_event_new (oa_tp oa) (fr 3) OrganizationCreated (og_id organization)
          [(''name'', JStr (og_name organization)),
           (''owner_user_id'', JStr (og_owner_id organization))] (co_now cmd))) (\<lambda>event.
     bind_result (repository (save_organization (oa_lib oa) organization d)) (\<lambda>d.
     bind_result (repository (save_member (oa_lib oa) owner d)) (\<lambda>d.
     bind_result (repository (upsert_catalog (cq_permissions creation) [] d)) (\<lambda>(permissions, d).
     bind_result (map_err AppSeed (materialize_system_roles (oa_lib oa) (oa_document oa)
       (og_id organization) permissions (og_created_at organization))) (\<lambda>roles.
     bind_result (repository (save_roles (oa_lib oa) (map snd roles) d)) (\<lambda>d.
     bind_result (ok_or OwnerRoleMissing (map_of roles ''owner'')) (\<lambda>owner_role.
     bind_result (repository (add_member_role_row (mb_id owner) (rl_id owner_role) d)) (\<lambda>d.
     bind_result (persist_event oa (fr 4) (Inr event) d) (\<lambda>d.
       Inr (organization, d)))))))))))"

definition create_organization ::
  "('c, 'z) organization_app_scheme \<Rightarrow> (nat \<Rightarrow> uuid) \<Rightarrow> CreateOrganizationCommand \<Rightarrow> Db \<times> 'c
   \<Rightarrow> (OrganizationApplicationError + Organization mutation) \<times> (Db \<times> 'c)" where
  "create_organization oa fr cmd =
     transact (create_organization_tx oa fr cmd) (\<lambda>organization c.
       case timestamp_ms (co_now cmd) of
         Inl e \<Rightarrow> (Inl e, c)
       | Inr now_ms \<Rightarrow>
           (case store_plan (oa_tp oa) (oa_cache oa) (og_id organization) (og_plan organization) now_ms c of
              (Inl x, c) \<Rightarrow> (Inr (organization, [(PlanCacheSynchronizationFailed, cache_error_text x)]), c)
            | (Inr _, c) \<Rightarrow> (Inr (organization, []), c)))"

text \<open>A field of the patch: when present, it is checked, set and named among the updated fields.\<close>

definition patched ::
  "'v option \<Rightarrow> ('v \<Rightarrow> Organization \<Rightarrow> OrganizationApplicationError + Organization) \<Rightarrow> string list
   \<Rightarrow> Organization \<times> string list \<Rightarrow> OrganizationApplicationError + (Organization \<times> string list)" where
  "patched v change names ou =
     (case v of
        None \<Rightarrow> Inr ou
      | Some x \<Rightarrow> bind_result (change x (fst ou)) (\<lambda>og. Inr (og, snd ou @ names)))"

definition plan_organization_update ::
  "org_lib \<Rightarrow> Organization \<Rightarrow> UpdateOrganizationPatch \<Rightarrow> time
   \<Rightarrow> OrganizationApplicationError + (Organization \<times> string list)" where
  "plan_organization_update ol current p now =
     (if patch_is_empty p then Inl (InvalidCommand ''at least one organization field is required'')
      else
      bind_result (patched (up_name p)
        (\<lambda>v og. bind_result (require_non_empty v ''name must not be empty'') (\<lambda>_. Inr (og\<lparr>og_name := v\<rparr>)))
        [''name''] (current, [])) (\<lambda>ou.
      bind_result (patched (up_display_name p)
        (\<lambda>v og. bind_result (require_non_empty v ''display_name must not be empty'')
                  (\<lambda>_. Inr (og\<lparr>og_display_name := Some v\<rparr>))) [''display_name''] ou) (\<lambda>ou.
      bind_result (patched (up_org_type p) (\<lambda>v og. Inr (og\<lparr>og_org_type := v\<rparr>)) [''org_type''] ou) (\<lambda>ou.
      bind_result (patched (up_description p) (\<lambda>v og. Inr (og\<lparr>og_description := v\<rparr>)) [''description''] ou)
        (\<lambda>ou.
      bind_result (patched (up_contact_email p) (\<lambda>v og. Inr (og\<lparr>og_contact_email := v\<rparr>))
        [''contact_email''] ou) (\<lambda>ou.
      bind_result (patched (up_contact_phone p) (\<lambda>v og. Inr (og\<lparr>og_contact_phone := v\<rparr>))
        [''contact_phone''] ou) (\<lambda>ou.
      bind_result (patched (up_website p) (\<lambda>v og. Inr (og\<lparr>og_website := v\<rparr>)) [''website''] ou) (\<lambda>ou.
      bind_result (patched (up_visibility p)
        (\<lambda>v og. bind_result (parse_visibility v)
                  (\<lambda>b. Inr (og\<lparr>og_is_discoverable := b, og_visibility := v\<rparr>)))
        [''visibility'', ''is_discoverable''] ou) (\<lambda>ou.
      bind_result (patched (up_join_mechanism p) (\<lambda>v og. Inr (og\<lparr>og_join_mechanism := v\<rparr>))
        [''join_mechanism''] ou) (\<lambda>ou.
      bind_result (patched (up_requires_approval p) (\<lambda>v og. Inr (og\<lparr>og_requires_approval := v\<rparr>))
        [''requires_approval''] ou) (\<lambda>ou.
      bind_result (patched (up_settings p)
        (\<lambda>v og. if contains_private_key_map (ol_parse_tree ol) v
                then Inl (InvalidCommand ''organization settings must not contain private key material'')
                else Inr (og\<lparr>og_settings := map_extend (og_settings og) v\<rparr>)) [''settings''] ou) (\<lambda>(og, names).
      bind_result (validate_admission (og_join_mechanism og) (og_is_discoverable og)) (\<lambda>_.
        Inr (og\<lparr>og_updated_at := now\<rparr>, names))))))))))))))"

definition update_organization_tx ::
  "('c, 'z) organization_app_scheme \<Rightarrow> (nat \<Rightarrow> uuid) \<Rightarrow> UpdateOrganizationCommand \<Rightarrow> Organization tx" where
  "update_organization_tx oa fr cmd d =
     bind_result (locked_organization oa (uo_organization_id cmd) d) (\<lambda>current.
     bind_result (plan_organization_update (oa_lib oa) current (uo_patch cmd) (uo_now cmd))
       (\<lambda>(organization, updated).
     bind_result (map_err AppEvent
       (organization_event_new (oa_tp oa) (fr 0) OrganizationUpdated (og_id organization)
          [(''updated_fields'', JArr (map JStr updated))] (uo_now cmd))) (\<lambda>event.
     bind_result (repository (save_organization (oa_lib oa) organization d)) (\<lambda>d.
     bind_result (persist_event oa (fr 1) (Inr event) d) (\<lambda>d.
       Inr (organization, d))))))"

definition update_organization ::
  "('c, 'z) organization_app_scheme \<Rightarrow> (nat \<Rightarrow> uuid) \<Rightarrow> UpdateOrganizationCommand \<Rightarrow> Db \<times> 'c
   \<Rightarrow> (OrganizationApplicationError + Organization mutation) \<times> (Db \<times> 'c)" where
  "update_organization oa fr cmd = transact (update_organization_tx oa fr cmd) without_warnings"

text \<open>The active memberships of a user whose organization exists.\<close>

fun with_organizations ::
  "org_lib \<Rightarrow> Member list \<Rightarrow> Db \<Rightarrow> OrganizationApplicationError + (Organization \<times> Member) list" where
  "with_organizations ol [] d = Inr []"
| "with_organizations ol (m # ms) d =
     bind_result (repository (organization_by_id ol (mb_organization_id m) d)) (\<lambda>organization.
     bind_result (with_organizations ol ms d) (\<lambda>rest.
       Inr (case organization of None \<Rightarrow> rest | Some og \<Rightarrow> (og, m) # rest)))"

definition get_user_organizations_with_memberships ::
  "org_lib \<Rightarrow> string \<Rightarrow> Db \<Rightarrow> OrganizationApplicationError + (Organization \<times> Member) list" where
  "get_user_organizations_with_memberships ol user_id d =
     bind_result (require_non_empty user_id ''user_id is required'') (\<lambda>_.
     bind_result (repository (memberships_by_user ol user_id d)) (\<lambda>memberships.
       with_organizations ol (filter (\<lambda>m. mb_status m = MsActive) memberships) d))"

definition get_user_organizations ::
  "org_lib \<Rightarrow> string \<Rightarrow> Db \<Rightarrow> OrganizationApplicationError + Organization list" where
  "get_user_organizations ol user_id d =
     bind_result (get_user_organizations_with_memberships ol user_id d) (\<lambda>rs. Inr (map fst rs))"

section \<open>Roles of a member\<close>

definition validated_roles ::
  "org_lib \<Rightarrow> uuid \<Rightarrow> uuid list \<Rightarrow> Db \<Rightarrow> OrganizationApplicationError + Role list" where
  "validated_roles ol organization_id role_ids d =
     (let ids = deduplicate_ids role_ids
      in if ids = [] then Inl (InvalidCommand ''a member must have at least one role'')
         else let roles = roles_by_ids_for_organization ol organization_id ids d
         in case find (\<lambda>i. i \<notin> role_id_set roles) ids of
              Some missing \<Rightarrow> Inl (RoleNotFound missing)
            | None \<Rightarrow> Inr roles)"

definition default_roles :: "org_lib \<Rightarrow> uuid \<Rightarrow> Db \<Rightarrow> OrganizationApplicationError + Role list" where
  "default_roles ol organization_id d =
     (let roles = default_roles_for_organization ol organization_id d
      in if roles = [] then Inl DefaultRoleMissing else Inr roles)"

definition resolve_direct_roles ::
  "('c, 'z) organization_app_scheme \<Rightarrow> uuid \<Rightarrow> string option \<Rightarrow> uuid list option \<Rightarrow> Role list \<Rightarrow> Db
   \<Rightarrow> OrganizationApplicationError + Role list" where
  "resolve_direct_roles oa organization_id email requested_role_ids current_roles d =
     bind_result
       (case requested_role_ids of
          None \<Rightarrow> Inr None
        | Some ids \<Rightarrow>
            (if ids = [] then Inr None
             else bind_result (validated_roles (oa_lib oa) organization_id ids d) (\<lambda>rs. Inr (Some rs))))
       (\<lambda>requested_roles.
     let grants = policy_grants_marty_admin (oa_lib oa) (oa_policy oa) organization_id email in
     bind_result
       (if grants
        then bind_result (ok_or AdminRoleMissing (role_by_name (oa_lib oa) organization_id ''admin'' d))
               (\<lambda>r. Inr (Some r))
        else Inr None)
       (\<lambda>admin_role.
          plan_direct_member_roles grants requested_roles current_roles admin_role
            (default_roles_for_organization (oa_lib oa) organization_id d)))"

definition scim_roles ::
  "org_lib \<Rightarrow> uuid \<Rightarrow> bool \<Rightarrow> uuid list option \<Rightarrow> Db \<Rightarrow> OrganizationApplicationError + Role list" where
  "scim_roles ol organization_id active role_ids d =
     (if \<not> active then Inr []
      else case role_ids of
             Some [] \<Rightarrow> Inr []
           | Some ids \<Rightarrow> validated_roles ol organization_id ids d
           | None \<Rightarrow> default_roles ol organization_id d)"

text \<open>The member with these roles and its rows.\<close>

definition save_with_roles :: "org_lib \<Rightarrow> Member \<Rightarrow> Role list \<Rightarrow> Db \<Rightarrow> OrganizationApplicationError + Db" where
  "save_with_roles ol m roles d =
     bind_result (repository (save_member ol m d)) (\<lambda>d.
       repository (set_member_role_rows (mb_id m) (map rl_id roles) d))"

end
