(* ===== verification/Organization_Membership.thy ===== *)
theory Organization_Membership
  imports Organization_Members
begin

text \<open>
  The commands of \<open>application.rs\<close> on the members of an organization: invitations, roles, removal,
  SCIM provisioning, direct addition and joining by code or openly.
\<close>

section \<open>Invitations\<close>

definition invite_member_tx ::
  "('c, 'z) organization_app_scheme \<Rightarrow> (nat \<Rightarrow> uuid) \<Rightarrow> InviteMemberCommand \<Rightarrow> Member tx" where
  "invite_member_tx oa fr cmd d =
     bind_result (require_non_empty (im_email cmd) ''email is required'') (\<lambda>_.
     bind_result (require_non_empty (im_invited_by cmd) ''invited_by is required'') (\<lambda>_.
     bind_result (require (im_role_ids cmd \<noteq> [])
       (InvalidCommand ''invites must include at least one role'')) (\<lambda>_.
     bind_result (locked_organization oa (im_organization_id cmd) d) (\<lambda>_.
     bind_result (repository
       (member_by_email_and_organization (oa_lib oa) (im_email cmd) (im_organization_id cmd) d)) (\<lambda>existing.
     bind_result (require (existing = None)
       (MemberConflict (im_email cmd @ '' is already invited or is a member''))) (\<lambda>_.
     bind_result (validated_roles (oa_lib oa) (im_organization_id cmd) (im_role_ids cmd) d) (\<lambda>roles.
     let member = create_invitation (fr 0) (im_organization_id cmd) (im_email cmd) (im_invited_by cmd)
                    (im_now cmd) in
     bind_result (save_with_roles (oa_lib oa) member roles d) (\<lambda>d.
     bind_result (persist_event oa (fr 2) (member_invited_event (oa_tp oa) (fr 1) cmd (mb_id member)) d) (\<lambda>d.
       Inr (member\<lparr>mb_roles := roles\<rparr>, d))))))))))"

definition invite_member ::
  "('c, 'z) organization_app_scheme \<Rightarrow> (nat \<Rightarrow> uuid) \<Rightarrow> InviteMemberCommand \<Rightarrow> Db \<times> 'c
   \<Rightarrow> (OrganizationApplicationError + Member mutation) \<times> (Db \<times> 'c)" where
  "invite_member oa fr cmd = transact (invite_member_tx oa fr cmd) without_warnings"

definition accept_invitation_tx ::
  "('c, 'z) organization_app_scheme \<Rightarrow> (nat \<Rightarrow> uuid) \<Rightarrow> AcceptInvitationCommand \<Rightarrow> Member tx" where
  "accept_invitation_tx oa fr cmd d =
     bind_result (require_non_empty (ai_user_id cmd) ''user_id is required'') (\<lambda>_.
     bind_result (locked_member oa (ai_member_id cmd) d) (\<lambda>member.
     bind_result (map_err AppDomain (member_accept_invitation (ai_user_id cmd) (ai_now cmd) member)) (\<lambda>member.
     bind_result (repository (save_member (oa_lib oa) member d)) (\<lambda>d.
     bind_result (persist_event oa (fr 1) (member_added_event (oa_tp oa) (fr 0) member (ai_now cmd)) d) (\<lambda>d.
       Inr (member, d))))))"

definition accept_invitation ::
  "('c, 'z) organization_app_scheme \<Rightarrow> (nat \<Rightarrow> uuid) \<Rightarrow> AcceptInvitationCommand \<Rightarrow> Db \<times> 'c
   \<Rightarrow> (OrganizationApplicationError + Member mutation) \<times> (Db \<times> 'c)" where
  "accept_invitation oa fr cmd = transact (accept_invitation_tx oa fr cmd) (after_member oa)"

section \<open>Roles and removal\<close>

definition set_member_roles_tx ::
  "('c, 'z) organization_app_scheme \<Rightarrow> SetMemberRolesCommand \<Rightarrow> Member tx" where
  "set_member_roles_tx oa cmd d =
     bind_result (require_non_empty (sr_updated_by cmd) ''updated_by is required'') (\<lambda>_.
     bind_result (require (sr_role_ids cmd \<noteq> [])
       (InvalidCommand ''a member must have at least one role'')) (\<lambda>_.
     bind_result (locked_member_of oa (sr_organization_id cmd) (sr_member_id cmd) d) (\<lambda>member.
     bind_result (locked_organization oa (sr_organization_id cmd) d) (\<lambda>organization.
     bind_result (validated_roles (oa_lib oa) (sr_organization_id cmd) (sr_role_ids cmd) d) (\<lambda>roles.
     bind_result (require (\<not> (mb_user_id member = og_owner_id organization
         \<and> \<not> (\<exists>r \<in> set roles. rl_name r = ''owner''))) OwnerRoleRequired) (\<lambda>_.
     bind_result (repository (set_member_role_rows (mb_id member) (map rl_id roles) d)) (\<lambda>d.
     let member = member\<lparr>mb_roles := roles, mb_updated_at := sr_now cmd\<rparr> in
     bind_result (repository (save_member (oa_lib oa) member d)) (\<lambda>d.
       Inr (member, d)))))))))"

definition set_member_roles ::
  "('c, 'z) organization_app_scheme \<Rightarrow> SetMemberRolesCommand \<Rightarrow> Db \<times> 'c
   \<Rightarrow> (OrganizationApplicationError + Member mutation) \<times> (Db \<times> 'c)" where
  "set_member_roles oa cmd = transact (set_member_roles_tx oa cmd) (after_member oa)"

definition remove_member_tx ::
  "('c, 'z) organization_app_scheme \<Rightarrow> (nat \<Rightarrow> uuid) \<Rightarrow> RemoveMemberCommand \<Rightarrow> Member tx" where
  "remove_member_tx oa fr cmd d =
     bind_result (require_non_empty (rm_removed_by cmd) ''removed_by is required'') (\<lambda>_.
     bind_result (locked_member_of oa (rm_organization_id cmd) (rm_member_id cmd) d) (\<lambda>member.
     bind_result (locked_organization oa (mb_organization_id member) d) (\<lambda>organization.
     bind_result (require (\<not> (og_owner_id organization \<noteq> []
         \<and> mb_user_id member = og_owner_id organization)) OwnerCannotBeRemoved) (\<lambda>_.
     bind_result (map_err AppEvent (member_removed_event (oa_tp oa) (fr 0) member (rm_now cmd))) (\<lambda>event.
     bind_result (require (fst (delete_member (mb_id member) d)) (MemberNotFound (mb_id member))) (\<lambda>_.
     bind_result (persist_event oa (fr 1) (Inr event) (snd (delete_member (mb_id member) d))) (\<lambda>d.
       Inr (member, d))))))))"

definition remove_member ::
  "('c, 'z) organization_app_scheme \<Rightarrow> (nat \<Rightarrow> uuid) \<Rightarrow> RemoveMemberCommand \<Rightarrow> Db \<times> 'c
   \<Rightarrow> (OrganizationApplicationError + unit mutation) \<times> (Db \<times> 'c)" where
  "remove_member oa fr cmd = transact (remove_member_tx oa fr cmd) (\<lambda>m c.
     with_warnings () (invalidate_member_after_commit oa (mb_user_id m) (mb_organization_id m) c))"

definition list_members :: "org_lib \<Rightarrow> uuid \<Rightarrow> Db \<Rightarrow> OrganizationApplicationError + Member list" where
  "list_members ol organization_id d = repository (members_by_organization ol organization_id d)"

definition get_member :: "org_lib \<Rightarrow> uuid \<Rightarrow> uuid \<Rightarrow> Db \<Rightarrow> OrganizationApplicationError + Member option" where
  "get_member ol organization_id member_id d =
     bind_result (repository (member_by_id ol member_id d)) (\<lambda>m.
       Inr (case m of None \<Rightarrow> None | Some m \<Rightarrow> if mb_organization_id m = organization_id then Some m else None))"

definition get_membership :: "org_lib \<Rightarrow> string \<Rightarrow> uuid \<Rightarrow> Db \<Rightarrow> OrganizationApplicationError + Member option" where
  "get_membership ol user_id organization_id d =
     bind_result (require_non_empty user_id ''user_id is required'') (\<lambda>_.
       repository (member_by_user_and_organization ol user_id organization_id d))"

section \<open>SCIM provisioning\<close>

definition scim_status :: "bool \<Rightarrow> MemberStatus" where
  "scim_status active = (if active then MsActive else MsDeactivated)"

definition create_scim_member_tx ::
  "('c, 'z) organization_app_scheme \<Rightarrow> (nat \<Rightarrow> uuid) \<Rightarrow> CreateScimMemberCommand \<Rightarrow> Member tx" where
  "create_scim_member_tx oa fr cmd d =
     bind_result (require_non_empty (cs_user_id cmd) ''user_id is required'') (\<lambda>_.
     bind_result (require_non_empty (cs_email cmd) ''email is required'') (\<lambda>_.
     bind_result (locked_organization oa (cs_organization_id cmd) d) (\<lambda>_.
     bind_result (repository
       (member_by_email_and_organization (oa_lib oa) (cs_email cmd) (cs_organization_id cmd) d)) (\<lambda>existing.
     bind_result (require (existing = None)
       (MemberConflict ''userName already exists in this organization'')) (\<lambda>_.
     bind_result (scim_roles (oa_lib oa) (cs_organization_id cmd) (cs_active cmd) (cs_role_ids cmd) d) (\<lambda>roles.
     let member = (member_create (fr 0) (cs_organization_id cmd) (cs_user_id cmd) (Some (cs_email cmd))
                    (scim_status (cs_active cmd)) (cs_now cmd))\<lparr>mb_roles := roles\<rparr> in
     bind_result (save_with_roles (oa_lib oa) member roles d) (\<lambda>d.
     bind_result (persist_event oa (fr 2) (member_added_event (oa_tp oa) (fr 1) member (cs_now cmd)) d) (\<lambda>d.
       Inr (member, d)))))))))"

definition create_scim_member ::
  "('c, 'z) organization_app_scheme \<Rightarrow> (nat \<Rightarrow> uuid) \<Rightarrow> CreateScimMemberCommand \<Rightarrow> Db \<times> 'c
   \<Rightarrow> (OrganizationApplicationError + Member mutation) \<times> (Db \<times> 'c)" where
  "create_scim_member oa fr cmd = transact (create_scim_member_tx oa fr cmd) (after_member oa)"

definition transition_event ::
  "third_party \<Rightarrow> uuid \<Rightarrow> bool \<Rightarrow> bool \<Rightarrow> Member \<Rightarrow> time
   \<Rightarrow> (OrganizationEventError + OrganizationEvent) option" where
  "transition_event tp fresh was_active active member now =
     (if was_active \<and> \<not> active then Some (member_removed_event tp fresh member now)
      else if \<not> was_active \<and> active then Some (member_added_event tp fresh member now)
      else None)"

text \<open>The transaction returns the user the member had before, whose caches are dropped too.\<close>

definition update_scim_member_tx ::
  "('c, 'z) organization_app_scheme \<Rightarrow> (nat \<Rightarrow> uuid) \<Rightarrow> UpdateScimMemberCommand
   \<Rightarrow> (Member \<times> string) tx" where
  "update_scim_member_tx oa fr cmd d =
     bind_result (require_non_empty (us_email cmd) ''email is required'') (\<lambda>_.
     bind_result (locked_member_of oa (us_organization_id cmd) (us_member_id cmd) d) (\<lambda>before.
     bind_result (locked_organization oa (us_organization_id cmd) d) (\<lambda>organization.
     bind_result (repository
       (member_by_email_and_organization (oa_lib oa) (us_email cmd) (us_organization_id cmd) d)) (\<lambda>existing.
     bind_result (require (case existing of None \<Rightarrow> True | Some m \<Rightarrow> mb_id m = mb_id before)
       (MemberConflict ''userName already exists in this organization'')) (\<lambda>_.
     bind_result (require (\<not> (\<not> us_active cmd \<and> mb_user_id before = og_owner_id organization))
       OwnerCannotBeRemoved) (\<lambda>_.
     bind_result (scim_roles (oa_lib oa) (us_organization_id cmd) (us_active cmd) (us_role_ids cmd) d) (\<lambda>roles.
     let member = before\<lparr>mb_user_id := us_user_id cmd, mb_email := Some (us_email cmd),
                         mb_status := scim_status (us_active cmd), mb_roles := roles,
                         mb_updated_at := us_now cmd\<rparr> in
     bind_result (save_with_roles (oa_lib oa) member roles d) (\<lambda>d.
     bind_result
       (case transition_event (oa_tp oa) (fr 0) (mb_status before = MsActive) (us_active cmd) member (us_now cmd) of
          None \<Rightarrow> Inr d
        | Some event \<Rightarrow> persist_event oa (fr 1) event d) (\<lambda>d.
       Inr ((member, mb_user_id before), d))))))))))"

definition update_scim_member ::
  "('c, 'z) organization_app_scheme \<Rightarrow> (nat \<Rightarrow> uuid) \<Rightarrow> UpdateScimMemberCommand \<Rightarrow> Db \<times> 'c
   \<Rightarrow> (OrganizationApplicationError + Member mutation) \<times> (Db \<times> 'c)" where
  "update_scim_member oa fr cmd =
     transact (update_scim_member_tx oa fr cmd) (\<lambda>(member, old_user_id) c.
       case invalidate_member_after_commit oa old_user_id (mb_organization_id member) c of
         (warnings, c) \<Rightarrow>
           (if mb_user_id member \<noteq> old_user_id
            then case invalidate_member_after_commit oa (mb_user_id member) (mb_organization_id member) c of
                   (others, c) \<Rightarrow> (Inr (member, warnings @ others), c)
            else (Inr (member, warnings), c)))"

section \<open>Direct addition\<close>

text \<open>
  The transaction returns the member and whether its caches are dropped. The three cases of the
  code: the user is a member, the address was invited, or the user is new.
\<close>

definition add_existing_member ::
  "('c, 'z) organization_app_scheme \<Rightarrow> AddMemberDirectCommand \<Rightarrow> Organization \<Rightarrow> Member
   \<Rightarrow> (Member \<times> bool) tx" where
  "add_existing_member oa cmd organization member d =
     bind_result (resolve_direct_roles oa (am_organization_id cmd) (am_email cmd) (am_role_ids cmd)
       (mb_roles member) d) (\<lambda>roles.
     bind_result (validate_owner_roles organization (mb_user_id member) roles) (\<lambda>_.
       if role_id_set roles = role_id_set (mb_roles member) then Inr ((member, False), d)
       else
       bind_result (repository (set_member_role_rows (mb_id member) (map rl_id roles) d)) (\<lambda>d.
       let member = member\<lparr>mb_roles := roles, mb_updated_at := am_now cmd\<rparr> in
       bind_result (repository (save_member (oa_lib oa) member d)) (\<lambda>d.
         Inr ((member, True), d)))))"

definition link_invited_member ::
  "('c, 'z) organization_app_scheme \<Rightarrow> AddMemberDirectCommand \<Rightarrow> Organization \<Rightarrow> string \<Rightarrow> Member
   \<Rightarrow> (Member \<times> bool) tx" where
  "link_invited_member oa cmd organization email member d =
     bind_result (require (mb_user_id member = [])
       (MemberConflict (email @ '' is already linked to another member''))) (\<lambda>_.
     bind_result (resolve_direct_roles oa (am_organization_id cmd) (am_email cmd) (am_role_ids cmd)
       (mb_roles member) d) (\<lambda>roles.
     bind_result (validate_owner_roles organization (am_user_id cmd) roles) (\<lambda>_.
     let member = member\<lparr>mb_user_id := am_user_id cmd, mb_joined_at := Some (am_now cmd),
                         mb_updated_at := am_now cmd\<rparr> in
     bind_result (save_with_roles (oa_lib oa) member roles d) (\<lambda>d.
       Inr ((member\<lparr>mb_roles := roles\<rparr>, True), d)))))"

definition add_new_member ::
  "('c, 'z) organization_app_scheme \<Rightarrow> (nat \<Rightarrow> uuid) \<Rightarrow> AddMemberDirectCommand \<Rightarrow> Organization
   \<Rightarrow> (Member \<times> bool) tx" where
  "add_new_member oa fr cmd organization d =
     (let member = member_create (fr 0) (am_organization_id cmd) (am_user_id cmd) (am_email cmd) MsActive
                     (am_now cmd) in
      bind_result (resolve_direct_roles oa (am_organization_id cmd) (am_email cmd) (am_role_ids cmd) [] d)
        (\<lambda>roles.
      bind_result (validate_owner_roles organization (mb_user_id member) roles) (\<lambda>_.
      bind_result (save_with_roles (oa_lib oa) member roles d) (\<lambda>d.
      let member = member\<lparr>mb_roles := roles\<rparr> in
      bind_result (persist_event oa (fr 2) (member_added_event (oa_tp oa) (fr 1) member (am_now cmd)) d) (\<lambda>d.
        Inr ((member, True), d))))))"

definition add_member_direct_tx ::
  "('c, 'z) organization_app_scheme \<Rightarrow> (nat \<Rightarrow> uuid) \<Rightarrow> AddMemberDirectCommand \<Rightarrow> (Member \<times> bool) tx" where
  "add_member_direct_tx oa fr cmd d =
     bind_result (require_non_empty (am_user_id cmd) ''user_id is required'') (\<lambda>_.
     bind_result (require (case am_email cmd of None \<Rightarrow> True | Some e \<Rightarrow> \<not> blank e)
       (InvalidCommand ''email must not be empty'')) (\<lambda>_.
     bind_result (locked_organization oa (am_organization_id cmd) d) (\<lambda>organization.
     bind_result (repository
       (member_by_user_and_organization (oa_lib oa) (am_user_id cmd) (am_organization_id cmd) d)) (\<lambda>existing.
       case existing of
         Some member \<Rightarrow> add_existing_member oa cmd organization member d
       | None \<Rightarrow>
           (case am_email cmd of
              None \<Rightarrow> add_new_member oa fr cmd organization d
            | Some email \<Rightarrow>
                bind_result (repository
                  (member_by_email_and_organization (oa_lib oa) email (am_organization_id cmd) d)) (\<lambda>invited.
                  case invited of
                    Some member \<Rightarrow> link_invited_member oa cmd organization email member d
                  | None \<Rightarrow> add_new_member oa fr cmd organization d))))))"

definition add_member_direct ::
  "('c, 'z) organization_app_scheme \<Rightarrow> (nat \<Rightarrow> uuid) \<Rightarrow> AddMemberDirectCommand \<Rightarrow> Db \<times> 'c
   \<Rightarrow> (OrganizationApplicationError + Member mutation) \<times> (Db \<times> 'c)" where
  "add_member_direct oa fr cmd = transact (add_member_direct_tx oa fr cmd) (\<lambda>(member, changed) c.
     if changed then after_member oa member c else without_warnings member c)"

section \<open>Joining\<close>

definition normalize_join_code :: "org_lib \<Rightarrow> string \<Rightarrow> OrganizationApplicationError + string" where
  "normalize_join_code ol code =
     (let c = ol_to_uppercase ol (trim code)
      in if c = [] then Inl (InvalidCommand ''join code is required'') else Inr c)"

definition evaluate_join_code :: "JoinCode \<Rightarrow> time \<Rightarrow> JoinCodeEvaluation" where
  "evaluate_join_code jc now =
     (if join_code_is_valid_at now jc
      then \<lparr> je_state = JcValid, je_message = ''valid'', je_expired = False \<rparr>
      else if \<not> jc_is_active jc
      then \<lparr> je_state = JcInactive, je_message = ''This invitation is no longer active'', je_expired = False \<rparr>
      else if (case jc_expires_at jc of None \<Rightarrow> False | Some t \<Rightarrow> t < now)
      then \<lparr> je_state = JcExpired, je_message = ''This invitation has expired'', je_expired = True \<rparr>
      else if (case jc_max_uses jc of None \<Rightarrow> False | Some mx \<Rightarrow> mx \<le> jc_use_count jc)
      then \<lparr> je_state = JcExhausted, je_message = ''This invitation has reached its maximum uses'',
             je_expired = False \<rparr>
      else \<lparr> je_state = JcInvalid, je_message = ''Invalid invitation code'', je_expired = False \<rparr>)"

definition validate_join_code_state :: "JoinCode \<Rightarrow> time \<Rightarrow> OrganizationApplicationError + unit" where
  "validate_join_code_state jc now =
     (case je_state (evaluate_join_code jc now) of
        JcValid \<Rightarrow> Inr ()
      | JcInactive \<Rightarrow> Inl (InvalidJoinCode ''no longer active'')
      | JcExpired \<Rightarrow> Inl (InvalidJoinCode ''expired'')
      | JcExhausted \<Rightarrow> Inl (InvalidJoinCode ''maximum uses reached'')
      | JcInvalid \<Rightarrow> Inl (InvalidJoinCode ''invalid''))"

definition joining_status :: "Organization \<Rightarrow> MemberStatus" where
  "joining_status organization = (if og_requires_approval organization then MsPending else MsActive)"

definition join_by_code_tx ::
  "('c, 'z) organization_app_scheme \<Rightarrow> (nat \<Rightarrow> uuid) \<Rightarrow> JoinByCodeCommand \<Rightarrow> (Organization \<times> Member) tx" where
  "join_by_code_tx oa fr cmd d =
     bind_result (require_non_empty (jb_user_id cmd) ''user_id is required'') (\<lambda>_.
     bind_result (require_non_empty (jb_email cmd) ''email is required'') (\<lambda>_.
     bind_result (normalize_join_code (oa_lib oa) (jb_code cmd)) (\<lambda>code.
     bind_result (bind_result (repository (join_code_by_code code d)) (ok_or (InvalidJoinCode ''not found''))) (\<lambda>join_code.
     bind_result (validate_join_code_state join_code (jb_now cmd)) (\<lambda>_.
     bind_result (locked_organization oa (jc_organization_id join_code) d) (\<lambda>organization.
     bind_result (repository
       (member_by_user_and_organization (oa_lib oa) (jb_user_id cmd) (og_id organization) d)) (\<lambda>existing.
     bind_result (require (existing = None)
       (MemberConflict ''already a member of this organization'')) (\<lambda>_.
     bind_result (default_roles (oa_lib oa) (og_id organization) d) (\<lambda>roles.
     let member = member_create (fr 0) (og_id organization) (jb_user_id cmd) (Some (jb_email cmd))
                    (joining_status organization) (jb_now cmd) in
     bind_result (map_err AppDomain (increment_usage (jb_now cmd) join_code)) (\<lambda>join_code.
     bind_result (save_with_roles (oa_lib oa) member roles d) (\<lambda>d.
     let member = member\<lparr>mb_roles := roles\<rparr> in
     bind_result (repository (save_join_code (oa_lib oa) join_code d)) (\<lambda>d.
     bind_result (persist_event oa (fr 2) (member_added_event (oa_tp oa) (fr 1) member (jb_now cmd)) d) (\<lambda>d.
       Inr ((organization, member), d))))))))))))))"

definition after_join ::
  "('c, 'z) organization_app_scheme \<Rightarrow> Organization \<times> Member \<Rightarrow> 'c
   \<Rightarrow> (OrganizationApplicationError + (Organization \<times> Member) mutation) \<times> 'c" where
  "after_join oa om c =
     with_warnings om
       (invalidate_member_after_commit oa (mb_user_id (snd om)) (mb_organization_id (snd om)) c)"

definition join_by_code ::
  "('c, 'z) organization_app_scheme \<Rightarrow> (nat \<Rightarrow> uuid) \<Rightarrow> JoinByCodeCommand \<Rightarrow> Db \<times> 'c
   \<Rightarrow> (OrganizationApplicationError + (Organization \<times> Member) mutation) \<times> (Db \<times> 'c)" where
  "join_by_code oa fr cmd = transact (join_by_code_tx oa fr cmd) (after_join oa)"

definition join_organization_tx ::
  "('c, 'z) organization_app_scheme \<Rightarrow> (nat \<Rightarrow> uuid) \<Rightarrow> JoinOrganizationCommand
   \<Rightarrow> (Organization \<times> Member) tx" where
  "join_organization_tx oa fr cmd d =
     bind_result (require_non_empty (jo_user_id cmd) ''user_id is required'') (\<lambda>_.
     bind_result (require_non_empty (jo_email cmd) ''email is required'') (\<lambda>_.
     bind_result (locked_organization oa (jo_organization_id cmd) d) (\<lambda>organization.
     bind_result (require (og_join_mechanism organization = JoinOpen) DirectJoinNotAllowed) (\<lambda>_.
     bind_result (repository
       (member_by_user_and_organization (oa_lib oa) (jo_user_id cmd) (og_id organization) d)) (\<lambda>existing.
     bind_result
       (case existing of
          None \<Rightarrow> Inr ()
        | Some m \<Rightarrow> Inl (if mb_status m = MsPending then JoinRequestPending
                         else MemberConflict ''already a member of this organization'')) (\<lambda>_.
     bind_result (default_roles (oa_lib oa) (og_id organization) d) (\<lambda>roles.
     let member = member_create (fr 0) (og_id organization) (jo_user_id cmd) (Some (jo_email cmd))
                    (joining_status organization) (jo_now cmd) in
     bind_result (save_with_roles (oa_lib oa) member roles d) (\<lambda>d.
     let member = member\<lparr>mb_roles := roles\<rparr> in
     bind_result (persist_event oa (fr 2) (member_added_event (oa_tp oa) (fr 1) member (jo_now cmd)) d) (\<lambda>d.
       Inr ((organization, member), d))))))))))"

definition join_organization ::
  "('c, 'z) organization_app_scheme \<Rightarrow> (nat \<Rightarrow> uuid) \<Rightarrow> JoinOrganizationCommand \<Rightarrow> Db \<times> 'c
   \<Rightarrow> (OrganizationApplicationError + (Organization \<times> Member) mutation) \<times> (Db \<times> 'c)" where
  "join_organization oa fr cmd = transact (join_organization_tx oa fr cmd) (after_join oa)"

definition invalid_join_code_validation :: "string \<Rightarrow> bool \<Rightarrow> JoinCodeValidation" where
  "invalid_join_code_validation message expired =
     \<lparr> jv_is_valid = False, jv_organization = None, jv_message = message, jv_expired = expired \<rparr>"

definition validate_join_code ::
  "org_lib \<Rightarrow> string \<Rightarrow> time \<Rightarrow> Db \<Rightarrow> OrganizationApplicationError + JoinCodeValidation" where
  "validate_join_code ol code now d =
     (case normalize_join_code ol code of
        Inl _ \<Rightarrow> Inr (invalid_join_code_validation ''Join code is required'' False)
      | Inr code \<Rightarrow>
          bind_result (repository (join_code_by_code code d)) (\<lambda>found.
            case found of
              None \<Rightarrow> Inr (invalid_join_code_validation ''Invitation code not found'' False)
            | Some join_code \<Rightarrow>
                (let evaluation = evaluate_join_code join_code now
                 in if je_state evaluation \<noteq> JcValid
                    then Inr (invalid_join_code_validation (je_message evaluation) (je_expired evaluation))
                    else
                    bind_result (repository (organization_by_id ol (jc_organization_id join_code) d))
                      (\<lambda>organization.
                        Inr (case organization of
                          None \<Rightarrow> invalid_join_code_validation ''Organization not found'' False
                        | Some og \<Rightarrow>
                            \<lparr> jv_is_valid = True, jv_organization = Some og,
                              jv_message = ''Valid invitation to join '' @ og_name og,
                              jv_expired = False \<rparr>)))))"

end
