(* ===== verification/Organization_Roles.thy ===== *)
theory Organization_Roles
  imports Organization_Members
begin

text \<open>
  \<open>rust/services/organization/src/roles.rs\<close>: the commands on roles, on the roles of a member and on
  the groups of SCIM, which are roles with their members.
\<close>

record CreateRoleCommand =
  cl_organization_id :: uuid
  cl_name :: string
  cl_created_by :: string
  cl_display_name :: "string option"
  cl_description :: "string option"
  cl_permission_ids :: "uuid list"
  cl_is_default_for_new_members :: bool
  cl_now :: time

record UpdateRolePatch =
  ur_display_name :: "string option"
  ur_description :: "string option option"
  ur_permission_ids :: "uuid list option"
  ur_is_default_for_new_members :: "bool option"

record UpdateRoleCommand =
  ul_role_id :: uuid
  ul_organization_id :: uuid
  ul_updated_by :: string
  ul_patch :: UpdateRolePatch
  ul_now :: time

record DeleteRoleCommand =
  dl_role_id :: uuid
  dl_organization_id :: uuid
  dl_deleted_by :: string
  dl_replacement_role_id :: "uuid option"
  dl_now :: time

record MemberRoleCommand =
  mc_member_id :: uuid
  mc_organization_id :: uuid
  mc_role_id :: uuid
  mc_updated_by :: string
  mc_now :: time

record CreateScimGroupCommand =
  cg_organization_id :: uuid
  cg_name :: string
  cg_display_name :: string
  cg_description :: "string option"
  cg_permission_ids :: "uuid list"
  cg_member_ids :: "uuid list"
  cg_created_by :: string
  cg_now :: time

record UpdateScimGroupCommand =
  ug_organization_id :: uuid
  ug_role_id :: uuid
  ug_display_name :: string
  ug_description :: "string option"
  ug_permission_ids :: "uuid list"
  ug_member_ids :: "uuid list"
  ug_updated_by :: string
  ug_now :: time

section \<open>Shared steps\<close>

definition role_event ::
  "third_party \<Rightarrow> uuid \<Rightarrow> OrganizationEventKind \<Rightarrow> uuid \<Rightarrow> Role \<Rightarrow> string \<Rightarrow> string \<Rightarrow> time \<Rightarrow> uuid option
   \<Rightarrow> OrganizationEventError + OrganizationEvent" where
  "role_event tp fresh kind organization_id role actor_field actor_id now member_id =
     organization_event_new tp fresh kind organization_id
       ([(''role_id'', JStr (tp_uuid_show tp (rl_id role))), (''role_name'', JStr (rl_name role)),
         (actor_field, JStr actor_id)]
        @ (case member_id of None \<Rightarrow> [] | Some m \<Rightarrow> [(''member_id'', JStr (tp_uuid_show tp m))])) now"

definition locked_role_of ::
  "('c, 'z) organization_app_scheme \<Rightarrow> uuid \<Rightarrow> uuid \<Rightarrow> Db \<Rightarrow> OrganizationApplicationError + Role" where
  "locked_role_of oa organization_id i d =
     (case role_by_id (oa_lib oa) i d of
        None \<Rightarrow> Inl (RoleNotFound i)
      | Some r \<Rightarrow> if rl_organization_id r = organization_id then Inr r else Inl (RoleNotFound i))"

definition permissions_of ::
  "org_lib \<Rightarrow> uuid list \<Rightarrow> Db \<Rightarrow> OrganizationApplicationError + Permission list" where
  "permissions_of ol permission_ids d =
     (let ids = deduplicate_ids permission_ids;
          permissions = permissions_by_ids ol ids d
      in case find (\<lambda>i. i \<notin> pm_id ` set permissions) ids of
           Some missing \<Rightarrow> Inl (PermissionNotFound missing)
         | None \<Rightarrow> Inr permissions)"

fun members_of ::
  "('c, 'z) organization_app_scheme \<Rightarrow> uuid \<Rightarrow> uuid list \<Rightarrow> Db
   \<Rightarrow> OrganizationApplicationError + Member list" where
  "members_of oa organization_id [] d = Inr []"
| "members_of oa organization_id (i # is) d =
     bind_result (locked_member_of oa organization_id i d) (\<lambda>m.
     bind_result (members_of oa organization_id is d) (\<lambda>ms. Inr (m # ms)))"

definition scim_members ::
  "('c, 'z) organization_app_scheme \<Rightarrow> uuid \<Rightarrow> uuid list \<Rightarrow> Db
   \<Rightarrow> OrganizationApplicationError + Member list" where
  "scim_members oa organization_id member_ids d =
     members_of oa organization_id (deduplicate_ids member_ids) d"

text \<open>The default flag is taken from every role of the organization but the retained one.\<close>

definition cleared_roles :: "org_lib \<Rightarrow> uuid \<Rightarrow> uuid option \<Rightarrow> time \<Rightarrow> Db \<Rightarrow> Role list" where
  "cleared_roles ol organization_id retained_role_id now d =
     map (\<lambda>r. r\<lparr>rl_is_default_for_new_members := False, rl_updated_at := now\<rparr>)
       (filter (\<lambda>r. rl_is_default_for_new_members r \<and> Some (rl_id r) \<noteq> retained_role_id)
          (roles_by_organization ol organization_id d))"

definition clear_default_roles ::
  "org_lib \<Rightarrow> uuid \<Rightarrow> uuid option \<Rightarrow> time \<Rightarrow> Db \<Rightarrow> OrganizationApplicationError + Db" where
  "clear_default_roles ol organization_id retained_role_id now d =
     repository (save_roles ol (cleared_roles ol organization_id retained_role_id now d) d)"

fun add_member_roles :: "uuid \<Rightarrow> uuid list \<Rightarrow> Db \<Rightarrow> RepositoryError + Db" where
  "add_member_roles role_id [] d = Inr d"
| "add_member_roles role_id (m # ms) d =
     bind_result (add_member_role_row m role_id d) (add_member_roles role_id ms)"

fun remove_member_roles :: "uuid \<Rightarrow> uuid list \<Rightarrow> Db \<Rightarrow> Db" where
  "remove_member_roles role_id [] d = d"
| "remove_member_roles role_id (m # ms) d =
     remove_member_roles role_id ms (snd (remove_member_role_row m role_id d))"

fun invalidate_members_after_commit ::
  "('c, 'z) organization_app_scheme \<Rightarrow> Member list \<Rightarrow> 'c \<Rightarrow> ApplicationWarning list \<times> 'c" where
  "invalidate_members_after_commit oa [] c = ([], c)"
| "invalidate_members_after_commit oa (m # ms) c =
     (case invalidate_member_after_commit oa (mb_user_id m) (mb_organization_id m) c of
        (warnings, c) \<Rightarrow>
          (case invalidate_members_after_commit oa ms c of (others, c) \<Rightarrow> (warnings @ others, c)))"

section \<open>Roles\<close>

definition create_role_tx ::
  "('c, 'z) organization_app_scheme \<Rightarrow> (nat \<Rightarrow> uuid) \<Rightarrow> CreateRoleCommand \<Rightarrow> Role tx" where
  "create_role_tx oa fr cmd d =
     bind_result (require_non_empty (cl_name cmd) ''role name is required'') (\<lambda>_.
     bind_result (require_non_empty (cl_created_by cmd) ''created_by is required'') (\<lambda>_.
     bind_result (locked_organization oa (cl_organization_id cmd) d) (\<lambda>_.
     bind_result (require (role_by_name (oa_lib oa) (cl_organization_id cmd) (cl_name cmd) d = None)
       (RoleConflict (cl_name cmd))) (\<lambda>_.
     bind_result (permissions_of (oa_lib oa) (cl_permission_ids cmd) d) (\<lambda>permissions.
     bind_result
       (if cl_is_default_for_new_members cmd
        then clear_default_roles (oa_lib oa) (cl_organization_id cmd) None (cl_now cmd) d
        else Inr d) (\<lambda>d.
     let role = \<lparr> rl_id = fr 0, rl_organization_id = cl_organization_id cmd, rl_name = cl_name cmd,
                  rl_display_name =
                    Some (case cl_display_name cmd of None \<Rightarrow> cl_name cmd | Some n \<Rightarrow> n),
                  rl_description = cl_description cmd, rl_is_system = False,
                  rl_is_default_for_new_members = cl_is_default_for_new_members cmd,
                  rl_permissions = permissions, rl_created_at = cl_now cmd,
                  rl_updated_at = cl_now cmd \<rparr> in
     bind_result (repository (save_role (oa_lib oa) role d)) (\<lambda>d.
     bind_result (persist_event oa (fr 2)
       (role_event (oa_tp oa) (fr 1) RoleCreated (rl_organization_id role) role ''created_by''
          (cl_created_by cmd) (cl_now cmd) None) d) (\<lambda>d.
       Inr (role, d)))))))))"

definition create_role ::
  "('c, 'z) organization_app_scheme \<Rightarrow> (nat \<Rightarrow> uuid) \<Rightarrow> CreateRoleCommand \<Rightarrow> Db \<times> 'c
   \<Rightarrow> (OrganizationApplicationError + Role mutation) \<times> (Db \<times> 'c)" where
  "create_role oa fr cmd = transact (create_role_tx oa fr cmd) without_warnings"

definition patch_role_text :: "UpdateRolePatch \<Rightarrow> Role \<Rightarrow> OrganizationApplicationError + Role" where
  "patch_role_text p r =
     bind_result
       (case ur_display_name p of
          None \<Rightarrow> Inr r
        | Some n \<Rightarrow> bind_result (require_non_empty n ''display_name must not be empty'')
                      (\<lambda>_. Inr (r\<lparr>rl_display_name := Some n\<rparr>)))
       (\<lambda>r. Inr (case ur_description p of None \<Rightarrow> r | Some x \<Rightarrow> r\<lparr>rl_description := x\<rparr>))"

definition patch_role_permissions ::
  "org_lib \<Rightarrow> UpdateRolePatch \<Rightarrow> Role \<Rightarrow> Db \<Rightarrow> OrganizationApplicationError + Role" where
  "patch_role_permissions ol p r d =
     (case ur_permission_ids p of
        None \<Rightarrow> Inr r
      | Some ids \<Rightarrow> bind_result (permissions_of ol ids d) (\<lambda>ps. Inr (r\<lparr>rl_permissions := ps\<rparr>)))"

definition patch_role_default ::
  "org_lib \<Rightarrow> UpdateRoleCommand \<Rightarrow> Role \<Rightarrow> Db \<Rightarrow> OrganizationApplicationError + (Role \<times> Db)" where
  "patch_role_default ol cmd r d =
     (case ur_is_default_for_new_members (ul_patch cmd) of
        None \<Rightarrow> Inr (r, d)
      | Some is_default \<Rightarrow>
          bind_result
            (if is_default
             then clear_default_roles ol (ul_organization_id cmd) (Some (rl_id r)) (ul_now cmd) d
             else if rl_is_default_for_new_members r then Inl ReplacementRoleRequired
             else Inr d)
            (\<lambda>d. Inr (r\<lparr>rl_is_default_for_new_members := is_default\<rparr>, d)))"

definition update_role_tx ::
  "('c, 'z) organization_app_scheme \<Rightarrow> (nat \<Rightarrow> uuid) \<Rightarrow> UpdateRoleCommand \<Rightarrow> Role tx" where
  "update_role_tx oa fr cmd d =
     bind_result (require_non_empty (ul_updated_by cmd) ''updated_by is required'') (\<lambda>_.
     bind_result (locked_role_of oa (ul_organization_id cmd) (ul_role_id cmd) d) (\<lambda>role.
     bind_result (patch_role_text (ul_patch cmd) role) (\<lambda>role.
     bind_result (patch_role_permissions (oa_lib oa) (ul_patch cmd) role d) (\<lambda>role.
     bind_result (patch_role_default (oa_lib oa) cmd role d) (\<lambda>(role, d).
     let role = role\<lparr>rl_updated_at := ul_now cmd\<rparr> in
     bind_result (repository (save_role (oa_lib oa) role d)) (\<lambda>d.
     bind_result (persist_event oa (fr 1)
       (role_event (oa_tp oa) (fr 0) RoleUpdated (rl_organization_id role) role ''updated_by''
          (ul_updated_by cmd) (ul_now cmd) None) d) (\<lambda>d.
       Inr (role, d))))))))"

definition update_role ::
  "('c, 'z) organization_app_scheme \<Rightarrow> (nat \<Rightarrow> uuid) \<Rightarrow> UpdateRoleCommand \<Rightarrow> Db \<times> 'c
   \<Rightarrow> (OrganizationApplicationError + Role mutation) \<times> (Db \<times> 'c)" where
  "update_role oa fr cmd = transact (update_role_tx oa fr cmd) without_warnings"

definition resolve_replacement_role ::
  "Role \<Rightarrow> Role list \<Rightarrow> uuid option \<Rightarrow> bool \<Rightarrow> OrganizationApplicationError + Role option" where
  "resolve_replacement_role deleted_role organization_roles requested has_affected_members =
     (if requested = Some (rl_id deleted_role) then Inl ReplacementRoleRequired
      else let required = rl_is_default_for_new_members deleted_role \<or> has_affected_members in
      bind_result
        (case requested of
           Some i \<Rightarrow>
             bind_result (ok_or (RoleNotFound i) (find (\<lambda>r. rl_id r = i) organization_roles))
               (\<lambda>r. Inr (Some r))
         | None \<Rightarrow>
             Inr (if required
                  then find (\<lambda>r. rl_id r \<noteq> rl_id deleted_role \<and> rl_is_default_for_new_members r)
                         organization_roles
                  else None))
        (\<lambda>replacement.
           if required \<and> replacement = None then Inl ReplacementRoleRequired else Inr replacement))"

text \<open>A member whose only role is deleted gets the replacement first.\<close>

fun replace_for_members ::
  "('c, 'z) organization_app_scheme \<Rightarrow> Role option \<Rightarrow> uuid list \<Rightarrow> Member list tx" where
  "replace_for_members oa replacement [] d = Inr ([], d)"
| "replace_for_members oa replacement (i # is) d =
     bind_result (locked_member oa i d) (\<lambda>member.
     bind_result
       (if length (roles_for_member (oa_lib oa) i d) = 1
        then bind_result (ok_or ReplacementRoleRequired replacement)
               (\<lambda>r. repository (add_member_role_row i (rl_id r) d))
        else Inr d) (\<lambda>d.
     bind_result (replace_for_members oa replacement is d) (\<lambda>(members, d).
       Inr (member # members, d))))"

definition move_default ::
  "('c, 'z) organization_app_scheme \<Rightarrow> DeleteRoleCommand \<Rightarrow> Role option \<Rightarrow> Db
   \<Rightarrow> OrganizationApplicationError + Db" where
  "move_default oa cmd replacement d =
     bind_result (ok_or ReplacementRoleRequired replacement) (\<lambda>r.
     bind_result (clear_default_roles (oa_lib oa) (dl_organization_id cmd) (Some (rl_id r)) (dl_now cmd) d)
       (\<lambda>d. repository (save_role (oa_lib oa)
              (r\<lparr>rl_is_default_for_new_members := True, rl_updated_at := dl_now cmd\<rparr>) d)))"

definition delete_role_tx ::
  "('c, 'z) organization_app_scheme \<Rightarrow> (nat \<Rightarrow> uuid) \<Rightarrow> DeleteRoleCommand \<Rightarrow> Member list tx" where
  "delete_role_tx oa fr cmd d =
     bind_result (require_non_empty (dl_deleted_by cmd) ''deleted_by is required'') (\<lambda>_.
     bind_result (locked_role_of oa (dl_organization_id cmd) (dl_role_id cmd) d) (\<lambda>role.
     bind_result (require (\<not> rl_is_system role) SystemRoleDeleteForbidden) (\<lambda>_.
     let all_roles = roles_by_organization (oa_lib oa) (dl_organization_id cmd) d;
         affected = member_ids_with_role (rl_id role) d in
     bind_result (resolve_replacement_role role all_roles (dl_replacement_role_id cmd) (affected \<noteq> []))
       (\<lambda>replacement.
     bind_result (replace_for_members oa replacement affected d) (\<lambda>(members, d).
     bind_result (if rl_is_default_for_new_members role then move_default oa cmd replacement d else Inr d) (\<lambda>d.
     bind_result (require (fst (delete_role_row (rl_id role) d)) (RoleNotFound (rl_id role))) (\<lambda>_.
     bind_result (persist_event oa (fr 1)
       (role_event (oa_tp oa) (fr 0) RoleDeleted (rl_organization_id role) role ''deleted_by''
          (dl_deleted_by cmd) (dl_now cmd) None) (snd (delete_role_row (rl_id role) d))) (\<lambda>d.
       Inr (members, d)))))))))"

definition delete_role ::
  "('c, 'z) organization_app_scheme \<Rightarrow> (nat \<Rightarrow> uuid) \<Rightarrow> DeleteRoleCommand \<Rightarrow> Db \<times> 'c
   \<Rightarrow> (OrganizationApplicationError + unit mutation) \<times> (Db \<times> 'c)" where
  "delete_role oa fr cmd = transact (delete_role_tx oa fr cmd) (\<lambda>members c.
     with_warnings () (invalidate_members_after_commit oa members c))"

section \<open>Roles of a member\<close>

definition add_member_role_tx ::
  "('c, 'z) organization_app_scheme \<Rightarrow> (nat \<Rightarrow> uuid) \<Rightarrow> MemberRoleCommand \<Rightarrow> Member tx" where
  "add_member_role_tx oa fr cmd d =
     bind_result (require_non_empty (mc_updated_by cmd) ''updated_by is required'') (\<lambda>_.
     bind_result (locked_member_of oa (mc_organization_id cmd) (mc_member_id cmd) d) (\<lambda>member.
     bind_result (locked_role_of oa (mc_organization_id cmd) (mc_role_id cmd) d) (\<lambda>role.
     bind_result (repository (add_member_role_row (mb_id member) (rl_id role) d)) (\<lambda>d.
     bind_result (persist_event oa (fr 1)
       (role_event (oa_tp oa) (fr 0) RoleAssigned (rl_organization_id role) role ''assigned_by''
          (mc_updated_by cmd) (mc_now cmd) (Some (mb_id member))) d) (\<lambda>d.
       Inr (member, d))))))"

definition after_member_role ::
  "('c, 'z) organization_app_scheme \<Rightarrow> Member \<Rightarrow> 'c
   \<Rightarrow> (OrganizationApplicationError + unit mutation) \<times> 'c" where
  "after_member_role oa m c =
     with_warnings () (invalidate_member_after_commit oa (mb_user_id m) (mb_organization_id m) c)"

definition add_member_role ::
  "('c, 'z) organization_app_scheme \<Rightarrow> (nat \<Rightarrow> uuid) \<Rightarrow> MemberRoleCommand \<Rightarrow> Db \<times> 'c
   \<Rightarrow> (OrganizationApplicationError + unit mutation) \<times> (Db \<times> 'c)" where
  "add_member_role oa fr cmd = transact (add_member_role_tx oa fr cmd) (after_member_role oa)"

definition remove_member_role_tx ::
  "('c, 'z) organization_app_scheme \<Rightarrow> (nat \<Rightarrow> uuid) \<Rightarrow> MemberRoleCommand \<Rightarrow> Member tx" where
  "remove_member_role_tx oa fr cmd d =
     bind_result (require_non_empty (mc_updated_by cmd) ''updated_by is required'') (\<lambda>_.
     bind_result (locked_member_of oa (mc_organization_id cmd) (mc_member_id cmd) d) (\<lambda>member.
     let current_roles = roles_for_member (oa_lib oa) (mb_id member) d in
     bind_result (ok_or RoleNotAssigned (find (\<lambda>r. rl_id r = mc_role_id cmd) current_roles)) (\<lambda>role.
     bind_result (require (1 < length current_roles) LastMemberRoleRemovalForbidden) (\<lambda>_.
     bind_result (locked_organization oa (mc_organization_id cmd) d) (\<lambda>organization.
     bind_result (require (\<not> (mb_user_id member = og_owner_id organization \<and> rl_name role = ''owner''))
       OwnerRoleRequired) (\<lambda>_.
     bind_result (require (fst (remove_member_role_row (mb_id member) (rl_id role) d)) RoleNotAssigned) (\<lambda>_.
     bind_result (persist_event oa (fr 1)
       (role_event (oa_tp oa) (fr 0) RoleRemovedFromMember (rl_organization_id role) role ''removed_by''
          (mc_updated_by cmd) (mc_now cmd) (Some (mb_id member)))
       (snd (remove_member_role_row (mb_id member) (rl_id role) d))) (\<lambda>d.
       Inr (member, d)))))))))"

definition remove_member_role ::
  "('c, 'z) organization_app_scheme \<Rightarrow> (nat \<Rightarrow> uuid) \<Rightarrow> MemberRoleCommand \<Rightarrow> Db \<times> 'c
   \<Rightarrow> (OrganizationApplicationError + unit mutation) \<times> (Db \<times> 'c)" where
  "remove_member_role oa fr cmd = transact (remove_member_role_tx oa fr cmd) (after_member_role oa)"

section \<open>Groups\<close>

definition create_scim_group_tx ::
  "('c, 'z) organization_app_scheme \<Rightarrow> (nat \<Rightarrow> uuid) \<Rightarrow> CreateScimGroupCommand
   \<Rightarrow> (Role \<times> Member list) tx" where
  "create_scim_group_tx oa fr cmd d =
     bind_result (require_non_empty (cg_name cmd) ''role name is required'') (\<lambda>_.
     bind_result (require_non_empty (cg_display_name cmd) ''display_name is required'') (\<lambda>_.
     bind_result (require_non_empty (cg_created_by cmd) ''created_by is required'') (\<lambda>_.
     bind_result (locked_organization oa (cg_organization_id cmd) d) (\<lambda>_.
     bind_result (require (role_by_name (oa_lib oa) (cg_organization_id cmd) (cg_name cmd) d = None)
       (RoleConflict (cg_name cmd))) (\<lambda>_.
     bind_result (permissions_of (oa_lib oa) (cg_permission_ids cmd) d) (\<lambda>permissions.
     bind_result (scim_members oa (cg_organization_id cmd) (cg_member_ids cmd) d) (\<lambda>members.
     let role = \<lparr> rl_id = fr 0, rl_organization_id = cg_organization_id cmd, rl_name = cg_name cmd,
                  rl_display_name = Some (cg_display_name cmd), rl_description = cg_description cmd,
                  rl_is_system = False, rl_is_default_for_new_members = False,
                  rl_permissions = permissions, rl_created_at = cg_now cmd,
                  rl_updated_at = cg_now cmd \<rparr> in
     bind_result (repository (save_role (oa_lib oa) role d)) (\<lambda>d.
     bind_result (repository (add_member_roles (rl_id role) (map mb_id members) d)) (\<lambda>d.
     bind_result (persist_event oa (fr 2)
       (role_event (oa_tp oa) (fr 1) RoleCreated (rl_organization_id role) role ''created_by''
          (cg_created_by cmd) (cg_now cmd) None) d) (\<lambda>d.
       Inr ((role, members), d)))))))))))"

definition create_scim_group ::
  "('c, 'z) organization_app_scheme \<Rightarrow> (nat \<Rightarrow> uuid) \<Rightarrow> CreateScimGroupCommand \<Rightarrow> Db \<times> 'c
   \<Rightarrow> (OrganizationApplicationError + (Role \<times> Member list) mutation) \<times> (Db \<times> 'c)" where
  "create_scim_group oa fr cmd = transact (create_scim_group_tx oa fr cmd) (\<lambda>(role, members) c.
     with_warnings (role, members) (invalidate_members_after_commit oa members c))"

text \<open>The members that leave the group, as they are after it.\<close>

fun existing_members ::
  "('c, 'z) organization_app_scheme \<Rightarrow> uuid list \<Rightarrow> Db \<Rightarrow> RepositoryError + Member list" where
  "existing_members oa [] d = Inr []"
| "existing_members oa (i # is) d =
     bind_result (member_by_id (oa_lib oa) i d) (\<lambda>m.
     bind_result (existing_members oa is d) (\<lambda>ms.
       Inr (case m of None \<Rightarrow> ms | Some m \<Rightarrow> m # ms)))"

definition update_scim_group_tx ::
  "('c, 'z) organization_app_scheme \<Rightarrow> (nat \<Rightarrow> uuid) \<Rightarrow> UpdateScimGroupCommand
   \<Rightarrow> (Role \<times> Member list \<times> Member list) tx" where
  "update_scim_group_tx oa fr cmd d =
     bind_result (require_non_empty (ug_display_name cmd) ''display_name is required'') (\<lambda>_.
     bind_result (require_non_empty (ug_updated_by cmd) ''updated_by is required'') (\<lambda>_.
     bind_result (locked_role_of oa (ug_organization_id cmd) (ug_role_id cmd) d) (\<lambda>role.
     bind_result (require (\<not> rl_is_system role) SystemRoleDeleteForbidden) (\<lambda>_.
     bind_result (permissions_of (oa_lib oa) (ug_permission_ids cmd) d) (\<lambda>permissions.
     bind_result (scim_members oa (ug_organization_id cmd) (ug_member_ids cmd) d) (\<lambda>desired.
     let existing_ids = remdups (member_ids_with_role (rl_id role) d);
         desired_ids = sort (remdups (map mb_id desired));
         joining = filter (\<lambda>i. i \<notin> set existing_ids) desired_ids;
         leaving = filter (\<lambda>i. i \<notin> set desired_ids) existing_ids;
         role = role\<lparr>rl_display_name := Some (ug_display_name cmd), rl_description := ug_description cmd,
                     rl_permissions := permissions, rl_updated_at := ug_now cmd\<rparr> in
     bind_result (repository (save_role (oa_lib oa) role d)) (\<lambda>d.
     bind_result (repository (add_member_roles (rl_id role) joining d)) (\<lambda>d.
     let d = remove_member_roles (rl_id role) leaving d in
     bind_result (persist_event oa (fr 1)
       (role_event (oa_tp oa) (fr 0) RoleUpdated (rl_organization_id role) role ''updated_by''
          (ug_updated_by cmd) (ug_now cmd) None) d) (\<lambda>d.
     bind_result (repository (existing_members oa leaving d)) (\<lambda>left.
       Inr ((role, desired, desired @ left), d)))))))))))"

definition update_scim_group ::
  "('c, 'z) organization_app_scheme \<Rightarrow> (nat \<Rightarrow> uuid) \<Rightarrow> UpdateScimGroupCommand \<Rightarrow> Db \<times> 'c
   \<Rightarrow> (OrganizationApplicationError + (Role \<times> Member list) mutation) \<times> (Db \<times> 'c)" where
  "update_scim_group oa fr cmd = transact (update_scim_group_tx oa fr cmd) (\<lambda>(role, desired, affected) c.
     with_warnings (role, desired) (invalidate_members_after_commit oa affected c))"

section \<open>Queries\<close>

definition get_role :: "org_lib \<Rightarrow> uuid \<Rightarrow> uuid \<Rightarrow> Db \<Rightarrow> Role option" where
  "get_role ol organization_id role_id d =
     (case role_by_id ol role_id d of
        None \<Rightarrow> None
      | Some r \<Rightarrow> if rl_organization_id r = organization_id then Some r else None)"

definition count_members_with_role ::
  "org_lib \<Rightarrow> uuid \<Rightarrow> uuid \<Rightarrow> Db \<Rightarrow> OrganizationApplicationError + nat" where
  "count_members_with_role ol organization_id role_id d =
     bind_result (ok_or (RoleNotFound role_id) (get_role ol organization_id role_id d)) (\<lambda>_.
       Inr (length (member_ids_with_role role_id d)))"

fun members_in ::
  "org_lib \<Rightarrow> uuid \<Rightarrow> uuid list \<Rightarrow> Db \<Rightarrow> OrganizationApplicationError + Member list" where
  "members_in ol organization_id [] d = Inr []"
| "members_in ol organization_id (i # is) d =
     bind_result (repository (member_by_id ol i d)) (\<lambda>m.
     bind_result (members_in ol organization_id is d) (\<lambda>ms.
       Inr (case m of
              None \<Rightarrow> ms
            | Some m \<Rightarrow> if mb_organization_id m = organization_id then m # ms else ms)))"

definition members_with_role ::
  "org_lib \<Rightarrow> uuid \<Rightarrow> uuid \<Rightarrow> Db \<Rightarrow> OrganizationApplicationError + Member list" where
  "members_with_role ol organization_id role_id d =
     bind_result (ok_or (RoleNotFound role_id) (get_role ol organization_id role_id d)) (\<lambda>_.
       members_in ol organization_id (member_ids_with_role role_id d) d)"

end
