(* ===== verification/Organization_Keys.thy ===== *)
theory Organization_Keys
  imports Organization_Service
begin

text \<open>
  \<open>rust/services/organization/src/api_keys.rs\<close>, \<open>policy_sets.rs\<close>, \<open>preferences.rs\<close>: API keys with the
  installer's restricted ones, policy sets, of which one per kind is active, and the console
  preferences of a user.
\<close>

section \<open>API keys\<close>

definition MIP_API_KEY_SCOPES :: "string list" where
  "MIP_API_KEY_SCOPES =
     [''credentials:issue'', ''credentials:revoke'', ''credentials:read'', ''flows:read'', ''flows:write'',
      ''flows:execute'', ''applications:read'', ''applications:write'', ''applications:approve'',
      ''trust:read'', ''trust:write'', ''trust:admin'', ''compliance:read'', ''compliance:write'',
      ''templates:read'', ''templates:write'', ''wallet:read'', ''wallet:write'', ''keys:read'',
      ''keys:write'', ''users:read'', ''users:invite'', ''roles:read'', ''roles:write'', ''audit:read'',
      ''audit:write'', ''webhooks:read'', ''webhooks:write'', ''notifications:send'',
      ''notifications:read'', ''deployment:read'', ''deployment:write'', ''integrations:read'',
      ''integrations:write'', ''admin:full'']"

datatype ApiKeyScopeType = OrganizationScope | DeploymentProfileScope

fun scope_type_text :: "ApiKeyScopeType \<Rightarrow> string" where
  "scope_type_text OrganizationScope = ''ORGANIZATION''"
| "scope_type_text DeploymentProfileScope = ''DEPLOYMENT_PROFILE''"

record CreateApiKeyCommand =
  ck_organization_id :: uuid
  ck_name :: string
  ck_created_by :: string
  ck_scopes :: "string list option"
  ck_description :: "string option"
  ck_is_test :: bool
  ck_scope_type :: ApiKeyScopeType
  ck_deployment_profile_id :: "uuid option"
  ck_rate_limit :: "u32 option"
  ck_expires_at :: "time option"
  ck_now :: time

record RevokeApiKeyCommand =
  rk_organization_id :: uuid
  rk_api_key_id :: uuid
  rk_revoked_by :: string
  rk_now :: time

datatype ApiKeyActor = UserActor | InstallerBootstrap uuid

definition INSTALLER_KEY_LIFETIME_SECONDS :: int where
  "INSTALLER_KEY_LIFETIME_SECONDS = 15 * 60"

definition is_installer :: "ApiKeyActor \<Rightarrow> bool" where
  "is_installer actor = (case actor of UserActor \<Rightarrow> False | InstallerBootstrap _ \<Rightarrow> True)"

definition actor_validate :: "third_party \<Rightarrow> ApiKeyActor \<Rightarrow> string \<Rightarrow> OrganizationApplicationError + unit" where
  "actor_validate tp actor actor_id =
     (case actor of
        UserActor \<Rightarrow> Inr ()
      | InstallerBootstrap i \<Rightarrow>
          (if uuid_version i \<noteq> 4 \<or> actor_id \<noteq> installer_actor tp i
           then Inl (InvalidCommand ''installer API-key actor is invalid'') else Inr ()))"

definition validate_creation ::
  "third_party \<Rightarrow> ApiKeyActor \<Rightarrow> CreateApiKeyCommand \<Rightarrow> OrganizationApplicationError + unit" where
  "validate_creation tp actor cmd =
     bind_result (actor_validate tp actor (ck_created_by cmd)) (\<lambda>_.
       if is_installer actor
          \<and> (ck_scopes cmd \<noteq> Some [''keys:write''] \<or> ck_scope_type cmd \<noteq> OrganizationScope
             \<or> ck_deployment_profile_id cmd \<noteq> None \<or> ck_is_test cmd \<or> ck_rate_limit cmd \<noteq> None
             \<or> ck_expires_at cmd = None
             \<or> ck_expires_at cmd
                 \<noteq> tp_checked_add tp (ck_now cmd) (seconds INSTALLER_KEY_LIFETIME_SECONDS))
       then Inl (InvalidApiKeyBinding ''installer API keys require the fixed registration scope and lifetime'')
       else Inr ())"

definition annotate :: "third_party \<Rightarrow> ApiKeyActor \<Rightarrow> jmap \<Rightarrow> jmap" where
  "annotate tp actor data =
     (case actor of
        UserActor \<Rightarrow> data
      | InstallerBootstrap i \<Rightarrow>
          map_insert ''installer_bootstrap_installation_id'' (JStr (tp_uuid_show tp i)) data)"

definition validate_create_api_key :: "CreateApiKeyCommand \<Rightarrow> OrganizationApplicationError + unit" where
  "validate_create_api_key cmd =
     bind_result (require_non_empty (ck_name cmd) ''API key name is required'') (\<lambda>_.
     bind_result (require_non_empty (ck_created_by cmd) ''created_by is required'') (\<lambda>_.
     bind_result (require (ck_rate_limit cmd \<noteq> Some 0)
       (InvalidApiKeyBinding ''rate_limit must be greater than zero'')) (\<lambda>_.
     bind_result (require (case ck_expires_at cmd of None \<Rightarrow> True | Some t \<Rightarrow> ck_now cmd < t)
       (InvalidApiKeyBinding ''expires_at must be in the future'')) (\<lambda>_.
     bind_result (require (\<not> (ck_scope_type cmd = OrganizationScope \<and> ck_deployment_profile_id cmd \<noteq> None))
       (InvalidApiKeyBinding ''organization keys cannot bind a deployment profile'')) (\<lambda>_.
     bind_result (require (\<not> (ck_scope_type cmd = DeploymentProfileScope \<and> ck_deployment_profile_id cmd = None))
       (InvalidApiKeyBinding ''deployment-profile keys require deployment_profile_id'')) (\<lambda>_.
     let scopes = (case ck_scopes cmd of
                     None \<Rightarrow> [''credentials:read'', ''credentials:issue''] | Some s \<Rightarrow> s) in
     bind_result
       (case find (\<lambda>s. s \<notin> set MIP_API_KEY_SCOPES) scopes of
          Some s \<Rightarrow> Inl (InvalidApiKeyScope s) | None \<Rightarrow> Inr ()) (\<lambda>_.
       require (\<not> (ck_scope_type cmd \<noteq> OrganizationScope \<and> ''admin:full'' \<in> set scopes))
         (InvalidApiKeyBinding ''admin:full is restricted to organization keys''))))))))"

definition api_key_created_event ::
  "third_party \<Rightarrow> uuid \<Rightarrow> CreateApiKeyCommand \<Rightarrow> uuid \<Rightarrow> ApiKeyActor
   \<Rightarrow> OrganizationEventError + OrganizationEvent" where
  "api_key_created_event tp fresh cmd api_key_id actor =
     organization_event_new tp fresh ApiKeyCreated (ck_organization_id cmd)
       (annotate tp actor
          [(''api_key_id'', JStr (tp_uuid_show tp api_key_id)), (''name'', JStr (ck_name cmd)),
           (''created_by'', JStr (ck_created_by cmd))]) (ck_now cmd)"

definition api_key_revoked_event ::
  "third_party \<Rightarrow> uuid \<Rightarrow> RevokeApiKeyCommand \<Rightarrow> ApiKeyActor \<Rightarrow> OrganizationEventError + OrganizationEvent" where
  "api_key_revoked_event tp fresh cmd actor =
     organization_event_new tp fresh ApiKeyRevoked (rk_organization_id cmd)
       (annotate tp actor
          [(''api_key_id'', JStr (tp_uuid_show tp (rk_api_key_id cmd))),
           (''revoked_by'', JStr (rk_revoked_by cmd))]) (rk_now cmd)"

text \<open>The token is the random part of the raw key.\<close>

definition create_api_key_tx ::
  "('c, 'z) organization_app_scheme \<Rightarrow> (nat \<Rightarrow> uuid) \<Rightarrow> string \<Rightarrow> CreateApiKeyCommand \<Rightarrow> ApiKeyActor
   \<Rightarrow> (ApiKey \<times> string) tx" where
  "create_api_key_tx oa fr token cmd actor d =
     bind_result (validate_create_api_key cmd) (\<lambda>_.
     bind_result (validate_creation (oa_tp oa) actor cmd) (\<lambda>_.
     bind_result (locked_organization oa (ck_organization_id cmd) d) (\<lambda>organization.
     bind_result (require (\<not> (is_installer actor \<and> og_status organization \<noteq> OsActive))
       (InvalidApiKeyBinding ''installer API keys require an active existing organization'')) (\<lambda>_.
     let (api_key, raw_key) = api_key_create (oa_lib oa) (fr 0) token
           \<lparr> as_organization_id = ck_organization_id cmd, as_name = ck_name cmd,
             as_created_by = ck_created_by cmd, as_scopes = ck_scopes cmd,
             as_description = ck_description cmd, as_expires_at = ck_expires_at cmd,
             as_now = ck_now cmd \<rparr> (ck_is_test cmd);
         api_key = api_key\<lparr>ak_scope_type := scope_type_text (ck_scope_type cmd),
                           ak_deployment_profile_id := ck_deployment_profile_id cmd,
                           ak_rate_limit := ck_rate_limit cmd\<rparr> in
     bind_result (repository (save_api_key (oa_lib oa) api_key d)) (\<lambda>d.
     bind_result (persist_event oa (fr 2)
       (api_key_created_event (oa_tp oa) (fr 1) cmd (ak_id api_key) actor) d) (\<lambda>d.
       Inr ((api_key, raw_key), d)))))))"

definition create_api_key ::
  "('c, 'z) organization_app_scheme \<Rightarrow> (nat \<Rightarrow> uuid) \<Rightarrow> string \<Rightarrow> CreateApiKeyCommand \<Rightarrow> Db \<times> 'c
   \<Rightarrow> (OrganizationApplicationError + (ApiKey \<times> string) mutation) \<times> (Db \<times> 'c)" where
  "create_api_key oa fr token cmd = transact (create_api_key_tx oa fr token cmd UserActor) without_warnings"

definition revoke_api_key_tx ::
  "('c, 'z) organization_app_scheme \<Rightarrow> (nat \<Rightarrow> uuid) \<Rightarrow> RevokeApiKeyCommand \<Rightarrow> ApiKeyActor \<Rightarrow> ApiKey tx" where
  "revoke_api_key_tx oa fr cmd actor d =
     bind_result (require_non_empty (rk_revoked_by cmd) ''revoked_by is required'') (\<lambda>_.
     bind_result (actor_validate (oa_tp oa) actor (rk_revoked_by cmd)) (\<lambda>_.
     bind_result (bind_result (repository (api_key_by_id (rk_api_key_id cmd) d))
       (ok_or (ApiKeyNotFound (rk_api_key_id cmd)))) (\<lambda>api_key.
     bind_result (require (ak_organization_id api_key = rk_organization_id cmd)
       (ApiKeyNotFound (rk_api_key_id cmd))) (\<lambda>_.
     bind_result (require (\<not> (is_installer actor \<and> ak_created_by api_key \<noteq> rk_revoked_by cmd))
       (ApiKeyNotFound (rk_api_key_id cmd))) (\<lambda>_.
     let api_key = api_key_revoke (rk_now cmd) api_key in
     bind_result (repository (save_api_key (oa_lib oa) api_key d)) (\<lambda>d.
     bind_result (persist_event oa (fr 1) (api_key_revoked_event (oa_tp oa) (fr 0) cmd actor) d) (\<lambda>d.
       Inr (api_key, d))))))))"

definition revoke_api_key ::
  "('c, 'z) organization_app_scheme \<Rightarrow> (nat \<Rightarrow> uuid) \<Rightarrow> RevokeApiKeyCommand \<Rightarrow> Db \<times> 'c
   \<Rightarrow> (OrganizationApplicationError + ApiKey mutation) \<times> (Db \<times> 'c)" where
  "revoke_api_key oa fr cmd = transact (revoke_api_key_tx oa fr cmd UserActor) without_warnings"

text \<open>
  A key is looked up by its hash outside of the transaction, so \<open>before\<close> is the database at that
  time and \<open>d\<close> the one that the transaction finds: what it decides on is read again under the lock.
\<close>

definition validate_api_key_tx ::
  "('c, 'z) organization_app_scheme \<Rightarrow> string \<Rightarrow> time \<Rightarrow> Db \<Rightarrow> ApiKey option tx" where
  "validate_api_key_tx oa raw_key now before d =
     (if blank raw_key then Inr (None, d)
      else
      bind_result (repository (api_key_by_hash (hash_key (oa_lib oa) raw_key) before)) (\<lambda>candidate.
        case candidate of
          None \<Rightarrow> Inr (None, d)
        | Some k \<Rightarrow>
            (if \<not> api_key_verify (oa_lib oa) raw_key k \<or> \<not> api_key_is_valid_at now k then Inr (None, d)
             else
             bind_result (repository (api_key_by_id (ak_id k) d)) (\<lambda>locked.
               case locked of
                 None \<Rightarrow> Inr (None, d)
               | Some k \<Rightarrow>
                   (if \<not> api_key_verify (oa_lib oa) raw_key k \<or> \<not> api_key_is_valid_at now k
                    then Inr (None, d)
                    else
                    let k = record_usage None now k in
                    bind_result (repository (save_api_key (oa_lib oa) k d)) (\<lambda>d. Inr (Some k, d)))))))"

definition get_api_key ::
  "uuid \<Rightarrow> uuid \<Rightarrow> Db \<Rightarrow> OrganizationApplicationError + ApiKey option" where
  "get_api_key organization_id api_key_id d =
     bind_result (repository (api_key_by_id api_key_id d)) (\<lambda>k.
       Inr (case k of
              None \<Rightarrow> None
            | Some k \<Rightarrow> if ak_organization_id k = organization_id then Some k else None))"

section \<open>Policy sets\<close>

record CedarPolicyDocument =
  pl_policy_id :: string
  pl_effect :: string
  pl_cedar_text :: string
  pl_description :: "string option"
  pl_enabled :: bool

record CreatePolicySetCommand =
  cy_organization_id :: uuid
  cy_name :: string
  cy_policies :: "CedarPolicyDocument list"
  cy_policy_type :: PolicySetType
  cy_description :: "string option"
  cy_created_by :: "string option"
  cy_now :: time

record UpdatePolicySetPatch =
  uy_name :: "string option"
  uy_description :: "string option option"
  uy_policies :: "CedarPolicyDocument list option"

record UpdatePolicySetCommand =
  um_organization_id :: uuid
  um_policy_set_id :: uuid
  um_patch :: UpdatePolicySetPatch
  um_now :: time

text \<open>
  The codec of policy documents (serde), the two regular expressions of the code and the escaping
  of a text in one are the record \<open>policy_lib\<close>.
\<close>

record policy_lib =
  pq_serialize :: "CedarPolicyDocument list \<Rightarrow> string + string"
  pq_deserialize :: "string \<Rightarrow> CedarPolicyDocument list option"
  pq_effect_matches :: "string \<Rightarrow> string \<Rightarrow> bool"     \<comment> \<open>\<open>\bEFFECT\s*\(\<close> on a text\<close>
  pq_legacy_effect :: "string \<Rightarrow> string option"      \<comment> \<open>\<open>\b(permit|forbid)\s*\(\<close>, its group\<close>

definition deserialize_policy_documents :: "policy_lib \<Rightarrow> string \<Rightarrow> CedarPolicyDocument list" where
  "deserialize_policy_documents pq text =
     (case pq_deserialize pq text of
        Some documents \<Rightarrow> documents
      | None \<Rightarrow>
          [\<lparr> pl_policy_id = ''legacy_policy'',
             pl_effect = (case pq_legacy_effect pq text of None \<Rightarrow> ''permit'' | Some e \<Rightarrow> e),
             pl_cedar_text = text, pl_description = None, pl_enabled = True \<rparr>])"

fun policy_errors :: "policy_lib \<Rightarrow> string list \<Rightarrow> CedarPolicyDocument list \<Rightarrow> string list" where
  "policy_errors pq seen [] = []"
| "policy_errors pq seen (p # ps) =
     (if pl_policy_id p \<in> set seen then [''Duplicate policy_id: '' @ pl_policy_id p] else [])
     @ (if \<not> pq_effect_matches pq (pl_effect p) (pl_cedar_text p)
        then [''Policy '' @ pl_policy_id p @ '' effect does not match its Cedar statement''] else [])
     @ policy_errors pq (pl_policy_id p # seen) ps"

definition policy_document_errors ::
  "policy_lib \<Rightarrow> (string \<Rightarrow> string option) \<Rightarrow> CedarPolicyDocument list \<Rightarrow> string list" where
  "policy_document_errors pq validator policies =
     (let errors = policy_errors pq [] policies;
          enabled = map pl_cedar_text (filter pl_enabled policies)
      in if errors \<noteq> [] then errors
         else if enabled = [] then [''At least one policy must be enabled'']
         else case validator (join [CHR 0x0A, CHR 0x0A] enabled) of None \<Rightarrow> [] | Some e \<Rightarrow> [e])"

definition validate_policy_documents ::
  "('c, 'z) organization_app_scheme \<Rightarrow> policy_lib \<Rightarrow> CedarPolicyDocument list
   \<Rightarrow> OrganizationApplicationError + unit" where
  "validate_policy_documents oa pq policies =
     bind_result (ok_or PolicyValidatorUnavailable (oa_validator oa)) (\<lambda>validator.
     let errors = policy_document_errors pq validator policies in
       if errors = [] then Inr () else Inl (InvalidPolicy (join ''; '' errors)))"

definition create_policy_set_tx ::
  "('c, 'z) organization_app_scheme \<Rightarrow> policy_lib \<Rightarrow> uuid \<Rightarrow> CreatePolicySetCommand \<Rightarrow> PolicySet tx" where
  "create_policy_set_tx oa pq fresh cmd d =
     bind_result (require_non_empty (cy_name cmd) ''policy-set name is required'') (\<lambda>_.
     bind_result (validate_policy_documents oa pq (cy_policies cmd)) (\<lambda>_.
     bind_result (map_err InvalidPolicy (pq_serialize pq (cy_policies cmd))) (\<lambda>cedar_policies.
     let ps = policy_set_create fresh
           \<lparr> pp_organization_id = cy_organization_id cmd, pp_name = cy_name cmd,
             pp_cedar_policies = cedar_policies, pp_policy_type = cy_policy_type cmd,
             pp_description = cy_description cmd, pp_created_by = cy_created_by cmd,
             pp_cedar_schema_version = Some ''MIP/1.0'', pp_now = cy_now cmd \<rparr> in
     bind_result (locked_organization oa (cy_organization_id cmd) d) (\<lambda>_.
     bind_result (repository (save_policy_set (oa_lib oa) ps d)) (\<lambda>d. Inr (ps, d))))))"

definition locked_policy_set ::
  "('c, 'z) organization_app_scheme \<Rightarrow> uuid \<Rightarrow> uuid \<Rightarrow> Db \<Rightarrow> OrganizationApplicationError + PolicySet" where
  "locked_policy_set oa organization_id i d =
     bind_result (repository (policy_set_by_id (oa_lib oa) organization_id i d)) (ok_or (PolicySetNotFound i))"

definition update_policy_set_tx ::
  "('c, 'z) organization_app_scheme \<Rightarrow> policy_lib \<Rightarrow> UpdatePolicySetCommand \<Rightarrow> PolicySet tx" where
  "update_policy_set_tx oa pq cmd d =
     bind_result
       (case uy_name (um_patch cmd) of
          None \<Rightarrow> Inr () | Some n \<Rightarrow> require_non_empty n ''policy-set name must not be empty'') (\<lambda>_.
     bind_result
       (case uy_policies (um_patch cmd) of
          None \<Rightarrow> Inr None
        | Some policies \<Rightarrow>
            bind_result (validate_policy_documents oa pq policies) (\<lambda>_.
            bind_result (map_err InvalidPolicy (pq_serialize pq policies)) (\<lambda>s. Inr (Some s)))) (\<lambda>serialized.
     bind_result (locked_policy_set oa (um_organization_id cmd) (um_policy_set_id cmd) d) (\<lambda>ps.
     let ps = (case uy_name (um_patch cmd) of None \<Rightarrow> ps | Some n \<Rightarrow> ps\<lparr>ps_name := n\<rparr>);
         ps = (case uy_description (um_patch cmd) of None \<Rightarrow> ps | Some x \<Rightarrow> ps\<lparr>ps_description := x\<rparr>);
         ps = (case serialized of None \<Rightarrow> ps | Some s \<Rightarrow> ps\<lparr>ps_cedar_policies := s\<rparr>);
         ps = ps\<lparr>ps_updated_at := um_now cmd\<rparr> in
     bind_result (repository (save_policy_set (oa_lib oa) ps d)) (\<lambda>d. Inr (ps, d)))))"

definition archive_policy_set_tx ::
  "('c, 'z) organization_app_scheme \<Rightarrow> uuid \<Rightarrow> uuid \<Rightarrow> time \<Rightarrow> PolicySet tx" where
  "archive_policy_set_tx oa organization_id i now d =
     bind_result (locked_policy_set oa organization_id i d) (\<lambda>ps.
     let ps = policy_set_archive now ps in
     bind_result (repository (save_policy_set (oa_lib oa) ps d)) (\<lambda>d. Inr (ps, d)))"

definition policy_set_ids_to_archive :: "PolicySet \<Rightarrow> PolicySet list \<Rightarrow> uuid list" where
  "policy_set_ids_to_archive target policy_sets =
     map ps_id (filter (\<lambda>c. ps_id c \<noteq> ps_id target \<and> ps_policy_type c = ps_policy_type target
                            \<and> ps_status c = PsActive) policy_sets)"

fun save_policy_sets :: "org_lib \<Rightarrow> PolicySet list \<Rightarrow> Db \<Rightarrow> RepositoryError + Db" where
  "save_policy_sets ol [] d = Inr d"
| "save_policy_sets ol (p # ps) d = bind_result (save_policy_set ol p d) (save_policy_sets ol ps)"

definition activate_policy_set_tx ::
  "('c, 'z) organization_app_scheme \<Rightarrow> policy_lib \<Rightarrow> uuid \<Rightarrow> uuid \<Rightarrow> time \<Rightarrow> PolicySet tx" where
  "activate_policy_set_tx oa pq organization_id i now d =
     bind_result (locked_policy_set oa organization_id i d) (\<lambda>ps.
     bind_result (validate_policy_documents oa pq (deserialize_policy_documents pq (ps_cedar_policies ps))) (\<lambda>_.
     bind_result (repository (policy_sets_by_organization (oa_lib oa) organization_id None d)) (\<lambda>everything.
     let archive_ids = policy_set_ids_to_archive ps everything in
     bind_result (repository (save_policy_sets (oa_lib oa)
       (map (policy_set_archive now) (filter (\<lambda>c. ps_id c \<in> set archive_ids) everything)) d)) (\<lambda>d.
     let ps = policy_set_activate now ps in
     bind_result (repository (save_policy_set (oa_lib oa) ps d)) (\<lambda>d. Inr (ps, d))))))"

definition delete_policy_set_tx ::
  "('c, 'z) organization_app_scheme \<Rightarrow> uuid \<Rightarrow> uuid \<Rightarrow> unit tx" where
  "delete_policy_set_tx oa organization_id i d =
     bind_result (locked_policy_set oa organization_id i d) (\<lambda>_.
     bind_result (require (fst (delete_policy_set_row organization_id i d)) (PolicySetNotFound i)) (\<lambda>_.
       Inr ((), snd (delete_policy_set_row organization_id i d))))"

section \<open>Console preferences\<close>

record UpdateConsolePreferencePatch =
  uf_last_view_mode :: "ViewMode option"
  uf_last_active_organization_id :: "uuid option option"

record UpdateConsolePreferenceCommand =
  uc_user_id :: string
  uc_patch :: UpdateConsolePreferencePatch
  uc_now :: time

definition default_preference :: "uuid \<Rightarrow> string \<Rightarrow> time \<Rightarrow> ConsoleContextPreference" where
  "default_preference fresh user_id now =
     \<lparr> cp_id = fresh, cp_user_id = user_id, cp_last_view_mode = ApplicantView,
       cp_last_active_org_id = None, cp_created_at = now, cp_updated_at = now \<rparr>"

definition apply_console_preference_patch ::
  "ConsoleContextPreference \<Rightarrow> UpdateConsolePreferencePatch \<Rightarrow> time \<Rightarrow> ConsoleContextPreference" where
  "apply_console_preference_patch current p now =
     (let cp = (case uf_last_view_mode p of None \<Rightarrow> current | Some m \<Rightarrow> current\<lparr>cp_last_view_mode := m\<rparr>);
          cp = (case uf_last_active_organization_id p of
                  None \<Rightarrow> cp | Some i \<Rightarrow> cp\<lparr>cp_last_active_org_id := i\<rparr>)
      in cp\<lparr>cp_updated_at := now\<rparr>)"

definition get_console_preferences ::
  "uuid \<Rightarrow> string \<Rightarrow> time \<Rightarrow> Db \<Rightarrow> OrganizationApplicationError + ConsoleContextPreference" where
  "get_console_preferences fresh user_id now d =
     bind_result (require_non_empty user_id ''user_id is required'') (\<lambda>_.
     bind_result (repository (preference_by_user user_id d)) (\<lambda>cp.
       Inr (case cp of None \<Rightarrow> default_preference fresh user_id now | Some cp \<Rightarrow> cp)))"

definition update_console_preferences_tx ::
  "org_lib \<Rightarrow> uuid \<Rightarrow> UpdateConsolePreferenceCommand \<Rightarrow> ConsoleContextPreference tx" where
  "update_console_preferences_tx ol fresh cmd d =
     bind_result (get_console_preferences fresh (uc_user_id cmd) (uc_now cmd) d) (\<lambda>cp.
     let cp = apply_console_preference_patch cp (uc_patch cmd) (uc_now cmd) in
     bind_result (repository (save_preference ol cp d)) (\<lambda>d. Inr (cp, d)))"

end
