(* ===== verification/Organization_Tenancy.thy ===== *)
theory Organization_Tenancy
  imports Organization_Domain "HOL-Library.Word"
begin

text \<open>
  What the organization service promises about who belongs where, apart from how it stores it: the
  owner of each organization, its members, its roles and the roles of each member. The steps are
  what commands may do; two flags say whether provisioning is among them, which may change the user
  of a member and leave a member without a role. The invariants are over these steps, and
  \<open>Organization_Refinement\<close> shows that every command of the service is a sequence of them.
\<close>

text \<open>A member is its organization, its user and its status; a role is its organization,
  its name, whether it is a system role and whether it is the default of new members.\<close>

record tenancy =
  tn_owner :: "128 word \<Rightarrow> string option"
  tn_member :: "128 word \<Rightarrow> (128 word \<times> string \<times> MemberStatus option) option"
  tn_role :: "128 word \<Rightarrow> (128 word \<times> string \<times> bool \<times> bool) option"
  tn_links :: "(128 word \<times> 128 word) set"

definition roles_in :: "tenancy \<Rightarrow> 128 word \<Rightarrow> 128 word set" where
  "roles_in s i = {r. \<exists>n y f. tn_role s r = Some (i, n, y, f)}"

definition default_roles_in :: "tenancy \<Rightarrow> 128 word \<Rightarrow> 128 word set" where
  "default_roles_in s i = {r. \<exists>n y. tn_role s r = Some (i, n, y, True)}"

definition has_owner_role :: "tenancy \<Rightarrow> 128 word \<Rightarrow> 128 word set \<Rightarrow> bool" where
  "has_owner_role s i R = (\<exists>r \<in> R. \<exists>y f. tn_role s r = Some (i, ''owner'', y, f))"

definition with_roles :: "128 word \<Rightarrow> 128 word set \<Rightarrow> (128 word \<times> 128 word) set \<Rightarrow> (128 word \<times> 128 word) set" where
  "with_roles m R links = {l \<in> links. fst l \<noteq> m} \<union> {m} \<times> R"

text \<open>\<open>r\<close> becomes the only default role of the organization.\<close>

definition make_default :: "128 word \<Rightarrow> 128 word \<Rightarrow> tenancy \<Rightarrow> tenancy" where
  "make_default i r s =
     s\<lparr>tn_role := (\<lambda>q. case tn_role s q of
         None \<Rightarrow> None
       | Some (j, n, y, f) \<Rightarrow> Some (j, n, y, if j = i then q = r else f))\<rparr>"

inductive tenancy_step :: "bool \<Rightarrow> bool \<Rightarrow> tenancy \<Rightarrow> tenancy \<Rightarrow> bool" for provisions bare where
  found: "tn_owner s i = None \<Longrightarrow> tn_member s m = None \<Longrightarrow> owner \<noteq> [] \<Longrightarrow> dom rs \<inter> dom (tn_role s) = {} \<Longrightarrow>
      (\<forall>r x. rs r = Some x \<longrightarrow> fst x = i) \<Longrightarrow>
      (\<forall>r r' n y f y' f'. rs r = Some (i, n, y, f) \<longrightarrow> rs r' = Some (i, n, y', f') \<longrightarrow> r = r') \<Longrightarrow>
      (\<exists>!r. \<exists>n y. rs r = Some (i, n, y, True)) \<Longrightarrow> rs ow = Some (i, ''owner'', True, fo) \<Longrightarrow>
      tenancy_step provisions bare s
        (s\<lparr>tn_owner := (tn_owner s)(i \<mapsto> owner), tn_member := (tn_member s)(m \<mapsto> (i, owner, Some MsActive)),
           tn_role := tn_role s ++ rs, tn_links := insert (m, ow) (tn_links s)\<rparr>)"
| add_member: "tn_member s m = None \<Longrightarrow> i \<in> dom (tn_owner s) \<Longrightarrow> R \<subseteq> roles_in s i \<Longrightarrow> R \<noteq> {} \<or> bare \<Longrightarrow>
      (b = Some MsInvited \<longrightarrow> u = []) \<Longrightarrow>
      tenancy_step provisions bare s
        (s\<lparr>tn_member := (tn_member s)(m \<mapsto> (i, u, b)), tn_links := tn_links s \<union> {m} \<times> R\<rparr>)"
| admit: "tn_member s m = Some (i, u, Some MsInvited) \<Longrightarrow>
      tenancy_step provisions bare s (s\<lparr>tn_member := (tn_member s)(m \<mapsto> (i, u', Some MsActive))\<rparr>)"
| link_user: "tn_member s m = Some (i, [], b) \<Longrightarrow> u \<noteq> [] \<Longrightarrow>
      (\<forall>m' b'. tn_member s m' \<noteq> Some (i, u, b')) \<Longrightarrow> R \<subseteq> roles_in s i \<Longrightarrow> R \<noteq> {} \<Longrightarrow>
      tenancy_step provisions bare s
        (s\<lparr>tn_member := (tn_member s)(m \<mapsto> (i, u, b)), tn_links := with_roles m R (tn_links s)\<rparr>)"
| provision: "provisions \<Longrightarrow> tn_member s m = Some (i, u, b) \<Longrightarrow> R \<subseteq> roles_in s i \<Longrightarrow> R \<noteq> {} \<or> bare \<Longrightarrow>
      b' \<noteq> Some MsInvited \<Longrightarrow>
      tenancy_step provisions bare s
        (s\<lparr>tn_member := (tn_member s)(m \<mapsto> (i, u', b')), tn_links := with_roles m R (tn_links s)\<rparr>)"
| set_roles: "tn_member s m = Some (i, u, b) \<Longrightarrow> R \<subseteq> roles_in s i \<Longrightarrow> R \<noteq> {} \<Longrightarrow>
      (tn_owner s i = Some u \<longrightarrow> has_owner_role s i R) \<Longrightarrow>
      tenancy_step provisions bare s (s\<lparr>tn_links := with_roles m R (tn_links s)\<rparr>)"
| remove_member: "tn_member s m = Some (i, u, b) \<Longrightarrow> tn_owner s i \<noteq> Some u \<Longrightarrow>
      tenancy_step provisions bare s
        (s\<lparr>tn_member := (tn_member s)(m := None), tn_links := {l \<in> tn_links s. fst l \<noteq> m}\<rparr>)"
| add_role: "tn_role s r = None \<Longrightarrow> i \<in> dom (tn_owner s) \<Longrightarrow>
      (\<forall>r' y f. tn_role s r' \<noteq> Some (i, n, y, f)) \<Longrightarrow>
      tenancy_step provisions bare s (s\<lparr>tn_role := (tn_role s)(r \<mapsto> (i, n, False, False))\<rparr>)"
| set_default: "r \<in> roles_in s i \<Longrightarrow> tenancy_step provisions bare s (make_default i r s)"
| drop_role: "tn_role s r = Some (i, n, False, False) \<Longrightarrow>
      (\<forall>m. (m, r) \<in> tn_links s \<longrightarrow> (\<exists>q. q \<noteq> r \<and> (m, q) \<in> tn_links s)) \<Longrightarrow>
      tenancy_step provisions bare s
        (s\<lparr>tn_role := (tn_role s)(r := None), tn_links := {l \<in> tn_links s. snd l \<noteq> r}\<rparr>)"
| assign: "tn_member s m = Some (i, u, b) \<Longrightarrow> r \<in> roles_in s i \<Longrightarrow>
      tenancy_step provisions bare s (s\<lparr>tn_links := insert (m, r) (tn_links s)\<rparr>)"
| unassign: "(\<exists>q. q \<noteq> r \<and> (m, q) \<in> tn_links s) \<or> bare \<Longrightarrow>
      (\<forall>i u b f. tn_member s m = Some (i, u, b) \<longrightarrow> tn_role s r = Some (i, ''owner'', True, f) \<longrightarrow>
         tn_owner s i \<noteq> Some u) \<Longrightarrow>
      tenancy_step provisions bare s (s\<lparr>tn_links := tn_links s - {(m, r)}\<rparr>)"

section \<open>Tenants, names and defaults\<close>

text \<open>
  Every member and role is of an organization, a member's roles are of its own organization, role
  names are unique in an organization, and it has its owner role and exactly one default role.
\<close>

definition links_within :: "tenancy \<Rightarrow> bool" where
  "links_within s = (\<forall>m r. (m, r) \<in> tn_links s \<longrightarrow>
     (\<exists>i u b. tn_member s m = Some (i, u, b) \<and> r \<in> roles_in s i))"

definition organizations_exist :: "tenancy \<Rightarrow> bool" where
  "organizations_exist s =
     ((\<forall>m i u b. tn_member s m = Some (i, u, b) \<longrightarrow> i \<in> dom (tn_owner s))
      \<and> (\<forall>r i n y f. tn_role s r = Some (i, n, y, f) \<longrightarrow> i \<in> dom (tn_owner s)))"

definition names_unique :: "tenancy \<Rightarrow> bool" where
  "names_unique s = (\<forall>r r' i n y f y' f'. tn_role s r = Some (i, n, y, f) \<longrightarrow>
     tn_role s r' = Some (i, n, y', f') \<longrightarrow> r = r')"

definition owner_roles_exist :: "tenancy \<Rightarrow> bool" where
  "owner_roles_exist s =
     (\<forall>i \<in> dom (tn_owner s). (\<exists>r f. tn_role s r = Some (i, ''owner'', True, f)))"

definition one_default :: "tenancy \<Rightarrow> bool" where
  "one_default s = (\<forall>i \<in> dom (tn_owner s). (\<exists>r. default_roles_in s i = {r}))"

definition tenancy_ok :: "tenancy \<Rightarrow> bool" where
  "tenancy_ok s =
     (links_within s \<and> organizations_exist s \<and> names_unique s \<and> owner_roles_exist s \<and> one_default s)"

lemma roles_in_make_default [simp]: "roles_in (make_default i r s) j = roles_in s j"
  by (auto simp: roles_in_def make_default_def split: option.splits)

lemma make_default_keeps [simp]:
  "tn_owner (make_default i r s) = tn_owner s" "tn_member (make_default i r s) = tn_member s"
  "tn_links (make_default i r s) = tn_links s"
  by (simp_all add: make_default_def)

lemma tn_role_make_default:
  "tn_role (make_default i r s) q = Some (j, n, y, f) \<longleftrightarrow>
     (\<exists>g. tn_role s q = Some (j, n, y, g) \<and> f = (if j = i then q = r else g))"
  by (auto simp: make_default_def split: option.splits)

lemma roles_in_keeps [simp]:
  "roles_in (s\<lparr>tn_owner := ow\<rparr>) = roles_in s" "roles_in (s\<lparr>tn_member := mb\<rparr>) = roles_in s"
  "roles_in (s\<lparr>tn_links := lk\<rparr>) = roles_in s"
  by (simp_all add: roles_in_def fun_eq_iff)

lemma links_withinI:
  "(\<And>m r. (m, r) \<in> tn_links s \<Longrightarrow> \<exists>i u b. tn_member s m = Some (i, u, b) \<and> r \<in> roles_in s i) \<Longrightarrow>
     links_within s"
  by (simp add: links_within_def)

lemma links_withinD:
  "links_within s \<Longrightarrow> (m, r) \<in> tn_links s \<Longrightarrow>
     \<exists>i u b. tn_member s m = Some (i, u, b) \<and> r \<in> roles_in s i"
  by (simp add: links_within_def)

lemma links_within_step:
  assumes "tenancy_step p b s s'" and "links_within s"
  shows "links_within s'"
  using assms(1)
proof cases
  case (found i m owner rs ow fo)
  have new: "roles_in s j \<subseteq> roles_in s' j" for j
    using found(1,5) by (fastforce simp: roles_in_def map_add_def split: option.splits)
  show ?thesis
  proof (rule links_withinI)
    fix m' r assume "(m', r) \<in> tn_links s'"
    then consider "m' = m" "r = ow" | "(m', r) \<in> tn_links s" using found(1) by auto
    then show "\<exists>i u b. tn_member s' m' = Some (i, u, b) \<and> r \<in> roles_in s' i"
    proof cases
      case 1
      then show ?thesis using found by (auto simp: roles_in_def map_add_def)
    next
      case 2
      from links_withinD [OF assms(2) this] obtain i' u b'
        where "tn_member s m' = Some (i', u, b')" "r \<in> roles_in s i'" by blast
      then show ?thesis using found(1,3) new by (cases "m' = m") auto
    qed
  qed
next
  case (drop_role r i n)
  have "roles_in s' j = roles_in s j - {r}" for j
    unfolding drop_role(1) by (auto simp: roles_in_def)
  then show ?thesis
    using drop_role(1) by (intro links_withinI) (auto dest!: links_withinD [OF assms(2)])
next
  case (add_role r i n)
  have "roles_in s j \<subseteq> roles_in s' j" for j
    unfolding add_role(1) using add_role(2) by (auto simp: roles_in_def)
  then show ?thesis
    using add_role(1) by (intro links_withinI) (force dest!: links_withinD [OF assms(2)])
next
  case (add_member m i R u ba)
  then show ?thesis by (intro links_withinI) (auto dest!: links_withinD [OF assms(2)])
qed (rule links_withinI; auto simp: with_roles_def split: if_splits
      dest!: links_withinD [OF assms(2)])+

lemma organizations_existI:
  "(\<And>m i u b. tn_member s m = Some (i, u, b) \<Longrightarrow> i \<in> dom (tn_owner s)) \<Longrightarrow>
   (\<And>r i n y f. tn_role s r = Some (i, n, y, f) \<Longrightarrow> i \<in> dom (tn_owner s)) \<Longrightarrow> organizations_exist s"
  by (simp add: organizations_exist_def)

lemma organizations_existD:
  "organizations_exist s \<Longrightarrow> tn_member s m = Some (i, u, b) \<Longrightarrow> i \<in> dom (tn_owner s)"
  "organizations_exist s \<Longrightarrow> tn_role s r = Some (i, n, y, f) \<Longrightarrow> i \<in> dom (tn_owner s)"
  unfolding organizations_exist_def by blast+

lemma organizations_exist_kept:
  assumes "organizations_exist s" and "tn_owner s' = tn_owner s"
    and "\<And>m i u b. tn_member s' m = Some (i, u, b) \<Longrightarrow>
          i \<in> dom (tn_owner s) \<or> (\<exists>m u b. tn_member s m = Some (i, u, b))"
    and "\<And>r i n y f. tn_role s' r = Some (i, n, y, f) \<Longrightarrow>
          i \<in> dom (tn_owner s) \<or> (\<exists>r n y f. tn_role s r = Some (i, n, y, f))"
  shows "organizations_exist s'"
  using assms organizations_existD [OF assms(1)] by (metis organizations_existI)

lemma organizations_exist_step:
  assumes "tenancy_step p b s s'" and "organizations_exist s"
  shows "organizations_exist s'"
  using assms(1)
proof cases
  case (found i m owner rs ow fo)
  have role: "j = i \<or> tn_role s r = Some (j, n, y, f)" if "tn_role s' r = Some (j, n, y, f)" for r j n y f
    using that found(1) spec [OF found(6), of r] by (cases "rs r") (auto simp: map_add_def)
  show ?thesis
  proof (rule organizations_existI)
    fix m' j u b' assume "tn_member s' m' = Some (j, u, b')"
    then show "j \<in> dom (tn_owner s')"
      using found(1) organizations_existD(1) [OF assms(2)] by (auto split: if_splits)
  next
    fix r j n y f assume "tn_role s' r = Some (j, n, y, f)"
    from role [OF this] show "j \<in> dom (tn_owner s')"
      using found(1) organizations_existD(2) [OF assms(2)] by fastforce
  qed
next
  case (set_default r i)
  show ?thesis
    by (rule organizations_exist_kept [OF assms(2)]) (simp_all add: set_default(1) tn_role_make_default, blast+)
next
  case (add_member m i R u ba)
  then show ?thesis by (intro organizations_exist_kept [OF assms(2)]) (simp_all split: if_splits, blast+)
next
  case (add_role r i n)
  then show ?thesis by (intro organizations_exist_kept [OF assms(2)]) (simp_all split: if_splits, blast+)
next
  case (drop_role r i n)
  then show ?thesis by (intro organizations_exist_kept [OF assms(2)]) (simp_all split: if_splits, blast+)
qed (intro organizations_exist_kept [OF assms(2)]; simp split: if_splits; blast)+

lemma no_roles_yet:
  "organizations_exist s \<Longrightarrow> tn_owner s i = None \<Longrightarrow> tn_role s r \<noteq> Some (i, n, y, f)"
  by (metis domIff organizations_existD(2))

lemma names_unique_step:
  assumes "tenancy_step p b s s'" and "names_unique s" and "organizations_exist s"
  shows "names_unique s'"
  using assms(1)
proof cases
  case (found i m owner rs ow fo)
  have old: "tn_role s r \<noteq> Some (i, n, y, f)" for r n y f
    using no_roles_yet [OF assms(3) found(2)] .
  show ?thesis
    unfolding names_unique_def
  proof (intro allI impI)
    fix r r' j n y f y' f'
    assume a: "tn_role s' r = Some (j, n, y, f)" "tn_role s' r' = Some (j, n, y', f')"
    have new: "rs q = Some (i, n, z, g) \<and> j = i \<or> j \<noteq> i \<and> tn_role s q = Some (j, n, z, g)"
      if "tn_role s' q = Some (j, n, z, g)" for q z g
      using that found(1) spec [OF found(6), of q] old by (cases "rs q") (auto simp: map_add_def)
    show "r = r'"
      using new [OF a(1)] new [OF a(2)] found(7) assms(2) by (auto simp: names_unique_def)
  qed
next
  case (set_default r i)
  then show ?thesis using assms(2) unfolding set_default names_unique_def tn_role_make_default by metis
next
  case (add_role r i n)
  then show ?thesis using assms(2) by (simp add: names_unique_def)
qed (use assms(2) in \<open>simp_all add: names_unique_def; metis\<close>)+

lemma owner_roles_exist_step:
  assumes "tenancy_step p b s s'" and "owner_roles_exist s"
  shows "owner_roles_exist s'"
proof -
  have kept: "\<exists>r f. tn_role s r = Some (i, ''owner'', True, f)" if "i \<in> dom (tn_owner s)" for i
    using assms(2) that by (simp add: owner_roles_exist_def)
  show ?thesis
    using assms(1)
  proof cases
    case (found i m owner rs ow fo)
    show ?thesis
      unfolding owner_roles_exist_def
    proof
      fix j assume "j \<in> dom (tn_owner s')"
      then consider "j = i" | "j \<noteq> i" "j \<in> dom (tn_owner s)" using found(1) by (auto split: if_splits)
      then show "\<exists>r f. tn_role s' r = Some (j, ''owner'', True, f)"
      proof cases
        case 1
        then show ?thesis using found(1) map_add_find_right [of rs, OF found(9)] by auto
      next
        case 2
        with kept obtain r f where r: "tn_role s r = Some (j, ''owner'', True, f)" by blast
        then have "rs r = None" using found(5) by (metis IntI domIff emptyE option.distinct(1))
        then have "tn_role s' r = Some (j, ''owner'', True, f)" using r found(1) by (simp add: map_add_def)
        then show ?thesis by blast
      qed
    qed
  next
    case (set_default r i)
    show ?thesis
      using kept unfolding owner_roles_exist_def set_default(1) make_default_keeps tn_role_make_default
      by metis
  next
    case (add_role r i n)
    show ?thesis
      unfolding owner_roles_exist_def
    proof
      fix j assume "j \<in> dom (tn_owner s')"
      then have "j \<in> dom (tn_owner s)" by (simp add: add_role(1))
      from kept [OF this] obtain q f where q: "tn_role s q = Some (j, ''owner'', True, f)" by blast
      then have "q \<noteq> r" using add_role(2) by auto
      then show "\<exists>r f. tn_role s' r = Some (j, ''owner'', True, f)" using q add_role(1) by auto
    qed
  next
    case (drop_role r i n)
    show ?thesis
      unfolding owner_roles_exist_def
    proof
      fix j assume "j \<in> dom (tn_owner s')"
      then have "j \<in> dom (tn_owner s)" by (simp add: drop_role(1))
      from kept [OF this] obtain q f where q: "tn_role s q = Some (j, ''owner'', True, f)" by blast
      then have "q \<noteq> r" using drop_role(2) by auto
      then show "\<exists>r f. tn_role s' r = Some (j, ''owner'', True, f)" using q drop_role(1) by auto
    qed
  qed (use assms(2) in \<open>simp_all add: owner_roles_exist_def\<close>)
qed

lemma default_roles_in_keeps [simp]:
  "default_roles_in (s\<lparr>tn_owner := ow\<rparr>) = default_roles_in s"
  "default_roles_in (s\<lparr>tn_member := mb\<rparr>) = default_roles_in s"
  "default_roles_in (s\<lparr>tn_links := lk\<rparr>) = default_roles_in s"
  by (simp_all add: default_roles_in_def fun_eq_iff)

lemma default_roles_make_default:
  "default_roles_in (make_default i r s) j =
     (if j = i then {r} \<inter> roles_in s i else default_roles_in s j)"
  by (auto simp: default_roles_in_def tn_role_make_default roles_in_def)

lemma one_default_step:
  assumes "tenancy_step p b s s'" and "one_default s" and "organizations_exist s"
  shows "one_default s'"
proof -
  have one: "\<exists>r. default_roles_in s i = {r}" if "i \<in> dom (tn_owner s)" for i
    using assms(2) that by (simp add: one_default_def)
  show ?thesis
    using assms(1)
  proof cases
    case (found i m owner rs ow fo)
    have old: "tn_role s r \<noteq> Some (i, n, y, f)" for r n y f
      using no_roles_yet [OF assms(3) found(2)] .
    have here: "default_roles_in s' i = {r. \<exists>n y. rs r = Some (i, n, y, True)}"
      using found(1) old by (auto simp: default_roles_in_def map_add_def split: option.splits)
    have there: "default_roles_in s' j = default_roles_in s j" if "j \<noteq> i" for j
    proof -
      have "tn_role s' r = Some (j, n, y, True) \<longleftrightarrow> tn_role s r = Some (j, n, y, True)" for r n y
      proof (cases "rs r")
        case None
        then show ?thesis using found(1) by (simp add: map_add_def)
      next
        case (Some x)
        then have "tn_role s r = None" using found(5) by (metis IntI domIff emptyE option.distinct(1))
        then show ?thesis using Some found(1) spec [OF found(6), of r] that by (auto simp: map_add_def)
      qed
      then show ?thesis by (simp add: default_roles_in_def)
    qed
    obtain r where r: "\<exists>n y. rs r = Some (i, n, y, True)"
        "\<And>q. \<exists>n y. rs q = Some (i, n, y, True) \<Longrightarrow> q = r"
      using found(8) by blast
    then have "default_roles_in s' i = {r}" unfolding here by blast
    then have "\<exists>r. default_roles_in s' j = {r}" if "j \<in> dom (tn_owner s')" for j
    proof (cases "j = i")
      case True
      then show ?thesis using \<open>default_roles_in s' i = {r}\<close> by blast
    next
      case False
      then have "j \<in> dom (tn_owner s)" using that found(1) by (simp add: dom_def)
      from one [OF this] show ?thesis by (simp only: there [OF False])
    qed
    then show ?thesis by (simp add: one_default_def)
  next
    case (set_default r i)
    then show ?thesis
      using one by (auto simp: one_default_def default_roles_make_default)
  next
    case (add_role r i n)
    then have "default_roles_in s' = default_roles_in s" by (auto simp: default_roles_in_def fun_eq_iff)
    then show ?thesis using add_role(1) one by (simp add: one_default_def)
  next
    case (drop_role r i n)
    then have "default_roles_in s' = default_roles_in s" by (auto simp: default_roles_in_def fun_eq_iff)
    then show ?thesis using drop_role(1) one by (simp add: one_default_def)
  qed (use assms(2) in \<open>simp_all add: one_default_def\<close>)
qed

theorem tenancy_ok_step: "tenancy_step p b s s' \<Longrightarrow> tenancy_ok s \<Longrightarrow> tenancy_ok s'"
  unfolding tenancy_ok_def
  by (blast intro: links_within_step organizations_exist_step names_unique_step owner_roles_exist_step
      one_default_step)

section \<open>Owners\<close>

text \<open>
  Unless provisioning may change the user and the status of a member, the owner of an organization
  that has one is an active member of it and has its owner role; no invited member is the owner's.
\<close>

definition owner_seated :: "tenancy \<Rightarrow> 128 word \<Rightarrow> string \<Rightarrow> 128 word \<Rightarrow> bool" where
  "owner_seated s i owner m = (tn_member s m = Some (i, owner, Some MsActive)
     \<and> (\<exists>r f. (m, r) \<in> tn_links s \<and> tn_role s r = Some (i, ''owner'', True, f)))"

definition owners_ok :: "tenancy \<Rightarrow> bool" where
  "owners_ok s = (\<forall>i owner. tn_owner s i = Some owner \<longrightarrow>
     owner \<noteq> [] \<longrightarrow>
     (\<forall>m. tn_member s m \<noteq> Some (i, owner, Some MsInvited)) \<and> (\<exists>m. owner_seated s i owner m))"

lemma owners_okD:
  assumes "owners_ok s" and "tn_owner s i = Some owner" and "owner \<noteq> []"
  shows "tn_member s m \<noteq> Some (i, owner, Some MsInvited)" and "\<exists>m. owner_seated s i owner m"
  using assms by (auto simp: owners_ok_def)

lemma owners_ok_kept:
  assumes "owners_ok s" and "tn_owner s' = tn_owner s"
    and "\<And>i w m. tn_owner s i = Some w \<Longrightarrow> w \<noteq> [] \<Longrightarrow> owner_seated s i w m \<Longrightarrow> owner_seated s' i w m"
    and "\<And>i w m. tn_owner s i = Some w \<Longrightarrow> tn_member s' m = Some (i, w, Some MsInvited) \<Longrightarrow>
          w = [] \<or> (\<exists>m. tn_member s m = Some (i, w, Some MsInvited))"
  shows "owners_ok s'"
  unfolding owners_ok_def
proof (intro allI impI)
  fix i w assume "tn_owner s' i = Some w" and ne: "w \<noteq> []"
  then have w: "tn_owner s i = Some w" using assms(2) by simp
  obtain m where "owner_seated s i w m" using owners_okD(2) [OF assms(1) w ne] by blast
  then show "(\<forall>m. tn_member s' m \<noteq> Some (i, w, Some MsInvited)) \<and> (\<exists>m. owner_seated s' i w m)"
    using owners_okD(1) [OF assms(1) w ne] assms(3,4) [OF w] ne by blast
qed

text \<open>A role named owner is the owner role, since names are unique.\<close>

lemma owner_role_is_system:
  assumes "tenancy_ok s" and "tn_role s r = Some (i, ''owner'', y, f)"
  shows "y"
proof -
  have "i \<in> dom (tn_owner s)"
    using assms by (auto simp: tenancy_ok_def dest: organizations_existD(2))
  then obtain q g where "tn_role s q = Some (i, ''owner'', True, g)"
    using assms(1) unfolding tenancy_ok_def owner_roles_exist_def by blast
  then show ?thesis
    using assms unfolding tenancy_ok_def names_unique_def by (metis option.inject prod.inject)
qed

lemma owners_ok_found:
  assumes "owners_ok s" and "organizations_exist s" and "tn_owner s i = None" and "tn_member s m = None"
    and "owner \<noteq> []" and "dom rs \<inter> dom (tn_role s) = {}" and "rs ow = Some (i, ''owner'', True, fo)"
    and s': "s' = s\<lparr>tn_owner := (tn_owner s)(i \<mapsto> owner), tn_member := (tn_member s)(m \<mapsto> (i, owner, Some MsActive)),
      tn_role := tn_role s ++ rs, tn_links := insert (m, ow) (tn_links s)\<rparr>"
  shows "owners_ok s'"
  unfolding owners_ok_def
proof (intro allI impI)
  fix j w assume "tn_owner s' j = Some w" and ne: "w \<noteq> []"
  then consider "j = i" "w = owner" | "j \<noteq> i" "tn_owner s j = Some w"
    using s' by (auto split: if_splits)
  then show "(\<forall>m. tn_member s' m \<noteq> Some (j, w, Some MsInvited)) \<and> (\<exists>m. owner_seated s' j w m)"
  proof cases
    case 1
    have "tn_member s q \<noteq> Some (i, u, Some MsInvited)" for q u
      using organizations_existD(1) [OF assms(2), of q i u "Some MsInvited"] assms(3) by auto
    moreover have "owner_seated s' i owner m"
      using s' map_add_find_right [of rs, OF assms(7)] by (auto simp: owner_seated_def)
    ultimately show ?thesis using s' assms(5) 1 by auto
  next
    case 2
    obtain q r f where q: "tn_member s q = Some (j, w, Some MsActive)" "(q, r) \<in> tn_links s"
        "tn_role s r = Some (j, ''owner'', True, f)"
      using owners_okD(2) [OF assms(1) 2(2) ne] by (auto simp: owner_seated_def)
    have "rs r = None" using assms(6) q(3) by (metis IntI domIff emptyE option.distinct(1))
    then have "tn_role s' r = Some (j, ''owner'', True, f)" using q(3) s' by (simp add: map_add_def)
    moreover have "q \<noteq> m" using q(1) assms(4) by auto
    ultimately have "owner_seated s' j w q" unfolding owner_seated_def using q s'
      by (intro conjI exI [of _ r] exI [of _ f]) simp_all
    then show ?thesis using owners_okD(1) [OF assms(1) 2(2) ne] s' 2(1) by auto
  qed
qed

lemma owners_ok_step:
  assumes "tenancy_step False b s s'" and "owners_ok s" and "tenancy_ok s"
  shows "owners_ok s'"
  using assms(1)
proof cases
  case (found i m owner rs ow fo)
  then show ?thesis
    using assms(3) by (intro owners_ok_found [OF assms(2)]) (auto simp: tenancy_ok_def)
next
  case (add_member m i R ba u)
  then show ?thesis
    by (intro owners_ok_kept [OF assms(2)]) (auto simp: owner_seated_def split: if_splits)
next
  case (link_user m i ba u R)
  then show ?thesis
    by (intro owners_ok_kept [OF assms(2)])
      (auto simp: owner_seated_def with_roles_def split: if_splits dest: owners_okD(2) [OF assms(2)])
next
  case (set_roles m i u ba R)
  have "owner_seated s' j w q" if "tn_owner s j = Some w" "owner_seated s j w q" for j w q
  proof (cases "q = m")
    case True
    then have "has_owner_role s j R" using set_roles(2,5) that by (auto simp: owner_seated_def)
    then obtain r y g where r: "r \<in> R" "tn_role s r = Some (j, ''owner'', y, g)"
      by (auto simp: has_owner_role_def)
    from owner_role_is_system [OF assms(3) r(2)] have y .
    then show ?thesis using r True that(2) by (auto simp: set_roles(1) with_roles_def owner_seated_def)
  next
    case False
    then show ?thesis using that(2) by (auto simp: set_roles(1) with_roles_def owner_seated_def)
  qed
  then show ?thesis
    by (intro owners_ok_kept [OF assms(2)]) (auto simp: set_roles(1))
next
  case (unassign r m)
  have "owner_seated s' j w q" if w: "tn_owner s j = Some w" "owner_seated s j w q" for j w q
  proof -
    obtain r' f where r': "tn_member s q = Some (j, w, Some MsActive)" "(q, r') \<in> tn_links s"
        "tn_role s r' = Some (j, ''owner'', True, f)"
      using w(2) by (auto simp: owner_seated_def)
    then have "(q, r') \<noteq> (m, r)" using unassign(3) w(1) by auto
    then have "(q, r') \<in> tn_links s'" using r'(2) unassign(1) by simp
    then show ?thesis
      unfolding owner_seated_def using r' unassign(1)
      by (intro conjI exI [of _ r'] exI [of _ f]) simp_all
  qed
  then show ?thesis by (intro owners_ok_kept [OF assms(2)]) (auto simp: unassign(1))
next
  case (set_default r i)
  show ?thesis
    unfolding set_default(1)
    by (rule owners_ok_kept [OF assms(2)])
      (auto simp: owner_seated_def tn_role_make_default)
next
  case (add_role r i n)
  have "owner_seated s' j w q" if w: "tn_owner s j = Some w" "owner_seated s j w q" for j w q
  proof -
    obtain r' f where r': "tn_member s q = Some (j, w, Some MsActive)" "(q, r') \<in> tn_links s"
        "tn_role s r' = Some (j, ''owner'', True, f)"
      using w(2) by (auto simp: owner_seated_def)
    then have "r' \<noteq> r" using add_role(2) by auto
    then show ?thesis
      unfolding owner_seated_def using r' add_role(1)
      by (intro conjI exI [of _ r'] exI [of _ f]) simp_all
  qed
  then show ?thesis by (intro owners_ok_kept [OF assms(2)]) (auto simp: add_role(1))
next
  case (drop_role r i n)
  have "owner_seated s' j w q" if w: "tn_owner s j = Some w" "owner_seated s j w q" for j w q
  proof -
    obtain r' f where r': "tn_member s q = Some (j, w, Some MsActive)" "(q, r') \<in> tn_links s"
        "tn_role s r' = Some (j, ''owner'', True, f)"
      using w(2) by (auto simp: owner_seated_def)
    then have "r' \<noteq> r" using drop_role(2) by auto
    then show ?thesis
      unfolding owner_seated_def using r' drop_role(1)
      by (intro conjI exI [of _ r'] exI [of _ f]) simp_all
  qed
  then show ?thesis by (intro owners_ok_kept [OF assms(2)]) (auto simp: drop_role(1))
next
  case (assign m i u ba r)
  have "owner_seated s' j w q" if w: "tn_owner s j = Some w" "owner_seated s j w q" for j w q
  proof -
    obtain r' f where r': "tn_member s q = Some (j, w, Some MsActive)" "(q, r') \<in> tn_links s"
        "tn_role s r' = Some (j, ''owner'', True, f)"
      using w(2) by (auto simp: owner_seated_def)
    then show ?thesis
      unfolding owner_seated_def using r' assign(1)
      by (intro conjI exI [of _ r'] exI [of _ f]) simp_all
  qed
  then show ?thesis by (intro owners_ok_kept [OF assms(2)]) (auto simp: assign(1))
qed (intro owners_ok_kept [OF assms(2)]; auto simp: owner_seated_def split: if_splits)+

section \<open>Members\<close>

text \<open>Unless provisioning may leave a member without a role, every member has one.\<close>

definition members_have_roles :: "tenancy \<Rightarrow> bool" where
  "members_have_roles s = (\<forall>m \<in> dom (tn_member s). \<exists>r. (m, r) \<in> tn_links s)"

lemma members_have_roles_step:
  assumes "tenancy_step p False s s'" and "members_have_roles s"
  shows "members_have_roles s'"
proof -
  have has: "\<exists>r. (m, r) \<in> tn_links s" if "tn_member s m = Some x" for m x
    using assms(2) that by (auto simp: members_have_roles_def)
  show ?thesis
    unfolding members_have_roles_def
  proof
    fix q assume "q \<in> dom (tn_member s')"
    then obtain x where x: "tn_member s' q = Some x" by blast
    show "\<exists>r. (q, r) \<in> tn_links s'"
      using assms(1)
    proof cases
      case (drop_role r i n)
      then have "tn_member s q = Some x" using x by simp
      from has [OF this] obtain r' where "(q, r') \<in> tn_links s" by blast
      then show ?thesis using drop_role(1,3) by (cases "r' = r") auto
    next
      case (unassign r m)
      then have "tn_member s q = Some x" using x by simp
      from has [OF this] obtain r' where "(q, r') \<in> tn_links s" by blast
      then show ?thesis using unassign(1,2) by (cases "(q, r') = (m, r)") auto
    next
      case (set_roles m i u ba R)
      then show ?thesis using x has by (cases "q = m") (auto simp: with_roles_def)
    next
      case (assign m i u ba r)
      then have "tn_member s q = Some x" using x by simp
      from has [OF this] show ?thesis using assign(1) by auto
    qed (use x has in \<open>auto simp: with_roles_def split: if_splits\<close>)
  qed
qed

end
