(* ===== verification/Organization_View.thy ===== *)
theory Organization_View
  imports Organization_Membership Organization_Roles Organization_Keys Organization_Tenancy
begin

text \<open>
  The database of the organization service seen as a \<open>tenancy\<close>: what each statement and each query
  of \<open>Organization_Store\<close> is on that view. Tables are lists of rows, and a row is looked up by its key;
  the contract of a table is the locale \<open>table\<close>, which every table of the service meets.
\<close>

section \<open>Tables\<close>

definition row_of :: "('r \<Rightarrow> 'k) \<Rightarrow> 'r list \<Rightarrow> 'k \<Rightarrow> 'r option" where
  "row_of key rows k = find (\<lambda>r. key r = k) rows"

lemma row_of_Nil [simp]: "row_of key [] = Map.empty"
  by (simp add: row_of_def fun_eq_iff)

lemma row_of_Cons: "row_of key (r # rows) = (row_of key rows)(key r \<mapsto> r)"
  by (auto simp: row_of_def fun_eq_iff)

lemma row_of_SomeD: "row_of key rows k = Some r \<Longrightarrow> r \<in> set rows \<and> key r = k"
  by (auto simp: row_of_def dest: find_Some_in_set)

lemma row_of_None: "row_of key rows k = None \<longleftrightarrow> k \<notin> key ` set rows"
  by (auto simp: row_of_def find_None_iff)

lemma row_of_mem: "distinct (map key rows) \<Longrightarrow> r \<in> set rows \<Longrightarrow> row_of key rows (key r) = Some r"
  by (induction rows) (auto simp: row_of_Cons image_iff)

lemma row_of_append: "row_of key (rows @ [r]) k =
    (case row_of key rows k of None \<Rightarrow> if key r = k then Some r else None | Some x \<Rightarrow> Some x)"
  by (simp add: row_of_def find_append split: option.splits)

lemma row_of_filter: "row_of key (filter (\<lambda>r. key r \<noteq> k) rows) = (row_of key rows)(k := None)"
  by (induction rows) (auto simp: row_of_Cons)

lemma row_of_replaced:
  assumes "key new = k" and "k \<in> key ` set rows"
  shows "row_of key (map (\<lambda>x. if key x = k then new else x) rows) = (row_of key rows)(k \<mapsto> new)"
proof -
  have "row_of key (map (\<lambda>x. if key x = k then new else x) rows) j =
      (if j = k then (if k \<in> key ` set rows then Some new else None) else row_of key rows j)" for j
    using assms(1) by (induction rows) (auto simp: row_of_Cons)
  then show ?thesis using assms(2) by auto
qed

text \<open>A table has a key, and an update of a row keeps the key.\<close>

locale table =
  fixes key :: "'r \<Rightarrow> 'k" and upd :: "'r \<Rightarrow> 'r \<Rightarrow> 'r"
  assumes key_upd: "key old = key r \<Longrightarrow> key (upd old r) = key r"
begin

lemma upsert_insert:
  assumes "upsert key upd clash ref r rows = Inr rows'" and "row_of key rows (key r) = None"
  shows "rows' = rows @ [r] \<and> ref \<and> (\<forall>x \<in> set rows. \<not> clash x r)"
  using assms by (auto simp: upsert_def row_of_def split: if_splits)

lemma upsert_update:
  assumes "upsert key upd clash ref r rows = Inr rows'" and "row_of key rows (key r) = Some old"
  shows "rows' = map (\<lambda>x. if key x = key r then upd old r else x) rows \<and> old \<in> set rows \<and> key old = key r
    \<and> (\<forall>x \<in> set rows. key x \<noteq> key r \<longrightarrow> \<not> clash x (upd old r))"
  using assms row_of_SomeD [OF assms(2)] by (auto simp: upsert_def row_of_def Let_def split: if_splits)

lemma upsert_row:
  assumes "upsert key upd clash ref r rows = Inr rows'"
  shows "row_of key rows' = (row_of key rows)(key r \<mapsto>
    (case row_of key rows (key r) of None \<Rightarrow> r | Some old \<Rightarrow> upd old r))"
proof (cases "row_of key rows (key r)")
  case None
  then show ?thesis
    using upsert_insert [OF assms None] by (auto simp: row_of_append fun_eq_iff split: option.splits)
next
  case (Some old)
  note u = upsert_update [OF assms Some]
  then have "key r \<in> key ` set rows" by (metis image_eqI)
  then show ?thesis using u row_of_replaced [of key, OF key_upd] Some by simp
qed

lemma upsert_keys:
  assumes "upsert key upd clash ref r rows = Inr rows'"
  shows "map key rows' = (if key r \<in> key ` set rows then map key rows else map key rows @ [key r])"
proof (cases "row_of key rows (key r)")
  case None
  then show ?thesis using upsert_insert [OF assms None] by (simp add: row_of_None)
next
  case (Some old)
  note u = upsert_update [OF assms Some]
  then have "key r \<in> key ` set rows" by (metis image_eqI)
  then show ?thesis using u key_upd by (simp add: o_def if_distrib cong: map_cong)
qed

lemma upsert_distinct:
  "upsert key upd clash ref r rows = Inr rows' \<Longrightarrow> distinct (map key rows) \<Longrightarrow> distinct (map key rows')"
  by (simp add: upsert_keys)

lemma upsert_set:
  assumes "upsert key upd clash ref r rows = Inr rows'" and "x \<in> set rows'"
  shows "x \<in> set rows \<and> key x \<noteq> key r
    \<or> x = (case row_of key rows (key r) of None \<Rightarrow> r | Some old \<Rightarrow> upd old r)"
proof (cases "row_of key rows (key r)")
  case None
  have "rows' = rows @ [r]" using upsert_insert [OF assms(1) None] by blast
  moreover have "key r \<notin> key ` set rows" using None by (simp add: row_of_None)
  ultimately show ?thesis using None assms(2) by (auto simp: image_iff)
next
  case (Some old)
  then show ?thesis using upsert_update [OF assms(1) Some] assms(2) by (auto split: if_splits)
qed

end

interpretation organizations: table gr_id "\<lambda>old new. new\<lparr>gr_created_at := gr_created_at old\<rparr>"
  by unfold_locales simp

interpretation members: table mr_id
    "\<lambda>old new. new\<lparr>mr_organization_id := mr_organization_id old, mr_created_at := mr_created_at old\<rparr>"
  by unfold_locales simp

interpretation roles: table rr_id
    "\<lambda>old new. new\<lparr>rr_organization_id := rr_organization_id old, rr_created_at := rr_created_at old\<rparr>"
  by unfold_locales simp

interpretation join_codes: table cr_id
    "\<lambda>old new. new\<lparr>cr_organization_id := cr_organization_id old, cr_created_by := cr_created_by old,
                   cr_created_at := cr_created_at old\<rparr>"
  by unfold_locales simp

interpretation api_keys: table kr_id
    "\<lambda>old new. new\<lparr>kr_organization_id := kr_organization_id old, kr_key_prefix := kr_key_prefix old,
                   kr_key_hash := kr_key_hash old, kr_created_by := kr_created_by old,
                   kr_created_at := kr_created_at old\<rparr>"
  by unfold_locales simp

interpretation policy_sets: table yr_id
    "\<lambda>old new. new\<lparr>yr_organization_id := yr_organization_id old, yr_created_by := yr_created_by old,
                   yr_created_at := yr_created_at old\<rparr>"
  by unfold_locales simp

section \<open>The view\<close>

definition row_status :: "org_lib \<Rightarrow> member_row \<Rightarrow> MemberStatus option" where
  "row_status ol m =
     (case parse_member_status ol (mr_status m) of Inl _ \<Rightarrow> None | Inr status \<Rightarrow> Some status)"

definition text_or_empty :: "string option \<Rightarrow> string" where
  "text_or_empty t = (case t of None \<Rightarrow> [] | Some x \<Rightarrow> x)"

definition view :: "org_lib \<Rightarrow> Db \<Rightarrow> tenancy" where
  "view ol d =
     \<lparr> tn_owner = (\<lambda>i. map_option (\<lambda>g. text_or_empty (gr_owner_id g)) (row_of gr_id (db_organizations d) i)),
       tn_member = (\<lambda>i. map_option
         (\<lambda>m. (mr_organization_id m, text_or_empty (mr_user_id m), row_status ol m))
         (row_of mr_id (db_members d) i)),
       tn_role = (\<lambda>i. map_option
         (\<lambda>r. (rr_organization_id r, rr_name r, rr_is_system r, rr_is_default_for_new_members r))
         (row_of rr_id (db_roles d) i)),
       tn_links = set (db_member_roles d) \<rparr>"

text \<open>Primary keys.\<close>

definition keys_distinct :: "Db \<Rightarrow> bool" where
  "keys_distinct d =
     (distinct (map gr_id (db_organizations d)) \<and> distinct (map mr_id (db_members d))
      \<and> distinct (map rr_id (db_roles d)))"

lemma view_links [simp]: "tn_links (view ol d) = set (db_member_roles d)"
  by (simp add: view_def)

lemma view_role_mem:
  "keys_distinct d \<Longrightarrow> r \<in> set (db_roles d) \<Longrightarrow> tn_role (view ol d) (rr_id r) =
     Some (rr_organization_id r, rr_name r, rr_is_system r, rr_is_default_for_new_members r)"
  by (simp add: view_def keys_distinct_def row_of_mem)

lemma view_member_mem:
  "keys_distinct d \<Longrightarrow> m \<in> set (db_members d) \<Longrightarrow> tn_member (view ol d) (mr_id m) =
     Some (mr_organization_id m, text_or_empty (mr_user_id m), row_status ol m)"
  by (simp add: view_def keys_distinct_def row_of_mem)

lemma view_roleD:
  "tn_role (view ol d) i = Some (g, n, y, f) \<Longrightarrow>
     \<exists>r \<in> set (db_roles d). rr_id r = i \<and> rr_organization_id r = g \<and> rr_name r = n \<and> rr_is_system r = y
       \<and> rr_is_default_for_new_members r = f"
  by (auto simp: view_def dest!: row_of_SomeD)

lemma view_memberD:
  "tn_member (view ol d) i = Some (g, u, b) \<Longrightarrow>
     \<exists>m \<in> set (db_members d). mr_id m = i \<and> mr_organization_id m = g \<and> text_or_empty (mr_user_id m) = u
       \<and> row_status ol m = b"
  by (auto simp: view_def dest!: row_of_SomeD)

lemma view_owner_exists: "organization_exists i d \<longleftrightarrow> i \<in> dom (tn_owner (view ol d))"
  by (auto simp: organization_exists_def view_def row_of_None image_iff dom_def
      simp flip: not_None_eq intro: classical) 

lemma view_member_None: "tn_member (view ol d) i = None \<longleftrightarrow> row_of mr_id (db_members d) i = None"
  by (simp add: view_def)

lemma view_role_None: "tn_role (view ol d) i = None \<longleftrightarrow> row_of rr_id (db_roles d) i = None"
  by (simp add: view_def)

section \<open>Statements\<close>

lemma save_organization_view:
  assumes "save_organization ol og d = Inr d'"
  shows "view ol d' = (view ol d)\<lparr>tn_owner := (tn_owner (view ol d))(og_id og \<mapsto> og_owner_id og)\<rparr>"
    and "keys_distinct d \<Longrightarrow> keys_distinct d'"
proof -
  obtain t where t: "upsert gr_id (\<lambda>old new. new\<lparr>gr_created_at := gr_created_at old\<rparr>)
      (\<lambda>a b. gr_slug a \<noteq> None \<and> gr_slug a = gr_slug b) True (organization_row_of ol og)
      (db_organizations d) = Inr t" and d': "d' = d\<lparr>db_organizations := t\<rparr>"
    using assms by (auto simp: save_organization_def bind_result_Inr split: if_splits)
  show "view ol d' = (view ol d)\<lparr>tn_owner := (tn_owner (view ol d))(og_id og \<mapsto> og_owner_id og)\<rparr>"
    using organizations.upsert_row [OF t]
    by (auto simp: d' view_def fun_eq_iff organization_row_of_def text_or_empty_def split: option.splits)
  show "keys_distinct d \<Longrightarrow> keys_distinct d'"
    using organizations.upsert_distinct [OF t] by (simp add: d' keys_distinct_def)
qed

text \<open>The organization of a member or a role that exists stays.\<close>

definition kept_organization :: "uuid \<Rightarrow> (uuid \<times> 'x) option \<Rightarrow> uuid" where
  "kept_organization i old = (case old of None \<Rightarrow> i | Some x \<Rightarrow> fst x)"

lemma kept_organization_simps [simp]:
  "kept_organization i None = i" "kept_organization i (Some (j, x)) = j"
  by (simp_all add: kept_organization_def)

lemma save_member_view:
  assumes "save_member ol m d = Inr d'" and "ascii_case_ok ol"
  shows "view ol d' = (view ol d)\<lparr>tn_member := (tn_member (view ol d))(mb_id m \<mapsto>
      (kept_organization (mb_organization_id m) (tn_member (view ol d) (mb_id m)),
       mb_user_id m, Some (mb_status m)))\<rparr>"
    and "keys_distinct d \<Longrightarrow> keys_distinct d'"
    and "tn_member (view ol d) (mb_id m) = None \<Longrightarrow> mb_organization_id m \<in> dom (tn_owner (view ol d))"
proof -
  obtain t where t: "upsert mr_id
      (\<lambda>old new. new\<lparr>mr_organization_id := mr_organization_id old, mr_created_at := mr_created_at old\<rparr>)
      same_user (organization_exists (mb_organization_id m) d) (member_row_of ol m) (db_members d) = Inr t"
    and d': "d' = d\<lparr>db_members := t\<rparr>"
    using assms by (auto simp: save_member_def bind_result_Inr)
  have invited: "parse_member_status ol (member_status_text (mb_status m)) = Inr (mb_status m)"
    by (rule parse_member_status_text [OF assms(2)])
  show "view ol d' = (view ol d)\<lparr>tn_member := (tn_member (view ol d))(mb_id m \<mapsto>
      (kept_organization (mb_organization_id m) (tn_member (view ol d) (mb_id m)),
       mb_user_id m, Some (mb_status m)))\<rparr>"
    using members.upsert_row [OF t] invited
    by (auto simp: d' view_def fun_eq_iff member_row_of_def text_or_empty_def row_status_def split: option.splits)
  show "keys_distinct d \<Longrightarrow> keys_distinct d'"
    using members.upsert_distinct [OF t] by (simp add: d' keys_distinct_def)
  show "tn_member (view ol d) (mb_id m) = None \<Longrightarrow> mb_organization_id m \<in> dom (tn_owner (view ol d))"
    using members.upsert_insert [OF t]
    by (simp add: view_member_None member_row_of_def flip: view_owner_exists)
qed

lemma set_role_permissions_view:
  assumes "set_role_permissions r d = Inr d'"
  shows "view ol d' = view ol d" and "keys_distinct d' = keys_distinct d"
  using assms by (auto simp: set_role_permissions_def bind_result_Inr view_def keys_distinct_def)

lemma save_role_view:
  assumes "save_role ol r d = Inr d'"
  shows "view ol d' = (view ol d)\<lparr>tn_role := (tn_role (view ol d))(rl_id r \<mapsto>
      (kept_organization (rl_organization_id r) (tn_role (view ol d) (rl_id r)),
       rl_name r, rl_is_system r, rl_is_default_for_new_members r))\<rparr>"
    and "keys_distinct d \<Longrightarrow> keys_distinct d'"
    and "tn_role (view ol d) (rl_id r) = None \<Longrightarrow> rl_organization_id r \<in> dom (tn_owner (view ol d))"
proof -
  obtain t where t: "upsert rr_id
      (\<lambda>old new. new\<lparr>rr_organization_id := rr_organization_id old, rr_created_at := rr_created_at old\<rparr>)
      (\<lambda>a b. rr_organization_id a = rr_organization_id b \<and> rr_name a = rr_name b)
      (organization_exists (rl_organization_id r) d) (role_row_of ol r) (db_roles d) = Inr t"
    and d': "set_role_permissions r (d\<lparr>db_roles := t\<rparr>) = Inr d'"
    using assms by (auto simp: save_role_def upsert_role_def bind_result_Inr)
  note v = set_role_permissions_view [OF d']
  show "view ol d' = (view ol d)\<lparr>tn_role := (tn_role (view ol d))(rl_id r \<mapsto>
      (kept_organization (rl_organization_id r) (tn_role (view ol d) (rl_id r)),
       rl_name r, rl_is_system r, rl_is_default_for_new_members r))\<rparr>"
    unfolding v(1) using roles.upsert_row [OF t]
    by (auto simp: view_def fun_eq_iff role_row_of_def split: option.splits)
  show "keys_distinct d \<Longrightarrow> keys_distinct d'"
    unfolding v(2) using roles.upsert_distinct [OF t] by (simp add: keys_distinct_def)
  show "tn_role (view ol d) (rl_id r) = None \<Longrightarrow> rl_organization_id r \<in> dom (tn_owner (view ol d))"
    using roles.upsert_insert [OF t]
    by (simp add: view_role_None role_row_of_def flip: view_owner_exists)
qed

text \<open>Several roles with distinct identifiers.\<close>

definition role_entry :: "Role \<Rightarrow> uuid \<times> uuid \<times> string \<times> bool \<times> bool" where
  "role_entry r = (rl_id r, rl_organization_id r, rl_name r, rl_is_system r, rl_is_default_for_new_members r)"

lemma save_roles_view:
  assumes "save_roles ol rs d = Inr d'" and "distinct (map rl_id rs)"
    and "\<forall>r \<in> set rs.
      kept_organization (rl_organization_id r) (tn_role (view ol d) (rl_id r)) = rl_organization_id r"
  shows "view ol d' = (view ol d)\<lparr>tn_role := tn_role (view ol d) ++ map_of (map role_entry rs)\<rparr>"
    and "keys_distinct d \<Longrightarrow> keys_distinct d'"
  using assms
proof (induction ol rs d rule: save_roles.induct)
  case (2 ol r rs d)
  case 1
  then obtain e where e: "save_role ol r d = Inr e" "save_roles ol rs e = Inr d'"
    by (auto simp: bind_result_Inr)
  note v = save_role_view(1) [OF e(1)]
  have r: "view ol e =
      (view ol d)\<lparr>tn_role := (tn_role (view ol d))(fst (role_entry r) \<mapsto> snd (role_entry r))\<rparr>"
    using 1(3) by (simp add: v role_entry_def)
  have IH: "view ol d' = (view ol e)\<lparr>tn_role := tn_role (view ol e) ++ map_of (map role_entry rs)\<rparr>"
    using 1 e by (intro "2.IH"(1) [OF e(2)]) (auto simp: v image_iff)
  have "fst (role_entry r) \<notin> dom (map_of (map role_entry rs))"
    using 1(2) by (auto simp: role_entry_def dom_map_of_conv_image_fst image_image)
  then have both: "g ++ map_of (map role_entry (r # rs)) =
      g(fst (role_entry r) \<mapsto> snd (role_entry r)) ++ map_of (map role_entry rs)" for g
    by (intro ext) (auto simp: map_add_def split: option.splits)
  show ?case unfolding both by (rule trans [OF IH]) (simp add: r)
next
  case (2 ol r rs d)
  case 2
  then obtain e where e: "save_role ol r d = Inr e" "save_roles ol rs e = Inr d'"
    by (auto simp: bind_result_Inr)
  show ?case
    using 2 e save_role_view [OF e(1)] by (intro "2.IH"(2) [OF _ e(2)]) (auto simp: image_iff)
qed simp_all

lemma insert_links_set: "insert_links refs ls links = Inr t \<Longrightarrow> set t = set links \<union> set ls"
  by (induction refs ls links rule: insert_links.induct)
    (auto simp: insert_link_def bind_result_Inr split: if_splits)

lemma set_member_role_rows_view:
  assumes "set_member_role_rows m rs d = Inr d'"
  shows "view ol d' = (view ol d)\<lparr>tn_links := with_roles m (set rs) (tn_links (view ol d))\<rparr>"
    and "keys_distinct d' = keys_distinct d"
  using assms
  by (auto simp: set_member_role_rows_def bind_result_Inr view_def keys_distinct_def with_roles_def
      dest!: insert_links_set)

lemma add_member_role_row_view:
  assumes "add_member_role_row m r d = Inr d'"
  shows "view ol d' = (view ol d)\<lparr>tn_links := insert (m, r) (tn_links (view ol d))\<rparr>"
    and "keys_distinct d' = keys_distinct d"
  using assms
  by (auto simp: add_member_role_row_def bind_result_Inr view_def keys_distinct_def insert_link_def split: if_splits)

lemma remove_member_role_row_view:
  "view ol (snd (remove_member_role_row m r d)) =
     (view ol d)\<lparr>tn_links := tn_links (view ol d) - {(m, r)}\<rparr>"
  "keys_distinct (snd (remove_member_role_row m r d)) = keys_distinct d"
  by (auto simp: remove_member_role_row_def view_def keys_distinct_def)

lemma delete_member_view:
  "view ol (snd (delete_member m d)) =
     (view ol d)\<lparr>tn_member := (tn_member (view ol d))(m := None),
                tn_links := {l \<in> tn_links (view ol d). fst l \<noteq> m}\<rparr>"
  "keys_distinct d \<Longrightarrow> keys_distinct (snd (delete_member m d))"
  by (auto simp: delete_member_def view_def keys_distinct_def row_of_filter fun_eq_iff distinct_map_filter)

lemma delete_role_view:
  "view ol (snd (delete_role_row r d)) =
     (view ol d)\<lparr>tn_role := (tn_role (view ol d))(r := None),
                tn_links := {l \<in> tn_links (view ol d). snd l \<noteq> r}\<rparr>"
  "keys_distinct d \<Longrightarrow> keys_distinct (snd (delete_role_row r d))"
  by (auto simp: delete_role_row_def delete_role_rows_def view_def keys_distinct_def row_of_filter fun_eq_iff
      distinct_map_filter)

lemma persist_event_view:
  assumes "persist_event oa fresh e d = Inr d'"
  shows "view ol d' = view ol d" and "keys_distinct d' = keys_distinct d"
  using assms
  by (auto simp: persist_event_def bind_result_Inr repository_def save_audit_event_def enqueue_message_def
      view_def keys_distinct_def split: if_splits option.splits)

lemma save_join_code_view:
  assumes "save_join_code l jc d = Inr d'"
  shows "view ol d' = view ol d" and "keys_distinct d' = keys_distinct d"
  using assms by (auto simp: save_join_code_def bind_result_Inr view_def keys_distinct_def split: if_splits)

lemma save_member_with_roles_view:
  assumes "save_with_roles ol m rs d = Inr d'" and "ascii_case_ok ol"
  shows "view ol d' = (view ol d)\<lparr>tn_member := (tn_member (view ol d))(mb_id m \<mapsto>
      (kept_organization (mb_organization_id m) (tn_member (view ol d) (mb_id m)),
       mb_user_id m, Some (mb_status m))),
       tn_links := with_roles (mb_id m) (rl_id ` set rs) (tn_links (view ol d))\<rparr>"
    and "keys_distinct d \<Longrightarrow> keys_distinct d'"
    and "tn_member (view ol d) (mb_id m) = None \<Longrightarrow> mb_organization_id m \<in> dom (tn_owner (view ol d))"
proof -
  obtain e where e: "save_member ol m d = Inr e" "set_member_role_rows (mb_id m) (map rl_id rs) e = Inr d'"
    using assms(1) by (auto simp: save_with_roles_def bind_result_Inr repository_def)
  note v = save_member_view [OF e(1) assms(2)] set_member_role_rows_view [OF e(2)]
  show "view ol d' = (view ol d)\<lparr>tn_member := (tn_member (view ol d))(mb_id m \<mapsto>
      (kept_organization (mb_organization_id m) (tn_member (view ol d) (mb_id m)),
       mb_user_id m, Some (mb_status m))),
       tn_links := with_roles (mb_id m) (rl_id ` set rs) (tn_links (view ol d))\<rparr>"
    by (simp add: v)
  show "keys_distinct d \<Longrightarrow> keys_distinct d'" by (simp add: v)
  show "tn_member (view ol d) (mb_id m) = None \<Longrightarrow> mb_organization_id m \<in> dom (tn_owner (view ol d))"
    by (rule v(3))
qed

section \<open>Queries\<close>

lemma locked_organization_view:
  assumes "locked_organization oa i d = Inr og"
  shows "tn_owner (view ol d) i = Some (og_owner_id og)" and "og_id og = i"
  using assms
  by (auto simp: locked_organization_def organization_by_id_def fetch_optional_def organization_from_row_def
      bind_result_Inr repository_def view_def row_of_def text_or_empty_def dest: find_Some_in_set
      split: option.splits if_splits)

definition member_in :: "tenancy \<Rightarrow> Member \<Rightarrow> bool" where
  "member_in s m = (tn_member s (mb_id m) = Some (mb_organization_id m, mb_user_id m, Some (mb_status m)))"

definition role_in :: "tenancy \<Rightarrow> uuid \<Rightarrow> Role \<Rightarrow> bool" where
  "role_in s i r = (rl_organization_id r = i
     \<and> tn_role s (rl_id r) = Some (i, rl_name r, rl_is_system r, rl_is_default_for_new_members r))"

lemma role_in_organization: "role_in s i r \<Longrightarrow> rl_id r \<in> roles_in s i"
  by (auto simp: role_in_def roles_in_def)

lemma roles_in_organization: "\<forall>r \<in> set rs. role_in s i r \<Longrightarrow> rl_id ` set rs \<subseteq> roles_in s i"
  by (auto intro: role_in_organization)

lemma owner_among:
  "\<forall>r \<in> set rs. role_in s i r \<Longrightarrow> \<exists>r \<in> set rs. rl_name r = ''owner'' \<Longrightarrow> has_owner_role s i (rl_id ` set rs)"
  by (force simp: has_owner_role_def role_in_def)

lemma hydrate_member_view:
  assumes "keys_distinct d" and "row \<in> set (db_members d)" and "hydrate_member ol d row = Inr m"
  shows "member_in (view ol d) m" and "mb_id m = mr_id row" and "mb_organization_id m = mr_organization_id row"
    and "mb_roles m = roles_for_member ol (mb_id m) d" and "mb_user_id m = text_or_empty (mr_user_id row)"
  using assms view_member_mem [OF assms(1,2), of ol]
  by (auto simp: hydrate_member_def member_from_row_def bind_result_Inr member_in_def text_or_empty_def
      row_status_def)

lemma fetch_optional_SomeD:
  "fetch_optional p f rows = Inr (Some x) \<Longrightarrow> \<exists>r \<in> set rows. p r \<and> f r = Inr x"
  by (auto simp: fetch_optional_def bind_result_Inr dest!: find_Some_in_set split: option.splits)

lemma fetch_optional_None:
  "fetch_optional p f rows = Inr None \<longleftrightarrow> (\<forall>r \<in> set rows. \<not> p r)"
  by (auto simp: fetch_optional_def bind_result_Inr find_None_iff dest: find_Some_in_set split: option.splits)

lemma locked_member_view:
  assumes "locked_member oa i d = Inr m" and "keys_distinct d"
  shows "member_in (view (oa_lib oa) d) m" and "mb_id m = i"
    and "mb_roles m = roles_for_member (oa_lib oa) (mb_id m) d"
proof -
  obtain row where row: "row \<in> set (db_members d)" "mr_id row = i" "hydrate_member (oa_lib oa) d row = Inr m"
    using assms(1)
    by (auto simp: locked_member_def member_by_id_def bind_result_Inr repository_def dest!: fetch_optional_SomeD)
  show "member_in (view (oa_lib oa) d) m" and "mb_id m = i"
    and "mb_roles m = roles_for_member (oa_lib oa) (mb_id m) d"
    using hydrate_member_view [OF assms(2) row(1,3)] row(2) by simp_all
qed

lemma locked_member_ofD:
  "locked_member_of oa g i d = Inr m \<Longrightarrow> locked_member oa i d = Inr m \<and> mb_organization_id m = g"
  by (auto simp: locked_member_of_def bind_result_Inr require_def split: if_splits)

lemma member_by_user_view:
  assumes "member_by_user_and_organization ol u i d = Inr (Some m)" and "keys_distinct d"
  shows "member_in (view ol d) m" and "mb_organization_id m = i" and "mb_user_id m = u"
    and "mb_roles m = roles_for_member ol (mb_id m) d"
proof -
  obtain row where row: "row \<in> set (db_members d)" "mr_user_id row = Some u" "mr_organization_id row = i"
      "hydrate_member ol d row = Inr m"
    using assms(1) by (auto simp: member_by_user_and_organization_def dest!: fetch_optional_SomeD)
  show "member_in (view ol d) m" and "mb_organization_id m = i" and "mb_user_id m = u"
    and "mb_roles m = roles_for_member ol (mb_id m) d"
    using hydrate_member_view [OF assms(2) row(1,4)] row(2,3) by (simp_all add: text_or_empty_def)
qed

lemma no_member_by_user_view:
  assumes "member_by_user_and_organization ol u i d = Inr None" and "u \<noteq> []"
  shows "tn_member (view ol d) m \<noteq> Some (i, u, b)"
proof
  assume "tn_member (view ol d) m = Some (i, u, b)"
  then obtain row where row: "row \<in> set (db_members d)" "mr_organization_id row = i"
      "text_or_empty (mr_user_id row) = u"
    by (auto dest!: view_memberD)
  then have "mr_user_id row = Some u" using assms(2) by (auto simp: text_or_empty_def split: option.splits)
  then show False
    using assms(1) row by (auto simp: member_by_user_and_organization_def fetch_optional_None)
qed

lemma member_by_email_view:
  assumes "member_by_email_and_organization ol e i d = Inr (Some m)" and "keys_distinct d"
  shows "member_in (view ol d) m" and "mb_organization_id m = i"
    and "mb_roles m = roles_for_member ol (mb_id m) d"
proof -
  obtain row where row: "row \<in> set (db_members d)" "mr_organization_id row = i"
      "hydrate_member ol d row = Inr m"
    using assms(1) by (auto simp: member_by_email_and_organization_def email_matches_def dest!: fetch_optional_SomeD)
  show "member_in (view ol d) m" and "mb_organization_id m = i"
    and "mb_roles m = roles_for_member ol (mb_id m) d"
    using hydrate_member_view [OF assms(2) row(1,3)] row(2) by simp_all
qed

section \<open>Selected roles\<close>

lemma hydrate_role_simps [simp]:
  "rl_id (hydrate_role ol d r) = rr_id r" "rl_organization_id (hydrate_role ol d r) = rr_organization_id r"
  "rl_name (hydrate_role ol d r) = rr_name r" "rl_is_system (hydrate_role ol d r) = rr_is_system r"
  "rl_is_default_for_new_members (hydrate_role ol d r) = rr_is_default_for_new_members r"
  by (simp_all add: hydrate_role_def role_from_row_def)

lemma set_select_roles:
  "set (select_roles ol p d) = hydrate_role ol d ` {r \<in> set (db_roles d). p r}"
  by (auto simp: select_roles_def role_order_def Let_def)

lemma select_roles_view:
  "keys_distinct d \<Longrightarrow> r \<in> set (select_roles ol p d) \<Longrightarrow> role_in (view ol d) (rl_organization_id r) r"
  by (auto simp: set_select_roles role_in_def view_role_mem)

lemma role_by_id_view:
  assumes "role_by_id ol i d = Some r"
  shows "role_in (view ol d) (rl_organization_id r) r" and "rl_id r = i"
proof -
  obtain row where row: "find (\<lambda>r. rr_id r = i) (db_roles d) = Some row" "r = hydrate_role ol d row"
    using assms by (auto simp: role_by_id_def)
  then have "rr_id row = i" by (auto dest: find_Some_in_set)
  then show "role_in (view ol d) (rl_organization_id r) r" and "rl_id r = i"
    using row by (simp_all add: role_in_def view_def row_of_def)
qed

lemma locked_role_of_view:
  assumes "locked_role_of oa g i d = Inr r"
  shows "role_in (view (oa_lib oa) d) g r" and "rl_id r = i"
  using assms by (auto simp: locked_role_of_def dest: role_by_id_view split: option.splits if_splits)

lemma role_by_name_view:
  "keys_distinct d \<Longrightarrow> role_by_name ol g n d = Some r \<Longrightarrow> role_in (view ol d) g r \<and> rl_name r = n"
  by (auto simp: role_by_name_def role_in_def view_role_mem dest!: find_Some_in_set)

lemma no_role_by_name_view:
  "role_by_name ol g n d = None \<Longrightarrow> tn_role (view ol d) r \<noteq> Some (g, n, y, f)"
  by (auto simp: role_by_name_def find_None_iff dest!: view_roleD)

lemma validated_roles_view:
  assumes "validated_roles ol g ids d = Inr rs" and "keys_distinct d"
  shows "\<forall>r \<in> set rs. role_in (view ol d) g r" and "rs \<noteq> []"
proof -
  have rs: "rs = roles_by_ids_for_organization ol g (deduplicate_ids ids) d" "deduplicate_ids ids \<noteq> []"
      "\<forall>i \<in> set (deduplicate_ids ids). i \<in> role_id_set rs"
    using assms(1) by (auto simp: validated_roles_def Let_def find_None_iff split: if_splits option.splits)
  show "\<forall>r \<in> set rs. role_in (view ol d) g r"
    using select_roles_view [OF assms(2)] rs(1)
    by (fastforce simp: roles_by_ids_for_organization_def set_select_roles)
  show "rs \<noteq> []" using rs(2,3) by (cases "deduplicate_ids ids") (auto simp: role_id_set_def)
qed

lemma default_roles_for_organization_view:
  "keys_distinct d \<Longrightarrow> \<forall>r \<in> set (default_roles_for_organization ol g d). role_in (view ol d) g r"
  using select_roles_view by (fastforce simp: default_roles_for_organization_def set_select_roles)

lemma default_roles_view:
  assumes "default_roles ol g d = Inr rs" and "keys_distinct d"
  shows "\<forall>r \<in> set rs. role_in (view ol d) g r" and "rs \<noteq> []"
  using assms default_roles_for_organization_view [OF assms(2), of ol g]
  by (auto simp: default_roles_def Let_def split: if_splits)

lemma roles_for_member_view:
  assumes "keys_distinct d" and "links_within (view ol d)" and "tn_member (view ol d) m = Some (g, u, b)"
  shows "\<forall>r \<in> set (roles_for_member ol m d). role_in (view ol d) g r"
proof
  fix r assume r: "r \<in> set (roles_for_member ol m d)"
  then have "(m, rl_id r) \<in> tn_links (view ol d)"
    by (auto simp: roles_for_member_def set_select_roles)
  from links_withinD [OF assms(2) this] have "rl_id r \<in> roles_in (view ol d) g" using assms(3) by auto
  moreover have "role_in (view ol d) (rl_organization_id r) r"
    using select_roles_view [OF assms(1)] r by (auto simp: roles_for_member_def)
  ultimately show "role_in (view ol d) g r" by (auto simp: role_in_def roles_in_def)
qed

lemma set_retain_first_roles:
  "set (retain_first_roles seen rs) \<subseteq> set rs"
  "rl_id ` set (retain_first_roles seen rs) = rl_id ` set rs - set seen"
  by (induction seen rs rule: retain_first_roles.induct) auto

lemma set_with_marty_admin: "set (with_marty_admin e rs cur adm) \<subseteq> insert adm (set rs)"
  by (auto simp: with_marty_admin_def Let_def)

lemma plan_direct_member_roles_from:
  assumes "plan_direct_member_roles grants req cur adm def = Inr rs"
    and "\<forall>r \<in> set cur. P r" and "\<forall>r \<in> set def. P r"
    and "\<And>q. req = Some q \<Longrightarrow> \<forall>r \<in> set q. P r" and "\<And>a. adm = Some a \<Longrightarrow> P a"
  shows "(\<forall>r \<in> set rs. P r) \<and> rs \<noteq> []"
proof -
  define e where "e = (case req of None \<Rightarrow> False | Some rs \<Rightarrow> rs \<noteq> [])"
  define base where "base = (if e then the req else cur)"
  have base: "\<forall>r \<in> set base. P r"
    using assms(2,4) by (auto simp: base_def e_def split: option.splits)
  obtain res where res:
      "(if grants then bind_result (ok_or AdminRoleMissing adm) (\<lambda>admin. Inr (with_marty_admin e base cur admin))
        else Inr base) = Inr res"
      "(if res = [] \<and> def = [] then Inl DefaultRoleMissing
        else Inr (retain_first_roles [] (if res = [] then def else res))) = Inr rs"
    using assms(1)
    unfolding plan_direct_member_roles_def Let_def e_def [symmetric] base_def [symmetric] bind_result_Inr
    by blast
  define ls where "ls = (if res = [] then def else res)"
  have ls: "ls \<noteq> []" "rs = retain_first_roles [] ls"
    using res(2) by (auto simp: ls_def split: if_splits)
  have "\<forall>r \<in> set res. P r"
    using res(1) base assms(5) set_with_marty_admin [of e base cur]
    by (cases grants) (auto simp: bind_result_Inr)
  then have "\<forall>r \<in> set ls. P r" using assms(3) by (simp add: ls_def)
  then have "\<forall>r \<in> set rs. P r" using set_retain_first_roles(1) [of "[]" ls] ls(2) by blast
  moreover have "rl_id ` set rs = rl_id ` set ls" using set_retain_first_roles(2) [of "[]" ls] ls(2) by simp
  ultimately show ?thesis using ls(1) by (cases ls) auto
qed

lemma resolve_direct_roles_view:
  assumes "resolve_direct_roles oa g email ids cur d = Inr rs" and "keys_distinct d"
    and "\<forall>r \<in> set cur. role_in (view (oa_lib oa) d) g r"
  shows "\<forall>r \<in> set rs. role_in (view (oa_lib oa) d) g r" and "rs \<noteq> []"
proof -
  let ?P = "role_in (view (oa_lib oa) d) g"
  let ?grants = "policy_grants_marty_admin (oa_lib oa) (oa_policy oa) g email"
  obtain req adm where req: "(case ids of None \<Rightarrow> Inr None
        | Some ids \<Rightarrow> if ids = [] then Inr None
            else bind_result (validated_roles (oa_lib oa) g ids d) (\<lambda>rs. Inr (Some rs))) = Inr req"
    and adm: "(if ?grants then bind_result (ok_or AdminRoleMissing (role_by_name (oa_lib oa) g ''admin'' d))
        (\<lambda>r. Inr (Some r)) else Inr None) = Inr adm"
    and plan: "plan_direct_member_roles ?grants req cur adm
        (default_roles_for_organization (oa_lib oa) g d) = Inr rs"
    using assms(1) unfolding resolve_direct_roles_def Let_def bind_result_Inr by blast
  have "\<forall>r \<in> set q. ?P r" if "req = Some q" for q
    using req that validated_roles_view(1) [OF _ assms(2)]
    by (auto simp: bind_result_Inr split: option.splits if_splits)
  moreover have "?P a" if "adm = Some a" for a
    using adm that role_by_name_view [OF assms(2)] by (auto simp: bind_result_Inr split: if_splits)
  ultimately have "(\<forall>r \<in> set rs. ?P r) \<and> rs \<noteq> []"
    using plan_direct_member_roles_from [OF plan, of ?P] assms(3)
      default_roles_for_organization_view [OF assms(2)] by blast
  then show "\<forall>r \<in> set rs. ?P r" and "rs \<noteq> []" by blast+
qed

end
