(* ===== verification/Organization_Member_Moves.thy ===== *)
theory Organization_Member_Moves
  imports Organization_View
begin

text \<open>
  The commands on organizations and their members are steps of the tenancy. A command that commits
  from a database whose view is \<open>s\<close> to one whose view is \<open>s'\<close> is a sequence of steps from \<open>s\<close> to \<open>s'\<close>.
\<close>

section \<open>Moves\<close>

definition moves :: "bool \<Rightarrow> bool \<Rightarrow> org_lib \<Rightarrow> Db \<Rightarrow> Db \<Rightarrow> bool" where
  "moves p b ol d d' = ((tenancy_step p b)\<^sup>*\<^sup>* (view ol d) (view ol d') \<and> keys_distinct d')"

text \<open>What a command relies on: primary keys, member roles within their organization, ASCII case.\<close>

definition database_ok :: "org_lib \<Rightarrow> Db \<Rightarrow> bool" where
  "database_ok ol d = (ascii_case_ok ol \<and> keys_distinct d \<and> links_within (view ol d))"

lemma movesI:
  "tenancy_step p b (view ol d) (view ol d') \<Longrightarrow> keys_distinct d' \<Longrightarrow> moves p b ol d d'"
  by (simp add: moves_def r_into_rtranclp)

lemma moves_refl: "view ol d' = view ol d \<Longrightarrow> keys_distinct d' \<Longrightarrow> moves p b ol d d'"
  by (simp add: moves_def)

lemma moves_trans: "moves p b ol d d' \<Longrightarrow> moves p b ol d' d'' \<Longrightarrow> moves p b ol d d''"
  by (auto simp: moves_def)

lemma moves_then_event:
  "moves p b ol d d' \<Longrightarrow> persist_event oa fresh e d' = Inr d'' \<Longrightarrow> moves p b ol d d''"
  by (simp add: moves_def persist_event_view)

lemma require_Inr [simp]: "require c e = Inr u \<longleftrightarrow> c"
  by (simp add: require_def)

lemma require_non_empty_Inr [simp]: "require_non_empty t e = Inr u \<longleftrightarrow> \<not> blank t"
  by (simp add: require_non_empty_def)

lemma repository_Inr [simp]: "repository r = Inr x \<longleftrightarrow> r = Inr x"
  by (simp add: repository_def)

lemma bind_result_InrE:
  assumes "bind_result r f = Inr y" obtains x where "r = Inr x" "f x = Inr y"
  using assms by (auto simp: bind_result_Inr)

lemmas tx_simps = Let_def bind_result_Inr repository_Inr require_Inr require_non_empty_Inr map_err_Inr
  ok_or_Inr sum.inject prod.inject

text \<open>A new member.\<close>

lemma with_roles_new:
  "links_within s \<Longrightarrow> tn_member s m = None \<Longrightarrow> with_roles m R (tn_links s) = tn_links s \<union> {m} \<times> R"
  by (auto simp: with_roles_def dest: links_withinD)

lemma new_member_moves:
  assumes "save_with_roles ol m rs d = Inr d'" and ok: "database_ok ol d"
    and "tn_member (view ol d) (mb_id m) = None"
    and "\<forall>r \<in> set rs. role_in (view ol d) (mb_organization_id m) r" and "rs \<noteq> [] \<or> b"
    and "mb_status m = MsInvited \<Longrightarrow> mb_user_id m = []"
  shows "moves p b ol d d'"
proof -
  have ok': "ascii_case_ok ol" "keys_distinct d" "links_within (view ol d)"
    using ok by (simp_all add: database_ok_def)
  note v = save_member_with_roles_view [OF assms(1) ok'(1)]
  have "view ol d' = (view ol d)\<lparr>tn_member := (tn_member (view ol d))(mb_id m \<mapsto>
      (mb_organization_id m, mb_user_id m, Some (mb_status m))),
      tn_links := tn_links (view ol d) \<union> {mb_id m} \<times> rl_id ` set rs\<rparr>"
    using v(1) assms(3) with_roles_new [OF ok'(3) assms(3)] by simp
  moreover have "tenancy_step p b (view ol d)
      ((view ol d)\<lparr>tn_member := (tn_member (view ol d))(mb_id m \<mapsto>
        (mb_organization_id m, mb_user_id m, Some (mb_status m))),
       tn_links := tn_links (view ol d) \<union> {mb_id m} \<times> rl_id ` set rs\<rparr>)"
    using assms(3-6) v(3) by (intro tenancy_step.add_member roles_in_organization) auto
  ultimately show ?thesis using v(2) ok'(2) by (intro movesI) simp_all
qed

text \<open>A member saved with what the view shows of it.\<close>

lemma same_member_view:
  assumes "save_member ol m' d = Inr d'" and "ascii_case_ok ol" and "keys_distinct d" and "member_in (view ol d) m"
    and "mb_id m' = mb_id m" and "mb_user_id m' = mb_user_id m" and "mb_status m' = mb_status m"
  shows "view ol d' = view ol d" and "keys_distinct d'"
proof -
  note v = save_member_view [OF assms(1,2)]
  have "(tn_member (view ol d))(mb_id m \<mapsto> (mb_organization_id m, mb_user_id m, Some (mb_status m))) =
      tn_member (view ol d)"
    using assms(4) by (auto simp: member_in_def)
  then show "view ol d' = view ol d"
    using v(1) assms(4-7) by (simp add: member_in_def)
  show "keys_distinct d'" using v(2) assms(3) .
qed

lemma set_roles_moves:
  assumes "set_member_role_rows (mb_id m) (map rl_id rs) d = Inr d'" and "keys_distinct d"
    and "member_in (view ol d) m" and "\<forall>r \<in> set rs. role_in (view ol d) (mb_organization_id m) r" and "rs \<noteq> []"
    and "tn_owner (view ol d) (mb_organization_id m) = Some owner"
    and "mb_user_id m = owner \<Longrightarrow> \<exists>r \<in> set rs. rl_name r = ''owner''"
  shows "moves p b ol d d'"
proof (rule movesI)
  note v = set_member_role_rows_view(1) [OF assms(1), of ol]
  show "keys_distinct d'" using set_member_role_rows_view(2) [OF assms(1)] assms(2) by simp
  have "tenancy_step p b (view ol d)
      ((view ol d)\<lparr>tn_links := with_roles (mb_id m) (rl_id ` set rs) (tn_links (view ol d))\<rparr>)"
    using assms(3-7) roles_in_organization [OF assms(4)] owner_among [OF assms(4)]
    by (intro tenancy_step.set_roles) (auto simp: member_in_def)
  then show "tenancy_step p b (view ol d) (view ol d')" using v by simp
qed

section \<open>Invitations\<close>

lemma invite_member_moves:
  assumes "invite_member_tx oa fr cmd d = Inr (x, d')" and ok: "database_ok (oa_lib oa) d"
    and "tn_member (view (oa_lib oa) d) (fr 0) = None"
  shows "moves p b (oa_lib oa) d d'"
proof -
  obtain rs e where *: "validated_roles (oa_lib oa) (im_organization_id cmd) (im_role_ids cmd) d = Inr rs"
      "save_with_roles (oa_lib oa)
         (create_invitation (fr 0) (im_organization_id cmd) (im_email cmd) (im_invited_by cmd) (im_now cmd)) rs d = Inr e"
      "persist_event oa (fr 2) (member_invited_event (oa_tp oa) (fr 1) cmd
         (mb_id (create_invitation (fr 0) (im_organization_id cmd) (im_email cmd) (im_invited_by cmd) (im_now cmd)))) e = Inr d'"
    using assms(1) by (auto simp: invite_member_tx_def Let_def bind_result_Inr)
  have k: "keys_distinct d" using ok by (simp add: database_ok_def)
  have "moves p b (oa_lib oa) d e"
    using validated_roles_view [OF *(1) k] assms(3)
    by (intro new_member_moves [OF *(2) ok]) (simp_all add: create_invitation_def)
  then show ?thesis by (rule moves_then_event) (rule *(3))
qed

lemma accept_invitation_moves:
  assumes "accept_invitation_tx oa fr cmd d = Inr (x, d')" and ok: "database_ok (oa_lib oa) d"
  shows "moves p b (oa_lib oa) d d'"
proof -
  obtain m m' e where *: "locked_member oa (ai_member_id cmd) d = Inr m"
      "member_accept_invitation (ai_user_id cmd) (ai_now cmd) m = Inr m'"
      "save_member (oa_lib oa) m' d = Inr e"
      "persist_event oa (fr 1) (member_added_event (oa_tp oa) (fr 0) m' (ai_now cmd)) e = Inr d'"
    using assms(1) by (auto simp: accept_invitation_tx_def bind_result_Inr)
  have ok': "ascii_case_ok (oa_lib oa)" "keys_distinct d" using ok by (simp_all add: database_ok_def)
  have m': "mb_status m = MsInvited" "mb_id m' = mb_id m" "mb_status m' = MsActive"
    using *(2) by (auto simp: member_accept_invitation_def split: if_splits)
  note v = save_member_view [OF *(3) ok'(1)]
  have s: "tn_member (view (oa_lib oa) d) (mb_id m) = Some (mb_organization_id m, mb_user_id m, Some MsInvited)"
    using locked_member_view(1) [OF *(1) ok'(2)] m'(1) by (simp add: member_in_def)
  have "tenancy_step p b (view (oa_lib oa) d) (view (oa_lib oa) e)"
    unfolding v(1) using tenancy_step.admit [OF s, of p b "mb_user_id m'"] m' s by simp
  then have "moves p b (oa_lib oa) d e" using v(2) ok'(2) by (intro movesI)
  then show ?thesis by (rule moves_then_event) (rule *(4))
qed

section \<open>Roles and removal\<close>

lemma set_member_roles_moves:
  assumes "set_member_roles_tx oa cmd d = Inr (x, d')" and ok: "database_ok (oa_lib oa) d"
  shows "moves p b (oa_lib oa) d d'"
proof -
  obtain m og rs e where *: "locked_member_of oa (sr_organization_id cmd) (sr_member_id cmd) d = Inr m"
      "locked_organization oa (sr_organization_id cmd) d = Inr og"
      "validated_roles (oa_lib oa) (sr_organization_id cmd) (sr_role_ids cmd) d = Inr rs"
      "\<not> (mb_user_id m = og_owner_id og \<and> \<not> (\<exists>r \<in> set rs. rl_name r = ''owner''))"
      "set_member_role_rows (mb_id m) (map rl_id rs) d = Inr e"
      "save_member (oa_lib oa) (m\<lparr>mb_roles := rs, mb_updated_at := sr_now cmd\<rparr>) e = Inr d'"
    using assms(1) unfolding set_member_roles_tx_def tx_simps by blast
  have ok': "ascii_case_ok (oa_lib oa)" "keys_distinct d" using ok by (simp_all add: database_ok_def)
  note lm = locked_member_ofD [OF *(1)]
  note m = locked_member_view(1) [OF conjunct1 [OF lm] ok'(2)]
  have "moves p b (oa_lib oa) d e"
    using validated_roles_view [OF *(3) ok'(2)] conjunct2 [OF lm] locked_organization_view(1) [OF *(2)] *(4)
    by (intro set_roles_moves [OF *(5) ok'(2) m, of "og_owner_id og"]) simp_all
  moreover have "member_in (view (oa_lib oa) e) m" "keys_distinct e"
    using m ok'(2) set_member_role_rows_view(1) [OF *(5), of "oa_lib oa"] set_member_role_rows_view(2) [OF *(5)]
    by (simp_all add: member_in_def)
  ultimately show ?thesis
    using same_member_view [OF *(6) ok'(1)] by (simp add: moves_def)
qed

lemma remove_member_moves:
  assumes "remove_member_tx oa fr cmd d = Inr (x, d')" and ok: "database_ok (oa_lib oa) d"
  shows "moves p b (oa_lib oa) d d'"
proof -
  obtain m og ev where *: "locked_member_of oa (rm_organization_id cmd) (rm_member_id cmd) d = Inr m"
      "locked_organization oa (mb_organization_id m) d = Inr og"
      "og_owner_id og \<noteq> [] \<longrightarrow> mb_user_id m \<noteq> og_owner_id og"
      "member_removed_event (oa_tp oa) (fr 0) m (rm_now cmd) = Inr ev"
      "persist_event oa (fr 1) (Inr ev) (snd (delete_member (mb_id m) d)) = Inr d'"
    using assms(1) by (auto simp: remove_member_tx_def Let_def bind_result_Inr)
  have ok': "ascii_case_ok (oa_lib oa)" "keys_distinct d" using ok by (simp_all add: database_ok_def)
  note m = locked_member_view(1) [OF conjunct1 [OF locked_member_ofD [OF *(1)]] ok'(2)]
  have "event_field_present (oe_data ev) ''user_id''"
    and "oe_data ev = map_insert ''organization_id'' (JStr (tp_uuid_show (oa_tp oa) (mb_organization_id m)))
      [(''member_id'', JStr (tp_uuid_show (oa_tp oa) (mb_id m))), (''user_id'', JStr (mb_user_id m))]"
    using event_new_data [OF *(4) [unfolded member_removed_event_def]] by auto
  then have "mb_user_id m \<noteq> []" by (auto simp: event_field_present_def map_insert_def)
  then have "tn_owner (view (oa_lib oa) d) (mb_organization_id m) \<noteq> Some (mb_user_id m)"
    using *(3) locked_organization_view(1) [OF *(2), of "oa_lib oa"] by auto
  with m have "tenancy_step p b (view (oa_lib oa) d) (view (oa_lib oa) (snd (delete_member (mb_id m) d)))"
    unfolding delete_member_view(1) member_in_def by (rule tenancy_step.remove_member)
  then have "moves p b (oa_lib oa) d (snd (delete_member (mb_id m) d))"
    using delete_member_view(2) [OF ok'(2)] by (rule movesI)
  then show ?thesis by (rule moves_then_event) (rule *(5))
qed

section \<open>SCIM provisioning\<close>

lemma scim_roles_view:
  assumes "scim_roles ol g active ids d = Inr rs" and "keys_distinct d"
  shows "\<forall>r \<in> set rs. role_in (view ol d) g r" and "rs \<noteq> [] \<or> \<not> active \<or> ids = Some []"
  using assms(1) validated_roles_view [OF _ assms(2)] default_roles_view [OF _ assms(2)]
  by (auto simp: scim_roles_def split: if_splits option.splits list.splits)

lemma scim_status_not_invited [simp]: "scim_status active \<noteq> MsInvited"
  by (simp add: scim_status_def)

lemma create_scim_member_moves:
  assumes "create_scim_member_tx oa fr cmd d = Inr (x, d')" and ok: "database_ok (oa_lib oa) d"
    and "tn_member (view (oa_lib oa) d) (fr 0) = None" and "\<not> cs_active cmd \<or> cs_role_ids cmd = Some [] \<Longrightarrow> b"
  shows "moves p b (oa_lib oa) d d'"
proof -
  obtain rs e m where *: "scim_roles (oa_lib oa) (cs_organization_id cmd) (cs_active cmd) (cs_role_ids cmd) d = Inr rs"
      "m = (member_create (fr 0) (cs_organization_id cmd) (cs_user_id cmd) (Some (cs_email cmd))
         (scim_status (cs_active cmd)) (cs_now cmd))\<lparr>mb_roles := rs\<rparr>"
      "save_with_roles (oa_lib oa) m rs d = Inr e"
      "persist_event oa (fr 2) (member_added_event (oa_tp oa) (fr 1) m (cs_now cmd)) e = Inr d'"
    using assms(1) unfolding create_scim_member_tx_def tx_simps by blast
  have k: "keys_distinct d" using ok by (simp add: database_ok_def)
  have "moves p b (oa_lib oa) d e"
    using scim_roles_view [OF *(1) k] assms(3,4)
    by (intro new_member_moves [OF *(3) ok]) (auto simp: *(2) member_create_def)
  then show ?thesis by (rule moves_then_event) (rule *(4))
qed

lemma update_scim_member_moves:
  assumes "update_scim_member_tx oa fr cmd d = Inr (x, d')" and ok: "database_ok (oa_lib oa) d" and "p" and "b"
  shows "moves p b (oa_lib oa) d d'"
proof -
  obtain before rs e m where *:
      "locked_member_of oa (us_organization_id cmd) (us_member_id cmd) d = Inr before"
      "scim_roles (oa_lib oa) (us_organization_id cmd) (us_active cmd) (us_role_ids cmd) d = Inr rs"
      "m = before\<lparr>mb_user_id := us_user_id cmd, mb_email := Some (us_email cmd),
         mb_status := scim_status (us_active cmd), mb_roles := rs, mb_updated_at := us_now cmd\<rparr>"
      "save_with_roles (oa_lib oa) m rs d = Inr e"
      "(case transition_event (oa_tp oa) (fr 0) (mb_status before = MsActive) (us_active cmd) m (us_now cmd) of
          None \<Rightarrow> Inr e | Some event \<Rightarrow> persist_event oa (fr 1) event e) = Inr d'"
    using assms(1) unfolding update_scim_member_tx_def tx_simps by blast
  have ok': "ascii_case_ok (oa_lib oa)" "keys_distinct d" using ok by (simp_all add: database_ok_def)
  note lm = locked_member_ofD [OF *(1)]
  have s: "tn_member (view (oa_lib oa) d) (mb_id before) =
      Some (us_organization_id cmd, mb_user_id before, Some (mb_status before))"
    using locked_member_view(1) [OF conjunct1 [OF lm] ok'(2)] conjunct2 [OF lm] by (simp add: member_in_def)
  note v = save_member_with_roles_view [OF *(4) ok'(1)]
  have m: "mb_id m = mb_id before" "mb_user_id m = us_user_id cmd" "mb_status m \<noteq> MsInvited"
    by (simp_all add: *(3))
  have "tenancy_step p b (view (oa_lib oa) d) (view (oa_lib oa) e)"
    using tenancy_step.provision [OF assms(3) s roles_in_organization [OF scim_roles_view(1) [OF *(2) ok'(2)]],
        of b "Some (mb_status m)" "us_user_id cmd"] assms(4)
    by (simp add: v(1) m s)
  then have "moves p b (oa_lib oa) d e" using v(2) ok'(2) by (intro movesI)
  then show ?thesis using *(5) by (auto split: option.splits intro: moves_then_event)
qed

section \<open>Direct addition\<close>

lemma owner_rule:
  "validate_owner_roles og u rs = Inr x \<Longrightarrow> u \<noteq> [] \<Longrightarrow> u = og_owner_id og \<Longrightarrow> \<exists>r \<in> set rs. rl_name r = ''owner''"
  by (auto simp: validate_owner_roles_def split: if_splits)

lemma add_existing_member_moves:
  assumes "add_existing_member oa cmd og m d = Inr (x, d')" and ok: "database_ok (oa_lib oa) d"
    and m: "member_in (view (oa_lib oa) d) m" "mb_organization_id m = am_organization_id cmd" "mb_user_id m \<noteq> []"
      "mb_roles m = roles_for_member (oa_lib oa) (mb_id m) d"
    and owner: "tn_owner (view (oa_lib oa) d) (am_organization_id cmd) = Some (og_owner_id og)"
  shows "moves p b (oa_lib oa) d d'"
proof -
  have ok': "ascii_case_ok (oa_lib oa)" "keys_distinct d" "links_within (view (oa_lib oa) d)"
    using ok by (simp_all add: database_ok_def)
  obtain rs u where *:
      "resolve_direct_roles oa (am_organization_id cmd) (am_email cmd) (am_role_ids cmd) (mb_roles m) d = Inr rs"
      "validate_owner_roles og (mb_user_id m) rs = Inr u"
    and kept: "(if role_id_set rs = role_id_set (mb_roles m) then Inr ((m, False), d)
       else bind_result (repository (set_member_role_rows (mb_id m) (map rl_id rs) d)) (\<lambda>d.
         bind_result (repository (save_member (oa_lib oa) (m\<lparr>mb_roles := rs, mb_updated_at := am_now cmd\<rparr>) d)) (\<lambda>d.
           Inr ((m\<lparr>mb_roles := rs, mb_updated_at := am_now cmd\<rparr>, True), d)))) = Inr (x, d')"
    using assms(1) unfolding add_existing_member_def Let_def
    by (elim bind_result_InrE) blast
  note current = roles_for_member_view [OF ok'(2,3) m(1) [unfolded member_in_def m(2)], folded m(4)]
  note rs = resolve_direct_roles_view [OF *(1) ok'(2) current]
  show ?thesis
  proof (cases "role_id_set rs = role_id_set (mb_roles m)")
    case True
    then show ?thesis using kept ok'(2) by (auto intro: moves_refl)
  next
    case False
    then obtain e where e: "set_member_role_rows (mb_id m) (map rl_id rs) d = Inr e"
        "save_member (oa_lib oa) (m\<lparr>mb_roles := rs, mb_updated_at := am_now cmd\<rparr>) e = Inr d'"
      using kept by (auto simp: bind_result_Inr)
    have "moves p b (oa_lib oa) d e"
      using rs m owner owner_rule [OF *(2)]
      by (intro set_roles_moves [OF e(1) ok'(2) m(1), of "og_owner_id og"]) auto
    moreover have "member_in (view (oa_lib oa) e) m" "keys_distinct e"
      using m(1) ok'(2) set_member_role_rows_view(1) [OF e(1), of "oa_lib oa"] set_member_role_rows_view(2) [OF e(1)]
      by (simp_all add: member_in_def)
    ultimately show ?thesis
      using same_member_view [OF e(2) ok'(1)] by (simp add: moves_def)
  qed
qed

lemma link_invited_member_moves:
  assumes "link_invited_member oa cmd og email m d = Inr (x, d')" and ok: "database_ok (oa_lib oa) d"
    and m: "member_in (view (oa_lib oa) d) m" "mb_organization_id m = am_organization_id cmd"
      "mb_roles m = roles_for_member (oa_lib oa) (mb_id m) d"
    and u: "am_user_id cmd \<noteq> []"
      "\<And>m b. tn_member (view (oa_lib oa) d) m \<noteq> Some (am_organization_id cmd, am_user_id cmd, b)"
  shows "moves p b (oa_lib oa) d d'"
proof -
  have ok': "ascii_case_ok (oa_lib oa)" "keys_distinct d" "links_within (view (oa_lib oa) d)"
    using ok by (simp_all add: database_ok_def)
  obtain rs m' where *: "mb_user_id m = []"
      "resolve_direct_roles oa (am_organization_id cmd) (am_email cmd) (am_role_ids cmd) (mb_roles m) d = Inr rs"
      "m' = m\<lparr>mb_user_id := am_user_id cmd, mb_joined_at := Some (am_now cmd), mb_updated_at := am_now cmd\<rparr>"
      "save_with_roles (oa_lib oa) m' rs d = Inr d'"
    using assms(1) unfolding link_invited_member_def tx_simps by blast
  note current = roles_for_member_view [OF ok'(2,3) m(1) [unfolded member_in_def m(2)], folded m(3)]
  note rs = resolve_direct_roles_view [OF *(2) ok'(2) current]
  have s: "tn_member (view (oa_lib oa) d) (mb_id m) = Some (am_organization_id cmd, [], Some (mb_status m))"
    using m *(1) by (simp add: member_in_def)
  note v = save_member_with_roles_view [OF *(4) ok'(1)]
  have m': "mb_id m' = mb_id m" "mb_user_id m' = am_user_id cmd" "mb_status m' = mb_status m"
    by (simp_all add: *(3))
  have "tenancy_step p b (view (oa_lib oa) d) (view (oa_lib oa) d')"
    using tenancy_step.link_user [OF s u(1) _ roles_in_organization [OF rs(1)], of p b] u(2) rs(2)
    by (simp add: v(1) m' s)
  then show ?thesis using v(2) ok'(2) by (intro movesI)
qed

lemma add_new_member_moves:
  assumes "add_new_member oa fr cmd og d = Inr (x, d')" and ok: "database_ok (oa_lib oa) d"
    and "tn_member (view (oa_lib oa) d) (fr 0) = None"
  shows "moves p b (oa_lib oa) d d'"
proof -
  have k: "keys_distinct d" using ok by (simp add: database_ok_def)
  obtain rs m e where *:
      "m = member_create (fr 0) (am_organization_id cmd) (am_user_id cmd) (am_email cmd) MsActive (am_now cmd)"
      "resolve_direct_roles oa (am_organization_id cmd) (am_email cmd) (am_role_ids cmd) [] d = Inr rs"
      "save_with_roles (oa_lib oa) m rs d = Inr e"
      "persist_event oa (fr 2) (member_added_event (oa_tp oa) (fr 1) (m\<lparr>mb_roles := rs\<rparr>) (am_now cmd)) e = Inr d'"
    using assms(1) unfolding add_new_member_def tx_simps by blast
  have "moves p b (oa_lib oa) d e"
    using resolve_direct_roles_view [OF *(2) k] assms(3)
    by (intro new_member_moves [OF *(3) ok]) (simp_all add: *(1) member_create_def)
  then show ?thesis by (rule moves_then_event) (rule *(4))
qed

lemma add_member_direct_moves:
  assumes "add_member_direct_tx oa fr cmd d = Inr (x, d')" and ok: "database_ok (oa_lib oa) d"
    and "tn_member (view (oa_lib oa) d) (fr 0) = None"
  shows "moves p b (oa_lib oa) d d'"
proof -
  have k: "keys_distinct d" using ok by (simp add: database_ok_def)
  obtain og existing where *: "\<not> blank (am_user_id cmd)"
      "locked_organization oa (am_organization_id cmd) d = Inr og"
      "member_by_user_and_organization (oa_lib oa) (am_user_id cmd) (am_organization_id cmd) d = Inr existing"
    and rest: "(case existing of
         Some member \<Rightarrow> add_existing_member oa cmd og member d
       | None \<Rightarrow>
           (case am_email cmd of
              None \<Rightarrow> add_new_member oa fr cmd og d
            | Some email \<Rightarrow>
                bind_result (repository
                  (member_by_email_and_organization (oa_lib oa) email (am_organization_id cmd) d)) (\<lambda>invited.
                  case invited of
                    Some member \<Rightarrow> link_invited_member oa cmd og email member d
                  | None \<Rightarrow> add_new_member oa fr cmd og d))) = Inr (x, d')"
    using assms(1) unfolding add_member_direct_tx_def require_non_empty_Inr
    by (elim bind_result_InrE) (simp only: repository_Inr require_non_empty_Inr, blast)
  have u: "am_user_id cmd \<noteq> []" using *(1) by auto
  note owner = locked_organization_view(1) [OF *(2)]
  show ?thesis
  proof (cases existing)
    case (Some m)
    note m = member_by_user_view [OF *(3) [unfolded Some] k]
    show ?thesis
      using rest Some m u owner by (intro add_existing_member_moves [OF _ ok m(1,2)]) simp_all
  next
    case None
    note none = no_member_by_user_view [OF *(3) [unfolded None] u]
    consider "add_new_member oa fr cmd og d = Inr (x, d')"
      | email m where "member_by_email_and_organization (oa_lib oa) email (am_organization_id cmd) d = Inr (Some m)"
          "link_invited_member oa cmd og email m d = Inr (x, d')"
      using rest None by (auto simp: bind_result_Inr split: option.splits)
    then show ?thesis
    proof cases
      case 1
      show ?thesis by (rule add_new_member_moves [OF 1 ok assms(3)])
    next
      case (2 email m)
      note m = member_by_email_view [OF 2(1) k]
      show ?thesis by (rule link_invited_member_moves [OF 2(2) ok m u none])
    qed
  qed
qed

section \<open>Joining\<close>

lemma joining_status_not_invited [simp]: "joining_status og \<noteq> MsInvited"
  by (simp add: joining_status_def)

lemma join_by_code_moves:
  assumes "join_by_code_tx oa fr cmd d = Inr (x, d')" and ok: "database_ok (oa_lib oa) d"
    and "tn_member (view (oa_lib oa) d) (fr 0) = None"
  shows "moves p b (oa_lib oa) d d'"
proof -
  have k: "keys_distinct d" using ok by (simp add: database_ok_def)
  obtain og rs m e f jc where *: "default_roles (oa_lib oa) (og_id og) d = Inr rs"
      "m = member_create (fr 0) (og_id og) (jb_user_id cmd) (Some (jb_email cmd)) (joining_status og) (jb_now cmd)"
      "save_with_roles (oa_lib oa) m rs d = Inr e" "save_join_code (oa_lib oa) jc e = Inr f"
      "persist_event oa (fr 2) (member_added_event (oa_tp oa) (fr 1) (m\<lparr>mb_roles := rs\<rparr>) (jb_now cmd)) f = Inr d'"
    using assms(1) unfolding join_by_code_tx_def tx_simps by blast
  have "moves p b (oa_lib oa) d e"
    using default_roles_view [OF *(1) k] assms(3)
    by (intro new_member_moves [OF *(3) ok]) (simp_all add: *(2) member_create_def)
  then have "moves p b (oa_lib oa) d f" using save_join_code_view [OF *(4)] by (simp add: moves_def)
  then show ?thesis by (rule moves_then_event) (rule *(5))
qed

lemma join_organization_moves:
  assumes "join_organization_tx oa fr cmd d = Inr (x, d')" and ok: "database_ok (oa_lib oa) d"
    and "tn_member (view (oa_lib oa) d) (fr 0) = None"
  shows "moves p b (oa_lib oa) d d'"
proof -
  have k: "keys_distinct d" using ok by (simp add: database_ok_def)
  obtain og rs m e where *: "default_roles (oa_lib oa) (og_id og) d = Inr rs"
      "m = member_create (fr 0) (og_id og) (jo_user_id cmd) (Some (jo_email cmd)) (joining_status og) (jo_now cmd)"
      "save_with_roles (oa_lib oa) m rs d = Inr e"
      "persist_event oa (fr 2) (member_added_event (oa_tp oa) (fr 1) (m\<lparr>mb_roles := rs\<rparr>) (jo_now cmd)) e = Inr d'"
    using assms(1) unfolding join_organization_tx_def tx_simps by blast
  have "moves p b (oa_lib oa) d e"
    using default_roles_view [OF *(1) k] assms(3)
    by (intro new_member_moves [OF *(3) ok]) (simp_all add: *(2) member_create_def)
  then show ?thesis by (rule moves_then_event) (rule *(4))
qed

section \<open>Organizations\<close>

definition SYSTEM_ROLE_NAMES :: "string list" where
  "SYSTEM_ROLE_NAMES =
     [''owner'', ''admin'', ''access_admin'', ''catalog_admin'', ''reviewer'', ''operator'', ''viewer'',
      ''applicant'']"

lemma template_default:
  "t \<in> set (system_role_templates c) \<Longrightarrow> rt_is_default_for_new_members t \<longleftrightarrow> rt_name t = ''applicant''"
  by (auto simp: system_role_templates_def template_def Let_def)

lemma materialize_system_roles_list:
  assumes "materialize_system_roles ol doc g ps now = Inr rs"
  shows "distinct (map fst rs)" and "fst ` set rs = set SYSTEM_ROLE_NAMES"
    and "(k, r) \<in> set rs \<Longrightarrow> rl_name r = k \<and> rl_id r = ol_uuid_v5 ol g k \<and> rl_organization_id r = g
      \<and> rl_is_system r \<and> (rl_is_default_for_new_members r \<longleftrightarrow> k = ''applicant'')"
proof -
  obtain c where "insert_system_roles ol g ps now (system_role_templates c) [] = Inr rs"
    using assms by (auto simp: materialize_system_roles_def bind_result_Inr)
  then obtain qs where qs: "length qs = length (system_role_templates c)"
      "rs = template_roles ol g now (system_role_templates c) qs []"
    using insert_system_roles_templates by blast
  have names: "map rt_name (system_role_templates c) = SYSTEM_ROLE_NAMES"
    by (simp add: system_role_template_names SYSTEM_ROLE_NAMES_def)
  have lookup: "map_of rs k =
      (case find (\<lambda>(t, _). rt_name t = k) (zip (system_role_templates c) qs) of
         None \<Rightarrow> None | Some (t, q) \<Rightarrow> Some (system_role ol g now t q))" for k
    using map_of_template_roles [OF qs(1), of "[]" ol g now k] qs(2) names
    by (auto simp: SYSTEM_ROLE_NAMES_def split: option.splits)
  have "bt_wf rs" using bt_wf_template_roles qs(2) by (simp add: bt_wf_def)
  then show d: "distinct (map fst rs)" by (simp add: bt_wf_def strict_sorted_iff)
  have "k \<in> fst ` set rs \<longleftrightarrow> k \<in> set SYSTEM_ROLE_NAMES" for k
  proof -
    have "k \<in> fst ` set rs \<longleftrightarrow> map_of rs k \<noteq> None" by (simp add: map_of_eq_None_iff)
    also have "\<dots> \<longleftrightarrow> find (\<lambda>(t, _). rt_name t = k) (zip (system_role_templates c) qs) \<noteq> None"
      by (simp add: lookup split: option.splits prod.splits)
    also have "\<dots> \<longleftrightarrow> k \<in> rt_name ` set (map fst (zip (system_role_templates c) qs))"
      by (force simp: find_None_iff)
    also have "\<dots> \<longleftrightarrow> k \<in> set SYSTEM_ROLE_NAMES" using qs(1) by (simp flip: names)
    finally show ?thesis .
  qed
  then show "fst ` set rs = set SYSTEM_ROLE_NAMES" by blast
  assume "(k, r) \<in> set rs"
  then have "map_of rs k = Some r" using d by simp
  then obtain t q where tq: "find (\<lambda>(t, _). rt_name t = k) (zip (system_role_templates c) qs) = Some (t, q)"
      "r = system_role ol g now t q"
    using lookup [of k] by (auto split: option.splits prod.splits)
  from tq(1) have "(t, q) \<in> set (zip (system_role_templates c) qs)" "rt_name t = k"
    by (auto dest: find_Some_in_set)
  then have "t \<in> set (system_role_templates c)" "rt_name t = k" by (auto dest: set_zip_leftD)
  then show "rl_name r = k \<and> rl_id r = ol_uuid_v5 ol g k \<and> rl_organization_id r = g
      \<and> rl_is_system r \<and> (rl_is_default_for_new_members r \<longleftrightarrow> k = ''applicant'')"
    using template_default by (simp add: tq(2) system_role_def)
qed

text \<open>The entries of the system roles in the view of the database that gets them.\<close>

lemma system_role_entries:
  assumes "materialize_system_roles ol doc g ps now = Inr rs"
    and "inj_on (ol_uuid_v5 ol g) (set SYSTEM_ROLE_NAMES)"
  defines "es \<equiv> map_of (map role_entry (map snd rs))"
  shows "es x = Some (i, n, y, f) \<longleftrightarrow>
      i = g \<and> n \<in> set SYSTEM_ROLE_NAMES \<and> x = ol_uuid_v5 ol g n \<and> y \<and> (f \<longleftrightarrow> n = ''applicant'')"
    and "distinct (map rl_id (map snd rs))"
proof -
  note l = materialize_system_roles_list [OF assms(1)]
  have ids: "map rl_id (map snd rs) = map (ol_uuid_v5 ol g) (map fst rs)" using l(3) by auto
  then show d: "distinct (map rl_id (map snd rs))"
    using l(1,2) assms(2) by (simp only: distinct_map) (metis list.set_map)
  have "distinct (map fst (map role_entry (map snd rs)))" using d by (simp add: role_entry_def o_def)
  then have "es x = Some e \<longleftrightarrow> (x, e) \<in> set (map role_entry (map snd rs))" for e
    unfolding es_def by (rule map_of_eq_Some_iff)
  moreover have "(x, e) \<in> set (map role_entry (map snd rs)) \<longleftrightarrow> (\<exists>(k, r) \<in> set rs. role_entry r = (x, e))" for e
    by force
  moreover have "(\<exists>(k, r) \<in> set rs. role_entry r = e) \<longleftrightarrow>
      (\<exists>k \<in> fst ` set rs. (ol_uuid_v5 ol g k, g, k, True, k = ''applicant'') = e)" for e
  proof -
    have entry: "role_entry r = (ol_uuid_v5 ol g k, g, k, True, k = ''applicant'')" if "(k, r) \<in> set rs" for k r
      using l(3) [OF that] by (simp add: role_entry_def)
    have "(\<exists>(k, r) \<in> set rs. role_entry r = e) \<longleftrightarrow>
        (\<exists>(k, r) \<in> set rs. (ol_uuid_v5 ol g k, g, k, True, k = ''applicant'') = e)"
      by (rule bex_cong) (auto simp: entry)
    then show ?thesis by force
  qed
  ultimately show "es x = Some (i, n, y, f) \<longleftrightarrow>
      i = g \<and> n \<in> set SYSTEM_ROLE_NAMES \<and> x = ol_uuid_v5 ol g n \<and> y \<and> (f \<longleftrightarrow> n = ''applicant'')"
    by (auto simp: l(2))
qed

lemma upsert_permission_view:
  assumes "upsert_permission q d = Inr (x, d')"
  shows "view ol d' = view ol d" and "keys_distinct d' = keys_distinct d"
  using assms by (auto simp: upsert_permission_def bind_result_Inr view_def keys_distinct_def split: option.splits)

lemma upsert_catalog_view:
  "upsert_catalog ps qs d = Inr (x, d') \<Longrightarrow> view ol d' = view ol d \<and> keys_distinct d' = keys_distinct d"
proof (induction ps qs d rule: upsert_catalog.induct)
  case (2 key p rest persisted d)
  then show ?case using upsert_permission_view by (fastforce simp: bind_result_Inr)
qed simp

lemma create_organization_moves:
  assumes "create_organization_tx oa fr cmd d = Inr (x, d')" and ok: "database_ok (oa_lib oa) d"
    and "tn_owner (view (oa_lib oa) d) (fr 1) = None" and "tn_member (view (oa_lib oa) d) (fr 2) = None"
    and "\<forall>n \<in> set SYSTEM_ROLE_NAMES. tn_role (view (oa_lib oa) d) (ol_uuid_v5 (oa_lib oa) (fr 1) n) = None"
    and inj: "inj_on (ol_uuid_v5 (oa_lib oa) (fr 1)) (set SYSTEM_ROLE_NAMES)"
  shows "moves p b (oa_lib oa) d d'"
proof -
  let ?ol = "oa_lib oa"
  have ok': "ascii_case_ok ?ol" "keys_distinct d" using ok by (simp_all add: database_ok_def)
  obtain plan og owner ev d1 d2 ps d3 roles d4 ow d5 where *:
      "plan_organization_creation oa fr cmd = Inr plan" "og = cq_organization plan" "owner = cq_owner plan"
      "save_organization ?ol og d = Inr d1" "save_member ?ol owner d1 = Inr d2"
      "upsert_catalog (cq_permissions plan) [] d2 = Inr (ps, d3)"
      "map_err AppSeed (materialize_system_roles ?ol (oa_document oa) (og_id og) ps (og_created_at og)) = Inr roles"
      "save_roles ?ol (map snd roles) d3 = Inr d4" "map_of roles ''owner'' = Some ow"
      "add_member_role_row (mb_id owner) (rl_id ow) d4 = Inr d5"
      "persist_event oa (fr 4) (Inr ev) d5 = Inr d'"
    using assms(1) unfolding create_organization_tx_def Let_def
    by (elim bind_result_InrE) (auto simp: bind_result_Inr)
  have plan: "og_id og = fr 1" "og_owner_id og = co_owner_id cmd" "co_owner_id cmd \<noteq> []"
      "mb_id owner = fr 2" "mb_organization_id owner = fr 1" "mb_user_id owner = co_owner_id cmd"
      "mb_status owner = MsActive"
    using *(1) unfolding *(2,3)
    by (auto simp: plan_organization_creation_def bind_result_Inr organization_create_def member_create_def)
  have roles: "materialize_system_roles ?ol (oa_document oa) (fr 1) ps (og_created_at og) = Inr roles"
    using *(7) by (simp add: plan(1))
  note l = materialize_system_roles_list [OF roles]
  note entries = system_role_entries [OF roles inj]
  define es where "es = map_of (map role_entry (map snd roles))"
  note es = entries(1) [folded es_def]
  note v1 = save_organization_view [OF *(4)]
  note v2 = save_member_view [OF *(5) ok'(1)]
  note v3 = upsert_catalog_view [OF *(6), of ?ol]
  have role3: "tn_role (view ?ol d3) = tn_role (view ?ol d)"
    by (simp add: v1(1) v2(1) v3)
  have "\<forall>r \<in> set (map snd roles).
      kept_organization (rl_organization_id r) (tn_role (view ?ol d3) (rl_id r)) = rl_organization_id r"
  proof
    fix r assume "r \<in> set (map snd roles)"
    then obtain k where "(k, r) \<in> set roles" by auto
    then have "rl_id r = ol_uuid_v5 ?ol (fr 1) k" "k \<in> set SYSTEM_ROLE_NAMES" using l(2,3) by force+
    then show "kept_organization (rl_organization_id r) (tn_role (view ?ol d3) (rl_id r)) = rl_organization_id r"
      using assms(5) by (simp add: role3)
  qed
  note v4 = save_roles_view [OF *(8) entries(2) this, folded es_def]
  note v5 = add_member_role_row_view(1) [OF *(10), of ?ol]
  have ow: "(''owner'', ow) \<in> set roles" using *(9) by (rule map_of_SomeD)
  have "es (rl_id ow) = Some (fr 1, ''owner'', True, False)"
    using l(3) [OF ow] by (simp add: es SYSTEM_ROLE_NAMES_def)
  moreover have "dom es \<inter> dom (tn_role (view ?ol d)) = {}"
    using es assms(5) by fastforce
  moreover have "\<exists>!r. \<exists>n y. es r = Some (fr 1, n, y, True)"
    unfolding es by (auto simp: SYSTEM_ROLE_NAMES_def)
  ultimately have "tenancy_step p b (view ?ol d)
      ((view ?ol d)\<lparr>tn_owner := (tn_owner (view ?ol d))(fr 1 \<mapsto> co_owner_id cmd),
        tn_member := (tn_member (view ?ol d))(fr 2 \<mapsto> (fr 1, co_owner_id cmd, Some MsActive)),
        tn_role := tn_role (view ?ol d) ++ es, tn_links := insert (fr 2, rl_id ow) (tn_links (view ?ol d))\<rparr>)"
    using assms(3,4) plan(3) es by (intro tenancy_step.found) (auto)
  moreover have "view ?ol d5 = (view ?ol d)\<lparr>tn_owner := (tn_owner (view ?ol d))(fr 1 \<mapsto> co_owner_id cmd),
        tn_member := (tn_member (view ?ol d))(fr 2 \<mapsto> (fr 1, co_owner_id cmd, Some MsActive)),
        tn_role := tn_role (view ?ol d) ++ es, tn_links := insert (fr 2, rl_id ow) (tn_links (view ?ol d))\<rparr>"
    unfolding v5 v4 conjunct1 [OF v3] v2(1) v1(1) using plan assms(4) by simp
  moreover have "keys_distinct d5"
    using add_member_role_row_view(2) [OF *(10)] v4(2) v3 v2(2) v1(2) ok'(2) by simp
  ultimately have "moves p b ?ol d d5" by (intro movesI) simp_all
  then show ?thesis by (rule moves_then_event) (rule *(11))
qed

text \<open>An update keeps the identifier and the owner of the organization.\<close>

definition same_ownership :: "Organization \<Rightarrow> Organization \<Rightarrow> bool" where
  "same_ownership a b = (og_id a = og_id b \<and> og_owner_id a = og_owner_id b)"

lemma patched_same_ownership:
  assumes "patched v change names ou = Inr ou'" and "same_ownership og (fst ou)"
    and "\<And>x og og'. change x og = Inr og' \<Longrightarrow> same_ownership og og'"
  shows "same_ownership og (fst ou')"
proof (cases v)
  case None
  then show ?thesis using assms(1,2) by (simp add: patched_def)
next
  case (Some x)
  then obtain og' where "change x (fst ou) = Inr og'" "fst ou' = og'"
    using assms(1) by (auto simp: patched_def bind_result_Inr)
  then show ?thesis using assms(2,3) by (auto simp: same_ownership_def)
qed

lemma patchedE:
  assumes "bind_result (patched v change names ou) f = Inr r" and "same_ownership og (fst ou)"
    and "\<And>x og og'. change x og = Inr og' \<Longrightarrow> same_ownership og og'"
  obtains ou' where "f ou' = Inr r" and "same_ownership og (fst ou')"
proof -
  obtain ou' where ou': "patched v change names ou = Inr ou'" "f ou' = Inr r"
    using assms(1) by (auto simp: bind_result_Inr)
  have "same_ownership og (fst ou')" using ou'(1) assms(2,3) by (rule patched_same_ownership)
  then show thesis by (rule that [OF ou'(2)])
qed

lemma plan_organization_update_same_ownership:
  assumes "plan_organization_update ol current patch now = Inr (og, names)"
  shows "same_ownership current og"
proof -
  have "\<not> patch_is_empty patch" using assms by (auto simp: plan_organization_update_def)
  note plan = assms [unfolded plan_organization_update_def if_not_P [OF this]]
  have start: "same_ownership current (fst (current, []))" by (simp add: same_ownership_def)
  show ?thesis
    using plan start
    by - ((erule patchedE [where og = current], assumption,
        (auto simp: same_ownership_def bind_result_Inr split: if_splits; fail))+,
        auto simp: bind_result_Inr same_ownership_def)
qed

lemma update_organization_moves:
  assumes "update_organization_tx oa fr cmd d = Inr (x, d')" and ok: "database_ok (oa_lib oa) d"
  shows "moves p b (oa_lib oa) d d'"
proof -
  obtain current og names ev e where *: "locked_organization oa (uo_organization_id cmd) d = Inr current"
      "plan_organization_update (oa_lib oa) current (uo_patch cmd) (uo_now cmd) = Inr (og, names)"
      "save_organization (oa_lib oa) og d = Inr e" "persist_event oa (fr 1) (Inr ev) e = Inr d'"
    using assms(1) by (auto simp: update_organization_tx_def bind_result_Inr)
  have same: "og_id og = uo_organization_id cmd" "og_owner_id og = og_owner_id current"
    using plan_organization_update_same_ownership [OF *(2)] locked_organization_view(2) [OF *(1)]
    by (simp_all add: same_ownership_def)
  have "(tn_owner (view (oa_lib oa) d))(og_id og \<mapsto> og_owner_id og) = tn_owner (view (oa_lib oa) d)"
    using locked_organization_view(1) [OF *(1), of "oa_lib oa"] by (auto simp: same)
  then have "view (oa_lib oa) e = view (oa_lib oa) d" "keys_distinct e"
    using save_organization_view [OF *(3)] ok by (simp_all add: database_ok_def)
  then have "moves p b (oa_lib oa) d e" by (rule moves_refl)
  then show ?thesis by (rule moves_then_event) (rule *(4))
qed

end
