(* ===== verification/Organization_Role_Moves.thy ===== *)
theory Organization_Role_Moves
  imports Organization_Member_Moves
begin

text \<open>The commands on roles, on the roles of a member and on SCIM groups are steps of the tenancy.\<close>

section \<open>Statements on roles\<close>

text \<open>A role saved with what the view shows of it.\<close>

lemma same_role_view:
  assumes "save_role ol r' d = Inr d'" and "role_in (view ol d) g r" and "rl_id r' = rl_id r" and "rl_name r' = rl_name r"
    and "rl_is_system r' = rl_is_system r"
    and "rl_is_default_for_new_members r' = rl_is_default_for_new_members r"
  shows "view ol d' = view ol d"
proof -
  have "(tn_role (view ol d))(rl_id r \<mapsto> (g, rl_name r, rl_is_system r, rl_is_default_for_new_members r)) =
      tn_role (view ol d)"
    using assms(2) by (auto simp: role_in_def)
  then show ?thesis using save_role_view(1) [OF assms(1)] assms(2-6) by (simp add: role_in_def)
qed

lemma new_role_step:
  assumes "save_role ol r d = Inr d'" and "tn_role (view ol d) (rl_id r) = None" and "\<not> rl_is_system r"
    and "\<not> rl_is_default_for_new_members r"
    and "\<And>q y f. tn_role (view ol d) q \<noteq> Some (rl_organization_id r, rl_name r, y, f)"
  shows "tenancy_step p b (view ol d) (view ol d')"
proof -
  note v = save_role_view [OF assms(1)]
  have "tenancy_step p b (view ol d)
      ((view ol d)\<lparr>tn_role := (tn_role (view ol d))(rl_id r \<mapsto> (rl_organization_id r, rl_name r, False, False))\<rparr>)"
    using assms(2,5) v(3) by (intro tenancy_step.add_role) auto
  then show ?thesis using v(1) assms(2-4) by simp
qed

text \<open>The default flag is taken from the roles of an organization.\<close>

definition without_defaults :: "uuid \<Rightarrow> uuid option \<Rightarrow> tenancy \<Rightarrow> tenancy" where
  "without_defaults g keep s =
     s\<lparr>tn_role := (\<lambda>q. map_option
       (\<lambda>(j, n, y, f). (j, n, y, f \<and> (j = g \<longrightarrow> Some q = keep))) (tn_role s q))\<rparr>"

lemma distinct_role_order:
  "distinct (map rr_id rows) \<Longrightarrow> distinct (map rr_id (role_order ol rows))"
  by (auto simp: role_order_def Let_def distinct_map inj_on_def)

lemma roles_by_organization_distinct:
  assumes "keys_distinct d"
  shows "distinct (map rl_id (roles_by_organization ol g d))"
proof -
  have "distinct (map rr_id (filter (\<lambda>r. rr_organization_id r = g) (db_roles d)))"
    using assms by (simp add: keys_distinct_def distinct_map_filter)
  from distinct_role_order [OF this] show ?thesis
    by (simp add: roles_by_organization_def select_roles_def o_def)
qed

lemma roles_by_organization_view:
  assumes "keys_distinct d"
  shows "r \<in> set (roles_by_organization ol g d) \<Longrightarrow> role_in (view ol d) g r"
    and "tn_role (view ol d) q = Some (g, n, y, f) \<Longrightarrow>
      \<exists>r \<in> set (roles_by_organization ol g d). rl_id r = q \<and> role_in (view ol d) g r"
proof -
  show in_view: "role_in (view ol d) g r" if "r \<in> set (roles_by_organization ol g d)" for r
    using select_roles_view [OF assms, of r ol] that
    by (fastforce simp: roles_by_organization_def set_select_roles)
  assume "tn_role (view ol d) q = Some (g, n, y, f)"
  then obtain row where "row \<in> set (db_roles d)" "rr_id row = q" "rr_organization_id row = g"
    by (auto dest!: view_roleD)
  then have "hydrate_role ol d row \<in> set (roles_by_organization ol g d)" "rl_id (hydrate_role ol d row) = q"
    by (auto simp: roles_by_organization_def set_select_roles)
  then show "\<exists>r \<in> set (roles_by_organization ol g d). rl_id r = q \<and> role_in (view ol d) g r"
    using in_view by blast
qed

lemma clear_default_roles_view:
  assumes "clear_default_roles ol g keep now d = Inr d'" and k: "keys_distinct d"
  shows "view ol d' = without_defaults g keep (view ol d)" and "keys_distinct d'"
proof -
  let ?rs = "cleared_roles ol g keep now d"
  let ?P = "\<lambda>r. rl_is_default_for_new_members r \<and> Some (rl_id r) \<noteq> keep"
  have save: "save_roles ol ?rs d = Inr d'" using assms(1) by (simp add: clear_default_roles_def)
  have ids: "map rl_id ?rs = map rl_id (filter ?P (roles_by_organization ol g d))"
    by (simp add: cleared_roles_def)
  then have dist: "distinct (map rl_id ?rs)"
    using roles_by_organization_distinct [OF k] by (simp add: distinct_map_filter)
  have from_view: "\<exists>r. role_in (view ol d) g r \<and> ?P r \<and> role_entry c = (rl_id r, g, rl_name r, rl_is_system r, False)"
    if "c \<in> set ?rs" for c
    using that roles_by_organization_view(1) [OF k]
    by (fastforce simp: cleared_roles_def role_entry_def role_in_def)
  have org: "\<forall>c \<in> set ?rs.
      kept_organization (rl_organization_id c) (tn_role (view ol d) (rl_id c)) = rl_organization_id c"
    using from_view by (fastforce simp: role_entry_def role_in_def)
  note v = save_roles_view [OF save dist org]
  have "distinct (map fst (map role_entry ?rs))" using dist by (simp add: role_entry_def o_def)
  then have entry: "map_of (map role_entry ?rs) q = Some e \<longleftrightarrow> (\<exists>c \<in> set ?rs. role_entry c = (q, e))" for q e
    by (subst map_of_eq_Some_iff) (auto, metis image_eqI)
  have "(tn_role (view ol d) ++ map_of (map role_entry ?rs)) q = map_option
       (\<lambda>(j, n, y, f). (j, n, y, f \<and> (j = g \<longrightarrow> Some q = keep))) (tn_role (view ol d) q)" for q
  proof (cases "\<exists>n y. tn_role (view ol d) q = Some (g, n, y, True) \<and> Some q \<noteq> keep")
    case True
    then obtain n y where q: "tn_role (view ol d) q = Some (g, n, y, True)" "Some q \<noteq> keep" by blast
    from roles_by_organization_view(2) [OF k q(1)] obtain r
      where r: "r \<in> set (roles_by_organization ol g d)" "rl_id r = q" "role_in (view ol d) g r" by blast
    then have "r\<lparr>rl_is_default_for_new_members := False, rl_updated_at := now\<rparr> \<in> set ?rs"
      using q by (auto simp: cleared_roles_def role_in_def)
    moreover have "role_entry (r\<lparr>rl_is_default_for_new_members := False, rl_updated_at := now\<rparr>) =
        (q, g, n, y, False)"
      using r q by (auto simp: role_entry_def role_in_def)
    ultimately have "map_of (map role_entry ?rs) q = Some (g, n, y, False)" using entry by blast
    then show ?thesis using q by (simp add: map_add_def)
  next
    case False
    have "map_of (map role_entry ?rs) q = None"
    proof (rule ccontr)
      assume "map_of (map role_entry ?rs) q \<noteq> None"
      then obtain e c where "c \<in> set ?rs" "role_entry c = (q, e)" using entry by fastforce
      with from_view [OF this(1)] False show False by (auto simp: role_in_def)
    qed
    then show ?thesis
      using False by (cases "tn_role (view ol d) q") (auto simp: map_add_def)
  qed
  then show "view ol d' = without_defaults g keep (view ol d)"
    unfolding v(1) without_defaults_def by (simp add: fun_eq_iff)
  show "keys_distinct d'" using v(2) k .
qed

lemma without_defaults_role:
  "tn_role (without_defaults g keep s) q = Some (j, n, y, f) \<longleftrightarrow>
     (\<exists>h. tn_role s q = Some (j, n, y, h) \<and> f = (h \<and> (j = g \<longrightarrow> Some q = keep)))"
  "tn_role (without_defaults g keep s) q = None \<longleftrightarrow> tn_role s q = None"
  by (auto simp: without_defaults_def)

lemma without_defaults_keeps [simp]:
  "tn_owner (without_defaults g keep s) = tn_owner s" "tn_member (without_defaults g keep s) = tn_member s"
  "tn_links (without_defaults g keep s) = tn_links s"
  by (simp_all add: without_defaults_def)

text \<open>Clearing the flags and setting one is the change of the default role.\<close>

lemma default_moved:
  assumes "clear_default_roles ol g (Some (rl_id r)) now d = Inr e" and "save_role ol r' e = Inr d'"
    and k: "keys_distinct d" and r: "role_in (view ol d) g r"
    and "rl_id r' = rl_id r" "rl_name r' = rl_name r" "rl_is_system r' = rl_is_system r"
      "rl_organization_id r' = rl_organization_id r" and "rl_is_default_for_new_members r'"
  shows "view ol d' = make_default g (rl_id r) (view ol d)" and "keys_distinct d'"
proof -
  note v = clear_default_roles_view [OF assms(1) k]
  note w = save_role_view [OF assms(2)]
  have s: "tn_role (view ol d) (rl_id r) =
      Some (g, rl_name r, rl_is_system r, rl_is_default_for_new_members r)"
    using r by (simp add: role_in_def)
  then have e: "tn_role (view ol e) (rl_id r) =
      Some (g, rl_name r, rl_is_system r, rl_is_default_for_new_members r)"
    by (simp add: v(1) without_defaults_def)
  have "tn_role (view ol d') q = tn_role (make_default g (rl_id r) (view ol d)) q" for q
    using s e assms(5-9)
    by (auto simp: w(1) v(1) make_default_def without_defaults_def split: option.splits)
  then show "view ol d' = make_default g (rl_id r) (view ol d)"
    by (intro tenancy.equality ext) (simp_all add: w(1) v(1))
  show "keys_distinct d'" using w(2) v(2) by simp
qed

section \<open>Roles\<close>

lemma create_role_moves:
  assumes "create_role_tx oa fr cmd d = Inr (x, d')" and ok: "database_ok (oa_lib oa) d"
    and new: "tn_role (view (oa_lib oa) d) (fr 0) = None"
  shows "moves p b (oa_lib oa) d d'"
proof -
  let ?ol = "oa_lib oa" and ?g = "cl_organization_id cmd"
  have k: "keys_distinct d" using ok by (simp add: database_ok_def)
  obtain perms r e f where *: "role_by_name ?ol ?g (cl_name cmd) d = None"
      "(if cl_is_default_for_new_members cmd then clear_default_roles ?ol ?g None (cl_now cmd) d else Inr d) = Inr e"
      "r = \<lparr> rl_id = fr 0, rl_organization_id = ?g, rl_name = cl_name cmd,
             rl_display_name = Some (case cl_display_name cmd of None \<Rightarrow> cl_name cmd | Some n \<Rightarrow> n),
             rl_description = cl_description cmd, rl_is_system = False,
             rl_is_default_for_new_members = cl_is_default_for_new_members cmd,
             rl_permissions = perms, rl_created_at = cl_now cmd, rl_updated_at = cl_now cmd \<rparr>"
      "save_role ?ol r e = Inr f"
      "persist_event oa (fr 2) (role_event (oa_tp oa) (fr 1) RoleCreated (rl_organization_id r) r ''created_by''
          (cl_created_by cmd) (cl_now cmd) None) f = Inr d'"
    using assms(1) unfolding create_role_tx_def tx_simps by blast
  have r: "rl_id r = fr 0" "rl_organization_id r = ?g" "rl_name r = cl_name cmd" "\<not> rl_is_system r"
      "rl_is_default_for_new_members r = cl_is_default_for_new_members cmd"
    by (simp_all add: *(3))
  note unnamed = no_role_by_name_view [OF *(1)]
  have "moves p b ?ol d f"
  proof (cases "cl_is_default_for_new_members cmd")
    case False
    then have "e = d" using *(2) by simp
    then have "tenancy_step p b (view ?ol d) (view ?ol f)"
      using *(4) new r False unnamed by (intro new_role_step) auto
    then show ?thesis using save_role_view(2) [OF *(4)] k \<open>e = d\<close> by (intro movesI) simp_all
  next
    case True
    then have c: "clear_default_roles ?ol ?g None (cl_now cmd) d = Inr e" using *(2) by simp
    note v = clear_default_roles_view [OF c k]
    note w = save_role_view [OF *(4)]
    have e: "tn_role (view ?ol e) (fr 0) = None" using new by (simp add: v(1) without_defaults_role(2))
    let ?s = "(view ?ol d)\<lparr>tn_role := (tn_role (view ?ol d))(fr 0 \<mapsto> (?g, cl_name cmd, False, False))\<rparr>"
    have "?g \<in> dom (tn_owner (view ?ol e))" using w(3) e r(1,2) by simp
    then have one: "tenancy_step p b (view ?ol d) ?s"
      using new unnamed by (intro tenancy_step.add_role) (simp_all add: v(1))
    have two: "tenancy_step p b ?s (make_default ?g (fr 0) ?s)"
      by (rule tenancy_step.set_default) (auto simp: roles_in_def intro: exI [of _ False])
    have "tn_role (view ?ol f) q = tn_role (make_default ?g (fr 0) ?s) q" for q
      using e r True
      by (auto simp: w(1) v(1) make_default_def without_defaults_def split: option.splits)
    then have f: "view ?ol f = make_default ?g (fr 0) ?s"
      by (intro tenancy.equality ext) (simp_all add: w(1) v(1))
    have "(tenancy_step p b)\<^sup>*\<^sup>* (view ?ol d) (view ?ol f)"
      unfolding f by (rule rtranclp.rtrancl_into_rtrancl [of "tenancy_step p b", OF r_into_rtranclp [of "tenancy_step p b", OF one] two])
    then show ?thesis using w(2) v(2) by (simp add: moves_def)
  qed
  then show ?thesis by (rule moves_then_event) (rule *(5))
qed

lemma patch_role_text_keeps:
  "patch_role_text pt r = Inr r' \<Longrightarrow> rl_id r' = rl_id r \<and> rl_name r' = rl_name r \<and> rl_is_system r' = rl_is_system r
     \<and> rl_organization_id r' = rl_organization_id r
     \<and> rl_is_default_for_new_members r' = rl_is_default_for_new_members r"
  by (auto simp: patch_role_text_def bind_result_Inr split: option.splits)

lemma patch_role_permissions_keeps:
  "patch_role_permissions ol pt r d = Inr r' \<Longrightarrow> rl_id r' = rl_id r \<and> rl_name r' = rl_name r
     \<and> rl_is_system r' = rl_is_system r \<and> rl_organization_id r' = rl_organization_id r
     \<and> rl_is_default_for_new_members r' = rl_is_default_for_new_members r"
  by (auto simp: patch_role_permissions_def bind_result_Inr split: option.splits)

lemma role_in_keeps:
  "role_in s g r \<Longrightarrow> rl_id r' = rl_id r \<and> rl_name r' = rl_name r \<and> rl_is_system r' = rl_is_system r
     \<and> rl_organization_id r' = rl_organization_id r
     \<and> rl_is_default_for_new_members r' = rl_is_default_for_new_members r \<Longrightarrow> role_in s g r'"
  by (simp add: role_in_def)

lemma update_role_moves:
  assumes "update_role_tx oa fr cmd d = Inr (x, d')" and ok: "database_ok (oa_lib oa) d"
  shows "moves p b (oa_lib oa) d d'"
proof -
  let ?ol = "oa_lib oa" and ?g = "ul_organization_id cmd"
  have k: "keys_distinct d" using ok by (simp add: database_ok_def)
  obtain r0 r1 r2 r3 e f where *: "locked_role_of oa ?g (ul_role_id cmd) d = Inr r0"
      "patch_role_text (ul_patch cmd) r0 = Inr r1" "patch_role_permissions ?ol (ul_patch cmd) r1 d = Inr r2"
      "patch_role_default ?ol cmd r2 d = Inr (r3, e)"
      "save_role ?ol (r3\<lparr>rl_updated_at := ul_now cmd\<rparr>) e = Inr f"
      "persist_event oa (fr 1) (role_event (oa_tp oa) (fr 0) RoleUpdated
         (rl_organization_id (r3\<lparr>rl_updated_at := ul_now cmd\<rparr>)) (r3\<lparr>rl_updated_at := ul_now cmd\<rparr>) ''updated_by''
         (ul_updated_by cmd) (ul_now cmd) None) f = Inr d'"
    using assms(1) unfolding update_role_tx_def Let_def
    by (elim bind_result_InrE) (auto simp: bind_result_Inr)
  have r2: "role_in (view ?ol d) ?g r2"
    using role_in_keeps [OF role_in_keeps [OF locked_role_of_view(1) [OF *(1)] patch_role_text_keeps [OF *(2)]]
        patch_role_permissions_keeps [OF *(3)]] .
  have "moves p b ?ol d f"
  proof (cases "ur_is_default_for_new_members (ul_patch cmd) = Some True")
    case True
    then have c: "clear_default_roles ?ol ?g (Some (rl_id r2)) (ul_now cmd) d = Inr e"
      "r3 = r2\<lparr>rl_is_default_for_new_members := True\<rparr>"
      using *(4) by (auto simp: patch_role_default_def bind_result_Inr)
    note m = default_moved [OF c(1) *(5) k r2]
    have "tenancy_step p b (view ?ol d) (view ?ol f)"
      using tenancy_step.set_default [OF role_in_organization [OF r2]] m(1) by (simp add: c(2))
    then show ?thesis using m(2) by (intro movesI) (simp_all add: c(2))
  next
    case False
    then have "e = d" and r3: "rl_id r3 = rl_id r2" "rl_name r3 = rl_name r2" "rl_is_system r3 = rl_is_system r2"
      "rl_is_default_for_new_members r3 = rl_is_default_for_new_members r2"
      using *(4) by (auto simp: patch_role_default_def bind_result_Inr split: option.splits if_splits)
    then show ?thesis
      using same_role_view [OF *(5) [unfolded \<open>e = d\<close>] r2] save_role_view(2) [OF *(5)] k
      by (intro moves_refl) simp_all
  qed
  then show ?thesis by (rule moves_then_event) (rule *(6))
qed

text \<open>Adding roles to members.\<close>

lemma add_member_roles_moves:
  assumes "add_member_roles r ms d = Inr d'" and "keys_distinct d" and "r \<in> roles_in (view ol d) g"
    and "\<forall>m \<in> set ms. \<exists>u i. tn_member (view ol d) m = Some (g, u, i)"
  shows "moves p b ol d d' \<and> view ol d' = (view ol d)\<lparr>tn_links := tn_links (view ol d) \<union> set ms \<times> {r}\<rparr>"
  using assms
proof (induction r ms d rule: add_member_roles.induct)
  case (2 r m ms d)
  then obtain e where e: "add_member_role_row m r d = Inr e" "add_member_roles r ms e = Inr d'"
    by (auto simp: bind_result_Inr)
  note v = add_member_role_row_view(1) [OF e(1), of ol]
  obtain u i where m: "tn_member (view ol d) m = Some (g, u, i)" using "2.prems"(4) by auto
  have "tenancy_step p b (view ol d) (view ol e)"
    unfolding v by (rule tenancy_step.assign [OF m "2.prems"(3)])
  then have "moves p b ol d e"
    using "2.prems"(2) add_member_role_row_view(2) [OF e(1)] by (intro movesI) simp_all
  moreover have "moves p b ol e d' \<and> view ol d' = (view ol e)\<lparr>tn_links := tn_links (view ol e) \<union> set ms \<times> {r}\<rparr>"
    using "2.prems" add_member_role_row_view(2) [OF e(1)] by (intro "2.IH" [OF e(2)]) (simp_all add: v)
  ultimately show ?case using v by (auto intro: moves_trans)
qed (simp add: moves_def)

lemma remove_member_roles_moves:
  assumes "keys_distinct d" and "b" and "\<And>g n f. tn_role (view ol d) r \<noteq> Some (g, n, True, f)"
  shows "moves p b ol d (remove_member_roles r ms d)"
  using assms
proof (induction r ms d rule: remove_member_roles.induct)
  case (2 r m ms d)
  let ?e = "snd (remove_member_role_row m r d)"
  note v = remove_member_role_row_view(1) [of ol m r d]
  have "tenancy_step p b (view ol d) (view ol ?e)"
    unfolding v using "2.prems" by (intro tenancy_step.unassign) auto
  then have "moves p b ol d ?e"
    using "2.prems"(1) remove_member_role_row_view(2) [of m r d] by (intro movesI) simp_all
  moreover have "moves p b ol ?e (remove_member_roles r ms ?e)"
    using "2.prems" remove_member_role_row_view(2) [of m r d] by (intro "2.IH") (simp_all add: v)
  ultimately show ?case by (auto intro: moves_trans)
qed (simp add: moves_def)

section \<open>Deleting a role\<close>

lemma resolve_replacement_roleD:
  assumes "resolve_replacement_role role rs req affected = Inr (Some r)"
  shows "r \<in> set rs" and "rl_id r \<noteq> rl_id role"
  using assms
  by (auto simp: resolve_replacement_role_def Let_def bind_result_Inr split: if_splits option.splits
      dest!: find_Some_in_set)

lemma other_role:
  assumes "keys_distinct d" and "(m, r) \<in> tn_links (view ol d)" and "tn_role (view ol d) r \<noteq> None"
    and "length (roles_for_member ol m d) \<noteq> 1"
  shows "\<exists>q. q \<noteq> r \<and> (m, q) \<in> tn_links (view ol d)"
proof (rule ccontr)
  assume none: "\<not> ?thesis"
  have "distinct (map rr_id (filter (\<lambda>x. (m, rr_id x) \<in> set (db_member_roles d)) (db_roles d)))"
    using assms(1) by (simp add: keys_distinct_def distinct_map_filter)
  from distinct_role_order [OF this, of ol] have "distinct (map rl_id (roles_for_member ol m d))"
    by (simp add: roles_for_member_def select_roles_def o_def)
  moreover have "rl_id ` set (roles_for_member ol m d) = {r}"
    using none assms(2,3)
    by (auto simp: roles_for_member_def set_select_roles image_iff dest!: view_roleD)
  ultimately have "length (map rl_id (roles_for_member ol m d)) = card {r}"
    by (metis distinct_card list.set_map)
  then show False using assms(4) by simp
qed

lemma replace_for_members_moves:
  assumes "replace_for_members oa repl is d = Inr (x, d')" and "keys_distinct d"
    and "\<forall>i \<in> set is. (i, r) \<in> tn_links (view (oa_lib oa) d)"
    and "\<forall>i \<in> set is. \<exists>u b. tn_member (view (oa_lib oa) d) i = Some (g, u, b)"
    and "tn_role (view (oa_lib oa) d) r \<noteq> None"
    and "\<And>q. repl = Some q \<Longrightarrow> rl_id q \<in> roles_in (view (oa_lib oa) d) g \<and> rl_id q \<noteq> r"
  shows "moves p b (oa_lib oa) d d' \<and> tn_role (view (oa_lib oa) d') = tn_role (view (oa_lib oa) d)
    \<and> (\<exists>L \<subseteq> (set is \<times> - {r}). tn_links (view (oa_lib oa) d') = tn_links (view (oa_lib oa) d) \<union> L)
    \<and> (\<forall>i \<in> set is. \<exists>q. q \<noteq> r \<and> (i, q) \<in> tn_links (view (oa_lib oa) d'))"
  using assms
proof (induction oa repl "is" d arbitrary: x rule: replace_for_members.induct)
  case (2 oa repl i "is" d)
  let ?ol = "oa_lib oa"
  obtain m e y where e: "locked_member oa i d = Inr m"
      "(if length (roles_for_member ?ol i d) = 1
        then bind_result (ok_or ReplacementRoleRequired repl) (\<lambda>r. repository (add_member_role_row i (rl_id r) d))
        else Inr d) = Inr e"
      "replace_for_members oa repl is e = Inr (y, d')"
    using "2.prems"(1) unfolding replace_for_members.simps by (elim bind_result_InrE) (auto simp: bind_result_Inr)
  have step: "moves p b ?ol d e \<and> tn_role (view ?ol e) = tn_role (view ?ol d)
      \<and> tn_member (view ?ol e) = tn_member (view ?ol d) \<and> keys_distinct e
      \<and> (\<exists>L \<subseteq> {i} \<times> - {r}. tn_links (view ?ol e) = tn_links (view ?ol d) \<union> L)
      \<and> (\<exists>q. q \<noteq> r \<and> (i, q) \<in> tn_links (view ?ol e))"
  proof (cases "length (roles_for_member ?ol i d) = 1")
    case True
    then obtain q where q: "repl = Some q" "add_member_role_row i (rl_id q) d = Inr e"
      using e(2) by (auto simp: bind_result_Inr)
    note v = add_member_role_row_view(1) [OF q(2), of ?ol]
    obtain u f where m: "tn_member (view ?ol d) i = Some (g, u, f)" using "2.prems"(4) by auto
    have "tenancy_step p b (view ?ol d) (view ?ol e)"
      unfolding v using "2.prems"(6) [OF q(1)] by (intro tenancy_step.assign [OF m]) simp
    then have "moves p b ?ol d e"
      using "2.prems"(2) add_member_role_row_view(2) [OF q(2)] by (intro movesI) simp_all
    then show ?thesis
      using v add_member_role_row_view(2) [OF q(2)] "2.prems"(2) "2.prems"(6) [OF q(1)]
      by (auto intro!: exI [of _ "{(i, rl_id q)}"])
  next
    case False
    then have "e = d" using e(2) by simp
    moreover have "\<exists>q. q \<noteq> r \<and> (i, q) \<in> tn_links (view ?ol d)"
      using other_role [OF "2.prems"(2) _ "2.prems"(5) False] "2.prems"(3) by simp
    ultimately show ?thesis using "2.prems"(2) by (auto simp: moves_def)
  qed
  have rest: "moves p b ?ol e d' \<and> tn_role (view ?ol d') = tn_role (view ?ol e)
    \<and> (\<exists>L \<subseteq> (set is \<times> - {r}). tn_links (view ?ol d') = tn_links (view ?ol e) \<union> L)
    \<and> (\<forall>i \<in> set is. \<exists>q. q \<noteq> r \<and> (i, q) \<in> tn_links (view ?ol d'))"
    using step "2.prems" by (intro "2.IH" [OF e(3)]) (auto simp: roles_in_def)
  obtain L where L: "L \<subseteq> {i} \<times> - {r}" "tn_links (view ?ol e) = tn_links (view ?ol d) \<union> L" using step by blast
  obtain M where M: "M \<subseteq> set is \<times> - {r}" "tn_links (view ?ol d') = tn_links (view ?ol e) \<union> M" using rest by blast
  have "moves p b ?ol d d'" using conjunct1 [OF step] conjunct1 [OF rest] by (rule moves_trans)
  moreover have "tn_role (view ?ol d') = tn_role (view ?ol d)" using step rest by simp
  moreover have "\<exists>L \<subseteq> set (i # is) \<times> - {r}. tn_links (view ?ol d') = tn_links (view ?ol d) \<union> L"
    using L M by (intro exI [of _ "L \<union> M"]) (auto simp del: view_links)
  moreover have "\<exists>q. q \<noteq> r \<and> (i, q) \<in> tn_links (view ?ol d')" using step M(2) by blast
  then have "\<forall>j \<in> set (i # is). \<exists>q. q \<noteq> r \<and> (j, q) \<in> tn_links (view ?ol d')" using rest by simp
  ultimately show ?case by blast
qed (simp add: moves_def)

lemma set_member_ids_with_role:
  "i \<in> set (member_ids_with_role r d) \<longleftrightarrow> (i, r) \<in> tn_links (view ol d)"
  by (auto simp: member_ids_with_role_def image_iff)

lemma links_member:
  assumes "links_within s" and "(m, r) \<in> tn_links s" and "tn_role s r = Some (g, n, y, f)"
  shows "\<exists>u b. tn_member s m = Some (g, u, b)"
  using links_withinD [OF assms(1,2)] assms(3) by (auto simp: roles_in_def)

lemma delete_role_moves:
  assumes "delete_role_tx oa fr cmd d = Inr (x, d')" and ok: "database_ok (oa_lib oa) d"
  shows "moves p b (oa_lib oa) d d'"
proof -
  let ?ol = "oa_lib oa" and ?g = "dl_organization_id cmd"
  have k: "keys_distinct d" and within: "links_within (view ?ol d)" using ok by (simp_all add: database_ok_def)
  obtain r repl ms e f where *: "locked_role_of oa ?g (dl_role_id cmd) d = Inr r" "\<not> rl_is_system r"
      "resolve_replacement_role r (roles_by_organization ?ol ?g d) (dl_replacement_role_id cmd)
         (member_ids_with_role (rl_id r) d \<noteq> []) = Inr repl"
      "replace_for_members oa repl (member_ids_with_role (rl_id r) d) d = Inr (ms, e)"
      "(if rl_is_default_for_new_members r then move_default oa cmd repl e else Inr e) = Inr f"
      "persist_event oa (fr 1) (role_event (oa_tp oa) (fr 0) RoleDeleted (rl_organization_id r) r ''deleted_by''
          (dl_deleted_by cmd) (dl_now cmd) None) (snd (delete_role_row (rl_id r) f)) = Inr d'"
    using assms(1) unfolding delete_role_tx_def Let_def require_Inr
    by (elim bind_result_InrE) (auto simp: bind_result_Inr simp del: not_not)
  have r: "tn_role (view ?ol d) (rl_id r) = Some (?g, rl_name r, False, rl_is_default_for_new_members r)"
    using locked_role_of_view(1) [OF *(1)] *(2) by (simp add: role_in_def)
  have repl: "role_in (view ?ol d) ?g q \<and> rl_id q \<noteq> rl_id r" if "repl = Some q" for q
    using resolve_replacement_roleD [OF *(3) [unfolded that]] roles_by_organization_view(1) [OF k] by blast
  have "moves p b ?ol d e \<and> tn_role (view ?ol e) = tn_role (view ?ol d)
    \<and> (\<exists>L \<subseteq> (set (member_ids_with_role (rl_id r) d) \<times> - {rl_id r}).
         tn_links (view ?ol e) = tn_links (view ?ol d) \<union> L)
    \<and> (\<forall>i \<in> set (member_ids_with_role (rl_id r) d). \<exists>q. q \<noteq> rl_id r \<and> (i, q) \<in> tn_links (view ?ol e))"
    using links_member [OF within _ r] r repl
    by (intro replace_for_members_moves [OF *(4) k, where g = ?g])
      (auto simp: set_member_ids_with_role [where ol = ?ol] intro: role_in_organization)
  then have e: "moves p b ?ol d e" "tn_role (view ?ol e) = tn_role (view ?ol d)"
    and others: "\<And>m. (m, rl_id r) \<in> tn_links (view ?ol e) \<Longrightarrow> \<exists>q. q \<noteq> rl_id r \<and> (m, q) \<in> tn_links (view ?ol e)"
    by (auto simp: set_member_ids_with_role [where ol = ?ol] simp del: view_links)
  have ke: "keys_distinct e" using e(1) by (simp add: moves_def)
  have f: "moves p b ?ol e f \<and> tn_role (view ?ol f) (rl_id r) = Some (?g, rl_name r, False, False)
      \<and> tn_links (view ?ol f) = tn_links (view ?ol e)"
  proof (cases "rl_is_default_for_new_members r")
    case False
    then show ?thesis using *(5) r e(2) ke by (auto simp: moves_def)
  next
    case True
    then obtain q c where q: "repl = Some q"
        "clear_default_roles ?ol ?g (Some (rl_id q)) (dl_now cmd) e = Inr c"
        "save_role ?ol (q\<lparr>rl_is_default_for_new_members := True, rl_updated_at := dl_now cmd\<rparr>) c = Inr f"
      using *(5) by (auto simp: move_default_def bind_result_Inr)
    have q_in: "role_in (view ?ol e) ?g q" using repl [OF q(1)] e(2) by (simp add: role_in_def)
    note m = default_moved [OF q(2,3) ke q_in]
    have v: "view ?ol f = make_default ?g (rl_id q) (view ?ol e)" by (rule m(1)) simp_all
    have "tenancy_step p b (view ?ol e) (view ?ol f)"
      unfolding v by (rule tenancy_step.set_default [OF role_in_organization [OF q_in]])
    then have "moves p b ?ol e f" using m(2) by (intro movesI) simp_all
    then show ?thesis
      using r e(2) repl [OF q(1)] by (auto simp: v tn_role_make_default)
  qed
  let ?h = "snd (delete_role_row (rl_id r) f)"
  have "tenancy_step p b (view ?ol f) (view ?ol ?h)"
    unfolding delete_role_view(1) using f others by (intro tenancy_step.drop_role) (simp_all del: view_links)
  then have "moves p b ?ol f ?h"
    using f delete_role_view(2) by (intro movesI) (simp_all add: moves_def)
  then have "moves p b ?ol d ?h" using e(1) f by (blast intro: moves_trans)
  then show ?thesis by (rule moves_then_event) (rule *(6))
qed

section \<open>Roles of a member\<close>

lemma add_member_role_moves:
  assumes "add_member_role_tx oa fr cmd d = Inr (x, d')" and ok: "database_ok (oa_lib oa) d"
  shows "moves p b (oa_lib oa) d d'"
proof -
  let ?ol = "oa_lib oa"
  have k: "keys_distinct d" using ok by (simp add: database_ok_def)
  obtain m r e where *: "locked_member_of oa (mc_organization_id cmd) (mc_member_id cmd) d = Inr m"
      "locked_role_of oa (mc_organization_id cmd) (mc_role_id cmd) d = Inr r"
      "add_member_role_row (mb_id m) (rl_id r) d = Inr e"
      "persist_event oa (fr 1) (role_event (oa_tp oa) (fr 0) RoleAssigned (rl_organization_id r) r ''assigned_by''
          (mc_updated_by cmd) (mc_now cmd) (Some (mb_id m))) e = Inr d'"
    using assms(1) unfolding add_member_role_tx_def tx_simps by blast
  note lm = locked_member_ofD [OF *(1)]
  have m: "tn_member (view ?ol d) (mb_id m) = Some (mc_organization_id cmd, mb_user_id m, Some (mb_status m))"
    using locked_member_view(1) [OF conjunct1 [OF lm] k] conjunct2 [OF lm] by (simp add: member_in_def)
  have "tenancy_step p b (view ?ol d) (view ?ol e)"
    unfolding add_member_role_row_view(1) [OF *(3)]
    by (rule tenancy_step.assign [OF m role_in_organization [OF locked_role_of_view(1) [OF *(2)]]])
  then have "moves p b ?ol d e" using add_member_role_row_view(2) [OF *(3)] k by (intro movesI) simp_all
  then show ?thesis by (rule moves_then_event) (rule *(4))
qed

lemma remove_member_role_moves:
  assumes "remove_member_role_tx oa fr cmd d = Inr (x, d')" and ok: "database_ok (oa_lib oa) d"
  shows "moves p b (oa_lib oa) d d'"
proof -
  let ?ol = "oa_lib oa" and ?g = "mc_organization_id cmd"
  have k: "keys_distinct d" using ok by (simp add: database_ok_def)
  obtain m r og where *: "locked_member_of oa ?g (mc_member_id cmd) d = Inr m"
      "find (\<lambda>r. rl_id r = mc_role_id cmd) (roles_for_member ?ol (mb_id m) d) = Some r"
      "1 < length (roles_for_member ?ol (mb_id m) d)" "locked_organization oa ?g d = Inr og"
      "\<not> (mb_user_id m = og_owner_id og \<and> rl_name r = ''owner'')"
      "persist_event oa (fr 1) (role_event (oa_tp oa) (fr 0) RoleRemovedFromMember (rl_organization_id r) r
          ''removed_by'' (mc_updated_by cmd) (mc_now cmd) (Some (mb_id m)))
        (snd (remove_member_role_row (mb_id m) (rl_id r) d)) = Inr d'"
    using assms(1) unfolding remove_member_role_tx_def tx_simps by blast
  note lm = locked_member_ofD [OF *(1)]
  have m: "tn_member (view ?ol d) (mb_id m) = Some (?g, mb_user_id m, Some (mb_status m))"
    using locked_member_view(1) [OF conjunct1 [OF lm] k] conjunct2 [OF lm] by (simp add: member_in_def)
  from *(2) have r: "r \<in> set (roles_for_member ?ol (mb_id m) d)" by (auto dest: find_Some_in_set)
  then have link: "(mb_id m, rl_id r) \<in> tn_links (view ?ol d)"
    by (auto simp: roles_for_member_def set_select_roles)
  have role: "tn_role (view ?ol d) (rl_id r) = Some (rl_organization_id r, rl_name r, rl_is_system r,
      rl_is_default_for_new_members r)"
    using select_roles_view [OF k, of r ?ol] r by (auto simp: roles_for_member_def role_in_def)
  have "\<exists>q. q \<noteq> rl_id r \<and> (mb_id m, q) \<in> tn_links (view ?ol d)"
    using other_role [OF k link] role *(3) by auto
  then have "tenancy_step p b (view ?ol d) (view ?ol (snd (remove_member_role_row (mb_id m) (rl_id r) d)))"
    unfolding remove_member_role_row_view(1)
    using m role *(5) locked_organization_view(1) [OF *(4), of ?ol] by (intro tenancy_step.unassign) auto
  then have "moves p b ?ol d (snd (remove_member_role_row (mb_id m) (rl_id r) d))"
    using k by (intro movesI) (simp_all add: remove_member_role_row_view(2))
  then show ?thesis by (rule moves_then_event) (rule *(6))
qed

section \<open>Groups\<close>

lemma members_of_view:
  "members_of oa g is d = Inr ms \<Longrightarrow> keys_distinct d \<Longrightarrow>
     \<forall>m \<in> set ms. tn_member (view (oa_lib oa) d) (mb_id m) = Some (g, mb_user_id m, Some (mb_status m))"
proof (induction oa g "is" d arbitrary: ms rule: members_of.induct)
  case (2 oa g i "is" d)
  then obtain m ns where m: "locked_member_of oa g i d = Inr m" "members_of oa g is d = Inr ns" "ms = m # ns"
    by (auto simp: bind_result_Inr)
  note lm = locked_member_ofD [OF m(1)]
  show ?case
    using "2.IH" [OF m(2) "2.prems"(2)] locked_member_view(1) [OF conjunct1 [OF lm] "2.prems"(2)] conjunct2 [OF lm] m
    by (auto simp: member_in_def)
qed simp

lemma create_scim_group_moves:
  assumes "create_scim_group_tx oa fr cmd d = Inr (x, d')" and ok: "database_ok (oa_lib oa) d"
    and new: "tn_role (view (oa_lib oa) d) (fr 0) = None"
  shows "moves p b (oa_lib oa) d d'"
proof -
  let ?ol = "oa_lib oa" and ?g = "cg_organization_id cmd"
  have k: "keys_distinct d" using ok by (simp add: database_ok_def)
  obtain perms ms r f h where *: "role_by_name ?ol ?g (cg_name cmd) d = None"
      "scim_members oa ?g (cg_member_ids cmd) d = Inr ms"
      "r = \<lparr> rl_id = fr 0, rl_organization_id = ?g, rl_name = cg_name cmd,
             rl_display_name = Some (cg_display_name cmd), rl_description = cg_description cmd,
             rl_is_system = False, rl_is_default_for_new_members = False,
             rl_permissions = perms, rl_created_at = cg_now cmd, rl_updated_at = cg_now cmd \<rparr>"
      "save_role ?ol r d = Inr f" "add_member_roles (rl_id r) (map mb_id ms) f = Inr h"
      "persist_event oa (fr 2) (role_event (oa_tp oa) (fr 1) RoleCreated (rl_organization_id r) r
        ''created_by'' (cg_created_by cmd) (cg_now cmd) None) h = Inr d'"
    using assms(1) unfolding create_scim_group_tx_def Let_def
    by (elim bind_result_InrE) (auto simp: bind_result_Inr)
  have r: "rl_id r = fr 0" "rl_organization_id r = ?g" "rl_name r = cg_name cmd" "\<not> rl_is_system r"
      "\<not> rl_is_default_for_new_members r"
    by (simp_all add: *(3))
  note v = save_role_view [OF *(4)]
  have "tenancy_step p b (view ?ol d) (view ?ol f)"
    using new r no_role_by_name_view [OF *(1)] by (intro new_role_step [OF *(4)]) simp_all
  then have f: "moves p b ?ol d f" using v(2) k by (intro movesI) simp_all
  have "moves p b ?ol f h"
    using members_of_view [OF *(2) [unfolded scim_members_def] k] v(2) k
    by (intro conjunct1 [OF add_member_roles_moves [OF *(5), where g = ?g]])
      (auto simp: v(1) r new roles_in_def)
  with f have "moves p b ?ol d h" by (rule moves_trans)
  then show ?thesis by (rule moves_then_event) (rule *(6))
qed

lemma group_joining: "set (filter P (sort (remdups (map mb_id ms)))) \<subseteq> mb_id ` set ms"
  by auto

lemma update_scim_group_moves:
  assumes "update_scim_group_tx oa fr cmd d = Inr (x, d')" and ok: "database_ok (oa_lib oa) d" and "b"
  shows "moves p b (oa_lib oa) d d'"
proof -
  let ?ol = "oa_lib oa" and ?g = "ug_organization_id cmd"
  have k: "keys_distinct d" using ok by (simp add: database_ok_def)
  obtain r r' perms desired joining leaving e f where *: "locked_role_of oa ?g (ug_role_id cmd) d = Inr r"
      "\<not> rl_is_system r" "scim_members oa ?g (ug_member_ids cmd) d = Inr desired"
      "set joining \<subseteq> mb_id ` set desired"
      "r' = r\<lparr>rl_display_name := Some (ug_display_name cmd), rl_description := ug_description cmd,
              rl_permissions := perms, rl_updated_at := ug_now cmd\<rparr>"
      "save_role ?ol r' d = Inr e" "add_member_roles (rl_id r') joining e = Inr f"
      "persist_event oa (fr 1) (role_event (oa_tp oa) (fr 0) RoleUpdated (rl_organization_id r') r' ''updated_by''
          (ug_updated_by cmd) (ug_now cmd) None) (remove_member_roles (rl_id r') leaving f) = Inr d'"
    using assms(1) unfolding update_scim_group_tx_def Let_def
    by (elim bind_result_InrE) (rule that, assumption, simp, assumption, rule group_joining, rule refl, auto)
  note r = locked_role_of_view(1) [OF *(1)]
  have view_e: "view ?ol e = view ?ol d" by (rule same_role_view [OF *(6) r]) (simp_all add: *(5))
  have e: "moves p b ?ol d e" using view_e save_role_view(2) [OF *(6) k] by (rule moves_refl)
  have joining: "\<forall>m \<in> set joining. \<exists>u i. tn_member (view ?ol d) m = Some (?g, u, i)"
    using members_of_view [OF *(3) [unfolded scim_members_def] k] *(4) by blast
  have f: "moves p b ?ol e f \<and>
      view ?ol f = (view ?ol e)\<lparr>tn_links := tn_links (view ?ol e) \<union> set joining \<times> {rl_id r'}\<rparr>"
    using joining role_in_organization [OF r] e
    by (intro add_member_roles_moves [OF *(7), where g = ?g]) (simp_all add: view_e *(5) moves_def)
  have "moves p b ?ol f (remove_member_roles (rl_id r') leaving f)"
    using f r *(2) assms(3)
    by (intro remove_member_roles_moves) (auto simp: view_e moves_def role_in_def *(5))
  then have "moves p b ?ol d (remove_member_roles (rl_id r') leaving f)"
    using e f by (blast intro: moves_trans)
  then show ?thesis by (rule moves_then_event) (rule *(8))
qed

end
