(* ===== verification/Organization_Commands.thy ===== *)
theory Organization_Commands
  imports Organization_Role_Moves
begin

text \<open>
  The commands of the organization service as one type, the database that a command commits, and
  runs of commands. A command that fails rolls back, so a run is the commands that committed, in
  the order of their commits. Each command draws its own fresh identifiers.
\<close>

section \<open>Commands\<close>

datatype org_command =
    DoCreateOrganization CreateOrganizationCommand
  | DoUpdateOrganization UpdateOrganizationCommand
  | DoInviteMember InviteMemberCommand
  | DoAcceptInvitation AcceptInvitationCommand
  | DoSetMemberRoles SetMemberRolesCommand
  | DoRemoveMember RemoveMemberCommand
  | DoCreateScimMember CreateScimMemberCommand
  | DoUpdateScimMember UpdateScimMemberCommand
  | DoAddMemberDirect AddMemberDirectCommand
  | DoJoinByCode JoinByCodeCommand
  | DoJoinOrganization JoinOrganizationCommand
  | DoCreateRole CreateRoleCommand
  | DoUpdateRole UpdateRoleCommand
  | DoDeleteRole DeleteRoleCommand
  | DoAddMemberRole MemberRoleCommand
  | DoRemoveMemberRole MemberRoleCommand
  | DoCreateScimGroup CreateScimGroupCommand
  | DoUpdateScimGroup UpdateScimGroupCommand
  | DoCreateApiKey string CreateApiKeyCommand ApiKeyActor
  | DoRevokeApiKey RevokeApiKeyCommand ApiKeyActor
  | DoValidateApiKey string time Db
  | DoCreatePolicySet CreatePolicySetCommand
  | DoUpdatePolicySet UpdatePolicySetCommand
  | DoArchivePolicySet uuid uuid time
  | DoActivatePolicySet uuid uuid time
  | DoDeletePolicySet uuid uuid
  | DoUpdatePreferences UpdateConsolePreferenceCommand

definition commits :: "OrganizationApplicationError + ('a \<times> Db) \<Rightarrow> OrganizationApplicationError + Db" where
  "commits r = bind_result r (\<lambda>(_, d). Inr d)"

fun committed ::
  "('c, 'z) organization_app_scheme \<Rightarrow> policy_lib \<Rightarrow> (nat \<Rightarrow> uuid) \<Rightarrow> org_command \<Rightarrow> Db
   \<Rightarrow> OrganizationApplicationError + Db" where
  "committed oa pq fr (DoCreateOrganization c) d = commits (create_organization_tx oa fr c d)"
| "committed oa pq fr (DoUpdateOrganization c) d = commits (update_organization_tx oa fr c d)"
| "committed oa pq fr (DoInviteMember c) d = commits (invite_member_tx oa fr c d)"
| "committed oa pq fr (DoAcceptInvitation c) d = commits (accept_invitation_tx oa fr c d)"
| "committed oa pq fr (DoSetMemberRoles c) d = commits (set_member_roles_tx oa c d)"
| "committed oa pq fr (DoRemoveMember c) d = commits (remove_member_tx oa fr c d)"
| "committed oa pq fr (DoCreateScimMember c) d = commits (create_scim_member_tx oa fr c d)"
| "committed oa pq fr (DoUpdateScimMember c) d = commits (update_scim_member_tx oa fr c d)"
| "committed oa pq fr (DoAddMemberDirect c) d = commits (add_member_direct_tx oa fr c d)"
| "committed oa pq fr (DoJoinByCode c) d = commits (join_by_code_tx oa fr c d)"
| "committed oa pq fr (DoJoinOrganization c) d = commits (join_organization_tx oa fr c d)"
| "committed oa pq fr (DoCreateRole c) d = commits (create_role_tx oa fr c d)"
| "committed oa pq fr (DoUpdateRole c) d = commits (update_role_tx oa fr c d)"
| "committed oa pq fr (DoDeleteRole c) d = commits (delete_role_tx oa fr c d)"
| "committed oa pq fr (DoAddMemberRole c) d = commits (add_member_role_tx oa fr c d)"
| "committed oa pq fr (DoRemoveMemberRole c) d = commits (remove_member_role_tx oa fr c d)"
| "committed oa pq fr (DoCreateScimGroup c) d = commits (create_scim_group_tx oa fr c d)"
| "committed oa pq fr (DoUpdateScimGroup c) d = commits (update_scim_group_tx oa fr c d)"
| "committed oa pq fr (DoCreateApiKey token c actor) d = commits (create_api_key_tx oa fr token c actor d)"
| "committed oa pq fr (DoRevokeApiKey c actor) d = commits (revoke_api_key_tx oa fr c actor d)"
| "committed oa pq fr (DoValidateApiKey raw now before) d = commits (validate_api_key_tx oa raw now before d)"
| "committed oa pq fr (DoCreatePolicySet c) d = commits (create_policy_set_tx oa pq (fr 0) c d)"
| "committed oa pq fr (DoUpdatePolicySet c) d = commits (update_policy_set_tx oa pq c d)"
| "committed oa pq fr (DoArchivePolicySet g i now) d = commits (archive_policy_set_tx oa g i now d)"
| "committed oa pq fr (DoActivatePolicySet g i now) d = commits (activate_policy_set_tx oa pq g i now d)"
| "committed oa pq fr (DoDeletePolicySet g i) d = commits (delete_policy_set_tx oa g i d)"
| "committed oa pq fr (DoUpdatePreferences c) d = commits (update_console_preferences_tx (oa_lib oa) (fr 0) c d)"

lemma commits_Inr: "commits r = Inr d \<longleftrightarrow> (\<exists>x. r = Inr (x, d))"
  by (auto simp: commits_def bind_result_Inr)

section \<open>Runs\<close>

definition empty_db :: Db where
  "empty_db =
     \<lparr> db_organizations = [], db_members = [], db_roles = [], db_permissions = [],
       db_role_permissions = [], db_member_roles = [], db_join_codes = [], db_api_keys = [],
       db_policy_sets = [], db_audit_events = [], db_preferences = [], db_outbox = [] \<rparr>"

definition used_ids :: "Db \<Rightarrow> uuid set" where
  "used_ids d = gr_id ` set (db_organizations d) \<union> mr_id ` set (db_members d) \<union> rr_id ` set (db_roles d)
     \<union> kr_id ` set (db_api_keys d) \<union> yr_id ` set (db_policy_sets d) \<union> au_id ` set (db_audit_events d)"

text \<open>
  Random identifiers do not repeat, and the derived identifiers of the system roles are new too and
  differ from each other.
\<close>

definition fresh_ids :: "org_lib \<Rightarrow> (nat \<Rightarrow> uuid) \<Rightarrow> Db \<Rightarrow> bool" where
  "fresh_ids ol fr d =
     ((\<forall>n. fr n \<notin> used_ids d) \<and> inj_on (ol_uuid_v5 ol (fr 1)) (set SYSTEM_ROLE_NAMES)
      \<and> (\<forall>n \<in> set SYSTEM_ROLE_NAMES. ol_uuid_v5 ol (fr 1) n \<notin> used_ids d))"

inductive org_run ::
  "('c, 'z) organization_app_scheme \<Rightarrow> policy_lib \<Rightarrow> (org_command \<Rightarrow> bool) \<Rightarrow> Db \<Rightarrow> Db \<Rightarrow> bool"
  for oa pq allowed d where
  start: "org_run oa pq allowed d d"
| command: "org_run oa pq allowed d e \<Longrightarrow> allowed cmd \<Longrightarrow> fresh_ids (oa_lib oa) fr e \<Longrightarrow>
      committed oa pq fr cmd e = Inr e' \<Longrightarrow> org_run oa pq allowed d e'"

text \<open>Provisioning, and the commands that may leave a member without a role.\<close>

fun provisions :: "org_command \<Rightarrow> bool" where
  "provisions (DoUpdateScimMember c) = True"
| "provisions _ = False"

fun may_strip_roles :: "org_command \<Rightarrow> bool" where
  "may_strip_roles (DoUpdateScimMember c) = True"
| "may_strip_roles (DoUpdateScimGroup c) = True"
| "may_strip_roles (DoCreateScimMember c) = (\<not> cs_active c \<or> cs_role_ids c = Some [])"
| "may_strip_roles _ = False"

lemma fresh_view:
  assumes "fresh_ids ol fr d"
  shows "tn_owner (view ol d) (fr n) = None" and "tn_member (view ol d) (fr n) = None"
    and "tn_role (view ol d) (fr n) = None"
    and "k \<in> set SYSTEM_ROLE_NAMES \<Longrightarrow> tn_role (view ol d) (ol_uuid_v5 ol (fr 1) k) = None"
    and "inj_on (ol_uuid_v5 ol (fr 1)) (set SYSTEM_ROLE_NAMES)"
  using assms by (auto simp: fresh_ids_def used_ids_def view_def row_of_None)

section \<open>Commands on other tables\<close>

definition tenancy_tables :: "Db \<Rightarrow> organization_row list \<times> member_row list \<times> role_row list \<times> (uuid \<times> uuid) list" where
  "tenancy_tables d = (db_organizations d, db_members d, db_roles d, db_member_roles d)"

lemma tenancy_tables_moves:
  "tenancy_tables d' = tenancy_tables d \<Longrightarrow> keys_distinct d \<Longrightarrow> moves p b ol d d'"
  by (intro moves_refl) (simp_all add: tenancy_tables_def view_def keys_distinct_def)

lemma tables_kept:
  "save_api_key ol k d = Inr d' \<Longrightarrow> tenancy_tables d' = tenancy_tables d"
  "save_policy_set ol ps d = Inr d' \<Longrightarrow> tenancy_tables d' = tenancy_tables d"
  "save_preference ol cp d = Inr d' \<Longrightarrow> tenancy_tables d' = tenancy_tables d"
  "persist_event oa fresh e d = Inr d' \<Longrightarrow> tenancy_tables d' = tenancy_tables d"
  by (auto simp: save_api_key_def save_policy_set_def save_preference_def persist_event_def save_audit_event_def
      enqueue_message_def bind_result_Inr tenancy_tables_def split: if_splits option.splits)

lemma save_policy_sets_tables: "save_policy_sets ol pss d = Inr d' \<Longrightarrow> tenancy_tables d' = tenancy_tables d"
  by (induction ol pss d rule: save_policy_sets.induct) (auto simp: bind_result_Inr tables_kept)

lemma key_commands_tables:
  "create_api_key_tx oa fr token c actor d = Inr (x1, d') \<Longrightarrow> tenancy_tables d' = tenancy_tables d"
  "revoke_api_key_tx oa fr c' actor d = Inr (x2, d') \<Longrightarrow> tenancy_tables d' = tenancy_tables d"
  "validate_api_key_tx oa raw now before d = Inr (x3, d') \<Longrightarrow> tenancy_tables d' = tenancy_tables d"
  by (auto simp: create_api_key_tx_def revoke_api_key_tx_def validate_api_key_tx_def Let_def bind_result_Inr
      split: if_splits option.splits prod.splits dest!: tables_kept)

lemma delete_policy_set_row_tables [simp]:
  "tenancy_tables (snd (delete_policy_set_row g i d)) = tenancy_tables d"
  by (simp add: delete_policy_set_row_def tenancy_tables_def)

lemma policy_commands_tables:
  "create_policy_set_tx oa pq i c d = Inr (x1, d') \<Longrightarrow> tenancy_tables d' = tenancy_tables d"
  "update_policy_set_tx oa pq c' d = Inr (x2, d') \<Longrightarrow> tenancy_tables d' = tenancy_tables d"
  "archive_policy_set_tx oa g i now d = Inr (x3, d') \<Longrightarrow> tenancy_tables d' = tenancy_tables d"
  "activate_policy_set_tx oa pq g i now d = Inr (x4, d') \<Longrightarrow> tenancy_tables d' = tenancy_tables d"
  "delete_policy_set_tx oa g i d = Inr (x5, d') \<Longrightarrow> tenancy_tables d' = tenancy_tables d"
  "update_console_preferences_tx ol i c'' d = Inr (x6, d') \<Longrightarrow> tenancy_tables d' = tenancy_tables d"
  by (auto simp: create_policy_set_tx_def update_policy_set_tx_def archive_policy_set_tx_def
      activate_policy_set_tx_def delete_policy_set_tx_def
      update_console_preferences_tx_def Let_def bind_result_Inr
      dest!: tables_kept save_policy_sets_tables)

section \<open>Every command is a sequence of tenancy steps\<close>

theorem committed_moves:
  assumes "committed oa pq fr cmd d = Inr d'" and ok: "database_ok (oa_lib oa) d"
    and "fresh_ids (oa_lib oa) fr d"
    and "provisions cmd \<Longrightarrow> p" and "may_strip_roles cmd \<Longrightarrow> b"
  shows "moves p b (oa_lib oa) d d'"
proof -
  have k: "keys_distinct d" using ok by (simp add: database_ok_def)
  note f = fresh_view [OF assms(3)]
  have names: "\<forall>n \<in> set SYSTEM_ROLE_NAMES. tn_role (view (oa_lib oa) d) (ol_uuid_v5 (oa_lib oa) (fr 1) n) = None"
    using f(4) by blast
  note create = create_organization_moves [OF _ ok f(1) [of 1] f(2) [of 2] names f(5)]
  note same = tenancy_tables_moves [OF _ k]
  show ?thesis
  proof (cases cmd)
    case (DoCreateOrganization c)
    then show ?thesis using assms(1) by (auto simp: commits_Inr intro: create)
  next
    case (DoCreateApiKey token c actor)
    then show ?thesis using assms(1) by (auto simp: commits_Inr intro: same key_commands_tables)
  qed (use assms(1,4,5) in \<open>auto simp: commits_Inr intro: update_organization_moves [OF _ ok]
    invite_member_moves [OF _ ok f(2)] accept_invitation_moves [OF _ ok] set_member_roles_moves [OF _ ok]
    remove_member_moves [OF _ ok] create_scim_member_moves [OF _ ok f(2)]
    update_scim_member_moves [OF _ ok] add_member_direct_moves [OF _ ok f(2)]
    join_by_code_moves [OF _ ok f(2)] join_organization_moves [OF _ ok f(2)]
    create_role_moves [OF _ ok f(3)] update_role_moves [OF _ ok] delete_role_moves [OF _ ok]
    add_member_role_moves [OF _ ok] remove_member_role_moves [OF _ ok]
    create_scim_group_moves [OF _ ok f(3)] update_scim_group_moves [OF _ ok]
    same key_commands_tables policy_commands_tables\<close>)
qed

end
