(* ===== verification/Organization_Guarantees.thy ===== *)
theory Organization_Guarantees
  imports Organization_Commands
begin

text \<open>
  What the tenancy's invariants say of the rows of the database, and that runs of commands keep it:
  integrity of the tables, the owner's seat and role, a role for every member, and what the rows of
  an organization never lose.
\<close>

section \<open>Integrity of the tables\<close>

definition member_role_within :: "Db \<Rightarrow> uuid \<times> uuid \<Rightarrow> bool" where
  "member_role_within d l =
     (\<exists>m \<in> set (db_members d). \<exists>r \<in> set (db_roles d).
        mr_id m = fst l \<and> rr_id r = snd l \<and> mr_organization_id m = rr_organization_id r)"

definition organization_complete :: "Db \<Rightarrow> organization_row \<Rightarrow> bool" where
  "organization_complete d g =
     ((\<exists>r \<in> set (db_roles d).
         rr_organization_id r = gr_id g \<and> rr_name r = ''owner'' \<and> rr_is_system r)
      \<and> length (filter (\<lambda>r. rr_organization_id r = gr_id g \<and> rr_is_default_for_new_members r) (db_roles d)) = 1)"

text \<open>
  Keys are unique. Members and roles are of an organization, and the roles of a member are of its
  own. Role names are unique in an organization, which has its owner role and one default role.
\<close>

definition tables_ok :: "Db \<Rightarrow> bool" where
  "tables_ok d =
     (keys_distinct d
      \<and> (\<forall>l \<in> set (db_member_roles d). member_role_within d l)
      \<and> (\<forall>m \<in> set (db_members d). organization_exists (mr_organization_id m) d)
      \<and> (\<forall>r \<in> set (db_roles d). organization_exists (rr_organization_id r) d)
      \<and> distinct (map (\<lambda>r. (rr_organization_id r, rr_name r)) (db_roles d))
      \<and> (\<forall>g \<in> set (db_organizations d). organization_complete d g))"

lemma empty_tables_ok: "tables_ok empty_db"
  by (simp add: tables_ok_def empty_db_def keys_distinct_def)

lemma organizations_view: "dom (tn_owner (view ol d)) = gr_id ` set (db_organizations d)"
proof
  show "dom (tn_owner (view ol d)) \<subseteq> gr_id ` set (db_organizations d)"
    by (auto simp: view_def dest!: row_of_SomeD)
  show "gr_id ` set (db_organizations d) \<subseteq> dom (tn_owner (view ol d))"
    using view_owner_exists [of _ d ol] unfolding organization_exists_def by blast
qed

lemma member_role_within_view:
  assumes "keys_distinct d"
  shows "links_within (view ol d) \<longleftrightarrow> (\<forall>l \<in> set (db_member_roles d). member_role_within d l)"
proof -
  have "(\<exists>i u b. tn_member (view ol d) m = Some (i, u, b) \<and> r \<in> roles_in (view ol d) i)
      \<longleftrightarrow> member_role_within d (m, r)" for m r
    unfolding member_role_within_def roles_in_def
    by (auto dest!: view_memberD view_roleD; force simp: view_member_mem [OF assms] view_role_mem [OF assms])
  then show ?thesis by (auto simp: links_within_def)
qed

lemma organizations_exist_view:
  assumes "keys_distinct d"
  shows "organizations_exist (view ol d) \<longleftrightarrow>
    (\<forall>m \<in> set (db_members d). organization_exists (mr_organization_id m) d)
    \<and> (\<forall>r \<in> set (db_roles d). organization_exists (rr_organization_id r) d)"
proof -
  have "(\<forall>m i u b. tn_member (view ol d) m = Some (i, u, b) \<longrightarrow> i \<in> dom (tn_owner (view ol d)))
      \<longleftrightarrow> (\<forall>m \<in> set (db_members d). mr_organization_id m \<in> dom (tn_owner (view ol d)))"
    using view_member_mem [OF assms] view_memberD by (metis (no_types, lifting))
  moreover have "(\<forall>r i n y f. tn_role (view ol d) r = Some (i, n, y, f) \<longrightarrow> i \<in> dom (tn_owner (view ol d)))
      \<longleftrightarrow> (\<forall>r \<in> set (db_roles d). rr_organization_id r \<in> dom (tn_owner (view ol d)))"
    using view_role_mem [OF assms] view_roleD by (metis (no_types, lifting))
  ultimately show ?thesis by (simp add: organizations_exist_def view_owner_exists [of _ d ol])
qed

lemma names_unique_view:
  assumes "keys_distinct d"
  shows "names_unique (view ol d) \<longleftrightarrow> distinct (map (\<lambda>r. (rr_organization_id r, rr_name r)) (db_roles d))"
proof -
  have d: "distinct (db_roles d)" and i: "inj_on rr_id (set (db_roles d))"
    using assms by (auto simp: keys_distinct_def distinct_map)
  have "names_unique (view ol d) \<longleftrightarrow>
      inj_on (\<lambda>r. (rr_organization_id r, rr_name r)) (set (db_roles d))"
  proof
    assume u: "names_unique (view ol d)"
    show "inj_on (\<lambda>r. (rr_organization_id r, rr_name r)) (set (db_roles d))"
    proof (rule inj_onI)
      fix x y assume "x \<in> set (db_roles d)" "y \<in> set (db_roles d)"
        "(rr_organization_id x, rr_name x) = (rr_organization_id y, rr_name y)"
      then have "rr_id x = rr_id y"
        using u view_role_mem [OF assms, of x ol] view_role_mem [OF assms, of y ol]
        unfolding names_unique_def by (metis prod.inject)
      then show "x = y" using i \<open>x \<in> _\<close> \<open>y \<in> _\<close> by (auto dest: inj_onD)
    qed
  next
    assume inj: "inj_on (\<lambda>r. (rr_organization_id r, rr_name r)) (set (db_roles d))"
    show "names_unique (view ol d)"
      unfolding names_unique_def
    proof (intro allI impI)
      fix r r' i n y f y' f'
      assume "tn_role (view ol d) r = Some (i, n, y, f)" "tn_role (view ol d) r' = Some (i, n, y', f')"
      then obtain a b where "a \<in> set (db_roles d)" "rr_id a = r" "b \<in> set (db_roles d)" "rr_id b = r'"
          "(rr_organization_id a, rr_name a) = (rr_organization_id b, rr_name b)"
        by (auto dest!: view_roleD)
      then show "r = r'" using inj_onD [OF inj, of a b] by simp
    qed
  qed
  then show ?thesis using d by (simp add: distinct_map)
qed

lemma owner_roles_exist_view:
  assumes "keys_distinct d"
  shows "owner_roles_exist (view ol d) \<longleftrightarrow> (\<forall>g \<in> set (db_organizations d). \<exists>r \<in> set (db_roles d).
    rr_organization_id r = gr_id g \<and> rr_name r = ''owner'' \<and> rr_is_system r)"
proof -
  have "(\<exists>r f. tn_role (view ol d) r = Some (i, ''owner'', True, f)) \<longleftrightarrow>
      (\<exists>r \<in> set (db_roles d). rr_organization_id r = i \<and> rr_name r = ''owner'' \<and> rr_is_system r)" for i
    using view_role_mem [OF assms, of _ ol] by (auto dest!: view_roleD) (metis (full_types))
  then show ?thesis by (simp add: owner_roles_exist_def organizations_view)
qed

lemma length_filter_1:
  assumes "distinct (map f xs)"
  shows "length (filter p xs) = 1 \<longleftrightarrow> (\<exists>k. {k. \<exists>x \<in> set xs. f x = k \<and> p x} = {k})"
proof -
  have "length (filter p xs) = card (f ` set (filter p xs))"
    using assms by (metis distinct_card distinct_map_filter length_map set_map)
  moreover have "f ` set (filter p xs) = {k. \<exists>x \<in> set xs. f x = k \<and> p x}" by auto
  ultimately show ?thesis by (simp add: card_1_singleton_iff)
qed

lemma one_default_view:
  assumes "keys_distinct d"
  shows "one_default (view ol d) \<longleftrightarrow> (\<forall>g \<in> set (db_organizations d).
    length (filter (\<lambda>r. rr_organization_id r = gr_id g \<and> rr_is_default_for_new_members r) (db_roles d)) = 1)"
proof -
  have "default_roles_in (view ol d) i = {k. \<exists>r \<in> set (db_roles d). rr_id r = k
      \<and> rr_organization_id r = i \<and> rr_is_default_for_new_members r}" for i
    unfolding default_roles_in_def using view_role_mem [OF assms, of _ ol]
    by (force dest!: view_roleD)
  moreover have "distinct (map rr_id (db_roles d))" using assms by (simp add: keys_distinct_def)
  ultimately show ?thesis
    by (simp add: one_default_def length_filter_1 [simplified] organizations_view)
qed

lemma tables_ok_view: "tables_ok d \<longleftrightarrow> keys_distinct d \<and> tenancy_ok (view ol d)"
  by (auto simp: tables_ok_def tenancy_ok_def organization_complete_def member_role_within_view
      organizations_exist_view names_unique_view owner_roles_exist_view one_default_view)

section \<open>Owners and members\<close>

text \<open>
  The owner of an organization, if it has one, is an active member of it with its owner role, and is
  not among its open invitations. The organization the service creates at its start has no owner.
\<close>

definition owner_holds :: "org_lib \<Rightarrow> Db \<Rightarrow> organization_row \<Rightarrow> bool" where
  "owner_holds ol d g =
     (case gr_owner_id g of
        None \<Rightarrow> True
      | Some owner \<Rightarrow> owner \<noteq> [] \<longrightarrow>
          (\<exists>m \<in> set (db_members d). \<exists>r \<in> set (db_roles d).
               mr_organization_id m = gr_id g \<and> mr_user_id m = Some owner
               \<and> row_status ol m = Some MsActive
               \<and> rr_organization_id r = gr_id g \<and> rr_name r = ''owner'' \<and> rr_is_system r
               \<and> (mr_id m, rr_id r) \<in> set (db_member_roles d))
          \<and> (\<forall>m \<in> set (db_members d). mr_organization_id m = gr_id g \<and> mr_user_id m = Some owner
               \<longrightarrow> row_status ol m \<noteq> Some MsInvited))"

definition owners_hold :: "org_lib \<Rightarrow> Db \<Rightarrow> bool" where
  "owners_hold ol d = (\<forall>g \<in> set (db_organizations d). owner_holds ol d g)"

definition all_have_roles :: "Db \<Rightarrow> bool" where
  "all_have_roles d = (\<forall>m \<in> set (db_members d). \<exists>l \<in> set (db_member_roles d). fst l = mr_id m)"

lemma text_or_empty_Some [simp]: "x \<noteq> [] \<Longrightarrow> text_or_empty t = x \<longleftrightarrow> t = Some x"
  by (auto simp: text_or_empty_def split: option.splits)

lemma view_owner_mem:
  "keys_distinct d \<Longrightarrow> g \<in> set (db_organizations d) \<Longrightarrow>
     tn_owner (view ol d) (gr_id g) = Some (text_or_empty (gr_owner_id g))"
  by (simp add: view_def keys_distinct_def row_of_mem)

lemma view_ownerD:
  "tn_owner (view ol d) i = Some w \<Longrightarrow>
     \<exists>g \<in> set (db_organizations d). gr_id g = i \<and> text_or_empty (gr_owner_id g) = w"
  by (auto simp: view_def dest!: row_of_SomeD)

lemma owner_seated_view:
  assumes "keys_distinct d" and "w \<noteq> []"
  shows "(\<exists>m. owner_seated (view ol d) i w m) \<longleftrightarrow>
    (\<exists>m \<in> set (db_members d). \<exists>r \<in> set (db_roles d).
       mr_organization_id m = i \<and> mr_user_id m = Some w \<and> row_status ol m = Some MsActive
       \<and> rr_organization_id r = i \<and> rr_name r = ''owner'' \<and> rr_is_system r
       \<and> (mr_id m, rr_id r) \<in> set (db_member_roles d))" (is "?a \<longleftrightarrow> ?b")
proof
  assume ?a
  then obtain m r f where v: "tn_member (view ol d) m = Some (i, w, Some MsActive)" "(m, r) \<in> set (db_member_roles d)"
      "tn_role (view ol d) r = Some (i, ''owner'', True, f)"
    by (auto simp: owner_seated_def)
  show ?b using view_memberD [OF v(1)] view_roleD [OF v(3)] v(2) assms(2) by auto
next
  assume ?b
  then obtain m r where *: "m \<in> set (db_members d)" "r \<in> set (db_roles d)" "mr_organization_id m = i"
      "mr_user_id m = Some w" "row_status ol m = Some MsActive" "rr_organization_id r = i" "rr_name r = ''owner''"
      "rr_is_system r" "(mr_id m, rr_id r) \<in> set (db_member_roles d)"
    by blast
  then have "owner_seated (view ol d) i w (mr_id m)"
    using view_member_mem [OF assms(1) *(1), of ol] view_role_mem [OF assms(1) *(2), of ol]
    by (auto simp: owner_seated_def text_or_empty_def)
  then show ?a ..
qed

lemma owner_invited_view:
  assumes "keys_distinct d" and "w \<noteq> []"
  shows "(\<forall>m. tn_member (view ol d) m \<noteq> Some (i, w, Some MsInvited)) \<longleftrightarrow>
    (\<forall>m \<in> set (db_members d). mr_organization_id m = i \<and> mr_user_id m = Some w \<longrightarrow> row_status ol m \<noteq> Some MsInvited)"
proof (intro iffI ballI allI impI)
  fix m assume "\<forall>m. tn_member (view ol d) m \<noteq> Some (i, w, Some MsInvited)" "m \<in> set (db_members d)"
    and "mr_organization_id m = i \<and> mr_user_id m = Some w"
  then show "row_status ol m \<noteq> Some MsInvited"
    using view_member_mem [OF assms(1), of m ol] by (auto simp: text_or_empty_def)
next
  fix m assume "\<forall>m \<in> set (db_members d). mr_organization_id m = i \<and> mr_user_id m = Some w \<longrightarrow> row_status ol m \<noteq> Some MsInvited"
  then show "tn_member (view ol d) m \<noteq> Some (i, w, Some MsInvited)"
    using assms(2) by (metis text_or_empty_Some view_memberD)
qed

lemma all_keyed: "(\<forall>i w. (\<exists>g \<in> S. k g = i \<and> v g = w) \<longrightarrow> P i w) \<longleftrightarrow> (\<forall>g \<in> S. P (k g) (v g))"
  by blast

lemma owners_hold_view:
  assumes "keys_distinct d"
  shows "owners_hold ol d \<longleftrightarrow> owners_ok (view ol d)"
proof -
  have holds: "owner_holds ol d g \<longleftrightarrow> (text_or_empty (gr_owner_id g) \<noteq> [] \<longrightarrow>
      (\<forall>m. tn_member (view ol d) m \<noteq> Some (gr_id g, text_or_empty (gr_owner_id g), Some MsInvited))
      \<and> (\<exists>m. owner_seated (view ol d) (gr_id g) (text_or_empty (gr_owner_id g)) m))" for g
  proof (cases "gr_owner_id g")
    case (Some w)
    show ?thesis
    proof (cases "w = []")
      case False
      have w: "text_or_empty (Some w) = w" by (simp add: text_or_empty_def)
      show ?thesis
        unfolding owner_holds_def Some option.case w
          owner_seated_view [OF assms False, of ol "gr_id g"] owner_invited_view [OF assms False, of ol "gr_id g"]
        using False by blast
    qed (simp add: owner_holds_def Some text_or_empty_def)
  qed (simp add: owner_holds_def text_or_empty_def)
  have "tn_owner (view ol d) i = Some w \<longleftrightarrow>
      (\<exists>g \<in> set (db_organizations d). gr_id g = i \<and> text_or_empty (gr_owner_id g) = w)" for i w
    using view_owner_mem [OF assms, of _ ol] view_ownerD by blast
  then show ?thesis unfolding owners_hold_def owners_ok_def holds by (simp only: all_keyed)
qed

lemma all_have_roles_view:
  assumes "keys_distinct d"
  shows "all_have_roles d \<longleftrightarrow> members_have_roles (view ol d)"
proof -
  have "dom (tn_member (view ol d)) = mr_id ` set (db_members d)"
  proof
    show "dom (tn_member (view ol d)) \<subseteq> mr_id ` set (db_members d)"
      by (auto simp: view_def dest!: row_of_SomeD)
    show "mr_id ` set (db_members d) \<subseteq> dom (tn_member (view ol d))"
      using view_member_mem [OF assms, of _ ol] by auto
  qed
  moreover have "(\<exists>l \<in> set (db_member_roles d). fst l = i) \<longleftrightarrow> (\<exists>r. (i, r) \<in> set (db_member_roles d))" for i
    by force
  ultimately show ?thesis by (simp add: all_have_roles_def members_have_roles_def)
qed

section \<open>Runs\<close>

lemma rtranclp_keeps:
  assumes "R\<^sup>*\<^sup>* s s'" and "Q s" and "\<And>s s'. R s s' \<Longrightarrow> Q s \<Longrightarrow> Q s'"
  shows "Q s'"
  using assms(1,2) by induction (use assms(3) in blast)+

lemma moves_database_ok:
  "moves p b ol d d' \<Longrightarrow> database_ok ol d \<Longrightarrow> database_ok ol d'"
  unfolding moves_def database_ok_def by (blast intro: rtranclp_keeps links_within_step)

lemma run_moves:
  assumes "org_run oa pq allowed d d'" and "database_ok (oa_lib oa) d"
    and "\<And>cmd. allowed cmd \<Longrightarrow> provisions cmd \<Longrightarrow> p" and "\<And>cmd. allowed cmd \<Longrightarrow> may_strip_roles cmd \<Longrightarrow> b"
  shows "moves p b (oa_lib oa) d d'"
  using assms(1)
proof induction
  case start
  then show ?case using assms(2) by (intro moves_refl) (simp_all add: database_ok_def)
next
  case (command e cmd fr e')
  have "database_ok (oa_lib oa) e" using moves_database_ok [OF command.IH assms(2)] .
  then have "moves p b (oa_lib oa) e e'"
    by (rule committed_moves [OF command.hyps(4) _ command.hyps(3)]) (use assms(3,4) command.hyps(2) in blast)+
  with command.IH show ?case by (rule moves_trans)
qed

lemma tables_database_ok: "tables_ok d \<Longrightarrow> ascii_case_ok ol \<Longrightarrow> database_ok ol d"
  by (simp add: database_ok_def tables_ok_view [of d ol] tenancy_ok_def)

lemma moves_tables_ok: "moves p b ol d d' \<Longrightarrow> tables_ok d \<Longrightarrow> tables_ok d'"
  unfolding moves_def tables_ok_view [of _ ol] by (blast intro: rtranclp_keeps tenancy_ok_step)

lemma moves_owners_hold:
  assumes "moves False b ol d d'" and "tables_ok d" and "owners_hold ol d"
  shows "owners_hold ol d'"
proof -
  have k: "keys_distinct d" "keys_distinct d'" using assms(1,2) by (simp_all add: moves_def tables_ok_def)
  have "tenancy_ok (view ol d') \<and> owners_ok (view ol d')"
    by (rule rtranclp_keeps [of "tenancy_step False b" "view ol d"])
      (use assms k in \<open>auto simp: moves_def tables_ok_view [of d ol] owners_hold_view
        intro: tenancy_ok_step owners_ok_step\<close>)
  then show ?thesis using owners_hold_view k(2) by blast
qed

lemma moves_all_have_roles:
  assumes "moves p False ol d d'" and "keys_distinct d" and "all_have_roles d"
  shows "all_have_roles d'"
proof -
  have k: "keys_distinct d'" using assms(1) by (simp add: moves_def)
  have "members_have_roles (view ol d')"
    by (rule rtranclp_keeps [of "tenancy_step p False" "view ol d"])
      (use assms in \<open>auto simp: moves_def all_have_roles_view [of d ol] intro: members_have_roles_step\<close>)
  then show ?thesis using all_have_roles_view k by blast
qed

text \<open>An organization keeps its owner, and a system role its organization and name.\<close>

lemma lasting_step:
  assumes "tenancy_step p b s s'"
  shows "tn_owner s \<subseteq>\<^sub>m tn_owner s'"
    and "\<exists>f. tn_role s r = Some (i, n, True, f) \<Longrightarrow> \<exists>f. tn_role s' r = Some (i, n, True, f)"
proof -
  show "tn_owner s \<subseteq>\<^sub>m tn_owner s'"
    using assms by cases (auto simp: map_le_def make_default_def)
  assume "\<exists>f. tn_role s r = Some (i, n, True, f)"
  then obtain f where f: "tn_role s r = Some (i, n, True, f)" ..
  show "\<exists>f. tn_role s' r = Some (i, n, True, f)"
    using assms
  proof cases
    case (found i m owner rs ow fo)
    have "rs r = None" using found(5) f by (metis IntI domIff emptyE option.distinct(1))
    then show ?thesis using found(1) f by (simp add: map_add_def)
  qed (use f in \<open>auto simp: tn_role_make_default\<close>)
qed

lemma moves_lasting:
  assumes "moves p b ol d d'"
  shows "tn_owner (view ol d) \<subseteq>\<^sub>m tn_owner (view ol d')"
    and "\<exists>f. tn_role (view ol d) r = Some (i, n, True, f) \<Longrightarrow> \<exists>f. tn_role (view ol d') r = Some (i, n, True, f)"
proof -
  have st: "(tenancy_step p b)\<^sup>*\<^sup>* (view ol d) (view ol d')" using assms by (simp add: moves_def)
  show "tn_owner (view ol d) \<subseteq>\<^sub>m tn_owner (view ol d')"
    by (rule rtranclp_keeps [OF st]) (auto intro: map_le_trans lasting_step(1))
  assume "\<exists>f. tn_role (view ol d) r = Some (i, n, True, f)"
  then show "\<exists>f. tn_role (view ol d') r = Some (i, n, True, f)"
    by (rule rtranclp_keeps [OF st]) (rule lasting_step(2))
qed

end
