(* ===== verification/Organization_Trail.thy ===== *)
theory Organization_Trail
  imports Organization_Commands
begin

text \<open>
  What commands leave in the tables beside the tenancy: the audit event and the outbox message of
  each change, committed with it, and what becomes of API keys and policy sets.
\<close>

section \<open>Frames\<close>

text \<open>The tables that statements on organizations, members and roles do not touch.\<close>

definition side_tables ::
  "Db \<Rightarrow> api_key_row list \<times> policy_set_row list \<times> AuditEvent list \<times> Message list" where
  "side_tables d = (db_api_keys d, db_policy_sets d, db_audit_events d, db_outbox d)"

definition records ::
  "('c, 'z) organization_app_scheme \<Rightarrow> (nat \<Rightarrow> uuid) \<Rightarrow> Db \<Rightarrow> Db \<Rightarrow> bool" where
  "records oa fr d d' = (\<exists>e n ev. side_tables e = side_tables d \<and> persist_event oa (fr n) ev e = Inr d')"

lemma recordsI: "persist_event oa (fr n) ev e = Inr d' \<Longrightarrow> side_tables e = side_tables d \<Longrightarrow> records oa fr d d'"
  by (auto simp: records_def)

lemma side_kept:
  "save_organization ol og d = Inr d1 \<Longrightarrow> side_tables d1 = side_tables d"
  "save_member ol m d = Inr d1 \<Longrightarrow> side_tables d1 = side_tables d"
  "set_member_role_rows i rs d = Inr d1 \<Longrightarrow> side_tables d1 = side_tables d"
  "add_member_role_row i r d = Inr d1 \<Longrightarrow> side_tables d1 = side_tables d"
  "upsert_permission p d = Inr (q, d1) \<Longrightarrow> side_tables d1 = side_tables d"
  "save_role ol rl d = Inr d1 \<Longrightarrow> side_tables d1 = side_tables d"
  "save_join_code ol jc d = Inr d1 \<Longrightarrow> side_tables d1 = side_tables d"
  by (auto simp: save_organization_def save_member_def set_member_role_rows_def add_member_role_row_def
      upsert_permission_def save_role_def upsert_role_def set_role_permissions_def save_join_code_def
      bind_result_Inr side_tables_def Let_def split: if_splits option.splits)

lemma side_deleted [simp]:
  "side_tables (snd (delete_member i d)) = side_tables d"
  "side_tables (snd (delete_role_row i d)) = side_tables d"
  "side_tables (snd (remove_member_role_row i r d)) = side_tables d"
  by (simp_all add: delete_member_def delete_role_row_def delete_role_rows_def remove_member_role_row_def side_tables_def)

lemma side_kept_roles:
  "save_roles ol rs d = Inr d1 \<Longrightarrow> side_tables d1 = side_tables d"
  by (induction ol rs d rule: save_roles.induct) (auto simp: bind_result_Inr dest!: side_kept)

lemma side_kept_catalog:
  "upsert_catalog cat ps d = Inr (x, d1) \<Longrightarrow> side_tables d1 = side_tables d"
  by (induction cat ps d rule: upsert_catalog.induct) (auto simp: bind_result_Inr dest!: side_kept)

lemma side_kept_links:
  "add_member_roles r ms d = Inr d1 \<Longrightarrow> side_tables d1 = side_tables d"
  by (induction r ms d rule: add_member_roles.induct) (auto simp: bind_result_Inr dest!: side_kept)

lemma side_removed_links [simp]: "side_tables (remove_member_roles r ms d) = side_tables d"
  by (induction r ms d rule: remove_member_roles.induct) auto

lemma side_kept_with_roles: "save_with_roles ol m rs d = Inr d1 \<Longrightarrow> side_tables d1 = side_tables d"
  by (auto simp: save_with_roles_def bind_result_Inr dest!: side_kept)

lemma side_kept_clear: "clear_default_roles ol g keep now d = Inr d1 \<Longrightarrow> side_tables d1 = side_tables d"
  by (auto simp: clear_default_roles_def dest: side_kept_roles)

lemma side_kept_patch: "patch_role_default ol cmd r d = Inr (r', d1) \<Longrightarrow> side_tables d1 = side_tables d"
  by (auto simp: patch_role_default_def bind_result_Inr split: option.splits if_splits dest: side_kept_clear)

lemma side_kept_replace: "replace_for_members oa q is d = Inr (ms, d1) \<Longrightarrow> side_tables d1 = side_tables d"
  by (induction oa q "is" d arbitrary: ms rule: replace_for_members.induct)
    (fastforce simp: bind_result_Inr split: if_splits dest: side_kept)+

lemma side_kept_move_default: "move_default oa cmd q d = Inr d1 \<Longrightarrow> side_tables d1 = side_tables d"
  by (auto simp: move_default_def bind_result_Inr dest!: side_kept_clear side_kept)

lemmas sides = side_kept side_kept_roles side_kept_catalog side_kept_links side_kept_with_roles side_kept_clear
  side_kept_patch side_kept_replace side_kept_move_default

section \<open>Commands that record\<close>

lemma organization_commands_record:
  "create_organization_tx oa fr c1 d = Inr (x1, d') \<Longrightarrow> records oa fr d d'"
  "update_organization_tx oa fr c2 d = Inr (x2, d') \<Longrightarrow> records oa fr d d'"
  by (auto simp: create_organization_tx_def update_organization_tx_def Let_def bind_result_Inr
      intro: recordsI dest!: sides)

lemma member_commands_record:
  "invite_member_tx oa fr c1 d = Inr (x1, d') \<Longrightarrow> records oa fr d d'"
  "accept_invitation_tx oa fr c2 d = Inr (x2, d') \<Longrightarrow> records oa fr d d'"
  "remove_member_tx oa fr c3 d = Inr (x3, d') \<Longrightarrow> records oa fr d d'"
  "create_scim_member_tx oa fr c4 d = Inr (x4, d') \<Longrightarrow> records oa fr d d'"
  "join_by_code_tx oa fr c5 d = Inr (x5, d') \<Longrightarrow> records oa fr d d'"
  "join_organization_tx oa fr c6 d = Inr (x6, d') \<Longrightarrow> records oa fr d d'"
  by (auto simp: invite_member_tx_def accept_invitation_tx_def remove_member_tx_def create_scim_member_tx_def
      join_by_code_tx_def join_organization_tx_def Let_def bind_result_Inr intro: recordsI dest!: sides)

lemma role_commands_record:
  "create_role_tx oa fr c1 d = Inr (x1, d') \<Longrightarrow> records oa fr d d'"
  "update_role_tx oa fr c2 d = Inr (x2, d') \<Longrightarrow> records oa fr d d'"
  "delete_role_tx oa fr c3 d = Inr (x3, d') \<Longrightarrow> records oa fr d d'"
  "add_member_role_tx oa fr c4 d = Inr (x4, d') \<Longrightarrow> records oa fr d d'"
  "remove_member_role_tx oa fr c5 d = Inr (x5, d') \<Longrightarrow> records oa fr d d'"
  "create_scim_group_tx oa fr c6 d = Inr (x6, d') \<Longrightarrow> records oa fr d d'"
  "update_scim_group_tx oa fr c7 d = Inr (x7, d') \<Longrightarrow> records oa fr d d'"
  by (auto simp: create_role_tx_def update_role_tx_def delete_role_tx_def add_member_role_tx_def
      remove_member_role_tx_def create_scim_group_tx_def update_scim_group_tx_def Let_def bind_result_Inr
      intro: recordsI split: if_splits dest!: sides)

lemma silent_or_records:
  "set_member_roles_tx oa c1 d = Inr (x1, d') \<Longrightarrow> side_tables d' = side_tables d"
  "add_member_direct_tx oa fr c3 d = Inr (x3, d') \<Longrightarrow> side_tables d' = side_tables d \<or> records oa fr d d'"
  by (auto simp: set_member_roles_tx_def add_member_direct_tx_def
      add_existing_member_def link_invited_member_def add_new_member_def Let_def bind_result_Inr
      intro: recordsI split: if_splits option.splits dest!: sides)

lemma update_scim_member_trail:
  assumes "update_scim_member_tx oa fr cmd d = Inr (x, d')"
  shows "side_tables d' = side_tables d \<or> records oa fr d d'"
proof -
  obtain m m' :: Member and rs e where *: "save_with_roles (oa_lib oa) m' rs d = Inr e"
      "(case transition_event (oa_tp oa) (fr 0) (mb_status m = MsActive) (us_active cmd) m' (us_now cmd) of
          None \<Rightarrow> Inr e
        | Some event \<Rightarrow> persist_event oa (fr 1) event e) = Inr d'"
    using assms unfolding update_scim_member_tx_def tx_simps by blast
  then show ?thesis by (auto split: option.split_asm dest: sides intro: recordsI)
qed

text \<open>A key is created under a fresh identifier, revoked as it is stored, and used while it is valid.\<close>

lemma ak_id_raw [simp]: "ak_id (api_key_from_raw ol i c raw) = i"
  by (simp add: api_key_from_raw_def)

lemma create_api_key_tx_saves:
  assumes "create_api_key_tx oa fr token cmd actor d = Inr (x, d')"
  obtains e k n ev where "save_api_key (oa_lib oa) k d = Inr e" "ak_id k = fr 0" "persist_event oa (fr n) ev e = Inr d'"
  using assms by (auto simp: create_api_key_tx_def api_key_create_def Let_def bind_result_Inr
      intro!: that)

lemma revoke_api_key_tx_saves:
  assumes "revoke_api_key_tx oa fr cmd actor d = Inr (x, d')"
  obtains e k n ev where "api_key_by_id (rk_api_key_id cmd) d = Inr (Some k)"
    "save_api_key (oa_lib oa) (api_key_revoke (rk_now cmd) k) d = Inr e" "persist_event oa (fr n) ev e = Inr d'"
  using assms by (auto simp: revoke_api_key_tx_def Let_def bind_result_Inr ok_or_Inr intro: that)

lemma validate_api_key_tx_saves:
  assumes "validate_api_key_tx oa raw now before d = Inr (x, d')"
  obtains "x = None" "d' = d"
  | i k where "api_key_by_id i d = Inr (Some k)" "api_key_verify (oa_lib oa) raw k" "api_key_is_valid_at now k"
      "save_api_key (oa_lib oa) (record_usage None now k) d = Inr d'" "x = Some (record_usage None now k)"
  using assms unfolding validate_api_key_tx_def Let_def
  by (auto elim!: bind_result_InrE split: if_split_asm option.split_asm intro: that)

section \<open>The trail\<close>

text \<open>An audit event and the message of the same event, of the same organization.\<close>

definition traced :: "third_party \<Rightarrow> Db \<Rightarrow> Db \<Rightarrow> bool" where
  "traced tp d d' =
     (\<exists>a m. db_audit_events d' = db_audit_events d @ [a] \<and> db_outbox d' = db_outbox d @ [m]
        \<and> ms_message_type m = au_event_type a
        \<and> ms_tenant_id m = Some (tp_uuid_show tp (au_organization_id a)))"

lemma persist_event_traced:
  assumes "persist_event oa i ev e = Inr d'" and "i \<notin> au_id ` set (db_audit_events e)"
  shows "traced (oa_tp oa) e d'" and "db_api_keys d' = db_api_keys e" and "db_policy_sets d' = db_policy_sets e"
proof -
  obtain oe a m e' where *: "to_audit_event (oa_tp oa) i oe = Inr a" "to_message (oa_tp oa) oe = Inr m"
      "save_audit_event (oa_lib oa) a e = Inr e'" "enqueue_message (oa_refuses oa) m e' = Inr d'"
    using assms(1) by (auto simp: persist_event_def bind_result_Inr)
  note o = to_audit_event_origin [OF *(1)] to_message_origin [OF *(2)]
  have d': "d' = e'\<lparr>db_outbox := db_outbox e' @ [m]\<rparr>"
    using *(4) by (auto simp: enqueue_message_def split: option.splits)
  have "au_id a \<notin> au_id ` set (db_audit_events e)" using o(1) assms(2) by simp
  then have e': "e' = e\<lparr>db_audit_events := db_audit_events e @
             [a\<lparr>au_changes := map_option (ol_jsonb (oa_lib oa)) (au_changes a),
                au_metadata := ol_jsonb (oa_lib oa) (au_metadata a),
                au_timestamp := ol_timestamptz (oa_lib oa) (au_timestamp a)\<rparr>]\<rparr>"
    using *(3) by (auto simp: save_audit_event_def image_iff split: if_splits)
  show "traced (oa_tp oa) e d'" using o unfolding d' e' traced_def by simp
  show "db_api_keys d' = db_api_keys e" "db_policy_sets d' = db_policy_sets e" unfolding d' e' by simp_all
qed

lemma fresh_audit: "fresh_ids ol fr d \<Longrightarrow> db_audit_events e = db_audit_events d \<Longrightarrow> fr n \<notin> au_id ` set (db_audit_events e)"
  by (auto simp: fresh_ids_def used_ids_def)

lemma records_traced:
  assumes "records oa fr d d'" and "fresh_ids (oa_lib oa) fr d"
  shows "traced (oa_tp oa) d d'" and "db_api_keys d' = db_api_keys d" and "db_policy_sets d' = db_policy_sets d"
proof -
  obtain e n ev where *: "side_tables e = side_tables d" "persist_event oa (fr n) ev e = Inr d'"
    using assms(1) by (auto simp: records_def)
  have s: "db_api_keys e = db_api_keys d" "db_policy_sets e = db_policy_sets d"
      "db_audit_events e = db_audit_events d" "db_outbox e = db_outbox d"
    using *(1) by (simp_all add: side_tables_def)
  note p = persist_event_traced [OF *(2) fresh_audit [OF assms(2) s(3)]]
  show "traced (oa_tp oa) d d'" using p(1) s by (simp add: traced_def)
  show "db_api_keys d' = db_api_keys d" "db_policy_sets d' = db_policy_sets d" using p(2,3) s by simp_all
qed

lemma save_api_key_side: "save_api_key ol k d = Inr e \<Longrightarrow>
     db_audit_events e = db_audit_events d \<and> db_outbox e = db_outbox d \<and> db_policy_sets e = db_policy_sets d"
  by (auto simp: save_api_key_def bind_result_Inr split: if_splits)

lemma key_record_traced:
  assumes "save_api_key (oa_lib oa) k d = Inr e" and "persist_event oa (fr n) ev e = Inr d'"
    and "fresh_ids (oa_lib oa) fr d"
  shows "traced (oa_tp oa) d d'" and "db_api_keys d' = db_api_keys e"
proof -
  note s = save_api_key_side [OF assms(1)]
  note p = persist_event_traced [OF assms(2) fresh_audit [OF assms(3)]]
  show "traced (oa_tp oa) d d'" using p(1) s by (simp add: traced_def)
  show "db_api_keys d' = db_api_keys e" using p(2) s by simp
qed

text \<open>Commands that always announce themselves, and those that never change the tenancy's tables.\<close>

fun announced :: "org_command \<Rightarrow> bool" where
  "announced (DoSetMemberRoles c) = False"
| "announced (DoUpdateScimMember c) = False"
| "announced (DoAddMemberDirect c) = False"
| "announced (DoValidateApiKey raw now before) = False"
| "announced (DoCreatePolicySet c) = False"
| "announced (DoUpdatePolicySet c) = False"
| "announced (DoArchivePolicySet g i now) = False"
| "announced (DoActivatePolicySet g i now) = False"
| "announced (DoDeletePolicySet g i) = False"
| "announced (DoUpdatePreferences c) = False"
| "announced _ = True"

definition untraced :: "Db \<Rightarrow> Db \<Rightarrow> bool" where
  "untraced d d' = (db_audit_events d' = db_audit_events d \<and> db_outbox d' = db_outbox d)"

lemma untraced_saves:
  "save_policy_set ol ps d = Inr d1 \<Longrightarrow> untraced d d1"
  "save_preference ol cp d = Inr d1 \<Longrightarrow> untraced d d1"
  "save_api_key ol k d = Inr d1 \<Longrightarrow> untraced d d1"
  by (auto simp: save_policy_set_def save_preference_def save_api_key_def bind_result_Inr untraced_def
      split: if_splits)

lemma untraced_trans: "untraced d e \<Longrightarrow> untraced e d' \<Longrightarrow> untraced d d'"
  by (simp add: untraced_def)

lemma untraced_policy_sets: "save_policy_sets ol pss d = Inr d1 \<Longrightarrow> untraced d d1"
  by (induction ol pss d rule: save_policy_sets.induct)
    (auto simp: bind_result_Inr untraced_def dest!: untraced_saves)

lemma other_commands_untraced:
  "create_policy_set_tx oa pq i c2 d = Inr (x2, d') \<Longrightarrow> untraced d d'"
  "update_policy_set_tx oa pq c3 d = Inr (x3, d') \<Longrightarrow> untraced d d'"
  "archive_policy_set_tx oa g i now d = Inr (x4, d') \<Longrightarrow> untraced d d'"
  "activate_policy_set_tx oa pq g i now d = Inr (x5, d') \<Longrightarrow> untraced d d'"
  "delete_policy_set_tx oa g i d = Inr (x6, d') \<Longrightarrow> untraced d d'"
  "update_console_preferences_tx ol i c7 d = Inr (x7, d') \<Longrightarrow> untraced d d'"
  by (auto simp: create_policy_set_tx_def update_policy_set_tx_def
      archive_policy_set_tx_def activate_policy_set_tx_def delete_policy_set_tx_def delete_policy_set_row_def
      update_console_preferences_tx_def Let_def bind_result_Inr untraced_def
      split: if_splits option.splits dest!: untraced_saves untraced_policy_sets)

lemma committed_trail:
  assumes "committed oa pq fr cmd d = Inr d'" and "fresh_ids (oa_lib oa) fr d"
  shows "traced (oa_tp oa) d d' \<or> \<not> announced cmd \<and> untraced d d'"
proof -
  have side: "side_tables d' = side_tables d \<Longrightarrow> untraced d d'" by (simp add: side_tables_def untraced_def)
  note rec = organization_commands_record member_commands_record role_commands_record
  note traced = records_traced(1) [OF _ assms(2)]
  show ?thesis
  proof (cases cmd)
    case (DoCreateApiKey token c actor)
    then show ?thesis using assms(1) key_record_traced(1) [OF _ _ assms(2)]
      by (auto simp: commits_Inr elim!: create_api_key_tx_saves)
  next
    case (DoRevokeApiKey c actor)
    then show ?thesis using assms(1) key_record_traced(1) [OF _ _ assms(2)]
      by (auto simp: commits_Inr elim!: revoke_api_key_tx_saves)
  next
    case (DoValidateApiKey raw now before)
    then show ?thesis using assms(1) untraced_saves(3)
      by (auto simp: commits_Inr untraced_def elim!: validate_api_key_tx_saves)
  qed (use assms(1) in \<open>auto simp: commits_Inr dest!: rec [THEN traced] silent_or_records
      update_scim_member_trail other_commands_untraced dest: side traced\<close>)
qed

end
