(* ===== verification/Organization_Rules.thy ===== *)
theory Organization_Rules
  imports Organization_Trail
begin

text \<open>
  Two rules that span commands: a revoked API key never authenticates again, and an organization
  has at most one active policy set of a type.
\<close>

section \<open>Keys\<close>

definition key_of :: "Db \<Rightarrow> uuid \<Rightarrow> api_key_row option" where
  "key_of d = row_of kr_id (db_api_keys d)"

definition key_revoked :: "uuid \<Rightarrow> Db \<Rightarrow> bool" where
  "key_revoked i d = (\<exists>k. key_of d i = Some k \<and> kr_status k = ''revoked'')"

lemma api_key_by_idD:
  assumes "api_key_by_id i d = Inr (Some k)"
  shows "ak_id k = i" and "\<exists>r. key_of d i = Some r \<and> parse_api_key_status (kr_status r) = Inr (ak_status k)"
proof -
  obtain r where "row_of kr_id (db_api_keys d) i = Some r" "api_key_from_row r = Inr k"
    using assms by (auto simp: api_key_by_id_def fetch_optional_def row_of_def bind_result_Inr split: option.split_asm)
  moreover from this(1) have "kr_id r = i" by (auto dest: row_of_SomeD)
  ultimately show "ak_id k = i" "\<exists>r. key_of d i = Some r \<and> parse_api_key_status (kr_status r) = Inr (ak_status k)"
    by (auto simp: api_key_from_row_def key_of_def bind_result_Inr)
qed

lemma save_api_key_of:
  assumes "save_api_key ol k d = Inr d'"
  shows "i \<noteq> ak_id k \<Longrightarrow> key_of d' i = key_of d i"
    and "\<exists>r. key_of d' (ak_id k) = Some r \<and> kr_status r = api_key_status_text (ak_status k)"
proof -
  obtain l t where t: "upsert kr_id
      (\<lambda>old new. new\<lparr>kr_organization_id := kr_organization_id old, kr_key_prefix := kr_key_prefix old,
         kr_key_hash := kr_key_hash old, kr_created_by := kr_created_by old, kr_created_at := kr_created_at old\<rparr>)
      (\<lambda>a b. kr_key_hash a = kr_key_hash b) (organization_exists (ak_organization_id k) d)
      (api_key_row_of ol k l) (db_api_keys d) = Inr t" "d' = d\<lparr>db_api_keys := t\<rparr>"
    using assms by (auto simp: save_api_key_def bind_result_Inr split: if_split_asm)
  note u = api_keys.upsert_row [OF t(1)]
  have id: "kr_id (api_key_row_of ol k l) = ak_id k" by (simp add: api_key_row_of_def)
  show "i \<noteq> ak_id k \<Longrightarrow> key_of d' i = key_of d i" using u id t(2) by (simp add: key_of_def)
  show "\<exists>r. key_of d' (ak_id k) = Some r \<and> kr_status r = api_key_status_text (ak_status k)"
    using u id t(2) by (simp add: key_of_def api_key_row_of_def split: option.split)
qed

lemma revoked_not_valid: "key_revoked i d \<Longrightarrow> api_key_by_id i d = Inr (Some k) \<Longrightarrow> \<not> api_key_is_valid_at now k"
  using parse_api_key_status_text [of KeyRevoked]
  by (auto simp: key_revoked_def api_key_is_valid_at_def api_key_is_enabled_def dest!: api_key_by_idD(2))

lemma key_of_kept: "db_api_keys d' = db_api_keys d \<Longrightarrow> key_revoked i d \<Longrightarrow> key_revoked i d'"
  by (simp add: key_revoked_def key_of_def)

lemma policy_commands_keys:
  "create_policy_set_tx oa pq i c2 d = Inr (x2, d') \<Longrightarrow> db_api_keys d' = db_api_keys d"
  "update_policy_set_tx oa pq c3 d = Inr (x3, d') \<Longrightarrow> db_api_keys d' = db_api_keys d"
  "archive_policy_set_tx oa g i now d = Inr (x4, d') \<Longrightarrow> db_api_keys d' = db_api_keys d"
  "activate_policy_set_tx oa pq g i now d = Inr (x5, d') \<Longrightarrow> db_api_keys d' = db_api_keys d"
  "delete_policy_set_tx oa g i d = Inr (x6, d') \<Longrightarrow> db_api_keys d' = db_api_keys d"
  "update_console_preferences_tx ol i c7 d = Inr (x7, d') \<Longrightarrow> db_api_keys d' = db_api_keys d"
proof -
  have save: "save_policy_set ol ps e = Inr e' \<Longrightarrow> db_api_keys e' = db_api_keys e" for ol ps e e'
    by (auto simp: save_policy_set_def bind_result_Inr)
  have saves: "save_policy_sets ol pss e = Inr e' \<Longrightarrow> db_api_keys e' = db_api_keys e" for ol pss e e'
    by (induction ol pss e rule: save_policy_sets.induct) (auto simp: bind_result_Inr dest!: save)
  have pref: "save_preference ol cp e = Inr e' \<Longrightarrow> db_api_keys e' = db_api_keys e" for ol cp e e'
    by (auto simp: save_preference_def bind_result_Inr)
  note defs = create_policy_set_tx_def update_policy_set_tx_def archive_policy_set_tx_def
    activate_policy_set_tx_def delete_policy_set_tx_def delete_policy_set_row_def
    update_console_preferences_tx_def Let_def bind_result_Inr
  show "create_policy_set_tx oa pq i c2 d = Inr (x2, d') \<Longrightarrow> db_api_keys d' = db_api_keys d"
    "update_policy_set_tx oa pq c3 d = Inr (x3, d') \<Longrightarrow> db_api_keys d' = db_api_keys d"
    "archive_policy_set_tx oa g i now d = Inr (x4, d') \<Longrightarrow> db_api_keys d' = db_api_keys d"
    "activate_policy_set_tx oa pq g i now d = Inr (x5, d') \<Longrightarrow> db_api_keys d' = db_api_keys d"
    "delete_policy_set_tx oa g i d = Inr (x6, d') \<Longrightarrow> db_api_keys d' = db_api_keys d"
    "update_console_preferences_tx ol i c7 d = Inr (x7, d') \<Longrightarrow> db_api_keys d' = db_api_keys d"
    by (auto simp: defs dest!: save saves pref)
qed

lemma side_keys: "side_tables d' = side_tables d \<Longrightarrow> db_api_keys d' = db_api_keys d"
  by (simp add: side_tables_def)

lemma revoked_committed:
  assumes "committed oa pq fr cmd d = Inr d'" and "fresh_ids (oa_lib oa) fr d" and r: "key_revoked i d"
  shows "key_revoked i d'"
proof -
  have "i \<in> used_ids d" using r by (auto simp: key_revoked_def key_of_def used_ids_def dest!: row_of_SomeD)
  then have i: "i \<noteq> fr n" for n using assms(2) by (auto simp: fresh_ids_def)
  note rec = organization_commands_record member_commands_record role_commands_record
  note kept = records_traced(2) [OF _ assms(2)]
  show ?thesis
  proof (cases cmd)
    case (DoCreateApiKey token c actor)
    then obtain x where "create_api_key_tx oa fr token c actor d = Inr (x, d')"
      using assms(1) by (auto simp: commits_Inr)
    then show ?thesis
    proof (rule create_api_key_tx_saves)
      fix e k n ev
      assume "save_api_key (oa_lib oa) k d = Inr e" "ak_id k = fr 0" "persist_event oa (fr n) ev e = Inr d'"
      then show ?thesis
        using save_api_key_of(1) [of "oa_lib oa" k d e i] i [of 0] r key_record_traced(2) [OF _ _ assms(2)]
        by (simp add: key_revoked_def key_of_def)
    qed
  next
    case (DoRevokeApiKey c actor)
    then obtain x where "revoke_api_key_tx oa fr c actor d = Inr (x, d')"
      using assms(1) by (auto simp: commits_Inr)
    then show ?thesis
    proof (rule revoke_api_key_tx_saves)
      fix e k n ev
      assume "save_api_key (oa_lib oa) (api_key_revoke (rk_now c) k) d = Inr e" "persist_event oa (fr n) ev e = Inr d'"
      then show ?thesis
        using save_api_key_of [of "oa_lib oa" "api_key_revoke (rk_now c) k" d e] r key_record_traced(2) [OF _ _ assms(2)]
        by (cases "i = ak_id k") (auto simp: key_revoked_def key_of_def api_key_revoke_def)
    qed
  next
    case (DoValidateApiKey raw now before)
    then obtain x where "validate_api_key_tx oa raw now before d = Inr (x, d')"
      using assms(1) by (auto simp: commits_Inr)
    then show ?thesis
    proof (rule validate_api_key_tx_saves)
      assume "d' = d" then show ?thesis using r by simp
    next
      fix j k assume k: "api_key_by_id j d = Inr (Some k)" "api_key_is_valid_at now k"
        "save_api_key (oa_lib oa) (record_usage None now k) d = Inr d'"
      then have "j \<noteq> i" using revoked_not_valid r by blast
      then show ?thesis using save_api_key_of(1) [OF k(3), of i] api_key_by_idD(1) [OF k(1)] r
        by (simp add: key_revoked_def record_usage_def)
    qed
  qed (use assms(1) in \<open>auto simp: commits_Inr dest!: rec [THEN kept] silent_or_records update_scim_member_trail
      policy_commands_keys dest: side_keys kept intro: key_of_kept [OF _ r]\<close>)
qed

lemma revoked_run:
  "org_run oa pq allowed d d' \<Longrightarrow> key_revoked i d \<Longrightarrow> key_revoked i d'"
  by (induction rule: org_run.induct) (auto intro: revoked_committed)

section \<open>Policy sets\<close>

text \<open>The organization, type and status of a policy set.\<close>

definition policy_of :: "Db \<Rightarrow> uuid \<Rightarrow> (uuid \<times> string \<times> string) option" where
  "policy_of d i = map_option (\<lambda>y. (yr_organization_id y, yr_policy_type y, yr_status y))
     (row_of yr_id (db_policy_sets d) i)"

abbreviation active_text :: string where
  "active_text \<equiv> policy_set_status_text PsActive"

definition canonical_policy :: "policy_set_row \<Rightarrow> bool" where
  "canonical_policy y =
     ((\<exists>ty. yr_policy_type y = policy_set_type_text ty) \<and> (\<exists>st. yr_status y = policy_set_status_text st))"

text \<open>Columns hold the texts that the code stores, and no two policy sets of a type are active.\<close>

definition policies_ok :: "Db \<Rightarrow> bool" where
  "policies_ok d =
     (distinct (map yr_id (db_policy_sets d)) \<and> (\<forall>y \<in> set (db_policy_sets d). canonical_policy y)
      \<and> (\<forall>y \<in> set (db_policy_sets d). \<forall>z \<in> set (db_policy_sets d).
           yr_organization_id y = yr_organization_id z \<and> yr_policy_type y = yr_policy_type z
           \<and> yr_status y = active_text \<and> yr_status z = active_text \<longrightarrow> yr_id y = yr_id z))"

text \<open>The same over \<open>policy_of\<close>.\<close>

definition policies_shape :: "(uuid \<Rightarrow> (uuid \<times> string \<times> string) option) \<Rightarrow> bool" where
  "policies_shape p =
     ((\<forall>i g t s. p i = Some (g, t, s) \<longrightarrow> (\<exists>ty st. t = policy_set_type_text ty \<and> s = policy_set_status_text st))
      \<and> (\<forall>i j g t. p i = Some (g, t, active_text) \<longrightarrow> p j = Some (g, t, active_text) \<longrightarrow> i = j))"

lemma policy_of_mem:
  "distinct (map yr_id (db_policy_sets d)) \<Longrightarrow> y \<in> set (db_policy_sets d) \<Longrightarrow>
     policy_of d (yr_id y) = Some (yr_organization_id y, yr_policy_type y, yr_status y)"
  by (simp add: policy_of_def row_of_mem)

lemma policy_ofD:
  "policy_of d i = Some (g, t, s) \<Longrightarrow> \<exists>y \<in> set (db_policy_sets d). yr_id y = i \<and> yr_organization_id y = g
     \<and> yr_policy_type y = t \<and> yr_status y = s"
  by (auto simp: policy_of_def dest!: row_of_SomeD)

lemma policies_ok_shape:
  "policies_ok d \<longleftrightarrow> distinct (map yr_id (db_policy_sets d)) \<and> policies_shape (policy_of d)"
proof (cases "distinct (map yr_id (db_policy_sets d))")
  case True
  show ?thesis
  proof
    assume ok: "policies_ok d"
    have "\<exists>ty st. t = policy_set_type_text ty \<and> s = policy_set_status_text st"
      if "policy_of d i = Some (g, t, s)" for i g t s
      using policy_ofD [OF that] ok by (auto simp: policies_ok_def canonical_policy_def)
    moreover have "i = j" if "policy_of d i = Some (g, t, active_text)" "policy_of d j = Some (g, t, active_text)" for i j g t
      using policy_ofD [OF that(1)] policy_ofD [OF that(2)] ok unfolding policies_ok_def by metis
    ultimately have "policies_shape (policy_of d)" unfolding policies_shape_def by blast
    then show "distinct (map yr_id (db_policy_sets d)) \<and> policies_shape (policy_of d)" using True by simp
  next
    assume sh: "distinct (map yr_id (db_policy_sets d)) \<and> policies_shape (policy_of d)"
    have "canonical_policy y" if "y \<in> set (db_policy_sets d)" for y
      using policy_of_mem [OF True that] sh by (auto simp: policies_shape_def canonical_policy_def)
    moreover have "yr_id y = yr_id z" if "y \<in> set (db_policy_sets d)" "z \<in> set (db_policy_sets d)"
        "yr_organization_id y = yr_organization_id z" "yr_policy_type y = yr_policy_type z"
        "yr_status y = active_text" "yr_status z = active_text" for y z
      using policy_of_mem [OF True that(1)] policy_of_mem [OF True that(2)] that sh
      by (auto simp: policies_shape_def)
    ultimately show "policies_ok d" using True unfolding policies_ok_def by blast
  qed
qed (simp add: policies_ok_def)

text \<open>A policy set as the database has it.\<close>

definition policy_in :: "Db \<Rightarrow> PolicySet \<Rightarrow> bool" where
  "policy_in d ps = (policy_of d (ps_id ps) = Some (ps_organization_id ps,
     policy_set_type_text (ps_policy_type ps), policy_set_status_text (ps_status ps)))"

lemma policy_set_from_row_in:
  assumes "policies_ok d" and "ascii_case_ok ol" and "y \<in> set (db_policy_sets d)"
    and "policy_set_from_row ol y = Inr ps"
  shows "policy_in d ps" and "ps_id ps = yr_id y" and "ps_organization_id ps = yr_organization_id y"
proof -
  have "canonical_policy y" and di: "distinct (map yr_id (db_policy_sets d))"
    using assms(1,3) by (auto simp: policies_ok_def)
  then obtain ty st where "yr_policy_type y = policy_set_type_text ty" "yr_status y = policy_set_status_text st"
    by (auto simp: canonical_policy_def)
  then show "policy_in d ps" "ps_id ps = yr_id y" "ps_organization_id ps = yr_organization_id y"
    using assms(4) policy_of_mem [OF di assms(3)] parse_policy_set_texts [OF assms(2)]
    by (auto simp: policy_set_from_row_def policy_in_def bind_result_Inr)
qed

lemma locked_policy_set_in:
  assumes "locked_policy_set oa g i d = Inr ps" and "policies_ok d" and "ascii_case_ok (oa_lib oa)"
  shows "policy_in d ps" and "ps_id ps = i" and "ps_organization_id ps = g"
proof -
  obtain y where "y \<in> set (db_policy_sets d)" "yr_organization_id y = g" "yr_id y = i"
      "policy_set_from_row (oa_lib oa) y = Inr ps"
    using assms(1) by (auto simp: locked_policy_set_def policy_set_by_id_def bind_result_Inr ok_or_Inr
        dest!: fetch_optional_SomeD)
  then show "policy_in d ps" "ps_id ps = i" "ps_organization_id ps = g"
    using policy_set_from_row_in [OF assms(2,3)] by auto
qed

lemma save_policy_set_of:
  assumes "save_policy_set ol ps d = Inr d'"
  shows "policy_of d' = (policy_of d)(ps_id ps \<mapsto>
      ((case policy_of d (ps_id ps) of None \<Rightarrow> ps_organization_id ps | Some (g, _) \<Rightarrow> g),
       policy_set_type_text (ps_policy_type ps), policy_set_status_text (ps_status ps)))"
    and "distinct (map yr_id (db_policy_sets d)) \<Longrightarrow> distinct (map yr_id (db_policy_sets d'))"
proof -
  obtain t where t: "upsert yr_id
      (\<lambda>old new. new\<lparr>yr_organization_id := yr_organization_id old, yr_created_by := yr_created_by old,
         yr_created_at := yr_created_at old\<rparr>)
      (\<lambda>a b. yr_organization_id a = yr_organization_id b \<and> yr_name a = yr_name b)
      (organization_exists (ps_organization_id ps) d) (policy_set_row_of ol ps) (db_policy_sets d) = Inr t"
      "d' = d\<lparr>db_policy_sets := t\<rparr>"
    using assms by (auto simp: save_policy_set_def bind_result_Inr)
  have id: "yr_id (policy_set_row_of ol ps) = ps_id ps" by (simp add: policy_set_row_of_def)
  show "policy_of d' = (policy_of d)(ps_id ps \<mapsto>
      ((case policy_of d (ps_id ps) of None \<Rightarrow> ps_organization_id ps | Some (g, _) \<Rightarrow> g),
       policy_set_type_text (ps_policy_type ps), policy_set_status_text (ps_status ps)))"
    using policy_sets.upsert_row [OF t(1)] id t(2)
    by (auto simp: policy_of_def policy_set_row_of_def fun_eq_iff split: option.split)
  show "distinct (map yr_id (db_policy_sets d)) \<Longrightarrow> distinct (map yr_id (db_policy_sets d'))"
    using policy_sets.upsert_distinct [OF t(1)] t(2) by simp
qed

text \<open>Saving a policy set that is stored changes its status only.\<close>

lemma resave_policy_set:
  assumes "save_policy_set ol ps' d = Inr d'" and "policy_in d ps" and "ps_id ps' = ps_id ps"
    and "ps_policy_type ps' = ps_policy_type ps"
  shows "policy_of d' = (policy_of d)(ps_id ps \<mapsto> (ps_organization_id ps,
      policy_set_type_text (ps_policy_type ps), policy_set_status_text (ps_status ps')))"
  using save_policy_set_of(1) [OF assms(1)] assms(2-4) by (simp add: policy_in_def)

definition archived :: "uuid \<times> string \<times> string \<Rightarrow> uuid \<times> string \<times> string" where
  "archived x = (fst x, fst (snd x), policy_set_status_text PsArchived)"

lemma archive_saves:
  assumes "save_policy_sets ol (map (policy_set_archive now) pss) d = Inr d'"
    and "\<forall>ps \<in> set pss. \<exists>s. policy_of d (ps_id ps) =
      Some (ps_organization_id ps, policy_set_type_text (ps_policy_type ps), s)"
  shows "policy_of d' = (\<lambda>i. if i \<in> ps_id ` set pss then map_option archived (policy_of d i) else policy_of d i)
    \<and> (distinct (map yr_id (db_policy_sets d)) \<longrightarrow> distinct (map yr_id (db_policy_sets d')))"
  using assms
proof (induction pss arbitrary: d)
  case (Cons ps pss)
  obtain e where e: "save_policy_set ol (policy_set_archive now ps) d = Inr e"
      "save_policy_sets ol (map (policy_set_archive now) pss) e = Inr d'"
    using Cons.prems(1) by (auto simp: bind_result_Inr)
  obtain s where s: "policy_of d (ps_id ps) =
      Some (ps_organization_id ps, policy_set_type_text (ps_policy_type ps), s)"
    using Cons.prems(2) by auto
  have v: "policy_of e = (policy_of d)(ps_id ps \<mapsto> archived (ps_organization_id ps, policy_set_type_text (ps_policy_type ps), s))"
    using save_policy_set_of(1) [OF e(1)] s by (simp add: policy_set_archive_def archived_def)
  have "\<forall>qs \<in> set pss. \<exists>s. policy_of e (ps_id qs) =
      Some (ps_organization_id qs, policy_set_type_text (ps_policy_type qs), s)"
    using Cons.prems(2) s by (auto simp: v archived_def)
  from Cons.IH [OF e(2) this] show ?case
    using v s save_policy_set_of(2) [OF e(1)] by (auto simp: archived_def fun_eq_iff)
qed auto

text \<open>What keeps the shape: a status that is not active, or active where no other one is.\<close>

lemma policies_shape_update:
  assumes "policies_shape p"
    and "st = PsActive \<Longrightarrow> \<forall>j. j \<noteq> i \<longrightarrow> p j \<noteq> Some (g, policy_set_type_text ty, active_text)"
  shows "policies_shape (p(i \<mapsto> (g, policy_set_type_text ty, policy_set_status_text st)))"
proof -
  have "st = PsActive" if "policy_set_status_text st = active_text" using that by (cases st) simp_all
  then show ?thesis using assms unfolding policies_shape_def by (auto split: if_split_asm)
qed

lemma save_policy_set_ok:
  assumes "save_policy_set ol ps d = Inr d'" and "policies_ok d"
    and "policy_of d (ps_id ps) = None \<or> policy_of d (ps_id ps) = Some (ps_organization_id ps,
      policy_set_type_text (ps_policy_type ps), s)"
    and "ps_status ps = PsActive \<Longrightarrow> \<forall>j. j \<noteq> ps_id ps \<longrightarrow>
      policy_of d j \<noteq> Some (ps_organization_id ps, policy_set_type_text (ps_policy_type ps), active_text)"
  shows "policies_ok d'"
proof -
  have "policy_of d' = (policy_of d)(ps_id ps \<mapsto> (ps_organization_id ps,
      policy_set_type_text (ps_policy_type ps), policy_set_status_text (ps_status ps)))"
    using save_policy_set_of(1) [OF assms(1)] assms(3) by auto
  then show ?thesis
    using policies_shape_update [OF _ assms(4)] save_policy_set_of(2) [OF assms(1)] assms(2)
    by (simp add: policies_ok_shape)
qed

lemma active_stays_single:
  assumes "policies_ok d" and "policy_in d ps" and "ps_status ps = PsActive" and "j \<noteq> ps_id ps"
  shows "policy_of d j \<noteq> Some (ps_organization_id ps, policy_set_type_text (ps_policy_type ps), active_text)"
  using assms unfolding policies_ok_shape policies_shape_def policy_in_def by metis

lemma fetch_all_set: "fetch_all f rows = Inr xs \<Longrightarrow> set xs = {x. \<exists>r \<in> set rows. f r = Inr x}"
  by (induction rows arbitrary: xs) (auto simp: bind_result_Inr)

lemma policy_texts_inject:
  "policy_set_type_text a = policy_set_type_text b \<Longrightarrow> a = b"
  "policy_set_status_text st = policy_set_status_text st' \<Longrightarrow> st = st'"
  by (cases a; cases b; simp) (cases st; cases st'; simp)

lemma organization_policies:
  assumes "policy_sets_by_organization ol g None d = Inr all" and "policies_ok d" and "ascii_case_ok ol"
  shows "ps \<in> set all \<Longrightarrow> policy_in d ps \<and> ps_organization_id ps = g"
    and "policy_of d j = Some (g, t, s) \<Longrightarrow> \<exists>ps \<in> set all. ps_id ps = j"
proof -
  have all: "set all = {x. \<exists>y \<in> set (db_policy_sets d). yr_organization_id y = g \<and> policy_set_from_row ol y = Inr x}"
    using assms(1) by (auto simp: policy_sets_by_organization_def dest!: fetch_all_set)
  show "ps \<in> set all \<Longrightarrow> policy_in d ps \<and> ps_organization_id ps = g"
    using all policy_set_from_row_in [OF assms(2,3)] by auto
  assume "policy_of d j = Some (g, t, s)"
  then obtain y where y: "y \<in> set (db_policy_sets d)" "yr_id y = j" "yr_organization_id y = g"
    by (auto dest!: policy_ofD)
  then have "canonical_policy y" using assms(2) by (simp add: policies_ok_def)
  then obtain x where "policy_set_from_row ol y = Inr x"
    using parse_policy_set_texts [OF assms(3)] by (auto simp: canonical_policy_def policy_set_from_row_def bind_result_Inr)
  then show "\<exists>ps \<in> set all. ps_id ps = j"
    using all y policy_set_from_row_in(2) [OF assms(2,3)] by blast
qed

lemma archived_Some:
  "map_option archived q = Some (g, t, s) \<longleftrightarrow> s = policy_set_status_text PsArchived \<and> (\<exists>s'. q = Some (g, t, s'))"
  by (auto simp: archived_def)

lemma archived_shape:
  assumes "policies_shape p"
  shows "policies_shape (\<lambda>i. if i \<in> A then map_option archived (p i) else p i)" (is "policies_shape ?q")
proof -
  have q: "?q i = Some (g, t, s) \<longleftrightarrow> (if i \<in> A then s = policy_set_status_text PsArchived \<and> (\<exists>s'. p i = Some (g, t, s'))
      else p i = Some (g, t, s))" for i g t s
    by (cases "i \<in> A") (simp_all only: if_True if_False archived_Some)
  have "\<exists>ty st. t = policy_set_type_text ty \<and> s = policy_set_status_text st" if "?q i = Some (g, t, s)" for i g t s
    using that assms unfolding q policies_shape_def by (cases "i \<in> A") (simp_all del: policy_set_status_text.simps, blast+)
  moreover have "i = j" if "?q i = Some (g, t, active_text)" "?q j = Some (g, t, active_text)" for i j g t
    using that assms unfolding q policies_shape_def by (cases "i \<in> A"; cases "j \<in> A") simp_all
  ultimately show ?thesis unfolding policies_shape_def by blast
qed

lemma activate_policy_set_ok:
  assumes "activate_policy_set_tx oa pq g i now d = Inr (x, d')" and ok: "policies_ok d"
    and a: "ascii_case_ok (oa_lib oa)"
  shows "policies_ok d'"
proof -
  let ?old = "\<lambda>ps all. filter (\<lambda>c. ps_id c \<in> set (policy_set_ids_to_archive ps all)) all"
  obtain ps all e where *: "locked_policy_set oa g i d = Inr ps"
      "policy_sets_by_organization (oa_lib oa) g None d = Inr all"
      "save_policy_sets (oa_lib oa) (map (policy_set_archive now) (?old ps all)) d = Inr e"
      "save_policy_set (oa_lib oa) (policy_set_activate now ps) e = Inr d'"
    using assms(1) unfolding activate_policy_set_tx_def tx_simps by blast
  note ps = locked_policy_set_in [OF *(1) ok a]
  note all = organization_policies [OF *(2) ok a]
  have "\<forall>c \<in> set (?old ps all). \<exists>s. policy_of d (ps_id c) =
      Some (ps_organization_id c, policy_set_type_text (ps_policy_type c), s)"
    using all(1) by (auto simp: policy_in_def)
  note v = archive_saves [OF *(3) this]
  have e: "policies_ok e" using v ok archived_shape by (simp add: policies_ok_shape)
  have target: "policy_of e i = policy_of d i"
    using v ps(2) by (auto simp: policy_set_ids_to_archive_def)
  show ?thesis
  proof (rule save_policy_set_ok [OF *(4) e])
    show "policy_of e (ps_id (policy_set_activate now ps)) = None \<or> policy_of e (ps_id (policy_set_activate now ps)) =
        Some (ps_organization_id (policy_set_activate now ps),
          policy_set_type_text (ps_policy_type (policy_set_activate now ps)), policy_set_status_text (ps_status ps))"
      using target ps by (simp add: policy_set_activate_def policy_in_def)
    have "policy_of e j \<noteq> Some (g, policy_set_type_text (ps_policy_type ps), active_text)" if "j \<noteq> i" for j
    proof
      assume j: "policy_of e j = Some (g, policy_set_type_text (ps_policy_type ps), active_text)"
      have n: "j \<notin> ps_id ` set (?old ps all)"
      proof
        assume "j \<in> ps_id ` set (?old ps all)"
        then have "policy_of e j = map_option archived (policy_of d j)" using v by simp
        with j have "map_option archived (policy_of d j) = Some (g, policy_set_type_text (ps_policy_type ps), active_text)" by metis
        then show False unfolding archived_Some by simp
      qed
      then have dj: "policy_of d j = Some (g, policy_set_type_text (ps_policy_type ps), active_text)" using j v by auto
      obtain c where c: "c \<in> set all" "ps_id c = j" using all(2) [OF dj] by blast
      have "policy_of d j = Some (ps_organization_id c, policy_set_type_text (ps_policy_type c),
          policy_set_status_text (ps_status c))"
        using all(1) [OF c(1)] unfolding policy_in_def c(2) by blast
      then have "policy_set_type_text (ps_policy_type c) = policy_set_type_text (ps_policy_type ps)"
          "policy_set_status_text (ps_status c) = active_text"
        unfolding dj option.inject prod.inject by (elim conjE sym)+
      then have "ps_policy_type c = ps_policy_type ps" "ps_status c = PsActive"
        by (blast dest: policy_texts_inject)+
      then have "c \<in> {x \<in> set all. ps_id x \<noteq> ps_id ps \<and> ps_policy_type x = ps_policy_type ps \<and> ps_status x = PsActive}"
        using c that ps(2) by simp
      then have "ps_id c \<in> set (policy_set_ids_to_archive ps all)"
        unfolding policy_set_ids_to_archive_def set_map set_filter by (rule imageI)
      then have "c \<in> set (?old ps all)" using c(1) by simp
      then show False using n c(2) by blast
    qed
    then show "\<forall>j. j \<noteq> ps_id (policy_set_activate now ps) \<longrightarrow> policy_of e j \<noteq>
        Some (ps_organization_id (policy_set_activate now ps),
          policy_set_type_text (ps_policy_type (policy_set_activate now ps)), active_text)"
      using ps by (simp add: policy_set_activate_def)
  qed
qed

lemma policy_commands_ok:
  assumes "policies_ok d" and a: "ascii_case_ok (oa_lib oa)"
  shows "create_policy_set_tx oa pq i c2 d = Inr (x2, d') \<Longrightarrow> policy_of d i = None \<Longrightarrow> policies_ok d'"
    and "update_policy_set_tx oa pq c3 d = Inr (x3, d') \<Longrightarrow> policies_ok d'"
    and "archive_policy_set_tx oa g i now d = Inr (x4, d') \<Longrightarrow> policies_ok d'"
    and "delete_policy_set_tx oa g i d = Inr (x5, d') \<Longrightarrow> policies_ok d'"
proof -
  show "create_policy_set_tx oa pq i c2 d = Inr (x2, d') \<Longrightarrow> policy_of d i = None \<Longrightarrow> policies_ok d'"
    by (auto simp: create_policy_set_tx_def Let_def bind_result_Inr policy_set_create_def
        elim!: save_policy_set_ok [OF _ assms(1)])
next
  assume "update_policy_set_tx oa pq c3 d = Inr (x3, d')"
  then obtain ps docs where load: "locked_policy_set oa (um_organization_id c3) (um_policy_set_id c3) d = Inr ps"
    and save: "save_policy_set (oa_lib oa)
       (let ps = (case uy_name (um_patch c3) of None \<Rightarrow> ps | Some n \<Rightarrow> ps\<lparr>ps_name := n\<rparr>);
            ps = (case uy_description (um_patch c3) of None \<Rightarrow> ps | Some x \<Rightarrow> ps\<lparr>ps_description := x\<rparr>);
            ps = (case docs of None \<Rightarrow> ps | Some s \<Rightarrow> ps\<lparr>ps_cedar_policies := s\<rparr>)
        in ps\<lparr>ps_updated_at := um_now c3\<rparr>) d = Inr d'"
    unfolding update_policy_set_tx_def tx_simps by blast
  then obtain ps' where *: "save_policy_set (oa_lib oa) ps' d = Inr d'" "ps_id ps' = ps_id ps"
      "ps_organization_id ps' = ps_organization_id ps" "ps_policy_type ps' = ps_policy_type ps"
      "ps_status ps' = ps_status ps"
    by (simp add: Let_def split: option.split_asm)
  note ps = locked_policy_set_in [OF load assms]
  show "policies_ok d'"
    using * ps active_stays_single [OF assms(1) ps(1)]
    by (intro save_policy_set_ok [OF *(1) assms(1), of "policy_set_status_text (ps_status ps)"])
      (simp_all add: policy_in_def)
next
  assume "archive_policy_set_tx oa g i now d = Inr (x4, d')"
  then obtain ps where *: "locked_policy_set oa g i d = Inr ps"
      "save_policy_set (oa_lib oa) (policy_set_archive now ps) d = Inr d'"
    by (auto simp: archive_policy_set_tx_def Let_def bind_result_Inr)
  note ps = locked_policy_set_in [OF *(1) assms]
  show "policies_ok d'"
    by (rule save_policy_set_ok [OF *(2) assms(1), of "policy_set_status_text (ps_status ps)"])
      (use ps in \<open>simp_all add: policy_in_def policy_set_archive_def\<close>)
next
  assume "delete_policy_set_tx oa g i d = Inr (x5, d')"
  then show "policies_ok d'"
    using assms(1) unfolding delete_policy_set_tx_def delete_policy_set_row_def tx_simps policies_ok_def
    by (auto intro: distinct_map_filter)
qed

lemma policies_kept: "db_policy_sets d' = db_policy_sets d \<Longrightarrow> policies_ok d \<Longrightarrow> policies_ok d'"
  unfolding policies_ok_def by (elim ssubst)

lemma side_policies: "side_tables d' = side_tables d \<Longrightarrow> db_policy_sets d' = db_policy_sets d"
  by (simp add: side_tables_def)

lemma key_record_policies:
  assumes "save_api_key (oa_lib oa) k d = Inr e" and "persist_event oa (fr n) ev e = Inr d'"
    and "fresh_ids (oa_lib oa) fr d"
  shows "db_policy_sets d' = db_policy_sets d"
  using save_api_key_side [OF assms(1)] persist_event_traced(3) [OF assms(2) fresh_audit [OF assms(3)]] by simp

lemma preferences_policies:
  "update_console_preferences_tx ol i c d = Inr (x, d') \<Longrightarrow> db_policy_sets d' = db_policy_sets d"
  by (auto simp: update_console_preferences_tx_def save_preference_def Let_def bind_result_Inr)

lemma policies_committed:
  assumes "committed oa pq fr cmd d = Inr d'" and "fresh_ids (oa_lib oa) fr d" and ok: "policies_ok d"
    and a: "ascii_case_ok (oa_lib oa)"
  shows "policies_ok d'"
proof -
  have new: "policy_of d (fr n) = None" for n
    using assms(2) by (auto simp: fresh_ids_def used_ids_def policy_of_def row_of_None)
  note rec = organization_commands_record member_commands_record role_commands_record
  note kept = records_traced(3) [OF _ assms(2)]
  note keys = key_record_policies [OF _ _ assms(2)]
  show ?thesis
  proof (cases cmd)
    case (DoCreateApiKey token c actor)
    then have "db_policy_sets d' = db_policy_sets d"
      using assms(1) by (auto simp: commits_Inr elim!: create_api_key_tx_saves intro: keys)
    then show ?thesis using policies_kept ok by blast
  next
    case (DoRevokeApiKey c actor)
    then have "db_policy_sets d' = db_policy_sets d"
      using assms(1) by (auto simp: commits_Inr elim!: revoke_api_key_tx_saves intro: keys)
    then show ?thesis using policies_kept ok by blast
  next
    case (DoValidateApiKey raw now before)
    then have "db_policy_sets d' = db_policy_sets d"
      using assms(1) save_api_key_side by (auto simp: commits_Inr elim!: validate_api_key_tx_saves)
    then show ?thesis using policies_kept ok by blast
  next
    case (DoActivatePolicySet g i now)
    then show ?thesis using assms(1) activate_policy_set_ok [OF _ ok a] by (auto simp: commits_Inr)
  next
    case (DoCreatePolicySet c)
    then show ?thesis using assms(1) policy_commands_ok(1) [OF ok a] new by (auto simp: commits_Inr)
  qed (use assms(1) policy_commands_ok(2-4) [OF ok a] in \<open>auto simp: commits_Inr
      dest!: rec [THEN kept] silent_or_records update_scim_member_trail preferences_policies
      dest: side_policies kept intro: policies_kept [OF _ ok]\<close>)
qed

lemma policies_run:
  "org_run oa pq allowed d d' \<Longrightarrow> ascii_case_ok (oa_lib oa) \<Longrightarrow> policies_ok d \<Longrightarrow> policies_ok d'"
  by (induction rule: org_run.induct) (auto intro: policies_committed)

end
