(* ===== verification/Organization_Demo.thy ===== *)
theory Organization_Demo
  imports Organization_Commands
begin

text \<open>
  A concrete organization service, and a database with one organization: its owner \<open>ann\<close>, an open
  invitation, two roles, a revoked key and two policy sets. The properties of the service are applied to commands on it, so that
  their hypotheses are seen to hold together.
\<close>

definition demo_org_lib :: org_lib where
  "demo_org_lib =
     \<lparr> ol_tp = demo, ol_uuid_v5 = (\<lambda>g s. of_nat (length s) + 64 * of_char (hd s)), ol_to_lowercase = to_ascii_lowercase,
       ol_to_uppercase = to_ascii_uppercase, ol_parse_tree = (\<lambda>_. None), ol_sql_lower = to_ascii_lowercase,
       ol_collation = id, ol_ilike = (=), ol_jsonb = id, ol_json_text = (\<lambda>_. ''json''),
       ol_timestamptz = id \<rparr>"

definition demo_app :: "unit organization_app" where
  "demo_app =
     \<lparr> oa_lib = demo_org_lib, oa_document = Inr (1, []), oa_refuses = (\<lambda>_. None),
       oa_cache = \<lparr> ca_delete_membership = (\<lambda>_ c. (None, c)), ca_delete_permissions = (\<lambda>_ c. (None, c)),
         ca_set_plan = (\<lambda>_ _ _ c. (None, c)) \<rparr>,
       oa_policy = \<lparr> mp_marty_organization_id = None, mp_marty_admin_emails = [] \<rparr>,
       oa_validator = Some (\<lambda>_. None) \<rparr>"

definition demo_policies :: policy_lib where
  "demo_policies =
     \<lparr> pq_serialize = (\<lambda>_. Inr ''[]''), pq_deserialize = (\<lambda>_. Some [\<lparr> pl_policy_id = ''p'', pl_effect = ''permit'',
         pl_cedar_text = ''permit ();'', pl_description = None, pl_enabled = True \<rparr>]),
       pq_effect_matches = (\<lambda>_ _. True), pq_legacy_effect = (\<lambda>_. None) \<rparr>"

definition demo_organization :: organization_row where
  "demo_organization =
     \<lparr> gr_id = 1, gr_name = ''acme'', gr_display_name = None, gr_description = None, gr_status = ''active'',
       gr_owner_id = Some ''ann'', gr_slug = Some ''acme'', gr_org_type = Some ''enterprise'',
       gr_contact_email = None, gr_contact_phone = None, gr_website = None, gr_settings = JObj [],
       gr_plan = ''free'', gr_plan_expires_at = None, gr_join_mechanism = ''invite'',
       gr_requires_approval = False, gr_is_discoverable = False, gr_created_at = 0, gr_updated_at = 0 \<rparr>"

definition demo_member :: "uuid \<Rightarrow> string option \<Rightarrow> string \<Rightarrow> member_row" where
  "demo_member i u s =
     \<lparr> mr_id = i, mr_organization_id = 1, mr_user_id = u, mr_email = None, mr_status = s,
       mr_invited_by = None, mr_invited_at = None, mr_joined_at = None, mr_created_at = 0,
       mr_updated_at = 0 \<rparr>"

definition demo_role :: "uuid \<Rightarrow> string \<Rightarrow> bool \<Rightarrow> role_row" where
  "demo_role i n f =
     \<lparr> rr_id = i, rr_organization_id = 1, rr_name = n, rr_display_name = None, rr_description = None,
       rr_is_system = True, rr_is_default_for_new_members = f, rr_created_at = 0, rr_updated_at = 0 \<rparr>"

definition demo_key :: api_key_row where
  "demo_key =
     \<lparr> kr_id = 6, kr_organization_id = 1, kr_name = ''old'', kr_description = None,
       kr_key_prefix = ''mk_live_'', kr_key_hash = replicate 64 (CHR ''0''), kr_scopes = [],
       kr_scope_type = ''ORGANIZATION'', kr_deployment_profile_id = None, kr_status = ''revoked'',
       kr_enabled = False, kr_rate_limit = None, kr_created_by = ''ann'', kr_last_used_at = None,
       kr_last_used_ip = None, kr_expires_at = None, kr_created_at = 0, kr_updated_at = 0 \<rparr>"

definition demo_policy :: "uuid \<Rightarrow> string \<Rightarrow> string \<Rightarrow> policy_set_row" where
  "demo_policy i n s =
     \<lparr> yr_id = i, yr_organization_id = 1, yr_name = n, yr_description = None,
       yr_policy_type = policy_set_type_text AccessControl, yr_status = s, yr_cedar_policies = ''[]'',
       yr_cedar_schema_version = ''MIP/1.0'', yr_created_by = None, yr_created_at = 0, yr_updated_at = 0 \<rparr>"

definition demo_db :: Db where
  "demo_db = empty_db
     \<lparr>db_organizations := [demo_organization],
      db_members := [demo_member 2 (Some ''ann'') ''active'', demo_member 3 None ''invited''],
      db_roles := [demo_role 4 ''owner'' False, demo_role 5 ''applicant'' True],
      db_member_roles := [(2, 4), (3, 5)], db_api_keys := [demo_key],
      db_policy_sets := [demo_policy 7 ''old'' (policy_set_status_text PsActive),
        demo_policy 8 ''new'' (policy_set_status_text PsDraft)]\<rparr>"

definition demo_fresh :: "nat \<Rightarrow> uuid" where
  "demo_fresh n = (if n = 0 then 10 else if n = 1 then 11 else 12)"

definition demo_accept :: org_command where
  "demo_accept = DoAcceptInvitation \<lparr> ai_member_id = 3, ai_user_id = ''bob'', ai_now = 7 \<rparr>"

definition demo_create_role :: org_command where
  "demo_create_role = DoCreateRole
     \<lparr> cl_organization_id = 1, cl_name = ''guest'', cl_created_by = ''ann'', cl_display_name = None,
       cl_description = None, cl_permission_ids = [], cl_is_default_for_new_members = True, cl_now = 7 \<rparr>"

definition demo_activate :: org_command where
  "demo_activate = DoActivatePolicySet 1 8 7"

text \<open>The state after a command that commits, and the state as it was after one that does not.\<close>

definition after :: "org_command \<Rightarrow> Db \<Rightarrow> Db" where
  "after cmd d = (case committed demo_app demo_policies demo_fresh cmd d of Inr d' \<Rightarrow> d' | Inl e \<Rightarrow> d)"

lemma committed_after:
  "\<not> isl (committed demo_app demo_policies demo_fresh cmd d) \<Longrightarrow>
     committed demo_app demo_policies demo_fresh cmd d = Inr (after cmd d)"
  by (auto simp: after_def isl_def split: sum.splits)

lemma demo_commits:
  "committed demo_app demo_policies demo_fresh demo_accept demo_db = Inr (after demo_accept demo_db)"
  "committed demo_app demo_policies demo_fresh demo_create_role demo_db = Inr (after demo_create_role demo_db)"
  "committed demo_app demo_policies demo_fresh demo_activate demo_db = Inr (after demo_activate demo_db)"
  by (rule committed_after; code_simp)+

lemma demo_ascii: "ascii_case_ok (oa_lib demo_app)"
  by (simp add: ascii_case_ok_def demo_app_def demo_org_lib_def)

lemma demo_fresh_ids: "fresh_ids (oa_lib demo_app) demo_fresh demo_db"
  by (auto simp: fresh_ids_def used_ids_def demo_fresh_def demo_db_def empty_db_def demo_organization_def
      demo_member_def demo_role_def demo_key_def demo_policy_def demo_app_def demo_org_lib_def SYSTEM_ROLE_NAMES_def inj_on_def)

end
