(* ===== verification/Organization_Properties.thy ===== *)
theory Organization_Properties
  imports Organization_Guarantees Organization_Rules Organization_Demo
begin

text \<open>
  What the organization service guarantees of any run of its commands, stated over the rows of its
  database and applied to the concrete database of \<open>Organization_Demo\<close>.
\<close>

lemma demo_tables_ok: "tables_ok demo_db"
  by code_simp

lemma demo_owners_hold: "owners_hold demo_org_lib demo_db"
  by code_simp

lemma demo_policies_ok: "policies_ok demo_db"
  by (auto simp: policies_ok_def canonical_policy_def demo_db_def demo_policy_def
      simp del: policy_set_type_text.simps policy_set_status_text.simps dest!: policy_texts_inject)

lemma demo_run:
  "allowed cmd \<Longrightarrow> committed demo_app demo_policies demo_fresh cmd demo_db = Inr d \<Longrightarrow>
     org_run demo_app demo_policies allowed demo_db d"
  using org_run.command [OF org_run.start _ demo_fresh_ids] by blast

text \<open>C18. Whatever commands commit, the tables of the organization service stay consistent: every
  member and every role is of an existing organization, a member has only roles of its own
  organization, role names are unique within an organization, and it has its owner role and exactly
  one default role.\<close>

theorem tables_stay_consistent:
  assumes "org_run oa pq allowed d d'" and "ascii_case_ok (oa_lib oa)" and "tables_ok d"
  shows "tables_ok d'"
proof (rule moves_tables_ok)
  show "moves True True (oa_lib oa) d d'"
    by (rule run_moves [OF assms(1) tables_database_ok [OF assms(3,2)]]) simp_all
qed (rule assms(3))

theorem tables_stay_consistent_witness: "tables_ok (after demo_create_role demo_db)"
  by (rule tables_stay_consistent [OF demo_run [of "\<lambda>_. True", OF _ demo_commits(2)] demo_ascii demo_tables_ok]) simp

text \<open>C19. Unless a directory updates members through SCIM, the owner of each organization that has one
  stays an active member of it with its owner role, and is never among its open invitations. An
  organization without an owner, as the one the service creates at its start, is exempt.\<close>

theorem owners_keep_their_role:
  assumes "org_run oa pq (\<lambda>cmd. \<not> provisions cmd) d d'" and "ascii_case_ok (oa_lib oa)" and "tables_ok d"
    and "owners_hold (oa_lib oa) d"
  shows "owners_hold (oa_lib oa) d'"
proof (rule moves_owners_hold)
  show "moves False True (oa_lib oa) d d'"
    by (rule run_moves [OF assms(1) tables_database_ok [OF assms(3,2)]]) simp_all
qed (use assms(3,4) in simp_all)

theorem owners_keep_their_role_witness:
  "owners_hold (oa_lib demo_app) (after demo_accept demo_db)"
  by (rule owners_keep_their_role [OF demo_run [OF _ demo_commits(1)] demo_ascii demo_tables_ok])
    (simp_all add: demo_accept_def demo_app_def demo_owners_hold)

text \<open>C20. Unless a command provisions members without roles, every member keeps a role.\<close>

theorem every_member_keeps_a_role:
  assumes "org_run oa pq (\<lambda>cmd. \<not> may_strip_roles cmd) d d'" and "ascii_case_ok (oa_lib oa)" and "tables_ok d"
    and "all_have_roles d"
  shows "all_have_roles d'"
proof (rule moves_all_have_roles)
  show "moves True False (oa_lib oa) d d'"
    by (rule run_moves [OF assms(1) tables_database_ok [OF assms(3,2)]]) simp_all
qed (use assms(3,4) in \<open>simp_all add: tables_ok_def\<close>)

theorem every_member_keeps_a_role_witness: "all_have_roles (after demo_accept demo_db)"
  by (rule every_member_keeps_a_role [OF demo_run [OF _ demo_commits(1)] demo_ascii demo_tables_ok])
    (simp add: demo_accept_def, code_simp)

text \<open>C21. Every command that commits is a sequence of the abstract steps of the tenancy on what the
  database shows of it; only SCIM updates take the provisioning step, and only the provisioning
  commands leave a member without a role.\<close>

theorem commands_refine_the_tenancy:
  assumes "committed oa pq fr cmd d = Inr d'" and "fresh_ids (oa_lib oa) fr d" and "ascii_case_ok (oa_lib oa)"
    and "tables_ok d"
  shows "(tenancy_step (provisions cmd) (may_strip_roles cmd))\<^sup>*\<^sup>* (view (oa_lib oa) d) (view (oa_lib oa) d')"
  using committed_moves [OF assms(1) tables_database_ok [OF assms(4,3)] assms(2)] unfolding moves_def by blast

theorem commands_refine_the_tenancy_witness:
  "(tenancy_step (provisions demo_accept) (may_strip_roles demo_accept))\<^sup>*\<^sup>*
     (view (oa_lib demo_app) demo_db) (view (oa_lib demo_app) (after demo_accept demo_db))"
  by (rule commands_refine_the_tenancy [OF demo_commits(1) demo_fresh_ids demo_ascii demo_tables_ok])

text \<open>C22. An organization is never removed and its owner never changes, and a system role keeps its
  organization and its name, whatever commands commit.\<close>

theorem owners_and_system_roles_last:
  assumes "org_run oa pq allowed d d'" and "ascii_case_ok (oa_lib oa)" and "tables_ok d"
    and "g \<in> set (db_organizations d)" and "r \<in> set (db_roles d)" and "rr_is_system r"
  shows "(\<exists>h \<in> set (db_organizations d'). gr_id h = gr_id g
      \<and> text_or_empty (gr_owner_id h) = text_or_empty (gr_owner_id g))
    \<and> (\<exists>q \<in> set (db_roles d'). rr_id q = rr_id r \<and> rr_organization_id q = rr_organization_id r
         \<and> rr_name q = rr_name r \<and> rr_is_system q)"
proof -
  let ?ol = "oa_lib oa"
  have m: "moves True True ?ol d d'"
    by (rule run_moves [OF assms(1) tables_database_ok [OF assms(3,2)]]) simp_all
  have k: "keys_distinct d" using assms(3) by (simp add: tables_ok_def)
  have "tn_owner (view ?ol d') (gr_id g) = Some (text_or_empty (gr_owner_id g))"
    using moves_lasting(1) [OF m] view_owner_mem [OF k assms(4), of ?ol] by (metis domI map_le_def)
  moreover have "\<exists>f. tn_role (view ?ol d') (rr_id r) = Some (rr_organization_id r, rr_name r, True, f)"
    using moves_lasting(2) [OF m] view_role_mem [OF k assms(5), of ?ol] assms(6) by auto
  ultimately show ?thesis by (blast dest: view_ownerD view_roleD)
qed

theorem owners_and_system_roles_last_witness:
  "(\<exists>h \<in> set (db_organizations (after demo_accept demo_db)). gr_id h = gr_id demo_organization
      \<and> text_or_empty (gr_owner_id h) = text_or_empty (gr_owner_id demo_organization))
    \<and> (\<exists>q \<in> set (db_roles (after demo_accept demo_db)). rr_id q = rr_id (demo_role 4 ''owner'' False)
         \<and> rr_organization_id q = rr_organization_id (demo_role 4 ''owner'' False)
         \<and> rr_name q = rr_name (demo_role 4 ''owner'' False) \<and> rr_is_system q)"
  by (rule owners_and_system_roles_last
      [OF demo_run [of "\<lambda>_. True", OF _ demo_commits(1)] demo_ascii demo_tables_ok])
    (simp_all add: demo_db_def demo_role_def)

text \<open>C25. A command that commits adds to the database, in the same commit, one audit event and one
  outbox message of the same type and organization, or neither; only changes of a member's roles and
  details, uses of a key, policy sets and preferences may be silent.\<close>

theorem changes_are_recorded:
  assumes "committed oa pq fr cmd d = Inr d'" and "fresh_ids (oa_lib oa) fr d"
  shows "traced (oa_tp oa) d d' \<or> \<not> announced cmd \<and> untraced d d'"
  using assms by (rule committed_trail)

theorem changes_are_recorded_witness:
  "traced (oa_tp demo_app) demo_db (after demo_accept demo_db)
   \<or> \<not> announced demo_accept \<and> untraced demo_db (after demo_accept demo_db)"
  by (rule changes_are_recorded [OF demo_commits(1) demo_fresh_ids])

text \<open>C23. Once an API key is revoked, no later validation returns it, whatever commands commit in
  between and whatever state of the database the validation looked the key up in.\<close>

theorem revoked_keys_never_authenticate:
  assumes "org_run oa pq allowed d d'" and "distinct (map kr_id (db_api_keys d))" and "k \<in> set (db_api_keys d)"
    and "kr_status k = ''revoked''"
  shows "validate_api_key_tx oa raw now before d' \<noteq> Inr (Some (key\<lparr>ak_id := kr_id k\<rparr>), e)"
proof
  assume "validate_api_key_tx oa raw now before d' = Inr (Some (key\<lparr>ak_id := kr_id k\<rparr>), e)"
  then obtain i l where l: "api_key_by_id i d' = Inr (Some l)" "api_key_is_valid_at now l"
      "key\<lparr>ak_id := kr_id k\<rparr> = record_usage None now l"
    by (rule validate_api_key_tx_saves) auto
  have "key_revoked (kr_id k) d"
    using assms(2-4) by (simp add: key_revoked_def key_of_def row_of_mem)
  then have "key_revoked (kr_id k) d'" by (rule revoked_run [OF assms(1)])
  moreover have "i = kr_id k"
    using api_key_by_idD(1) [OF l(1)] arg_cong [OF l(3), of ak_id] by (simp add: record_usage_def)
  ultimately show False using revoked_not_valid l(1,2) by blast
qed

theorem revoked_keys_never_authenticate_witness:
  "\<forall>key e. validate_api_key_tx demo_app ''mk_live_x'' 9 demo_db (after demo_accept demo_db) \<noteq>
     Inr (Some (key\<lparr>ak_id := kr_id demo_key\<rparr>), e)"
  by (intro allI, rule revoked_keys_never_authenticate [OF demo_run [of "\<lambda>_. True", OF _ demo_commits(1)]])
    (simp_all add: demo_db_def demo_key_def)

text \<open>C24. Whatever commands commit, the stored policy sets keep valid columns, and an organization
  has at most one active policy set of a type: activating one archives the one it replaces.\<close>

theorem one_active_policy_set:
  assumes "org_run oa pq allowed d d'" and "ascii_case_ok (oa_lib oa)" and "policies_ok d"
  shows "policies_ok d'"
  using assms by (rule policies_run)

theorem one_active_policy_set_witness: "policies_ok (after demo_activate demo_db)"
  by (rule one_active_policy_set [OF demo_run [of "\<lambda>_. True", OF _ demo_commits(3)] demo_ascii])
    (simp_all add: demo_policies_ok)

end
