(* ===== verification/Spec2Isabelle.thy ===== *)
theory Spec2Isabelle
  imports Applicant_Guarantees Applicant_Properties Applicant_Attempts Verification_Properties
    Notification_Retry Notification_Payload Notification_Destinations Notification_Properties
    Organization_Properties
begin

text \<open>
  Marty UI is a stack of Rust services (\<open>rust/services\<close>, \<open>rust/crates\<close>) that issue, verify and
  manage digital credentials. This development models the parts of it that carry state and
  rules of their own, and proves what they promise.

  \<^bold>\<open>Layout.\<close> \<open>Prelude\<close> (results, maps as interfaces, list operations), \<open>Rust_Text\<close> (UTF-8 strings,
  trimming, ASCII case), \<open>Json_Value\<close> (serde JSON values, insertion-ordered and sorted maps, JSON
  pointers) and \<open>Third_Party\<close> (the record of library functions the code calls and this model does
  not define: UUID text, RFC 3339 text, SHA-256, regular expressions, with the few laws the
  properties use as named hypotheses) come first.

  \<^bold>\<open>Applicant service\<close> (\<open>rust/services/applicant/src\<close>):
  \<^item> \<open>Applicant_Domain\<close>, \<open>Applicant_Forms\<close>, \<open>Reviewer_Locks\<close>: \<open>lib.rs\<close>. The lifecycle, the records,
    checks and evidence, form validation, the in-memory reviewer locks.
  \<^item> \<open>Applicant_Store\<close>: \<open>store.rs\<close>, the store document with its queries and saves.
  \<^item> \<open>Applicant_Issuance\<close>: \<open>issuance.rs\<close>, issuance attempts, offers and reconciliation.
  \<^item> \<open>Applicant_Service\<close>, \<open>Applicant_Profiles\<close>, \<open>Applicant_Evidence\<close>, \<open>Applicant_Workflow\<close>,
    \<open>Applicant_Issue\<close>: \<open>service.rs\<close>, every operation of \<open>ApplicantService\<close>. The state is the
    in-memory document, the reviewer locks and the persisted document; an operation maps a state
    to a result (a sum of \<open>ServiceError\<close> and a value) and a state. A method that releases the store
    lock between two critical sections is one definition per section, so that other requests can
    run between them; the composed definition is the run nothing interrupts. The provider traits
    (templates, flow, authorizer, publisher, persistence) are the record \<open>providers\<close>, any function.
  \<^item> \<open>Lease\<close> states reviewer locking as an interface, interpreted in \<open>Reviewer_Locks\<close>.
  \<^item> \<open>Applicant_Lifecycle\<close>, \<open>Applicant_Attempts\<close>: the guarantees of the domain and of attempts.
    \<open>Applicant_Invariant\<close>, \<open>Applicant_Steps\<close>, \<open>Applicant_Moves\<close>, \<open>Applicant_Reachable\<close>: the step
    relation of the service (one step per critical section, in any interleaving), its reachable
    states, the invariant of the store and the moves an application makes. \<open>Applicant_Properties\<close>,
    \<open>Applicant_Outbox\<close>, \<open>Applicant_Guarantees\<close>: the properties over all reachable states.
    \<open>Applicant_Demo\<close> is a concrete run that the witnesses use.
  \<^item> \<open>Claim_Collection\<close> (\<open>rust/crates/claim-collection\<close>): how claims are collected from a form,
    system values and evidence.

  \<^bold>\<open>Verification service\<close> (\<open>rust/services/verification/src\<close>):
  \<^item> \<open>Verification_Domain\<close>, \<open>Verification_Minimize\<close>: \<open>domain.rs\<close>. The session record, its constructor,
    its protocol views and the minimization that strips an ended session; what minimization keeps.
  \<^item> \<open>Verification_Store\<close>: \<open>store.rs\<close>, the in-memory session store. \<open>Verification_Redis\<close>: the Redis store
    of the same file. Redis is the record \<open>redis\<close> of the commands the code sends and the JSON codec is
    the record \<open>codec\<close>; a claim or a finalization is a list of attempts (one per compare-and-set
    retry), each of which carries the moves of other clients before it reads and before it writes.
    Both stores are proved to agree, and no update is lost.
  \<^item> \<open>Flow_Presentation\<close> (\<open>rust/services/flow/src\<close>: \<open>presentation_request.rs\<close> and the data types of
    \<open>providers.rs\<close>): the presentation request made from a policy and its credential templates.
  \<^item> \<open>Verification_Service\<close>: \<open>service.rs\<close>, every operation, over any session store and providers.
  \<^item> \<open>Verification_Sessions\<close>, \<open>Verification_Guarantees\<close>, \<open>Verification_Properties\<close>: the session store as
    an instance of the \<open>Lease\<close> interface, the step relation over sessions, and the properties:
    an ended session stays as it is, one presentation per session, exclusive leases, verdicts that
    come from the evaluation.

  \<^bold>\<open>Key material policy\<close> (\<open>rust/crates/key-material-policy\<close>): \<open>Key_Material\<close>, the scan for private
  keys in JSON documents and in JSON text nested in their strings. Its worklists are functions with
  a measure; the scan is proved equal to an inductive definition of exposure.

  \<^bold>\<open>Notification service\<close> (\<open>rust/services/notification/src\<close>):
  \<^item> \<open>Notification_Domain\<close>, \<open>Notification_Retry\<close>: \<open>domain.rs\<close>, \<open>outbox.rs\<close>. Records, outbox events, the
    retry delay with its doubles as rounded rationals, and its bounds.
  \<^item> \<open>Notification_Payload\<close>: \<open>payload_security.rs\<close>, what notification data may contain.
  \<^item> \<open>Notification_Webhook\<close>, \<open>Notification_Destinations\<close>: \<open>webhook.rs\<close>. Destinations with their network
    masks on machine words, proved equal to intervals; signatures; secrets bound to a webhook.
  \<^item> \<open>Notification_Json\<close>: the serde form of the records (\<open>domain.rs\<close>), which the payload scan reads.
  \<^item> \<open>Notification_Store\<close>: \<open>repository.rs\<close>, the in-memory notification store: its hash maps, queries and
    saves, delivery leases and retries.
  \<^item> \<open>Notification_Delivery\<close>, \<open>Notification_Service\<close>: \<open>delivery.rs\<close>, \<open>service.rs\<close>. An attempt at a
    webhook, the pass of the worker over the outbox, and every operation of the service, over any
    repository. The network, the environment and the secret envelope are the record
    \<open>delivery_env\<close>. The sleep of the worker and its endless loop are left out: a pass is a function.
  \<^item> \<open>Notification_Outbox\<close>: the step relation of the outbox (ingestion, claims, deliveries and
    completions of any workers in any order) and its invariant. \<open>Notification_Guarantees\<close>,
    \<open>Notification_Properties\<close>: the properties: the outbox stays well formed, an ended delivery
    stays as it is, leases exclude each other, ingestion queues each delivery once, every delivery
    ends after its attempts.
  \<open>Rust_Chars\<close> holds the further operations on text and the hash maps they use.

  \<^bold>\<open>Organization service\<close> (\<open>rust/services/organization/src\<close>):
  \<^item> \<open>Organization_Domain\<close>, \<open>Organization_Events\<close>: \<open>domain.rs\<close>, \<open>events.rs\<close>. Organizations, members, roles
    and permissions, join codes, API keys, policy sets; events with their audit records and messages.
  \<^item> \<open>Organization_Store\<close>, \<open>Organization_Records\<close>: \<open>postgres.rs\<close> with the tables of
    \<open>migrations/0001\<close>. The database is a record of tables, a statement a function that fails with the
    constraint it breaks, and a deletion cascades. Columns hold the text that the code parses.
  \<^item> \<open>Organization_Catalog\<close>: \<open>catalog.rs\<close>, the permission catalog and the system roles.
  \<^item> \<open>Organization_Service\<close>, \<open>Organization_Members\<close>, \<open>Organization_Membership\<close>: \<open>application.rs\<close> and
    \<open>cache.rs\<close>. \<open>Organization_Roles\<close>: \<open>roles.rs\<close>. \<open>Organization_Keys\<close>: \<open>api_keys.rs\<close>,
    \<open>policy_sets.rs\<close>, \<open>preferences.rs\<close>. A command is a transaction (suffix \<open>_tx\<close>), a function from the
    database to an error, which rolls back, or a value and the committed database, and then touches
    the caches. The row locks make transactions on one row follow each other. Fresh identifiers are
    arguments; PostgreSQL, Unicode tables and the Cedar validator are parameters.
  \<^item> \<open>Organization_Tenancy\<close>: what the service promises about who belongs where, as an abstract step
    relation with its invariants. \<open>Organization_View\<close> shows a database as such a tenancy; the contract
    of a keyed table is its locale \<open>table\<close>, interpreted for six tables.
    \<open>Organization_Member_Moves\<close>, \<open>Organization_Role_Moves\<close>: every command that commits is a sequence
    of steps on the view. \<open>Organization_Commands\<close>: the commands as one type and runs of commits.
  \<^item> \<open>Organization_Guarantees\<close> (integrity of the tables, owners, members), \<open>Organization_Trail\<close> (audit
    events and outbox messages) and \<open>Organization_Rules\<close> (API keys, policy sets) carry the proofs of
    \<open>Organization_Properties\<close>; \<open>Organization_Demo\<close> is the concrete service its witnesses run. A SCIM
    update of a member may change the owner's roles or user and SCIM commands may leave a member
    without a role, so the properties on these say which commands they exclude.

  \<^bold>\<open>Bounds.\<close> No operation needs fuel: each loop of the code is a structural recursion over a list
  or has a measure. Unsigned 64-bit values are \<open>64 word\<close>; times are integers (nanoseconds).

  \<^bold>\<open>Not modelled.\<close> HTTP, gRPC and SQL glue, process startup, cryptography and remote key services,
  acceptance tests, seeds and packaging tools. Two provider calls in one operation are calls of the
  same function; a provider that changes its answer is covered by the step relation, where every
  step has providers of its own.
\<close>

end
